(* ===== verification/GoFloat.thy ===== *)
theory GoFloat
  imports Complex_Main
begin

section \<open>Go's float64\<close>

text \<open>
  Go's float64 (IEEE 754 binary64, round to nearest, ties to even): finite values are the
  rationals they denote, next to the infinities and NaN.  Every arithmetic operation computes
  the exact rational result and rounds it with \<open>fl\<close>, with gradual underflow below the exponent
  -1022 and overflow to an infinity from 2 ^ 1024 on.  The two zeros are not told apart (no
  code modelled here divides by a zero or prints one).
\<close>

datatype f64 = Fin rat | PInf | NInf | NaN

function log2n :: "int \<Rightarrow> nat" where
  "log2n n = (if n < 2 then 0 else Suc (log2n (n div 2)))"
  by pat_completeness auto
termination
  by (relation "measure nat") auto

declare log2n.simps [simp del]

definition rne :: "rat \<Rightarrow> int" where
  "rne x = (let f = floor x; d = x - of_int f in
     if d < 1 / 2 then f else if 1 / 2 < d then f + 1 else if even f then f else f + 1)"

definition expo :: "rat \<Rightarrow> int" where
  "expo x = (case quotient_of x of (p, q) \<Rightarrow>
     let e = int (log2n p) - int (log2n q) in
     if 2 powi e \<le> x then e else e - 1)"

definition ulp_exp :: "rat \<Rightarrow> int" where
  "ulp_exp x = max (expo x) (-1022) - 52"

definition rnd :: "rat \<Rightarrow> rat" where
  "rnd x = (if 0 < x then of_int (rne (x / 2 powi ulp_exp x)) * 2 powi ulp_exp x
            else if x < 0 then - (of_int (rne (- x / 2 powi ulp_exp (- x))) * 2 powi ulp_exp (- x))
            else 0)"

definition fl :: "rat \<Rightarrow> f64" where
  "fl x = (let r = rnd x in
     if 2 ^ 1024 \<le> r then PInf else if r \<le> - (2 ^ 1024) then NInf else Fin r)"

fun fle :: "f64 \<Rightarrow> f64 \<Rightarrow> bool" where
  "fle (Fin a) (Fin b) = (a \<le> b)"
| "fle NaN _ = False"
| "fle _ NaN = False"
| "fle NInf _ = True"
| "fle _ PInf = True"
| "fle _ _ = False"

fun flt :: "f64 \<Rightarrow> f64 \<Rightarrow> bool" where
  "flt (Fin a) (Fin b) = (a < b)"
| "flt NaN _ = False"
| "flt _ NaN = False"
| "flt NInf b = (b \<noteq> NInf)"
| "flt PInf _ = False"
| "flt (Fin _) b = (b = PInf)"

fun feq :: "f64 \<Rightarrow> f64 \<Rightarrow> bool" where
  "feq NaN _ = False"
| "feq a b = (a = b)"

fun fneg :: "f64 \<Rightarrow> f64" where
  "fneg (Fin a) = Fin (- a)"
| "fneg PInf = NInf"
| "fneg NInf = PInf"
| "fneg NaN = NaN"

fun fabs :: "f64 \<Rightarrow> f64" where
  "fabs (Fin a) = Fin \<bar>a\<bar>"
| "fabs NaN = NaN"
| "fabs _ = PInf"

fun fadd :: "f64 \<Rightarrow> f64 \<Rightarrow> f64" where
  "fadd (Fin a) (Fin b) = fl (a + b)"
| "fadd NaN _ = NaN"
| "fadd _ NaN = NaN"
| "fadd PInf NInf = NaN"
| "fadd NInf PInf = NaN"
| "fadd PInf _ = PInf"
| "fadd _ PInf = PInf"
| "fadd NInf _ = NInf"
| "fadd _ NInf = NInf"

definition fsub :: "f64 \<Rightarrow> f64 \<Rightarrow> f64" where
  "fsub a b = fadd a (fneg b)"

fun fmul :: "f64 \<Rightarrow> f64 \<Rightarrow> f64" where
  "fmul (Fin a) (Fin b) = fl (a * b)"
| "fmul NaN _ = NaN"
| "fmul _ NaN = NaN"
| "fmul (Fin a) b = (if a = 0 then NaN else if 0 < a then b else fneg b)"
| "fmul a (Fin b) = (if b = 0 then NaN else if 0 < b then a else fneg a)"
| "fmul PInf b = b"
| "fmul NInf b = fneg b"

fun fdiv :: "f64 \<Rightarrow> f64 \<Rightarrow> f64" where
  "fdiv (Fin a) (Fin b) =
     (if b = 0 then (if a = 0 then NaN else if 0 < a then PInf else NInf) else fl (a / b))"
| "fdiv NaN _ = NaN"
| "fdiv _ NaN = NaN"
| "fdiv (Fin _) _ = Fin 0"
| "fdiv a (Fin b) = (if b < 0 then fneg a else a)"
| "fdiv _ _ = NaN"

text \<open>math.Min, and the conversion to an integer type of a value in its range (towards zero).\<close>

fun fmin :: "f64 \<Rightarrow> f64 \<Rightarrow> f64" where
  "fmin NInf _ = NInf"
| "fmin _ NInf = NInf"
| "fmin NaN _ = NaN"
| "fmin _ NaN = NaN"
| "fmin a b = (if flt a b then a else b)"

fun ftrunc :: "f64 \<Rightarrow> int" where
  "ftrunc (Fin a) = (if 0 \<le> a then \<lfloor>a\<rfloor> else \<lceil>a\<rceil>)"
| "ftrunc _ = 0"

definition fin :: "f64 \<Rightarrow> bool" where
  "fin a \<longleftrightarrow> (case a of Fin _ \<Rightarrow> True | _ \<Rightarrow> False)"

lemma log2n_bounds: "0 < n \<Longrightarrow> 2 ^ log2n n \<le> n \<and> n < 2 ^ Suc (log2n n)"
proof (induction n rule: log2n.induct)
  case (1 n)
  show ?case
  proof (cases "n < 2")
    case True
    with 1 show ?thesis by (simp add: log2n.simps)
  next
    case False
    with 1 have "2 ^ log2n (n div 2) \<le> n div 2 \<and> n div 2 < 2 ^ Suc (log2n (n div 2))" by simp
    with False show ?thesis by (subst (1 2) log2n.simps) auto
  qed
qed

lemma expo_bounds:
  assumes "0 < x"
  shows "2 powi expo x \<le> x" and "x < 2 powi (expo x + 1)"
proof -
  obtain p q where pq: "quotient_of x = (p, q)" by fastforce
  have q: "0 < q" using quotient_of_denom_pos [OF pq] .
  have x: "x = of_int p / of_int q" using quotient_of_div [OF pq] .
  with assms q have p: "0 < p" by (simp add: zero_less_divide_iff)
  define a b where "a = log2n p" and "b = log2n q"
  have pa: "(2 :: int) ^ a \<le> p" "p < 2 ^ Suc a" 
    using log2n_bounds [of p] p unfolding a_def by auto
  have qb: "(2 :: int) ^ b \<le> q" "q < 2 ^ Suc b"
    using log2n_bounds [of q] q unfolding b_def by auto
  have pa': "(2 :: rat) ^ a \<le> of_int p" "of_int p < (2 :: rat) ^ Suc a"
    using pa by (metis of_int_le_iff of_int_numeral of_int_power, metis of_int_less_iff of_int_numeral of_int_power)
  have qb': "(2 :: rat) ^ b \<le> of_int q" "of_int q < (2 :: rat) ^ Suc b"
    using qb by (metis of_int_le_iff of_int_numeral of_int_power, metis of_int_less_iff of_int_numeral of_int_power)
  have e: "(2 :: rat) powi (int a - int b) = 2 ^ a / 2 ^ b"
    by (simp add: power_int_diff)
  have qpos: "(0 :: rat) < of_int q" using q by simp
  have lo: "2 ^ a / 2 ^ Suc b \<le> x"
    unfolding x using pa'(1) qb'(2) qpos p by (intro frac_le) auto
  have hi: "x < 2 ^ Suc a / 2 ^ b"
    unfolding x using pa'(2) qb'(1) qpos p by (intro frac_less) auto
  have em1: "(2 :: rat) powi (int a - int b - 1) = 2 ^ a / 2 ^ Suc b"
    using e by (simp add: power_int_diff)
  have ep1: "(2 :: rat) powi (int a - int b + 1) = 2 ^ Suc a / 2 ^ b"
    using e by (simp add: power_int_add)
  have ex: "expo x = (if 2 powi (int a - int b) \<le> x then int a - int b else int a - int b - 1)"
    by (simp add: expo_def pq a_def b_def Let_def)
  show "2 powi expo x \<le> x" using lo em1 ex by (auto split: if_splits)
  show "x < 2 powi (expo x + 1)" using hi ep1 ex by (auto split: if_splits)
qed

lemma expo_mono:
  assumes "0 < x" and "x \<le> y"
  shows "expo x \<le> expo y"
proof (rule ccontr)
  assume "\<not> expo x \<le> expo y"
  then have "expo y + 1 \<le> expo x" by simp
  then have "(2 :: rat) powi (expo y + 1) \<le> 2 powi expo x"
    by (simp add: power_int_increasing)
  moreover have "y < 2 powi (expo y + 1)" using expo_bounds(2) [of y] assms by simp
  moreover have "2 powi expo x \<le> x" using expo_bounds(1) assms(1) .
  ultimately show False using assms(2) by linarith
qed

lemma rne_mono: "x \<le> y \<Longrightarrow> rne x \<le> rne y"
proof -
  assume xy: "x \<le> y"
  then have f: "floor x \<le> floor y" by (rule floor_mono)
  show ?thesis
  proof (cases "floor x = floor y")
    case True
    with xy show ?thesis by (auto simp: rne_def Let_def)
  next
    case False
    with f have "floor x + 1 \<le> floor y" by simp
    moreover have "rne x \<le> floor x + 1" by (auto simp: rne_def Let_def)
    moreover have "floor y \<le> rne y" by (auto simp: rne_def Let_def)
    ultimately show ?thesis by linarith
  qed
qed

lemma rne_of_int [simp]: "rne (of_int k) = k"
  by (simp add: rne_def Let_def)

lemma rnd_0 [simp]: "rnd 0 = 0"
  by (simp add: rnd_def)

lemma rnd_minus: "rnd (- x) = - rnd x"
  by (simp add: rnd_def)

lemma rnd_nonneg: "0 \<le> x \<Longrightarrow> 0 \<le> rnd x"
proof -
  assume x: "0 \<le> x"
  then have "rne (of_int 0) \<le> rne (x / 2 powi ulp_exp x)" by (intro rne_mono) simp
  then have "0 \<le> rne (x / 2 powi ulp_exp x)" by (simp only: rne_of_int)
  with x show ?thesis by (simp add: rnd_def)
qed

lemma rnd_pos_mono:
  assumes x: "0 < x" and xy: "x \<le> y"
  shows "rnd x \<le> rnd y"
proof (cases "ulp_exp x = ulp_exp y")
  case True
  have "rne (x / 2 powi ulp_exp y) \<le> rne (y / 2 powi ulp_exp y)"
    using xy by (intro rne_mono divide_right_mono) auto
  with True x xy show ?thesis by (simp add: rnd_def mult_right_mono)
next
  case False
  let ?ex = "expo x" and ?ey = "expo y"
  have le: "?ex \<le> ?ey" using expo_mono [OF x xy] .
  with False have ey: "ulp_exp x < ulp_exp y" and ux: "?ex + 1 \<le> ?ey" and my: "- 1022 < ?ey"
    by (auto simp: ulp_exp_def)
  let ?u = "(2 :: rat) powi ulp_exp x" and ?v = "(2 :: rat) powi ulp_exp y"
  have v: "?v * 2 ^ 52 = 2 powi ?ey"
    using my by (simp add: ulp_exp_def power_int_diff)
  define n where "n = nat (?ey - ulp_exp x)"
  have n: "?ey = ulp_exp x + int n" using ux ey my by (simp add: n_def ulp_exp_def)
  have k: "2 powi ?ey = 2 ^ n * ?u"
    unfolding n by (simp add: power_int_add)
  have "x \<le> 2 powi ?ey"
    using expo_bounds(2) [OF x] power_int_increasing [OF ux, of "2 :: rat"] by simp
  then have "x / ?u \<le> 2 ^ n" unfolding k by (simp add: pos_divide_le_eq)
  then have "rne (x / ?u) \<le> rne (of_int (2 ^ n))" by (intro rne_mono) simp
  then have "rne (x / ?u) \<le> 2 ^ n" by (simp only: rne_of_int)
  then have "of_int (rne (x / ?u)) \<le> (of_int (2 ^ n) :: rat)" by (simp only: of_int_le_iff)
  then have "of_int (rne (x / ?u)) * ?u \<le> 2 ^ n * ?u" by (intro mult_right_mono) auto
  then have "rnd x \<le> 2 powi ?ey" unfolding k using x by (simp add: rnd_def)
  also have "\<dots> = of_int (2 ^ 52) * ?v" using v by (simp add: mult.commute)
  also have "\<dots> \<le> rnd y"
  proof -
    have "of_int (2 ^ 52) \<le> y / ?v"
      using expo_bounds(1) [of y] x xy v by (simp add: pos_le_divide_eq mult.commute)
    then have "rne (of_int (2 ^ 52)) \<le> rne (y / ?v)" by (rule rne_mono)
    then have "2 ^ 52 \<le> rne (y / ?v)" by (simp only: rne_of_int)
    then have "of_int (2 ^ 52) \<le> (of_int (rne (y / ?v)) :: rat)" by (simp only: of_int_le_iff)
    with x xy show ?thesis by (simp only: rnd_def) (simp add: mult_right_mono)
  qed
  finally show ?thesis .
qed

lemma rnd_mono: "x \<le> y \<Longrightarrow> rnd x \<le> rnd y"
proof -
  assume xy: "x \<le> y"
  consider "0 < x" | "x \<le> 0" "0 \<le> y" | "y < 0" by linarith
  then show ?thesis
  proof cases
    case 1 then show ?thesis using xy by (rule rnd_pos_mono)
  next
    case 2
    then have "0 \<le> rnd (- x)" "0 \<le> rnd y" by (auto intro: rnd_nonneg)
    then show ?thesis by (simp add: rnd_minus)
  next
    case 3
    then have "rnd (- y) \<le> rnd (- x)" using xy by (intro rnd_pos_mono) auto
    then show ?thesis by (simp add: rnd_minus)
  qed
qed

lemma fl_mono: "x \<le> y \<Longrightarrow> fle (fl x) (fl y)"
  using rnd_mono [of x y] by (auto simp: fl_def Let_def)

lemma fle_refl: "a \<noteq> NaN \<Longrightarrow> fle a a"
  by (cases a) auto

lemma fle_trans: "fle a b \<Longrightarrow> fle b c \<Longrightarrow> fle a c"
  by (cases a; cases b; cases c) auto

lemma flt_trans: "flt a b \<Longrightarrow> flt b c \<Longrightarrow> flt a c"
  by (cases a; cases b; cases c) auto

lemma fle_not_flt: "fle a b \<Longrightarrow> \<not> flt b a"
  by (cases a; cases b) auto

lemma flt_imp_fle: "flt a b \<Longrightarrow> fle a b"
  by (cases a; cases b) auto

lemma not_flt_iff: "a \<noteq> NaN \<Longrightarrow> b \<noteq> NaN \<Longrightarrow> (\<not> flt a b) = fle b a"
  by (cases a; cases b) auto

lemma fle_antisym: "fle a b \<Longrightarrow> fle b a \<Longrightarrow> a = b"
  by (cases a; cases b) auto

lemma flt_irrefl [simp]: "\<not> flt a a"
  by (cases a) auto

lemma feq_iff: "feq a b \<longleftrightarrow> a = b \<and> a \<noteq> NaN"
  by (cases a; cases b) auto

lemma fl_not_NaN [simp]: "fl x \<noteq> NaN"
  by (simp add: fl_def Let_def)

lemma fle_fl_bounds [simp]: "fle NInf (fl x)" "fle (fl x) PInf"
  by (auto simp: fl_def Let_def)

lemma fadd_mono_right:
  assumes "fle b c" and "fadd a b \<noteq> NaN" and "fadd a c \<noteq> NaN"
  shows "fle (fadd a b) (fadd a c)"
  using assms by (cases a; cases b; cases c) (auto intro!: fl_mono simp: fle_refl)

lemma rnd_exact:
  assumes k: "\<bar>k\<bar> < 2 ^ 53" and j: "- 1074 \<le> j"
  shows "rnd (of_int k * 2 powi j) = of_int k * 2 powi j"
proof -
  have pos: "rnd (of_int k * 2 powi j) = of_int k * 2 powi j" if "0 < k" "k < 2 ^ 53" for k :: int
  proof -
    let ?x = "of_int k * (2 :: rat) powi j"
    have x: "0 < ?x" using that by simp
    have "of_int k < (of_int (2 ^ 53) :: rat)" using that by (simp only: of_int_less_iff)
    then have "?x < 2 ^ 53 * 2 powi j" by simp
    also have "\<dots> = 2 powi (53 + j)" by (simp add: power_int_add)
    finally have "2 powi expo ?x < (2 :: rat) powi (53 + j)" using expo_bounds(1) [OF x] by linarith
    then have "expo ?x < 53 + j"
      by (meson not_less one_le_numeral order_less_le_trans power_int_increasing less_irrefl)
    then have u: "ulp_exp ?x \<le> j" using j by (simp add: ulp_exp_def)
    define n where "n = nat (j - ulp_exp ?x)"
    have jn: "j = ulp_exp ?x + int n" using u by (simp add: n_def)
    have "(2 :: rat) powi j = 2 ^ n * 2 powi ulp_exp ?x"
      by (subst jn) (simp add: power_int_add)
    then have "?x = of_int (k * 2 ^ n) * 2 powi ulp_exp ?x" by simp
    then have q: "?x / 2 powi ulp_exp ?x = of_int (k * 2 ^ n)"
      by (metis nonzero_mult_div_cancel_right power_int_not_zero zero_neq_numeral)
    then have "rne (?x / 2 powi ulp_exp ?x) = k * 2 ^ n" by (simp only: rne_of_int)
    with x have "rnd ?x = of_int (k * 2 ^ n) * 2 powi ulp_exp ?x" by (simp add: rnd_def)
    also have "\<dots> = ?x" using q by (metis nonzero_eq_divide_eq power_int_not_zero zero_neq_numeral)
    finally show ?thesis .
  qed
  consider "0 < k" | "k = 0" | "k < 0" by linarith
  then show ?thesis
  proof cases
    case 1 then show ?thesis using pos k by simp
  next
    case 2 then show ?thesis by simp
  next
    case 3
    then have "rnd (- (of_int k * 2 powi j)) = - (of_int k * 2 powi j)" using pos [of "- k"] k by simp
    then show ?thesis by (simp add: rnd_minus)
  qed
qed

lemma rnd_of_int: "\<bar>k\<bar> < 2 ^ 53 \<Longrightarrow> rnd (of_int k) = of_int k"
  using rnd_exact [of k 0] by simp

lemma fl_of_int: "\<bar>k\<bar> < 2 ^ 53 \<Longrightarrow> fl (of_int k) = Fin (of_int k)"
proof -
  assume k: "\<bar>k\<bar> < 2 ^ 53"
  then have "of_int \<bar>k\<bar> < (of_int (2 ^ 1024) :: rat)" by (simp only: of_int_less_iff) simp
  then have "of_int k < (2 :: rat) ^ 1024 \<and> - (2 ^ 1024) < (of_int k :: rat)"
    by (simp add: abs_less_iff)
  with k show ?thesis by (simp add: fl_def Let_def rnd_of_int)
qed

lemma fl_numeral [simp]:
  "numeral n < (2 :: int) ^ 53 \<Longrightarrow> fl (numeral n) = Fin (numeral n)"
  "numeral n < (2 :: int) ^ 53 \<Longrightarrow> fl (- numeral n) = Fin (- numeral n)"
  "fl 1 = Fin 1"
  using fl_of_int [of "numeral n"] fl_of_int [of "- numeral n"] fl_of_int [of 1] by simp_all

lemma fl_0 [simp]: "fl 0 = Fin 0"
  by (simp add: fl_def Let_def)

lemma fl_dyadic:
  assumes "\<bar>k\<bar> < 2 ^ 53" and "m \<le> 1074"
  shows "fl (of_int k / 2 ^ m) = Fin (of_int k / 2 ^ m)"
proof -
  have e: "of_int k / 2 ^ m = of_int k * (2 :: rat) powi (- int m)"
    by (simp add: power_int_minus divide_inverse)
  have r: "rnd (of_int k / 2 ^ m) = of_int k / 2 ^ m"
    unfolding e using assms by (intro rnd_exact) auto
  have "\<bar>of_int k / 2 ^ m\<bar> \<le> \<bar>of_int k :: rat\<bar> / 1"
    unfolding abs_divide by (intro frac_le) auto
  also have "\<dots> = of_int \<bar>k\<bar>" by simp
  also have "of_int \<bar>k\<bar> < (of_int (2 ^ 1024) :: rat)" using assms(1) by (simp only: of_int_less_iff) simp
  finally have b: "\<bar>of_int k / 2 ^ m\<bar> < (2 ^ 1024 :: rat)" by simp
  show ?thesis using b by (simp only: fl_def Let_def r) (simp only: abs_less_iff, auto)
qed

lemma fle_fmin: "a \<noteq> NaN \<Longrightarrow> b \<noteq> NaN \<Longrightarrow> fle (fmin a b) a \<and> fle (fmin a b) b"
  by (cases a; cases b) auto

lemma fmin_not_NaN: "a \<noteq> NaN \<Longrightarrow> b \<noteq> NaN \<Longrightarrow> fmin a b \<noteq> NaN"
  by (cases a; cases b) auto

lemma fmin_in: "a \<noteq> NaN \<Longrightarrow> b \<noteq> NaN \<Longrightarrow> fmin a b = a \<or> fmin a b = b"
  by (cases a; cases b) auto

lemma fle_fl_of_int: "1 \<le> m \<Longrightarrow> fle (Fin 1) (fl (of_int m))"
  using fl_mono [of 1 "of_int m"] by simp

lemma fle_fl_rat: "r \<le> x \<Longrightarrow> fl r = Fin r \<Longrightarrow> fle (Fin r) (fl x)"
  using fl_mono [of r x] by simp

lemma fmul_mono_right:
  assumes "flt (Fin 0) l" and "fle (Fin 0) b" and "fle b c" and "b \<noteq> Fin 0"
  shows "fle (fmul l b) (fmul l c)"
proof (cases l)
  case (Fin a)
  with assms(1) have a: "0 < a" by simp
  show ?thesis
  proof (cases b)
    case (Fin x)
    with assms have x: "0 < x" by simp
    show ?thesis
    proof (cases c)
      case (Fin y)
      with \<open>b = Fin x\<close> assms(3) a have "a * x \<le> a * y" by simp
      then show ?thesis using \<open>l = Fin a\<close> \<open>b = Fin x\<close> Fin by (simp add: fl_mono)
    qed (use \<open>l = Fin a\<close> \<open>b = Fin x\<close> a assms(3) in auto)
  qed (use \<open>l = Fin a\<close> a assms in \<open>cases c; auto\<close>)+
qed (use assms in \<open>cases b; cases c; auto\<close>)+

lemma fmul_pos_nonneg:
  assumes "flt (Fin 0) l" and "fle (Fin 1) b"
  shows "fle (Fin 0) (fmul l b)"
proof (cases l)
  case (Fin a)
  with assms show ?thesis using fl_mono [of 0 "a * x" for x] by (cases b) (auto intro!: fle_fl_rat)
qed (use assms in \<open>cases b; auto\<close>)+

end
