(* ===== verification/GoPrelude.thy ===== *)
theory GoPrelude
  imports Complex_Main GoFloat "HOL-Library.Multiset"
begin

section \<open>Prelude: errors, fallible procedures, bytes and strings\<close>

text \<open>
  What the component theories share: the errors of the application, procedures that thread a
  state and may fail (the model of Go methods that mutate the database or a struct and return
  an error), the ambient environment (clock and database faults), Go strings as byte strings,
  and the parts of Go's strings and strconv packages the modelled code calls.
\<close>

named_theorems keeps "rules that a procedure keeps an invariant of its state"

subsection \<open>Errors\<close>

text \<open>
  An application error carries its reason code (the REASON strings of the infraerrors
  constructors, under src/backend/internal/pkg/errors); every other error is an internal one,
  a failed call of the database, of a provider or of another service, with a tag.
\<close>

datatype err = AppErr string | Internal string

subsection \<open>Procedures\<close>

type_synonym ('s, 'a) proc = "'s \<Rightarrow> (err + 'a) \<times> 's"

definition ret :: "'a \<Rightarrow> ('s, 'a) proc" where
  "ret a = (\<lambda>s. (Inr a, s))"

definition fail :: "err \<Rightarrow> ('s, 'a) proc" where
  "fail e = (\<lambda>s. (Inl e, s))"

definition bindP :: "('s, 'a) proc \<Rightarrow> ('a \<Rightarrow> ('s, 'b) proc) \<Rightarrow> ('s, 'b) proc" where
  "bindP m f = (\<lambda>s. case m s of (Inl e, s') \<Rightarrow> (Inl e, s') | (Inr a, s') \<Rightarrow> f a s')"

text \<open>
  \<open>tryP m h k\<close> runs \<open>m\<close> and hands its error to \<open>h\<close>, its value to \<open>k\<close>: the pattern
  \<^verbatim>\<open>if err != nil { h } else { k }\<close> where the code does not just return the error.
\<close>

definition tryP :: "('s, 'a) proc \<Rightarrow> (err \<Rightarrow> ('s, 'b) proc) \<Rightarrow> ('a \<Rightarrow> ('s, 'b) proc) \<Rightarrow> ('s, 'b) proc" where
  "tryP m h k = (\<lambda>s. case m s of (Inl e, s') \<Rightarrow> h e s' | (Inr a, s') \<Rightarrow> k a s')"

definition getP :: "('s \<Rightarrow> 'a) \<Rightarrow> ('s, 'a) proc" where
  "getP f = (\<lambda>s. (Inr (f s), s))"

definition modP :: "('s \<Rightarrow> 's) \<Rightarrow> ('s, unit) proc" where
  "modP f = (\<lambda>s. (Inr (), f s))"

text \<open>\<open>mapP f\<close> runs \<open>f\<close> on the elements of a list in order and stops at the first error.\<close>

fun mapP :: "('a \<Rightarrow> ('s, 'b) proc) \<Rightarrow> 'a list \<Rightarrow> ('s, 'b list) proc" where
  "mapP f [] = ret []"
| "mapP f (x # xs) = bindP (f x) (\<lambda>y. bindP (mapP f xs) (\<lambda>ys. ret (y # ys)))"

text \<open>\<open>ignoreP m\<close> is a call whose error the code drops or only logs.\<close>

definition ignoreP :: "('s, 'a) proc \<Rightarrow> ('s, unit) proc" where
  "ignoreP m = (\<lambda>s. (Inr (), snd (m s)))"

lemmas proc_defs = ret_def fail_def bindP_def tryP_def getP_def modP_def ignoreP_def

definition keepsP :: "('s \<Rightarrow> bool) \<Rightarrow> ('s, 'a) proc \<Rightarrow> bool" where
  "keepsP P m \<longleftrightarrow> (\<forall>s. P s \<longrightarrow> P (snd (m s)))"

lemma keepsPI: "(\<And>s. P s \<Longrightarrow> P (snd (m s))) \<Longrightarrow> keepsP P m"
  by (simp add: keepsP_def)

lemma keepsPD: "keepsP P m \<Longrightarrow> P s \<Longrightarrow> P (snd (m s))"
  by (simp add: keepsP_def)

lemma keeps_ret [keeps]: "keepsP P (ret a)"
  by (simp add: keepsP_def ret_def)

lemma keeps_fail [keeps]: "keepsP P (fail e)"
  by (simp add: keepsP_def fail_def)

lemma keeps_getP [keeps]: "keepsP P (getP f)"
  by (simp add: keepsP_def getP_def)

lemma keeps_modP: "(\<And>s. P s \<Longrightarrow> P (f s)) \<Longrightarrow> keepsP P (modP f)"
  by (simp add: keepsP_def modP_def)

lemma keeps_ignoreP [keeps]: "keepsP P m \<Longrightarrow> keepsP P (ignoreP m)"
  by (simp add: keepsP_def ignoreP_def)

lemma keeps_bindP [keeps]:
  assumes "keepsP P m" and "\<And>a. keepsP P (f a)"
  shows "keepsP P (bindP m f)"
proof (rule keepsPI)
  fix s
  assume "P s"
  with assms(1) have "P (snd (m s))" by (rule keepsPD)
  then show "P (snd (bindP m f s))"
    using assms(2) by (auto simp: bindP_def keepsP_def split: prod.splits sum.splits)
qed

lemma keeps_tryP [keeps]:
  assumes "keepsP P m" and "\<And>e. keepsP P (h e)" and "\<And>a. keepsP P (k a)"
  shows "keepsP P (tryP m h k)"
proof (rule keepsPI)
  fix s
  assume "P s"
  with assms(1) have "P (snd (m s))" by (rule keepsPD)
  then show "P (snd (tryP m h k s))"
    using assms(2,3) by (auto simp: tryP_def keepsP_def split: prod.splits sum.splits)
qed

lemma keeps_mapP [keeps]: "(\<And>x. keepsP P (f x)) \<Longrightarrow> keepsP P (mapP f xs)"
  by (induction xs) (auto intro!: keeps)

lemma keeps_if [keeps]: "(b \<Longrightarrow> keepsP P m) \<Longrightarrow> (\<not> b \<Longrightarrow> keepsP P m') \<Longrightarrow> keepsP P (if b then m else m')"
  by simp

lemma keeps_option [keeps]:
  "(x = None \<Longrightarrow> keepsP P m) \<Longrightarrow> (\<And>a. x = Some a \<Longrightarrow> keepsP P (f a)) \<Longrightarrow>
   keepsP P (case x of None \<Rightarrow> m | Some a \<Rightarrow> f a)"
  by (cases x) auto

lemma keeps_let [keeps]: "keepsP P (f x) \<Longrightarrow> keepsP P (let y = x in f y)"
  by simp

subsection \<open>The ambient environment\<close>

text \<open>
  The clock (nanoseconds, as Go's time.Time in a zone of fixed offset) and the database's
  faults: each call of the database takes the next entry of \<open>e_faults\<close>, and \<open>True\<close> makes that
  call return an error and change nothing; when the script is used up every call succeeds.  A
  statement that holds for every script holds however the database fails.
\<close>

record env =
  e_now :: int
  e_faults :: "bool list"

definition db :: "string \<Rightarrow> ('a env_scheme \<Rightarrow> (err + 'b) \<times> 'a env_scheme) \<Rightarrow> ('a env_scheme, 'b) proc" where
  "db tag act = (\<lambda>s. case e_faults s of
       [] \<Rightarrow> act s
     | b # bs \<Rightarrow> (if b then (Inl (Internal tag), s\<lparr>e_faults := bs\<rparr>) else act (s\<lparr>e_faults := bs\<rparr>)))"

lemma keeps_db:
  assumes "\<And>s fs. P s \<Longrightarrow> P (s\<lparr>e_faults := fs\<rparr>)" and "keepsP P act"
  shows "keepsP P (db tag act)"
  using assms by (auto simp: keepsP_def db_def split: list.splits)

text \<open>
  A transaction: on an error, or when the commit fails, the writes of the database since its
  start are undone.  \<open>undo s s'\<close> is the state after a rollback to the database of \<open>s\<close>, with
  whatever of \<open>s'\<close> is not in the database (faults used up, caches) as it is.
\<close>

definition withTx :: "('a env_scheme \<Rightarrow> 'a env_scheme \<Rightarrow> 'a env_scheme) \<Rightarrow> ('a env_scheme, 'b) proc \<Rightarrow> ('a env_scheme, 'b) proc" where
  "withTx undo m = (\<lambda>s0. case db ''begin transaction'' (ret ()) s0 of
       (Inl e, s1) \<Rightarrow> (Inl e, s1)
     | (Inr _, s1) \<Rightarrow> (case m s1 of
         (Inl e, s2) \<Rightarrow> (Inl e, undo s1 s2)
       | (Inr a, s2) \<Rightarrow> (case db ''commit transaction'' (ret ()) s2 of
           (Inl e, s3) \<Rightarrow> (Inl e, undo s1 s3)
         | (Inr _, s3) \<Rightarrow> (Inr a, s3))))"

definition nowP :: "('a env_scheme, int) proc" where
  "nowP = getP e_now"

lemma bindP_nowP [simp]: "bindP nowP f s = f (e_now s) s"
  by (simp add: bindP_def nowP_def getP_def)

lemma nowP_Inr [simp]: "nowP s = (Inr a, s') \<longleftrightarrow> a = e_now s \<and> s' = s"
  by (auto simp: nowP_def getP_def)

lemma keeps_nowP [keeps]: "keepsP P nowP"
  by (simp add: nowP_def keeps)

lemma keeps_withTx:
  assumes f: "\<And>s fs. P s \<Longrightarrow> P (s\<lparr>e_faults := fs\<rparr>)"
    and u: "\<And>s s'. P s \<Longrightarrow> P s' \<Longrightarrow> P (undo s s')" and m: "keepsP P m"
  shows "keepsP P (withTx undo m)"
proof (rule keepsPI)
  fix s
  assume P: "P s"
  have d: "keepsP P (db t (ret ()))" for t by (intro keeps_db f keeps)
  obtain r1 s1 where 1: "db ''begin transaction'' (ret ()) s = (r1, s1)" by fastforce
  obtain r2 s2 where 2: "m s1 = (r2, s2)" by fastforce
  obtain r3 s3 where 3: "db ''commit transaction'' (ret ()) s2 = (r3, s3)" by fastforce
  have s1: "P s1" using keepsPD [OF d P] 1 by (metis snd_conv)
  have s2: "P s2" using keepsPD [OF m s1] 2 by simp
  have s3: "P s3" using keepsPD [OF d s2] 3 by (metis snd_conv)
  show "P (snd (withTx undo m s))"
    by (cases r1; cases r2; cases r3) (simp_all add: withTx_def 1 2 3 s1 s3 u [OF s1 s2] u [OF s1 s3])
qed

text \<open>A failed transaction is its rollback: whatever \<open>undo\<close> restores is as it was.\<close>

lemma db_ret_env: "snd (db t (ret ()) s) = s\<lparr>e_faults := e_faults (snd (db t (ret ()) s))\<rparr>"
  by (auto simp: db_def ret_def split: list.splits)

lemma withTx_error:
  assumes "withTx undo m s = (Inl e, s')"
    and "\<And>s fs. Q (s\<lparr>e_faults := fs\<rparr>) = Q s" and "\<And>s s'. Q (undo s s') = Q s"
  shows "Q s' = Q s"
  using assms
  by (auto simp: withTx_def db_def ret_def split: prod.splits sum.splits list.splits if_splits)

text \<open>A successful one is the body run between two calls of the database that succeed.\<close>

lemma withTx_success:
  assumes "withTx undo m s = (Inr a, s')"
  obtains fs t where "m (s\<lparr>e_faults := fs\<rparr>) = (Inr a, t)" and "\<exists>fs'. s' = t\<lparr>e_faults := fs'\<rparr>"
proof -
  from assms obtain s1 t where m: "m s1 = (Inr a, t)" and s1: "s1 = snd (db ''begin transaction'' (ret ()) s)"
    and s': "s' = snd (db ''commit transaction'' (ret ()) t)"
    by (auto simp: withTx_def split: prod.splits sum.splits)
  show thesis
    using that [of "e_faults s1" t] m s' db_ret_env [of "''begin transaction''" s] db_ret_env [of "''commit transaction''" t]
    by (metis s1)
qed

text \<open>
  \<open>okP P m Q\<close>: started where \<open>P\<close> holds, \<open>m\<close> either fails or ends with a value and a state where
  \<open>Q\<close> holds.  Inside a transaction that is all an invariant needs: a failure is rolled back.
\<close>

definition okP :: "('s \<Rightarrow> bool) \<Rightarrow> ('s, 'a) proc \<Rightarrow> ('a \<Rightarrow> 's \<Rightarrow> bool) \<Rightarrow> bool" where
  "okP P m Q \<longleftrightarrow> (\<forall>s a s'. P s \<longrightarrow> m s = (Inr a, s') \<longrightarrow> Q a s')"

lemma okPI: "(\<And>s a s'. P s \<Longrightarrow> m s = (Inr a, s') \<Longrightarrow> Q a s') \<Longrightarrow> okP P m Q"
  by (auto simp: okP_def)

lemma okPD: "okP P m Q \<Longrightarrow> P s \<Longrightarrow> m s = (Inr a, s') \<Longrightarrow> Q a s'"
  by (auto simp: okP_def)

lemma okP_keeps: "keepsP P m \<Longrightarrow> okP P m (\<lambda>_. P)"
  unfolding okP_def keepsP_def by (metis snd_conv)

lemma okP_bind: "okP P m R \<Longrightarrow> (\<And>a. okP (R a) (f a) Q) \<Longrightarrow> okP P (bindP m f) Q"
  unfolding okP_def bindP_def by (auto split: prod.splits sum.splits)

lemma okP_weaken: "okP P m Q \<Longrightarrow> (\<And>s. P' s \<Longrightarrow> P s) \<Longrightarrow> (\<And>a s. Q a s \<Longrightarrow> Q' a s) \<Longrightarrow> okP P' m Q'"
  unfolding okP_def by blast

lemma okP_if: "(b \<Longrightarrow> okP P m Q) \<Longrightarrow> (\<not> b \<Longrightarrow> okP P m' Q) \<Longrightarrow> okP P (if b then m else m') Q"
  by simp

lemma okP_fail: "okP P (fail e) Q"
  by (simp add: okP_def fail_def)

lemma okP_try:
  assumes "keepsP P m" and "okP P m R" and "\<And>e. okP P (h e) Q" and "\<And>a. okP (R a) (k a) Q"
  shows "okP P (tryP m h k) Q"
proof (rule okPI)
  fix s a s'
  assume P: "P s" and t: "tryP m h k s = (Inr a, s')"
  obtain r s1 where 1: "m s = (r, s1)" by fastforce
  show "Q a s'"
  proof (cases r)
    case (Inl e)
    then have "P s1" "h e s1 = (Inr a, s')" using keepsPD [OF assms(1) P] 1 t by (auto simp: tryP_def)
    then show ?thesis using assms(3) okPD by metis
  next
    case (Inr b)
    then have "R b s1" "k b s1 = (Inr a, s')" using okPD [OF assms(2) P] 1 t by (auto simp: tryP_def)
    then show ?thesis using assms(4) okPD by metis
  qed
qed

lemma okP_db:
  assumes "\<And>s fs. P (s\<lparr>e_faults := fs\<rparr>) = P s" and "okP P act Q"
  shows "okP P (db tag act) Q"
proof (rule okPI)
  fix s a s'
  assume P: "P s" and d: "db tag act s = (Inr a, s')"
  show "Q a s'"
  proof (cases "e_faults s")
    case Nil
    with d show ?thesis using okPD [OF assms(2) P] by (simp add: db_def)
  next
    case (Cons b bs)
    with d have "act (s\<lparr>e_faults := bs\<rparr>) = (Inr a, s')" by (auto simp: db_def split: if_splits)
    then show ?thesis using okPD [OF assms(2)] assms(1) P by blast
  qed
qed

lemma db_Inr:
  assumes "db tag act s = (Inr a, s')"
  obtains fs where "act (s\<lparr>e_faults := fs\<rparr>) = (Inr a, s')"
proof (cases "e_faults s")
  case Nil
  then have eq: "s\<lparr>e_faults := []\<rparr> = s" by (cases s) simp
  have "act s = (Inr a, s')" using Nil assms by (simp add: db_def)
  then have "act (s\<lparr>e_faults := []\<rparr>) = (Inr a, s')" by (subst eq)
  then show thesis by (rule that)
next
  case (Cons b bs)
  with assms show thesis by (intro that [of bs]) (auto simp: db_def split: if_splits)
qed

lemma bindP_Inr:
  assumes "bindP m f s = (Inr b, s')"
  obtains a t where "m s = (Inr a, t)" and "f a t = (Inr b, s')"
  using assms by (auto simp: bindP_def split: prod.splits sum.splits)

lemma keeps_withTx_ok:
  assumes f: "\<And>s fs. P (s\<lparr>e_faults := fs\<rparr>) = P s"
    and u: "\<And>s s'. P s \<Longrightarrow> P (undo s s')" and m: "okP P m (\<lambda>_. P)"
  shows "keepsP P (withTx undo m)"
proof (rule keepsPI)
  fix s
  assume P: "P s"
  obtain r1 s1 where 1: "db ''begin transaction'' (ret ()) s = (r1, s1)" by fastforce
  obtain r2 s2 where 2: "m s1 = (r2, s2)" by fastforce
  obtain r3 s3 where 3: "db ''commit transaction'' (ret ()) s2 = (r3, s3)" by fastforce
  have s1: "P s1" using P f db_ret_env [of "''begin transaction''" s] 1 by (metis snd_conv)
  have s3: "P s3" if "r2 = Inr a" for a
    using okPD [OF m s1] 2 3 that f db_ret_env [of "''commit transaction''" s2] by (metis snd_conv)
  show "P (snd (withTx undo m s))"
    by (cases r1; cases r2; cases r3) (simp_all add: withTx_def 1 2 3 s1 s3 u [OF s1])
qed

text \<open>
  \<open>hoareP P m E Q\<close>: started where \<open>P\<close> holds, \<open>m\<close> fails where \<open>E\<close> holds or ends with a value and a
  state where \<open>Q\<close> holds.
\<close>

definition hoareP :: "('s \<Rightarrow> bool) \<Rightarrow> ('s, 'a) proc \<Rightarrow> ('s \<Rightarrow> bool) \<Rightarrow> ('a \<Rightarrow> 's \<Rightarrow> bool) \<Rightarrow> bool" where
  "hoareP P m E Q \<longleftrightarrow> (\<forall>s. P s \<longrightarrow> (case m s of (Inl e, s') \<Rightarrow> E s' | (Inr a, s') \<Rightarrow> Q a s'))"

lemma hoarePI:
  "(\<And>s e s'. P s \<Longrightarrow> m s = (Inl e, s') \<Longrightarrow> E s') \<Longrightarrow> (\<And>s a s'. P s \<Longrightarrow> m s = (Inr a, s') \<Longrightarrow> Q a s') \<Longrightarrow> hoareP P m E Q"
  by (auto simp: hoareP_def split: prod.splits sum.splits)

lemma hoareP_run:
  assumes "hoareP P m E (\<lambda>_. E)" and "P s"
  shows "E (snd (m s))"
proof -
  obtain r s' where r: "m s = (r, s')" by fastforce
  have "case m s of (Inl e, s') \<Rightarrow> E s' | (Inr a, s') \<Rightarrow> E s'" using assms by (simp add: hoareP_def)
  then show ?thesis using r by (cases r) simp_all
qed

lemma hoareP_keeps: "keepsP P m \<Longrightarrow> hoareP P m P (\<lambda>_. P)"
  unfolding hoareP_def keepsP_def by (fastforce split: prod.splits sum.splits)

lemma hoareP_post: "hoareP P m E Q \<Longrightarrow> (\<And>s. E s \<Longrightarrow> E' s) \<Longrightarrow> (\<And>a s. Q a s \<Longrightarrow> Q' a s) \<Longrightarrow> hoareP P m E' Q'"
  unfolding hoareP_def by (fastforce split: prod.splits sum.splits)

lemma hoareP_pre: "hoareP P m E Q \<Longrightarrow> (\<And>s. P' s \<Longrightarrow> P s) \<Longrightarrow> hoareP P' m E Q"
  by (simp add: hoareP_def)

lemma hoareP_step: "(\<And>s. P s \<Longrightarrow> Q (F s) (U s)) \<Longrightarrow> hoareP P (\<lambda>s. (Inr (F s), U s)) E Q"
  by (simp add: hoareP_def)

lemma hoareP_bind: "hoareP P m E R \<Longrightarrow> (\<And>a. hoareP (R a) (f a) E Q) \<Longrightarrow> hoareP P (bindP m f) E Q"
  unfolding hoareP_def bindP_def by (fastforce split: prod.splits sum.splits)

lemma hoareP_try:
  "hoareP P m R' R \<Longrightarrow> (\<And>e. hoareP R' (h e) E Q) \<Longrightarrow> (\<And>a. hoareP (R a) (k a) E Q) \<Longrightarrow> hoareP P (tryP m h k) E Q"
  unfolding hoareP_def tryP_def by (fastforce split: prod.splits sum.splits)

lemma hoareP_ret: "(\<And>s. P s \<Longrightarrow> Q a s) \<Longrightarrow> hoareP P (ret a) E Q"
  by (simp add: hoareP_def ret_def)

lemma hoareP_fail: "(\<And>s. P s \<Longrightarrow> E s) \<Longrightarrow> hoareP P (fail e) E Q"
  by (simp add: hoareP_def fail_def)

lemma hoareP_if: "(b \<Longrightarrow> hoareP P m E Q) \<Longrightarrow> (\<not> b \<Longrightarrow> hoareP P m' E Q) \<Longrightarrow> hoareP P (if b then m else m') E Q"
  by simp

lemma hoareP_ignore: "hoareP P m E (\<lambda>_. E) \<Longrightarrow> hoareP P (ignoreP m) E' (\<lambda>_. E)"
  using hoareP_run [of P m E] by (auto simp: hoareP_def ignoreP_def)

lemma hoareP_pure: "(c \<Longrightarrow> hoareP P m E Q) \<Longrightarrow> hoareP (\<lambda>s. P s \<and> c) m E Q"
  by (simp add: hoareP_def)

lemma hoareP_nowP: "(\<And>t. hoareP P (f t) E Q) \<Longrightarrow> hoareP P (bindP nowP f) E Q"
  by (simp add: hoareP_def)

lemma hoareP_db:
  assumes "\<And>s fs. P (s\<lparr>e_faults := fs\<rparr>) = P s" and "\<And>s. P s \<Longrightarrow> E s" and "hoareP P act E Q"
  shows "hoareP P (db tag act) E Q"
proof (rule hoarePI)
  fix s e s'
  assume P: "P s" and d: "db tag act s = (Inl e, s')"
  show "E s'"
  proof (cases "e_faults s")
    case Nil
    with d P assms(3) show ?thesis by (auto simp: db_def hoareP_def)
  next
    case (Cons b bs)
    have "P (s\<lparr>e_faults := bs\<rparr>)" using P assms(1) by simp
    with Cons d assms(2,3) show ?thesis by (fastforce simp: db_def hoareP_def split: if_splits)
  qed
next
  fix s a s'
  assume P: "P s" and "db tag act s = (Inr a, s')"
  then obtain fs where "act (s\<lparr>e_faults := fs\<rparr>) = (Inr a, s')" by (elim db_Inr)
  moreover have "P (s\<lparr>e_faults := fs\<rparr>)" using P assms(1) by simp
  ultimately show "Q a s'" using assms(3) by (fastforce simp: hoareP_def)
qed

text \<open>
  Running a procedure on a concrete state by the simplifier: one step at a time, without looking
  into a continuation before its argument is known.
\<close>

lemma run_steps:
  "bindP m f s = (case m s of (Inl e, s') \<Rightarrow> (Inl e, s') | (Inr a, s') \<Rightarrow> f a s')"
  "tryP m h k s = (case m s of (Inl e, s') \<Rightarrow> h e s' | (Inr a, s') \<Rightarrow> k a s')"
  "ignoreP m s = (case m s of (r, s') \<Rightarrow> (Inr (), s'))"
  "db tag act s = (case e_faults s of [] \<Rightarrow> act s | b # bs \<Rightarrow> if b then (Inl (Internal tag), s\<lparr>e_faults := bs\<rparr>) else act (s\<lparr>e_faults := bs\<rparr>))"
  "ret a s = (Inr a, s)" "fail e s = (Inl e, s)" "getP g s = (Inr (g s), s)" "modP u s = (Inr (), u s)" "nowP s = (Inr (e_now s), s)"
  "(if c then p else q) s = (if c then p s else q s)"
  "(case x of None \<Rightarrow> p | Some a \<Rightarrow> r a) s = (case x of None \<Rightarrow> p s | Some a \<Rightarrow> r a s)"
  by (simp_all add: bindP_def tryP_def ignoreP_def db_def ret_def fail_def getP_def modP_def nowP_def split: option.split prod.split)

lemma run_congs:
  "s = s' \<Longrightarrow> bindP m f s = bindP m f s'" "s = s' \<Longrightarrow> tryP m h k s = tryP m h k s'" "s = s' \<Longrightarrow> ignoreP m s = ignoreP m s'"
  "s = s' \<Longrightarrow> db tag act s = db tag act s'" "s = s' \<Longrightarrow> withTx u m s = withTx u m s'"
  by simp_all

subsection \<open>Go integers and time\<close>

text \<open>
  Go's / and % truncate towards zero.  A time.Time is its nanoseconds since the Unix epoch and a
  time.Duration its nanoseconds; AddDate(0, 0, d) is d days later in a zone of fixed offset.
\<close>

definition goDiv :: "int \<Rightarrow> int \<Rightarrow> int" where
  "goDiv a b = sgn a * sgn b * (\<bar>a\<bar> div \<bar>b\<bar>)"

definition goMod :: "int \<Rightarrow> int \<Rightarrow> int" where
  "goMod a b = a - b * goDiv a b"

definition second :: int where "second = 1000000000"
definition hour :: int where "hour = 3600 * second"
definition day :: int where "day = 24 * hour"

definition zeroTime :: int where "zeroTime = - 62135596800 * second"

definition addDays :: "int \<Rightarrow> int \<Rightarrow> int" where
  "addDays t d = t + d * day"

text \<open>Midnight of the day of \<open>t\<close> in a zone \<open>off\<close> nanoseconds east of UTC.\<close>

definition startOfDayIn :: "int \<Rightarrow> int \<Rightarrow> int" where
  "startOfDayIn off t = t - (t + off) mod day"

lemma day_pos [simp]: "0 < day"
  by (simp add: day_def hour_def second_def)

lemma startOfDayIn_le: "startOfDayIn off t \<le> t"
  by (simp add: startOfDayIn_def)

lemma startOfDayIn_recent: "t < startOfDayIn off t + day"
  by (simp add: startOfDayIn_def)

text \<open>time.Duration.Hours and Seconds: the whole units and the rest are converted apart.\<close>

definition durHours :: "int \<Rightarrow> f64" where
  "durHours d = fadd (fl (of_int (goDiv d hour))) (fdiv (fl (of_int (goMod d hour))) (Fin 3600000000000))"

definition durSeconds :: "int \<Rightarrow> f64" where
  "durSeconds d = fadd (fl (of_int (goDiv d second))) (fdiv (fl (of_int (goMod d second))) (Fin 1000000000))"

subsection \<open>Tables\<close>

text \<open>
  A database table is the list of its rows in the order of their ids.  \<open>updRows\<close> is an UPDATE
  with its WHERE clause; \<open>onlyRow\<close> is ent's \<^verbatim>\<open>Only\<close>, an error unless exactly one row matches;
  \<open>firstBy\<close> is \<^verbatim>\<open>ORDER BY ... LIMIT 1\<close>, the first row no other one comes before.
\<close>

definition updRows :: "('r \<Rightarrow> bool) \<Rightarrow> ('r \<Rightarrow> 'r) \<Rightarrow> 'r list \<Rightarrow> 'r list" where
  "updRows p f = map (\<lambda>r. if p r then f r else r)"

definition onlyRow :: "err \<Rightarrow> ('r \<Rightarrow> bool) \<Rightarrow> 'r list \<Rightarrow> err + 'r" where
  "onlyRow notFound p rows = (case filter p rows of
       [] \<Rightarrow> Inl notFound
     | [r] \<Rightarrow> Inr r
     | _ \<Rightarrow> Inl (Internal ''not singular''))"

definition liftE :: "err + 'a \<Rightarrow> ('s, 'a) proc" where
  "liftE r = (\<lambda>s. (r, s))"

definition mapE :: "('a \<Rightarrow> 'b) \<Rightarrow> err + 'a \<Rightarrow> err + 'b" where
  "mapE f r = (case r of Inl e \<Rightarrow> Inl e | Inr a \<Rightarrow> Inr (f a))"

fun insBy :: "('r \<Rightarrow> 'r \<Rightarrow> bool) \<Rightarrow> 'r \<Rightarrow> 'r list \<Rightarrow> 'r list" where
  "insBy le x [] = [x]"
| "insBy le x (y # ys) = (if le x y then x # y # ys else y # insBy le x ys)"

text \<open>ORDER BY (and Go's stable sorts): insertion sort, which keeps the order of equal rows.\<close>

definition sortBy :: "('r \<Rightarrow> 'r \<Rightarrow> bool) \<Rightarrow> 'r list \<Rightarrow> 'r list" where
  "sortBy le rows = foldr (insBy le) rows []"

definition firstBy :: "('r \<Rightarrow> 'r \<Rightarrow> bool) \<Rightarrow> 'r list \<Rightarrow> 'r option" where
  "firstBy le rows = (case sortBy le rows of [] \<Rightarrow> None | r # _ \<Rightarrow> Some r)"

lemma keeps_liftE [keeps]: "keepsP P (liftE r)"
  by (simp add: keepsP_def liftE_def)

lemma mset_insBy [simp]: "mset (insBy le x ys) = add_mset x (mset ys)"
  by (induction ys) auto

lemma mset_sortBy [simp]: "mset (sortBy le rows) = mset rows"
  by (induction rows) (auto simp: sortBy_def)

lemma set_insBy [simp]: "set (insBy le x ys) = insert x (set ys)"
  by (induction ys) auto

lemma set_sortBy [simp]: "set (sortBy le rows) = set rows"
  using mset_sortBy [of le rows] mset_eq_setD by blast

lemma length_sortBy [simp]: "length (sortBy le rows) = length rows"
  using mset_sortBy [of le rows] mset_eq_length by blast

lemma sorted_insBy:
  assumes "\<And>x y. le x y \<or> le y x" and "\<And>x y z. le x y \<Longrightarrow> le y z \<Longrightarrow> le x z"
  shows "sorted_wrt le ys \<Longrightarrow> sorted_wrt le (insBy le x ys)"
proof (induction ys)
  case (Cons y ys)
  show ?case
  proof (cases "le x y")
    case True
    then have "\<forall>z\<in>set (y # ys). le x z" using Cons.prems assms(2) [of x y] by auto
    with True Cons.prems show ?thesis by simp
  next
    case False
    then have "le y x" using assms(1) by blast
    with False Cons show ?thesis by auto
  qed
qed simp

lemma sorted_sortBy:
  assumes "\<And>x y. le x y \<or> le y x" and "\<And>x y z. le x y \<Longrightarrow> le y z \<Longrightarrow> le x z"
  shows "sorted_wrt le (sortBy le rows)"
proof (induction rows)
  case (Cons r rows)
  have "sorted_wrt le (insBy le r (sortBy le rows))"
    by (rule sorted_insBy [OF assms Cons.IH])
  then show ?case by (simp add: sortBy_def)
qed (simp add: sortBy_def)

lemma firstBy_Some_in: "firstBy le rows = Some r \<Longrightarrow> r \<in> set rows"
  unfolding firstBy_def by (metis (no_types, lifting) list.case_eq_if list.collapse list.set_intros(1) option.discI option.inject set_sortBy)

lemma firstBy_None [simp]: "firstBy le rows = None \<longleftrightarrow> rows = []"
  unfolding firstBy_def by (metis (no_types, lifting) length_0_conv length_sortBy list.case_eq_if option.discI)

lemma onlyRow_Inr: "onlyRow e p rows = Inr r \<Longrightarrow> r \<in> set rows \<and> p r"
proof -
  assume "onlyRow e p rows = Inr r"
  then have "filter p rows = [r]" by (auto simp: onlyRow_def split: list.splits)
  then have "r \<in> set (filter p rows)" by simp
  then show ?thesis by simp
qed

lemma map_updRows [simp]: "(\<And>r. p r \<Longrightarrow> k (f r) = k r) \<Longrightarrow> map k (updRows p f rows) = map k rows"
  by (auto simp: updRows_def)

lemma filter_updRows: "(\<And>r. p r \<Longrightarrow> q (f r) = q r) \<Longrightarrow> filter q (updRows p f rows) = updRows p f (filter q rows)"
  by (induction rows) (auto simp: updRows_def)

lemma set_updRows: "set (updRows p f rows) = (\<lambda>r. if p r then f r else r) ` set rows"
  by (simp add: updRows_def)

lemma list_all_updRows: "(\<And>r. q (f r) = q r) \<Longrightarrow> list_all q (updRows p f rows) = list_all q rows"
  by (induction rows) (auto simp: updRows_def)

lemma list_ex_updRows: "(\<And>r. q (f r) = q r) \<Longrightarrow> list_ex q (updRows p f rows) = list_ex q rows"
  by (induction rows) (auto simp: updRows_def)

subsection \<open>Strings\<close>

text \<open>
  A Go string is a sequence of bytes and so is \<open>string\<close> here.  \<open>trimSpace\<close> is
  strings.TrimSpace: it removes the UTF-8 encodings of the code points unicode.IsSpace holds
  of, from both ends.  \<open>toLower\<close> is strings.ToLower on ASCII letters; bytes from 128 on are kept,
  so it agrees with Go on strings without non-ASCII letters.
\<close>

definition spaces :: "string list" where
  "spaces = map (map char_of)
     ([[9], [10], [11], [12], [13], [32], [194, 133], [194, 160], [225, 154, 128]]
      @ map (\<lambda>n. [226, 128, n]) [128, 129, 130, 131, 132, 133, 134, 135, 136, 137, 138, 168, 169, 175]
      @ [[226, 129, 159], [227, 128, 128]] :: nat list list)"

definition hasPrefix :: "string \<Rightarrow> string \<Rightarrow> bool" where
  "hasPrefix s p \<longleftrightarrow> take (length p) s = p"

definition hasSuffix :: "string \<Rightarrow> string \<Rightarrow> bool" where
  "hasSuffix s p \<longleftrightarrow> length p \<le> length s \<and> drop (length s - length p) s = p"

definition trimPrefix :: "string \<Rightarrow> string \<Rightarrow> string" where
  "trimPrefix s p = (if hasPrefix s p then drop (length p) s else s)"

definition trimSuffix :: "string \<Rightarrow> string \<Rightarrow> string" where
  "trimSuffix s p = (if hasSuffix s p then take (length s - length p) s else s)"

function trimLeftSpace :: "string \<Rightarrow> string" where
  "trimLeftSpace s = (case find (hasPrefix s) spaces of
       None \<Rightarrow> s | Some p \<Rightarrow> trimLeftSpace (drop (length p) s))"
  by pat_completeness auto
termination
proof (relation "measure length")
  fix s :: string and p
  assume "find (hasPrefix s) spaces = Some p"
  then have "hasPrefix s p" and "p \<in> set spaces"
    by (auto simp: find_Some_iff)
  then have "p \<noteq> []" and "s \<noteq> []" by (auto simp: spaces_def hasPrefix_def)
  then show "(drop (length p) s, s) \<in> measure length" by simp
qed simp

function trimRightSpace :: "string \<Rightarrow> string" where
  "trimRightSpace s = (case find (hasSuffix s) spaces of
       None \<Rightarrow> s | Some p \<Rightarrow> trimRightSpace (take (length s - length p) s))"
  by pat_completeness auto
termination
proof (relation "measure length")
  fix s :: string and p
  assume "find (hasSuffix s) spaces = Some p"
  then have "hasSuffix s p" and "p \<in> set spaces"
    by (auto simp: find_Some_iff)
  then have "p \<noteq> []" and "length p \<le> length s" by (auto simp: spaces_def hasSuffix_def)
  then show "(take (length s - length p) s, s) \<in> measure length"
    by (cases s) auto
qed simp

declare trimLeftSpace.simps [simp del] trimRightSpace.simps [simp del]

definition trimSpace :: "string \<Rightarrow> string" where
  "trimSpace s = trimRightSpace (trimLeftSpace s)"

definition lowerByte :: "char \<Rightarrow> char" where
  "lowerByte c = (let n = of_char c :: nat in if 65 \<le> n \<and> n \<le> 90 then char_of (n + 32) else c)"

definition toLower :: "string \<Rightarrow> string" where
  "toLower = map lowerByte"

lemma trimLeftSpace_idem [simp]: "trimLeftSpace (trimLeftSpace s) = trimLeftSpace s"
proof (induction s rule: trimLeftSpace.induct)
  case (1 s)
  then show ?case
    by (cases "find (hasPrefix s) spaces") (simp_all add: trimLeftSpace.simps [of s] trimLeftSpace.simps [of s, symmetric])
qed

lemma trimRightSpace_idem [simp]: "trimRightSpace (trimRightSpace s) = trimRightSpace s"
proof (induction s rule: trimRightSpace.induct)
  case (1 s)
  then show ?case
    by (cases "find (hasSuffix s) spaces") (simp_all add: trimRightSpace.simps [of s] trimRightSpace.simps [of s, symmetric])
qed

lemma trimLeftSpace_Nil [simp]: "trimLeftSpace [] = []"
  by (simp add: trimLeftSpace.simps spaces_def hasPrefix_def)

lemma trimRightSpace_Nil [simp]: "trimRightSpace [] = []"
  by (simp add: trimRightSpace.simps spaces_def hasSuffix_def)

lemma trimSpace_Nil [simp]: "trimSpace [] = []"
  by (simp add: trimSpace_def)

lemma toLower_Nil [simp]: "toLower [] = []"
  by (simp add: toLower_def)

lemma hasPrefix_self [simp]: "hasPrefix (p @ s) p"
  by (simp add: hasPrefix_def)

lemma hasPrefix_iff: "hasPrefix s p \<longleftrightarrow> (\<exists>t. s = p @ t)"
  by (metis append_take_drop_id hasPrefix_def hasPrefix_self)

lemma hasSuffix_iff: "hasSuffix s p \<longleftrightarrow> (\<exists>t. s = t @ p)"
proof
  assume "hasSuffix s p"
  then show "\<exists>t. s = t @ p" by (metis append_take_drop_id hasSuffix_def)
qed (auto simp: hasSuffix_def)

lemma trimPrefix_self [simp]: "trimPrefix (p @ s) p = s"
  by (simp add: trimPrefix_def)

lemma trimSuffix_self [simp]: "trimSuffix (s @ p) p = s"
  by (simp add: trimSuffix_def hasSuffix_def)

text \<open>Printable ASCII without the space: nothing to trim.\<close>

definition printable :: "string \<Rightarrow> bool" where
  "printable = list_all (\<lambda>c. let n = of_char c :: nat in 33 \<le> n \<and> n \<le> 126)"

lemma spaces_ends: "p \<in> set spaces \<Longrightarrow> p \<noteq> [] \<and> \<not> printable [hd p] \<and> \<not> printable [last p]"
  by (auto simp: spaces_def printable_def)

lemma trimSpace_printable: "printable s \<Longrightarrow> trimSpace s = s"
proof -
  assume p: "printable s"
  have "\<not> hasPrefix s q \<and> \<not> hasSuffix s q" if q: "q \<in> set spaces" for q
    using spaces_ends [OF q] p by (cases q; cases q rule: rev_cases) (auto simp: hasPrefix_iff hasSuffix_iff printable_def)
  then have "find (hasPrefix s) spaces = None" "find (hasSuffix s) spaces = None" by (auto simp: find_None_iff)
  then show ?thesis by (simp add: trimSpace_def trimLeftSpace.simps trimRightSpace.simps)
qed

subsection \<open>Numbers as text\<close>

text \<open>\<open>itoa\<close> is strconv.Itoa / FormatInt(_, 10); \<open>parseInt\<close> is ParseInt(_, 10, 64) (and Atoi).\<close>

fun natDigits :: "nat \<Rightarrow> string" where
  "natDigits n = (if n < 10 then [char_of (48 + n)] else natDigits (n div 10) @ [char_of (48 + n mod 10)])"

declare natDigits.simps [simp del]

definition itoa :: "int \<Rightarrow> string" where
  "itoa i = (if i < 0 then CHR ''-'' # natDigits (nat (- i)) else natDigits (nat i))"

definition digitVal :: "char \<Rightarrow> nat option" where
  "digitVal c = (let n = of_char c :: nat in if 48 \<le> n \<and> n \<le> 57 then Some (n - 48) else None)"

fun parseDigits :: "nat \<Rightarrow> string \<Rightarrow> nat option" where
  "parseDigits acc [] = Some acc"
| "parseDigits acc (c # cs) = (case digitVal c of None \<Rightarrow> None | Some d \<Rightarrow> parseDigits (acc * 10 + d) cs)"

definition parseInt :: "string \<Rightarrow> int option" where
  "parseInt s = (case s of
       [] \<Rightarrow> None
     | c # cs \<Rightarrow>
        let neg = (c = CHR ''-''); body = (if neg \<or> c = CHR ''+'' then cs else s) in
        (if body = [] then None
         else case parseDigits 0 body of
           None \<Rightarrow> None
         | Some n \<Rightarrow> (let v = (if neg then - int n else int n) in
             if - (2 ^ 63) \<le> v \<and> v < 2 ^ 63 then Some v else None)))"

lemma digitVal_char_of [simp]: "d < 10 \<Longrightarrow> digitVal (char_of (48 + d)) = Some d"
  by (simp add: digitVal_def)

lemma parseDigits_append:
  "parseDigits a (xs @ ys) = (case parseDigits a xs of None \<Rightarrow> None | Some b \<Rightarrow> parseDigits b ys)"
  by (induction xs arbitrary: a) (auto split: option.splits)

lemma parseDigits_natDigits:
  "\<exists>k. \<forall>a. parseDigits a (natDigits n) = Some (a * 10 ^ k + n)"
proof (induction n rule: natDigits.induct)
  case (1 n)
  show ?case
  proof (cases "n < 10")
    case True
    then have "parseDigits a (natDigits n) = Some (a * 10 ^ 1 + n)" for a
      by (simp add: natDigits.simps)
    then show ?thesis by blast
  next
    case False
    with 1 obtain k where "\<forall>a. parseDigits a (natDigits (n div 10)) = Some (a * 10 ^ k + n div 10)" by blast
    then have "parseDigits a (natDigits n) = Some (a * 10 ^ Suc k + n)" for a
      using False by (subst natDigits.simps) (simp add: parseDigits_append algebra_simps)
    then show ?thesis by blast
  qed
qed

lemma natDigits_head: "\<exists>c cs. natDigits n = c # cs \<and> c \<noteq> CHR ''-'' \<and> c \<noteq> CHR ''+''"
proof (induction n rule: natDigits.induct)
  case (1 n)
  have d: "char_of (48 + m) \<noteq> CHR ''-'' \<and> char_of (48 + m) \<noteq> CHR ''+''" if "m < 10" for m :: nat
  proof -
    have "(of_char (char_of (48 + m) :: char) :: nat) = 48 + m" using that by simp
    then show ?thesis by (auto dest: arg_cong [of _ _ "of_char :: char \<Rightarrow> nat"])
  qed
  show ?case
  proof (cases "n < 10")
    case True
    then show ?thesis using d by (simp add: natDigits.simps)
  next
    case False
    with 1 show ?thesis by (subst natDigits.simps) auto
  qed
qed

lemma parseInt_itoa:
  assumes "- (2 ^ 63) \<le> i" and "i < 2 ^ 63"
  shows "parseInt (itoa i) = Some i"
proof -
  have p: "parseDigits 0 (natDigits n) = Some n" for n
    using parseDigits_natDigits [of n] by auto
  show ?thesis
  proof (cases "i < 0")
    case True
    obtain c cs where "natDigits (nat (- i)) = c # cs" using natDigits_head by blast
    with True p [of "nat (- i)"] assms show ?thesis by (simp add: parseInt_def itoa_def Let_def)
  next
    case False
    obtain c cs where "natDigits (nat i) = c # cs" "c \<noteq> CHR ''-''" "c \<noteq> CHR ''+''"
      using natDigits_head by blast
    with False p [of "nat i"] assms show ?thesis by (simp add: parseInt_def itoa_def Let_def)
  qed
qed

end
