(* ===== verification/Failover.thy ===== *)
theory Failover
  imports GoPrelude
begin

section \<open>The failover loop of the gateway handlers\<close>

text \<open>
  handler/failover_loop.go: the state a gateway handler carries over the attempts of one request
  (which accounts failed, how often each was retried in place, how many switches were made), its
  two decisions, and the loop of handler/gateway_handler_chat_completions.go that drives them.
  The request's context is the time at which it is cancelled, if it ever is; sleeping moves the
  clock.  Account selection, the slot wait and the upstream call are parameters of the loop.
\<close>

subsection \<open>State and decisions\<close>

datatype FailoverAction = FailoverContinue | FailoverExhausted | FailoverCanceled

record UpstreamFailoverError =
  StatusCode :: int
  ResponseBody :: string
  ResponseHeaders :: "(string \<times> string list) list"
  ForceCacheBillingErr :: bool
  RetryableOnSameAccount :: bool

record FailoverState =
  SwitchCount :: int
  MaxSwitches :: int
  FailedAccountIDs :: "int set"
  SameAccountRetryCount :: "int \<rightharpoonup> int"
  LastFailoverErr :: "UpstreamFailoverError option"
  ForceCacheBilling :: bool
  hasBoundSession :: bool

text \<open>The columns of the accounts table that a temporary unscheduling reads and writes.\<close>

record temp_row =
  tr_deleted :: bool
  tr_until :: "int option"
  tr_reason :: "string option"

record gw = env +
  gw_accounts :: "int \<rightharpoonup> temp_row"
  gw_done :: "int option"

definition maxSameAccountRetries :: int where "maxSameAccountRetries = 3"
definition sameAccountRetryDelay :: int where "sameAccountRetryDelay = second div 2"
definition singleAccountBackoffDelay :: int where "singleAccountBackoffDelay = 2 * second"

definition NewFailoverState :: "int \<Rightarrow> bool \<Rightarrow> FailoverState" where
  "NewFailoverState maxSwitches bound =
     \<lparr>SwitchCount = 0, MaxSwitches = maxSwitches, FailedAccountIDs = {}, SameAccountRetryCount = Map.empty,
      LastFailoverErr = None, ForceCacheBilling = False, hasBoundSession = bound\<rparr>"

definition needForceCacheBilling :: "bool \<Rightarrow> UpstreamFailoverError option \<Rightarrow> bool" where
  "needForceCacheBilling bound e \<longleftrightarrow> bound \<or> (case e of None \<Rightarrow> False | Some x \<Rightarrow> ForceCacheBillingErr x)"

text \<open>
  The select statement: a context done before the delay is over wins.  When both are ready at
  the same instant Go picks either; the model lets the cancellation win.
\<close>

definition sleepWithContext :: "int \<Rightarrow> 'a gw_scheme \<Rightarrow> bool \<times> 'a gw_scheme" where
  "sleepWithContext d s =
     (if d \<le> 0 then (True, s)
      else case gw_done s of
        None \<Rightarrow> (True, s\<lparr>e_now := e_now s + d\<rparr>)
      | Some t \<Rightarrow> (if t \<le> e_now s + d then (False, s\<lparr>e_now := max (e_now s) t\<rparr>)
                   else (True, s\<lparr>e_now := e_now s + d\<rparr>)))"

subsection \<open>The temporary unscheduling of an account\<close>

text \<open>The SQL of the account repository; the refresh of the scheduler's snapshot after it is left out.\<close>

definition SetTempUnschedulable :: "int \<Rightarrow> int \<Rightarrow> string \<Rightarrow> ('a gw_scheme, unit) proc" where
  "SetTempUnschedulable i till reason = db ''set temp unschedulable'' (modP (\<lambda>s.
     case gw_accounts s i of
       None \<Rightarrow> s
     | Some r \<Rightarrow>
         (if \<not> tr_deleted r \<and> (case tr_until r of None \<Rightarrow> True | Some t \<Rightarrow> t < till)
          then s\<lparr>gw_accounts := (gw_accounts s)(i \<mapsto> r\<lparr>tr_until := Some till, tr_reason := Some reason\<rparr>)\<rparr>
          else s)))"

definition googleConfigErrorCooldown :: int where "googleConfigErrorCooldown = 60 * second"
definition emptyResponseCooldown :: int where "emptyResponseCooldown = 60 * second"

definition tempUnscheduleGoogleConfigError :: "int \<Rightarrow> ('a gw_scheme, unit) proc" where
  "tempUnscheduleGoogleConfigError i = bindP nowP (\<lambda>now.
     ignoreP (SetTempUnschedulable i (now + googleConfigErrorCooldown)
       ''400: invalid project resource name (auto temp-unschedule 1m)''))"

definition tempUnscheduleEmptyResponse :: "int \<Rightarrow> ('a gw_scheme, unit) proc" where
  "tempUnscheduleEmptyResponse i = bindP nowP (\<lambda>now.
     ignoreP (SetTempUnschedulable i (now + emptyResponseCooldown)
       ''empty stream response (auto temp-unschedule 1m)''))"

definition TempUnscheduleRetryableError :: "int \<Rightarrow> UpstreamFailoverError option \<Rightarrow> 'a gw_scheme \<Rightarrow> 'a gw_scheme" where
  "TempUnscheduleRetryableError i e s = (case e of
       None \<Rightarrow> s
     | Some x \<Rightarrow>
         (if \<not> RetryableOnSameAccount x then s
          else if StatusCode x = 400 then snd (tempUnscheduleGoogleConfigError i s)
          else if StatusCode x = 502 then snd (tempUnscheduleEmptyResponse i s)
          else s))"

definition sameRetries :: "FailoverState \<Rightarrow> int \<Rightarrow> int" where
  "sameRetries s i = (case SameAccountRetryCount s i of None \<Rightarrow> 0 | Some n \<Rightarrow> n)"

definition PlatformAntigravity :: string where "PlatformAntigravity = ''antigravity''"

definition HandleFailoverError ::
  "int \<Rightarrow> string \<Rightarrow> UpstreamFailoverError \<Rightarrow> FailoverState \<Rightarrow> 'a gw_scheme \<Rightarrow>
   FailoverAction \<times> FailoverState \<times> 'a gw_scheme" where
  "HandleFailoverError i platform e s0 w =
    (let s1 = s0\<lparr>LastFailoverErr := Some e\<rparr>;
         s = (if needForceCacheBilling (hasBoundSession s1) (Some e) then s1\<lparr>ForceCacheBilling := True\<rparr> else s1)
     in if RetryableOnSameAccount e \<and> sameRetries s i < maxSameAccountRetries
        then let s' = s\<lparr>SameAccountRetryCount := (SameAccountRetryCount s)(i \<mapsto> sameRetries s i + 1)\<rparr>;
                 (ok, w') = sleepWithContext sameAccountRetryDelay w
             in (if ok then FailoverContinue else FailoverCanceled, s', w')
        else let w1 = (if RetryableOnSameAccount e then TempUnscheduleRetryableError i (Some e) w else w);
                 s2 = s\<lparr>FailedAccountIDs := insert i (FailedAccountIDs s)\<rparr>
             in if MaxSwitches s2 \<le> SwitchCount s2 then (FailoverExhausted, s2, w1)
                else let s3 = s2\<lparr>SwitchCount := SwitchCount s2 + 1\<rparr> in
                  if platform = PlatformAntigravity
                  then let (ok, w2) = sleepWithContext ((SwitchCount s3 - 1) * second) w1
                       in (if ok then FailoverContinue else FailoverCanceled, s3, w2)
                  else (FailoverContinue, s3, w1))"

definition HandleSelectionExhausted ::
  "FailoverState \<Rightarrow> 'a gw_scheme \<Rightarrow> FailoverAction \<times> FailoverState \<times> 'a gw_scheme" where
  "HandleSelectionExhausted s w =
    (if (case LastFailoverErr s of None \<Rightarrow> False | Some e \<Rightarrow> StatusCode e = 503) \<and> SwitchCount s \<le> MaxSwitches s
     then let (ok, w') = sleepWithContext singleAccountBackoffDelay w
          in if ok then (FailoverContinue, s\<lparr>FailedAccountIDs := {}\<rparr>, w') else (FailoverCanceled, s, w')
     else (FailoverExhausted, s, w))"

subsection \<open>The loop of the chat-completions handler\<close>

text \<open>
  What one turn gets from its collaborators: the selected account (with the wait plan when its
  slot was not acquired at once), and how the upstream call ended.  \<open>wrote\<close> says that bytes of
  the response had already reached the client.
\<close>

record selection =
  sel_account :: int
  sel_platform :: string
  sel_acquired :: bool
  sel_waitPlan :: "(int \<times> int) option"

datatype forward_result =
    Forwarded
  | ForwardFailover UpstreamFailoverError bool
  | ForwardError

datatype loop_result =
    Success int
  | NoAvailableAccounts
  | SlotError
  | FailoverFailed "UpstreamFailoverError option"
  | Canceled
  | ForwardFailed

record 'w collaborators =
  c_select :: "int set \<Rightarrow> 'w \<Rightarrow> (err + selection) \<times> 'w"
  c_waitSlot :: "int \<Rightarrow> int \<Rightarrow> int \<Rightarrow> 'w \<Rightarrow> (err + unit) \<times> 'w"
  c_forward :: "int \<Rightarrow> 'w \<Rightarrow> forward_result \<times> 'w"

definition acquireSlot :: "'w collaborators \<Rightarrow> selection \<Rightarrow> 'w \<Rightarrow> loop_result option \<times> 'w" where
  "acquireSlot c sel w =
    (if sel_acquired sel then (None, w)
     else case sel_waitPlan sel of
       None \<Rightarrow> (Some NoAvailableAccounts, w)
     | Some (maxConc, timeout) \<Rightarrow>
         (case c_waitSlot c (sel_account sel) maxConc timeout w of
            (Inl _, w') \<Rightarrow> (Some SlotError, w')
          | (Inr _, w') \<Rightarrow> (None, w')))"

text \<open>One turn of the loop: \<open>Inl\<close> is the result of the handler, \<open>Inr\<close> is \<^verbatim>\<open>continue\<close>.\<close>

definition loopTurn ::
  "('a gw_scheme) collaborators \<Rightarrow> FailoverState \<Rightarrow> 'a gw_scheme \<Rightarrow>
   loop_result + FailoverState \<times> 'a gw_scheme" where
  "loopTurn c s w =
    (case c_select c (FailedAccountIDs s) w of
       (Inl _, w1) \<Rightarrow>
         (if FailedAccountIDs s = {} then Inl NoAvailableAccounts
          else case HandleSelectionExhausted s w1 of
            (FailoverContinue, s', w2) \<Rightarrow> Inr (s', w2)
          | (FailoverCanceled, _, _) \<Rightarrow> Inl Canceled
          | (FailoverExhausted, s', _) \<Rightarrow> Inl (FailoverFailed (LastFailoverErr s')))
     | (Inr sel, w1) \<Rightarrow>
         (case acquireSlot c sel w1 of
            (Some r, _) \<Rightarrow> Inl r
          | (None, w2) \<Rightarrow>
              (case c_forward c (sel_account sel) w2 of
                 (Forwarded, _) \<Rightarrow> Inl (Success (sel_account sel))
               | (ForwardError, _) \<Rightarrow> Inl ForwardFailed
               | (ForwardFailover e wrote, w3) \<Rightarrow>
                   (if wrote then Inl (FailoverFailed (Some e))
                    else case HandleFailoverError (sel_account sel) (sel_platform sel) e s w3 of
                      (FailoverContinue, s', w4) \<Rightarrow> Inr (s', w4)
                    | (FailoverExhausted, s', _) \<Rightarrow> Inl (FailoverFailed (LastFailoverErr s'))
                    | (FailoverCanceled, _, _) \<Rightarrow> Inl Canceled))))"

fun failoverLoop ::
  "nat \<Rightarrow> ('a gw_scheme) collaborators \<Rightarrow> FailoverState \<Rightarrow> 'a gw_scheme \<Rightarrow> loop_result option" where
  "failoverLoop 0 c s w = None"
| "failoverLoop (Suc n) c s w = (case loopTurn c s w of
     Inl r \<Rightarrow> Some r
   | Inr (s', w') \<Rightarrow> failoverLoop n c s' w')"

subsection \<open>What each decision does\<close>

lemma sleep_keeps_accounts [simp]: "gw_accounts (snd (sleepWithContext d w)) = gw_accounts w"
  by (auto simp: sleepWithContext_def split: option.splits)

lemma HandleFailoverError_retry:
  assumes "RetryableOnSameAccount e" and "sameRetries s i < maxSameAccountRetries"
  shows "HandleFailoverError i p e s w =
    (if fst (sleepWithContext sameAccountRetryDelay w) then FailoverContinue else FailoverCanceled,
     s\<lparr>LastFailoverErr := Some e,
       ForceCacheBilling := ForceCacheBilling s \<or> hasBoundSession s \<or> ForceCacheBillingErr e,
       SameAccountRetryCount := (SameAccountRetryCount s)(i \<mapsto> sameRetries s i + 1)\<rparr>,
     snd (sleepWithContext sameAccountRetryDelay w))"
  using assms
  by (cases s) (auto simp: HandleFailoverError_def needForceCacheBilling_def sameRetries_def Let_def split: prod.splits)

text \<open>The other branch: the account joins the failed ones and a switch is spent, if one is left.\<close>

lemma HandleFailoverError_switch:
  assumes "\<not> (RetryableOnSameAccount e \<and> sameRetries s i < maxSameAccountRetries)"
    and "HandleFailoverError i p e s w = (a, s', w')"
  shows "FailedAccountIDs s' = insert i (FailedAccountIDs s)"
    and "SameAccountRetryCount s' = SameAccountRetryCount s"
    and "MaxSwitches s' = MaxSwitches s"
    and "LastFailoverErr s' = Some e"
    and "ForceCacheBilling s' = (ForceCacheBilling s \<or> hasBoundSession s \<or> ForceCacheBillingErr e)"
    and "a = FailoverExhausted \<longleftrightarrow> MaxSwitches s \<le> SwitchCount s"
    and "SwitchCount s' = (if a = FailoverExhausted then SwitchCount s else SwitchCount s + 1)"
    and "gw_accounts w' = gw_accounts (if RetryableOnSameAccount e then TempUnscheduleRetryableError i (Some e) w else w)"
  using assms
  by (auto simp: HandleFailoverError_def needForceCacheBilling_def Let_def sameRetries_def
      sleepWithContext_def split: prod.splits if_splits option.splits)

lemma HandleFailoverError_MaxSwitches [simp]:
  "MaxSwitches (fst (snd (HandleFailoverError i p e s w))) = MaxSwitches s"
  by (auto simp: HandleFailoverError_def Let_def split: prod.splits)

lemma HandleSelectionExhausted_continue:
  assumes "HandleSelectionExhausted s w = (FailoverContinue, s', w')"
  shows "s' = s\<lparr>FailedAccountIDs := {}\<rparr>"
  using assms by (auto simp: HandleSelectionExhausted_def split: prod.splits if_splits)

subsection \<open>Termination of the loop\<close>

definition retriesOk :: "FailoverState \<Rightarrow> bool" where
  "retriesOk s \<longleftrightarrow> (\<forall>i. 0 \<le> sameRetries s i \<and> sameRetries s i \<le> maxSameAccountRetries)"

definition budget :: "int set \<Rightarrow> FailoverState \<Rightarrow> nat" where
  "budget A s = (\<Sum>i\<in>A. nat (maxSameAccountRetries - sameRetries s i))
     + 2 * nat (MaxSwitches s - SwitchCount s) + (if FailedAccountIDs s = {} then 0 else 1)"

lemma sameRetries_New [simp]: "sameRetries (NewFailoverState m b) i = 0"
  by (simp add: sameRetries_def NewFailoverState_def)

lemma retriesOk_New: "retriesOk (NewFailoverState m b)"
  by (simp add: retriesOk_def maxSameAccountRetries_def)

lemma budget_New: "budget A (NewFailoverState m b) = 3 * card A + 2 * nat m"
  by (simp add: budget_def maxSameAccountRetries_def) (simp add: NewFailoverState_def)

lemma HandleFailoverError_decreases:
  assumes ok: "retriesOk s" and A: "finite A" "i \<in> A"
    and h: "HandleFailoverError i p e s w = (FailoverContinue, s', w')"
  shows "retriesOk s' \<and> budget A s' < budget A s"
proof (cases "RetryableOnSameAccount e \<and> sameRetries s i < maxSameAccountRetries")
  case True
  note eq = HandleFailoverError_retry [OF True [THEN conjunct1] True [THEN conjunct2], of p w]
  have sr: "sameRetries s' j = (if j = i then sameRetries s i + 1 else sameRetries s j)" for j
    using h eq by (auto simp: sameRetries_def)
  have same: "MaxSwitches s' = MaxSwitches s" "SwitchCount s' = SwitchCount s" "FailedAccountIDs s' = FailedAccountIDs s"
    using h eq by auto
  have "(\<Sum>j\<in>A. nat (maxSameAccountRetries - sameRetries s' j)) < (\<Sum>j\<in>A. nat (maxSameAccountRetries - sameRetries s j))"
    using A True by (intro sum_strict_mono_ex1) (auto simp: sr)
  then show ?thesis using ok True same sr by (auto simp: budget_def retriesOk_def)
next
  case False
  note sw = HandleFailoverError_switch [OF False h]
  have "sameRetries s' j = sameRetries s j" for j using sw(2) by (simp add: sameRetries_def)
  then show ?thesis using ok sw(1,3,6,7) by (auto simp: budget_def retriesOk_def)
qed

lemma loopTurn_decreases:
  assumes ok: "retriesOk s" and fin: "finite A"
    and sel: "\<And>F v x v'. c_select c F v = (Inr x, v') \<Longrightarrow> sel_account x \<in> A"
    and t: "loopTurn c s w = Inr (s', w')"
  shows "retriesOk s' \<and> budget A s' < budget A s"
proof (cases "c_select c (FailedAccountIDs s) w")
  case (Pair r w1)
  show ?thesis
  proof (cases r)
    case (Inl err)
    with Pair t have ne: "FailedAccountIDs s \<noteq> {}"
      and "\<exists>v. HandleSelectionExhausted s w1 = (FailoverContinue, s', v)"
      by (auto simp: loopTurn_def split: prod.splits FailoverAction.splits if_splits)
    then have "s' = s\<lparr>FailedAccountIDs := {}\<rparr>" using HandleSelectionExhausted_continue by blast
    with ok ne show ?thesis by (simp add: budget_def retriesOk_def sameRetries_def)
  next
    case (Inr x)
    with Pair t obtain e v where
      h: "HandleFailoverError (sel_account x) (sel_platform x) e s v = (FailoverContinue, s', w')"
      by (auto simp: loopTurn_def split: prod.splits FailoverAction.splits if_splits option.splits forward_result.splits)
    then show ?thesis using HandleFailoverError_decreases [OF ok fin _ h] sel Pair Inr by simp
  qed
qed

lemma failoverLoop_returns:
  assumes "retriesOk s" and "finite A" and "budget A s < n"
    and "\<And>F v x v'. c_select c F v = (Inr x, v') \<Longrightarrow> sel_account x \<in> A"
  shows "failoverLoop n c s w \<noteq> None"
  using assms
proof (induction n arbitrary: s w)
  case (Suc n)
  show ?case
  proof (cases "loopTurn c s w")
    case (Inr r)
    obtain s' w' where r: "r = (s', w')" by fastforce
    have "retriesOk s' \<and> budget A s' < budget A s"
      using loopTurn_decreases [of s A c w s' w'] Suc.prems Inr r by blast
    with Suc Inr r show ?thesis by simp
  qed simp
qed simp

text \<open>
  C38: a request served by the failover loop always ends, whatever the upstream accounts answer:
  when selection only ever returns accounts of a finite set A, at most
  3 * |A| + 2 * MaxSwitches + 1 turns are taken.  No assumption is made on selection honouring the
  exclusion set, on the errors, or on the clock.
\<close>

theorem failover_loop_terminates:
  assumes "finite A"
    and "\<And>F v x v'. c_select c F v = (Inr x, v') \<Longrightarrow> sel_account x \<in> A"
  shows "\<exists>r. failoverLoop (3 * card A + 2 * nat m + 1) c (NewFailoverState m b) w = Some r"
proof -
  have "failoverLoop (3 * card A + 2 * nat m + 1) c (NewFailoverState m b) w \<noteq> None"
    by (rule failoverLoop_returns [OF retriesOk_New assms(1) _ assms(2)]) (simp add: budget_New)
  then show ?thesis by blast
qed

definition demo503 :: UpstreamFailoverError where
  "demo503 = \<lparr>StatusCode = 503, ResponseBody = [], ResponseHeaders = [], ForceCacheBillingErr = False, RetryableOnSameAccount = True\<rparr>"

definition demoCollaborators :: "gw collaborators" where
  "demoCollaborators = \<lparr>
     c_select = (\<lambda>F w. if 7 \<in> F then (Inl (Internal ''no account''), w)
       else (Inr \<lparr>sel_account = 7, sel_platform = PlatformAntigravity, sel_acquired = True, sel_waitPlan = None\<rparr>, w)),
     c_waitSlot = (\<lambda>_ _ _ w. (Inr (), w)),
     c_forward = (\<lambda>_ w. (ForwardFailover demo503 False, w))\<rparr>"

theorem failover_loop_terminates_witness:
  "\<exists>r. failoverLoop (3 * card {7 :: int} + 2 * nat 1 + 1) demoCollaborators (NewFailoverState 1 True)
     \<lparr>e_now = 0, e_faults = [], gw_accounts = Map.empty, gw_done = None\<rparr> = Some r"
  by (rule failover_loop_terminates) (auto simp: demoCollaborators_def split: if_splits)

subsection \<open>In-place retries and temporary unscheduling\<close>

text \<open>\<open>failTimes k\<close> handles the same error of the same account k times in a row.\<close>

fun failTimes :: "nat \<Rightarrow> int \<Rightarrow> string \<Rightarrow> UpstreamFailoverError \<Rightarrow> FailoverState \<Rightarrow> 'a gw_scheme \<Rightarrow> FailoverState \<times> 'a gw_scheme" where
  "failTimes 0 i p e s w = (s, w)"
| "failTimes (Suc k) i p e s w = (let (s', w') = failTimes k i p e s w in snd (HandleFailoverError i p e s' w'))"

lemma failTimes_retry:
  assumes "RetryableOnSameAccount e" and "gw_done w = None" and "int k \<le> maxSameAccountRetries"
  shows "let (s', w') = failTimes k i p e (NewFailoverState m b) w in
     sameRetries s' i = int k \<and> FailedAccountIDs s' = {} \<and> SwitchCount s' = 0 \<and> MaxSwitches s' = m
     \<and> gw_accounts w' = gw_accounts w \<and> gw_done w' = None \<and> e_now w' = e_now w + int k * sameAccountRetryDelay
     \<and> e_faults w' = e_faults w"
  using assms(3)
proof (induction k)
  case 0
  then show ?case using assms by (simp add: NewFailoverState_def sameRetries_def)
next
  case (Suc k)
  obtain s' w' where f: "failTimes k i p e (NewFailoverState m b) w = (s', w')" by fastforce
  have lt: "sameRetries s' i < maxSameAccountRetries" using Suc f by simp
  have d: "gw_done w' = None" using Suc f by simp
  show ?case
    using Suc f d by (simp add: HandleFailoverError_retry [OF assms(1) lt])
      (simp add: sameRetries_def sleepWithContext_def sameAccountRetryDelay_def second_def)
qed

text \<open>
  An error the account may be retried on is answered by exactly three retries in place, each
  after the half-second delay, with no account excluded and nothing written to the accounts
  table; the fourth such error excludes the account, spends a switch when one is left, and
  applies the temporary unscheduling of its status code.
\<close>

theorem three_retries_then_exclude:
  assumes "RetryableOnSameAccount e" and "gw_done w = None"
  shows "let (s3, w3) = failTimes 3 i p e (NewFailoverState m b) w;
             (a, s4, w4) = HandleFailoverError i p e s3 w3 in
     FailedAccountIDs s3 = {} \<and> SwitchCount s3 = 0 \<and> gw_accounts w3 = gw_accounts w
     \<and> e_now w3 = e_now w + 3 * sameAccountRetryDelay
     \<and> FailedAccountIDs s4 = {i} \<and> (a = FailoverExhausted \<longleftrightarrow> m \<le> 0)
     \<and> SwitchCount s4 = (if m \<le> 0 then 0 else 1)
     \<and> gw_accounts w4 = gw_accounts (TempUnscheduleRetryableError i (Some e) w3)"
proof -
  obtain s3 w3 where f: "failTimes 3 i p e (NewFailoverState m b) w = (s3, w3)" by fastforce
  obtain a s4 w4 where h: "HandleFailoverError i p e s3 w3 = (a, s4, w4)" by (metis prod_cases3)
  note r = failTimes_retry [OF assms, of 3 i p m b, unfolded f prod.case, simplified maxSameAccountRetries_def]
  have n: "\<not> (RetryableOnSameAccount e \<and> sameRetries s3 i < maxSameAccountRetries)"
    using r by (simp add: maxSameAccountRetries_def)
  show ?thesis using r HandleFailoverError_switch [OF n h] assms(1) by (auto simp: f h)
qed

theorem three_retries_then_exclude_witness:
  "let w = \<lparr>e_now = 0, e_faults = [], gw_accounts = Map.empty, gw_done = None\<rparr>;
       (s3, w3) = failTimes 3 7 [] demo503 (NewFailoverState 1 False) w;
       (a, s4, w4) = HandleFailoverError 7 [] demo503 s3 w3 in
     FailedAccountIDs s3 = {} \<and> SwitchCount s3 = 0 \<and> gw_accounts w3 = gw_accounts w
     \<and> e_now w3 = e_now w + 3 * sameAccountRetryDelay
     \<and> FailedAccountIDs s4 = {7} \<and> (a = FailoverExhausted \<longleftrightarrow> (1 :: int) \<le> 0)
     \<and> SwitchCount s4 = (if (1 :: int) \<le> 0 then 0 else 1)
     \<and> gw_accounts w4 = gw_accounts (TempUnscheduleRetryableError 7 (Some demo503) w3)"
  unfolding Let_def [of "\<lparr>e_now = 0, e_faults = [], gw_accounts = Map.empty, gw_done = None\<rparr>"]
  by (rule three_retries_then_exclude) (simp_all add: demo503_def)

text \<open>
  A temporary unscheduling never shortens the one an account already has, never touches a
  deleted account or another one, and whatever it writes ends one minute from now.
\<close>

theorem temp_unschedule_only_lengthens:
  "gw_accounts (TempUnscheduleRetryableError i e w) j = gw_accounts w j \<or>
   (j = i \<and> (\<exists>r. gw_accounts w i = Some r \<and> \<not> tr_deleted r
      \<and> (case tr_until r of None \<Rightarrow> True | Some t \<Rightarrow> t < e_now w + 60 * second)
      \<and> map_option tr_until (gw_accounts (TempUnscheduleRetryableError i e w) i) = Some (Some (e_now w + 60 * second))))"
proof -
  have put: "gw_accounts (snd (SetTempUnschedulable i till why w)) j = gw_accounts w j \<or>
     (j = i \<and> (\<exists>r. gw_accounts w i = Some r \<and> \<not> tr_deleted r \<and> (case tr_until r of None \<Rightarrow> True | Some t \<Rightarrow> t < till)
      \<and> map_option tr_until (gw_accounts (snd (SetTempUnschedulable i till why w)) i) = Some (Some till)))" for till why
    by (auto simp: SetTempUnschedulable_def db_def modP_def split: list.splits option.splits if_splits)
  show ?thesis
    using put [of "e_now w + 60 * second"]
    by (auto simp: TempUnscheduleRetryableError_def tempUnscheduleGoogleConfigError_def
        tempUnscheduleEmptyResponse_def ignoreP_def bindP_def nowP_def getP_def
        googleConfigErrorCooldown_def emptyResponseCooldown_def split: option.splits)
qed

end
