(* ===== verification/GroupRouting.thy ===== *)
theory GroupRouting
  imports GoPrelude
begin

section \<open>Groups and model routing\<close>

text \<open>
  service/group.go.  A group is what an API key is bound to: its platform, its billing type with
  the three spending limits of a subscription, and the routing of models to preferred accounts.
  The record has the fields the modelled code reads.  The routing table is a Go map: here an
  association list with distinct keys, in the order in which one range loop happens to visit it.
\<close>

record Group =
  g_ID :: int
  g_Name :: string
  g_Platform :: string
  g_RateMultiplier :: f64
  g_Status :: string
  g_Hydrated :: bool
  g_SubscriptionType :: string
  g_DailyLimitUSD :: "f64 option"
  g_WeeklyLimitUSD :: "f64 option"
  g_MonthlyLimitUSD :: "f64 option"
  g_DefaultValidityDays :: int
  g_ImagePrice1K :: "f64 option"
  g_ImagePrice2K :: "f64 option"
  g_ImagePrice4K :: "f64 option"
  g_ModelRouting :: "(string \<times> int list) list"
  g_ModelRoutingEnabled :: bool

definition StatusActive :: string where "StatusActive = ''active''"
definition SubscriptionTypeSubscription :: string where "SubscriptionTypeSubscription = ''subscription''"

definition groupIsActive :: "Group \<Rightarrow> bool" where
  "groupIsActive g \<longleftrightarrow> g_Status g = StatusActive"

definition IsSubscriptionType :: "Group \<Rightarrow> bool" where
  "IsSubscriptionType g \<longleftrightarrow> g_SubscriptionType g = SubscriptionTypeSubscription"

definition IsFreeSubscription :: "Group \<Rightarrow> bool" where
  "IsFreeSubscription g \<longleftrightarrow> IsSubscriptionType g \<and> feq (g_RateMultiplier g) (Fin 0)"

definition HasDailyLimit :: "Group \<Rightarrow> bool" where
  "HasDailyLimit g \<longleftrightarrow> (case g_DailyLimitUSD g of None \<Rightarrow> False | Some l \<Rightarrow> flt (Fin 0) l)"

definition HasWeeklyLimit :: "Group \<Rightarrow> bool" where
  "HasWeeklyLimit g \<longleftrightarrow> (case g_WeeklyLimitUSD g of None \<Rightarrow> False | Some l \<Rightarrow> flt (Fin 0) l)"

definition HasMonthlyLimit :: "Group \<Rightarrow> bool" where
  "HasMonthlyLimit g \<longleftrightarrow> (case g_MonthlyLimitUSD g of None \<Rightarrow> False | Some l \<Rightarrow> flt (Fin 0) l)"

definition GetImagePrice :: "Group \<Rightarrow> string \<Rightarrow> f64 option" where
  "GetImagePrice g imageSize =
     (if imageSize = ''1K'' then g_ImagePrice1K g
      else if imageSize = ''2K'' then g_ImagePrice2K g
      else if imageSize = ''4K'' then g_ImagePrice4K g
      else g_ImagePrice2K g)"

definition IsGroupContextValid :: "Group option \<Rightarrow> bool" where
  "IsGroupContextValid og = (case og of
       None \<Rightarrow> False
     | Some g \<Rightarrow>
         (if g_ID g \<le> 0 then False
          else if \<not> g_Hydrated g then False
          else if g_Platform g = [] \<or> g_Status g = [] then False
          else True))"

definition matchModelPattern :: "string \<Rightarrow> string \<Rightarrow> bool" where
  "matchModelPattern pattern model =
     (if pattern = model then True
      else if hasSuffix pattern ''*'' then hasPrefix model (trimSuffix pattern ''*'')
      else False)"

text \<open>The result is the Go slice: \<open>[]\<close> is nil, no preference.\<close>

definition GetRoutingAccountIDs :: "Group \<Rightarrow> string \<Rightarrow> int list" where
  "GetRoutingAccountIDs g requestedModel =
     (if \<not> g_ModelRoutingEnabled g \<or> g_ModelRouting g = [] \<or> requestedModel = [] then []
      else case map_of (g_ModelRouting g) requestedModel of
        Some (x # xs) \<Rightarrow> x # xs
      | _ \<Rightarrow> (case find (\<lambda>(p, ids). matchModelPattern p requestedModel \<and> ids \<noteq> []) (g_ModelRouting g) of
            None \<Rightarrow> []
          | Some (_, ids) \<Rightarrow> ids))"

subsection \<open>Matching and routing\<close>

lemma matchModelPattern_iff:
  "matchModelPattern p m \<longleftrightarrow> p = m \<or> (\<exists>pre post. p = pre @ ''*'' \<and> m = pre @ post)"
proof
  assume "matchModelPattern p m"
  then show "p = m \<or> (\<exists>pre post. p = pre @ ''*'' \<and> m = pre @ post)"
    by (auto simp: matchModelPattern_def hasSuffix_iff hasPrefix_iff split: if_splits)
next
  assume "p = m \<or> (\<exists>pre post. p = pre @ ''*'' \<and> m = pre @ post)"
  then show "matchModelPattern p m"
    by (auto simp: matchModelPattern_def hasSuffix_iff)
qed

text \<open>
  C40: routing is sound and complete: the accounts returned are those of a rule of the table whose
  pattern matches the model, exactly equal or a prefix followed by a star; a rule naming the model
  itself with accounts wins over every pattern; and nothing is returned only when routing is off,
  no model was given, or no matching rule has accounts.
\<close>

theorem routing_sound_complete:
  "(GetRoutingAccountIDs g m \<noteq> [] \<longleftrightarrow> g_ModelRoutingEnabled g \<and> m \<noteq> []
        \<and> (\<exists>(p, l) \<in> set (g_ModelRouting g). l \<noteq> [] \<and> matchModelPattern p m))
   \<and> (GetRoutingAccountIDs g m = [] \<or> (\<exists>p. (p, GetRoutingAccountIDs g m) \<in> set (g_ModelRouting g)
        \<and> (p = m \<or> (\<exists>pre post. p = pre @ ''*'' \<and> m = pre @ post))))
   \<and> (case map_of (g_ModelRouting g) m of
        Some (x # xs) \<Rightarrow> GetRoutingAccountIDs g m = (if g_ModelRoutingEnabled g \<and> m \<noteq> [] then x # xs else [])
      | _ \<Rightarrow> True)"
proof (cases "g_ModelRoutingEnabled g \<and> m \<noteq> [] \<and> g_ModelRouting g \<noteq> []")
  case False
  then have "GetRoutingAccountIDs g m = []" by (auto simp: GetRoutingAccountIDs_def)
  with False show ?thesis by (auto split: option.splits list.splits)
next
  case True
  let ?R = "g_ModelRouting g"
  let ?f = "find (\<lambda>(p, ids). matchModelPattern p m \<and> ids \<noteq> []) ?R"
  have self: "matchModelPattern m m" by (simp add: matchModelPattern_def)
  show ?thesis
  proof (cases "\<exists>x xs. map_of ?R m = Some (x # xs)")
    case True
    then obtain x xs where x: "map_of ?R m = Some (x # xs)" by blast
    then have ids: "GetRoutingAccountIDs g m = x # xs"
      using \<open>g_ModelRoutingEnabled g \<and> m \<noteq> [] \<and> ?R \<noteq> []\<close> by (simp add: GetRoutingAccountIDs_def)
    have "(m, x # xs) \<in> set ?R" using map_of_SomeD [OF x] .
    with ids x self \<open>g_ModelRoutingEnabled g \<and> m \<noteq> [] \<and> ?R \<noteq> []\<close> show ?thesis by auto
  next
    case False
    then have ids: "GetRoutingAccountIDs g m = (case ?f of None \<Rightarrow> [] | Some (_, l) \<Rightarrow> l)"
      using \<open>g_ModelRoutingEnabled g \<and> m \<noteq> [] \<and> ?R \<noteq> []\<close>
      by (auto simp: GetRoutingAccountIDs_def split: option.splits list.splits)
    have c: "(case map_of ?R m of Some (x # xs) \<Rightarrow> GetRoutingAccountIDs g m = (if g_ModelRoutingEnabled g \<and> m \<noteq> [] then x # xs else []) | _ \<Rightarrow> True)"
      using False by (auto split: option.splits list.splits)
    show ?thesis
    proof (cases ?f)
      case None
      then have "\<not> (\<exists>(p, l) \<in> set ?R. l \<noteq> [] \<and> matchModelPattern p m)" by (auto simp: find_None_iff)
      with ids None c show ?thesis by simp
    next
      case (Some r)
      obtain p l where r: "r = (p, l)" by fastforce
      then have pl: "(p, l) \<in> set ?R" "matchModelPattern p m" "l \<noteq> []"
        using Some by (auto simp: find_Some_iff in_set_conv_nth)
      then have "p = m \<or> (\<exists>pre post. p = pre @ ''*'' \<and> m = pre @ post)" by (simp add: matchModelPattern_iff)
      moreover have "GetRoutingAccountIDs g m = l" using ids Some r by simp
      ultimately show ?thesis using pl c \<open>g_ModelRoutingEnabled g \<and> m \<noteq> [] \<and> ?R \<noteq> []\<close> by auto
    qed
  qed
qed

text \<open>
  The accounts a model is routed to can depend on the order in which the map is visited: two
  tables with the same entries, in different orders, give different answers when two star
  patterns match.
\<close>

theorem routing_depends_on_map_order:
  "\<exists>g g' m. map_of (g_ModelRouting g) = map_of (g_ModelRouting g') \<and> distinct (map fst (g_ModelRouting g))
     \<and> g' = g\<lparr>g_ModelRouting := g_ModelRouting g'\<rparr> \<and> set (g_ModelRouting g) = set (g_ModelRouting g')
     \<and> GetRoutingAccountIDs g m \<noteq> GetRoutingAccountIDs g' m"
proof -
  define r1 where "r1 = [(''claude-*'', [1 :: int]), (''claude-opus-*'', [2])]"
  define r2 where "r2 = [(''claude-opus-*'', [2 :: int]), (''claude-*'', [1])]"
  define g :: Group where "g = \<lparr>g_ID = 1, g_Name = [], g_Platform = [], g_RateMultiplier = Fin 1, g_Status = StatusActive,
     g_Hydrated = True, g_SubscriptionType = [], g_DailyLimitUSD = None, g_WeeklyLimitUSD = None,
     g_MonthlyLimitUSD = None, g_DefaultValidityDays = 30, g_ImagePrice1K = None, g_ImagePrice2K = None,
     g_ImagePrice4K = None, g_ModelRouting = r1, g_ModelRoutingEnabled = True\<rparr>"
  have m: "matchModelPattern ''claude-*'' ''claude-opus-4'' \<and> matchModelPattern ''claude-opus-*'' ''claude-opus-4''"
    by (simp add: matchModelPattern_def hasSuffix_def hasPrefix_def trimSuffix_def)
  have "GetRoutingAccountIDs g ''claude-opus-4'' = [1]"
    using m by (simp add: GetRoutingAccountIDs_def g_def r1_def)
  moreover have "GetRoutingAccountIDs (g\<lparr>g_ModelRouting := r2\<rparr>) ''claude-opus-4'' = [2]"
    using m by (simp add: GetRoutingAccountIDs_def g_def r2_def)
  moreover have "map_of r1 = map_of r2" by (auto simp: r1_def r2_def fun_eq_iff)
  moreover have "distinct (map fst r1)" "set r1 = set r2" by (auto simp: r1_def r2_def)
  ultimately show ?thesis
    by (intro exI [of _ g] exI [of _ "g\<lparr>g_ModelRouting := r2\<rparr>"] exI [of _ "''claude-opus-4''"])
      (simp add: g_def)
qed

end
