(* ===== verification/UserSubscriptions.thy ===== *)
theory UserSubscriptions
  imports GroupRouting
begin

section \<open>User subscriptions: windows, limits and progress\<close>

text \<open>
  service/user_subscription.go, and the parts of service/subscription_service.go that compute on
  a loaded subscription without the database: validation with limit check, normalisation of what
  is shown, conflict detection and the progress report.  Every time.Now of these methods is the
  parameter \<open>now\<close> (one instant per call).  A subscription has three usage windows (24 hours, 7
  and 30 days); its usage and limits are floats, \<open>f64\<close>.
\<close>

datatype sub_status = SubActive | SubExpired | SubSuspended

record UserSubscription =
  us_ID :: int
  us_UserID :: int
  us_GroupID :: int
  us_StartsAt :: int
  us_ExpiresAt :: int
  us_Status :: sub_status
  us_QuotaMultiplier :: int
  us_DailyWindowStart :: "int option"
  us_WeeklyWindowStart :: "int option"
  us_MonthlyWindowStart :: "int option"
  us_DailyUsageUSD :: f64
  us_WeeklyUsageUSD :: f64
  us_MonthlyUsageUSD :: f64
  us_AssignedBy :: "int option"
  us_AssignedAt :: int
  us_Notes :: string
  us_CreatedAt :: int
  us_UpdatedAt :: int
  us_Group :: "Group option"

definition MaxExpiresAt :: int where "MaxExpiresAt = 4102444799 * second"
definition MaxValidityDays :: int where "MaxValidityDays = 36500"

definition ErrSubscriptionNotFound :: err where "ErrSubscriptionNotFound = AppErr ''SUBSCRIPTION_NOT_FOUND''"
definition ErrSubscriptionExpired :: err where "ErrSubscriptionExpired = AppErr ''SUBSCRIPTION_EXPIRED''"
definition ErrSubscriptionSuspended :: err where "ErrSubscriptionSuspended = AppErr ''SUBSCRIPTION_SUSPENDED''"
definition ErrSubscriptionAlreadyExists :: err where "ErrSubscriptionAlreadyExists = AppErr ''SUBSCRIPTION_ALREADY_EXISTS''"
definition ErrSubscriptionAssignConflict :: err where "ErrSubscriptionAssignConflict = AppErr ''SUBSCRIPTION_ASSIGN_CONFLICT''"
definition ErrGroupNotSubscriptionType :: err where "ErrGroupNotSubscriptionType = AppErr ''GROUP_NOT_SUBSCRIPTION_TYPE''"
definition ErrInvalidInput :: err where "ErrInvalidInput = AppErr ''INVALID_INPUT''"
definition ErrDailyLimitExceeded :: err where "ErrDailyLimitExceeded = AppErr ''DAILY_LIMIT_EXCEEDED''"
definition ErrWeeklyLimitExceeded :: err where "ErrWeeklyLimitExceeded = AppErr ''WEEKLY_LIMIT_EXCEEDED''"
definition ErrMonthlyLimitExceeded :: err where "ErrMonthlyLimitExceeded = AppErr ''MONTHLY_LIMIT_EXCEEDED''"
definition ErrAdjustWouldExpire :: err where "ErrAdjustWouldExpire = AppErr ''ADJUST_WOULD_EXPIRE''"

subsection \<open>Methods of a subscription\<close>

definition subIsActive :: "int \<Rightarrow> UserSubscription \<Rightarrow> bool" where
  "subIsActive now s \<longleftrightarrow> us_Status s = SubActive \<and> now < us_ExpiresAt s"

definition IsExpired :: "int \<Rightarrow> UserSubscription \<Rightarrow> bool" where
  "IsExpired now s \<longleftrightarrow> us_ExpiresAt s < now"

definition DaysRemaining :: "int \<Rightarrow> UserSubscription \<Rightarrow> int" where
  "DaysRemaining now s = (if IsExpired now s then 0 else ftrunc (fdiv (durHours (us_ExpiresAt s - now)) (Fin 24)))"

definition IsWindowActivated :: "UserSubscription \<Rightarrow> bool" where
  "IsWindowActivated s \<longleftrightarrow> us_DailyWindowStart s \<noteq> None \<or> us_WeeklyWindowStart s \<noteq> None \<or> us_MonthlyWindowStart s \<noteq> None"

definition NeedsDailyReset :: "int \<Rightarrow> UserSubscription \<Rightarrow> bool" where
  "NeedsDailyReset now s \<longleftrightarrow> (case us_DailyWindowStart s of None \<Rightarrow> False | Some w \<Rightarrow> 24 * hour \<le> now - w)"

definition NeedsWeeklyReset :: "int \<Rightarrow> UserSubscription \<Rightarrow> bool" where
  "NeedsWeeklyReset now s \<longleftrightarrow> (case us_WeeklyWindowStart s of None \<Rightarrow> False | Some w \<Rightarrow> 7 * 24 * hour \<le> now - w)"

definition NeedsMonthlyReset :: "int \<Rightarrow> UserSubscription \<Rightarrow> bool" where
  "NeedsMonthlyReset now s \<longleftrightarrow> (case us_MonthlyWindowStart s of None \<Rightarrow> False | Some w \<Rightarrow> 30 * 24 * hour \<le> now - w)"

definition DailyResetTime :: "UserSubscription \<Rightarrow> int option" where
  "DailyResetTime s = map_option (\<lambda>w. w + 24 * hour) (us_DailyWindowStart s)"

definition WeeklyResetTime :: "UserSubscription \<Rightarrow> int option" where
  "WeeklyResetTime s = map_option (\<lambda>w. w + 7 * 24 * hour) (us_WeeklyWindowStart s)"

definition MonthlyResetTime :: "UserSubscription \<Rightarrow> int option" where
  "MonthlyResetTime s = map_option (\<lambda>w. w + 30 * 24 * hour) (us_MonthlyWindowStart s)"

definition quotaFactor :: "UserSubscription \<Rightarrow> f64" where
  "quotaFactor s = (let m = us_QuotaMultiplier s in fl (of_int (if m < 1 then 1 else m)))"

definition CheckDailyLimit :: "UserSubscription \<Rightarrow> Group \<Rightarrow> f64 \<Rightarrow> bool" where
  "CheckDailyLimit s g cost =
     (if \<not> HasDailyLimit g then True
      else fle (fadd (us_DailyUsageUSD s) cost) (fmul (the (g_DailyLimitUSD g)) (quotaFactor s)))"

definition CheckWeeklyLimit :: "UserSubscription \<Rightarrow> Group \<Rightarrow> f64 \<Rightarrow> bool" where
  "CheckWeeklyLimit s g cost =
     (if \<not> HasWeeklyLimit g then True
      else fle (fadd (us_WeeklyUsageUSD s) cost) (fmul (the (g_WeeklyLimitUSD g)) (quotaFactor s)))"

definition CheckMonthlyLimit :: "UserSubscription \<Rightarrow> Group \<Rightarrow> f64 \<Rightarrow> bool" where
  "CheckMonthlyLimit s g cost =
     (if \<not> HasMonthlyLimit g then True
      else fle (fadd (us_MonthlyUsageUSD s) cost) (fmul (the (g_MonthlyLimitUSD g)) (quotaFactor s)))"

definition CheckAllLimits :: "UserSubscription \<Rightarrow> Group \<Rightarrow> f64 \<Rightarrow> bool \<times> bool \<times> bool" where
  "CheckAllLimits s g cost = (CheckDailyLimit s g cost, CheckWeeklyLimit s g cost, CheckMonthlyLimit s g cost)"

subsection \<open>Checks of the request path\<close>

definition CheckUsageLimits :: "UserSubscription \<Rightarrow> Group \<Rightarrow> f64 \<Rightarrow> err + unit" where
  "CheckUsageLimits s g cost =
     (if \<not> CheckDailyLimit s g cost then Inl ErrDailyLimitExceeded
      else if \<not> CheckWeeklyLimit s g cost then Inl ErrWeeklyLimitExceeded
      else if \<not> CheckMonthlyLimit s g cost then Inl ErrMonthlyLimitExceeded
      else Inr ())"

text \<open>The subscription is passed by pointer: the corrected usage is part of the result.\<close>

definition ValidateAndCheckLimits ::
  "int \<Rightarrow> UserSubscription \<Rightarrow> Group \<Rightarrow> UserSubscription \<times> bool \<times> err option" where
  "ValidateAndCheckLimits now s g =
    (if us_Status s = SubExpired then (s, False, Some ErrSubscriptionExpired)
     else if us_Status s = SubSuspended then (s, False, Some ErrSubscriptionSuspended)
     else if IsExpired now s then (s, False, Some ErrSubscriptionExpired)
     else let s1 = (if NeedsDailyReset now s then s\<lparr>us_DailyUsageUSD := Fin 0\<rparr> else s);
              s2 = (if NeedsWeeklyReset now s1 then s1\<lparr>us_WeeklyUsageUSD := Fin 0\<rparr> else s1);
              s3 = (if NeedsMonthlyReset now s2 then s2\<lparr>us_MonthlyUsageUSD := Fin 0\<rparr> else s2);
              needs = (NeedsDailyReset now s \<or> NeedsWeeklyReset now s1 \<or> NeedsMonthlyReset now s2
                       \<or> \<not> IsWindowActivated s3)
          in if \<not> CheckDailyLimit s3 g (Fin 0) then (s3, needs, Some ErrDailyLimitExceeded)
             else if \<not> CheckWeeklyLimit s3 g (Fin 0) then (s3, needs, Some ErrWeeklyLimitExceeded)
             else if \<not> CheckMonthlyLimit s3 g (Fin 0) then (s3, needs, Some ErrMonthlyLimitExceeded)
             else (s3, needs, None))"

subsection \<open>What lists show\<close>

definition normalizeExpiredWindow :: "int \<Rightarrow> UserSubscription \<Rightarrow> UserSubscription" where
  "normalizeExpiredWindow now s =
    (let s1 = (if NeedsDailyReset now s then s\<lparr>us_DailyWindowStart := None, us_DailyUsageUSD := Fin 0\<rparr> else s);
         s2 = (if NeedsWeeklyReset now s1 then s1\<lparr>us_WeeklyWindowStart := None, us_WeeklyUsageUSD := Fin 0\<rparr> else s1)
     in if NeedsMonthlyReset now s2 then s2\<lparr>us_MonthlyWindowStart := None, us_MonthlyUsageUSD := Fin 0\<rparr> else s2)"

definition normalizeExpiredWindows :: "int \<Rightarrow> UserSubscription list \<Rightarrow> UserSubscription list" where
  "normalizeExpiredWindows now = map (normalizeExpiredWindow now)"

definition normalizeSubscriptionStatus :: "int \<Rightarrow> UserSubscription list \<Rightarrow> UserSubscription list" where
  "normalizeSubscriptionStatus now = map (\<lambda>s.
     if us_Status s = SubActive \<and> \<not> now < us_ExpiresAt s then s\<lparr>us_Status := SubExpired\<rparr> else s)"

subsection \<open>Validity days and assignment conflicts\<close>

definition normalizeAssignValidityDays :: "int \<Rightarrow> int" where
  "normalizeAssignValidityDays d =
     (let d1 = (if d \<le> 0 then 30 else d) in if MaxValidityDays < d1 then MaxValidityDays else d1)"

record AssignSubscriptionInput =
  ai_UserID :: int
  ai_GroupID :: int
  ai_ValidityDays :: int
  ai_AssignedBy :: int
  ai_Notes :: string

definition detectAssignSemanticConflict :: "UserSubscription \<Rightarrow> AssignSubscriptionInput \<Rightarrow> string option" where
  "detectAssignSemanticConflict existing input =
    (let days = normalizeAssignValidityDays (ai_ValidityDays input);
         e0 = addDays (us_StartsAt existing) days;
         expected = (if MaxExpiresAt < e0 then MaxExpiresAt else e0)
     in if us_StartsAt existing \<noteq> zeroTime \<and> us_ExpiresAt existing \<noteq> expected then Some ''validity_days_mismatch''
        else if trimSpace (us_Notes existing) \<noteq> trimSpace (ai_Notes input) then Some ''notes_mismatch''
        else None)"

subsection \<open>Progress report\<close>

record UsageWindowProgress =
  wp_LimitUSD :: f64
  wp_UsedUSD :: f64
  wp_RemainingUSD :: f64
  wp_Percentage :: f64
  wp_WindowStart :: int
  wp_ResetsAt :: int
  wp_ResetsInSeconds :: int

record SubscriptionProgress =
  sp_ID :: int
  sp_GroupName :: string
  sp_ExpiresAt :: int
  sp_ExpiresInDays :: int
  sp_Daily :: "UsageWindowProgress option"
  sp_Weekly :: "UsageWindowProgress option"
  sp_Monthly :: "UsageWindowProgress option"

text \<open>The three blocks of calculateProgress differ in the window's length and columns only.\<close>

definition windowProgress :: "int \<Rightarrow> int \<Rightarrow> f64 \<Rightarrow> f64 \<Rightarrow> int \<Rightarrow> UsageWindowProgress" where
  "windowProgress now len limit used start =
    (let resetsAt = start + len;
         remaining = fsub limit used;
         pct = fmul (fdiv used limit) (Fin 100);
         secs = ftrunc (durSeconds (resetsAt - now))
     in \<lparr>wp_LimitUSD = limit, wp_UsedUSD = used,
         wp_RemainingUSD = (if flt remaining (Fin 0) then Fin 0 else remaining),
         wp_Percentage = (if flt (Fin 100) pct then Fin 100 else pct),
         wp_WindowStart = start, wp_ResetsAt = resetsAt,
         wp_ResetsInSeconds = (if secs < 0 then 0 else secs)\<rparr>)"

definition calculateProgress :: "int \<Rightarrow> UserSubscription \<Rightarrow> Group \<Rightarrow> SubscriptionProgress" where
  "calculateProgress now s g =
    \<lparr>sp_ID = us_ID s, sp_GroupName = g_Name g, sp_ExpiresAt = us_ExpiresAt s,
     sp_ExpiresInDays = DaysRemaining now s,
     sp_Daily = (if HasDailyLimit g
        then map_option (windowProgress now (24 * hour) (the (g_DailyLimitUSD g)) (us_DailyUsageUSD s)) (us_DailyWindowStart s)
        else None),
     sp_Weekly = (if HasWeeklyLimit g
        then map_option (windowProgress now (7 * 24 * hour) (the (g_WeeklyLimitUSD g)) (us_WeeklyUsageUSD s)) (us_WeeklyWindowStart s)
        else None),
     sp_Monthly = (if HasMonthlyLimit g
        then map_option (windowProgress now (30 * 24 * hour) (the (g_MonthlyLimitUSD g)) (us_MonthlyUsageUSD s)) (us_MonthlyWindowStart s)
        else None)\<rparr>"

subsection \<open>Limits\<close>

lemma quotaFactor_ge_1: "fle (Fin 1) (quotaFactor s)"
  by (simp add: quotaFactor_def Let_def fle_fl_of_int)

lemma zero_within_limit: "flt (Fin 0) l \<Longrightarrow> fle (fadd (Fin 0) (Fin 0)) (fmul l (quotaFactor s))"
  by (simp add: fmul_pos_nonneg quotaFactor_ge_1)

lemma quotaFactor_mono:
  "us_QuotaMultiplier s \<le> us_QuotaMultiplier t \<Longrightarrow> fle (quotaFactor s) (quotaFactor t)"
  by (auto simp: quotaFactor_def Let_def intro!: fl_mono fle_refl)
    (metis fle_fl_of_int fl_numeral(3) not_less)+

lemma scaled_limit_mono:
  assumes "flt (Fin 0) l" and "us_QuotaMultiplier s \<le> us_QuotaMultiplier t"
  shows "fle (fmul l (quotaFactor s)) (fmul l (quotaFactor t))"
  using assms quotaFactor_ge_1 [of s] quotaFactor_mono [OF assms(2)]
  by (intro fmul_mono_right) (auto elim: fle_trans [rotated])

text \<open>\<open>withinLimit\<close> is what a window must satisfy: no limit, a window that is over, or usage within it.\<close>

definition withinLimit :: "bool \<Rightarrow> bool \<Rightarrow> f64 \<Rightarrow> f64 option \<Rightarrow> UserSubscription \<Rightarrow> bool" where
  "withinLimit has over used l s \<longleftrightarrow> \<not> has \<or> over \<or> fle (fadd used (Fin 0)) (fmul (the l) (quotaFactor s))"

lemma limit_pos:
  "HasDailyLimit g \<Longrightarrow> flt (Fin 0) (the (g_DailyLimitUSD g))"
  "HasWeeklyLimit g \<Longrightarrow> flt (Fin 0) (the (g_WeeklyLimitUSD g))"
  "HasMonthlyLimit g \<Longrightarrow> flt (Fin 0) (the (g_MonthlyLimitUSD g))"
  by (auto simp: HasDailyLimit_def HasWeeklyLimit_def HasMonthlyLimit_def split: option.splits)

lemma quotaFactor_update [simp]:
  "quotaFactor (s\<lparr>us_DailyUsageUSD := x\<rparr>) = quotaFactor s"
  "quotaFactor (s\<lparr>us_WeeklyUsageUSD := x\<rparr>) = quotaFactor s"
  "quotaFactor (s\<lparr>us_MonthlyUsageUSD := x\<rparr>) = quotaFactor s"
  by (simp_all add: quotaFactor_def)

lemma needsReset_update [simp]:
  "NeedsWeeklyReset now (s\<lparr>us_DailyUsageUSD := x\<rparr>) = NeedsWeeklyReset now s"
  "NeedsMonthlyReset now (s\<lparr>us_DailyUsageUSD := x\<rparr>) = NeedsMonthlyReset now s"
  "NeedsMonthlyReset now (s\<lparr>us_WeeklyUsageUSD := x\<rparr>) = NeedsMonthlyReset now s"
  "IsWindowActivated (s\<lparr>us_DailyUsageUSD := x\<rparr>) = IsWindowActivated s"
  "IsWindowActivated (s\<lparr>us_WeeklyUsageUSD := x\<rparr>) = IsWindowActivated s"
  "IsWindowActivated (s\<lparr>us_MonthlyUsageUSD := x\<rparr>) = IsWindowActivated s"
  by (simp_all add: NeedsWeeklyReset_def NeedsMonthlyReset_def IsWindowActivated_def)

text \<open>
  The request path lets a subscription through exactly when it is active, not past its expiry,
  and in each of the three windows has no limit, a window that is over, or usage within the limit
  scaled by the number of its active grants (at least one); it asks for window maintenance
  whenever a window is over or none was ever started.
\<close>

theorem validate_accepts_iff:
  "(snd (snd (ValidateAndCheckLimits now s g)) = None \<longleftrightarrow>
      us_Status s = SubActive \<and> \<not> IsExpired now s
      \<and> withinLimit (HasDailyLimit g) (NeedsDailyReset now s) (us_DailyUsageUSD s) (g_DailyLimitUSD g) s
      \<and> withinLimit (HasWeeklyLimit g) (NeedsWeeklyReset now s) (us_WeeklyUsageUSD s) (g_WeeklyLimitUSD g) s
      \<and> withinLimit (HasMonthlyLimit g) (NeedsMonthlyReset now s) (us_MonthlyUsageUSD s) (g_MonthlyLimitUSD g) s)
   \<and> (fst (snd (ValidateAndCheckLimits now s g)) \<longleftrightarrow>
      us_Status s = SubActive \<and> \<not> IsExpired now s
      \<and> \<not> (IsWindowActivated s \<and> \<not> NeedsDailyReset now s \<and> \<not> NeedsWeeklyReset now s \<and> \<not> NeedsMonthlyReset now s))"
proof (cases "us_Status s = SubActive \<and> \<not> IsExpired now s")
  case False
  then show ?thesis by (cases "us_Status s") (auto simp: ValidateAndCheckLimits_def)
next
  case True
  note z = zero_within_limit [OF limit_pos(1)] zero_within_limit [OF limit_pos(2)] zero_within_limit [OF limit_pos(3)]
  show ?thesis using True
    by (cases "NeedsDailyReset now s"; cases "NeedsWeeklyReset now s"; cases "NeedsMonthlyReset now s")
      (auto simp: ValidateAndCheckLimits_def Let_def withinLimit_def CheckDailyLimit_def CheckWeeklyLimit_def
        CheckMonthlyLimit_def z [simplified])
qed

text \<open>
  Stacking grants never takes allowance away: with more active grants (and everything else
  equal) whatever the limit check allowed is still allowed.
\<close>

theorem stacking_never_lowers_allowance:
  assumes "us_QuotaMultiplier s \<le> m" and "CheckUsageLimits s g cost = Inr ()"
  shows "CheckUsageLimits (s\<lparr>us_QuotaMultiplier := m\<rparr>) g cost = Inr ()"
proof -
  let ?t = "s\<lparr>us_QuotaMultiplier := m\<rparr>"
  have q: "us_QuotaMultiplier s \<le> us_QuotaMultiplier ?t" using assms(1) by simp
  note mono = scaled_limit_mono [OF limit_pos(1) q] scaled_limit_mono [OF limit_pos(2) q] scaled_limit_mono [OF limit_pos(3) q]
  show ?thesis using assms(2)
    by (auto simp: CheckUsageLimits_def CheckDailyLimit_def CheckWeeklyLimit_def CheckMonthlyLimit_def
        split: if_splits intro: fle_trans mono)
qed

definition demoGroup :: Group where
  "demoGroup = \<lparr>g_ID = 1, g_Name = ''pro'', g_Platform = ''anthropic'', g_RateMultiplier = Fin 1,
     g_Status = StatusActive, g_Hydrated = True, g_SubscriptionType = SubscriptionTypeSubscription,
     g_DailyLimitUSD = Some (Fin 10), g_WeeklyLimitUSD = None, g_MonthlyLimitUSD = None,
     g_DefaultValidityDays = 30, g_ImagePrice1K = None, g_ImagePrice2K = None, g_ImagePrice4K = None,
     g_ModelRouting = [], g_ModelRoutingEnabled = False\<rparr>"

definition demoSub :: UserSubscription where
  "demoSub = \<lparr>us_ID = 1, us_UserID = 1, us_GroupID = 1, us_StartsAt = 0, us_ExpiresAt = 30 * day,
     us_Status = SubActive, us_QuotaMultiplier = 1, us_DailyWindowStart = Some 0, us_WeeklyWindowStart = Some 0,
     us_MonthlyWindowStart = Some 0, us_DailyUsageUSD = Fin 10, us_WeeklyUsageUSD = Fin 10,
     us_MonthlyUsageUSD = Fin 10, us_AssignedBy = None, us_AssignedAt = 0, us_Notes = [], us_CreatedAt = 0,
     us_UpdatedAt = 0, us_Group = None\<rparr>"

theorem stacking_never_lowers_allowance_witness:
  "CheckUsageLimits (demoSub\<lparr>us_QuotaMultiplier := 2\<rparr>) demoGroup (Fin 0) = Inr ()"
  by (rule stacking_never_lowers_allowance)
    (simp_all add: demoSub_def demoGroup_def CheckUsageLimits_def CheckDailyLimit_def CheckWeeklyLimit_def
      CheckMonthlyLimit_def HasDailyLimit_def HasWeeklyLimit_def HasMonthlyLimit_def quotaFactor_def)

subsection \<open>Progress and normalisation\<close>

lemma ftrunc_nonneg: "fle (Fin 0) x \<Longrightarrow> 0 \<le> ftrunc x"
  by (cases x) auto

lemma durHours_nonneg: "0 \<le> d \<Longrightarrow> fle (Fin 0) (durHours d)"
proof -
  assume d: "0 \<le> d"
  have h: "0 < hour" by (simp add: hour_def second_def)
  have "hour * (d div hour) \<le> d" using mult_div_mod_eq [of hour d] pos_mod_sign [OF h, of d] by linarith
  then have m: "0 \<le> goMod d hour" using d h by (auto simp: goMod_def goDiv_def sgn_if)
  have q: "0 \<le> goDiv d hour" using d h by (auto simp: goDiv_def sgn_if pos_imp_zdiv_nonneg_iff)
  have nonneg: "fle (Fin 0) (fl (of_int k))" if "0 \<le> k" for k using that by (intro fle_fl_rat) auto
  have add: "fle (Fin 0) (fadd a b)" if "fle (Fin 0) a" "fle (Fin 0) b" for a b
    using that by (cases a; cases b) (auto intro!: fle_fl_rat)
  have dv: "fle (Fin 0) (fdiv a (Fin 3600000000000))" if "fle (Fin 0) a" for a
    using that by (cases a) (auto intro!: fle_fl_rat)
  show ?thesis unfolding durHours_def by (intro add nonneg dv q m)
qed

text \<open>
  Whatever the stored usage is, a progress report shows at most 100 per cent, never a negative
  remaining amount, never a negative time to the next reset, and never a negative number of days.
\<close>

theorem progress_bounds:
  "let p = calculateProgress now s g in
     0 \<le> sp_ExpiresInDays p
   \<and> pred_option (\<lambda>w. \<not> flt (wp_RemainingUSD w) (Fin 0) \<and> \<not> flt (Fin 100) (wp_Percentage w) \<and> 0 \<le> wp_ResetsInSeconds w) (sp_Daily p)
   \<and> pred_option (\<lambda>w. \<not> flt (wp_RemainingUSD w) (Fin 0) \<and> \<not> flt (Fin 100) (wp_Percentage w) \<and> 0 \<le> wp_ResetsInSeconds w) (sp_Weekly p)
   \<and> pred_option (\<lambda>w. \<not> flt (wp_RemainingUSD w) (Fin 0) \<and> \<not> flt (Fin 100) (wp_Percentage w) \<and> 0 \<le> wp_ResetsInSeconds w) (sp_Monthly p)"
proof -
  have w: "\<not> flt (wp_RemainingUSD (windowProgress now len l u st)) (Fin 0) \<and> \<not> flt (Fin 100) (wp_Percentage (windowProgress now len l u st))
     \<and> 0 \<le> wp_ResetsInSeconds (windowProgress now len l u st)" for len l u st
    by (simp add: windowProgress_def Let_def)
  have dv: "fle (Fin 0) (fdiv a (Fin 24))" if "fle (Fin 0) a" for a
    using that by (cases a) (auto intro!: fle_fl_rat)
  have "0 \<le> DaysRemaining now s"
    by (auto simp: DaysRemaining_def IsExpired_def intro!: ftrunc_nonneg dv durHours_nonneg)
  then show ?thesis
    using w by (auto simp: calculateProgress_def Let_def option.pred_map comp_def option.pred_True
        split: option.splits intro!: option.pred_mono_strong)
qed

text \<open>
  After normalisation for display no window of a listed subscription is over any more, a window
  that was over shows no usage, one that was not is shown as stored, and doing it again changes
  nothing.
\<close>

theorem normalized_windows_current:
  "let t = normalizeExpiredWindow now s in
     \<not> NeedsDailyReset now t \<and> \<not> NeedsWeeklyReset now t \<and> \<not> NeedsMonthlyReset now t
   \<and> us_DailyUsageUSD t = (if NeedsDailyReset now s then Fin 0 else us_DailyUsageUSD s)
   \<and> us_WeeklyUsageUSD t = (if NeedsWeeklyReset now s then Fin 0 else us_WeeklyUsageUSD s)
   \<and> us_MonthlyUsageUSD t = (if NeedsMonthlyReset now s then Fin 0 else us_MonthlyUsageUSD s)
   \<and> normalizeExpiredWindow now t = t"
  by (cases "NeedsDailyReset now s"; cases "NeedsWeeklyReset now s"; cases "NeedsMonthlyReset now s")
    (simp_all add: normalizeExpiredWindow_def Let_def NeedsDailyReset_def NeedsWeeklyReset_def NeedsMonthlyReset_def)

end
