(* ===== verification/SubscriptionStore.thy ===== *)
theory SubscriptionStore
  imports UserSubscriptions
begin

section \<open>The tables of subscriptions and grants\<close>

text \<open>
  repository/user_subscription_repo.go and repository/subscription_grant_repo.go.  A subscription
  row belongs to a user and a group; its grants are the entitlement windows that were paid for.
  The state has the two tables in the order of their ids, the groups that are not deleted, the L1
  cache of active subscriptions with the switch that turns it on, and the log of the
  invalidations sent to the billing cache.

  ent's queries see only rows that are not soft-deleted (SoftDeleteMixin); its UpdateOneID does
  not filter.  Every call goes through \<open>db\<close> and may fail.  Arithmetic on a numeric column happens in
  PostgreSQL: \<open>pgnum\<close> has, as functions on the floats Go sends and reads back, a usage column plus an
  argument (\<open>n_add\<close>), sum and difference before they are stored (\<open>n_plus\<close>, \<open>n_minus\<close>), storing into a
  column of scale 8 or 2 (\<open>n_store8\<close>, \<open>n_store2\<close>), and the sum of a column (\<open>n_sum\<close>).
\<close>

record SubscriptionGrant =
  sg_ID :: int
  sg_SubscriptionID :: int
  sg_StartsAt :: int
  sg_ExpiresAt :: int
  sg_DailyUsageUSD :: f64
  sg_WeeklyUsageUSD :: f64
  sg_MonthlyUsageUSD :: f64
  sg_CreatedAt :: int
  sg_UpdatedAt :: int
  sg_Deleted :: bool

record sub_row =
  row_sub :: UserSubscription
  row_deleted :: bool

record substate = env +
  ss_groups :: "int \<rightharpoonup> Group"
  ss_subs :: "sub_row list"
  ss_grants :: "SubscriptionGrant list"
  ss_nextSub :: int
  ss_nextGrant :: int
  ss_l1on :: bool
  ss_l1 :: "string \<rightharpoonup> UserSubscription"
  ss_billingInvalidated :: "(int \<times> int) list"
  ss_zone :: int

record pgnum =
  n_add :: "f64 \<Rightarrow> f64 \<Rightarrow> f64"
  n_plus :: "f64 \<Rightarrow> f64 \<Rightarrow> f64"
  n_minus :: "f64 \<Rightarrow> f64 \<Rightarrow> f64"
  n_store8 :: "f64 \<Rightarrow> f64"
  n_store2 :: "f64 \<Rightarrow> f64"
  n_sum :: "f64 list \<Rightarrow> f64"

definition ErrGroupNotFound :: err where "ErrGroupNotFound = AppErr ''GROUP_NOT_FOUND''"
definition ErrSubscriptionGrantNotFound :: err where "ErrSubscriptionGrantNotFound = AppErr ''SUBSCRIPTION_GRANT_NOT_FOUND''"

definition groupGetByID :: "int \<Rightarrow> ('a substate_scheme, Group) proc" where
  "groupGetByID i = db ''get group'' (\<lambda>s. (case ss_groups s i of None \<Rightarrow> Inl ErrGroupNotFound | Some g \<Rightarrow> Inr g, s))"

subsection \<open>user_subscriptions\<close>

text \<open>The row as the service sees it, with its group loaded (WithGroup).\<close>

definition loadSub :: "'a substate_scheme \<Rightarrow> sub_row \<Rightarrow> UserSubscription" where
  "loadSub s r = (row_sub r)\<lparr>us_QuotaMultiplier := 0, us_Group := ss_groups s (us_GroupID (row_sub r))\<rparr>"

definition liveFor :: "int \<Rightarrow> int \<Rightarrow> sub_row \<Rightarrow> bool" where
  "liveFor u g r \<longleftrightarrow> \<not> row_deleted r \<and> us_UserID (row_sub r) = u \<and> us_GroupID (row_sub r) = g"

text \<open>
  The partial unique index on (user_id, group_id) over rows that are not deleted makes a second
  live row an error.  On success the new id and the timestamps are written back to the argument.
\<close>

definition subCreate :: "UserSubscription \<Rightarrow> ('a substate_scheme, UserSubscription) proc" where
  "subCreate sub = db ''create subscription'' (\<lambda>s.
     if \<exists>r \<in> set (ss_subs s). liveFor (us_UserID sub) (us_GroupID sub) r
     then (Inl ErrSubscriptionAlreadyExists, s)
     else let i = ss_nextSub s;
              st = (if us_StartsAt sub = zeroTime then e_now s else us_StartsAt sub);
              asg = (if us_AssignedAt sub = zeroTime then e_now s else us_AssignedAt sub);
              row = sub\<lparr>us_ID := i, us_StartsAt := st, us_AssignedAt := asg, us_QuotaMultiplier := 0,
                        us_CreatedAt := e_now s, us_UpdatedAt := e_now s, us_Group := None\<rparr>
          in (Inr (sub\<lparr>us_ID := i, us_CreatedAt := e_now s, us_UpdatedAt := e_now s\<rparr>),
              s\<lparr>ss_subs := ss_subs s @ [\<lparr>row_sub = row, row_deleted = False\<rparr>], ss_nextSub := i + 1\<rparr>))"

definition subGetByID :: "int \<Rightarrow> ('a substate_scheme, UserSubscription) proc" where
  "subGetByID i = db ''get subscription'' (\<lambda>s.
     (mapE (loadSub s) (onlyRow ErrSubscriptionNotFound (\<lambda>r. \<not> row_deleted r \<and> us_ID (row_sub r) = i) (ss_subs s)), s))"

definition subGetByUserIDAndGroupID :: "int \<Rightarrow> int \<Rightarrow> ('a substate_scheme, UserSubscription) proc" where
  "subGetByUserIDAndGroupID u g = db ''get subscription'' (\<lambda>s.
     (mapE (loadSub s) (onlyRow ErrSubscriptionNotFound (liveFor u g) (ss_subs s)), s))"

definition subGetActiveByUserIDAndGroupID :: "int \<Rightarrow> int \<Rightarrow> ('a substate_scheme, UserSubscription) proc" where
  "subGetActiveByUserIDAndGroupID u g = db ''get active subscription'' (\<lambda>s.
     (mapE (loadSub s) (onlyRow ErrSubscriptionNotFound
        (\<lambda>r. liveFor u g r \<and> us_Status (row_sub r) = SubActive \<and> e_now s < us_ExpiresAt (row_sub r)) (ss_subs s)), s))"

definition subExists :: "int \<Rightarrow> int \<Rightarrow> ('a substate_scheme, bool) proc" where
  "subExists u g = db ''exists subscription'' (\<lambda>s. (Inr (\<exists>r \<in> set (ss_subs s). liveFor u g r), s))"

text \<open>Deleting a missing row is not an error; deleting is setting deleted_at.\<close>

definition subDelete :: "int \<Rightarrow> ('a substate_scheme, unit) proc" where
  "subDelete i = db ''delete subscription'' (modP (\<lambda>s.
     s\<lparr>ss_subs := updRows (\<lambda>r. \<not> row_deleted r \<and> us_ID (row_sub r) = i) (\<lambda>r. r\<lparr>row_deleted := True\<rparr>) (ss_subs s)\<rparr>))"

definition updateSub :: "int \<Rightarrow> (UserSubscription \<Rightarrow> UserSubscription) \<Rightarrow> ('a substate_scheme, unit) proc" where
  "updateSub i f = db ''update subscription'' (\<lambda>s.
     if \<exists>r \<in> set (ss_subs s). us_ID (row_sub r) = i
     then (Inr (), s\<lparr>ss_subs := updRows (\<lambda>r. us_ID (row_sub r) = i)
             (\<lambda>r. r\<lparr>row_sub := (f (row_sub r))\<lparr>us_UpdatedAt := e_now s\<rparr>\<rparr>) (ss_subs s)\<rparr>)
     else (Inl ErrSubscriptionNotFound, s))"

definition ExtendExpiry :: "int \<Rightarrow> int \<Rightarrow> ('a substate_scheme, unit) proc" where
  "ExtendExpiry i t = updateSub i (\<lambda>r. r\<lparr>us_ExpiresAt := t\<rparr>)"

definition UpdateStatus :: "int \<Rightarrow> sub_status \<Rightarrow> ('a substate_scheme, unit) proc" where
  "UpdateStatus i st = updateSub i (\<lambda>r. r\<lparr>us_Status := st\<rparr>)"

definition UpdateNotes :: "int \<Rightarrow> string \<Rightarrow> ('a substate_scheme, unit) proc" where
  "UpdateNotes i n = updateSub i (\<lambda>r. r\<lparr>us_Notes := n\<rparr>)"

definition ActivateWindows :: "int \<Rightarrow> int \<Rightarrow> ('a substate_scheme, unit) proc" where
  "ActivateWindows i t = updateSub i (\<lambda>r. r\<lparr>us_DailyWindowStart := Some t, us_WeeklyWindowStart := Some t,
     us_MonthlyWindowStart := Some t\<rparr>)"

definition ResetDailyUsage :: "int \<Rightarrow> int \<Rightarrow> ('a substate_scheme, unit) proc" where
  "ResetDailyUsage i t = updateSub i (\<lambda>r. r\<lparr>us_DailyUsageUSD := Fin 0, us_DailyWindowStart := Some t\<rparr>)"

definition ResetWeeklyUsage :: "int \<Rightarrow> int \<Rightarrow> ('a substate_scheme, unit) proc" where
  "ResetWeeklyUsage i t = updateSub i (\<lambda>r. r\<lparr>us_WeeklyUsageUSD := Fin 0, us_WeeklyWindowStart := Some t\<rparr>)"

definition ResetMonthlyUsage :: "int \<Rightarrow> int \<Rightarrow> ('a substate_scheme, unit) proc" where
  "ResetMonthlyUsage i t = updateSub i (\<lambda>r. r\<lparr>us_MonthlyUsageUSD := Fin 0, us_MonthlyWindowStart := Some t\<rparr>)"

definition addUsage :: "pgnum \<Rightarrow> f64 \<Rightarrow> UserSubscription \<Rightarrow> UserSubscription" where
  "addUsage N c r = r\<lparr>us_DailyUsageUSD := n_add N (us_DailyUsageUSD r) c, us_WeeklyUsageUSD := n_add N (us_WeeklyUsageUSD r) c,
     us_MonthlyUsageUSD := n_add N (us_MonthlyUsageUSD r) c\<rparr>"

definition chargeable :: "'a substate_scheme \<Rightarrow> int \<Rightarrow> sub_row \<Rightarrow> bool" where
  "chargeable s i r \<longleftrightarrow> us_ID (row_sub r) = i \<and> \<not> row_deleted r \<and> ss_groups s (us_GroupID (row_sub r)) \<noteq> None"

definition IncrementUsage :: "pgnum \<Rightarrow> int \<Rightarrow> f64 \<Rightarrow> ('a substate_scheme, unit) proc" where
  "IncrementUsage N i c = db ''increment usage'' (\<lambda>s.
     if \<exists>r \<in> set (ss_subs s). chargeable s i r
     then (Inr (), s\<lparr>ss_subs := updRows (chargeable s i)
             (\<lambda>r. r\<lparr>row_sub := (addUsage N c (row_sub r))\<lparr>us_UpdatedAt := e_now s\<rparr>\<rparr>) (ss_subs s)\<rparr>)
     else (Inl ErrSubscriptionNotFound, s))"

definition overdue :: "int \<Rightarrow> sub_row \<Rightarrow> bool" where
  "overdue now r \<longleftrightarrow> us_Status (row_sub r) = SubActive \<and> us_ExpiresAt (row_sub r) \<le> now"

text \<open>A bulk update, which ent does not filter by deleted_at either; it returns the number of rows.\<close>

definition BatchUpdateExpiredStatus :: "('a substate_scheme, int) proc" where
  "BatchUpdateExpiredStatus = db ''batch expire'' (\<lambda>s.
     (Inr (int (length (filter (overdue (e_now s)) (ss_subs s)))),
      s\<lparr>ss_subs := updRows (overdue (e_now s))
         (\<lambda>r. r\<lparr>row_sub := (row_sub r)\<lparr>us_Status := SubExpired, us_UpdatedAt := e_now s\<rparr>\<rparr>) (ss_subs s)\<rparr>))"

definition newestFirst :: "sub_row \<Rightarrow> sub_row \<Rightarrow> bool" where
  "newestFirst a b \<longleftrightarrow> us_CreatedAt (row_sub b) \<le> us_CreatedAt (row_sub a)"

definition subListByUserID :: "int \<Rightarrow> ('a substate_scheme, UserSubscription list) proc" where
  "subListByUserID u = db ''list subscriptions'' (\<lambda>s. (Inr (map (loadSub s) (sortBy newestFirst
     (filter (\<lambda>r. \<not> row_deleted r \<and> us_UserID (row_sub r) = u) (ss_subs s)))), s))"

definition subListActiveByUserID :: "int \<Rightarrow> ('a substate_scheme, UserSubscription list) proc" where
  "subListActiveByUserID u = db ''list active subscriptions'' (\<lambda>s. (Inr (map (loadSub s) (sortBy newestFirst
     (filter (\<lambda>r. \<not> row_deleted r \<and> us_UserID (row_sub r) = u \<and> us_Status (row_sub r) = SubActive
                  \<and> e_now s < us_ExpiresAt (row_sub r)) (ss_subs s)))), s))"

subsection \<open>subscription_grants\<close>

text \<open>The foreign key of migration 081 refuses a grant of a subscription without a row.\<close>

definition grantCreate :: "int \<Rightarrow> int \<Rightarrow> int \<Rightarrow> ('a substate_scheme, SubscriptionGrant) proc" where
  "grantCreate sub startsAt expiresAt = db ''create grant'' (\<lambda>s.
     if \<not> (\<exists>r \<in> set (ss_subs s). us_ID (row_sub r) = sub) then (Inl (Internal ''foreign key''), s)
     else let g = \<lparr>sg_ID = ss_nextGrant s, sg_SubscriptionID = sub,
              sg_StartsAt = (if startsAt = zeroTime then e_now s else startsAt), sg_ExpiresAt = expiresAt,
              sg_DailyUsageUSD = Fin 0, sg_WeeklyUsageUSD = Fin 0, sg_MonthlyUsageUSD = Fin 0,
              sg_CreatedAt = e_now s, sg_UpdatedAt = e_now s, sg_Deleted = False\<rparr>
     in (Inr g, s\<lparr>ss_grants := ss_grants s @ [g], ss_nextGrant := ss_nextGrant s + 1\<rparr>))"

definition grantOf :: "int \<Rightarrow> SubscriptionGrant \<Rightarrow> bool" where
  "grantOf sub g \<longleftrightarrow> sg_SubscriptionID g = sub \<and> \<not> sg_Deleted g"

definition grantActiveAt :: "int \<Rightarrow> SubscriptionGrant \<Rightarrow> bool" where
  "grantActiveAt t g \<longleftrightarrow> sg_StartsAt g \<le> t \<and> t < sg_ExpiresAt g"

definition activeGrants :: "int \<Rightarrow> int \<Rightarrow> 'a substate_scheme \<Rightarrow> SubscriptionGrant list" where
  "activeGrants sub t s = filter (\<lambda>g. grantOf sub g \<and> grantActiveAt t g) (ss_grants s)"

definition earliestExpiry :: "SubscriptionGrant \<Rightarrow> SubscriptionGrant \<Rightarrow> bool" where
  "earliestExpiry a b \<longleftrightarrow> sg_ExpiresAt a < sg_ExpiresAt b \<or> (sg_ExpiresAt a = sg_ExpiresAt b \<and> sg_ID a \<le> sg_ID b)"

definition CountActiveBySubscriptionID :: "int \<Rightarrow> int \<Rightarrow> ('a substate_scheme, int) proc" where
  "CountActiveBySubscriptionID sub t = db ''count grants'' (\<lambda>s. (Inr (int (length (activeGrants sub t s))), s))"

definition ListActiveBySubscriptionID :: "int \<Rightarrow> int \<Rightarrow> ('a substate_scheme, SubscriptionGrant list) proc" where
  "ListActiveBySubscriptionID sub t = db ''list grants'' (\<lambda>s. (Inr (sortBy earliestExpiry (activeGrants sub t s)), s))"

definition ListUnexpiredBySubscriptionID :: "int \<Rightarrow> int \<Rightarrow> ('a substate_scheme, SubscriptionGrant list) proc" where
  "ListUnexpiredBySubscriptionID sub t = db ''list grants'' (\<lambda>s. (Inr (sortBy
     (\<lambda>a b. sg_StartsAt a < sg_StartsAt b \<or> (sg_StartsAt a = sg_StartsAt b \<and> earliestExpiry a b))
     (filter (\<lambda>g. grantOf sub g \<and> t < sg_ExpiresAt g) (ss_grants s))), s))"

definition columnSum :: "pgnum \<Rightarrow> f64 list \<Rightarrow> f64" where
  "columnSum N xs = (if xs = [] then Fin 0 else n_sum N xs)"

definition SumActiveUsageBySubscriptionID :: "pgnum \<Rightarrow> int \<Rightarrow> int \<Rightarrow> ('a substate_scheme, f64 \<times> f64 \<times> f64) proc" where
  "SumActiveUsageBySubscriptionID N sub t = db ''sum grants'' (\<lambda>s. let gs = activeGrants sub t s in
     (Inr (columnSum N (map sg_DailyUsageUSD gs), columnSum N (map sg_WeeklyUsageUSD gs),
           columnSum N (map sg_MonthlyUsageUSD gs)), s))"

definition MinActiveExpiresAtBySubscriptionID :: "int \<Rightarrow> int \<Rightarrow> ('a substate_scheme, int option) proc" where
  "MinActiveExpiresAtBySubscriptionID sub t = db ''min expiry'' (\<lambda>s.
     (Inr (map_option sg_ExpiresAt (firstBy earliestExpiry (activeGrants sub t s))), s))"

definition ListActiveForUpdate :: "int \<Rightarrow> int \<Rightarrow> ('a substate_scheme, SubscriptionGrant list) proc" where
  "ListActiveForUpdate sub t = db ''lock grants'' (\<lambda>s. (Inr (sortBy earliestExpiry (activeGrants sub t s)), s))"

definition tailGrant :: "int \<Rightarrow> 'a substate_scheme \<Rightarrow> SubscriptionGrant option" where
  "tailGrant sub s = firstBy (\<lambda>a b. earliestExpiry b a) (filter (grantOf sub) (ss_grants s))"

definition GetTailGrantBySubscriptionID :: "int \<Rightarrow> ('a substate_scheme, SubscriptionGrant) proc" where
  "GetTailGrantBySubscriptionID sub = db ''tail grant'' (\<lambda>s.
     (case tailGrant sub s of None \<Rightarrow> Inl ErrSubscriptionGrantNotFound | Some g \<Rightarrow> Inr g, s))"

definition updateGrant :: "int \<Rightarrow> (SubscriptionGrant \<Rightarrow> SubscriptionGrant) \<Rightarrow> ('a substate_scheme, unit) proc" where
  "updateGrant i f = db ''update grant'' (\<lambda>s.
     if \<exists>g \<in> set (ss_grants s). sg_ID g = i
     then (Inr (), s\<lparr>ss_grants := updRows (\<lambda>g. sg_ID g = i) (\<lambda>g. (f g)\<lparr>sg_UpdatedAt := e_now s\<rparr>) (ss_grants s)\<rparr>)
     else (Inl ErrSubscriptionGrantNotFound, s))"

definition grantUpdateExpiresAt :: "int \<Rightarrow> int \<Rightarrow> ('a substate_scheme, unit) proc" where
  "grantUpdateExpiresAt i t = updateGrant i (\<lambda>g. g\<lparr>sg_ExpiresAt := t\<rparr>)"

definition updateGrantsOf :: "int \<Rightarrow> (SubscriptionGrant \<Rightarrow> SubscriptionGrant) \<Rightarrow> ('a substate_scheme, unit) proc" where
  "updateGrantsOf sub f = db ''reset grants'' (modP (\<lambda>s.
     s\<lparr>ss_grants := updRows (grantOf sub) (\<lambda>g. (f g)\<lparr>sg_UpdatedAt := e_now s\<rparr>) (ss_grants s)\<rparr>))"

definition ResetDailyUsageBySubscriptionID :: "int \<Rightarrow> ('a substate_scheme, unit) proc" where
  "ResetDailyUsageBySubscriptionID sub = updateGrantsOf sub (\<lambda>g. g\<lparr>sg_DailyUsageUSD := Fin 0\<rparr>)"

definition ResetWeeklyUsageBySubscriptionID :: "int \<Rightarrow> ('a substate_scheme, unit) proc" where
  "ResetWeeklyUsageBySubscriptionID sub = updateGrantsOf sub (\<lambda>g. g\<lparr>sg_WeeklyUsageUSD := Fin 0\<rparr>)"

definition ResetMonthlyUsageBySubscriptionID :: "int \<Rightarrow> ('a substate_scheme, unit) proc" where
  "ResetMonthlyUsageBySubscriptionID sub = updateGrantsOf sub (\<lambda>g. g\<lparr>sg_MonthlyUsageUSD := Fin 0\<rparr>)"

subsection \<open>Allocating usage to the active grants\<close>

definition capWith :: "bool \<Rightarrow> f64 option \<Rightarrow> f64 \<Rightarrow> f64 \<Rightarrow> f64" where
  "capWith has l used cap = (if has then fmin cap (fsub (the l) used) else cap)"

text \<open>What a grant can still take under the group's limits; no group or no limit is +Inf.\<close>

definition grantCap :: "Group option \<Rightarrow> f64 \<Rightarrow> f64 \<Rightarrow> f64 \<Rightarrow> f64" where
  "grantCap og daily weekly monthly =
    (let cap = (case og of
         None \<Rightarrow> PInf
       | Some g \<Rightarrow> capWith (HasMonthlyLimit g) (g_MonthlyLimitUSD g) monthly
                    (capWith (HasWeeklyLimit g) (g_WeeklyLimitUSD g) weekly
                      (capWith (HasDailyLimit g) (g_DailyLimitUSD g) daily PInf)))
     in if flt cap (Fin 0) then Fin 0 else cap)"

definition allocationFor :: "f64 \<Rightarrow> f64 \<Rightarrow> bool \<Rightarrow> f64" where
  "allocationFor remaining cap isLast =
    (let a = (if cap \<noteq> PInf then fmin remaining cap else remaining)
     in if fle a (Fin 0) \<and> isLast then remaining else a)"

definition addGrantUsage :: "pgnum \<Rightarrow> f64 \<Rightarrow> SubscriptionGrant \<Rightarrow> SubscriptionGrant" where
  "addGrantUsage N c g = g\<lparr>sg_DailyUsageUSD := n_add N (sg_DailyUsageUSD g) c,
     sg_WeeklyUsageUSD := n_add N (sg_WeeklyUsageUSD g) c, sg_MonthlyUsageUSD := n_add N (sg_MonthlyUsageUSD g) c\<rparr>"

fun allocateLoop :: "pgnum \<Rightarrow> Group option \<Rightarrow> f64 \<Rightarrow> SubscriptionGrant list \<Rightarrow> ('a substate_scheme, unit) proc" where
  "allocateLoop N og remaining [] = ret ()"
| "allocateLoop N og remaining (g # gs) =
    (if fle remaining (Fin 0) then ret ()
     else let cap = grantCap og (sg_DailyUsageUSD g) (sg_WeeklyUsageUSD g) (sg_MonthlyUsageUSD g);
              a = allocationFor remaining cap (gs = [])
          in if fle a (Fin 0) then allocateLoop N og remaining gs
             else bindP (updateGrant (sg_ID g) (addGrantUsage N a)) (\<lambda>_. allocateLoop N og (fsub remaining a) gs))"

definition AllocateUsageToActiveGrants ::
  "pgnum \<Rightarrow> int \<Rightarrow> Group option \<Rightarrow> int \<Rightarrow> f64 \<Rightarrow> ('a substate_scheme, unit) proc" where
  "AllocateUsageToActiveGrants N sub og t cost =
    (if fle cost (Fin 0) then ret ()
     else bindP (ListActiveForUpdate sub t) (\<lambda>grants.
       if grants = []
       then bindP (GetTailGrantBySubscriptionID sub) (\<lambda>tail. updateGrant (sg_ID tail) (addGrantUsage N cost))
       else allocateLoop N og cost grants))"

end
