(* ===== verification/SubscriptionService.thy ===== *)
theory SubscriptionService
  imports SubscriptionStore
begin

section \<open>The subscription service\<close>

text \<open>
  service/subscription_service.go: assigning, extending, stacking, revoking and resetting
  subscriptions, and reading them with their quota snapshot.  A procedure gets the numeric
  operations of the database as \<open>N\<close> where it reads a sum of grants, and \<open>inTx\<close>, whether its context
  already carries a transaction, where it opens one of its own.  fmt.Errorf with the percent-w verb keeps the wrapped
  error's identity, so wrapping is not modelled.  The asynchronous invalidation of the billing cache
  is an entry of \<open>ss_billingInvalidated\<close>.
\<close>

definition subCacheKey :: "int \<Rightarrow> int \<Rightarrow> string" where
  "subCacheKey u g = ''sub:'' @ itoa u @ '':'' @ itoa g"

definition InvalidateSubCache :: "int \<Rightarrow> int \<Rightarrow> ('a substate_scheme, unit) proc" where
  "InvalidateSubCache u g = modP (\<lambda>s. if \<not> ss_l1on s then s else s\<lparr>ss_l1 := (ss_l1 s)(subCacheKey u g := None)\<rparr>)"

definition billingInvalidate :: "int \<Rightarrow> int \<Rightarrow> ('a substate_scheme, unit) proc" where
  "billingInvalidate u g = modP (\<lambda>s. s\<lparr>ss_billingInvalidated := (u, g) # ss_billingInvalidated s\<rparr>)"

definition invalidateCaches :: "int \<Rightarrow> int \<Rightarrow> ('a substate_scheme, unit) proc" where
  "invalidateCaches u g = bindP (InvalidateSubCache u g) (\<lambda>_. billingInvalidate u g)"

text \<open>A rollback restores the tables; caches and the invalidation log stay.\<close>

definition undoSub :: "'a substate_scheme \<Rightarrow> 'a substate_scheme \<Rightarrow> 'a substate_scheme" where
  "undoSub s s' = s\<lparr>e_faults := e_faults s', ss_l1 := ss_l1 s',
     ss_billingInvalidated := ss_billingInvalidated s'\<rparr>"

definition svcWithTx :: "bool \<Rightarrow> ('a substate_scheme, 'b) proc \<Rightarrow> ('a substate_scheme, 'b) proc" where
  "svcWithTx inTx fn = (if inTx then fn else withTx undoSub fn)"

subsection \<open>Reading\<close>

definition populateQuotaSnapshot :: "pgnum \<Rightarrow> UserSubscription \<Rightarrow> int \<Rightarrow> ('a substate_scheme, UserSubscription) proc" where
  "populateQuotaSnapshot N sub t =
    (let s0 = sub\<lparr>us_QuotaMultiplier := 1\<rparr> in
     tryP (CountActiveBySubscriptionID (us_ID sub) t) (\<lambda>_. ret s0) (\<lambda>count.
       let s1 = (if 0 < count then s0\<lparr>us_QuotaMultiplier := count\<rparr> else s0) in
       tryP (SumActiveUsageBySubscriptionID N (us_ID sub) t) (\<lambda>_. ret s1) (\<lambda>(d, w, m).
         ret (s1\<lparr>us_DailyUsageUSD := d, us_WeeklyUsageUSD := w, us_MonthlyUsageUSD := m\<rparr>))))"

definition svcGetByID :: "pgnum \<Rightarrow> int \<Rightarrow> ('a substate_scheme, UserSubscription) proc" where
  "svcGetByID N i = bindP (subGetByID i) (\<lambda>sub. bindP nowP (populateQuotaSnapshot N sub))"

text \<open>
  The L1 cache may lose an entry at any time (it is bounded and its entries expire): \<open>hit\<close> says
  that the entry, if there is one, is still there, and \<open>kept\<close> that the write after a miss is taken.
\<close>

definition GetActiveSubscription :: "pgnum \<Rightarrow> bool \<Rightarrow> bool \<Rightarrow> int \<Rightarrow> int \<Rightarrow> ('a substate_scheme, UserSubscription) proc" where
  "GetActiveSubscription N hit kept u g =
    (let key = subCacheKey u g in
     bindP (getP (\<lambda>s. if ss_l1on s \<and> hit then ss_l1 s key else None)) (\<lambda>c. case c of
       Some sub \<Rightarrow> ret sub
     | None \<Rightarrow>
         bindP (subGetActiveByUserIDAndGroupID u g) (\<lambda>sub0.
         bindP nowP (\<lambda>now.
         bindP (populateQuotaSnapshot N sub0 now) (\<lambda>sub.
         bindP (modP (\<lambda>s. if ss_l1on s \<and> kept then s\<lparr>ss_l1 := (ss_l1 s)(key \<mapsto> sub)\<rparr> else s)) (\<lambda>_.
         ret sub))))))"

definition ListUserSubscriptions :: "pgnum \<Rightarrow> int \<Rightarrow> ('a substate_scheme, UserSubscription list) proc" where
  "ListUserSubscriptions N u =
     bindP (subListByUserID u) (\<lambda>subs.
     bindP nowP (\<lambda>now.
     bindP (mapP (\<lambda>sub. populateQuotaSnapshot N sub now) subs) (\<lambda>subs1.
     bindP nowP (\<lambda>t. ret (normalizeSubscriptionStatus t (normalizeExpiredWindows t subs1))))))"

definition ListActiveUserSubscriptions :: "pgnum \<Rightarrow> int \<Rightarrow> ('a substate_scheme, UserSubscription list) proc" where
  "ListActiveUserSubscriptions N u =
     bindP (subListActiveByUserID u) (\<lambda>subs.
     bindP nowP (\<lambda>now.
     bindP (mapP (\<lambda>sub. populateQuotaSnapshot N sub now) subs) (\<lambda>subs1.
     bindP nowP (\<lambda>t. ret (normalizeExpiredWindows t subs1)))))"

definition GetSubscriptionProgress :: "int \<Rightarrow> ('a substate_scheme, SubscriptionProgress) proc" where
  "GetSubscriptionProgress i =
     tryP (subGetByID i) (\<lambda>_. fail ErrSubscriptionNotFound) (\<lambda>sub.
       bindP (case us_Group sub of Some g \<Rightarrow> ret g | None \<Rightarrow> groupGetByID (us_GroupID sub)) (\<lambda>g.
       bindP nowP (\<lambda>now. ret (calculateProgress now sub g))))"

definition GetUserSubscriptionsWithProgress :: "int \<Rightarrow> ('a substate_scheme, SubscriptionProgress list) proc" where
  "GetUserSubscriptionsWithProgress u =
     bindP (subListActiveByUserID u) (\<lambda>subs.
     bindP nowP (\<lambda>now. ret (concat (map (\<lambda>sub. case us_Group sub of
        None \<Rightarrow> [] | Some g \<Rightarrow> [calculateProgress now sub g]) subs))))"

definition ValidateSubscription :: "UserSubscription \<Rightarrow> ('a substate_scheme, unit) proc" where
  "ValidateSubscription sub =
    (if us_Status sub = SubExpired then fail ErrSubscriptionExpired
     else if us_Status sub = SubSuspended then fail ErrSubscriptionSuspended
     else bindP nowP (\<lambda>now.
       if IsExpired now sub
       then bindP (ignoreP (UpdateStatus (us_ID sub) SubExpired)) (\<lambda>_. fail ErrSubscriptionExpired)
       else ret ()))"

subsection \<open>Creating and assigning\<close>

definition newExpiry :: "int \<Rightarrow> int \<Rightarrow> int" where
  "newExpiry from days = (let e = addDays from days in if MaxExpiresAt < e then MaxExpiresAt else e)"

definition newSubscription :: "int \<Rightarrow> AssignSubscriptionInput \<Rightarrow> UserSubscription" where
  "newSubscription now input =
    \<lparr>us_ID = 0, us_UserID = ai_UserID input, us_GroupID = ai_GroupID input, us_StartsAt = now,
     us_ExpiresAt = newExpiry now (normalizeAssignValidityDays (ai_ValidityDays input)), us_Status = SubActive,
     us_QuotaMultiplier = 0, us_DailyWindowStart = None, us_WeeklyWindowStart = None, us_MonthlyWindowStart = None,
     us_DailyUsageUSD = Fin 0, us_WeeklyUsageUSD = Fin 0, us_MonthlyUsageUSD = Fin 0,
     us_AssignedBy = (if 0 < ai_AssignedBy input then Some (ai_AssignedBy input) else None),
     us_AssignedAt = now, us_Notes = ai_Notes input, us_CreatedAt = now, us_UpdatedAt = now, us_Group = None\<rparr>"

text \<open>The body of its transaction: the row and its first grant.\<close>

definition insertWithGrant :: "UserSubscription \<Rightarrow> ('a substate_scheme, UserSubscription) proc" where
  "insertWithGrant sub = bindP (subCreate sub) (\<lambda>c.
     bindP (grantCreate (us_ID c) (us_StartsAt c) (us_ExpiresAt c)) (\<lambda>_. ret c))"

definition createSubscription ::
  "pgnum \<Rightarrow> bool \<Rightarrow> AssignSubscriptionInput \<Rightarrow> ('a substate_scheme, UserSubscription) proc" where
  "createSubscription N inTx input =
     bindP nowP (\<lambda>now.
     bindP (svcWithTx inTx (insertWithGrant (newSubscription now input))) (\<lambda>c. svcGetByID N (us_ID c)))"

text \<open>The result has the subscription and whether an existing one was reused.\<close>

definition assignSubscriptionWithReuse ::
  "pgnum \<Rightarrow> bool \<Rightarrow> AssignSubscriptionInput \<Rightarrow> ('a substate_scheme, UserSubscription \<times> bool) proc" where
  "assignSubscriptionWithReuse N inTx input =
     bindP (groupGetByID (ai_GroupID input)) (\<lambda>group.
     if \<not> IsSubscriptionType group then fail ErrGroupNotSubscriptionType
     else bindP (subExists (ai_UserID input) (ai_GroupID input)) (\<lambda>exists.
       if exists
       then bindP (subGetByUserIDAndGroupID (ai_UserID input) (ai_GroupID input)) (\<lambda>sub.
         if detectAssignSemanticConflict sub input \<noteq> None then fail ErrSubscriptionAssignConflict
         else ret (sub, True))
       else bindP (createSubscription N inTx input) (\<lambda>sub.
         bindP (invalidateCaches (ai_UserID input) (ai_GroupID input)) (\<lambda>_. ret (sub, False)))))"

definition AssignSubscription ::
  "pgnum \<Rightarrow> bool \<Rightarrow> AssignSubscriptionInput \<Rightarrow> ('a substate_scheme, UserSubscription) proc" where
  "AssignSubscription N inTx input = bindP (assignSubscriptionWithReuse N inTx input) (\<lambda>(sub, _). ret sub)"

record BulkAssignResult =
  ba_SuccessCount :: int
  ba_CreatedCount :: int
  ba_ReusedCount :: int
  ba_FailedCount :: int
  ba_Subscriptions :: "UserSubscription list"
  ba_Errors :: "(int \<times> err) list"
  ba_Statuses :: "int \<rightharpoonup> string"

fun bulkLoop ::
  "pgnum \<Rightarrow> AssignSubscriptionInput \<Rightarrow> int list \<Rightarrow> BulkAssignResult \<Rightarrow> ('a substate_scheme, BulkAssignResult) proc" where
  "bulkLoop N input [] r = ret r"
| "bulkLoop N input (u # us) r =
     tryP (assignSubscriptionWithReuse N False (input\<lparr>ai_UserID := u\<rparr>))
       (\<lambda>e. bulkLoop N input us (r\<lparr>ba_FailedCount := ba_FailedCount r + 1,
              ba_Errors := ba_Errors r @ [(u, e)], ba_Statuses := (ba_Statuses r)(u \<mapsto> ''failed'')\<rparr>))
       (\<lambda>(sub, reused).
          let r1 = r\<lparr>ba_SuccessCount := ba_SuccessCount r + 1, ba_Subscriptions := ba_Subscriptions r @ [sub]\<rparr>
          in bulkLoop N input us
            (if reused then r1\<lparr>ba_ReusedCount := ba_ReusedCount r1 + 1, ba_Statuses := (ba_Statuses r1)(u \<mapsto> ''reused'')\<rparr>
             else r1\<lparr>ba_CreatedCount := ba_CreatedCount r1 + 1, ba_Statuses := (ba_Statuses r1)(u \<mapsto> ''created'')\<rparr>))"

definition BulkAssignSubscription ::
  "pgnum \<Rightarrow> int list \<Rightarrow> AssignSubscriptionInput \<Rightarrow> ('a substate_scheme, BulkAssignResult) proc" where
  "BulkAssignSubscription N users input = bulkLoop N input users
     \<lparr>ba_SuccessCount = 0, ba_CreatedCount = 0, ba_ReusedCount = 0, ba_FailedCount = 0,
      ba_Subscriptions = [], ba_Errors = [], ba_Statuses = Map.empty\<rparr>"

subsection \<open>Extending, stacking and revoking\<close>

definition appendNotes :: "string \<Rightarrow> string \<Rightarrow> string" where
  "appendNotes old new = (if old \<noteq> [] then old @ [CHR 0x0A] else old) @ new"

definition AssignOrExtendSubscription ::
  "pgnum \<Rightarrow> bool \<Rightarrow> AssignSubscriptionInput \<Rightarrow> ('a substate_scheme, UserSubscription \<times> bool) proc" where
  "AssignOrExtendSubscription N inTx input =
     bindP (groupGetByID (ai_GroupID input)) (\<lambda>group.
     if \<not> IsSubscriptionType group then fail ErrGroupNotSubscriptionType
     else bindP (tryP (subGetByUserIDAndGroupID (ai_UserID input) (ai_GroupID input))
                  (\<lambda>_. ret None) (\<lambda>sub. ret (Some sub))) (\<lambda>existing.
       let days = normalizeAssignValidityDays (ai_ValidityDays input) in
       case existing of
         Some sub \<Rightarrow>
           bindP nowP (\<lambda>now.
           let from = (if now < us_ExpiresAt sub then us_ExpiresAt sub else now);
               expiresAt = newExpiry from days
           in bindP (withTx undoSub (
                bindP (ExtendExpiry (us_ID sub) expiresAt) (\<lambda>_.
                bindP (if us_Status sub \<noteq> SubActive then UpdateStatus (us_ID sub) SubActive else ret ()) (\<lambda>_.
                if ai_Notes input \<noteq> [] then UpdateNotes (us_ID sub) (appendNotes (us_Notes sub) (ai_Notes input)) else ret ())))) (\<lambda>_.
              bindP (invalidateCaches (ai_UserID input) (ai_GroupID input)) (\<lambda>_.
              bindP (subGetByID (us_ID sub)) (\<lambda>updated. ret (updated, True)))))
       | None \<Rightarrow>
           bindP (createSubscription N inTx input) (\<lambda>sub.
           bindP (invalidateCaches (ai_UserID input) (ai_GroupID input)) (\<lambda>_. ret (sub, False)))))"

definition SubscriptionModeExtend :: string where "SubscriptionModeExtend = ''extend''"
definition SubscriptionModeStack :: string where "SubscriptionModeStack = ''stack''"

definition ErrInvalidSubscriptionMode :: err where "ErrInvalidSubscriptionMode = AppErr ''INVALID_SUBSCRIPTION_MODE''"
definition ErrSubscriptionRedeemChoiceRequired :: err where
  "ErrSubscriptionRedeemChoiceRequired = AppErr ''SUBSCRIPTION_REDEEM_CHOICE_REQUIRED''"

record ApplyRedeemSubscriptionInput =
  ri_UserID :: int
  ri_GroupID :: int
  ri_ValidityDays :: int
  ri_Mode :: string
  ri_Notes :: string

text \<open>The extend branch of ApplyRedeemSubscription: the tail grant and the subscription grow together.\<close>

definition redeemExtend :: "UserSubscription \<Rightarrow> int \<Rightarrow> ('a substate_scheme, unit) proc" where
  "redeemExtend sub days =
     bindP (GetTailGrantBySubscriptionID (us_ID sub)) (\<lambda>tail.
     let e = newExpiry (sg_ExpiresAt tail) days;
         expiresAt = (if e < sg_StartsAt tail then sg_StartsAt tail else e)
     in bindP (grantUpdateExpiresAt (sg_ID tail) expiresAt) (\<lambda>_. ExtendExpiry (us_ID sub) expiresAt))"

text \<open>The stack branch: a new grant from now on, next to the ones there are.\<close>

definition redeemStack :: "UserSubscription \<Rightarrow> int \<Rightarrow> int \<Rightarrow> ('a substate_scheme, unit) proc" where
  "redeemStack sub now days =
    (let e = newExpiry now days; expiresAt = (if e < now then now else e) in
     bindP (grantCreate (us_ID sub) now expiresAt) (\<lambda>_.
     ExtendExpiry (us_ID sub) (if us_ExpiresAt sub < expiresAt then expiresAt else us_ExpiresAt sub)))"

definition ApplyRedeemSubscription ::
  "pgnum \<Rightarrow> bool \<Rightarrow> ApplyRedeemSubscriptionInput \<Rightarrow> ('a substate_scheme, UserSubscription) proc" where
  "ApplyRedeemSubscription N inTx input =
     bindP (groupGetByID (ri_GroupID input)) (\<lambda>group.
     if \<not> IsSubscriptionType group then fail ErrGroupNotSubscriptionType
     else let days = normalizeAssignValidityDays (ri_ValidityDays input);
              mode = (if ri_Mode input = [] then SubscriptionModeExtend else ri_Mode input) in
       if mode \<noteq> SubscriptionModeExtend \<and> mode \<noteq> SubscriptionModeStack then fail ErrInvalidSubscriptionMode
       else tryP (subGetByUserIDAndGroupID (ri_UserID input) (ri_GroupID input))
         (\<lambda>e. if e \<noteq> ErrSubscriptionNotFound then fail e
              else createSubscription N inTx \<lparr>ai_UserID = ri_UserID input, ai_GroupID = ri_GroupID input,
                     ai_ValidityDays = days, ai_AssignedBy = 0, ai_Notes = ri_Notes input\<rparr>)
         (\<lambda>sub.
            bindP nowP (\<lambda>now.
            bindP (if mode = SubscriptionModeExtend \<and> now < us_ExpiresAt sub
                   then redeemExtend sub days else redeemStack sub now days) (\<lambda>_.
            bindP (if us_Status sub \<noteq> SubActive then UpdateStatus (us_ID sub) SubActive else ret ()) (\<lambda>_.
            bindP (if ri_Notes input \<noteq> []
                   then ignoreP (UpdateNotes (us_ID sub) (appendNotes (us_Notes sub) (ri_Notes input))) else ret ()) (\<lambda>_.
            bindP (invalidateCaches (us_UserID sub) (us_GroupID sub)) (\<lambda>_.
            svcGetByID N (us_ID sub))))))))"

record AssignSubscriptionWithModeInput =
  wi_UserID :: int
  wi_GroupID :: int
  wi_ValidityDays :: int
  wi_AssignedBy :: int
  wi_Notes :: string
  wi_Mode :: string

definition AssignSubscriptionWithMode ::
  "pgnum \<Rightarrow> bool \<Rightarrow> AssignSubscriptionWithModeInput \<Rightarrow> ('a substate_scheme, UserSubscription) proc" where
  "AssignSubscriptionWithMode N inTx input =
     bindP (groupGetByID (wi_GroupID input)) (\<lambda>group.
     if \<not> IsSubscriptionType group then fail ErrGroupNotSubscriptionType
     else let days = normalizeAssignValidityDays (wi_ValidityDays input); mode = wi_Mode input in
       if mode \<noteq> [] \<and> mode \<noteq> SubscriptionModeExtend \<and> mode \<noteq> SubscriptionModeStack then fail ErrInvalidSubscriptionMode
       else tryP (subGetByUserIDAndGroupID (wi_UserID input) (wi_GroupID input))
         (\<lambda>e. if e \<noteq> ErrSubscriptionNotFound then fail e
              else AssignSubscription N inTx \<lparr>ai_UserID = wi_UserID input, ai_GroupID = wi_GroupID input,
                     ai_ValidityDays = days, ai_AssignedBy = wi_AssignedBy input, ai_Notes = wi_Notes input\<rparr>)
         (\<lambda>sub.
            bindP nowP (\<lambda>now.
            if now < us_ExpiresAt sub \<and> (us_Status sub = SubActive \<or> us_Status sub = SubSuspended) \<and> mode = []
            then bindP (populateQuotaSnapshot N sub now) (\<lambda>_. fail ErrSubscriptionRedeemChoiceRequired)
            else bindP (svcWithTx inTx (ApplyRedeemSubscription N True \<lparr>ri_UserID = wi_UserID input,
                     ri_GroupID = wi_GroupID input, ri_ValidityDays = days, ri_Mode = mode, ri_Notes = wi_Notes input\<rparr>)) (\<lambda>updated.
                 ret (if 0 < wi_AssignedBy input \<and> us_AssignedBy updated = None
                      then updated\<lparr>us_AssignedBy := Some (wi_AssignedBy input)\<rparr> else updated)))))"

definition RevokeSubscription :: "int \<Rightarrow> ('a substate_scheme, unit) proc" where
  "RevokeSubscription i =
     bindP (subGetByID i) (\<lambda>sub.
     bindP (subDelete i) (\<lambda>_. invalidateCaches (us_UserID sub) (us_GroupID sub)))"

definition ErrCannotShortenExpired :: err where "ErrCannotShortenExpired = AppErr ''CANNOT_SHORTEN_EXPIRED''"

definition ExtendSubscription :: "int \<Rightarrow> int \<Rightarrow> ('a substate_scheme, UserSubscription) proc" where
  "ExtendSubscription i days0 =
     tryP (subGetByID i) (\<lambda>_. fail ErrSubscriptionNotFound) (\<lambda>sub.
       let d1 = (if MaxValidityDays < days0 then MaxValidityDays else days0);
           days = (if d1 < - MaxValidityDays then - MaxValidityDays else d1)
       in bindP nowP (\<lambda>now.
         let isExpired = (\<not> now < us_ExpiresAt sub) in
         if isExpired \<and> days < 0 then fail ErrCannotShortenExpired
         else let expiresAt = newExpiry (if isExpired then now else us_ExpiresAt sub) days in
           if \<not> now < expiresAt then fail ErrAdjustWouldExpire
           else bindP (ExtendExpiry i expiresAt) (\<lambda>_.
                bindP (if us_Status sub = SubExpired then UpdateStatus i SubActive else ret ()) (\<lambda>_.
                bindP (invalidateCaches (us_UserID sub) (us_GroupID sub)) (\<lambda>_.
                subGetByID i)))))"

subsection \<open>Usage windows\<close>

definition startOfDay :: "('a substate_scheme, int) proc" where
  "startOfDay = getP (\<lambda>s. startOfDayIn (ss_zone s) (e_now s))"

definition CheckAndActivateWindow :: "UserSubscription \<Rightarrow> ('a substate_scheme, unit) proc" where
  "CheckAndActivateWindow sub =
    (if IsWindowActivated sub then ret () else bindP startOfDay (ActivateWindows (us_ID sub)))"

text \<open>One of the three blocks \<^verbatim>\<open>if needed { reset the row; reset the grants }\<close>.\<close>

definition resetBlock :: "bool \<Rightarrow> ('a substate_scheme, unit) proc \<Rightarrow> ('a substate_scheme, unit) proc \<Rightarrow> ('a substate_scheme, unit) proc" where
  "resetBlock needed row grants = (if needed then bindP row (\<lambda>_. grants) else ret ())"

definition AdminResetQuota :: "int \<Rightarrow> bool \<Rightarrow> bool \<Rightarrow> bool \<Rightarrow> ('a substate_scheme, UserSubscription) proc" where
  "AdminResetQuota i daily weekly monthly =
    (if \<not> daily \<and> \<not> weekly \<and> \<not> monthly then fail ErrInvalidInput
     else bindP (subGetByID i) (\<lambda>sub.
          bindP startOfDay (\<lambda>w.
          bindP (resetBlock daily (ResetDailyUsage (us_ID sub) w) (ResetDailyUsageBySubscriptionID (us_ID sub))) (\<lambda>_.
          bindP (resetBlock weekly (ResetWeeklyUsage (us_ID sub) w) (ResetWeeklyUsageBySubscriptionID (us_ID sub))) (\<lambda>_.
          bindP (resetBlock monthly (ResetMonthlyUsage (us_ID sub) w) (ResetMonthlyUsageBySubscriptionID (us_ID sub))) (\<lambda>_.
          bindP (invalidateCaches (us_UserID sub) (us_GroupID sub)) (\<lambda>_.
          subGetByID i)))))))"

definition CheckAndResetWindows :: "UserSubscription \<Rightarrow> ('a substate_scheme, UserSubscription) proc" where
  "CheckAndResetWindows sub =
     bindP startOfDay (\<lambda>w.
     bindP nowP (\<lambda>now.
     bindP (resetBlock (NeedsDailyReset now sub) (ResetDailyUsage (us_ID sub) w) (ResetDailyUsageBySubscriptionID (us_ID sub))) (\<lambda>_.
     let s1 = (if NeedsDailyReset now sub then sub\<lparr>us_DailyWindowStart := Some w, us_DailyUsageUSD := Fin 0\<rparr> else sub) in
     bindP (resetBlock (NeedsWeeklyReset now s1) (ResetWeeklyUsage (us_ID sub) w) (ResetWeeklyUsageBySubscriptionID (us_ID sub))) (\<lambda>_.
     let s2 = (if NeedsWeeklyReset now s1 then s1\<lparr>us_WeeklyWindowStart := Some w, us_WeeklyUsageUSD := Fin 0\<rparr> else s1) in
     bindP (resetBlock (NeedsMonthlyReset now s2) (ResetMonthlyUsage (us_ID sub) w) (ResetMonthlyUsageBySubscriptionID (us_ID sub))) (\<lambda>_.
     let s3 = (if NeedsMonthlyReset now s2 then s2\<lparr>us_MonthlyWindowStart := Some w, us_MonthlyUsageUSD := Fin 0\<rparr> else s2);
         changed = (NeedsDailyReset now sub \<or> NeedsWeeklyReset now s1 \<or> NeedsMonthlyReset now s2) in
     bindP (if changed then invalidateCaches (us_UserID sub) (us_GroupID sub) else ret ()) (\<lambda>_. ret s3))))))"

definition doWindowMaintenance :: "UserSubscription \<Rightarrow> ('a substate_scheme, unit) proc" where
  "doWindowMaintenance sub =
     bindP (if \<not> IsWindowActivated sub then ignoreP (CheckAndActivateWindow sub) else ret ()) (\<lambda>_.
     bindP (ignoreP (CheckAndResetWindows sub)) (\<lambda>_.
     InvalidateSubCache (us_UserID sub) (us_GroupID sub)))"

text \<open>\<open>queue\<close>: no maintenance queue, or whether the queue took the task (which then runs as is).\<close>

definition DoWindowMaintenance :: "bool option \<Rightarrow> UserSubscription \<Rightarrow> ('a substate_scheme, unit) proc" where
  "DoWindowMaintenance queue sub = (case queue of
       Some taken \<Rightarrow> (if taken then doWindowMaintenance sub else ret ())
     | None \<Rightarrow> doWindowMaintenance sub)"

definition RecordSubUsage :: "pgnum \<Rightarrow> int \<Rightarrow> f64 \<Rightarrow> ('a substate_scheme, unit) proc" where
  "RecordSubUsage N i cost = IncrementUsage N i cost"

subsection \<open>Usage of the grants\<close>

record SubscriptionGrantUsageWindow =
  uw_LimitUSD :: f64
  uw_UsedUSD :: f64
  uw_Percentage :: f64
  uw_Unlimited :: bool

record SubscriptionGrantUsageDetail =
  ud_GrantID :: int
  ud_StartsAt :: int
  ud_ExpiresAt :: int
  ud_DailyUsageUSD :: f64
  ud_WeeklyUsageUSD :: f64
  ud_MonthlyUsageUSD :: f64
  ud_Daily :: "SubscriptionGrantUsageWindow option"
  ud_Weekly :: "SubscriptionGrantUsageWindow option"
  ud_Monthly :: "SubscriptionGrantUsageWindow option"

record ActiveSubscriptionGrantUsageResponse =
  ur_SubscriptionID :: int
  ur_GroupID :: int
  ur_GroupName :: string
  ur_Grants :: "SubscriptionGrantUsageDetail list"

definition calcGrantUsageWindow :: "f64 \<Rightarrow> f64 option \<Rightarrow> SubscriptionGrantUsageWindow" where
  "calcGrantUsageWindow used limit = (case limit of
       None \<Rightarrow> \<lparr>uw_LimitUSD = Fin 0, uw_UsedUSD = used, uw_Percentage = Fin 0, uw_Unlimited = True\<rparr>
     | Some l \<Rightarrow>
         let p0 = (if flt (Fin 0) l then fmul (fdiv used l) (Fin 100) else Fin 0);
             p1 = (if flt (Fin 0) l \<and> flt (Fin 100) p0 then Fin 100 else p0);
             p = (if flt (Fin 0) l \<and> flt p1 (Fin 0) then Fin 0 else p1)
         in \<lparr>uw_LimitUSD = l, uw_UsedUSD = used, uw_Percentage = p, uw_Unlimited = False\<rparr>)"

definition grantDetail :: "Group \<Rightarrow> SubscriptionGrant \<Rightarrow> SubscriptionGrantUsageDetail" where
  "grantDetail grp g =
    \<lparr>ud_GrantID = sg_ID g, ud_StartsAt = sg_StartsAt g, ud_ExpiresAt = sg_ExpiresAt g,
     ud_DailyUsageUSD = sg_DailyUsageUSD g, ud_WeeklyUsageUSD = sg_WeeklyUsageUSD g,
     ud_MonthlyUsageUSD = sg_MonthlyUsageUSD g,
     ud_Daily = (if HasDailyLimit grp then Some (calcGrantUsageWindow (sg_DailyUsageUSD g) (g_DailyLimitUSD grp)) else None),
     ud_Weekly = (if HasWeeklyLimit grp then Some (calcGrantUsageWindow (sg_WeeklyUsageUSD g) (g_WeeklyLimitUSD grp)) else None),
     ud_Monthly = (if HasMonthlyLimit grp then Some (calcGrantUsageWindow (sg_MonthlyUsageUSD g) (g_MonthlyLimitUSD grp)) else None)\<rparr>"

definition GetUserGrantUsageDetails :: "int \<Rightarrow> int \<Rightarrow> ('a substate_scheme, ActiveSubscriptionGrantUsageResponse) proc" where
  "GetUserGrantUsageDetails userID i =
     bindP (subGetByID i) (\<lambda>sub.
     if us_UserID sub \<noteq> userID then fail ErrSubscriptionNotFound
     else bindP (case us_Group sub of Some g \<Rightarrow> ret g | None \<Rightarrow> groupGetByID (us_GroupID sub)) (\<lambda>grp.
          bindP nowP (\<lambda>now.
          bindP (ListUnexpiredBySubscriptionID (us_ID sub) now) (\<lambda>grants.
          ret \<lparr>ur_SubscriptionID = us_ID sub, ur_GroupID = us_GroupID sub, ur_GroupName = g_Name grp,
               ur_Grants = map (grantDetail grp) grants\<rparr>))))"

end
