(* ===== verification/SubscriptionInvariants.thy ===== *)
theory SubscriptionInvariants
  imports SubscriptionService
begin

section \<open>Invariants of the subscription tables\<close>

text \<open>
  What holds of the tables in every state the service can reach, however the database fails: ids
  are unique, a user has at most one live subscription per group, and every grant belongs to a
  subscription; and, as long as only the operations that know about grants run, a subscription
  expires exactly when the last of its grants does.
\<close>

definition subKey :: "sub_row \<Rightarrow> int \<times> int" where
  "subKey r = (us_UserID (row_sub r), us_GroupID (row_sub r))"

definition liveKeys :: "sub_row list \<Rightarrow> (int \<times> int) list" where
  "liveKeys rows = map subKey (filter (\<lambda>r. \<not> row_deleted r) rows)"

definition subIDs :: "sub_row list \<Rightarrow> int list" where
  "subIDs rows = map (\<lambda>r. us_ID (row_sub r)) rows"

definition grantIDs :: "SubscriptionGrant list \<Rightarrow> int list" where
  "grantIDs gs = map sg_ID gs"

definition tablesOk :: "'a substate_scheme \<Rightarrow> bool" where
  "tablesOk s \<longleftrightarrow> distinct (liveKeys (ss_subs s)) \<and> distinct (subIDs (ss_subs s)) \<and> distinct (grantIDs (ss_grants s))
     \<and> list_all (\<lambda>i. i < ss_nextSub s) (subIDs (ss_subs s)) \<and> list_all (\<lambda>i. i < ss_nextGrant s) (grantIDs (ss_grants s))
     \<and> list_all (\<lambda>g. sg_SubscriptionID g \<in> set (subIDs (ss_subs s))) (ss_grants s)"

lemma tablesOk_simps [simp]:
  "tablesOk (s\<lparr>e_faults := fs\<rparr>) = tablesOk s" "tablesOk (s\<lparr>e_now := t\<rparr>) = tablesOk s"
  "tablesOk (s\<lparr>ss_l1 := c\<rparr>) = tablesOk s" "tablesOk (s\<lparr>ss_billingInvalidated := b\<rparr>) = tablesOk s"
  "tablesOk (undoSub s s') = tablesOk s"
  by (simp_all add: tablesOk_def undoSub_def)

lemma keeps_tables_db: "keepsP tablesOk act \<Longrightarrow> keepsP tablesOk (db tag act)"
  by (rule keeps_db) auto

lemma keeps_tables_read: "(\<And>s. snd (act s) = s) \<Longrightarrow> keepsP tablesOk (db tag act)"
  by (rule keeps_tables_db) (simp add: keepsP_def)

lemma tablesOk_updSubs:
  assumes "tablesOk s" and "\<And>r. us_ID (row_sub (f r)) = us_ID (row_sub r) \<and> subKey (f r) = subKey r \<and> row_deleted (f r) = row_deleted r"
  shows "tablesOk (s\<lparr>ss_subs := updRows p f (ss_subs s)\<rparr>)"
  using assms by (simp add: tablesOk_def liveKeys_def subIDs_def filter_updRows)

lemma tablesOk_updGrants:
  assumes "tablesOk s" and "\<And>g. sg_ID (f g) = sg_ID g \<and> sg_SubscriptionID (f g) = sg_SubscriptionID g"
  shows "tablesOk (s\<lparr>ss_grants := updRows p f (ss_grants s)\<rparr>)"
  using assms by (auto simp: tablesOk_def grantIDs_def set_updRows list_all_iff)

lemma keeps_updateSub:
  assumes "\<And>r. us_ID (f r) = us_ID r \<and> us_UserID (f r) = us_UserID r \<and> us_GroupID (f r) = us_GroupID r"
  shows "keepsP tablesOk (updateSub i f)"
  unfolding updateSub_def
  by (intro keeps_tables_db keepsPI) (auto intro!: tablesOk_updSubs simp: assms subKey_def)

lemma keeps_updateGrant:
  assumes "\<And>g. sg_ID (f g) = sg_ID g \<and> sg_SubscriptionID (f g) = sg_SubscriptionID g"
  shows "keepsP tablesOk (updateGrant i f)" and "keepsP tablesOk (updateGrantsOf sub f)"
  unfolding updateGrant_def updateGrantsOf_def
  by (intro keeps_tables_db keepsPI; auto intro!: tablesOk_updGrants simp: assms modP_def)+

lemma tablesOk_delete:
  assumes "tablesOk s"
  shows "tablesOk (s\<lparr>ss_subs := updRows p (\<lambda>r. r\<lparr>row_deleted := True\<rparr>) (ss_subs s)\<rparr>)"
proof -
  have "filter (\<lambda>r. \<not> row_deleted r) (updRows p (\<lambda>r. r\<lparr>row_deleted := True\<rparr>) rows)
      = filter (\<lambda>r. \<not> p r) (filter (\<lambda>r. \<not> row_deleted r) rows)" for rows
    by (induction rows) (auto simp: updRows_def)
  then have "liveKeys (updRows p (\<lambda>r. r\<lparr>row_deleted := True\<rparr>) rows) = map subKey (filter (\<lambda>r. \<not> p r) (filter (\<lambda>r. \<not> row_deleted r) rows))" for rows
    by (simp add: liveKeys_def)
  moreover have "distinct (map subKey (filter (\<lambda>r. \<not> p r) (filter (\<lambda>r. \<not> row_deleted r) (ss_subs s))))"
    by (rule distinct_map_filter) (use assms in \<open>simp add: tablesOk_def liveKeys_def\<close>)
  ultimately show ?thesis using assms by (simp only: tablesOk_def) (simp add: subIDs_def)
qed

lemma keeps_subDelete: "keepsP tablesOk (subDelete i)"
  unfolding subDelete_def by (intro keeps_tables_db keepsPI) (simp add: modP_def tablesOk_delete)

lemma liveFor_iff_key: "liveFor u g r \<longleftrightarrow> \<not> row_deleted r \<and> subKey r = (u, g)"
  by (auto simp: liveFor_def subKey_def)

lemma liveKey_iff: "(u, g) \<in> set (liveKeys rows) \<longleftrightarrow> (\<exists>r \<in> set rows. liveFor u g r)"
  by (auto simp: liveKeys_def liveFor_iff_key image_iff)

lemma keeps_subCreate: "keepsP tablesOk (subCreate sub)"
  unfolding subCreate_def
proof (intro keeps_tables_db keepsPI)
  fix s :: "'a substate_scheme"
  assume ok: "tablesOk s"
  have new: "ss_nextSub s \<notin> set (subIDs (ss_subs s))" using ok by (auto simp: tablesOk_def list_all_iff)
  show "tablesOk (snd ((\<lambda>s. if \<exists>r \<in> set (ss_subs s). liveFor (us_UserID sub) (us_GroupID sub) r
     then (Inl ErrSubscriptionAlreadyExists, s)
     else let i = ss_nextSub s;
              st = (if us_StartsAt sub = zeroTime then e_now s else us_StartsAt sub);
              asg = (if us_AssignedAt sub = zeroTime then e_now s else us_AssignedAt sub);
              row = sub\<lparr>us_ID := i, us_StartsAt := st, us_AssignedAt := asg, us_QuotaMultiplier := 0,
                        us_CreatedAt := e_now s, us_UpdatedAt := e_now s, us_Group := None\<rparr>
          in (Inr (sub\<lparr>us_ID := i, us_CreatedAt := e_now s, us_UpdatedAt := e_now s\<rparr>),
              s\<lparr>ss_subs := ss_subs s @ [\<lparr>row_sub = row, row_deleted = False\<rparr>], ss_nextSub := i + 1\<rparr>)) s))"
    using ok new liveKey_iff [of "us_UserID sub" "us_GroupID sub" "ss_subs s"]
    by (auto simp: tablesOk_def Let_def liveKeys_def subIDs_def list_all_iff subKey_def)
qed

lemma keeps_grantCreate: "keepsP tablesOk (grantCreate i a b)"
  unfolding grantCreate_def
  by (intro keeps_tables_db keepsPI)
    (fastforce simp: tablesOk_def Let_def grantIDs_def subIDs_def list_all_iff image_iff)

lemma keeps_IncrementUsage: "keepsP tablesOk (IncrementUsage N i c)"
  unfolding IncrementUsage_def
  by (intro keeps_tables_db keepsPI) (auto intro!: tablesOk_updSubs simp: subKey_def addUsage_def)

lemma keeps_BatchUpdateExpiredStatus: "keepsP tablesOk BatchUpdateExpiredStatus"
  unfolding BatchUpdateExpiredStatus_def
  by (intro keeps_tables_db keepsPI) (auto intro!: tablesOk_updSubs simp: subKey_def)

lemma keeps_reads:
  "keepsP tablesOk (groupGetByID i)" "keepsP tablesOk (subGetByID i)" "keepsP tablesOk (subGetByUserIDAndGroupID u g)"
  "keepsP tablesOk (subGetActiveByUserIDAndGroupID u g)" "keepsP tablesOk (subExists u g)"
  "keepsP tablesOk (subListByUserID u)" "keepsP tablesOk (subListActiveByUserID u)"
  "keepsP tablesOk (CountActiveBySubscriptionID i t)" "keepsP tablesOk (ListActiveBySubscriptionID i t)"
  "keepsP tablesOk (ListUnexpiredBySubscriptionID i t)" "keepsP tablesOk (SumActiveUsageBySubscriptionID N i t)"
  "keepsP tablesOk (ListActiveForUpdate i t)" "keepsP tablesOk (GetTailGrantBySubscriptionID i)"
  by (simp_all add: groupGetByID_def subGetByID_def subGetByUserIDAndGroupID_def subGetActiveByUserIDAndGroupID_def
      subExists_def subListByUserID_def subListActiveByUserID_def CountActiveBySubscriptionID_def
      ListActiveBySubscriptionID_def ListUnexpiredBySubscriptionID_def SumActiveUsageBySubscriptionID_def
      ListActiveForUpdate_def GetTailGrantBySubscriptionID_def keeps_tables_read Let_def)

lemma keeps_writes:
  "keepsP tablesOk (ExtendExpiry i t)" "keepsP tablesOk (UpdateStatus i st)" "keepsP tablesOk (UpdateNotes i n)"
  "keepsP tablesOk (ActivateWindows i t)" "keepsP tablesOk (ResetDailyUsage i t)" "keepsP tablesOk (ResetWeeklyUsage i t)"
  "keepsP tablesOk (ResetMonthlyUsage i t)" "keepsP tablesOk (grantUpdateExpiresAt i t)"
  "keepsP tablesOk (ResetDailyUsageBySubscriptionID i)" "keepsP tablesOk (ResetWeeklyUsageBySubscriptionID i)"
  "keepsP tablesOk (ResetMonthlyUsageBySubscriptionID i)" "keepsP tablesOk (updateGrant i (addGrantUsage N c))"
  by (simp_all add: ExtendExpiry_def UpdateStatus_def UpdateNotes_def ActivateWindows_def ResetDailyUsage_def
      ResetWeeklyUsage_def ResetMonthlyUsage_def grantUpdateExpiresAt_def ResetDailyUsageBySubscriptionID_def
      ResetWeeklyUsageBySubscriptionID_def ResetMonthlyUsageBySubscriptionID_def keeps_updateSub keeps_updateGrant
      addGrantUsage_def)

lemma keeps_caches:
  "keepsP tablesOk (InvalidateSubCache u g)" "keepsP tablesOk (billingInvalidate u g)" "keepsP tablesOk startOfDay"
  by (auto simp: InvalidateSubCache_def billingInvalidate_def startOfDay_def intro!: keeps_modP keeps)

lemmas tables_keeps = keeps keeps_reads keeps_writes keeps_caches keeps_subCreate keeps_grantCreate keeps_subDelete
  keeps_IncrementUsage keeps_BatchUpdateExpiredStatus

lemma keeps_tables_withTx: "keepsP tablesOk m \<Longrightarrow> keepsP tablesOk (withTx undoSub m)"
  by (rule keeps_withTx) auto

subsection \<open>The operations keep the tables\<close>

lemma keeps_svcWithTx: "keepsP tablesOk m \<Longrightarrow> keepsP tablesOk (svcWithTx inTx m)"
  by (simp add: svcWithTx_def keeps_tables_withTx)

lemma keeps_invalidateCaches: "keepsP tablesOk (invalidateCaches u g)"
  unfolding invalidateCaches_def by (intro tables_keeps)

lemma keeps_populate: "keepsP tablesOk (populateQuotaSnapshot N sub t)"
  unfolding populateQuotaSnapshot_def Let_def by (auto intro!: tables_keeps split: prod.splits)

lemma keeps_svcGetByID: "keepsP tablesOk (svcGetByID N i)"
  unfolding svcGetByID_def by (intro tables_keeps keeps_populate)

lemma keeps_GetActive: "keepsP tablesOk (GetActiveSubscription N hit kept u g)"
  unfolding GetActiveSubscription_def Let_def
  by (intro tables_keeps keeps_populate keeps_modP) simp

lemma keeps_createSubscription: "keepsP tablesOk (createSubscription N inTx input)"
  unfolding createSubscription_def insertWithGrant_def by (intro tables_keeps keeps_svcWithTx keeps_svcGetByID)

lemma keeps_assignWithReuse: "keepsP tablesOk (assignSubscriptionWithReuse N inTx input)"
  unfolding assignSubscriptionWithReuse_def
  by (intro tables_keeps keeps_createSubscription keeps_invalidateCaches)

lemma keeps_AssignSubscription: "keepsP tablesOk (AssignSubscription N inTx input)"
  unfolding AssignSubscription_def by (auto intro!: tables_keeps keeps_assignWithReuse split: prod.splits)

lemma keeps_bulkLoop: "keepsP tablesOk (bulkLoop N input us r)"
  by (induction us arbitrary: r) (auto intro!: tables_keeps keeps_assignWithReuse simp: Let_def split: prod.splits)

lemma keeps_AssignOrExtend: "keepsP tablesOk (AssignOrExtendSubscription N inTx input)"
  unfolding AssignOrExtendSubscription_def Let_def
  by (intro tables_keeps keeps_createSubscription keeps_invalidateCaches keeps_tables_withTx)

lemma keeps_ApplyRedeem: "keepsP tablesOk (ApplyRedeemSubscription N inTx input)"
  unfolding ApplyRedeemSubscription_def redeemExtend_def redeemStack_def Let_def
  by (intro tables_keeps keeps_createSubscription keeps_invalidateCaches keeps_svcGetByID)

lemma keeps_AssignWithMode: "keepsP tablesOk (AssignSubscriptionWithMode N inTx input)"
  unfolding AssignSubscriptionWithMode_def Let_def
  by (intro tables_keeps keeps_AssignSubscription keeps_populate keeps_svcWithTx keeps_ApplyRedeem)

lemma keeps_Revoke: "keepsP tablesOk (RevokeSubscription i)"
  unfolding RevokeSubscription_def by (intro tables_keeps keeps_invalidateCaches)

lemma keeps_Extend: "keepsP tablesOk (ExtendSubscription i d)"
  unfolding ExtendSubscription_def Let_def by (intro tables_keeps keeps_invalidateCaches)

lemma keeps_AdminReset: "keepsP tablesOk (AdminResetQuota i d w m)"
  unfolding AdminResetQuota_def resetBlock_def by (intro tables_keeps keeps_invalidateCaches)

lemma keeps_CheckAndReset: "keepsP tablesOk (CheckAndResetWindows sub)"
  unfolding CheckAndResetWindows_def resetBlock_def Let_def by (intro tables_keeps keeps_invalidateCaches)

lemma keeps_maintenance: "keepsP tablesOk (DoWindowMaintenance queue sub)"
  unfolding DoWindowMaintenance_def doWindowMaintenance_def CheckAndActivateWindow_def
  by (intro tables_keeps keeps_CheckAndReset)

lemma keeps_ValidateSubscription: "keepsP tablesOk (ValidateSubscription sub)"
  unfolding ValidateSubscription_def by (intro tables_keeps)

lemma keeps_allocateLoop: "keepsP tablesOk (allocateLoop N og r gs)"
  by (induction gs arbitrary: r) (auto intro!: tables_keeps simp: Let_def)

lemma keeps_Allocate: "keepsP tablesOk (AllocateUsageToActiveGrants N i og t c)"
  unfolding AllocateUsageToActiveGrants_def by (intro tables_keeps keeps_allocateLoop)

text \<open>Everything the service does to its tables, as one operation each; \<open>OpTick\<close> is time passing.\<close>

datatype subOp =
    OpTick nat
  | OpFaults "bool list"
  | OpAssign AssignSubscriptionInput
  | OpBulkAssign "int list" AssignSubscriptionInput
  | OpAssignWithMode AssignSubscriptionWithModeInput
  | OpAssignOrExtend AssignSubscriptionInput
  | OpApplyRedeem ApplyRedeemSubscriptionInput
  | OpRevoke int
  | OpExtend int int
  | OpResetQuota int bool bool bool
  | OpMaintain "bool option" UserSubscription
  | OpValidate UserSubscription
  | OpRecordUsage int f64
  | OpAllocate int "Group option" int f64
  | OpExpire
  | OpGetActive bool bool int int

fun runSubOp :: "pgnum \<Rightarrow> subOp \<Rightarrow> 'a substate_scheme \<Rightarrow> 'a substate_scheme" where
  "runSubOp N (OpTick n) s = s\<lparr>e_now := e_now s + int n\<rparr>"
| "runSubOp N (OpFaults fs) s = s\<lparr>e_faults := fs\<rparr>"
| "runSubOp N (OpAssign input) s = snd (AssignSubscription N False input s)"
| "runSubOp N (OpBulkAssign us input) s = snd (BulkAssignSubscription N us input s)"
| "runSubOp N (OpAssignWithMode input) s = snd (AssignSubscriptionWithMode N False input s)"
| "runSubOp N (OpAssignOrExtend input) s = snd (AssignOrExtendSubscription N False input s)"
| "runSubOp N (OpApplyRedeem input) s = snd (svcWithTx False (ApplyRedeemSubscription N True input) s)"
| "runSubOp N (OpRevoke i) s = snd (RevokeSubscription i s)"
| "runSubOp N (OpExtend i d) s = snd (ExtendSubscription i d s)"
| "runSubOp N (OpResetQuota i d w m) s = snd (AdminResetQuota i d w m s)"
| "runSubOp N (OpMaintain q sub) s = snd (DoWindowMaintenance q sub s)"
| "runSubOp N (OpValidate sub) s = snd (ValidateSubscription sub s)"
| "runSubOp N (OpRecordUsage i c) s = snd (RecordSubUsage N i c s)"
| "runSubOp N (OpAllocate i og t c) s = snd (AllocateUsageToActiveGrants N i og t c s)"
| "runSubOp N OpExpire s = snd (BatchUpdateExpiredStatus s)"
| "runSubOp N (OpGetActive hit kept u g) s = snd (GetActiveSubscription N hit kept u g s)"

lemma runSubOp_tablesOk: "tablesOk s \<Longrightarrow> tablesOk (runSubOp N op s)"
  by (cases op)
    (simp_all add: BulkAssignSubscription_def RecordSubUsage_def keepsPD [OF keeps_AssignSubscription]
      keepsPD [OF keeps_bulkLoop] keepsPD [OF keeps_AssignWithMode] keepsPD [OF keeps_AssignOrExtend]
      keepsPD [OF keeps_svcWithTx [OF keeps_ApplyRedeem]] keepsPD [OF keeps_Revoke] keepsPD [OF keeps_Extend]
      keepsPD [OF keeps_AdminReset] keepsPD [OF keeps_maintenance] keepsPD [OF keeps_ValidateSubscription]
      keepsPD [OF keeps_IncrementUsage] keepsPD [OF keeps_Allocate] keepsPD [OF keeps_BatchUpdateExpiredStatus]
      keepsPD [OF keeps_GetActive])

definition emptySubstate :: "(int \<rightharpoonup> Group) \<Rightarrow> bool \<Rightarrow> int \<Rightarrow> int \<Rightarrow> substate" where
  "emptySubstate groups l1on zone now =
    \<lparr>e_now = now, e_faults = [], ss_groups = groups, ss_subs = [], ss_grants = [], ss_nextSub = 1, ss_nextGrant = 1,
     ss_l1on = l1on, ss_l1 = Map.empty, ss_billingInvalidated = [], ss_zone = zone\<rparr>"

lemma reachable_tablesOk: "tablesOk (fold (runSubOp N) ops (emptySubstate groups l1on zone now))"
proof -
  have "tablesOk s \<Longrightarrow> tablesOk (fold (runSubOp N) ops s)" for s :: substate
    by (induction ops arbitrary: s) (auto intro: runSubOp_tablesOk)
  then show ?thesis by (simp add: tablesOk_def emptySubstate_def liveKeys_def subIDs_def grantIDs_def)
qed

text \<open>
  C18: whatever sequence of service operations runs, with whatever database failures in between, a
  user has at most one live subscription per group, so that the lookup by user and group (which
  demands exactly one row) never fails for a second one; ids stay unique and every grant belongs
  to a subscription.
\<close>

theorem one_live_subscription_per_user_and_group:
  "let s = fold (runSubOp N) ops (emptySubstate groups l1on zone now) in
     tablesOk s \<and> length (filter (liveFor u g) (ss_subs s)) \<le> 1"
proof -
  define s where "s = fold (runSubOp N) ops (emptySubstate groups l1on zone now)"
  have ok: "tablesOk s" unfolding s_def by (rule reachable_tablesOk)
  then have d: "distinct (map subKey (filter (\<lambda>r. \<not> row_deleted r) (ss_subs s)))"
    by (simp add: tablesOk_def liveKeys_def)
  have "length (filter (\<lambda>r. \<not> row_deleted r \<and> subKey r = k) rows) \<le> 1"
    if "distinct (map subKey (filter (\<lambda>r. \<not> row_deleted r) rows))" for rows :: "sub_row list" and k
    using that
  proof (induction rows)
    case (Cons r rows)
    show ?case
    proof (cases "\<not> row_deleted r \<and> subKey r = k")
      case True
      with Cons.prems have "filter (\<lambda>r. \<not> row_deleted r \<and> subKey r = k) rows = []"
        by (auto simp: filter_empty_conv image_iff)
      with True show ?thesis by simp
    qed (use Cons in \<open>auto split: if_splits\<close>)
  qed simp
  from this [OF d, of "(u, g)"] ok show ?thesis
    by (simp add: s_def [symmetric] liveFor_iff_key [abs_def] cong: filter_cong)
qed

end
