(* ===== verification/SubscriptionCover.thy ===== *)
theory SubscriptionCover
  imports SubscriptionInvariants
begin

section \<open>A subscription expires with its last grant\<close>

text \<open>
  The second invariant of the tables: a subscription's expiry is that of the last of its grants
  and at most MaxExpiresAt, up to which time is followed.  The operations of the service that know
  about grants keep it; AssignOrExtendSubscription and ExtendSubscription do not.
\<close>

definition coveredBy :: "SubscriptionGrant list \<Rightarrow> UserSubscription \<Rightarrow> bool" where
  "coveredBy gs sub \<longleftrightarrow>
     list_ex (\<lambda>g. grantOf (us_ID sub) g \<and> sg_ExpiresAt g = us_ExpiresAt sub) gs
     \<and> list_all (\<lambda>g. grantOf (us_ID sub) g \<longrightarrow> sg_ExpiresAt g \<le> us_ExpiresAt sub) gs
     \<and> us_ExpiresAt sub \<le> MaxExpiresAt"

definition coverOk :: "int \<Rightarrow> 'a substate_scheme \<Rightarrow> bool" where
  "coverOk t s \<longleftrightarrow> tablesOk s \<and> e_now s = t \<and> list_all (\<lambda>r. coveredBy (ss_grants s) (row_sub r)) (ss_subs s)
     \<and> list_all (\<lambda>g. sg_StartsAt g \<le> sg_ExpiresAt g) (ss_grants s)"

lemma coverOk_simps [simp]:
  "coverOk t (s\<lparr>e_faults := fs\<rparr>) = coverOk t s"
  "coverOk t (s\<lparr>ss_l1 := c\<rparr>) = coverOk t s" "coverOk t (s\<lparr>ss_billingInvalidated := b\<rparr>) = coverOk t s"
  by (simp_all add: coverOk_def)

lemma coverOk_undo: "coverOk t s \<Longrightarrow> coverOk t s' \<Longrightarrow> coverOk t (undoSub s s')"
  by (simp add: coverOk_def) (simp add: undoSub_def)

lemma keeps_cover_db: "keepsP (coverOk t) act \<Longrightarrow> keepsP (coverOk t) (db tag act)"
  by (rule keeps_db) auto

lemma keeps_cover_read: "(\<And>s. snd (act s) = s) \<Longrightarrow> keepsP (coverOk t) (db tag act)"
  by (rule keeps_cover_db) (simp add: keepsP_def)

lemma coverOk_updSubs:
  assumes "coverOk t s"
    and "\<And>r. us_ID (row_sub (f r)) = us_ID (row_sub r) \<and> us_ExpiresAt (row_sub (f r)) = us_ExpiresAt (row_sub r)"
    and "tablesOk (s\<lparr>ss_subs := updRows p f (ss_subs s)\<rparr>)"
  shows "coverOk t (s\<lparr>ss_subs := updRows p f (ss_subs s)\<rparr>)"
  using assms by (auto simp: coverOk_def set_updRows list_all_iff coveredBy_def)

lemma coverOk_updGrants:
  assumes ok: "coverOk t s"
    and f: "\<And>g. sg_ID (f g) = sg_ID g \<and> sg_SubscriptionID (f g) = sg_SubscriptionID g \<and> sg_Deleted (f g) = sg_Deleted g
           \<and> sg_StartsAt (f g) = sg_StartsAt g \<and> sg_ExpiresAt (f g) = sg_ExpiresAt g"
  shows "coverOk t (s\<lparr>ss_grants := updRows p f (ss_grants s)\<rparr>)"
proof -
  have "tablesOk (s\<lparr>ss_grants := updRows p f (ss_grants s)\<rparr>)"
    using ok f by (intro tablesOk_updGrants) (auto simp: coverOk_def)
  moreover have "coveredBy (updRows p f gs) sub = coveredBy gs sub" for gs sub
    using f by (simp add: coveredBy_def list_all_updRows list_ex_updRows grantOf_def)
  ultimately show ?thesis using ok f by (simp add: coverOk_def list_all_updRows)
qed

lemma keeps_cover_updateSub:
  assumes "\<And>r. us_ID (f r) = us_ID r \<and> us_UserID (f r) = us_UserID r \<and> us_GroupID (f r) = us_GroupID r
              \<and> us_ExpiresAt (f r) = us_ExpiresAt r"
  shows "keepsP (coverOk t) (updateSub i f)"
  unfolding updateSub_def
  by (intro keeps_cover_db keepsPI)
    (auto intro!: coverOk_updSubs tablesOk_updSubs simp: assms subKey_def coverOk_def [THEN iffD1])

lemma keeps_cover_updateGrant:
  assumes "\<And>g. sg_ID (f g) = sg_ID g \<and> sg_SubscriptionID (f g) = sg_SubscriptionID g \<and> sg_Deleted (f g) = sg_Deleted g
           \<and> sg_StartsAt (f g) = sg_StartsAt g \<and> sg_ExpiresAt (f g) = sg_ExpiresAt g"
  shows "keepsP (coverOk t) (updateGrant i f)" and "keepsP (coverOk t) (updateGrantsOf sub f)"
  unfolding updateGrant_def updateGrantsOf_def
  by (intro keeps_cover_db keepsPI; auto intro!: coverOk_updGrants simp: assms modP_def)+

lemma keeps_cover_subDelete: "keepsP (coverOk t) (subDelete i)"
  unfolding subDelete_def
  by (intro keeps_cover_db keepsPI) (auto simp: modP_def coverOk_def [THEN iffD1] intro!: coverOk_updSubs tablesOk_delete)

lemma keeps_cover_misc:
  "keepsP (coverOk t) (IncrementUsage N i c)" "keepsP (coverOk t) BatchUpdateExpiredStatus"
  unfolding IncrementUsage_def BatchUpdateExpiredStatus_def
  by (intro keeps_cover_db keepsPI; auto intro!: coverOk_updSubs tablesOk_updSubs simp: subKey_def addUsage_def coverOk_def [THEN iffD1])+

lemma keeps_cover_reads:
  "keepsP (coverOk t) (groupGetByID i)" "keepsP (coverOk t) (subGetByID i)" "keepsP (coverOk t) (subGetByUserIDAndGroupID u g)"
  "keepsP (coverOk t) (subGetActiveByUserIDAndGroupID u g)" "keepsP (coverOk t) (subExists u g)"
  "keepsP (coverOk t) (subListByUserID u)" "keepsP (coverOk t) (subListActiveByUserID u)"
  "keepsP (coverOk t) (CountActiveBySubscriptionID i t')" "keepsP (coverOk t) (SumActiveUsageBySubscriptionID N i t')"
  "keepsP (coverOk t) (ListActiveForUpdate i t')" "keepsP (coverOk t) (GetTailGrantBySubscriptionID i)"
  by (simp_all add: groupGetByID_def subGetByID_def subGetByUserIDAndGroupID_def subGetActiveByUserIDAndGroupID_def
      subExists_def subListByUserID_def subListActiveByUserID_def CountActiveBySubscriptionID_def
      SumActiveUsageBySubscriptionID_def ListActiveForUpdate_def GetTailGrantBySubscriptionID_def keeps_cover_read Let_def)

lemma keeps_cover_writes:
  "keepsP (coverOk t) (UpdateStatus i st)" "keepsP (coverOk t) (UpdateNotes i n)"
  "keepsP (coverOk t) (ActivateWindows i w)" "keepsP (coverOk t) (ResetDailyUsage i w)" "keepsP (coverOk t) (ResetWeeklyUsage i w)"
  "keepsP (coverOk t) (ResetMonthlyUsage i w)"
  "keepsP (coverOk t) (ResetDailyUsageBySubscriptionID i)" "keepsP (coverOk t) (ResetWeeklyUsageBySubscriptionID i)"
  "keepsP (coverOk t) (ResetMonthlyUsageBySubscriptionID i)" "keepsP (coverOk t) (updateGrant i (addGrantUsage N c))"
  by (simp_all add: UpdateStatus_def UpdateNotes_def ActivateWindows_def ResetDailyUsage_def
      ResetWeeklyUsage_def ResetMonthlyUsage_def ResetDailyUsageBySubscriptionID_def
      ResetWeeklyUsageBySubscriptionID_def ResetMonthlyUsageBySubscriptionID_def keeps_cover_updateSub
      keeps_cover_updateGrant addGrantUsage_def)

lemma keeps_cover_caches:
  "keepsP (coverOk t) (InvalidateSubCache u g)" "keepsP (coverOk t) (billingInvalidate u g)" "keepsP (coverOk t) startOfDay"
  by (auto simp: InvalidateSubCache_def billingInvalidate_def startOfDay_def intro!: keeps_modP keeps)

lemmas cover_keeps = keeps keeps_cover_reads keeps_cover_writes keeps_cover_caches keeps_cover_subDelete keeps_cover_misc

subsection \<open>The steps that move an expiry\<close>

lemma keeps_cover_invalidateCaches: "keepsP (coverOk t) (invalidateCaches u g)"
  unfolding invalidateCaches_def by (intro cover_keeps)

lemma keeps_cover_populate: "keepsP (coverOk t) (populateQuotaSnapshot N sub t')"
  unfolding populateQuotaSnapshot_def Let_def by (auto intro!: cover_keeps split: prod.splits)

lemma keeps_cover_svcGetByID: "keepsP (coverOk t) (svcGetByID N i)"
  unfolding svcGetByID_def by (intro cover_keeps keeps_cover_populate)

lemma newExpiry_bounds:
  assumes "from \<le> MaxExpiresAt" and "0 \<le> d"
  shows "from \<le> newExpiry from d" and "newExpiry from d \<le> MaxExpiresAt"
  using assms mult_nonneg_nonneg [OF assms(2) less_imp_le [OF day_pos]] by (auto simp: newExpiry_def addDays_def Let_def)

lemma normalize_pos: "0 < normalizeAssignValidityDays d \<and> normalizeAssignValidityDays d \<le> MaxValidityDays"
  by (simp add: normalizeAssignValidityDays_def Let_def MaxValidityDays_def)

lemma subCreate_Inr:
  assumes "subCreate sub s = (Inr c, s')"
  obtains row where "ss_subs s' = ss_subs s @ [\<lparr>row_sub = row, row_deleted = False\<rparr>]"
    and "us_ID row = ss_nextSub s" and "us_ExpiresAt row = us_ExpiresAt sub"
    and "us_UserID row = us_UserID sub" and "us_GroupID row = us_GroupID sub" and "us_Status row = us_Status sub"
    and "us_Notes row = us_Notes sub" and "us_StartsAt row = (if us_StartsAt sub = zeroTime then e_now s else us_StartsAt sub)"
    and "us_ID c = ss_nextSub s" and "us_StartsAt c = us_StartsAt sub" and "us_ExpiresAt c = us_ExpiresAt sub"
    and "ss_grants s' = ss_grants s" and "e_now s' = e_now s" and "ss_groups s' = ss_groups s" and "ss_nextSub s' = ss_nextSub s + 1"
  using assms unfolding subCreate_def
  by (elim db_Inr) (fastforce simp: Let_def split: if_splits)

lemma grantCreate_Inr:
  assumes "grantCreate i a b s = (Inr g, s')"
  shows "ss_grants s' = ss_grants s @ [g]" and "sg_SubscriptionID g = i" and "sg_ExpiresAt g = b" and "\<not> sg_Deleted g"
    and "sg_StartsAt g = (if a = zeroTime then e_now s else a)" and "ss_subs s' = ss_subs s" and "e_now s' = e_now s"
    and "ss_groups s' = ss_groups s" and "sg_DailyUsageUSD g = Fin 0" and "sg_ID g = ss_nextGrant s"
  using assms unfolding grantCreate_def
  by (elim db_Inr; auto simp: Let_def split: if_splits)+

text \<open>A new subscription gets, in the same transaction, the grant that covers it.\<close>

lemma okP_create:
  assumes "t \<le> us_ExpiresAt sub" and "us_ExpiresAt sub \<le> MaxExpiresAt" and "us_StartsAt sub = t"
  shows "okP (coverOk t) (insertWithGrant sub) (\<lambda>_. coverOk t)" (is "okP ?P ?m _")
proof (rule okPI)
  fix s a s'
  assume ok: "?P s" and run: "?m s = (Inr a, s')"
  have k: "keepsP tablesOk ?m" unfolding insertWithGrant_def by (intro tables_keeps)
  have tables: "tablesOk s'" using keepsPD [OF k, of s] ok run by (simp add: coverOk_def)
  from run obtain c s1 g where c: "subCreate sub s = (Inr c, s1)"
    and g0: "grantCreate (us_ID c) (us_StartsAt c) (us_ExpiresAt c) s1 = (Inr g, s')"
    by (auto simp: insertWithGrant_def ret_def elim!: bindP_Inr)
  from c obtain row where row: "ss_subs s1 = ss_subs s @ [\<lparr>row_sub = row, row_deleted = False\<rparr>]"
      "us_ID row = ss_nextSub s" "us_ExpiresAt row = us_ExpiresAt sub" "us_ID c = ss_nextSub s" "us_StartsAt c = us_StartsAt sub"
      "us_ExpiresAt c = us_ExpiresAt sub" "ss_grants s1 = ss_grants s" "e_now s1 = e_now s"
    by (elim subCreate_Inr)
  note g = grantCreate_Inr [OF g0, unfolded row]
  have s': "ss_subs s' = ss_subs s @ [\<lparr>row_sub = row, row_deleted = False\<rparr>]" "ss_grants s' = ss_grants s @ [g]" "e_now s' = e_now s"
    using g row by simp_all
  have new: "ss_nextSub s \<notin> set (subIDs (ss_subs s))" using ok by (auto simp: coverOk_def tablesOk_def list_all_iff)
  then have other: "list_all (\<lambda>h. sg_SubscriptionID h \<noteq> ss_nextSub s) (ss_grants s)"
    using ok by (auto simp: coverOk_def tablesOk_def list_all_iff)
  have old: "coveredBy (ss_grants s @ [g]) (row_sub r)" if "r \<in> set (ss_subs s)" for r
  proof -
    have "us_ID (row_sub r) \<noteq> ss_nextSub s" using new that by (auto simp: subIDs_def image_iff)
    then show ?thesis using ok that g(2) by (auto simp: coverOk_def list_all_iff coveredBy_def grantOf_def)
  qed
  have "coveredBy (ss_grants s @ [g]) row"
    using other g(2-4) row(2,3) assms(2) by (auto simp: coveredBy_def grantOf_def list_all_iff)
  then show "coverOk t s'"
    using ok tables s' old g(3,5) assms(1,3) by (auto simp: coverOk_def list_all_iff)
qed

text \<open>What a lookup returns stands in the table.\<close>

definition loaded :: "UserSubscription \<Rightarrow> 'a substate_scheme \<Rightarrow> bool" where
  "loaded sub s \<longleftrightarrow> (\<exists>r \<in> set (ss_subs s). us_ID (row_sub r) = us_ID sub \<and> us_ExpiresAt (row_sub r) = us_ExpiresAt sub)"

lemma okP_lookup: "okP (coverOk t) (subGetByUserIDAndGroupID u g) (\<lambda>sub s. coverOk t s \<and> loaded sub s)"
  unfolding subGetByUserIDAndGroupID_def
proof (rule okP_db, simp, rule okPI)
  fix s a s'
  assume "coverOk t s" and "(mapE (loadSub s) (onlyRow ErrSubscriptionNotFound (liveFor u g) (ss_subs s)), s) = (Inr a, s')"
  then show "coverOk t s' \<and> loaded a s'"
    using onlyRow_Inr [of _ "liveFor u g" "ss_subs s"]
    by (fastforce simp: mapE_def loaded_def loadSub_def split: sum.splits)
qed

lemma tailGrant_last:
  assumes "tailGrant i s = Some g"
  shows "g \<in> set (ss_grants s)" "grantOf i g" "\<And>h. h \<in> set (ss_grants s) \<Longrightarrow> grantOf i h \<Longrightarrow> sg_ExpiresAt h \<le> sg_ExpiresAt g"
proof -
  let ?gs = "filter (grantOf i) (ss_grants s)"
  have "g \<in> set ?gs" using assms firstBy_Some_in unfolding tailGrant_def by fast
  then show "g \<in> set (ss_grants s)" "grantOf i g" by auto
  have sorted: "sorted_wrt (\<lambda>a b. earliestExpiry b a) (sortBy (\<lambda>a b. earliestExpiry b a) ?gs)"
    by (rule sorted_sortBy) (auto simp: earliestExpiry_def)
  obtain tl where "sortBy (\<lambda>a b. earliestExpiry b a) ?gs = g # tl"
    using assms by (auto simp: tailGrant_def firstBy_def split: list.splits)
  then have "h = g \<or> earliestExpiry h g" if "h \<in> set ?gs" for h
    using sorted that set_sortBy [of "\<lambda>a b. earliestExpiry b a" ?gs] by auto
  then show "sg_ExpiresAt h \<le> sg_ExpiresAt g" if "h \<in> set (ss_grants s)" "grantOf i h" for h
    using that by (fastforce simp: earliestExpiry_def)
qed

lemma updateGrant_Inr:
  assumes "updateGrant i f s = (Inr a, s')"
  shows "ss_grants s' = updRows (\<lambda>g. sg_ID g = i) (\<lambda>g. (f g)\<lparr>sg_UpdatedAt := e_now s\<rparr>) (ss_grants s)"
    and "ss_subs s' = ss_subs s" and "e_now s' = e_now s" and "ss_groups s' = ss_groups s"
  using assms unfolding updateGrant_def
  by (elim db_Inr; auto split: if_splits)+

lemma updateSub_Inr:
  assumes "updateSub i f s = (Inr a, s')"
  shows "ss_subs s' = updRows (\<lambda>r. us_ID (row_sub r) = i) (\<lambda>r. r\<lparr>row_sub := (f (row_sub r))\<lparr>us_UpdatedAt := e_now s\<rparr>\<rparr>) (ss_subs s)"
    and "ss_grants s' = ss_grants s" and "e_now s' = e_now s" and "ss_groups s' = ss_groups s"
  using assms unfolding updateSub_def
  by (elim db_Inr; auto split: if_splits)+

lemma GetTail_Inr:
  assumes "GetTailGrantBySubscriptionID i s = (Inr g, s')"
  shows "tailGrant i s = Some g" and "ss_grants s' = ss_grants s" and "ss_subs s' = ss_subs s" and "e_now s' = e_now s"
  using assms unfolding GetTailGrantBySubscriptionID_def
  by (elim db_Inr; auto simp: tailGrant_def split: option.splits)+

lemma list_ex_updRows_hit: "g \<in> set gs \<Longrightarrow> p g \<Longrightarrow> q (f g) \<Longrightarrow> list_ex q (updRows p f gs)"
  by (induction gs) (auto simp: updRows_def)

lemma okP_redeemExtend:
  assumes d: "0 \<le> days"
  shows "okP (\<lambda>s. coverOk t s \<and> loaded sub s) (redeemExtend sub days) (\<lambda>_. coverOk t)" (is "okP ?P ?m _")
proof (rule okPI)
  fix s a s'
  assume P: "?P s" and run: "?m s = (Inr a, s')"
  let ?i = "us_ID sub"
  have k: "keepsP tablesOk ?m" unfolding redeemExtend_def Let_def by (intro tables_keeps)
  have tables: "tablesOk s'" using keepsPD [OF k, of s] P run by (simp add: coverOk_def)
  from run obtain g s1 s2 where g: "GetTailGrantBySubscriptionID ?i s = (Inr g, s1)"
    and 1: "grantUpdateExpiresAt (sg_ID g) (max (newExpiry (sg_ExpiresAt g) days) (sg_StartsAt g)) s1 = (Inr (), s2)"
    and 2: "ExtendExpiry ?i (max (newExpiry (sg_ExpiresAt g) days) (sg_StartsAt g)) s2 = (Inr (), s')"
    by (auto simp: redeemExtend_def Let_def max_def elim!: bindP_Inr split: if_splits)
  define e where "e = max (newExpiry (sg_ExpiresAt g) days) (sg_StartsAt g)"
  note tail = GetTail_Inr [OF g]
  note last = tailGrant_last [OF tail(1)]
  have gs': "ss_grants s' = updRows (\<lambda>h. sg_ID h = sg_ID g) (\<lambda>h. h\<lparr>sg_ExpiresAt := e, sg_UpdatedAt := e_now s\<rparr>) (ss_grants s)"
    using updateGrant_Inr [OF 1 [unfolded grantUpdateExpiresAt_def]] updateSub_Inr [OF 2 [unfolded ExtendExpiry_def]] tail
    by (simp add: e_def)
  have subs': "ss_subs s' = updRows (\<lambda>r. us_ID (row_sub r) = ?i)
      (\<lambda>r. r\<lparr>row_sub := (row_sub r)\<lparr>us_ExpiresAt := e, us_UpdatedAt := e_now s\<rparr>\<rparr>) (ss_subs s)" and now: "e_now s' = e_now s"
    using updateGrant_Inr [OF 1 [unfolded grantUpdateExpiresAt_def]] updateSub_Inr [OF 2 [unfolded ExtendExpiry_def]] tail
    by (simp_all add: e_def)
  have start: "sg_StartsAt g \<le> sg_ExpiresAt g" using P last(1) by (auto simp: coverOk_def list_all_iff)
  obtain r0 where "r0 \<in> set (ss_subs s)" "us_ID (row_sub r0) = ?i" using P by (auto simp: loaded_def)
  then have "coveredBy (ss_grants s) (row_sub r0)" and "sg_ExpiresAt g \<le> us_ExpiresAt (row_sub r0)"
    using P last(1,2) by (auto simp: coverOk_def list_all_iff coveredBy_def)
  then have gmax: "sg_ExpiresAt g \<le> MaxExpiresAt" by (auto simp: coveredBy_def)
  then have e: "sg_ExpiresAt g \<le> e" "e \<le> MaxExpiresAt" "sg_StartsAt g \<le> e"
    using newExpiry_bounds [OF gmax d] start by (auto simp: e_def)
  have uniq: "h = g" if "h \<in> set (ss_grants s)" "sg_ID h = sg_ID g" for h
    using P last(1) that by (auto simp: coverOk_def tablesOk_def grantIDs_def distinct_map inj_on_def)
  have mine: "coveredBy (ss_grants s') (sb\<lparr>us_ExpiresAt := e, us_UpdatedAt := u\<rparr>)" if "us_ID sb = ?i" for sb u
  proof -
    have "list_ex (\<lambda>h. grantOf ?i h \<and> sg_ExpiresAt h = e) (ss_grants s')"
      unfolding gs' using last by (intro list_ex_updRows_hit [of g]) (auto simp: grantOf_def)
    moreover have "list_all (\<lambda>h. grantOf ?i h \<longrightarrow> sg_ExpiresAt h \<le> e) (ss_grants s')"
      unfolding gs' using last(3) e(1) by (auto simp: list_all_iff set_updRows grantOf_def intro: order_trans)
    ultimately show ?thesis using e that by (simp add: coveredBy_def)
  qed
  have other: "coveredBy (ss_grants s') sb" if "us_ID sb \<noteq> ?i" "coveredBy (ss_grants s) sb" for sb
  proof -
    have "sg_SubscriptionID g \<noteq> us_ID sb" using last(2) that by (simp add: grantOf_def)
    then have "list_ex (\<lambda>h. grantOf (us_ID sb) h \<and> sg_ExpiresAt h = us_ExpiresAt sb) (ss_grants s')"
      using that(2) uniq unfolding gs' coveredBy_def by (auto simp: list_ex_iff set_updRows grantOf_def)
    moreover have "list_all (\<lambda>h. grantOf (us_ID sb) h \<longrightarrow> sg_ExpiresAt h \<le> us_ExpiresAt sb) (ss_grants s')"
      using that(2) \<open>sg_SubscriptionID g \<noteq> us_ID sb\<close> unfolding gs' coveredBy_def
      by (auto simp: list_all_iff set_updRows grantOf_def dest: uniq)
    ultimately show ?thesis using that by (simp add: coveredBy_def)
  qed
  have "list_all (\<lambda>r. coveredBy (ss_grants s') (row_sub r)) (ss_subs s')"
    using P mine other by (auto simp: subs' list_all_iff set_updRows coverOk_def)
  moreover have "list_all (\<lambda>h. sg_StartsAt h \<le> sg_ExpiresAt h) (ss_grants s')"
    using P e(3) unfolding gs' by (auto simp: list_all_iff set_updRows coverOk_def dest: uniq)
  ultimately show "coverOk t s'" using tables now P by (simp add: coverOk_def)
qed

lemma okP_redeemStack:
  assumes d: "0 \<le> days" and t: "t \<le> MaxExpiresAt"
  shows "okP (\<lambda>s. coverOk t s \<and> loaded sub s) (redeemStack sub t days) (\<lambda>_. coverOk t)" (is "okP ?P ?m _")
proof (rule okPI)
  fix s a s'
  assume P: "?P s" and run: "?m s = (Inr a, s')"
  let ?i = "us_ID sub"
  define e where "e = newExpiry t days"
  have e: "t \<le> e" "e \<le> MaxExpiresAt" using newExpiry_bounds [OF t d] by (auto simp: e_def)
  have k: "keepsP tablesOk ?m" unfolding redeemStack_def Let_def by (intro tables_keeps)
  have tables: "tablesOk s'" using keepsPD [OF k, of s] P run by (simp add: coverOk_def)
  from run e obtain g s1 where 1: "grantCreate ?i t e s = (Inr g, s1)"
    and 2: "ExtendExpiry ?i (max e (us_ExpiresAt sub)) s1 = (Inr (), s')"
    by (auto simp: redeemStack_def Let_def e_def max_def elim!: bindP_Inr split: if_splits)
  note g = grantCreate_Inr [OF 1]
  note s' = updateSub_Inr [OF 2 [unfolded ExtendExpiry_def], unfolded g]
  have cov: "\<And>r. r \<in> set (ss_subs s) \<Longrightarrow> coveredBy (ss_grants s) (row_sub r)" using P by (simp add: coverOk_def list_all_iff)
  have exp: "us_ExpiresAt (row_sub r) = us_ExpiresAt sub" if "r \<in> set (ss_subs s)" "us_ID (row_sub r) = ?i" for r
    using P that by (auto simp: loaded_def coverOk_def tablesOk_def subIDs_def distinct_map inj_on_def)
  have "coveredBy (ss_grants s @ [g]) ((row_sub r)\<lparr>us_ExpiresAt := max e (us_ExpiresAt sub), us_UpdatedAt := u\<rparr>)"
    if "r \<in> set (ss_subs s)" "us_ID (row_sub r) = ?i" for r u
    using cov [OF that(1)] exp [OF that] that(2) e g(2-4)
    by (auto simp: coveredBy_def list_ex_iff list_all_iff grantOf_def max_def)
  moreover have "coveredBy (ss_grants s @ [g]) (row_sub r)" if "r \<in> set (ss_subs s)" "us_ID (row_sub r) \<noteq> ?i" for r
    using cov [OF that(1)] that(2) g(2) by (auto simp: coveredBy_def list_ex_iff list_all_iff grantOf_def)
  ultimately have "list_all (\<lambda>r. coveredBy (ss_grants s') (row_sub r)) (ss_subs s')"
    by (auto simp: s' list_all_iff set_updRows)
  then show "coverOk t s'" using tables s' P g e by (simp add: coverOk_def)
qed

subsection \<open>The operations that know about grants\<close>

lemma okP_now: "okP (coverOk t) nowP (\<lambda>n s. coverOk t s \<and> n = t)"
  by (auto simp: okP_def nowP_def getP_def coverOk_def)

lemma keeps_cover_create:
  assumes t: "t \<le> MaxExpiresAt"
  shows "okP (coverOk t) (createSubscription N True input) (\<lambda>_. coverOk t)"
    and "keepsP (coverOk t) (createSubscription N False input)"
proof -
  let ?body = "insertWithGrant (newSubscription t input)"
  have d: "0 \<le> normalizeAssignValidityDays (ai_ValidityDays input)"
    using normalize_pos [of "ai_ValidityDays input"] by simp
  have body: "okP (coverOk t) ?body (\<lambda>_. coverOk t)"
    by (rule okP_create) (use newExpiry_bounds [OF t d] in \<open>simp_all add: newSubscription_def\<close>)
  have eq: "createSubscription N inTx input s = bindP (svcWithTx inTx ?body) (\<lambda>c. svcGetByID N (us_ID c)) s"
    if "e_now s = t" for inTx s
    using that by (simp add: createSubscription_def)
  have "okP (coverOk t) (bindP (svcWithTx True ?body) (\<lambda>c. svcGetByID N (us_ID c))) (\<lambda>_. coverOk t)"
    unfolding svcWithTx_def by (simp, intro okP_bind [OF body] okP_keeps keeps_cover_svcGetByID)
  then show "okP (coverOk t) (createSubscription N True input) (\<lambda>_. coverOk t)"
    by (auto simp: okP_def coverOk_def eq)
  have tx: "keepsP (coverOk t) (withTx undoSub ?body)"
    using body by (rule keeps_withTx_ok [rotated 2]) (auto simp: coverOk_def undoSub_def)
  have "keepsP (coverOk t) (bindP (svcWithTx False ?body) (\<lambda>c. svcGetByID N (us_ID c)))"
    unfolding svcWithTx_def by (simp, intro keeps_bindP tx keeps_cover_svcGetByID)
  then show "keepsP (coverOk t) (createSubscription N False input)"
    by (auto simp: keepsP_def coverOk_def eq)
qed

lemma keeps_cover_assignWithReuse:
  assumes "t \<le> MaxExpiresAt"
  shows "keepsP (coverOk t) (assignSubscriptionWithReuse N False input)"
  unfolding assignSubscriptionWithReuse_def
  by (intro cover_keeps keeps_cover_create(2) keeps_cover_invalidateCaches assms)

lemma okP_ApplyRedeem:
  assumes t: "t \<le> MaxExpiresAt"
  shows "okP (coverOk t :: 'a substate_scheme \<Rightarrow> bool) (ApplyRedeemSubscription N True input) (\<lambda>_. coverOk t)"
proof -
  define days where "days = normalizeAssignValidityDays (ri_ValidityDays input)"
  have d: "0 \<le> days" using normalize_pos [of "ri_ValidityDays input"] by (simp add: days_def)
  define rest :: "UserSubscription \<Rightarrow> ('a substate_scheme, UserSubscription) proc" where "rest sub = bindP (if us_Status sub \<noteq> SubActive then UpdateStatus (us_ID sub) SubActive else ret ()) (\<lambda>_.
            bindP (if ri_Notes input \<noteq> []
                   then ignoreP (UpdateNotes (us_ID sub) (appendNotes (us_Notes sub) (ri_Notes input))) else ret ()) (\<lambda>_.
            bindP (invalidateCaches (us_UserID sub) (us_GroupID sub)) (\<lambda>_.
            svcGetByID N (us_ID sub))))" for sub
  have rest: "okP (coverOk t) (rest sub) (\<lambda>_. coverOk t)" for sub
    unfolding rest_def by (intro okP_keeps cover_keeps keeps_cover_invalidateCaches keeps_cover_svcGetByID)
  have grow: "okP (\<lambda>s. coverOk t s \<and> loaded sub s)
      (bindP nowP (\<lambda>now. bindP (if c now then redeemExtend sub days else redeemStack sub now days) (\<lambda>_. rest sub))) (\<lambda>_. coverOk t)"
      (is "okP ?P ?m _") for sub c
  proof -
    have g: "okP ?P (bindP (if c t then redeemExtend sub days else redeemStack sub t days) (\<lambda>_. rest sub)) (\<lambda>_. coverOk t)"
      by (rule okP_bind [where R = "\<lambda>_. coverOk t"]) (simp_all add: okP_redeemExtend [OF d] okP_redeemStack [OF d t] rest)
    show ?thesis
    proof (rule okPI)
      fix s a s'
      assume P: "?P s" and run: "?m s = (Inr a, s')"
      from P have "e_now s = t" by (simp add: coverOk_def)
      with run have "bindP (if c t then redeemExtend sub days else redeemStack sub t days) (\<lambda>_. rest sub) s = (Inr a, s')"
        by (cases "c t") simp_all
      with g P show "coverOk t s'" by (rule okPD)
    qed
  qed
  show ?thesis
    unfolding ApplyRedeemSubscription_def Let_def days_def [symmetric]
    by (intro grow [unfolded rest_def] okP_bind [OF okP_keeps [OF keeps_cover_reads(1)]] okP_if okP_fail
        okP_try [OF keeps_cover_reads(3) okP_lookup] keeps_cover_create(1) t)
qed

lemma keeps_cover_redeemTx:
  assumes "t \<le> MaxExpiresAt"
  shows "keepsP (coverOk t) (svcWithTx False (ApplyRedeemSubscription N True input))"
  unfolding svcWithTx_def using okP_ApplyRedeem [OF assms]
  by (simp, intro keeps_withTx_ok) (auto simp: coverOk_def undoSub_def)

lemma keeps_cover_AssignSubscription:
  "t \<le> MaxExpiresAt \<Longrightarrow> keepsP (coverOk t) (AssignSubscription N False input)"
  unfolding AssignSubscription_def by (auto intro!: cover_keeps keeps_cover_assignWithReuse split: prod.splits)

lemma keeps_cover_AssignWithMode:
  "t \<le> MaxExpiresAt \<Longrightarrow> keepsP (coverOk t) (AssignSubscriptionWithMode N False input)"
  unfolding AssignSubscriptionWithMode_def Let_def
  by (intro cover_keeps keeps_cover_AssignSubscription keeps_cover_populate keeps_cover_redeemTx)

lemma keeps_cover_bulk:
  "t \<le> MaxExpiresAt \<Longrightarrow> keepsP (coverOk t) (bulkLoop N input us r)"
  by (induction us arbitrary: r)
    (auto intro!: cover_keeps keeps_cover_assignWithReuse simp: Let_def split: prod.splits)

lemma keeps_cover_Revoke: "keepsP (coverOk t) (RevokeSubscription i)"
  unfolding RevokeSubscription_def by (intro cover_keeps keeps_cover_invalidateCaches)

lemma keeps_cover_AdminReset: "keepsP (coverOk t) (AdminResetQuota i d w m)"
  unfolding AdminResetQuota_def resetBlock_def by (intro cover_keeps keeps_cover_invalidateCaches)

lemma keeps_cover_maintenance: "keepsP (coverOk t) (DoWindowMaintenance queue sub)"
  unfolding DoWindowMaintenance_def doWindowMaintenance_def CheckAndActivateWindow_def CheckAndResetWindows_def
    resetBlock_def Let_def
  by (intro cover_keeps keeps_cover_invalidateCaches)

lemma keeps_cover_Validate: "keepsP (coverOk t) (ValidateSubscription sub)"
  unfolding ValidateSubscription_def by (intro cover_keeps)

lemma keeps_cover_allocateLoop: "keepsP (coverOk t) (allocateLoop N og r gs)"
  by (induction gs arbitrary: r) (auto intro!: cover_keeps simp: Let_def)

lemma keeps_cover_Allocate: "keepsP (coverOk t) (AllocateUsageToActiveGrants N i og t' c)"
  unfolding AllocateUsageToActiveGrants_def by (intro cover_keeps keeps_cover_allocateLoop)

lemma keeps_cover_GetActive: "keepsP (coverOk t) (GetActiveSubscription N hit kept u g)"
  unfolding GetActiveSubscription_def Let_def
  by (intro cover_keeps keeps_cover_populate keeps_modP) simp

definition grantAware :: "subOp \<Rightarrow> bool" where
  "grantAware op = (case op of OpAssignOrExtend _ \<Rightarrow> False | OpExtend _ _ \<Rightarrow> False | _ \<Rightarrow> True)"

definition ticks :: "subOp list \<Rightarrow> int" where
  "ticks ops = sum_list (map (\<lambda>op. case op of OpTick n \<Rightarrow> int n | _ \<Rightarrow> 0) ops)"

lemma ticks_nonneg: "0 \<le> ticks ops"
  by (induction ops) (auto simp: ticks_def split: subOp.splits)

lemma runSubOp_coverOk:
  assumes "t \<le> MaxExpiresAt" and "grantAware op" and "coverOk t s"
  shows "coverOk (t + ticks [op]) (runSubOp N op s)"
  using assms
  by (cases op)
    (simp_all add: ticks_def grantAware_def BulkAssignSubscription_def RecordSubUsage_def
      keepsPD [OF keeps_cover_AssignSubscription] keepsPD [OF keeps_cover_bulk] keepsPD [OF keeps_cover_AssignWithMode]
      keepsPD [OF keeps_cover_redeemTx] keepsPD [OF keeps_cover_Revoke] keepsPD [OF keeps_cover_AdminReset]
      keepsPD [OF keeps_cover_maintenance] keepsPD [OF keeps_cover_Validate] keepsPD [OF keeps_cover_misc(1)]
      keepsPD [OF keeps_cover_misc(2)] keepsPD [OF keeps_cover_Allocate] keepsPD [OF keeps_cover_GetActive],
      simp_all add: coverOk_def)

lemma runs_coverOk:
  "\<lbrakk>t + ticks ops \<le> MaxExpiresAt; list_all grantAware ops; coverOk t s\<rbrakk> \<Longrightarrow> coverOk (t + ticks ops) (fold (runSubOp N) ops s)"
proof (induction ops arbitrary: s t)
  case (Cons op ops)
  have e: "ticks (op # ops) = ticks [op] + ticks ops" by (simp add: ticks_def)
  have "t \<le> MaxExpiresAt" using Cons.prems(1) ticks_nonneg [of "op # ops"] by simp
  then have "coverOk (t + ticks [op]) (runSubOp N op s)" using Cons.prems by (intro runSubOp_coverOk) auto
  then show ?case using Cons.IH [of "t + ticks [op]" "runSubOp N op s"] Cons.prems by (simp add: e add.assoc)
qed (simp add: ticks_def)



end
