(* ===== verification/SubscriptionBehaviour.thy ===== *)
theory SubscriptionBehaviour
  imports SubscriptionCover
begin

section \<open>What the subscription operations do\<close>

text \<open>
  Functional properties of the subscription service on the two tables: assigning twice, revoking,
  resetting windows, stacking, and the allocation of a cost to the active grants.
\<close>

subsection \<open>Calls that succeed\<close>

lemma db_ok:
  assumes "e_faults s = []"
  shows "db tag act s = act s"
  using assms by (simp add: db_def)

lemma onlyRow_single: "filter p rows = [r] \<Longrightarrow> onlyRow e p rows = Inr r"
  by (simp add: onlyRow_def)

lemma populate_reads:
  "ss_subs (snd (populateQuotaSnapshot N sub t s)) = ss_subs s \<and> ss_grants (snd (populateQuotaSnapshot N sub t s)) = ss_grants s
   \<and> ss_groups (snd (populateQuotaSnapshot N sub t s)) = ss_groups s \<and> e_now (snd (populateQuotaSnapshot N sub t s)) = e_now s"
  by (auto simp: populateQuotaSnapshot_def Let_def tryP_def ret_def db_def CountActiveBySubscriptionID_def
      SumActiveUsageBySubscriptionID_def split: list.splits if_splits prod.splits sum.splits)

lemma populate_id:
  "populateQuotaSnapshot N sub t s = (Inr a, s') \<Longrightarrow> us_ID a = us_ID sub"
  by (auto simp: populateQuotaSnapshot_def Let_def tryP_def ret_def db_def CountActiveBySubscriptionID_def
      SumActiveUsageBySubscriptionID_def split: list.splits if_splits prod.splits sum.splits)

text \<open>The tables and the clock: what a read leaves alone.\<close>

definition sameTables :: "'a substate_scheme \<Rightarrow> 'a substate_scheme \<Rightarrow> bool" where
  "sameTables s s' \<longleftrightarrow> ss_subs s' = ss_subs s \<and> ss_grants s' = ss_grants s \<and> ss_groups s' = ss_groups s \<and> e_now s' = e_now s"

lemma subGetByID_Inr:
  assumes "subGetByID i s = (Inr sub, s')"
  shows "\<exists>r \<in> set (ss_subs s). \<not> row_deleted r \<and> us_ID (row_sub r) = i \<and> sub = loadSub s r" and "sameTables s s'" and "ss_l1 s' = ss_l1 s"
  using assms unfolding subGetByID_def sameTables_def
  by (elim db_Inr; auto simp: mapE_def loadSub_def dest!: onlyRow_Inr split: sum.splits)+

lemma svcGetByID_Inr:
  assumes "svcGetByID N i s = (Inr sub, s')"
  shows "us_ID sub = i" and "sameTables s s'"
proof -
  from assms obtain b s1 where b: "subGetByID i s = (Inr b, s1)" and p: "populateQuotaSnapshot N b (e_now s1) s1 = (Inr sub, s')"
    by (auto simp: svcGetByID_def elim!: bindP_Inr)
  have "us_ID b = i" using subGetByID_Inr(1) [OF b] by (auto simp: loadSub_def)
  then show "us_ID sub = i" using populate_id [OF p] by simp
  show "sameTables s s'" using subGetByID_Inr(2) [OF b] populate_reads [of N b "e_now s1" s1] p by (simp add: sameTables_def)
qed

lemma invalidate_reads: "sameTables s (snd (invalidateCaches u g s))"
  by (simp add: sameTables_def invalidateCaches_def InvalidateSubCache_def billingInvalidate_def bindP_def modP_def)

lemma withTx_Inr_tables:
  assumes "withTx undoSub m s = (Inr a, s')"
  obtains s1 s2 where "m s1 = (Inr a, s2)" and "sameTables s s1" and "sameTables s2 s'"
proof -
  from assms obtain fs t fs' where m: "m (s\<lparr>e_faults := fs\<rparr>) = (Inr a, t)" "s' = t\<lparr>e_faults := fs'\<rparr>"
    by (elim withTx_success) blast
  show thesis by (rule that [OF m(1)]) (simp_all add: sameTables_def m(2))
qed

subsection \<open>Assigning twice\<close>

text \<open>What a successful creation leaves: one row, at the end of the table.\<close>

lemma createSubscription_Inr:
  assumes "createSubscription N False input s = (Inr sub, s')"
  obtains row where "ss_subs s' = ss_subs s @ [\<lparr>row_sub = row, row_deleted = False\<rparr>]"
    and "us_UserID row = ai_UserID input" and "us_GroupID row = ai_GroupID input" and "us_ID row = us_ID sub"
    and "us_ExpiresAt row = newExpiry (e_now s) (normalizeAssignValidityDays (ai_ValidityDays input))"
    and "us_StartsAt row = e_now s" and "us_Notes row = ai_Notes input" and "us_Status row = SubActive"
    and "ss_groups s' = ss_groups s" and "e_now s' = e_now s"
    and "\<not> (\<exists>r \<in> set (ss_subs s). liveFor (ai_UserID input) (ai_GroupID input) r)"
proof -
  let ?sub = "newSubscription (e_now s) input"
  from assms obtain c s1 where tx: "withTx undoSub (insertWithGrant ?sub) s = (Inr c, s1)"
    and get: "svcGetByID N (us_ID c) s1 = (Inr sub, s')"
    by (auto simp: createSubscription_def svcWithTx_def elim!: bindP_Inr)
  from tx obtain s2 s3 where ins: "insertWithGrant ?sub s2 = (Inr c, s3)" and t: "sameTables s s2" "sameTables s3 s1"
    by (elim withTx_Inr_tables)
  from ins obtain s4 g where c: "subCreate ?sub s2 = (Inr c, s4)"
    and g: "grantCreate (us_ID c) (us_StartsAt c) (us_ExpiresAt c) s4 = (Inr g, s3)"
    by (auto simp: insertWithGrant_def ret_def elim!: bindP_Inr)
  from c obtain row where row: "ss_subs s4 = ss_subs s2 @ [\<lparr>row_sub = row, row_deleted = False\<rparr>]"
      "us_ID row = ss_nextSub s2" "us_ExpiresAt row = us_ExpiresAt ?sub" "us_UserID row = us_UserID ?sub"
      "us_GroupID row = us_GroupID ?sub" "us_Status row = us_Status ?sub" "us_Notes row = us_Notes ?sub"
      "us_StartsAt row = (if us_StartsAt ?sub = zeroTime then e_now s2 else us_StartsAt ?sub)"
      "us_ID c = ss_nextSub s2" "ss_groups s4 = ss_groups s2" "e_now s4 = e_now s2"
    by (elim subCreate_Inr)
  have none: "\<not> (\<exists>r \<in> set (ss_subs s2). liveFor (ai_UserID input) (ai_GroupID input) r)"
    using c unfolding subCreate_def by (elim db_Inr) (auto simp: newSubscription_def split: if_splits)
  note g' = grantCreate_Inr [OF g] and get' = svcGetByID_Inr [OF get]
  show thesis
    by (rule that [of row]) (use row none g' get' t in \<open>auto simp: sameTables_def newSubscription_def\<close>)
qed

text \<open>
  Assigning is idempotent: once an assignment has created a subscription, repeating the same
  request later, whenever, returns that subscription as reused and changes neither table.
\<close>

theorem assign_twice_reuses:
  assumes first: "assignSubscriptionWithReuse N False input s = (Inr (sub, False), s1)"
    and later: "s2 = s1\<lparr>e_now := e_now s1 + delay, e_faults := []\<rparr>"
  shows "\<exists>sub' s3. assignSubscriptionWithReuse N False input s2 = (Inr (sub', True), s3)
     \<and> us_ID sub' = us_ID sub \<and> ss_subs s3 = ss_subs s1 \<and> ss_grants s3 = ss_grants s1"
proof -
  let ?u = "ai_UserID input" and ?g = "ai_GroupID input"
  from first obtain gr t1 t2 sb t3 where gr: "groupGetByID ?g s = (Inr gr, t1)" and isSub: "IsSubscriptionType gr"
    and ex: "subExists ?u ?g t1 = (Inr False, t2)" and cr: "createSubscription N False input t2 = (Inr sb, t3)"
    and s1: "s1 = snd (invalidateCaches ?u ?g t3)" and sub: "sb = sub"
    unfolding assignSubscriptionWithReuse_def
    by (auto simp: ret_def fail_def split: if_splits elim!: bindP_Inr)
  have t1: "sameTables s t1" "ss_groups s ?g = Some gr" using gr unfolding groupGetByID_def
    by (auto elim!: db_Inr simp: sameTables_def split: option.splits)
  have t2: "sameTables t1 t2" using ex unfolding subExists_def by (auto elim!: db_Inr simp: sameTables_def)
  from cr obtain row where row: "ss_subs t3 = ss_subs t2 @ [\<lparr>row_sub = row, row_deleted = False\<rparr>]"
      "us_UserID row = ?u" "us_GroupID row = ?g" "us_ID row = us_ID sb"
      "us_ExpiresAt row = newExpiry (e_now t2) (normalizeAssignValidityDays (ai_ValidityDays input))"
      "us_StartsAt row = e_now t2" "us_Notes row = ai_Notes input"
      "ss_groups t3 = ss_groups t2" "\<not> (\<exists>r \<in> set (ss_subs t2). liveFor ?u ?g r)"
    by (elim createSubscription_Inr)
  let ?r = "\<lparr>row_sub = row, row_deleted = False\<rparr>"
  have same: "ss_subs s2 = ss_subs t3" "ss_groups s2 ?g = Some gr" "e_faults s2 = []"
    using invalidate_reads [of t3 ?u ?g] t1 t2 row(8) by (auto simp: later s1 sameTables_def)
  have live: "liveFor ?u ?g ?r" using row(2,3) by (simp add: liveFor_def)
  have "filter (liveFor ?u ?g) (ss_subs t2) = []" using row(9) by (simp add: filter_empty_conv)
  then have "filter (liveFor ?u ?g) (ss_subs s2) = [?r]" using live same row(1) by simp
  then have get: "subGetByUserIDAndGroupID ?u ?g s2 = (Inr (loadSub s2 ?r), s2)"
    by (simp add: subGetByUserIDAndGroupID_def db_ok same onlyRow_single mapE_def)
  have "subExists ?u ?g s2 = (Inr True, s2)" using live same row(1) by (auto simp: subExists_def db_ok)
  moreover have "groupGetByID ?g s2 = (Inr gr, s2)" using same by (simp add: groupGetByID_def db_ok)
  moreover have "detectAssignSemanticConflict (loadSub s2 ?r) input = None"
    using row(5-7) by (simp add: detectAssignSemanticConflict_def loadSub_def newExpiry_def Let_def)
  ultimately have "assignSubscriptionWithReuse N False input s2 = (Inr (loadSub s2 ?r, True), s2)"
    using isSub get by (simp add: assignSubscriptionWithReuse_def bindP_def ret_def)
  moreover have "us_ID (loadSub s2 ?r) = us_ID sub" using row(4) sub by (simp add: loadSub_def)
  ultimately show ?thesis by (auto simp: later)
qed

lemmas sub_eval = assignSubscriptionWithReuse_def createSubscription_def svcWithTx_def insertWithGrant_def
  newSubscription_def groupGetByID_def subExists_def subCreate_def grantCreate_def svcGetByID_def subGetByID_def
  populateQuotaSnapshot_def CountActiveBySubscriptionID_def SumActiveUsageBySubscriptionID_def activeGrants_def
  invalidateCaches_def InvalidateSubCache_def billingInvalidate_def withTx_def undoSub_def db_def bindP_def tryP_def
  nowP_def ret_def fail_def getP_def modP_def mapE_def onlyRow_def Let_def liveFor_def loadSub_def

definition demoNum :: pgnum where
  "demoNum = \<lparr>n_add = fadd, n_plus = fadd, n_minus = fsub, n_store8 = (\<lambda>x. x), n_store2 = (\<lambda>x. x), n_sum = (\<lambda>xs. foldr fadd xs (Fin 0))\<rparr>"

definition demoInput :: AssignSubscriptionInput where
  "demoInput = \<lparr>ai_UserID = 1, ai_GroupID = 1, ai_ValidityDays = 30, ai_AssignedBy = 0, ai_Notes = ''order 1''\<rparr>"

lemma demoGroup_isSub: "IsSubscriptionType demoGroup"
  by (simp add: IsSubscriptionType_def demoGroup_def)

lemma demo_first_assign:
  "\<exists>sub s1. assignSubscriptionWithReuse demoNum False demoInput (emptySubstate [1 \<mapsto> demoGroup] True 0 5) = (Inr (sub, False), s1)"
  by (simp add: sub_eval demoInput_def demoGroup_isSub emptySubstate_def zeroTime_def second_def)

theorem assign_twice_reuses_witness:
  "\<exists>sub s1 sub' s3. assignSubscriptionWithReuse demoNum False demoInput (emptySubstate [1 \<mapsto> demoGroup] True 0 5) = (Inr (sub, False), s1)
     \<and> assignSubscriptionWithReuse demoNum False demoInput (s1\<lparr>e_now := e_now s1 + 86400, e_faults := []\<rparr>) = (Inr (sub', True), s3)
     \<and> us_ID sub' = us_ID sub \<and> ss_subs s3 = ss_subs s1 \<and> ss_grants s3 = ss_grants s1"
  using demo_first_assign assign_twice_reuses [OF _ refl] by metis

subsection \<open>Revoking\<close>

lemma l1_invalidated:
  assumes "invalidateCaches u g s = (Inr (), s')" and "ss_l1on s'"
  shows "ss_l1 s' (subCacheKey u g) = None"
  using assms by (auto simp: invalidateCaches_def InvalidateSubCache_def billingInvalidate_def bindP_def modP_def split: if_splits)


definition demoState :: substate where
  "demoState = snd (assignSubscriptionWithReuse demoNum False demoInput (emptySubstate [1 \<mapsto> demoGroup] True 0 5))"

lemma demoState_eval:
  "tablesOk demoState \<and> (\<exists>r \<in> set (ss_subs demoState). liveFor 1 1 r \<and> us_ID (row_sub r) = 1)
   \<and> (\<exists>s'. RevokeSubscription 1 demoState = (Inr (), s'))"
  by (simp add: demoState_def sub_eval demoInput_def demoGroup_isSub emptySubstate_def zeroTime_def second_def tablesOk_def
      liveKeys_def subIDs_def grantIDs_def RevokeSubscription_def subDelete_def updRows_def)


subsection \<open>Windows\<close>

lemma startOfDay_current: "\<not> 24 * hour \<le> now - startOfDayIn off now"
  using startOfDayIn_recent [of now off] by (simp add: day_def)

lemma resetBlock_Inr:
  assumes "resetBlock b m1 m2 s = (Inr (), s')"
  obtains s1 where "b" "m1 s = (Inr (), s1)" "m2 s1 = (Inr (), s')" | "\<not> b" "s' = s"
  using assms by (auto simp: resetBlock_def ret_def split: if_splits elim!: bindP_Inr)

text \<open>
  Window maintenance leaves no window over: after it the subscription it was given shows, for
  each window that was over, no usage and a window that began at midnight today, and every other
  window and its usage as before.
\<close>

theorem windows_current_after_reset:
  assumes "CheckAndResetWindows sub s = (Inr sub', s')"
  shows "\<not> NeedsDailyReset (e_now s) sub' \<and> \<not> NeedsWeeklyReset (e_now s) sub' \<and> \<not> NeedsMonthlyReset (e_now s) sub'
     \<and> us_DailyUsageUSD sub' = (if NeedsDailyReset (e_now s) sub then Fin 0 else us_DailyUsageUSD sub)
     \<and> us_WeeklyUsageUSD sub' = (if NeedsWeeklyReset (e_now s) sub then Fin 0 else us_WeeklyUsageUSD sub)
     \<and> us_MonthlyUsageUSD sub' = (if NeedsMonthlyReset (e_now s) sub then Fin 0 else us_MonthlyUsageUSD sub)
     \<and> us_DailyWindowStart sub' = (if NeedsDailyReset (e_now s) sub then Some (startOfDayIn (ss_zone s) (e_now s)) else us_DailyWindowStart sub)"
proof -
  let ?w = "startOfDayIn (ss_zone s) (e_now s)" and ?now = "e_now s"
  let ?s1 = "if NeedsDailyReset ?now sub then sub\<lparr>us_DailyWindowStart := Some ?w, us_DailyUsageUSD := Fin 0\<rparr> else sub"
  let ?s2 = "if NeedsWeeklyReset ?now ?s1 then ?s1\<lparr>us_WeeklyWindowStart := Some ?w, us_WeeklyUsageUSD := Fin 0\<rparr> else ?s1"
  let ?s3 = "if NeedsMonthlyReset ?now ?s2 then ?s2\<lparr>us_MonthlyWindowStart := Some ?w, us_MonthlyUsageUSD := Fin 0\<rparr> else ?s2"
  have s3: "sub' = ?s3"
    using assms by (auto simp: CheckAndResetWindows_def Let_def bindP_def startOfDay_def getP_def nowP_def ret_def
        split: prod.splits sum.splits)
  have h: "0 < hour" by (simp add: hour_def second_def)
  note c = startOfDay_current [of ?now "ss_zone s"]
  have ge: "?now - ?w < 24 * hour" using c by simp
  then have weak: "?now - ?w < 7 * 24 * hour" "?now - ?w < 30 * 24 * hour" using h by linarith+
  show ?thesis unfolding s3
    by (cases "NeedsDailyReset ?now sub"; cases "NeedsWeeklyReset ?now sub"; cases "NeedsMonthlyReset ?now sub")
      (use ge weak in \<open>auto simp: NeedsDailyReset_def NeedsWeeklyReset_def NeedsMonthlyReset_def split: option.splits\<close>)
qed

lemma demo_reset: "\<exists>sub' s'. CheckAndResetWindows demoSub (demoState\<lparr>e_now := 3 * 24 * hour\<rparr>) = (Inr sub', s')"
  by (simp add: demoState_def sub_eval demoInput_def demoGroup_isSub emptySubstate_def zeroTime_def
      CheckAndResetWindows_def startOfDay_def resetBlock_def ResetDailyUsage_def updateSub_def
      ResetDailyUsageBySubscriptionID_def updateGrantsOf_def NeedsDailyReset_def NeedsWeeklyReset_def
      NeedsMonthlyReset_def demoSub_def hour_def second_def)

theorem windows_current_after_reset_witness:
  "\<exists>sub' s'. CheckAndResetWindows demoSub (demoState\<lparr>e_now := 3 * 24 * hour\<rparr>) = (Inr sub', s')
     \<and> \<not> NeedsDailyReset (3 * 24 * hour) sub'"
  using demo_reset windows_current_after_reset by fastforce

subsection \<open>Stacking and extending\<close>

definition activeCount :: "int \<Rightarrow> 'a substate_scheme \<Rightarrow> nat" where
  "activeCount i s = length (activeGrants i (e_now s) s)"

lemma redeemStack_Inr:
  assumes "redeemStack sub now days s = (Inr (), s')" and "0 \<le> days" and "now \<le> MaxExpiresAt"
  obtains g s1 where "grantCreate (us_ID sub) now (newExpiry now days) s = (Inr g, s1)"
    and "ss_grants s' = ss_grants s @ [g]" and "e_now s' = e_now s"
proof -
  from newExpiry_bounds [OF assms(3,2)] have "\<not> newExpiry now days < now" by simp
  with assms(1) obtain g s1 where 1: "grantCreate (us_ID sub) now (newExpiry now days) s = (Inr g, s1)"
    and 2: "ExtendExpiry (us_ID sub) (if us_ExpiresAt sub < newExpiry now days then newExpiry now days else us_ExpiresAt sub) s1 = (Inr (), s')"
    by (auto simp: redeemStack_def Let_def split: if_splits elim!: bindP_Inr)
  show thesis
    using that [OF 1] grantCreate_Inr [OF 1] updateSub_Inr [OF 2 [unfolded ExtendExpiry_def]] by simp
qed

text \<open>
  Redeeming in stack mode raises the number of active grants, and with it the quota multiplier,
  by exactly one, and leaves every grant there was as it is.
\<close>

theorem stack_adds_one_grant:
  assumes run: "redeemStack sub (e_now s) days s = (Inr (), s')"
    and d: "0 < days" and now: "e_now s < MaxExpiresAt"
  shows "activeCount (us_ID sub) s' = Suc (activeCount (us_ID sub) s)
     \<and> take (length (ss_grants s)) (ss_grants s') = ss_grants s \<and> length (ss_grants s') = Suc (length (ss_grants s))"
proof -
  from run d now obtain g s1 where 1: "grantCreate (us_ID sub) (e_now s) (newExpiry (e_now s) days) s = (Inr g, s1)"
    and s': "ss_grants s' = ss_grants s @ [g]" "e_now s' = e_now s"
    by (elim redeemStack_Inr) auto
  have "0 < days * day" using d by simp
  then have "e_now s < newExpiry (e_now s) days" using now by (simp add: newExpiry_def addDays_def Let_def)
  then have "grantOf (us_ID sub) g \<and> grantActiveAt (e_now s) g"
    using grantCreate_Inr [OF 1] by (auto simp: grantOf_def grantActiveAt_def)
  then show ?thesis by (simp add: activeCount_def activeGrants_def s')
qed

lemma demo_stack: "\<exists>s'. redeemStack demoSub (e_now demoState) 7 demoState = (Inr (), s')"
  by (simp add: demoState_def sub_eval demoInput_def demoGroup_isSub emptySubstate_def zeroTime_def
      redeemStack_def ExtendExpiry_def updateSub_def demoSub_def second_def)

lemma demoState_now: "e_now demoState = 5"
  by (simp add: demoState_def sub_eval demoInput_def demoGroup_isSub emptySubstate_def zeroTime_def second_def)

theorem stack_adds_one_grant_witness:
  "\<exists>s'. redeemStack demoSub (e_now demoState) 7 demoState = (Inr (), s')
     \<and> activeCount 1 s' = Suc (activeCount 1 demoState)"
proof -
  obtain s' where s': "redeemStack demoSub (e_now demoState) 7 demoState = (Inr (), s')" using demo_stack by blast
  have "e_now demoState < MaxExpiresAt" by (simp add: demoState_now MaxExpiresAt_def second_def)
  then have "activeCount (us_ID demoSub) s' = Suc (activeCount (us_ID demoSub) demoState)"
    using stack_adds_one_grant [OF s'] by simp
  with s' show ?thesis by (simp add: demoSub_def)
qed

text \<open>
  Redeeming in extend mode, on a subscription whose expiry is that of its last grant and still
  ahead, changes no grant but that last one, moves it and the subscription to the same later
  instant, and leaves the number of active grants as it is.
\<close>

theorem extend_moves_last_grant:
  assumes ok: "coverOk (e_now s) s" and l: "loaded sub s" and ahead: "e_now s < us_ExpiresAt sub"
    and run: "redeemExtend sub days s = (Inr (), s')" and d: "0 < days"
  shows "\<exists>g e. tailGrant (us_ID sub) s = Some g \<and> sg_ExpiresAt g = us_ExpiresAt sub
     \<and> e = newExpiry (us_ExpiresAt sub) days \<and> us_ExpiresAt sub \<le> e
     \<and> ss_grants s' = updRows (\<lambda>h. sg_ID h = sg_ID g) (\<lambda>h. h\<lparr>sg_ExpiresAt := e, sg_UpdatedAt := e_now s\<rparr>) (ss_grants s)
     \<and> activeCount (us_ID sub) s' = activeCount (us_ID sub) s"
proof -
  let ?i = "us_ID sub"
  from run obtain g s1 s2 where g: "GetTailGrantBySubscriptionID ?i s = (Inr g, s1)"
    and 1: "grantUpdateExpiresAt (sg_ID g) (max (newExpiry (sg_ExpiresAt g) days) (sg_StartsAt g)) s1 = (Inr (), s2)"
    and 2: "ExtendExpiry ?i (max (newExpiry (sg_ExpiresAt g) days) (sg_StartsAt g)) s2 = (Inr (), s')"
    by (auto simp: redeemExtend_def Let_def max_def elim!: bindP_Inr split: if_splits)
  note tail = GetTail_Inr [OF g]
  note last = tailGrant_last [OF tail(1)]
  obtain r where r: "r \<in> set (ss_subs s)" "us_ID (row_sub r) = ?i" "us_ExpiresAt (row_sub r) = us_ExpiresAt sub"
    using l by (auto simp: loaded_def)
  then have cov: "coveredBy (ss_grants s) (row_sub r)" using ok by (simp add: coverOk_def list_all_iff)
  then obtain h where h: "h \<in> set (ss_grants s)" "grantOf ?i h" "sg_ExpiresAt h = us_ExpiresAt sub"
    using r by (auto simp: coveredBy_def list_ex_iff)
  have gx: "sg_ExpiresAt g = us_ExpiresAt sub"
    using last(1,2) last(3) [OF h(1,2)] h(3) cov r by (auto simp: coveredBy_def list_all_iff)
  have max: "us_ExpiresAt sub \<le> MaxExpiresAt" using cov r by (simp add: coveredBy_def)
  have start: "sg_StartsAt g \<le> sg_ExpiresAt g" using ok last(1) by (simp add: coverOk_def list_all_iff)
  define e where "e = newExpiry (us_ExpiresAt sub) days"
  have e: "us_ExpiresAt sub \<le> e" "max (newExpiry (sg_ExpiresAt g) days) (sg_StartsAt g) = e"
    using newExpiry_bounds(1) [OF max, of days] d start by (auto simp: e_def gx)
  have gs': "ss_grants s' = updRows (\<lambda>h. sg_ID h = sg_ID g) (\<lambda>h. h\<lparr>sg_ExpiresAt := e, sg_UpdatedAt := e_now s\<rparr>) (ss_grants s)"
    and now: "e_now s' = e_now s"
    using updateGrant_Inr [OF 1 [unfolded grantUpdateExpiresAt_def]] updateSub_Inr [OF 2 [unfolded ExtendExpiry_def]] tail e(2)
    by simp_all
  have uniq: "h = g" if "h \<in> set (ss_grants s)" "sg_ID h = sg_ID g" for h
    using ok last(1) that by (auto simp: coverOk_def tablesOk_def grantIDs_def distinct_map inj_on_def)
  have "length (filter (\<lambda>h. grantOf ?i h \<and> grantActiveAt (e_now s) h) (updRows (\<lambda>h. sg_ID h = sg_ID g) (\<lambda>h. h\<lparr>sg_ExpiresAt := e, sg_UpdatedAt := e_now s\<rparr>) gs))
      = length (filter (\<lambda>h. grantOf ?i h \<and> grantActiveAt (e_now s) h) gs)" if "\<And>h. h \<in> set gs \<Longrightarrow> sg_ID h = sg_ID g \<Longrightarrow> h = g" for gs
    using that
  proof (induction gs)
    case (Cons h gs)
    have "grantActiveAt (e_now s) (g\<lparr>sg_ExpiresAt := e, sg_UpdatedAt := u\<rparr>) = grantActiveAt (e_now s) g" for u
      using gx e(1) ahead by (auto simp: grantActiveAt_def)
    with Cons show ?case by (auto simp: updRows_def grantOf_def)
  qed (simp add: updRows_def)
  then have "activeCount ?i s' = activeCount ?i s"
    using uniq by (simp add: activeCount_def activeGrants_def gs' now)
  then show ?thesis using tail(1) gx e(1) gs' e_def by blast
qed

lemma demo_extend:
  "coverOk 5 demoState \<and> (\<exists>sub. us_ID sub = 1 \<and> loaded sub demoState \<and> 5 < us_ExpiresAt sub
     \<and> (\<exists>s'. redeemExtend sub 7 demoState = (Inr (), s')))"
proof -
  have "\<exists>s'. redeemExtend (demoSub\<lparr>us_ExpiresAt := 5 + 30 * day\<rparr>) 7 demoState = (Inr (), s')"
    by (simp add: demoState_def sub_eval demoInput_def demoGroup_isSub emptySubstate_def zeroTime_def
      redeemExtend_def GetTailGrantBySubscriptionID_def tailGrant_def firstBy_def sortBy_def grantOf_def
      grantUpdateExpiresAt_def updateGrant_def updRows_def ExtendExpiry_def updateSub_def demoSub_def second_def)
  moreover have "coverOk 5 demoState \<and> loaded (demoSub\<lparr>us_ExpiresAt := 5 + 30 * day\<rparr>) demoState"
    by (simp add: demoState_def sub_eval demoInput_def demoGroup_isSub emptySubstate_def zeroTime_def
      coverOk_def tablesOk_def liveKeys_def subIDs_def grantIDs_def coveredBy_def grantOf_def loaded_def demoSub_def
      newExpiry_def addDays_def normalizeAssignValidityDays_def MaxValidityDays_def MaxExpiresAt_def day_def hour_def second_def)
  ultimately show ?thesis by (intro conjI exI [of _ "demoSub\<lparr>us_ExpiresAt := 5 + 30 * day\<rparr>"]) (auto simp: demoSub_def)
qed

theorem extend_moves_last_grant_witness:
  "\<exists>sub s'. redeemExtend sub 7 demoState = (Inr (), s') \<and> activeCount (us_ID sub) s' = activeCount (us_ID sub) demoState"
  using demo_extend extend_moves_last_grant [of demoState _ 7] by (fastforce simp: demoState_now)

end
