(* ===== verification/GoCrypto.thy ===== *)
theory GoCrypto
  imports GoPrelude "HOL-Library.Word"
begin

section \<open>SHA-256 and text formatting\<close>

text \<open>
  What the modelled code uses of crypto/sha256, encoding/hex and fmt: SHA-256 of a byte string (FIPS
  180-4, on 32-bit words), its lower-case hexadecimal form, and fmt's fixed-point verb (0.10f) on
  floats, which rounds the exact value half to even.
\<close>

unbundle bit_operations_syntax

text \<open>The constants: the fractions of the cube and square roots of the first primes, to 32 bits.\<close>

primrec rootFrom :: "nat \<Rightarrow> nat \<Rightarrow> nat \<Rightarrow> nat \<Rightarrow> nat" where
  "rootFrom k n 0 acc = acc"
| "rootFrom k n (Suc b) acc = rootFrom k n b (if (acc + 2 ^ b) ^ k \<le> n then acc + 2 ^ b else acc)"

definition fracRoot :: "nat \<Rightarrow> nat \<Rightarrow> 32 word" where
  "fracRoot k p = of_nat (rootFrom k (p * 2 ^ (32 * k)) 37 0)"

definition primesBelow :: "nat \<Rightarrow> nat list" where
  "primesBelow n = filter (\<lambda>p. list_all (\<lambda>d. p mod d \<noteq> 0) [2..<p]) [2..<n]"

definition shaK :: "32 word list" where
  "shaK = map (fracRoot 3) (primesBelow 312)"

definition shaInit :: "32 word list" where
  "shaInit = map (fracRoot 2) (primesBelow 20)"

definition bytesOf :: "nat \<Rightarrow> nat \<Rightarrow> nat list" where
  "bytesOf k n = map (\<lambda>i. n div 256 ^ (k - 1 - i) mod 256) [0..<k]"

definition shaPad :: "nat list \<Rightarrow> nat list" where
  "shaPad m = m @ [128] @ replicate ((119 - length m mod 64) mod 64) 0 @ bytesOf 8 (8 * length m)"

fun words32 :: "nat list \<Rightarrow> 32 word list" where
  "words32 (a # b # c # d # xs) = of_nat (((a * 256 + b) * 256 + c) * 256 + d) # words32 xs"
| "words32 _ = []"

definition sig0 :: "32 word \<Rightarrow> 32 word" where
  "sig0 x = word_rotr 7 x XOR word_rotr 18 x XOR drop_bit 3 x"
definition sig1 :: "32 word \<Rightarrow> 32 word" where
  "sig1 x = word_rotr 17 x XOR word_rotr 19 x XOR drop_bit 10 x"
definition Sig0 :: "32 word \<Rightarrow> 32 word" where
  "Sig0 x = word_rotr 2 x XOR word_rotr 13 x XOR word_rotr 22 x"
definition Sig1 :: "32 word \<Rightarrow> 32 word" where
  "Sig1 x = word_rotr 6 x XOR word_rotr 11 x XOR word_rotr 25 x"

text \<open>The message schedule, with the newest word first.\<close>

fun schedule :: "nat \<Rightarrow> 32 word list \<Rightarrow> 32 word list" where
  "schedule 0 ws = ws"
| "schedule (Suc n) ws = schedule n ((sig1 (ws ! 1) + ws ! 6 + sig0 (ws ! 14) + ws ! 15) # ws)"

fun shaRound :: "32 word list \<Rightarrow> 32 word \<times> 32 word \<Rightarrow> 32 word list" where
  "shaRound [a, b, c, d, e, f, g, h] (k, w) =
    (let t1 = h + Sig1 e + ((e AND f) XOR ((NOT e) AND g)) + k + w;
         t2 = Sig0 a + ((a AND b) XOR (a AND c) XOR (b AND c))
     in [t1 + t2, a, b, c, d + t1, e, f, g])"
| "shaRound st _ = st"

definition shaBlock :: "32 word list \<Rightarrow> 32 word list \<Rightarrow> 32 word list" where
  "shaBlock st ws = map2 (+) st (foldl shaRound st (zip shaK (rev (schedule 48 (rev ws)))))"

function shaBlocks :: "32 word list \<Rightarrow> 32 word list \<Rightarrow> 32 word list" where
  "shaBlocks st ws = (if length ws < 16 then st else shaBlocks (shaBlock st (take 16 ws)) (drop 16 ws))"
  by pat_completeness auto
termination by (relation "measure (\<lambda>(_, ws). length ws)") auto

declare shaBlocks.simps [simp del]

definition sha256 :: "string \<Rightarrow> nat list" where
  "sha256 s = concat (map (\<lambda>w. bytesOf 4 (unat w)) (shaBlocks shaInit (words32 (shaPad (map of_char s)))))"

definition hexDigit :: "nat \<Rightarrow> char" where
  "hexDigit n = (if n < 10 then char_of (48 + n) else char_of (87 + n))"

definition hexEncode :: "nat list \<Rightarrow> string" where
  "hexEncode bs = concat (map (\<lambda>b. [hexDigit (b div 16), hexDigit (b mod 16)]) bs)"

definition sha256hex :: "string \<Rightarrow> string" where
  "sha256hex s = hexEncode (sha256 s)"

definition fmtFixed :: "nat \<Rightarrow> f64 \<Rightarrow> string" where
  "fmtFixed k x = (case x of
       Fin a \<Rightarrow>
         let n = nat (rne (\<bar>a\<bar> * 10 ^ k)); ds = natDigits (n mod 10 ^ k)
         in (if a < 0 then ''-'' else []) @ natDigits (n div 10 ^ k) @ ''.'' @ replicate (k - length ds) (CHR ''0'') @ ds
     | PInf \<Rightarrow> ''+Inf''
     | NInf \<Rightarrow> ''-Inf''
     | NaN \<Rightarrow> ''NaN'')"

lemma length_bytesOf [simp]: "length (bytesOf k n) = k"
  by (simp add: bytesOf_def)

end
