(* ===== verification/AtMostOnce.thy ===== *)
theory AtMostOnce
  imports GoPrelude
begin

section \<open>At-most-once operations\<close>

text \<open>
  The contract several components rely on: an operation carries a key, and whoever first takes
  effect under a key claims it for good.  \<open>runOps\<close> runs operations one after the other and keeps
  what each returned.
\<close>

fun runOps :: "('op \<Rightarrow> 's \<Rightarrow> 'r \<times> 's) \<Rightarrow> 'op list \<Rightarrow> 's \<Rightarrow> ('op \<times> 'r) list \<times> 's" where
  "runOps step [] s = ([], s)"
| "runOps step (op # ops) s = (let (r, s1) = step op s; (rs, s2) = runOps step ops s1 in ((op, r) # rs, s2))"

locale at_most_once =
  fixes step :: "'op \<Rightarrow> 's \<Rightarrow> 'r \<times> 's"
    and effective :: "'k \<Rightarrow> 'op \<Rightarrow> 'r \<Rightarrow> bool"
    and claimed :: "'k \<Rightarrow> 's \<Rightarrow> bool"
  assumes claims: "\<lbrakk>step op s = (r, s'); effective k op r\<rbrakk> \<Longrightarrow> \<not> claimed k s \<and> claimed k s'"
    and stays: "\<lbrakk>step op s = (r, s'); claimed k s\<rbrakk> \<Longrightarrow> claimed k s'"
begin

lemma none_when_claimed:
  "claimed k s \<Longrightarrow> filter (\<lambda>(op, r). effective k op r) (fst (runOps step ops s)) = [] \<and> claimed k (snd (runOps step ops s))"
proof (induction ops arbitrary: s)
  case (Cons op ops)
  obtain r s1 where 1: "step op s = (r, s1)" by fastforce
  have "claimed k s1" using stays [OF 1] Cons.prems by simp
  moreover have "\<not> effective k op r" using claims [OF 1] Cons.prems by blast
  ultimately show ?case using Cons.IH [of s1] 1 by (auto simp: Let_def split: prod.splits)
qed simp

lemma at_most_one: "length (filter (\<lambda>(op, r). effective k op r) (fst (runOps step ops s))) \<le> 1"
proof (induction ops arbitrary: s)
  case (Cons op ops)
  obtain r s1 where 1: "step op s = (r, s1)" by fastforce
  obtain rs s2 where 2: "runOps step ops s1 = (rs, s2)" by fastforce
  show ?case
  proof (cases "effective k op r")
    case True
    then have "claimed k s1" using claims [OF 1] by blast
    then have "filter (\<lambda>(op, r). effective k op r) rs = []" using none_when_claimed [of k s1 ops] 2 by simp
    then show ?thesis by (simp add: 1 2)
  qed (use Cons.IH [of s1] 2 in \<open>simp add: 1\<close>)
qed simp

end

end
