(* ===== verification/UsageBilling.thy ===== *)
theory UsageBilling
  imports SubscriptionCover GoCrypto AtMostOnce
begin

section \<open>Usage billing\<close>

text \<open>
  service/usage_billing.go and repository/usage_billing_repo.go: the single transaction that bills
  one request, with its deduplication key, the subscription's grants, the gift balance (spent
  before the ordinary balance), the unlocking of sales commissions, the API key's quota and rate
  windows, and the account's quotas; and the clean-up that archives old deduplication keys
  (repository/dashboard_aggregation_repo.go).  Sums of money on commissions use
  github.com/shopspring/decimal, the parameter \<open>D\<close>; \<open>N\<close> are the numeric operations of the database.
  A row of usage_logs is its key and an opaque body.  The database session is in the zone of the
  application, \<open>ss_zone\<close> (DSNWithTimezone).  A failing statement is followed by whatever the Go code
  does next, which in PostgreSQL then fails too: \<open>e_faults\<close> covers that and more.
\<close>

record usage_log =
  ul_RequestID :: string
  ul_APIKeyID :: int
  ul_Body :: string

record UsageBillingCommand =
  c_RequestID :: string
  c_APIKeyID :: int
  c_RequestFingerprint :: string
  c_RequestPayloadHash :: string
  c_BilledAt :: int
  c_UserID :: int
  c_AccountID :: int
  c_SubscriptionID :: "int option"
  c_AccountType :: string
  c_Model :: string
  c_ServiceTier :: string
  c_ReasoningEffort :: string
  c_BillingType :: int
  c_InputTokens :: int
  c_OutputTokens :: int
  c_CacheCreationTokens :: int
  c_CacheReadTokens :: int
  c_ImageCount :: int
  c_MediaType :: string
  c_BalanceCost :: f64
  c_SubscriptionCost :: f64
  c_APIKeyQuotaCost :: f64
  c_APIKeyRateLimitCost :: f64
  c_AccountQuotaCost :: f64
  c_UsageLog :: "usage_log option"

record AccountQuotaState =
  qs_TotalUsed :: f64
  qs_TotalLimit :: f64
  qs_DailyUsed :: f64
  qs_DailyLimit :: f64
  qs_WeeklyUsed :: f64
  qs_WeeklyLimit :: f64

record UsageBillingApplyResult =
  r_Applied :: bool
  r_APIKeyQuotaExhausted :: bool
  r_NewBalance :: "f64 option"
  r_QuotaState :: "AccountQuotaState option"

subsection \<open>The command\<close>

definition valueOrZero :: "int option \<Rightarrow> int" where
  "valueOrZero v = (case v of None \<Rightarrow> 0 | Some i \<Rightarrow> i)"

fun joinWith :: "string \<Rightarrow> string list \<Rightarrow> string" where
  "joinWith sep [] = []"
| "joinWith sep [x] = x"
| "joinWith sep (x # y # xs) = x @ sep @ joinWith sep (y # xs)"

definition buildUsageBillingFingerprint :: "UsageBillingCommand \<Rightarrow> string" where
  "buildUsageBillingFingerprint c =
    (let raw = joinWith ''|''
       [itoa (c_UserID c), itoa (c_AccountID c), itoa (c_APIKeyID c), trimSpace (c_AccountType c),
        trimSpace (c_Model c), trimSpace (c_ServiceTier c), trimSpace (c_ReasoningEffort c),
        itoa (c_BillingType c), itoa (c_InputTokens c), itoa (c_OutputTokens c), itoa (c_CacheCreationTokens c),
        itoa (c_CacheReadTokens c), itoa (c_ImageCount c), trimSpace (c_MediaType c), itoa (valueOrZero (c_SubscriptionID c)),
        fmtFixed 10 (c_BalanceCost c), fmtFixed 10 (c_SubscriptionCost c), fmtFixed 10 (c_APIKeyQuotaCost c),
        fmtFixed 10 (c_APIKeyRateLimitCost c), fmtFixed 10 (c_AccountQuotaCost c)];
         payloadHash = trimSpace (c_RequestPayloadHash c)
     in sha256hex (if payloadHash \<noteq> [] then raw @ ''|'' @ payloadHash else raw))"

definition normalizeCommand :: "UsageBillingCommand \<Rightarrow> UsageBillingCommand" where
  "normalizeCommand c0 =
    (let c = c0\<lparr>c_RequestID := trimSpace (c_RequestID c0)\<rparr>
     in if trimSpace (c_RequestFingerprint c) = [] then c\<lparr>c_RequestFingerprint := buildUsageBillingFingerprint c\<rparr> else c)"

definition HashUsageRequestPayload :: "string \<Rightarrow> string" where
  "HashUsageRequestPayload payload = (if payload = [] then [] else sha256hex payload)"

definition ErrUsageBillingRequestIDRequired :: err where
  "ErrUsageBillingRequestIDRequired = Internal ''usage billing request_id is required''"
definition ErrUsageBillingRequestConflict :: err where
  "ErrUsageBillingRequestConflict = Internal ''usage billing request fingerprint conflict''"
definition ErrUserNotFound :: err where "ErrUserNotFound = AppErr ''USER_NOT_FOUND''"
definition ErrAPIKeyNotFound :: err where "ErrAPIKeyNotFound = AppErr ''API_KEY_NOT_FOUND''"
definition ErrAccountNotFound :: err where "ErrAccountNotFound = AppErr ''ACCOUNT_NOT_FOUND''"

subsection \<open>The tables\<close>

record dedup_row =
  dd_request :: string
  dd_key :: int
  dd_fingerprint :: string
  dd_created :: int

record gift_row =
  gb_id :: int
  gb_user :: int
  gb_remaining :: f64
  gb_expires :: "int option"
  gb_created :: int

record commission_row =
  cm_id :: int
  cm_referee :: int
  cm_order :: int
  cm_orderCredited :: f64
  cm_creditedUsed :: f64
  cm_totalCNY :: f64
  cm_unlockedCNY :: f64
  cm_status :: string

record key_row =
  k_deleted :: bool
  k_quota :: f64
  k_quotaUsed :: f64
  k_status :: string
  k_usage5h :: f64
  k_usage1d :: f64
  k_usage7d :: f64
  k_start5h :: "int option"
  k_start1d :: "int option"
  k_start7d :: "int option"

text \<open>The keys of the accounts' JSON column that the quota update reads and writes.\<close>

record quota_row =
  q_deleted :: bool
  q_used :: f64
  q_limit :: f64
  q_dailyUsed :: f64
  q_dailyLimit :: f64
  q_dailyStart :: "int option"
  q_dailyFixed :: bool
  q_dailyResetAt :: "int option"
  q_dailyResetHour :: int
  q_weeklyUsed :: f64
  q_weeklyLimit :: f64
  q_weeklyStart :: "int option"
  q_weeklyFixed :: bool
  q_weeklyResetAt :: "int option"
  q_weeklyResetDay :: int
  q_weeklyResetHour :: int
  q_resetZone :: int

record billstate = substate +
  bw_dedup :: "dedup_row list"
  bw_archive :: "dedup_row list"
  bw_balance :: "int \<rightharpoonup> f64"
  bw_gifts :: "gift_row list"
  bw_commissions :: "commission_row list"
  bw_orderStatus :: "int \<rightharpoonup> string"
  bw_keys :: "int \<rightharpoonup> key_row"
  bw_quotas :: "int \<rightharpoonup> quota_row"
  bw_usageLogs :: "usage_log list"
  bw_outbox :: "int list"

text \<open>What a rollback leaves: the caches, and the events already sent to the scheduler's stream.\<close>

definition undoBill :: "'a billstate_scheme \<Rightarrow> 'a billstate_scheme \<Rightarrow> 'a billstate_scheme" where
  "undoBill s s' = s\<lparr>e_faults := e_faults s', ss_l1 := ss_l1 s', ss_billingInvalidated := ss_billingInvalidated s',
     bw_outbox := bw_outbox s'\<rparr>"

subsection \<open>Claiming the request\<close>

definition sameRequest :: "UsageBillingCommand \<Rightarrow> dedup_row \<Rightarrow> bool" where
  "sameRequest c d \<longleftrightarrow> dd_request d = c_RequestID c \<and> dd_key d = c_APIKeyID c"

definition sameFingerprint :: "UsageBillingCommand \<Rightarrow> dedup_row \<Rightarrow> bool" where
  "sameFingerprint c d \<longleftrightarrow> trimSpace (dd_fingerprint d) = trimSpace (c_RequestFingerprint c)"

text \<open>INSERT ... ON CONFLICT DO NOTHING RETURNING id: whether a row went in.\<close>

definition insertDedup :: "UsageBillingCommand \<Rightarrow> ('a billstate_scheme, bool) proc" where
  "insertDedup c = db ''insert dedup'' (\<lambda>s.
     if \<exists>d \<in> set (bw_dedup s). sameRequest c d then (Inr False, s)
     else (Inr True, s\<lparr>bw_dedup := bw_dedup s @ [\<lparr>dd_request = c_RequestID c, dd_key = c_APIKeyID c,
             dd_fingerprint = c_RequestFingerprint c, dd_created = e_now s\<rparr>]\<rparr>))"

definition claimUsageBillingKey :: "UsageBillingCommand \<Rightarrow> ('a billstate_scheme, bool) proc" where
  "claimUsageBillingKey c =
     bindP (insertDedup c) (\<lambda>inserted.
     if \<not> inserted
     then bindP (db ''select dedup'' (getP (\<lambda>s. find (sameRequest c) (bw_dedup s)))) (\<lambda>existing. case existing of
            None \<Rightarrow> fail (Internal ''no rows'')
          | Some d \<Rightarrow> if \<not> sameFingerprint c d then fail ErrUsageBillingRequestConflict else ret False)
     else bindP (db ''select archive'' (getP (\<lambda>s. find (sameRequest c) (bw_archive s)))) (\<lambda>archived. case archived of
            Some d \<Rightarrow> if \<not> sameFingerprint c d then fail ErrUsageBillingRequestConflict else ret False
          | None \<Rightarrow> ret True))"

subsection \<open>Subscription cost\<close>

text \<open>Only the three limits are read; the record is otherwise the zero Group.\<close>

definition zeroGroup :: Group where
  "zeroGroup = \<lparr>g_ID = 0, g_Name = [], g_Platform = [], g_RateMultiplier = Fin 0, g_Status = [], g_Hydrated = False,
     g_SubscriptionType = [], g_DailyLimitUSD = None, g_WeeklyLimitUSD = None, g_MonthlyLimitUSD = None,
     g_DefaultValidityDays = 0, g_ImagePrice1K = None, g_ImagePrice2K = None, g_ImagePrice4K = None,
     g_ModelRouting = [], g_ModelRoutingEnabled = False\<rparr>"

definition loadUsageBillingSubscriptionGroup :: "int \<Rightarrow> ('a billstate_scheme, Group) proc" where
  "loadUsageBillingSubscriptionGroup i = db ''load group limits'' (\<lambda>s.
     (case find (chargeable s i) (ss_subs s) of
        None \<Rightarrow> Inl ErrSubscriptionNotFound
      | Some r \<Rightarrow> (case ss_groups s (us_GroupID (row_sub r)) of
            None \<Rightarrow> Inl ErrSubscriptionNotFound
          | Some g \<Rightarrow> Inr (zeroGroup\<lparr>g_DailyLimitUSD := g_DailyLimitUSD g, g_WeeklyLimitUSD := g_WeeklyLimitUSD g,
                       g_MonthlyLimitUSD := g_MonthlyLimitUSD g\<rparr>)), s))"

text \<open>UPDATE ... WHERE id: a missing row is no error here.\<close>

definition addUsageToGrant :: "pgnum \<Rightarrow> int \<Rightarrow> f64 \<Rightarrow> ('a billstate_scheme, unit) proc" where
  "addUsageToGrant N i c = db ''update grant'' (modP (\<lambda>s.
     s\<lparr>ss_grants := updRows (\<lambda>g. sg_ID g = i) (\<lambda>g. (addGrantUsage N c g)\<lparr>sg_UpdatedAt := e_now s\<rparr>) (ss_grants s)\<rparr>))"

fun billGrantsLoop :: "pgnum \<Rightarrow> Group \<Rightarrow> f64 \<Rightarrow> SubscriptionGrant list \<Rightarrow> ('a billstate_scheme, unit) proc" where
  "billGrantsLoop N og remaining [] = ret ()"
| "billGrantsLoop N og remaining (g # gs) =
    (if fle remaining (Fin 0) then ret ()
     else let cap = grantCap (Some og) (sg_DailyUsageUSD g) (sg_WeeklyUsageUSD g) (sg_MonthlyUsageUSD g);
              a = allocationFor remaining cap (gs = [])
          in if fle a (Fin 0) then billGrantsLoop N og remaining gs
             else bindP (addUsageToGrant N (sg_ID g) a) (\<lambda>_. billGrantsLoop N og (fsub remaining a) gs))"

definition allocateUsageBillingSubscriptionGrants ::
  "pgnum \<Rightarrow> int \<Rightarrow> Group \<Rightarrow> int \<Rightarrow> f64 \<Rightarrow> ('a billstate_scheme, unit) proc" where
  "allocateUsageBillingSubscriptionGrants N sub og t cost =
    (if fle cost (Fin 0) then ret ()
     else bindP (db ''lock grants'' (getP (\<lambda>s. sortBy earliestExpiry (activeGrants sub t s)))) (\<lambda>grants.
       if grants = []
       then bindP (db ''tail grant'' (getP (tailGrant sub))) (\<lambda>tail. case tail of
              None \<Rightarrow> fail ErrSubscriptionGrantNotFound
            | Some g \<Rightarrow> addUsageToGrant N (sg_ID g) cost)
       else billGrantsLoop N og cost grants))"

definition incrementUsageBillingSubscription :: "pgnum \<Rightarrow> int \<Rightarrow> int \<Rightarrow> f64 \<Rightarrow> ('a billstate_scheme, unit) proc" where
  "incrementUsageBillingSubscription N i billedAt cost =
     bindP (loadUsageBillingSubscriptionGroup i) (\<lambda>og.
     bindP nowP (\<lambda>now.
     bindP (allocateUsageBillingSubscriptionGrants N i og (if billedAt = zeroTime then now else billedAt) cost) (\<lambda>_.
     IncrementUsage N i cost)))"

subsection \<open>Balance cost: gift balance first\<close>

definition giftFarFuture :: int where "giftFarFuture = 4102358400 * second"

text \<open>COALESCE(expires_at, '2099-12-31') in the zone of the session.\<close>

definition giftExpiry :: "int \<Rightarrow> gift_row \<Rightarrow> int" where
  "giftExpiry zone g = (case gb_expires g of None \<Rightarrow> giftFarFuture - zone | Some t \<Rightarrow> t)"

definition giftSpendable :: "int \<Rightarrow> int \<Rightarrow> gift_row \<Rightarrow> bool" where
  "giftSpendable user now g \<longleftrightarrow> gb_user g = user \<and> flt (Fin 0) (gb_remaining g)
     \<and> (case gb_expires g of None \<Rightarrow> True | Some t \<Rightarrow> now < t)"

definition giftOrder :: "int \<Rightarrow> gift_row \<Rightarrow> gift_row \<Rightarrow> bool" where
  "giftOrder zone a b \<longleftrightarrow> giftExpiry zone a < giftExpiry zone b \<or> (giftExpiry zone a = giftExpiry zone b \<and> gb_id a \<le> gb_id b)"

definition setGiftRemaining :: "pgnum \<Rightarrow> int \<Rightarrow> f64 \<Rightarrow> ('a billstate_scheme, unit) proc" where
  "setGiftRemaining N i v = db ''update gift'' (modP (\<lambda>s.
     s\<lparr>bw_gifts := updRows (\<lambda>g. gb_id g = i) (\<lambda>g. g\<lparr>gb_remaining := n_store8 N v\<rparr>) (bw_gifts s)\<rparr>))"

text \<open>Every error ends the loop with what has been deducted so far.\<close>

fun giftLoop :: "pgnum \<Rightarrow> f64 \<Rightarrow> f64 \<Rightarrow> gift_row list \<Rightarrow> ('a billstate_scheme, f64) proc" where
  "giftLoop N remaining deducted [] = ret deducted"
| "giftLoop N remaining deducted (g # gs) =
    (if fle remaining (Fin 0) then ret deducted
     else let deduct = (if flt remaining (gb_remaining g) then remaining else gb_remaining g)
          in tryP (setGiftRemaining N (gb_id g) (fsub (gb_remaining g) deduct)) (\<lambda>_. ret deducted)
               (\<lambda>_. giftLoop N (fsub remaining deduct) (fadd deducted deduct) gs))"

definition deductGiftBalanceFIFO :: "pgnum \<Rightarrow> int \<Rightarrow> f64 \<Rightarrow> ('a billstate_scheme, f64) proc" where
  "deductGiftBalanceFIFO N user amount =
     tryP (db ''lock gifts'' (getP (\<lambda>s. sortBy (giftOrder (ss_zone s)) (filter (giftSpendable user (e_now s)) (bw_gifts s)))))
       (\<lambda>_. ret (Fin 0)) (giftLoop N amount (Fin 0))"

subsection \<open>Sales commissions unlocked by ordinary balance\<close>

text \<open>The operations of shopspring/decimal the code calls; d_float is InexactFloat64.\<close>

record 'd decimal =
  d_of :: "f64 \<Rightarrow> 'd"
  d_sub :: "'d \<Rightarrow> 'd \<Rightarrow> 'd"
  d_add :: "'d \<Rightarrow> 'd \<Rightarrow> 'd"
  d_mul :: "'d \<Rightarrow> 'd \<Rightarrow> 'd"
  d_div :: "'d \<Rightarrow> 'd \<Rightarrow> 'd"
  d_round :: "int \<Rightarrow> 'd \<Rightarrow> 'd"
  d_le :: "'d \<Rightarrow> 'd \<Rightarrow> bool"
  d_zero :: 'd
  d_float :: "'d \<Rightarrow> f64"

definition tenThousandth :: f64 where "tenThousandth = fl (1 / 10000)"

definition setCommission :: "int \<Rightarrow> (commission_row \<Rightarrow> commission_row) \<Rightarrow> ('a billstate_scheme, unit) proc" where
  "setCommission i f = db ''update commission'' (modP (\<lambda>s.
     s\<lparr>bw_commissions := updRows (\<lambda>c. cm_id c = i) f (bw_commissions s)\<rparr>))"

definition unlockable :: "int \<Rightarrow> 'a billstate_scheme \<Rightarrow> commission_row \<Rightarrow> bool" where
  "unlockable user s c \<longleftrightarrow> cm_referee c = user \<and> bw_orderStatus s (cm_order c) = Some ''COMPLETED''
     \<and> cm_status c \<noteq> ''settlement_blocked'' \<and> flt (cm_creditedUsed c) (cm_orderCredited c)"

text \<open>What one record becomes when \<open>allocated\<close> of its order's credit is spent.\<close>

definition unlockRecord :: "pgnum \<Rightarrow> 'd decimal \<Rightarrow> 'd \<Rightarrow> commission_row \<Rightarrow> commission_row \<Rightarrow> commission_row" where
  "unlockRecord N D allocated rec row =
    (let orderCredited = d_of D (cm_orderCredited rec);
         newUsed = d_round D 8 (d_add D (d_of D (cm_creditedUsed rec)) allocated);
         total = d_of D (cm_totalCNY rec)
     in if d_le D total (d_zero D) then row\<lparr>cm_creditedUsed := n_store8 N (d_float D newUsed)\<rparr>
     else let unlockDelta = d_round D 2 (d_mul D (d_div D allocated orderCredited) total);
              newUnlocked = d_round D 2 (d_add D (d_of D (cm_unlockedCNY rec)) unlockDelta);
              full = d_le D orderCredited newUsed;
              newUsed' = (if full then d_round D 8 orderCredited else newUsed);
              newUnlocked' = (if full then d_round D 2 total else newUnlocked);
              status = (if d_le D total newUnlocked' then ''unlocked'' else ''partial_unlocked'')
          in row\<lparr>cm_creditedUsed := n_store8 N (d_float D newUsed'), cm_unlockedCNY := n_store2 N (d_float D newUnlocked'),
                 cm_status := status\<rparr>)"

fun unlockLoop :: "pgnum \<Rightarrow> 'd decimal \<Rightarrow> 'd \<Rightarrow> commission_row list \<Rightarrow> ('a billstate_scheme, unit) proc" where
  "unlockLoop N D remaining [] = ret ()"
| "unlockLoop N D remaining (rec # recs) =
    (if d_le D remaining (d_zero D) then ret ()
     else let orderCredited = d_of D (cm_orderCredited rec);
              available = d_sub D orderCredited (d_of D (cm_creditedUsed rec))
          in if d_le D available (d_zero D) \<or> d_le D orderCredited (d_zero D) then unlockLoop N D remaining recs
             else let allocated = (if \<not> d_le D remaining available then available else remaining)
                  in bindP (setCommission (cm_id rec) (unlockRecord N D allocated rec))
                       (\<lambda>_. unlockLoop N D (d_sub D remaining allocated) recs))"

definition unlockSalesCommissionFIFO :: "pgnum \<Rightarrow> 'd decimal \<Rightarrow> int \<Rightarrow> f64 \<Rightarrow> ('a billstate_scheme, unit) proc" where
  "unlockSalesCommissionFIFO N D user amount =
    (if fle amount tenThousandth then ret ()
     else bindP (db ''lock commissions'' (getP (\<lambda>s.
              sortBy (\<lambda>a b. cm_id a \<le> cm_id b) (filter (unlockable user s) (bw_commissions s)))))
       (unlockLoop N D (d_of D amount)))"

definition takeBalance :: "pgnum \<Rightarrow> int \<Rightarrow> f64 \<Rightarrow> ('a billstate_scheme, f64) proc" where
  "takeBalance N user amount = db ''update user balance'' (\<lambda>s. case bw_balance s user of
       None \<Rightarrow> (Inl ErrUserNotFound, s)
     | Some b \<Rightarrow> (let b' = n_store8 N (n_minus N b amount) in (Inr b', s\<lparr>bw_balance := (bw_balance s)(user \<mapsto> b')\<rparr>)))"

definition readBalance :: "int \<Rightarrow> ('a billstate_scheme, f64) proc" where
  "readBalance user = db ''select user balance'' (\<lambda>s. case bw_balance s user of
       None \<Rightarrow> (Inl ErrUserNotFound, s) | Some b \<Rightarrow> (Inr b, s))"

definition deductUsageBillingBalance :: "pgnum \<Rightarrow> 'd decimal \<Rightarrow> int \<Rightarrow> f64 \<Rightarrow> ('a billstate_scheme, f64) proc" where
  "deductUsageBillingBalance N D user amount =
     bindP (deductGiftBalanceFIFO N user amount) (\<lambda>giftDeducted.
     let remainingCost = fsub amount giftDeducted
     in if flt tenThousandth remainingCost
        then bindP (takeBalance N user remainingCost) (\<lambda>newBalance.
             bindP (unlockSalesCommissionFIFO N D user remainingCost) (\<lambda>_. ret newBalance))
        else readBalance user)"

subsection \<open>The API key\<close>

definition incrementUsageBillingAPIKeyQuota :: "pgnum \<Rightarrow> int \<Rightarrow> f64 \<Rightarrow> ('a billstate_scheme, bool) proc" where
  "incrementUsageBillingAPIKeyQuota N key amount = db ''update key quota'' (\<lambda>s.
     case bw_keys s key of
       None \<Rightarrow> (Inl ErrAPIKeyNotFound, s)
     | Some k \<Rightarrow>
        if k_deleted k then (Inl ErrAPIKeyNotFound, s)
        else let raw = n_plus N (k_quotaUsed k) amount;
                 used = n_store8 N raw;
                 status = (if flt (Fin 0) (k_quota k) \<and> k_status k = ''active'' \<and> flt (k_quotaUsed k) (k_quota k)
                              \<and> fle (k_quota k) raw then ''quota_exhausted'' else k_status k)
             in (Inr (flt (Fin 0) (k_quota k) \<and> fle (k_quota k) used \<and> flt (n_minus N used amount) (k_quota k)),
                 s\<lparr>bw_keys := (bw_keys s)(key \<mapsto> k\<lparr>k_quotaUsed := used, k_status := status\<rparr>)\<rparr>))"

text \<open>A rate window: restart the counter when it has run out, and its start also when there is none.\<close>

definition windowOver :: "int \<Rightarrow> int \<Rightarrow> int option \<Rightarrow> bool" where
  "windowOver now len start = (case start of None \<Rightarrow> False | Some t \<Rightarrow> t + len \<le> now)"

definition windowUsage :: "pgnum \<Rightarrow> int \<Rightarrow> int \<Rightarrow> f64 \<Rightarrow> int option \<Rightarrow> f64 \<Rightarrow> f64" where
  "windowUsage N now len cost start usage = n_store8 N (if windowOver now len start then cost else n_plus N usage cost)"

definition windowStart :: "int \<Rightarrow> int \<Rightarrow> int \<Rightarrow> int option \<Rightarrow> int option" where
  "windowStart now len fresh start = (if start = None \<or> windowOver now len start then Some fresh else start)"

definition incrementUsageBillingAPIKeyRateLimit :: "pgnum \<Rightarrow> int \<Rightarrow> f64 \<Rightarrow> ('a billstate_scheme, unit) proc" where
  "incrementUsageBillingAPIKeyRateLimit N key cost = db ''update key windows'' (\<lambda>s.
     case bw_keys s key of
       None \<Rightarrow> (Inl ErrAPIKeyNotFound, s)
     | Some k \<Rightarrow>
        if k_deleted k then (Inl ErrAPIKeyNotFound, s)
        else let now = e_now s; today = startOfDayIn (ss_zone s) now
             in (Inr (), s\<lparr>bw_keys := (bw_keys s)(key \<mapsto> k\<lparr>
                   k_usage5h := windowUsage N now (5 * hour) cost (k_start5h k) (k_usage5h k),
                   k_usage1d := windowUsage N now (24 * hour) cost (k_start1d k) (k_usage1d k),
                   k_usage7d := windowUsage N now (7 * day) cost (k_start7d k) (k_usage7d k),
                   k_start5h := windowStart now (5 * hour) now (k_start5h k),
                   k_start1d := windowStart now (24 * hour) today (k_start1d k),
                   k_start7d := windowStart now (7 * day) today (k_start7d k)\<rparr>)\<rparr>))"

subsection \<open>The account's quotas\<close>

definition dailyExpired :: "int \<Rightarrow> quota_row \<Rightarrow> bool" where
  "dailyExpired now q = (if q_dailyFixed q then case_option 0 id (q_dailyResetAt q) \<le> now
     else case_option 0 id (q_dailyStart q) + 24 * hour \<le> now)"

definition weeklyExpired :: "int \<Rightarrow> quota_row \<Rightarrow> bool" where
  "weeklyExpired now q = (if q_weeklyFixed q then case_option 0 id (q_weeklyResetAt q) \<le> now
     else case_option 0 id (q_weeklyStart q) + 168 * hour \<le> now)"

definition nextDailyReset :: "int \<Rightarrow> quota_row \<Rightarrow> int option" where
  "nextDailyReset now q = (if q_dailyFixed q
     then let today = startOfDayIn (q_resetZone q) now + q_dailyResetHour q * hour
          in Some (if today \<le> now then today + day else today)
     else None)"

text \<open>EXTRACT(DOW): 0 is Sunday; the epoch was a Thursday.\<close>

definition dow :: "int \<Rightarrow> int \<Rightarrow> int" where
  "dow zone now = (4 + (now + zone) div day) mod 7"

definition nextWeeklyReset :: "int \<Rightarrow> quota_row \<Rightarrow> int option" where
  "nextWeeklyReset now q = (if q_weeklyFixed q
     then let base = startOfDayIn (q_resetZone q) now + q_weeklyResetHour q * hour;
              forward = goMod (q_weeklyResetDay q - dow (q_resetZone q) now + 7) 7
          in Some (if forward = 0 \<and> base \<le> now then base + 7 * day else base + forward * day)
     else None)"

text \<open>Every expression of the UPDATE reads the row as it was.\<close>

definition addQuota :: "pgnum \<Rightarrow> int \<Rightarrow> f64 \<Rightarrow> quota_row \<Rightarrow> quota_row" where
  "addQuota N now amount q0 =
    (let q1 = q0\<lparr>q_used := n_plus N (q_used q0) amount\<rparr>;
         q2 = (if flt (Fin 0) (q_dailyLimit q0)
               then q1\<lparr>q_dailyUsed := (if dailyExpired now q0 then amount else n_plus N (q_dailyUsed q0) amount),
                       q_dailyStart := (if dailyExpired now q0 then Some now else Some (case_option now id (q_dailyStart q0))),
                       q_dailyResetAt := (if dailyExpired now q0 \<and> nextDailyReset now q0 \<noteq> None
                                          then nextDailyReset now q0 else q_dailyResetAt q0)\<rparr>
               else q1)
     in if flt (Fin 0) (q_weeklyLimit q0)
        then q2\<lparr>q_weeklyUsed := (if weeklyExpired now q0 then amount else n_plus N (q_weeklyUsed q0) amount),
                q_weeklyStart := (if weeklyExpired now q0 then Some now else Some (case_option now id (q_weeklyStart q0))),
                q_weeklyResetAt := (if weeklyExpired now q0 \<and> nextWeeklyReset now q0 \<noteq> None
                                    then nextWeeklyReset now q0 else q_weeklyResetAt q0)\<rparr>
        else q2)"

definition quotaState :: "quota_row \<Rightarrow> AccountQuotaState" where
  "quotaState q = \<lparr>qs_TotalUsed = q_used q, qs_TotalLimit = q_limit q, qs_DailyUsed = q_dailyUsed q,
     qs_DailyLimit = q_dailyLimit q, qs_WeeklyUsed = q_weeklyUsed q, qs_WeeklyLimit = q_weeklyLimit q\<rparr>"

definition updateQuota :: "pgnum \<Rightarrow> int \<Rightarrow> f64 \<Rightarrow> ('a billstate_scheme, AccountQuotaState) proc" where
  "updateQuota N acc amount = db ''update account quota'' (\<lambda>s. case bw_quotas s acc of
       None \<Rightarrow> (Inl ErrAccountNotFound, s)
     | Some q \<Rightarrow> if q_deleted q then (Inl ErrAccountNotFound, s)
                else let q' = addQuota N (e_now s) amount q
                     in (Inr (quotaState q'), s\<lparr>bw_quotas := (bw_quotas s)(acc \<mapsto> q')\<rparr>))"

definition publishAccountChanged :: "int \<Rightarrow> ('a billstate_scheme, unit) proc" where
  "publishAccountChanged acc = db ''publish'' (modP (\<lambda>s. s\<lparr>bw_outbox := bw_outbox s @ [acc]\<rparr>))"

definition incrementUsageBillingAccountQuota ::
  "pgnum \<Rightarrow> int \<Rightarrow> f64 \<Rightarrow> ('a billstate_scheme, AccountQuotaState) proc" where
  "incrementUsageBillingAccountQuota N acc amount =
     bindP (updateQuota N acc amount) (\<lambda>st.
     if flt (Fin 0) (qs_TotalLimit st) \<and> fle (qs_TotalLimit st) (qs_TotalUsed st)
        \<and> flt (fsub (qs_TotalUsed st) amount) (qs_TotalLimit st)
     then bindP (publishAccountChanged acc) (\<lambda>_. ret st)
     else ret st)"

subsection \<open>The transaction\<close>

text \<open>Conflicts on (request_id, api_key_id) are skipped; an empty request id is stored as NULL.\<close>

definition insertUsageLog :: "usage_log \<Rightarrow> ('a billstate_scheme, unit) proc" where
  "insertUsageLog l = db ''insert usage log'' (modP (\<lambda>s.
     let l' = l\<lparr>ul_RequestID := trimSpace (ul_RequestID l)\<rparr>
     in if ul_RequestID l' \<noteq> [] \<and> list_ex (\<lambda>x. ul_RequestID x = ul_RequestID l' \<and> ul_APIKeyID x = ul_APIKeyID l') (bw_usageLogs s)
        then s else s\<lparr>bw_usageLogs := bw_usageLogs s @ [l']\<rparr>))"

text \<open>strings.EqualFold on ASCII.\<close>

definition equalFold :: "string \<Rightarrow> string \<Rightarrow> bool" where
  "equalFold a b \<longleftrightarrow> toLower a = toLower b"

definition effectSubscription :: "pgnum \<Rightarrow> UsageBillingCommand \<Rightarrow> ('a billstate_scheme, unit) proc" where
  "effectSubscription N c = (case c_SubscriptionID c of
       Some i \<Rightarrow> if flt (Fin 0) (c_SubscriptionCost c)
                 then incrementUsageBillingSubscription N i (c_BilledAt c) (c_SubscriptionCost c) else ret ()
     | None \<Rightarrow> ret ())"

definition effectBalance :: "pgnum \<Rightarrow> 'd decimal \<Rightarrow> UsageBillingCommand \<Rightarrow> UsageBillingApplyResult \<Rightarrow> ('a billstate_scheme, UsageBillingApplyResult) proc" where
  "effectBalance N D c r = (if flt (Fin 0) (c_BalanceCost c)
     then bindP (deductUsageBillingBalance N D (c_UserID c) (c_BalanceCost c)) (\<lambda>b. ret (r\<lparr>r_NewBalance := Some b\<rparr>))
     else ret r)"

definition effectKeyQuota :: "pgnum \<Rightarrow> UsageBillingCommand \<Rightarrow> UsageBillingApplyResult \<Rightarrow> ('a billstate_scheme, UsageBillingApplyResult) proc" where
  "effectKeyQuota N c r = (if flt (Fin 0) (c_APIKeyQuotaCost c)
     then bindP (incrementUsageBillingAPIKeyQuota N (c_APIKeyID c) (c_APIKeyQuotaCost c)) (\<lambda>x. ret (r\<lparr>r_APIKeyQuotaExhausted := x\<rparr>))
     else ret r)"

definition effectKeyWindows :: "pgnum \<Rightarrow> UsageBillingCommand \<Rightarrow> ('a billstate_scheme, unit) proc" where
  "effectKeyWindows N c = (if flt (Fin 0) (c_APIKeyRateLimitCost c)
     then incrementUsageBillingAPIKeyRateLimit N (c_APIKeyID c) (c_APIKeyRateLimitCost c) else ret ())"

definition effectAccountQuota :: "pgnum \<Rightarrow> UsageBillingCommand \<Rightarrow> UsageBillingApplyResult \<Rightarrow> ('a billstate_scheme, UsageBillingApplyResult) proc" where
  "effectAccountQuota N c r =
     (if flt (Fin 0) (c_AccountQuotaCost c) \<and> (equalFold (c_AccountType c) ''apikey'' \<or> equalFold (c_AccountType c) ''bedrock'')
      then bindP (incrementUsageBillingAccountQuota N (c_AccountID c) (c_AccountQuotaCost c)) (\<lambda>q. ret (r\<lparr>r_QuotaState := Some q\<rparr>))
      else ret r)"

definition applyUsageBillingEffects ::
  "pgnum \<Rightarrow> 'd decimal \<Rightarrow> UsageBillingCommand \<Rightarrow> UsageBillingApplyResult \<Rightarrow> ('a billstate_scheme, UsageBillingApplyResult) proc" where
  "applyUsageBillingEffects N D c r0 =
     bindP (effectSubscription N c) (\<lambda>_.
     bindP (effectBalance N D c r0) (\<lambda>r1.
     bindP (effectKeyQuota N c r1) (\<lambda>r2.
     bindP (effectKeyWindows N c) (\<lambda>_.
     effectAccountQuota N c r2))))"

definition noResult :: UsageBillingApplyResult where
  "noResult = \<lparr>r_Applied = False, r_APIKeyQuotaExhausted = False, r_NewBalance = None, r_QuotaState = None\<rparr>"

text \<open>The body up to the commit; a request that is already billed returns before it.\<close>

definition billBody :: "pgnum \<Rightarrow> 'd decimal \<Rightarrow> UsageBillingCommand \<Rightarrow> ('a billstate_scheme, UsageBillingApplyResult) proc" where
  "billBody N D c =
     bindP (claimUsageBillingKey c) (\<lambda>applied.
     if \<not> applied then ret noResult
     else bindP (applyUsageBillingEffects N D c (noResult\<lparr>r_Applied := True\<rparr>)) (\<lambda>r.
          bindP (case c_UsageLog c of None \<Rightarrow> ret () | Some l \<Rightarrow> insertUsageLog l) (\<lambda>_. ret r)))"

text \<open>Apply: every return before the commit runs the deferred Rollback.\<close>

definition ApplyUsageBilling ::
  "pgnum \<Rightarrow> 'd decimal \<Rightarrow> UsageBillingCommand option \<Rightarrow> ('a billstate_scheme, UsageBillingApplyResult) proc" where
  "ApplyUsageBilling N D cmd = (case cmd of
       None \<Rightarrow> ret noResult
     | Some c0 \<Rightarrow> let c = normalizeCommand c0 in
        if c_RequestID c = [] then fail ErrUsageBillingRequestIDRequired
        else bindP (db ''begin'' (ret ())) (\<lambda>_ s1. case billBody N D c s1 of
            (Inl e, s2) \<Rightarrow> (Inl e, undoBill s1 s2)
          | (Inr r, s2) \<Rightarrow>
              if \<not> r_Applied r then (Inr r, undoBill s1 s2)
              else (case db ''commit'' (ret ()) s2 of
                  (Inl e, s3) \<Rightarrow> (Inl e, undoBill s1 s3)
                | (Inr _, s3) \<Rightarrow> (Inr r, s3))))"

subsection \<open>Archiving old keys\<close>

definition usageBillingDedupCleanupBatchSize :: nat where
  "usageBillingDedupCleanupBatchSize = 10000"

text \<open>DELETE of the first \<open>n\<close> rows that match; the rest, in order.\<close>

fun dropMatching :: "nat \<Rightarrow> ('r \<Rightarrow> bool) \<Rightarrow> 'r list \<Rightarrow> 'r list" where
  "dropMatching n p [] = []"
| "dropMatching n p (r # rs) = (if p r \<and> 0 < n then dropMatching (n - 1) p rs else r # dropMatching n p rs)"

definition sameKey :: "dedup_row \<Rightarrow> dedup_row \<Rightarrow> bool" where
  "sameKey a b \<longleftrightarrow> dd_request a = dd_request b \<and> dd_key a = dd_key b"

definition archiveRow :: "dedup_row list \<Rightarrow> dedup_row \<Rightarrow> dedup_row list" where
  "archiveRow arch r = (if list_ex (sameKey r) arch then arch else arch @ [r])"

definition archiveBatch :: "int \<Rightarrow> ('a billstate_scheme, nat) proc" where
  "archiveBatch cutoff = db ''archive dedup'' (\<lambda>s.
     let old = (\<lambda>d. dd_created d < cutoff);
         victims = take usageBillingDedupCleanupBatchSize (filter old (bw_dedup s))
     in (Inr (length victims), s\<lparr>bw_dedup := dropMatching usageBillingDedupCleanupBatchSize old (bw_dedup s),
           bw_archive := foldl archiveRow (bw_archive s) victims\<rparr>))"

lemma length_dropMatching: "length (dropMatching n p rs) + min n (length (filter p rs)) = length rs"
  by (induction n p rs rule: dropMatching.induct) (auto simp: min_def split: if_splits)

lemma archiveBatch_shrinks:
  assumes "archiveBatch cutoff s = (Inr n, s')" and "\<not> n < usageBillingDedupCleanupBatchSize"
  shows "length (bw_dedup s') < length (bw_dedup s)"
proof -
  let ?old = "\<lambda>d. dd_created d < cutoff"
  from assms(1) have "bw_dedup s' = dropMatching usageBillingDedupCleanupBatchSize ?old (bw_dedup s)
      \<and> n = length (take usageBillingDedupCleanupBatchSize (filter ?old (bw_dedup s)))"
    unfolding archiveBatch_def by (elim db_Inr) (auto simp: Let_def)
  then show ?thesis
    using length_dropMatching [of usageBillingDedupCleanupBatchSize ?old "bw_dedup s"] assms(2)
    by (simp add: usageBillingDedupCleanupBatchSize_def min_def split: if_splits)
qed

function CleanupUsageBillingDedup :: "int \<Rightarrow> ('a billstate_scheme, unit) proc" where
  "CleanupUsageBillingDedup cutoff s = (case archiveBatch cutoff s of
       (Inl e, s') \<Rightarrow> (Inl e, s')
     | (Inr n, s') \<Rightarrow> if n < usageBillingDedupCleanupBatchSize then (Inr (), s') else CleanupUsageBillingDedup cutoff s')"
  by pat_completeness auto
termination
  by (relation "measure (\<lambda>(_, s). length (bw_dedup s))") (auto dest: archiveBatch_shrinks [OF sym])

declare CleanupUsageBillingDedup.simps [simp del]

end
