(* ===== verification/BillingOnce.thy ===== *)
theory BillingOnce
  imports UsageBilling
begin

section \<open>A request is billed at most once\<close>

text \<open>
  The deduplication keys across Apply and the clean-up job: the interpretation of the at-most-once
  contract, and that an Apply which does not bill leaves every table as it was.
\<close>

subsection \<open>What does not touch the keys\<close>

definition sameKeys :: "dedup_row list \<Rightarrow> dedup_row list \<Rightarrow> 'a billstate_scheme \<Rightarrow> bool" where
  "sameKeys d a s \<longleftrightarrow> bw_dedup s = d \<and> bw_archive s = a"

lemma keeps_keys_db: "(\<And>s. sameKeys d a (snd (act s)) = sameKeys d a s) \<Longrightarrow> keepsP (sameKeys d a) (db tag act)"
  by (rule keeps_db) (auto simp: keepsP_def sameKeys_def)

lemma keeps_keys_steps:
  "keepsP (sameKeys d a) (loadUsageBillingSubscriptionGroup i)" "keepsP (sameKeys d a) (addUsageToGrant N i c)"
  "keepsP (sameKeys d a) (IncrementUsage N i c)" "keepsP (sameKeys d a) (setGiftRemaining N i c)"
  "keepsP (sameKeys d a) (setCommission i f)" "keepsP (sameKeys d a) (takeBalance N i c)" "keepsP (sameKeys d a) (readBalance i)"
  "keepsP (sameKeys d a) (incrementUsageBillingAPIKeyQuota N i c)" "keepsP (sameKeys d a) (incrementUsageBillingAPIKeyRateLimit N i c)"
  "keepsP (sameKeys d a) (updateQuota N i c)" "keepsP (sameKeys d a) (publishAccountChanged i)"
  "keepsP (sameKeys d a) (insertUsageLog l)" "keepsP (sameKeys d a) (db tag (getP g))" "keepsP (sameKeys d a) (db tag (ret x))"
  unfolding loadUsageBillingSubscriptionGroup_def addUsageToGrant_def IncrementUsage_def setGiftRemaining_def
    setCommission_def takeBalance_def readBalance_def incrementUsageBillingAPIKeyQuota_def
    incrementUsageBillingAPIKeyRateLimit_def updateQuota_def publishAccountChanged_def insertUsageLog_def
  by (rule keeps_keys_db; simp add: sameKeys_def modP_def getP_def ret_def Let_def split: option.splits)+

lemmas keeps_keys = keeps keeps_keys_steps

lemma keeps_keys_loops:
  "keepsP (sameKeys d a) (billGrantsLoop N og rem gs)" "keepsP (sameKeys d a) (giftLoop N rem ded gifts)"
  "keepsP (sameKeys d a) (unlockLoop N D rm recs)"
proof -
  show "keepsP (sameKeys d a) (billGrantsLoop N og rem gs)"
    by (induction gs arbitrary: rem) (auto simp: Let_def intro!: keeps_keys)
  show "keepsP (sameKeys d a) (giftLoop N rem ded gifts)"
    by (induction gifts arbitrary: rem ded) (auto simp: Let_def intro!: keeps_keys)
  show "keepsP (sameKeys d a) (unlockLoop N D rm recs)"
    by (induction recs arbitrary: rm) (auto simp: Let_def intro!: keeps_keys)
qed

lemma keeps_keys_effects: "keepsP (sameKeys d a) (applyUsageBillingEffects N D c r)"
  unfolding applyUsageBillingEffects_def effectSubscription_def effectBalance_def effectKeyQuota_def effectKeyWindows_def
    effectAccountQuota_def incrementUsageBillingSubscription_def allocateUsageBillingSubscriptionGrants_def
    deductUsageBillingBalance_def deductGiftBalanceFIFO_def unlockSalesCommissionFIFO_def
    incrementUsageBillingAccountQuota_def Let_def
  by (intro keeps_keys keeps_keys_loops)

subsection \<open>Claiming\<close>

definition keyed :: "string \<times> int \<Rightarrow> dedup_row \<Rightarrow> bool" where
  "keyed k d \<longleftrightarrow> dd_request d = fst k \<and> dd_key d = snd k"

definition claimedBill :: "string \<times> int \<Rightarrow> 'a billstate_scheme \<Rightarrow> bool" where
  "claimedBill k s \<longleftrightarrow> list_ex (keyed k) (bw_dedup s) \<or> list_ex (keyed k) (bw_archive s)"

definition billKey :: "UsageBillingCommand \<Rightarrow> string \<times> int" where
  "billKey c = (c_RequestID c, c_APIKeyID c)"

lemma sameRequest_keyed: "sameRequest c d = keyed (billKey c) d"
  by (simp add: sameRequest_def keyed_def billKey_def)

lemma claim_Inr:
  assumes "claimUsageBillingKey c s = (Inr b, s')"
  shows "bw_archive s' = bw_archive s"
    and "if b then \<not> claimedBill (billKey c) s \<and> claimedBill (billKey c) s' else claimedBill (billKey c) s"
    and "claimedBill k s \<Longrightarrow> claimedBill k s'"
proof -
  from assms obtain ins s1 where ins: "insertDedup c s = (Inr ins, s1)"
    and rest: "(if \<not> ins
     then bindP (db ''select dedup'' (getP (\<lambda>s. find (sameRequest c) (bw_dedup s)))) (\<lambda>existing. case existing of
            None \<Rightarrow> fail (Internal ''no rows'')
          | Some d \<Rightarrow> if \<not> sameFingerprint c d then fail ErrUsageBillingRequestConflict else ret False)
     else bindP (db ''select archive'' (getP (\<lambda>s. find (sameRequest c) (bw_archive s)))) (\<lambda>archived. case archived of
            Some d \<Rightarrow> if \<not> sameFingerprint c d then fail ErrUsageBillingRequestConflict else ret False
          | None \<Rightarrow> ret True)) s1 = (Inr b, s')"
    unfolding claimUsageBillingKey_def by (elim bindP_Inr)
  have 1: "bw_archive s1 = bw_archive s" "ins = (\<not> list_ex (keyed (billKey c)) (bw_dedup s))"
    "bw_dedup s1 = bw_dedup s @ (if ins then [\<lparr>dd_request = c_RequestID c, dd_key = c_APIKeyID c,
        dd_fingerprint = c_RequestFingerprint c, dd_created = e_now s\<rparr>] else [])"
    using ins unfolding insertDedup_def
    by (elim db_Inr; auto simp: sameRequest_keyed list_ex_iff split: if_splits)+
  have 2: "bw_archive s' = bw_archive s1" "bw_dedup s' = bw_dedup s1"
      "b = (ins \<and> \<not> list_ex (keyed (billKey c)) (bw_archive s1))"
    using rest
    by (auto simp: getP_def ret_def fail_def find_None_iff find_Some_iff sameRequest_keyed list_ex_iff
        split: if_splits option.splits elim!: bindP_Inr db_Inr)
  show "bw_archive s' = bw_archive s" using 1 2 by simp
  show "if b then \<not> claimedBill (billKey c) s \<and> claimedBill (billKey c) s' else claimedBill (billKey c) s"
    using 1 2 by (auto simp: claimedBill_def keyed_def billKey_def)
  show "claimedBill k s \<Longrightarrow> claimedBill k s'"
    using 1 2 by (auto simp: claimedBill_def)
qed

lemma undoBill_keys [simp]: "bw_dedup (undoBill s s') = bw_dedup s" "bw_archive (undoBill s s') = bw_archive s"
  by (simp_all add: undoBill_def)

lemma db_ret_cases: "\<exists>r fs. db t (ret ()) s = (r, s\<lparr>e_faults := fs\<rparr>)"
proof -
  obtain r s' where "db t (ret ()) s = (r, s')" by fastforce
  then show ?thesis using db_ret_env [of t s] by (metis snd_conv)
qed

text \<open>Either the body billed and was committed, or nothing happened.\<close>

lemma Apply_cases:
  assumes "ApplyUsageBilling N D cmd s = (r, s')"
  obtains (billed) c0 res fs s2 fs2 where "cmd = Some c0" "r = Inr res" "r_Applied res"
      "billBody N D (normalizeCommand c0) (s\<lparr>e_faults := fs\<rparr>) = (Inr res, s2)" "s' = s2\<lparr>e_faults := fs2\<rparr>"
  | (undone) "s' = undoBill s s'" "\<not> (\<exists>res. r = Inr res \<and> r_Applied res)"
proof (cases cmd)
  case None
  with assms have "s' = undoBill s s'" "\<not> (\<exists>res. r = Inr res \<and> r_Applied res)"
    by (auto simp: ApplyUsageBilling_def ret_def noResult_def undoBill_def)
  then show thesis by (rule undone)
next
  case (Some c0)
  let ?c = "normalizeCommand c0"
  obtain r1 fs where 1: "db ''begin'' (ret ()) s = (r1, s\<lparr>e_faults := fs\<rparr>)" using db_ret_cases by blast
  obtain r2 s2 where 2: "billBody N D ?c (s\<lparr>e_faults := fs\<rparr>) = (r2, s2)" by fastforce
  obtain r3 fs3 where 3: "db ''commit'' (ret ()) s2 = (r3, s2\<lparr>e_faults := fs3\<rparr>)" using db_ret_cases by blast
  show thesis
  proof (cases "c_RequestID ?c \<noteq> [] \<and> (\<exists>u res. r1 = Inr u \<and> r2 = Inr res \<and> r_Applied res \<and> (\<exists>v. r3 = Inr v))")
    case True
    then obtain res where "r2 = Inr res" "r_Applied res" by blast
    moreover from True this have "r = Inr res" "s' = s2\<lparr>e_faults := fs3\<rparr>"
      using assms 1 2 3 Some by (auto simp: ApplyUsageBilling_def Let_def bindP_def)
    ultimately show thesis using billed Some 2 by blast
  next
    case False
    have "s' = undoBill s s' \<and> \<not> (\<exists>res. r = Inr res \<and> r_Applied res)"
      using assms 1 2 3 Some False
      by (cases r1; cases r2; cases r3)
        (auto simp: ApplyUsageBilling_def Let_def bindP_def fail_def undoBill_def split: if_splits)
    then show thesis using undone by blast
  qed
qed

lemma billBody_keys:
  assumes "billBody N D c s = (Inr res, s')" and "r_Applied res"
  shows "\<not> claimedBill (billKey c) s" and "claimedBill (billKey c) s'" and "claimedBill k s \<Longrightarrow> claimedBill k s'"
proof -
  from assms(1) obtain b s1 where cl: "claimUsageBillingKey c s = (Inr b, s1)" and
    rest: "(if \<not> b then ret noResult
     else bindP (applyUsageBillingEffects N D c (noResult\<lparr>r_Applied := True\<rparr>)) (\<lambda>r.
          bindP (case c_UsageLog c of None \<Rightarrow> ret () | Some l \<Rightarrow> insertUsageLog l) (\<lambda>_. ret r))) s1 = (Inr res, s')"
    unfolding billBody_def by (elim bindP_Inr)
  have b by (rule ccontr) (use rest assms(2) in \<open>auto simp: ret_def noResult_def\<close>)
  have "keepsP (sameKeys (bw_dedup s1) (bw_archive s1))
    (bindP (applyUsageBillingEffects N D c (noResult\<lparr>r_Applied := True\<rparr>)) (\<lambda>r.
          bindP (case c_UsageLog c of None \<Rightarrow> ret () | Some l \<Rightarrow> insertUsageLog l) (\<lambda>_. ret r)))"
    by (intro keeps_keys keeps_keys_effects)
  from keepsPD [OF this, of s1] rest \<open>b\<close> have "bw_dedup s' = bw_dedup s1" "bw_archive s' = bw_archive s1"
    by (simp_all add: sameKeys_def)
  then have "claimedBill k s' = claimedBill k s1" for k by (simp add: claimedBill_def)
  then show "\<not> claimedBill (billKey c) s" "claimedBill (billKey c) s'" "claimedBill k s \<Longrightarrow> claimedBill k s'"
    using claim_Inr [OF cl] \<open>b\<close> by auto
qed

subsection \<open>The clean-up\<close>

lemma set_dropMatching:
  "set (dropMatching n p rs) \<union> set (take n (filter p rs)) = set rs"
  by (induction n p rs rule: dropMatching.induct) (auto simp: take_Cons' split: if_splits)

lemma archiveRow_keyed: "list_ex (keyed k) (archiveRow arch r) \<longleftrightarrow> list_ex (keyed k) arch \<or> keyed k r"
  by (auto simp: archiveRow_def list_ex_iff keyed_def sameKey_def)

lemma archiveRows_keyed: "list_ex (keyed k) (foldl archiveRow arch rs) \<longleftrightarrow> list_ex (keyed k) arch \<or> list_ex (keyed k) rs"
  by (induction rs arbitrary: arch) (auto simp: archiveRow_keyed)

lemma archiveBatch_keys: "archiveBatch cutoff s = (r, s') \<Longrightarrow> claimedBill k s \<Longrightarrow> claimedBill k s'"
proof -
  assume a: "archiveBatch cutoff s = (r, s')" and c: "claimedBill k s"
  have mem: "list_ex (keyed k) (dropMatching n p rs) \<or> list_ex (keyed k) (take n (filter p rs))" if "list_ex (keyed k) rs" for n p rs
    using that set_dropMatching [of n p rs] unfolding list_ex_iff by blast
  show ?thesis
    using a c mem [of "bw_dedup s" usageBillingDedupCleanupBatchSize "\<lambda>d. dd_created d < cutoff"] unfolding archiveBatch_def
    by (auto simp: db_def Let_def claimedBill_def archiveRows_keyed split: list.splits if_splits)
qed

lemma cleanup_keys: "CleanupUsageBillingDedup cutoff s = (r, s') \<Longrightarrow> claimedBill k s \<Longrightarrow> claimedBill k s'"
proof (induction cutoff s rule: CleanupUsageBillingDedup.induct)
  case (1 cutoff s)
  obtain q s1 where q: "archiveBatch cutoff s = (q, s1)" by fastforce
  have k: "claimedBill k s1" using archiveBatch_keys [OF q 1(3)] .
  show ?case
    using 1(1) [OF q [symmetric]] 1(2) k
    by (cases q) (auto simp: CleanupUsageBillingDedup.simps [of cutoff s] q split: if_splits)
qed

subsection \<open>The contract\<close>

text \<open>What happens to the tables: a request is billed, old keys are archived, time passes, the database starts to fail.\<close>

datatype billOp = Bill "UsageBillingCommand option" | Archive int | Wait int | Disturb "bool list"

fun runBillOp :: "pgnum \<Rightarrow> 'd decimal \<Rightarrow> billOp \<Rightarrow> 'a billstate_scheme \<Rightarrow> (err + UsageBillingApplyResult) \<times> 'a billstate_scheme" where
  "runBillOp N D (Bill cmd) s = ApplyUsageBilling N D cmd s"
| "runBillOp N D (Archive cutoff) s = (case CleanupUsageBillingDedup cutoff s of (Inl e, s') \<Rightarrow> (Inl e, s') | (Inr _, s') \<Rightarrow> (Inr noResult, s'))"
| "runBillOp N D (Wait d) s = (Inr noResult, s\<lparr>e_now := e_now s + d\<rparr>)"
| "runBillOp N D (Disturb fs) s = (Inr noResult, s\<lparr>e_faults := fs\<rparr>)"

definition billed :: "string \<times> int \<Rightarrow> billOp \<Rightarrow> err + UsageBillingApplyResult \<Rightarrow> bool" where
  "billed k op r = (case (op, r) of (Bill (Some c), Inr res) \<Rightarrow> r_Applied res \<and> billKey (normalizeCommand c) = k | _ \<Rightarrow> False)"

lemma claimedBill_env [simp]:
  "claimedBill k (s\<lparr>e_faults := fs\<rparr>) = claimedBill k s" "claimedBill k (s\<lparr>e_now := n\<rparr>) = claimedBill k s"
  by (simp_all add: claimedBill_def)

interpretation billing: at_most_once "runBillOp N D" billed claimedBill
proof unfold_locales
  fix op s r s' k
  assume run: "runBillOp N D op s = (r, s')" and eff: "billed k op r"
  then obtain c res where op: "op = Bill (Some c)" "r = Inr res" "r_Applied res" "billKey (normalizeCommand c) = k"
    by (auto simp: billed_def split: billOp.splits option.splits sum.splits)
  with run have a: "ApplyUsageBilling N D (Some c) s = (Inr res, s')" by simp
  show "\<not> claimedBill k s \<and> claimedBill k s'"
    using a
  proof (cases rule: Apply_cases)
    case (billed c0 res' fs s2 fs2)
    then show ?thesis using billBody_keys(1,2) [OF billed(4) billed(3)] op by simp
  next
    case undone
    then show ?thesis using op by simp
  qed
next
  fix op s r s' k
  assume run: "runBillOp N D op s = (r, s')" and cl: "claimedBill k s"
  show "claimedBill k s'"
  proof (cases op)
    case (Bill cmd)
    with run have "ApplyUsageBilling N D cmd s = (r, s')" by simp
    then show ?thesis
    proof (cases rule: Apply_cases)
      case (billed c0 res' fs s2 fs2)
      then show ?thesis using billBody_keys(3) [OF billed(4) billed(3), of k] cl by simp
    next
      case undone
      have "claimedBill k (undoBill s s')" using cl by (simp add: claimedBill_def)
      with undone(1) show ?thesis by simp
    qed
  next
    case (Archive cutoff)
    obtain q s1 where q: "CleanupUsageBillingDedup cutoff s = (q, s1)" by fastforce
    from cleanup_keys [OF q cl] have "claimedBill k s1" .
    moreover have "s1 = s'" using run Archive q by (cases q) auto
    ultimately show ?thesis by simp
  qed (use run cl in auto)
qed

text \<open>
  C1: however requests are retried, keys are archived, time passes and the database fails, the
  requests billed under one request id and API key are at most one: every other one reports that
  it was not applied, or an error.
\<close>

theorem request_billed_at_most_once:
  "length (filter (\<lambda>(op, r). billed (request, key) op r) (fst (runOps (runBillOp N D) ops s))) \<le> 1"
  by (rule billing.at_most_one)

text \<open>
  C2: an Apply that fails, or finds its request already billed, leaves every table as it was: the
  state afterwards is the state before with at most the caches, the scheduler's stream and the
  used-up faults changed.
\<close>

theorem apply_all_or_nothing:
  "case ApplyUsageBilling N D cmd s of
     (Inr res, s') \<Rightarrow> r_Applied res \<or> s' = undoBill s s'
   | (Inl e, s') \<Rightarrow> s' = undoBill s s'"
proof -
  obtain r s' where a: "ApplyUsageBilling N D cmd s = (r, s')" by fastforce
  then show ?thesis by (cases rule: Apply_cases) (use a in \<open>auto split: sum.splits\<close>)
qed

end
