(* ===== verification/BillingMoney.thy ===== *)
theory BillingMoney
  imports BillingOnce SubscriptionBehaviour
begin

section \<open>Where the money of a request goes\<close>

text \<open>
  The gift balance before the ordinary balance, no gift overdrawn, the grants of the subscription:
  the billing transaction's own allocation is that of the grant repository; and what the last
  grant and very small costs lose.
\<close>

subsection \<open>Gift balance\<close>

definition nonneg :: "f64 \<Rightarrow> bool" where
  "nonneg x \<longleftrightarrow> (case x of Fin y \<Rightarrow> 0 \<le> y | _ \<Rightarrow> False)"

definition giftsOk :: "'a billstate_scheme \<Rightarrow> bool" where
  "giftsOk s \<longleftrightarrow> list_all (\<lambda>g. nonneg (gb_remaining g)) (bw_gifts s)"

lemma nonneg_iff: "nonneg x \<longleftrightarrow> (\<exists>y \<ge> 0. x = Fin y)"
  by (cases x) (auto simp: nonneg_def)

lemma fsub_nonneg: "nonneg a \<Longrightarrow> nonneg b \<Longrightarrow> fle b a \<Longrightarrow> fle (Fin 0) (fsub a b)"
  by (auto simp: nonneg_iff fsub_def intro!: fle_fl_rat [of 0])

lemma giftLoop_ok:
  assumes N: "\<And>x. fle (Fin 0) x \<Longrightarrow> nonneg (n_store8 N x)"
    and gs: "list_all (\<lambda>g. nonneg (gb_remaining g)) gs"
  shows "keepsP giftsOk (giftLoop N remaining deducted gs)" (is "keepsP ?P _")
  using gs
proof (induction gs arbitrary: remaining deducted)
  case (Cons g gs)
  let ?d = "if flt remaining (gb_remaining g) then remaining else gb_remaining g"
  have "keepsP ?P (setGiftRemaining N (gb_id g) (fsub (gb_remaining g) ?d))" if r: "\<not> fle remaining (Fin 0)"
  proof -
    obtain y where y: "gb_remaining g = Fin y" "0 \<le> y" using Cons.prems by (auto simp: nonneg_iff)
    have "nonneg ?d" "fle ?d (gb_remaining g)" using r y by (cases remaining; auto simp: nonneg_def)+
    then have "fle (Fin 0) (fsub (gb_remaining g) ?d)" using Cons.prems fsub_nonneg by simp
    then have "nonneg (n_store8 N (fsub (gb_remaining g) ?d))" by (rule N)
    then show ?thesis
      unfolding setGiftRemaining_def
      by (intro keeps_db keeps_modP) (auto simp: giftsOk_def updRows_def list_all_iff)
  qed
  moreover have "keepsP ?P (giftLoop N a b gs)" for a b using Cons by simp
  ultimately show ?case by (auto simp: Let_def intro!: keeps)
qed (simp add: keeps)

lemma keeps_gifts_db: "(\<And>s. bw_gifts (snd (act s)) = bw_gifts s) \<Longrightarrow> keepsP giftsOk (db tag act)"
  by (rule keeps_db) (auto simp: keepsP_def giftsOk_def)

lemma keeps_gifts_steps:
  "keepsP giftsOk (loadUsageBillingSubscriptionGroup i)" "keepsP giftsOk (addUsageToGrant N i c)"
  "keepsP giftsOk (IncrementUsage N i c)"
  "keepsP giftsOk (setCommission i f)" "keepsP giftsOk (takeBalance N i c)" "keepsP giftsOk (readBalance i)"
  "keepsP giftsOk (incrementUsageBillingAPIKeyQuota N i c)" "keepsP giftsOk (incrementUsageBillingAPIKeyRateLimit N i c)"
  "keepsP giftsOk (updateQuota N i c)" "keepsP giftsOk (publishAccountChanged i)"
  "keepsP giftsOk (insertUsageLog l)" "keepsP giftsOk (db tag (getP g))" "keepsP giftsOk (db tag (ret x))" "keepsP giftsOk (insertDedup cmd)"
  unfolding loadUsageBillingSubscriptionGroup_def addUsageToGrant_def IncrementUsage_def
    setCommission_def takeBalance_def readBalance_def incrementUsageBillingAPIKeyQuota_def
    incrementUsageBillingAPIKeyRateLimit_def updateQuota_def publishAccountChanged_def insertUsageLog_def insertDedup_def
  by (rule keeps_gifts_db; simp add: modP_def getP_def ret_def Let_def split: option.splits)+

lemma keeps_gifts_loops:
  "keepsP giftsOk (billGrantsLoop N og rem gs)" "keepsP giftsOk (unlockLoop N D rm recs)" (is "keepsP ?P _")
proof -
  show "keepsP giftsOk (billGrantsLoop N og rem gs)"
    by (induction gs arbitrary: rem) (auto simp: Let_def intro!: keeps keeps_gifts_steps)
  show "keepsP giftsOk (unlockLoop N D rm recs)"
    by (induction recs arbitrary: rm) (auto simp: Let_def intro!: keeps keeps_gifts_steps)
qed

lemma keeps_gifts_deduct:
  assumes N: "\<And>x. fle (Fin 0) x \<Longrightarrow> nonneg (n_store8 N x)"
  shows "keepsP giftsOk (deductGiftBalanceFIFO N user amount)"
proof (rule keepsPI)
  fix s :: "'a billstate_scheme"
  assume ok: "giftsOk s"
  let ?q = "\<lambda>s :: 'a billstate_scheme. sortBy (giftOrder (ss_zone s)) (filter (giftSpendable user (e_now s)) (bw_gifts s))"
  obtain r s1 where 1: "db ''lock gifts'' (getP ?q) s = (r, s1)" by fastforce
  have ok1: "giftsOk s1" using keepsPD [OF keeps_gifts_steps(12) ok, of "''lock gifts''" ?q] by (simp add: 1)
  show "giftsOk (snd (deductGiftBalanceFIFO N user amount s))"
  proof (cases r)
    case (Inr gs)
    then have "gs = ?q s" using 1 by (auto simp: getP_def elim!: db_Inr)
    then have "list_all (\<lambda>g. nonneg (gb_remaining g)) gs" using ok by (auto simp: giftsOk_def list_all_iff)
    then show ?thesis using Inr 1 keepsPD [OF giftLoop_ok [OF N] ok1] by (simp add: deductGiftBalanceFIFO_def tryP_def)
  qed (use 1 ok1 in \<open>simp add: deductGiftBalanceFIFO_def tryP_def ret_def\<close>)
qed

lemmas keeps_gifts = keeps keeps_gifts_steps keeps_gifts_loops

lemma keeps_gifts_body:
  assumes "\<And>x. fle (Fin 0) x \<Longrightarrow> nonneg (n_store8 N x)"
  shows "keepsP giftsOk (billBody N D c)"
  unfolding billBody_def claimUsageBillingKey_def applyUsageBillingEffects_def effectSubscription_def effectBalance_def
    effectKeyQuota_def effectKeyWindows_def effectAccountQuota_def incrementUsageBillingSubscription_def
    allocateUsageBillingSubscriptionGrants_def deductUsageBillingBalance_def unlockSalesCommissionFIFO_def
    incrementUsageBillingAccountQuota_def Let_def
  by (intro keeps_gifts keeps_gifts_deduct assms)

text \<open>
  C31: no gift is ever overdrawn: where every gift's remaining amount is a finite number that is
  not negative, it is after an Apply too, whatever the cost, the state and the database's faults.
\<close>

theorem gifts_never_overdrawn:
  assumes N: "\<And>x. fle (Fin 0) x \<Longrightarrow> nonneg (n_store8 N x)" and ok: "giftsOk s"
  shows "giftsOk (snd (ApplyUsageBilling N D cmd s))"
proof -
  obtain r s' where a: "ApplyUsageBilling N D cmd s = (r, s')" by fastforce
  then show ?thesis
  proof (cases rule: Apply_cases)
    case (billed c0 res fs s2 fs2)
    have "giftsOk (s\<lparr>e_faults := fs\<rparr>)" using ok by (simp add: giftsOk_def)
    then have "giftsOk s2" using keepsPD [OF keeps_gifts_body [OF N]] billed(4) by (metis snd_conv)
    then show ?thesis using a billed(5) by (simp add: giftsOk_def)
  next
    case undone
    have "giftsOk (undoBill s s')" using ok by (simp add: giftsOk_def undoBill_def)
    then show ?thesis using a undone(1) by simp
  qed
qed

definition demoGift :: "int \<Rightarrow> rat \<Rightarrow> int \<Rightarrow> gift_row" where
  "demoGift i r t = \<lparr>gb_id = i, gb_user = 1, gb_remaining = Fin r, gb_expires = Some t, gb_created = 0\<rparr>"

definition demoBill :: "gift_row list \<Rightarrow> billstate" where
  "demoBill gifts = \<lparr>e_now = 5, e_faults = [], ss_groups = [1 \<mapsto> demoGroup], ss_subs = [], ss_grants = [], ss_nextSub = 1,
     ss_nextGrant = 1, ss_l1on = False, ss_l1 = Map.empty, ss_billingInvalidated = [], ss_zone = 0,
     bw_dedup = [], bw_archive = [], bw_balance = [1 \<mapsto> Fin 8], bw_gifts = gifts, bw_commissions = [],
     bw_orderStatus = Map.empty, bw_keys = Map.empty, bw_quotas = Map.empty, bw_usageLogs = [], bw_outbox = []\<rparr>"

definition columnNum :: pgnum where
  "columnNum = demoNum\<lparr>n_store8 := (\<lambda>x. case x of Fin y \<Rightarrow> Fin y | _ \<Rightarrow> Fin 0)\<rparr>"

text \<open>Decimals as exact fractions.\<close>

definition fracDecimal :: "rat decimal" where
  "fracDecimal = \<lparr>d_of = (\<lambda>x. case x of Fin y \<Rightarrow> y | _ \<Rightarrow> 0), d_sub = (-), d_add = (+), d_mul = (*), d_div = (/),
     d_round = (\<lambda>k x. of_int (round (x * 10 ^ nat k)) / 10 ^ nat k), d_le = (\<le>), d_zero = 0, d_float = fl\<rparr>"

theorem gifts_never_overdrawn_witness:
  "\<forall>cmd. giftsOk (snd (ApplyUsageBilling columnNum fracDecimal cmd (demoBill [demoGift 1 3 9, demoGift 2 1 7])))"
  by (intro allI gifts_never_overdrawn)
    (auto simp: columnNum_def demoNum_def nonneg_def giftsOk_def demoBill_def demoGift_def split: f64.splits)



text \<open>
  A cost of at most 0.0001 with no spendable gift is never charged: the deduction succeeds and
  neither the balance nor anything else of the state changes.
\<close>

theorem small_cost_is_free:
  assumes "e_faults s = []" and "bw_balance s user = Some b"
    and "filter (giftSpendable user (e_now s)) (bw_gifts s) = []" and "cost = Fin c" "fl c = Fin c" and "fle cost tenThousandth"
  shows "deductUsageBillingBalance N D user cost s = (Inr b, s)"
proof -
  have "\<not> flt tenThousandth cost" using assms(6) by (rule fle_not_flt)
  then show ?thesis
    using assms by (auto simp: deductUsageBillingBalance_def deductGiftBalanceFIFO_def bindP_def tryP_def db_ok getP_def ret_def
      sortBy_def readBalance_def fsub_def Let_def)
qed

theorem small_cost_is_free_witness:
  "deductUsageBillingBalance demoNum fracDecimal 1 (Fin (1 / 16384)) (demoBill []) = (Inr (Fin 8), demoBill [])"
proof -
  have f: "fl (1 / 16384) = Fin (1 / 16384)" using fl_dyadic [of 1 14] by simp
  have "fle (Fin (1 / 16384)) tenThousandth" unfolding tenThousandth_def by (rule fle_fl_rat) (use f in simp_all)
  then show ?thesis by (intro small_cost_is_free [OF _ _ _ refl f]) (simp_all add: demoBill_def)
qed

subsection \<open>The subscription's grants\<close>

lemma addUsageToGrant_eq:
  assumes "i \<in> sg_ID ` set (ss_grants s)"
  shows "addUsageToGrant N i c s = updateGrant i (addGrantUsage N c) s"
  using assms by (auto simp: addUsageToGrant_def updateGrant_def db_def modP_def split: list.splits)

lemma image_updRows: "(\<And>x. k (f x) = k x) \<Longrightarrow> k ` set (updRows p f xs) = k ` set xs"
  by (induction xs) (auto simp: updRows_def)

lemma updateGrant_ids:
  "updateGrant i (addGrantUsage N c) s = (Inr u, s') \<Longrightarrow> sg_ID ` set (ss_grants s') = sg_ID ` set (ss_grants s)"
proof -
  assume "updateGrant i (addGrantUsage N c) s = (Inr u, s')"
  then have "ss_grants s' = updRows (\<lambda>g. sg_ID g = i) (\<lambda>g. (addGrantUsage N c g)\<lparr>sg_UpdatedAt := e_now s\<rparr>) (ss_grants s)"
    unfolding updateGrant_def by (elim db_Inr) (auto split: if_splits)
  then show ?thesis by (simp add: image_updRows addGrantUsage_def)
qed

lemma loops_agree:
  assumes "sg_ID ` set gs \<subseteq> sg_ID ` set (ss_grants s)"
  shows "billGrantsLoop N og remaining gs s = allocateLoop N (Some og) remaining gs s"
  using assms
proof (induction gs arbitrary: remaining s)
  case (Cons g gs)
  let ?a = "allocationFor remaining (grantCap (Some og) (sg_DailyUsageUSD g) (sg_WeeklyUsageUSD g) (sg_MonthlyUsageUSD g)) (gs = [])"
  have step: "bindP (addUsageToGrant N (sg_ID g) ?a) (\<lambda>_. billGrantsLoop N og r gs) s
      = bindP (updateGrant (sg_ID g) (addGrantUsage N ?a)) (\<lambda>_. allocateLoop N (Some og) r gs) s" for r
  proof -
    obtain q s1 where q: "updateGrant (sg_ID g) (addGrantUsage N ?a) s = (q, s1)" by fastforce
    moreover have "addUsageToGrant N (sg_ID g) ?a s = (q, s1)"
      using q Cons.prems addUsageToGrant_eq [of "sg_ID g" s N ?a] by simp
    moreover have "billGrantsLoop N og r gs s1 = allocateLoop N (Some og) r gs s1" if "q = Inr u" for u
      using Cons.IH [of s1] Cons.prems updateGrant_ids [of "sg_ID g" N ?a s u s1] q that by simp
    ultimately show ?thesis by (cases q) (simp_all add: bindP_def)
  qed
  show ?case
    using Cons.IH [of s] Cons.prems step by (simp add: Let_def)
qed simp

text \<open>
  C25: the transaction's hand-written allocation of a cost to the grants is the grant repository's
  AllocateUsageToActiveGrants: same result, same tables, for every state, cost and fault.
\<close>

theorem billing_allocation_is_repository_allocation:
  fixes s :: "'a billstate_scheme"
  shows "allocateUsageBillingSubscriptionGrants N sub og t cost s = AllocateUsageToActiveGrants N sub (Some og) t cost s"
proof -
  let ?G = "\<lambda>s. sortBy earliestExpiry (activeGrants sub t s)"
  have lock: "ListActiveForUpdate sub t = db ''lock grants'' (getP ?G)"
    by (simp add: ListActiveForUpdate_def getP_def)
  have 1: "addUsageToGrant N (sg_ID g) cost s1 = updateGrant (sg_ID g) (addGrantUsage N cost) s1"
    if "tailGrant sub s1 = Some g" for g and s1 :: "'a billstate_scheme"
    by (rule addUsageToGrant_eq) (use firstBy_Some_in that in \<open>fastforce simp: tailGrant_def\<close>)
  have tg: "tailGrant sub (s1\<lparr>e_faults := fs\<rparr>) = tailGrant sub s1" for s1 :: "'a billstate_scheme" and fs
    by (simp add: tailGrant_def)
  have 2: "bindP (db ''tail grant'' (getP (tailGrant sub))) (\<lambda>tail. case tail of
              None \<Rightarrow> fail ErrSubscriptionGrantNotFound | Some g \<Rightarrow> addUsageToGrant N (sg_ID g) cost) s1
      = bindP (GetTailGrantBySubscriptionID sub) (\<lambda>tail. updateGrant (sg_ID tail) (addGrantUsage N cost)) s1" for s1 :: "'a billstate_scheme"
    by (cases "tailGrant sub s1") (auto simp: bindP_def GetTailGrantBySubscriptionID_def db_def getP_def fail_def tg 1 split: list.splits)
  have 3: "billGrantsLoop N og cost gs s1 = allocateLoop N (Some og) cost gs s1"
    if "db ''lock grants'' (getP ?G) s = (Inr gs, s1)" for gs s1
    by (rule loops_agree) (use that in \<open>auto simp: getP_def activeGrants_def elim!: db_Inr\<close>)
  obtain q s1 where q: "db ''lock grants'' (getP ?G) s = (q, s1)" by fastforce
  show ?thesis
    using 2 3 q by (cases q) (auto simp: allocateUsageBillingSubscriptionGrants_def AllocateUsageToActiveGrants_def lock bindP_def [of "db ''lock grants'' (getP ?G)"])
qed

text \<open>
  What the last active grant records of a cost: with no room left, or with room for all of it,
  the whole cost; with some room but not enough, only the room, and the rest of the cost is
  recorded on no grant.
\<close>

theorem last_grant_records_at_most_its_room:
  assumes ok: "e_faults s = []" and act: "activeGrants sub t s = [g]" and cost: "flt (Fin 0) cost"
    and cap: "cap = grantCap (Some og) (sg_DailyUsageUSD g) (sg_WeeklyUsageUSD g) (sg_MonthlyUsageUSD g)" "cap \<noteq> NaN"
  shows "allocateUsageBillingSubscriptionGrants N sub og t cost s =
    addUsageToGrant N (sg_ID g) (if flt (Fin 0) cap \<and> flt cap cost then cap else cost) s"
proof -
  let ?a = "if flt (Fin 0) cap \<and> flt cap cost then cap else cost"
  have cost': "\<not> fle cost (Fin 0)" "cost \<noteq> NaN" using cost by (cases cost; simp)+
  obtain c where "cap = (if flt c (Fin 0) then Fin 0 else c)" using cap(1) by (simp add: grantCap_def Let_def)
  then have cap0: "fle (Fin 0) cap" using cap(2) by (cases c) (auto split: if_splits)
  have a: "allocationFor cost cap True = ?a"
    using cost' cap0 cap(2) by (cases cap; cases cost) (auto simp: allocationFor_def)
  have "\<not> fle ?a (Fin 0)" using cost' cap0 by (cases cap; cases cost) auto
  then have "billGrantsLoop N og cost [g] s = addUsageToGrant N (sg_ID g) ?a s"
    using cost' a by (auto simp: Let_def cap(1) [symmetric] bindP_def ret_def split: prod.splits sum.splits)
  then show ?thesis
    using ok act cost' by (simp add: allocateUsageBillingSubscriptionGrants_def bindP_def db_ok getP_def sortBy_def)
qed

definition cappedGroup :: Group where
  "cappedGroup = zeroGroup\<lparr>g_DailyLimitUSD := Some (Fin 3)\<rparr>"

definition demoGrant :: SubscriptionGrant where
  "demoGrant = \<lparr>sg_ID = 1, sg_SubscriptionID = 1, sg_StartsAt = 0, sg_ExpiresAt = 9, sg_DailyUsageUSD = Fin 1, sg_WeeklyUsageUSD = Fin 0,
     sg_MonthlyUsageUSD = Fin 0, sg_CreatedAt = 0, sg_UpdatedAt = 0, sg_Deleted = False\<rparr>"

theorem last_grant_records_at_most_its_room_witness:
  "allocateUsageBillingSubscriptionGrants demoNum 1 cappedGroup 5 (Fin 10) ((demoBill [])\<lparr>ss_grants := [demoGrant]\<rparr>)
   = addUsageToGrant demoNum 1 (Fin 2) ((demoBill [])\<lparr>ss_grants := [demoGrant]\<rparr>)"
proof -
  have c: "grantCap (Some cappedGroup) (Fin 1) (Fin 0) (Fin 0) = Fin 2"
    by (simp add: grantCap_def capWith_def cappedGroup_def zeroGroup_def HasDailyLimit_def HasWeeklyLimit_def HasMonthlyLimit_def fsub_def)
  show ?thesis
    using last_grant_records_at_most_its_room [where s = "(demoBill [])\<lparr>ss_grants := [demoGrant]\<rparr>" and sub = 1 and t = 5 and g = demoGrant
        and cost = "Fin 10" and og = cappedGroup and cap = "Fin 2" and N = demoNum]
    by (simp add: c demoBill_def demoGrant_def activeGrants_def grantOf_def grantActiveAt_def)
qed

end
