(* ===== verification/RedeemCodes.thy ===== *)
theory RedeemCodes
  imports BillingOnce
begin

section \<open>Redeem codes\<close>

text \<open>
  service/redeem_service.go, service/redeem_code.go, repository/redeem_code_repo.go, the balance
  operations of repository/user_repo.go and repository/redeem_cache.go.  A code is worth balance, concurrency or
  a subscription; using it and paying it out are one transaction.  The attempt counter and the
  lock live in Redis, whose calls fail through the same script as the database's; \<open>rw_cacheOn\<close> is
  whether Redis is configured.  The rest of a user besides balance, recharged total and concurrency is not read here.
\<close>

definition StatusUnused :: string where "StatusUnused = ''unused''"
definition StatusUsed :: string where "StatusUsed = ''used''"
definition RedeemTypeBalance :: string where "RedeemTypeBalance = ''balance''"
definition RedeemTypeConcurrency :: string where "RedeemTypeConcurrency = ''concurrency''"
definition RedeemTypeSubscription :: string where "RedeemTypeSubscription = ''subscription''"
definition RedeemTypeInvitation :: string where "RedeemTypeInvitation = ''invitation''"

record RedeemCode =
  rc_ID :: int
  rc_Code :: string
  rc_Type :: string
  rc_Value :: f64
  rc_Status :: string
  rc_UsedBy :: "int option"
  rc_UsedAt :: "int option"
  rc_Notes :: string
  rc_CreatedAt :: int
  rc_GroupID :: "int option"
  rc_ValidityDays :: int
  rc_SubscriptionMode :: "string option"

definition codeIsUsed :: "RedeemCode \<Rightarrow> bool" where "codeIsUsed c \<longleftrightarrow> rc_Status c = StatusUsed"
definition CanUse :: "RedeemCode \<Rightarrow> bool" where "CanUse c \<longleftrightarrow> rc_Status c = StatusUnused"

definition ErrRedeemCodeNotFound :: err where "ErrRedeemCodeNotFound = AppErr ''REDEEM_CODE_NOT_FOUND''"
definition ErrRedeemCodeUsed :: err where "ErrRedeemCodeUsed = AppErr ''REDEEM_CODE_USED''"
definition ErrRedeemRateLimited :: err where "ErrRedeemRateLimited = AppErr ''REDEEM_RATE_LIMITED''"
definition ErrRedeemCodeLocked :: err where "ErrRedeemCodeLocked = AppErr ''REDEEM_CODE_LOCKED''"
definition ErrRedeemCodeInvalid :: err where "ErrRedeemCodeInvalid = AppErr ''REDEEM_CODE_INVALID''"
definition ErrRedeemCodeDeleteUsed :: err where "ErrRedeemCodeDeleteUsed = AppErr ''REDEEM_CODE_DELETE_USED''"

definition redeemMaxErrorsPerHour :: int where "redeemMaxErrorsPerHour = 20"
definition redeemLockDuration :: int where "redeemLockDuration = 10 * second"

text \<open>The TTL the cache really gives the attempt counter.\<close>

definition redeemRateLimitDuration :: int where "redeemRateLimitDuration = 24 * hour"

record redeemstate = billstate +
  rw_codes :: "RedeemCode list"
  rw_nextCode :: int
  rw_recharged :: "int \<rightharpoonup> f64"
  rw_concurrency :: "int \<rightharpoonup> int"
  rw_cacheOn :: bool
  rw_attempts :: "int \<rightharpoonup> int \<times> int"
  rw_locks :: "string \<rightharpoonup> int"
  rw_authInvalidated :: "int list"
  rw_balanceInvalidated :: "int list"

definition undoRedeem :: "'a redeemstate_scheme \<Rightarrow> 'a redeemstate_scheme \<Rightarrow> 'a redeemstate_scheme" where
  "undoRedeem s s' = (undoBill s s')\<lparr>rw_attempts := rw_attempts s', rw_locks := rw_locks s',
     rw_authInvalidated := rw_authInvalidated s', rw_balanceInvalidated := rw_balanceInvalidated s'\<rparr>"

subsection \<open>The table of codes\<close>

text \<open>The validators of the columns; the value column keeps eight decimals.\<close>

definition codeColumnsOk :: "RedeemCode \<Rightarrow> bool" where
  "codeColumnsOk c \<longleftrightarrow> rc_Code c \<noteq> [] \<and> length (rc_Code c) \<le> 32 \<and> length (rc_Type c) \<le> 20 \<and> length (rc_Status c) \<le> 20
     \<and> length (case_option [] id (rc_SubscriptionMode c)) \<le> 16"

definition codeCreate :: "pgnum \<Rightarrow> RedeemCode \<Rightarrow> ('a redeemstate_scheme, RedeemCode) proc" where
  "codeCreate N c = db ''create code'' (\<lambda>s.
     if \<not> codeColumnsOk c then (Inl (Internal ''validator failed''), s)
     else if list_ex (\<lambda>x. rc_Code x = rc_Code c) (rw_codes s) then (Inl (Internal ''unique constraint''), s)
     else let c' = c\<lparr>rc_ID := rw_nextCode s, rc_CreatedAt := e_now s\<rparr>
          in (Inr c', s\<lparr>rw_codes := rw_codes s @ [c'\<lparr>rc_Value := n_store8 N (rc_Value c)\<rparr>], rw_nextCode := rw_nextCode s + 1\<rparr>))"

definition codeGetByID :: "int \<Rightarrow> ('a redeemstate_scheme, RedeemCode) proc" where
  "codeGetByID i = db ''get code'' (\<lambda>s. (onlyRow ErrRedeemCodeNotFound (\<lambda>c. rc_ID c = i) (rw_codes s), s))"

definition codeGetByCode :: "string \<Rightarrow> ('a redeemstate_scheme, RedeemCode) proc" where
  "codeGetByCode code = db ''get code'' (\<lambda>s. (onlyRow ErrRedeemCodeNotFound (\<lambda>c. rc_Code c = code) (rw_codes s), s))"

definition codeDelete :: "int \<Rightarrow> ('a redeemstate_scheme, unit) proc" where
  "codeDelete i = db ''delete code'' (modP (\<lambda>s. s\<lparr>rw_codes := filter (\<lambda>c. rc_ID c \<noteq> i) (rw_codes s)\<rparr>))"

definition markUsed :: "int \<Rightarrow> int \<Rightarrow> string option \<Rightarrow> RedeemCode \<Rightarrow> RedeemCode" where
  "markUsed user now mode c = c\<lparr>rc_Status := StatusUsed, rc_UsedBy := Some user, rc_UsedAt := Some now,
     rc_SubscriptionMode := (case mode of None \<Rightarrow> rc_SubscriptionMode c | Some m \<Rightarrow> Some m)\<rparr>"

definition codeUse :: "int \<Rightarrow> int \<Rightarrow> string option \<Rightarrow> ('a redeemstate_scheme, unit) proc" where
  "codeUse i user mode = db ''use code'' (\<lambda>s.
     let usable = (\<lambda>c. rc_ID c = i \<and> rc_Status c = StatusUnused)
     in if list_ex usable (rw_codes s)
        then (Inr (), s\<lparr>rw_codes := updRows usable (markUsed user (e_now s) mode) (rw_codes s)\<rparr>)
        else (Inl ErrRedeemCodeUsed, s))"

subsection \<open>Users\<close>

definition UpdateBalance :: "pgnum \<Rightarrow> int \<Rightarrow> f64 \<Rightarrow> ('a redeemstate_scheme, unit) proc" where
  "UpdateBalance N user amount = db ''update balance'' (\<lambda>s. case bw_balance s user of
       None \<Rightarrow> (Inl ErrUserNotFound, s)
     | Some b \<Rightarrow> (Inr (), s\<lparr>bw_balance := (bw_balance s)(user \<mapsto> n_store8 N (n_plus N b amount)),
          rw_recharged := (if flt (Fin 0) amount
            then (rw_recharged s)(user \<mapsto> n_store8 N (n_plus N (case_option (Fin 0) id (rw_recharged s user)) amount))
            else rw_recharged s)\<rparr>))"

definition DeductBalance :: "pgnum \<Rightarrow> int \<Rightarrow> f64 \<Rightarrow> ('a redeemstate_scheme, unit) proc" where
  "DeductBalance N user amount = db ''deduct balance'' (\<lambda>s. case bw_balance s user of
       None \<Rightarrow> (Inl ErrUserNotFound, s)
     | Some b \<Rightarrow> (Inr (), s\<lparr>bw_balance := (bw_balance s)(user \<mapsto> n_store8 N (n_plus N b (fneg amount)))\<rparr>))"

definition UpdateConcurrency :: "int \<Rightarrow> int \<Rightarrow> ('a redeemstate_scheme, unit) proc" where
  "UpdateConcurrency user delta = db ''update concurrency'' (\<lambda>s. case bw_balance s user of
       None \<Rightarrow> (Inl ErrUserNotFound, s)
     | Some _ \<Rightarrow> (Inr (), s\<lparr>rw_concurrency := (rw_concurrency s)(user \<mapsto> case_option 0 id (rw_concurrency s user) + delta)\<rparr>))"

text \<open>What is read of the user: balance and concurrency.\<close>

definition userGetByID :: "int \<Rightarrow> ('a redeemstate_scheme, f64 \<times> int) proc" where
  "userGetByID user = db ''get user'' (\<lambda>s. case bw_balance s user of
       None \<Rightarrow> (Inl ErrUserNotFound, s)
     | Some b \<Rightarrow> (Inr (b, case_option 0 id (rw_concurrency s user)), s))"

definition IsFirstRecharge :: "int \<Rightarrow> ('a redeemstate_scheme, bool) proc" where
  "IsFirstRecharge user = db ''first recharge'' (\<lambda>s. case bw_balance s user of
       None \<Rightarrow> (Inl ErrUserNotFound, s)
     | Some _ \<Rightarrow> (Inr (feq (case_option (Fin 0) id (rw_recharged s user)) (Fin 0)), s))"

subsection \<open>Rate limit and lock\<close>

definition attemptCount :: "int \<Rightarrow> 'a redeemstate_scheme \<Rightarrow> int" where
  "attemptCount user s = (case rw_attempts s user of None \<Rightarrow> 0 | Some (n, e) \<Rightarrow> if e_now s < e then n else 0)"

definition checkRedeemRateLimit :: "int \<Rightarrow> ('a redeemstate_scheme, unit) proc" where
  "checkRedeemRateLimit user = bindP (getP rw_cacheOn) (\<lambda>on.
     if \<not> on then ret ()
     else tryP (db ''redis attempts'' (getP (attemptCount user))) (\<lambda>_. ret ())
       (\<lambda>count. if redeemMaxErrorsPerHour \<le> count then fail ErrRedeemRateLimited else ret ()))"

definition incrementRedeemErrorCount :: "int \<Rightarrow> ('a redeemstate_scheme, unit) proc" where
  "incrementRedeemErrorCount user = bindP (getP rw_cacheOn) (\<lambda>on.
     if \<not> on then ret ()
     else ignoreP (db ''redis incr'' (modP (\<lambda>s.
       s\<lparr>rw_attempts := (rw_attempts s)(user \<mapsto> (attemptCount user s + 1, e_now s + redeemRateLimitDuration))\<rparr>))))"

definition lockHeld :: "string \<Rightarrow> 'a redeemstate_scheme \<Rightarrow> bool" where
  "lockHeld code s = (case rw_locks s code of None \<Rightarrow> False | Some e \<Rightarrow> e_now s < e)"

definition acquireRedeemLock :: "string \<Rightarrow> ('a redeemstate_scheme, bool) proc" where
  "acquireRedeemLock code = bindP (getP rw_cacheOn) (\<lambda>on.
     if \<not> on then ret True
     else tryP (db ''redis setnx'' (\<lambda>s. if lockHeld code s then (Inr False, s)
                 else (Inr True, s\<lparr>rw_locks := (rw_locks s)(code \<mapsto> e_now s + redeemLockDuration)\<rparr>)))
            (\<lambda>_. ret True) ret)"

definition releaseRedeemLock :: "string \<Rightarrow> ('a redeemstate_scheme, unit) proc" where
  "releaseRedeemLock code = bindP (getP rw_cacheOn) (\<lambda>on.
     if \<not> on then ret () else ignoreP (db ''redis del'' (modP (\<lambda>s. s\<lparr>rw_locks := (rw_locks s)(code := None)\<rparr>))))"

subsection \<open>Creating codes\<close>

text \<open>CreateCode trims and fills in the defaults of its argument.\<close>

definition CreateCode :: "pgnum \<Rightarrow> RedeemCode \<Rightarrow> ('a redeemstate_scheme, RedeemCode) proc" where
  "CreateCode N c0 =
    (let c1 = c0\<lparr>rc_Code := trimSpace (rc_Code c0)\<rparr>
     in if rc_Code c1 = [] then fail (Internal ''code is required'')
     else let c2 = (if rc_Type c1 = [] then c1\<lparr>rc_Type := RedeemTypeBalance\<rparr> else c1)
          in if rc_Type c2 \<noteq> RedeemTypeInvitation \<and> feq (rc_Value c2) (Fin 0) then fail (Internal ''value must not be zero'')
          else codeCreate N (if rc_Status c2 = [] then c2\<lparr>rc_Status := StatusUnused\<rparr> else c2))"

definition blankCode :: RedeemCode where
  "blankCode = \<lparr>rc_ID = 0, rc_Code = [], rc_Type = [], rc_Value = Fin 0, rc_Status = [], rc_UsedBy = None, rc_UsedAt = None,
     rc_Notes = [], rc_CreatedAt = 0, rc_GroupID = None, rc_ValidityDays = 0, rc_SubscriptionMode = None\<rparr>"

definition upperByte :: "char \<Rightarrow> char" where
  "upperByte c = (let n = of_char c :: nat in if 97 \<le> n \<and> n \<le> 122 then char_of (n - 32) else c)"

text \<open>GenerateRandomCode on the 16 bytes crypto/rand gave.\<close>

definition GenerateRandomCode :: "nat list \<Rightarrow> string" where
  "GenerateRandomCode bytes =
    (let code = map upperByte (hexEncode bytes)
     in joinWith ''-'' [take 8 code, take 8 (drop 8 code), take 8 (drop 16 code), take 8 (drop 24 code)])"

text \<open>CreateBulk is one INSERT: all rows or none.\<close>

definition codeCreateBatch :: "pgnum \<Rightarrow> RedeemCode list \<Rightarrow> ('a redeemstate_scheme, unit) proc" where
  "codeCreateBatch N cs = (if cs = [] then ret () else db ''create codes'' (\<lambda>s.
     if \<not> list_all codeColumnsOk cs then (Inl (Internal ''validator failed''), s)
     else if \<not> distinct (map rc_Code (rw_codes s @ cs)) then (Inl (Internal ''unique constraint''), s)
     else (Inr (), s\<lparr>rw_codes := rw_codes s @ map (\<lambda>(i, c). c\<lparr>rc_ID := rw_nextCode s + int i, rc_CreatedAt := e_now s,
            rc_Value := n_store8 N (rc_Value c)\<rparr>) (enumerate 0 cs),
            rw_nextCode := rw_nextCode s + int (length cs)\<rparr>)))"

text \<open>\<open>random\<close> are the 16-byte strings drawn, one per code; a short list is a failure of the generator.\<close>

definition GenerateCodes :: "pgnum \<Rightarrow> int \<Rightarrow> f64 \<Rightarrow> string \<Rightarrow> nat list list \<Rightarrow> ('a redeemstate_scheme, RedeemCode list) proc" where
  "GenerateCodes N num val ty random =
    (if num \<le> 0 then fail (Internal ''count must be greater than 0'')
     else if ty \<noteq> RedeemTypeInvitation \<and> feq val (Fin 0) then fail (Internal ''value must not be zero'')
     else if 1000 < num then fail (Internal ''cannot generate more than 1000 codes at once'')
     else if int (length random) < num then fail (Internal ''generate random bytes'')
     else let codeType = (if ty = [] then RedeemTypeBalance else ty);
              value' = (if codeType = RedeemTypeInvitation then Fin 0 else val);
              codes = map (\<lambda>b. blankCode\<lparr>rc_Code := GenerateRandomCode b, rc_Type := codeType, rc_Value := value', rc_Status := StatusUnused\<rparr>)
                        (take (nat num) random)
          in bindP (codeCreateBatch N codes) (\<lambda>_. ret codes))"

definition GetByCode :: "string \<Rightarrow> ('a redeemstate_scheme, RedeemCode) proc" where
  "GetByCode = codeGetByCode"

text \<open>The service's Delete keeps used codes; the admin service's does not look.\<close>

definition redeemDelete :: "int \<Rightarrow> ('a redeemstate_scheme, unit) proc" where
  "redeemDelete i = bindP (codeGetByID i) (\<lambda>c. if codeIsUsed c then fail ErrRedeemCodeDeleteUsed else codeDelete i)"

definition adminDeleteRedeemCode :: "int \<Rightarrow> ('a redeemstate_scheme, unit) proc" where
  "adminDeleteRedeemCode = codeDelete"

subsection \<open>Redeeming\<close>

text \<open>The UTF-8 texts of the notes.\<close>

definition noteRedeemed :: "string \<Rightarrow> string" where
  "noteRedeemed code = map char_of [233, 128, 154, 232, 191, 135, 229, 133, 145, 230, 141, 162, 231, 160, 129, 32 :: nat]
     @ code @ map char_of [32, 229, 133, 145, 230, 141, 162 :: nat]"

definition noteReduced :: "string \<Rightarrow> int \<Rightarrow> string" where
  "noteReduced code days = map char_of [233, 128, 154, 232, 191, 135, 229, 133, 145, 230, 141, 162, 231, 160, 129, 32 :: nat]
     @ code @ map char_of [32, 233, 128, 128, 230, 172, 190, 230, 137, 163, 229, 135, 143, 32 :: nat] @ itoa days
     @ map char_of [32, 229, 164, 169 :: nat]"

definition reduceOrCancelSubscription :: "int \<Rightarrow> int \<Rightarrow> int \<Rightarrow> string \<Rightarrow> ('a redeemstate_scheme, unit) proc" where
  "reduceOrCancelSubscription user gid reduceDays code =
     tryP (subGetByUserIDAndGroupID user gid) (\<lambda>_. fail ErrSubscriptionNotFound) (\<lambda>sub.
     bindP nowP (\<lambda>now.
     let r = ftrunc (fdiv (durHours (us_ExpiresAt sub - now)) (Fin 24));
         remaining = (if r < 0 then 0 else r)
     in bindP (if remaining \<le> reduceDays
               then bindP (UpdateStatus (us_ID sub) SubExpired) (\<lambda>_. ExtendExpiry (us_ID sub) now)
               else ExtendExpiry (us_ID sub) (addDays (us_ExpiresAt sub) (- reduceDays))) (\<lambda>_.
        bindP (UpdateNotes (us_ID sub) (appendNotes (us_Notes sub) (noteReduced code reduceDays))) (\<lambda>_.
        InvalidateSubCache user gid))))"

text \<open>The choice a subscription code needs when there is a running subscription; else the mode to record.\<close>

definition redeemMode :: "pgnum \<Rightarrow> int \<Rightarrow> RedeemCode \<Rightarrow> string \<Rightarrow> ('a redeemstate_scheme, string option) proc" where
  "redeemMode N user c mode =
    (case rc_GroupID c of
       Some g \<Rightarrow>
        if rc_Type c = RedeemTypeSubscription
        then bindP nowP (\<lambda>now.
             tryP (subGetByUserIDAndGroupID user g)
              (\<lambda>e. if e \<noteq> ErrSubscriptionNotFound then fail e
                   else if mode \<noteq> [] \<and> mode \<noteq> SubscriptionModeExtend \<and> mode \<noteq> SubscriptionModeStack then fail ErrInvalidSubscriptionMode
                   else ret (if mode = [] then None else Some mode))
              (\<lambda>sub. if now < us_ExpiresAt sub \<and> (us_Status sub = SubActive \<or> us_Status sub = SubSuspended) \<and> mode = []
                     then bindP (populateQuotaSnapshot N sub now) (\<lambda>snap.
                          bindP (if us_Group snap = None then ignoreP (groupGetByID (us_GroupID snap)) else ret ()) (\<lambda>_.
                          fail ErrSubscriptionRedeemChoiceRequired))
                     else if mode \<noteq> [] \<and> mode \<noteq> SubscriptionModeExtend \<and> mode \<noteq> SubscriptionModeStack then fail ErrInvalidSubscriptionMode
                     else ret (if mode = [] then None else Some mode)))
        else ret None
     | None \<Rightarrow> ret None)"

text \<open>What the code is worth, paid inside the transaction that has marked it used.\<close>

definition redeemPay :: "pgnum \<Rightarrow> int \<Rightarrow> f64 \<times> int \<Rightarrow> RedeemCode \<Rightarrow> string \<Rightarrow> ('a redeemstate_scheme, unit) proc" where
  "redeemPay N user usr c mode =
    (if rc_Type c = RedeemTypeBalance
     then let v = rc_Value c;
              amount = (if flt v (Fin 0) \<and> flt (fadd (fst usr) v) (Fin 0) then fneg (fst usr) else v)
          in UpdateBalance N user amount
     else if rc_Type c = RedeemTypeConcurrency
     then let d = ftrunc (rc_Value c);
              delta = (if d < 0 \<and> snd usr + d < 0 then - snd usr else d)
          in UpdateConcurrency user delta
     else if rc_Type c = RedeemTypeSubscription
     then (case rc_GroupID c of
             None \<Rightarrow> fail (Internal ''nil pointer'')
           | Some g \<Rightarrow>
               if rc_ValidityDays c < 0 then reduceOrCancelSubscription user g (- rc_ValidityDays c) (rc_Code c)
               else bindP (ApplyRedeemSubscription N True \<lparr>ri_UserID = user, ri_GroupID = g,
                        ri_ValidityDays = (if rc_ValidityDays c = 0 then 30 else rc_ValidityDays c), ri_Mode = mode,
                        ri_Notes = noteRedeemed (rc_Code c)\<rparr>) (\<lambda>_. ret ()))
     else fail (Internal ''unsupported redeem type''))"

definition redeemTx :: "pgnum \<Rightarrow> int \<Rightarrow> f64 \<times> int \<Rightarrow> RedeemCode \<Rightarrow> string \<Rightarrow> string option \<Rightarrow> ('a redeemstate_scheme, unit) proc" where
  "redeemTx N user usr c mode modeToRecord =
     withTx undoRedeem (
       bindP (tryP (codeUse (rc_ID c) user modeToRecord)
                (\<lambda>e. fail (if e = ErrRedeemCodeNotFound then ErrRedeemCodeUsed else e)) ret) (\<lambda>_.
       redeemPay N user usr c mode))"

definition invalidateRedeemCaches :: "int \<Rightarrow> RedeemCode \<Rightarrow> ('a redeemstate_scheme, unit) proc" where
  "invalidateRedeemCaches user c =
    (let auth = modP (\<lambda>s. s\<lparr>rw_authInvalidated := user # rw_authInvalidated s\<rparr>) in
     if rc_Type c = RedeemTypeBalance
     then bindP auth (\<lambda>_. modP (\<lambda>s. s\<lparr>rw_balanceInvalidated := user # rw_balanceInvalidated s\<rparr>))
     else if rc_Type c = RedeemTypeConcurrency then auth
     else if rc_Type c = RedeemTypeSubscription
     then bindP auth (\<lambda>_. case rc_GroupID c of None \<Rightarrow> ret () | Some g \<Rightarrow> billingInvalidate user g)
     else ret ())"

definition redeemLocked :: "pgnum \<Rightarrow> int \<Rightarrow> string \<Rightarrow> string \<Rightarrow> ('a redeemstate_scheme, RedeemCode) proc" where
  "redeemLocked N user code subscriptionMode =
     tryP (codeGetByCode code)
      (\<lambda>e. if e = ErrRedeemCodeNotFound then bindP (incrementRedeemErrorCount user) (\<lambda>_. fail ErrRedeemCodeNotFound) else fail e)
      (\<lambda>c. if \<not> CanUse c then bindP (incrementRedeemErrorCount user) (\<lambda>_. fail ErrRedeemCodeUsed)
           else if rc_Type c = RedeemTypeSubscription \<and> rc_GroupID c = None then fail ErrRedeemCodeInvalid
           else let mode = trimSpace subscriptionMode in
             bindP (redeemMode N user c mode) (\<lambda>modeToRecord.
             bindP (userGetByID user) (\<lambda>usr.
             bindP (redeemTx N user usr c mode modeToRecord) (\<lambda>_.
             bindP (invalidateRedeemCaches user c) (\<lambda>_.
             codeGetByID (rc_ID c))))))"

text \<open>The deferred release runs whatever the result.\<close>

definition Redeem :: "pgnum \<Rightarrow> int \<Rightarrow> string \<Rightarrow> string \<Rightarrow> ('a redeemstate_scheme, RedeemCode) proc" where
  "Redeem N user code subscriptionMode =
     bindP (checkRedeemRateLimit user) (\<lambda>_.
     bindP (acquireRedeemLock code) (\<lambda>locked.
     if \<not> locked then fail ErrRedeemCodeLocked
     else (\<lambda>s. case redeemLocked N user code subscriptionMode s of
            (r, s1) \<Rightarrow> (r, snd (releaseRedeemLock code s1)))))"

end
