(* ===== verification/SubscriptionFrame.thy ===== *)
theory SubscriptionFrame
  imports SubscriptionInvariants
begin

section \<open>What the subscription operations leave alone\<close>

text \<open>
  The components that build on the subscription tables extend their state.  The operations of the
  subscription service never touch the extension, the clock or the groups.
\<close>

definition framed :: "'a \<times> int \<times> (int \<rightharpoonup> Group) \<Rightarrow> 'a substate_scheme \<Rightarrow> bool" where
  "framed x s \<longleftrightarrow> x = (substate.more s, e_now s, ss_groups s)"

lemma framed_simps [simp]:
  "framed x (s\<lparr>e_faults := fs\<rparr>) = framed x s" "framed x (s\<lparr>ss_l1 := c\<rparr>) = framed x s"
  "framed x (s\<lparr>ss_billingInvalidated := b\<rparr>) = framed x s" "framed x (undoSub s s') = framed x s"
  by (simp_all add: framed_def undoSub_def)

lemma keeps_frame_db:
  assumes "\<And>s. framed x (snd (act s)) = framed x s"
  shows "keepsP (framed x) (db tag act)"
  by (rule keeps_db) (simp_all add: keepsP_def assms)

lemma frame_steps [keeps]:
  "keepsP (framed x) (groupGetByID i)" "keepsP (framed x) (subGetByID i)" "keepsP (framed x) (subGetByUserIDAndGroupID u g)"
  "keepsP (framed x) (subGetActiveByUserIDAndGroupID u g)" "keepsP (framed x) (subExists u g)"
  "keepsP (framed x) (CountActiveBySubscriptionID i t)" "keepsP (framed x) (SumActiveUsageBySubscriptionID N i t)"
  "keepsP (framed x) (ListActiveForUpdate i t)" "keepsP (framed x) (GetTailGrantBySubscriptionID i)"
  "keepsP (framed x) (subDelete i)" "keepsP (framed x) (subCreate sub)" "keepsP (framed x) (grantCreate i a b)"
  "keepsP (framed x) (updateSub i f)" "keepsP (framed x) (updateGrant i f2)" "keepsP (framed x) (updateGrantsOf i f2)"
  "keepsP (framed x) (IncrementUsage N i c)"
  unfolding groupGetByID_def subGetByID_def subGetByUserIDAndGroupID_def subGetActiveByUserIDAndGroupID_def subExists_def
    CountActiveBySubscriptionID_def SumActiveUsageBySubscriptionID_def ListActiveForUpdate_def GetTailGrantBySubscriptionID_def
    subDelete_def subCreate_def grantCreate_def updateSub_def updateGrant_def updateGrantsOf_def IncrementUsage_def
  by (rule keeps_frame_db; simp add: framed_def modP_def Let_def)+

lemma frame_named [keeps]:
  "keepsP (framed x) (ExtendExpiry i t)" "keepsP (framed x) (UpdateStatus i st)" "keepsP (framed x) (UpdateNotes i n)"
  "keepsP (framed x) (grantUpdateExpiresAt i t)"
  by (simp_all add: ExtendExpiry_def UpdateStatus_def UpdateNotes_def grantUpdateExpiresAt_def frame_steps)

lemma frame_caches [keeps]:
  "keepsP (framed x) (InvalidateSubCache u g)" "keepsP (framed x) (billingInvalidate u g)" "keepsP (framed x) (invalidateCaches u g)"
  unfolding invalidateCaches_def InvalidateSubCache_def billingInvalidate_def
  by (intro keeps keeps_modP; simp add: framed_def)+

lemma frame_withTx: "keepsP (framed x) m \<Longrightarrow> keepsP (framed x) (withTx undoSub m)"
  by (rule keeps_withTx) auto

lemma frame_svcWithTx [keeps]: "keepsP (framed x) m \<Longrightarrow> keepsP (framed x) (svcWithTx inTx m)"
  by (simp add: svcWithTx_def frame_withTx)

lemma frame_populate [keeps]: "keepsP (framed x) (populateQuotaSnapshot N sub t)"
  unfolding populateQuotaSnapshot_def Let_def by (auto intro!: keeps split: prod.splits)

lemma frame_svcGetByID [keeps]: "keepsP (framed x) (svcGetByID N i)"
  unfolding svcGetByID_def by (intro keeps)

lemma frame_createSubscription [keeps]: "keepsP (framed x) (createSubscription N inTx input)"
  unfolding createSubscription_def insertWithGrant_def by (intro keeps)

lemma frame_ApplyRedeem [keeps]: "keepsP (framed x) (ApplyRedeemSubscription N inTx input)"
  unfolding ApplyRedeemSubscription_def redeemExtend_def redeemStack_def Let_def by (intro keeps)

lemma frame_AssignOrExtend [keeps]: "keepsP (framed x) (AssignOrExtendSubscription N inTx input)"
  unfolding AssignOrExtendSubscription_def Let_def by (intro keeps frame_withTx)

lemma frame_Revoke [keeps]: "keepsP (framed x) (RevokeSubscription i)"
  unfolding RevokeSubscription_def by (intro keeps)

lemma frame_Extend [keeps]: "keepsP (framed x) (ExtendSubscription i d)"
  unfolding ExtendSubscription_def Let_def by (intro keeps)

lemma frame_GetActive [keeps]: "keepsP (framed x) (GetActiveSubscription N hit kept u g)"
  unfolding GetActiveSubscription_def Let_def by (intro keeps keeps_modP) (simp add: framed_def)

text \<open>In use: whatever a component keeps in its extension is as before.\<close>

lemma framed_self: "framed (substate.more s, e_now s, ss_groups s) s"
  by (simp add: framed_def)

lemma framed_run:
  assumes "\<And>x. keepsP (framed x) m" and "m s = (r, s')"
  shows "substate.more s' = substate.more s" and "e_now s' = e_now s" and "ss_groups s' = ss_groups s"
  using keepsPD [OF assms(1) framed_self [of s]] assms(2) by (simp_all add: framed_def)

end
