(* ===== verification/RedeemOnce.thy ===== *)
theory RedeemOnce
  imports RedeemCodes SubscriptionFrame SubscriptionBehaviour
begin

section \<open>A code pays once\<close>

text \<open>
  Redeeming either pays one unused code, marking it used in the same transaction, or leaves codes,
  balances, concurrency and subscriptions alone; so no code pays twice.
\<close>

definition ledger where
  "ledger s = (bw_balance s, rw_recharged s, rw_concurrency s, ss_subs s, ss_grants s, rw_codes s, e_now s)"

lemma ledger_simps [simp]:
  "ledger (s\<lparr>e_faults := fs\<rparr>) = ledger s" "ledger (undoRedeem s s') = ledger s"
  by (simp_all add: ledger_def undoRedeem_def undoBill_def)

definition books where "books L s \<longleftrightarrow> ledger s = L"

lemma keeps_books_db: "(\<And>s. ledger (snd (act s)) = ledger s) \<Longrightarrow> keepsP (books L) (db tag act)"
  by (rule keeps_db) (simp_all add: keepsP_def books_def)

lemma books_steps:
  "keepsP (books L) (codeGetByCode code)" "keepsP (books L) (codeGetByID i)" "keepsP (books L) (userGetByID u)"
  "keepsP (books L) (IsFirstRecharge u)" "keepsP (books L) (subGetByUserIDAndGroupID u g)" "keepsP (books L) (groupGetByID g)"
  "keepsP (books L) (CountActiveBySubscriptionID i t)" "keepsP (books L) (SumActiveUsageBySubscriptionID N i t)"
  unfolding codeGetByCode_def codeGetByID_def userGetByID_def IsFirstRecharge_def subGetByUserIDAndGroupID_def groupGetByID_def
    CountActiveBySubscriptionID_def SumActiveUsageBySubscriptionID_def
  by (rule keeps_books_db; simp add: ledger_def Let_def split: option.splits)+

lemma books_caches:
  "keepsP (books L) (checkRedeemRateLimit u)" "keepsP (books L) (incrementRedeemErrorCount u)"
  "keepsP (books L) (acquireRedeemLock code)" "keepsP (books L) (releaseRedeemLock code)"
  "keepsP (books L) (invalidateRedeemCaches u c)"
  unfolding checkRedeemRateLimit_def incrementRedeemErrorCount_def acquireRedeemLock_def releaseRedeemLock_def
    invalidateRedeemCaches_def Let_def billingInvalidate_def
  by (intro keeps keeps_books_db keeps_modP; simp add: ledger_def books_def getP_def modP_def)+

lemmas keeps_books = keeps books_steps books_caches

lemma books_mode: "keepsP (books L) (redeemMode N user c mode)"
  unfolding redeemMode_def populateQuotaSnapshot_def Let_def by (auto intro!: keeps_books split: prod.splits)

lemma books_run: "(\<And>L. keepsP (books L) m) \<Longrightarrow> m s = (r, s') \<Longrightarrow> ledger s' = ledger s"
  using keepsPD [of "books (ledger s)" m s] by (simp add: books_def)

text \<open>What is paid leaves the codes as they are.\<close>

lemma framed_reduce: "keepsP (framed x) (reduceOrCancelSubscription u g d code)"
  unfolding reduceOrCancelSubscription_def Let_def by (intro keeps)

lemma more_codes: "substate.more s' = substate.more s \<Longrightarrow> rw_codes s' = rw_codes s \<and> bw_balance s' = bw_balance s
    \<and> rw_recharged s' = rw_recharged s \<and> rw_concurrency s' = rw_concurrency s"
  by (cases s; cases s') (auto elim!: billstate.cases_scheme simp: substate.defs)

lemma redeemPay_Inr:
  assumes "redeemPay N user usr c mode s = (Inr (), s')"
  shows "rw_codes s' = rw_codes s" and "e_now s' = e_now s"
    and "rc_Type c = RedeemTypeBalance \<Longrightarrow> \<exists>b. bw_balance s user = Some b
      \<and> bw_balance s' = (bw_balance s)(user \<mapsto> n_store8 N (n_plus N b (if flt (rc_Value c) (Fin 0) \<and> flt (fadd (fst usr) (rc_Value c)) (Fin 0)
            then fneg (fst usr) else rc_Value c)))
      \<and> ss_subs s' = ss_subs s \<and> ss_grants s' = ss_grants s"
proof -
  have b: "rw_codes s' = rw_codes s \<and> e_now s' = e_now s \<and> (\<exists>b. bw_balance s user = Some b \<and> bw_balance s' = (bw_balance s)(user \<mapsto> n_store8 N (n_plus N b a)))
      \<and> ss_subs s' = ss_subs s \<and> ss_grants s' = ss_grants s" if "UpdateBalance N user a s = (Inr (), s')" for a
    using that unfolding UpdateBalance_def by (elim db_Inr) (auto split: option.splits if_splits)
  have c: "rw_codes s' = rw_codes s \<and> e_now s' = e_now s" if "UpdateConcurrency user d s = (Inr (), s')" for d
    using that unfolding UpdateConcurrency_def by (elim db_Inr) (auto split: option.splits)
  have r: "rw_codes s' = rw_codes s \<and> e_now s' = e_now s" if "reduceOrCancelSubscription user g d code s = (Inr (), s')" for g d code
    using framed_run [OF framed_reduce that] more_codes by metis
  have a: "rw_codes s' = rw_codes s \<and> e_now s' = e_now s" if "bindP (ApplyRedeemSubscription N True input) (\<lambda>_. ret ()) s = (Inr (), s')" for input
  proof -
    from that obtain u t where "ApplyRedeemSubscription N True input s = (Inr u, t)" "s' = t"
      by (elim bindP_Inr) (auto simp: ret_def)
    then show ?thesis using framed_run [OF frame_ApplyRedeem] more_codes by metis
  qed
  show "rw_codes s' = rw_codes s" "e_now s' = e_now s"
    using assms b c r a unfolding redeemPay_def Let_def by (auto simp: fail_def split: if_splits option.splits)
  show "rc_Type c = RedeemTypeBalance \<Longrightarrow> \<exists>b. bw_balance s user = Some b
      \<and> bw_balance s' = (bw_balance s)(user \<mapsto> n_store8 N (n_plus N b (if flt (rc_Value c) (Fin 0) \<and> flt (fadd (fst usr) (rc_Value c)) (Fin 0)
            then fneg (fst usr) else rc_Value c)))
      \<and> ss_subs s' = ss_subs s \<and> ss_grants s' = ss_grants s"
    using assms b unfolding redeemPay_def Let_def by simp
qed

lemma codeUse_Inr:
  assumes "codeUse i user mode s = (Inr (), s')"
  shows "list_ex (\<lambda>c. rc_ID c = i \<and> rc_Status c = StatusUnused) (rw_codes s)"
    and "\<exists>fs. s' = s\<lparr>e_faults := fs, rw_codes := updRows (\<lambda>c. rc_ID c = i \<and> rc_Status c = StatusUnused) (markUsed user (e_now s) mode) (rw_codes s)\<rparr>"
  using assms unfolding codeUse_def by (elim db_Inr; auto simp: Let_def split: if_splits)+

text \<open>The codes after using one.\<close>

definition useCode :: "int \<Rightarrow> int \<Rightarrow> string option \<Rightarrow> int \<Rightarrow> RedeemCode list \<Rightarrow> RedeemCode list" where
  "useCode user now mode i = updRows (\<lambda>c. rc_ID c = i \<and> rc_Status c = StatusUnused) (markUsed user now mode)"

lemma redeemTx_cases:
  fixes s :: "'a redeemstate_scheme"
  assumes "redeemTx N user usr c mode m s = (r, s')"
  obtains (none) e where "r = Inl e" "ledger s' = ledger s"
  | (paid) t1 t2 :: "'a redeemstate_scheme" where "r = Inr ()" "ledger t1 = ledger (s\<lparr>rw_codes := useCode user (e_now s) m (rc_ID c) (rw_codes s)\<rparr>)"
      "redeemPay N user usr c mode t1 = (Inr (), t2)" "ledger s' = ledger t2"
      "list_ex (\<lambda>x. rc_ID x = rc_ID c \<and> rc_Status x = StatusUnused) (rw_codes s)"
proof (cases r)
  case (Inl e)
  have "ledger s' = ledger s"
    by (rule withTx_error [OF assms [unfolded redeemTx_def Inl]]) simp_all
  then show thesis using none Inl by blast
next
  case (Inr u)
  from assms [unfolded redeemTx_def Inr] obtain fs t where
    body: "bindP (tryP (codeUse (rc_ID c) user m) (\<lambda>e. fail (if e = ErrRedeemCodeNotFound then ErrRedeemCodeUsed else e)) ret)
       (\<lambda>_. redeemPay N user usr c mode) (s\<lparr>e_faults := fs\<rparr>) = (Inr u, t)" and s': "\<exists>fs'. s' = t\<lparr>e_faults := fs'\<rparr>"
    by (elim withTx_success)
  then obtain t1 where use: "codeUse (rc_ID c) user m (s\<lparr>e_faults := fs\<rparr>) = (Inr (), t1)" and pay: "redeemPay N user usr c mode t1 = (Inr (), t)"
    by (elim bindP_Inr) (auto simp: tryP_def fail_def ret_def split: prod.splits sum.splits)
  show thesis
  proof (rule paid [OF _ _ pay])
    show "ledger t1 = ledger (s\<lparr>rw_codes := useCode user (e_now s) m (rc_ID c) (rw_codes s)\<rparr>)"
      using codeUse_Inr(2) [OF use] by (auto simp: ledger_def useCode_def)
  qed (use Inr s' codeUse_Inr(1) [OF use] in auto)
qed

lemma Redeem_cases:
  fixes s :: "'a redeemstate_scheme"
  assumes "Redeem N user code subMode s = (r, s')"
  obtains (none) e where "r = Inl e" "ledger s' = ledger s"
  | (paid) c usr m and t1 t2 :: "'a redeemstate_scheme" where "filter (\<lambda>x. rc_Code x = code) (rw_codes s) = [c]" "rc_Status c = StatusUnused"
      "bw_balance s user = Some (fst usr)"
      "ledger t1 = ledger (s\<lparr>rw_codes := useCode user (e_now s) m (rc_ID c) (rw_codes s)\<rparr>)"
      "redeemPay N user usr c (trimSpace subMode) t1 = (Inr (), t2)" "ledger s' = ledger t2"
proof -
  obtain q1 s1 where 1: "checkRedeemRateLimit user s = (q1, s1)" by fastforce
  note l1 = books_run [OF books_caches(1) 1]
  obtain q2 s2 where 2: "acquireRedeemLock code s1 = (q2, s2)" by fastforce
  note l2 = books_run [OF books_caches(3) 2]
  obtain q3 s3 where 3: "redeemLocked N user code subMode s2 = (q3, s3)" by fastforce
  have rel: "ledger (snd (releaseRedeemLock code t)) = ledger t" for t :: "'a redeemstate_scheme"
    using books_run [OF books_caches(4)] by (metis prod.collapse)
  show thesis
  proof (cases "(\<exists>u. q1 = Inr u) \<and> q2 = Inr True")
    case False
    then have "ledger s' = ledger s \<and> (\<exists>e. r = Inl e)"
      using assms 1 2 l1 l2 by (cases q1; cases q2) (auto simp: Redeem_def bindP_def fail_def split: if_splits)
    then show thesis using none by blast
  next
    case True
    then have r: "r = q3" and s': "ledger s' = ledger s3"
      using assms 1 2 3 rel by (auto simp: Redeem_def bindP_def)
    obtain q4 s4 where 4: "codeGetByCode code s2 = (q4, s4)" by fastforce
    note l4 = books_run [OF books_steps(1) 4]
    have fin: thesis if "ledger s3 = ledger s2" "\<exists>e. q3 = Inl e" using that none l1 l2 r s' by metis
    have incf: "ledger t' = ledger t \<and> (\<exists>e'. q = Inl e')"
      if "bindP (incrementRedeemErrorCount user) (\<lambda>_. fail e) t = (q, t')" for t t' :: "'a redeemstate_scheme" and e and q :: "err + RedeemCode"
    proof -
      obtain q' t1 where i: "incrementRedeemErrorCount user t = (q', t1)" by fastforce
      then show ?thesis using that books_run [OF books_caches(2) i] by (cases q') (auto simp: bindP_def fail_def)
    qed
    have failf: "t' = t \<and> (\<exists>e'. q = Inl e')" if "fail e t = (q, t')" for t t' :: "'a redeemstate_scheme" and e and q :: "err + RedeemCode"
      using that by (auto simp: fail_def)
    show thesis
    proof (cases q4)
      case (Inl e)
      then have "ledger s3 = ledger s2 \<and> (\<exists>e. q3 = Inl e)"
        using 3 4 l4 by (auto simp: redeemLocked_def tryP_def split: if_splits dest: incf failf)
      then show thesis using fin by blast
    next
      case (Inr c)
      show thesis
      proof (cases "CanUse c \<and> \<not> (rc_Type c = RedeemTypeSubscription \<and> rc_GroupID c = None)")
        case False
        then have "ledger s3 = ledger s2 \<and> (\<exists>e. q3 = Inl e)"
          using 3 4 l4 Inr by (auto simp: redeemLocked_def tryP_def split: if_splits dest: incf failf)
        then show thesis using fin by blast
      next
        case True
        then have rest: "bindP (redeemMode N user c (trimSpace subMode)) (\<lambda>modeToRecord.
             bindP (userGetByID user) (\<lambda>usr.
             bindP (redeemTx N user usr c (trimSpace subMode) modeToRecord) (\<lambda>_.
             bindP (invalidateRedeemCaches user c) (\<lambda>_. codeGetByID (rc_ID c))))) s4 = (q3, s3)"
          using 3 4 Inr by (auto simp: redeemLocked_def tryP_def Let_def)
        obtain q5 s5 where 5: "redeemMode N user c (trimSpace subMode) s4 = (q5, s5)" by fastforce
        note l5 = books_run [OF books_mode 5]
        obtain q6 s6 where 6: "userGetByID user s5 = (q6, s6)" by fastforce
        note l6 = books_run [OF books_steps(3) 6]
        show thesis
        proof (cases "\<exists>m usr. q5 = Inr m \<and> q6 = Inr usr")
          case False
          then have "ledger s3 = ledger s2 \<and> (\<exists>e. q3 = Inl e)"
            using rest 5 6 l4 l5 l6 by (cases q5; cases q6) (auto simp: bindP_def)
          then show thesis using fin by blast
        next
          case True
          then obtain m usr where q5: "q5 = Inr m" and q6: "q6 = Inr usr" by blast
          obtain q7 s7 where 7: "redeemTx N user usr c (trimSpace subMode) m s6 = (q7, s7)" by fastforce
          have led6: "ledger s6 = ledger s" using l1 l2 l4 l5 l6 by simp
          have after: "ledger (snd (bindP (invalidateRedeemCaches user c) (\<lambda>_. codeGetByID (rc_ID c)) s7)) = ledger s7"
            using keepsPD [OF keeps_bindP [OF books_caches(5) books_steps(2)], of "ledger s7" s7] by (simp add: books_def)
          show thesis
            using 7
          proof (cases rule: redeemTx_cases)
            case (none e)
            then have "ledger s3 = ledger s2 \<and> (\<exists>e. q3 = Inl e)"
              using rest 5 6 7 l4 l5 l6 q5 q6 by (auto simp: bindP_def)
            then show thesis using fin by blast
          next
            case (paid t1 t2)
            have "filter (\<lambda>x. rc_Code x = code) (rw_codes s2) = [c]"
              using 4 unfolding codeGetByCode_def Inr by (elim db_Inr) (auto simp: onlyRow_def split: list.splits)
            moreover have "bw_balance s5 user = Some (fst usr)"
              using 6 unfolding userGetByID_def q6 by (elim db_Inr) (auto split: option.splits)
            moreover have "ledger s' = ledger t2"
              using rest 5 6 7 q5 q6 after s' paid(1,4) by (simp add: bindP_def)
            moreover have "ledger t1 = ledger (s\<lparr>rw_codes := useCode user (e_now s) m (rc_ID c) (rw_codes s)\<rparr>)"
              using paid(2) led6 by (auto simp: ledger_def)
            ultimately show thesis
              using that(2) paid(3) \<open>CanUse c \<and> _\<close> l1 l2 l4 l5 by (auto simp: ledger_def CanUse_def)
          qed
        qed
      qed
    qed
  qed
qed

subsection \<open>Properties\<close>

text \<open>
  C28: redeeming pays exactly one unused code or nothing: either it returns an error and codes,
  balances, concurrency and subscriptions are as before, or the one row with that code was unused,
  is now used by this user, and what it is worth has been paid in the same transaction.
\<close>

theorem redeem_pays_one_unused_code:
  fixes s :: "'a redeemstate_scheme"
  shows "case Redeem N user code subMode s of (r, s') \<Rightarrow>
    ledger s' = ledger s \<and> (\<exists>e. r = Inl e)
  \<or> (\<exists>c usr m t1 t2. filter (\<lambda>x. rc_Code x = code) (rw_codes s) = [c] \<and> rc_Status c = StatusUnused
      \<and> rw_codes s' = useCode user (e_now s) m (rc_ID c) (rw_codes s)
      \<and> ledger t1 = ledger (s\<lparr>rw_codes := rw_codes s'\<rparr>) \<and> bw_balance s user = Some (fst usr)
      \<and> redeemPay N user usr c (trimSpace subMode) (t1 :: 'a redeemstate_scheme) = (Inr (), t2) \<and> ledger s' = ledger t2)"
proof -
  obtain r s' where R: "Redeem N user code subMode s = (r, s')" by fastforce
  then show ?thesis
  proof (cases rule: Redeem_cases)
    case (paid c usr m t1 t2)
    have "rw_codes s' = useCode user (e_now s) m (rc_ID c) (rw_codes s)"
      using paid(4,6) redeemPay_Inr(1) [OF paid(5)] by (simp add: ledger_def)
    then show ?thesis unfolding R prod.case
      by (intro disjI2 exI [of _ c] exI [of _ usr] exI [of _ m] exI [of _ t1] exI [of _ t2] conjI) (use paid in simp_all)
  qed (simp add: R)
qed

text \<open>
  A balance code of a positive value, once redeemed, has added exactly its value to the
  redeeming user's balance (as the column stores it), and touched no other balance and no subscription.
\<close>

theorem balance_code_credits_its_value:
  assumes run: "Redeem N user code subMode s = (Inr c', s')"
    and c: "filter (\<lambda>x. rc_Code x = code) (rw_codes s) = [c]" "rc_Type c = RedeemTypeBalance" "flt (Fin 0) (rc_Value c)"
  shows "\<exists>b. bw_balance s user = Some b \<and> bw_balance s' = (bw_balance s)(user \<mapsto> n_store8 N (n_plus N b (rc_Value c)))
     \<and> ss_subs s' = ss_subs s \<and> ss_grants s' = ss_grants s"
  using run
proof (cases rule: Redeem_cases)
  case (paid d usr m t1 t2)
  have "d = c" using paid(1) c(1) by simp
  moreover have "\<not> flt (rc_Value c) (Fin 0)" using c(3) flt_imp_fle fle_not_flt by blast
  ultimately show ?thesis using redeemPay_Inr(3) [OF paid(5)] paid(4,6) c(2) by (auto simp: ledger_def)
qed simp

definition demoCode :: RedeemCode where
  "demoCode = blankCode\<lparr>rc_ID := 1, rc_Code := ''GIFT'', rc_Type := RedeemTypeBalance, rc_Value := Fin 5, rc_Status := StatusUnused\<rparr>"

definition demoRedeem :: redeemstate where
  "demoRedeem = \<lparr>e_now = 5, e_faults = [], ss_groups = Map.empty, ss_subs = [], ss_grants = [], ss_nextSub = 1,
     ss_nextGrant = 1, ss_l1on = False, ss_l1 = Map.empty, ss_billingInvalidated = [], ss_zone = 0,
     bw_dedup = [], bw_archive = [], bw_balance = [1 \<mapsto> Fin 8], bw_gifts = [], bw_commissions = [],
     bw_orderStatus = Map.empty, bw_keys = Map.empty, bw_quotas = Map.empty, bw_usageLogs = [], bw_outbox = [],
     rw_codes = [demoCode], rw_nextCode = 2, rw_recharged = Map.empty, rw_concurrency = Map.empty, rw_cacheOn = True,
     rw_attempts = Map.empty, rw_locks = Map.empty, rw_authInvalidated = [], rw_balanceInvalidated = []\<rparr>"

lemmas redeem_eval = Redeem_def checkRedeemRateLimit_def acquireRedeemLock_def releaseRedeemLock_def redeemLocked_def
  codeGetByCode_def codeGetByID_def redeemMode_def userGetByID_def redeemTx_def codeUse_def redeemPay_def
  invalidateRedeemCaches_def UpdateBalance_def attemptCount_def lockHeld_def CanUse_def markUsed_def onlyRow_def updRows_def
  withTx_def db_def bindP_def tryP_def ignoreP_def ret_def fail_def getP_def modP_def Let_def blankCode_def
  StatusUnused_def StatusUsed_def RedeemTypeBalance_def RedeemTypeSubscription_def RedeemTypeConcurrency_def

lemma demo_redeem: "\<exists>c' s'. Redeem demoNum 1 ''GIFT'' [] demoRedeem = (Inr c', s')"
  by (simp add: redeem_eval demoRedeem_def demoCode_def redeemMaxErrorsPerHour_def demoNum_def)

theorem balance_code_credits_its_value_witness:
  "\<exists>c' s'. Redeem demoNum 1 ''GIFT'' [] demoRedeem = (Inr c', s') \<and> bw_balance s' 1 = Some (fl 13)"
proof -
  obtain c' s' where r: "Redeem demoNum 1 ''GIFT'' [] demoRedeem = (Inr c', s')" using demo_redeem by blast
  have "\<exists>b. bw_balance demoRedeem 1 = Some b
     \<and> bw_balance s' = (bw_balance demoRedeem)(1 \<mapsto> n_store8 demoNum (n_plus demoNum b (rc_Value demoCode)))
     \<and> ss_subs s' = ss_subs demoRedeem \<and> ss_grants s' = ss_grants demoRedeem"
    by (rule balance_code_credits_its_value [OF r]) (simp_all add: demoRedeem_def demoCode_def blankCode_def)
  with r show ?thesis by (auto simp: demoRedeem_def demoCode_def demoNum_def)
qed

subsection \<open>The contract\<close>

definition usedCode :: "string \<Rightarrow> 'a redeemstate_scheme \<Rightarrow> bool" where
  "usedCode code s \<longleftrightarrow> list_ex (\<lambda>c. rc_Code c = code \<and> codeIsUsed c) (rw_codes s)"

datatype redeemOp = DoRedeem int string string | DoCreate RedeemCode | DoGenerate int f64 string "nat list list"
  | DoDelete int | DoWait int | DoDisturb "bool list"

text \<open>The result of a step is the states before and after it.\<close>

fun runRedeemOp :: "pgnum \<Rightarrow> redeemOp \<Rightarrow> 'a redeemstate_scheme \<Rightarrow> ('a redeemstate_scheme \<times> 'a redeemstate_scheme) \<times> 'a redeemstate_scheme" where
  "runRedeemOp N (DoRedeem user code mode) s = ((s, snd (Redeem N user code mode s)), snd (Redeem N user code mode s))"
| "runRedeemOp N (DoCreate c) s = ((s, snd (CreateCode N c s)), snd (CreateCode N c s))"
| "runRedeemOp N (DoGenerate n v ty bytes) s = ((s, snd (GenerateCodes N n v ty bytes s)), snd (GenerateCodes N n v ty bytes s))"
| "runRedeemOp N (DoDelete i) s = ((s, snd (redeemDelete i s)), snd (redeemDelete i s))"
| "runRedeemOp N (DoWait d) s = ((s, s\<lparr>e_now := e_now s + d\<rparr>), s\<lparr>e_now := e_now s + d\<rparr>)"
| "runRedeemOp N (DoDisturb fs) s = ((s, s\<lparr>e_faults := fs\<rparr>), s\<lparr>e_faults := fs\<rparr>)"

text \<open>A step pays a code when it redeems it and the books differ afterwards.\<close>

definition paysCode :: "string \<Rightarrow> redeemOp \<Rightarrow> 'a redeemstate_scheme \<times> 'a redeemstate_scheme \<Rightarrow> bool" where
  "paysCode code op r = (case op of DoRedeem u c m \<Rightarrow> c = code \<and> ledger (snd r) \<noteq> ledger (fst r) | _ \<Rightarrow> False)"

lemma list_ex_updRows_iff: "list_ex q (updRows p f rows) = list_ex (\<lambda>r. q (if p r then f r else r)) rows"
  by (induction rows) (simp_all add: updRows_def)

lemma useCode_used:
  assumes "filter (\<lambda>x. rc_Code x = code) rows = [c]" and "rc_Status c = StatusUnused"
  shows "\<not> list_ex (\<lambda>c. rc_Code c = code \<and> codeIsUsed c) rows"
    and "list_ex (\<lambda>c. rc_Code c = code \<and> codeIsUsed c) (useCode user now m (rc_ID c) rows)"
proof -
  have all: "x = c" if "x \<in> set rows" "rc_Code x = code" for x
  proof -
    have "x \<in> set (filter (\<lambda>x. rc_Code x = code) rows)" using that by simp
    then show ?thesis by (simp add: assms(1))
  qed
  then show "\<not> list_ex (\<lambda>c. rc_Code c = code \<and> codeIsUsed c) rows"
    using assms(2) by (auto simp: list_ex_iff codeIsUsed_def StatusUnused_def StatusUsed_def)
  have "c \<in> set (filter (\<lambda>x. rc_Code x = code) rows)" by (simp add: assms(1))
  then have "c \<in> set rows" "rc_Code c = code" by simp_all
  then show "list_ex (\<lambda>c. rc_Code c = code \<and> codeIsUsed c) (useCode user now m (rc_ID c) rows)"
    using assms(2) unfolding useCode_def list_ex_updRows_iff unfolding list_ex_iff by (intro bexI [of _ c]) (simp_all add: codeIsUsed_def markUsed_def)
qed

lemma useCode_keeps: "list_ex (\<lambda>c. rc_Code c = k \<and> codeIsUsed c) rows \<Longrightarrow> list_ex (\<lambda>c. rc_Code c = k \<and> codeIsUsed c) (useCode u n m i rows)"
  unfolding useCode_def list_ex_updRows_iff by (auto simp: list_ex_iff markUsed_def codeIsUsed_def)

lemma Redeem_codes:
  "Redeem N user code mode s = (r, s') \<Longrightarrow> rw_codes s' = rw_codes s \<or> (\<exists>m i. rw_codes s' = useCode user (e_now s) m i (rw_codes s))"
proof (erule Redeem_cases)
  fix c usr m and t1 t2 :: "'a redeemstate_scheme"
  assume "redeemPay N user usr c (trimSpace mode) t1 = (Inr (), t2)" "ledger s' = ledger t2"
    "ledger t1 = ledger (s\<lparr>rw_codes := useCode user (e_now s) m (rc_ID c) (rw_codes s)\<rparr>)"
  then show ?thesis using redeemPay_Inr(1) by (fastforce simp: ledger_def)
qed (simp add: ledger_def)

lemma create_keeps_used: "keepsP (usedCode k) (CreateCode N c)" "keepsP (usedCode k) (GenerateCodes N n v ty bytes)"
  unfolding CreateCode_def GenerateCodes_def codeCreateBatch_def codeCreate_def Let_def
  by (intro keeps keeps_db keepsPI; auto simp: usedCode_def)+

lemma delete_keeps_used:
  assumes "usedCode k s" shows "usedCode k (snd (redeemDelete i s))"
proof -
  obtain q s1 where 1: "codeGetByID i s = (q, s1)" by fastforce
  have codes: "rw_codes s1 = rw_codes s" using books_run [OF books_steps(2) 1] by (simp add: ledger_def)
  show ?thesis
  proof (cases "\<exists>c. q = Inr c \<and> \<not> codeIsUsed c")
    case True
    then obtain c where c: "q = Inr c" "\<not> codeIsUsed c" by blast
    have only: "filter (\<lambda>c. rc_ID c = i) (rw_codes s) = [c]"
      using 1 unfolding codeGetByID_def c(1) by (elim db_Inr) (auto simp: onlyRow_def split: list.splits)
    obtain d where d: "d \<in> set (rw_codes s)" "rc_Code d = k" "codeIsUsed d" using assms by (auto simp: usedCode_def list_ex_iff)
    have "rc_ID d \<noteq> i"
    proof
      assume "rc_ID d = i"
      then have "d \<in> set (filter (\<lambda>c. rc_ID c = i) (rw_codes s))" using d by simp
      then show False using only c(2) d(3) by simp
    qed
    moreover have "rw_codes (snd (codeDelete i s1)) = rw_codes s1 \<or> rw_codes (snd (codeDelete i s1)) = filter (\<lambda>c. rc_ID c \<noteq> i) (rw_codes s1)"
      by (auto simp: codeDelete_def db_def modP_def split: list.splits)
    ultimately have "usedCode k (snd (codeDelete i s1))" using codes d by (auto simp: usedCode_def list_ex_iff)
    then show ?thesis using 1 c by (simp add: redeemDelete_def bindP_def)
  next
    case False
    then have "snd (redeemDelete i s) = s1" using 1 by (cases q) (auto simp: redeemDelete_def bindP_def fail_def)
    then show ?thesis using assms codes by (simp add: usedCode_def)
  qed
qed

interpretation redeeming: at_most_once "runRedeemOp N" paysCode usedCode
proof unfold_locales
  fix op and s s' :: "'a redeemstate_scheme" and r k
  assume run: "runRedeemOp N op s = (r, s')" and eff: "paysCode k op r"
  from eff obtain u m where op: "op = DoRedeem u k m" and l: "ledger (snd r) \<noteq> ledger (fst r)"
    by (auto simp: paysCode_def split: redeemOp.splits)
  obtain q where R: "Redeem N u k m s = (q, s')" using run op by (metis prod.collapse runRedeemOp.simps(1) snd_conv)
  have ne: "ledger s' \<noteq> ledger s" using l run op by auto
  show "\<not> usedCode k s \<and> usedCode k s'"
    using R
  proof (cases rule: Redeem_cases)
    case (paid c usr md t1 t2)
    have "rw_codes s' = useCode u (e_now s) md (rc_ID c) (rw_codes s)"
      using paid(4,6) redeemPay_Inr(1) [OF paid(5)] by (simp add: ledger_def)
    then show ?thesis using useCode_used [OF paid(1,2)] by (simp add: usedCode_def)
  qed (use ne in simp)
next
  fix op and s s' :: "'a redeemstate_scheme" and r k
  assume run: "runRedeemOp N op s = (r, s')" and cl: "usedCode k s"
  show "usedCode k s'"
  proof (cases op)
    case (DoRedeem u c m)
    obtain q where "Redeem N u c m s = (q, s')" using run DoRedeem by (metis prod.collapse runRedeemOp.simps(1) snd_conv)
    from Redeem_codes [OF this] show ?thesis using cl useCode_keeps by (auto simp: usedCode_def)
  qed (use run cl keepsPD [OF create_keeps_used(1)] keepsPD [OF create_keeps_used(2)] delete_keeps_used in \<open>auto simp: usedCode_def\<close>)
qed


end
