(* ===== verification/PaymentOrders.thy ===== *)
theory PaymentOrders
  imports RedeemOnce
begin

section \<open>Payment orders\<close>

text \<open>
  The tables of service/payment_*.go: orders (ent/schema/payment_order.go), the audit log and the
  promotion usages, with what the fulfilment code does to them.  \<open>bw_orderStatus\<close>, which the
  billing transaction joins with, is the status column of the orders.  What the referral and
  sales commission services are told is the list \<open>pw_rewards\<close>; what they then do is not part
  of this model.  The JSON details of an audit row, log lines and the timeouts of contexts are left
  out; a failure reason is the error itself.
\<close>

definition OrderStatusPending :: string where "OrderStatusPending = ''PENDING''"
definition OrderStatusPaid :: string where "OrderStatusPaid = ''PAID''"
definition OrderStatusRecharging :: string where "OrderStatusRecharging = ''RECHARGING''"
definition OrderStatusCompleted :: string where "OrderStatusCompleted = ''COMPLETED''"
definition OrderStatusExpired :: string where "OrderStatusExpired = ''EXPIRED''"
definition OrderStatusCancelled :: string where "OrderStatusCancelled = ''CANCELLED''"
definition OrderStatusFailed :: string where "OrderStatusFailed = ''FAILED''"
definition OrderStatusRefundRequested :: string where "OrderStatusRefundRequested = ''REFUND_REQUESTED''"
definition OrderStatusRefunding :: string where "OrderStatusRefunding = ''REFUNDING''"
definition OrderStatusPartiallyRefunded :: string where "OrderStatusPartiallyRefunded = ''PARTIALLY_REFUNDED''"
definition OrderStatusRefunded :: string where "OrderStatusRefunded = ''REFUNDED''"
definition OrderStatusRefundFailed :: string where "OrderStatusRefundFailed = ''REFUND_FAILED''"

lemmas order_statuses = OrderStatusPending_def OrderStatusPaid_def OrderStatusRecharging_def OrderStatusCompleted_def
  OrderStatusExpired_def OrderStatusCancelled_def OrderStatusFailed_def OrderStatusRefundRequested_def
  OrderStatusRefunding_def OrderStatusPartiallyRefunded_def OrderStatusRefunded_def OrderStatusRefundFailed_def

definition OrderTypeBalance :: string where "OrderTypeBalance = ''balance''"
definition OrderTypeSubscription :: string where "OrderTypeSubscription = ''subscription''"

definition amountToleranceCNY :: f64 where "amountToleranceCNY = fl (1 / 100)"
definition paymentGraceMinutes :: int where "paymentGraceMinutes = 5"

record PaymentOrder =
  po_ID :: int
  po_UserID :: int
  po_Amount :: f64
  po_PayAmount :: f64
  po_RechargeCode :: string
  po_OutTradeNo :: string
  po_PaymentType :: string
  po_PaymentTradeNo :: string
  po_OrderType :: string
  po_PlanID :: "int option"
  po_SubscriptionGroupID :: "int option"
  po_SubscriptionDays :: "int option"
  po_SubscriptionMode :: "string option"
  po_ProviderInstanceID :: "string option"
  po_Status :: string
  po_PromotionID :: "int option"
  po_PromotionRuleID :: "int option"
  po_DiscountAmount :: f64
  po_BonusAmount :: f64
  po_RefundAmount :: f64
  po_RefundReason :: "string option"
  po_RefundAt :: "int option"
  po_ForceRefund :: bool
  po_RefundRequestedAt :: "int option"
  po_RefundRequestReason :: "string option"
  po_RefundRequestedBy :: "string option"
  po_ExpiresAt :: int
  po_PaidAt :: "int option"
  po_CompletedAt :: "int option"
  po_FailedAt :: "int option"
  po_FailedReason :: "err option"
  po_UpdatedAt :: int
  po_CreatedAt :: int

record audit_row =
  al_order :: int
  al_action :: string
  al_operator :: string
  al_created :: int

record PromotionUsage =
  pu_PromotionID :: int
  pu_UserID :: int
  pu_OrderID :: int
  pu_PlanID :: "int option"
  pu_DiscountAmount :: f64
  pu_BonusAmount :: f64
  pu_UsedAt :: int

datatype rewardCall =
    InviterFirstRecharge int f64
  | InviteeFirstRecharge int f64 int
  | OngoingRecharge int f64 int bool
  | SalesCommission PaymentOrder

record paystate = redeemstate +
  pw_orders :: "PaymentOrder list"
  pw_nextOrder :: int
  pw_audit :: "audit_row list"
  pw_promoUsages :: "PromotionUsage list"
  pw_rewards :: "rewardCall list"

definition orderStatusOf :: "PaymentOrder list \<Rightarrow> int \<rightharpoonup> string" where
  "orderStatusOf os i = map_option po_Status (find (\<lambda>x. po_ID x = i) os)"

definition setOrders :: "PaymentOrder list \<Rightarrow> 'a paystate_scheme \<Rightarrow> 'a paystate_scheme" where
  "setOrders os s = s\<lparr>pw_orders := os, bw_orderStatus := orderStatusOf os\<rparr>"

subsection \<open>The order table\<close>

definition ErrOrderNotFound :: err where "ErrOrderNotFound = AppErr ''NOT_FOUND''"
definition ErrOrderForbidden :: err where "ErrOrderForbidden = AppErr ''FORBIDDEN''"
definition ErrInvalidStatus :: err where "ErrInvalidStatus = AppErr ''INVALID_STATUS''"
definition ErrConflict :: err where "ErrConflict = AppErr ''CONFLICT''"

definition orderGet :: "int \<Rightarrow> ('a paystate_scheme, PaymentOrder) proc" where
  "orderGet i = db ''get order'' (\<lambda>s. (onlyRow (Internal ''order not found'') (\<lambda>x. po_ID x = i) (pw_orders s), s))"

definition orderByOutTradeNo :: "string \<Rightarrow> ('a paystate_scheme, PaymentOrder) proc" where
  "orderByOutTradeNo no = db ''get order'' (\<lambda>s. (onlyRow (Internal ''order not found'') (\<lambda>x. po_OutTradeNo x = no) (pw_orders s), s))"

text \<open>UPDATE ... WHERE: the number of rows changed; updated_at moves with every update.\<close>

definition ordersUpdate :: "(PaymentOrder \<Rightarrow> bool) \<Rightarrow> (PaymentOrder \<Rightarrow> PaymentOrder) \<Rightarrow> ('a paystate_scheme, nat) proc" where
  "ordersUpdate p f = db ''update orders'' (\<lambda>s.
     (Inr (length (filter p (pw_orders s))), setOrders (updRows p (\<lambda>x. (f x)\<lparr>po_UpdatedAt := e_now s\<rparr>) (pw_orders s)) s))"

text \<open>UpdateOneID fails when the row is missing.\<close>

definition orderUpdateOne :: "int \<Rightarrow> (PaymentOrder \<Rightarrow> PaymentOrder) \<Rightarrow> ('a paystate_scheme, unit) proc" where
  "orderUpdateOne i f = db ''update order'' (\<lambda>s.
     if list_ex (\<lambda>x. po_ID x = i) (pw_orders s)
     then (Inr (), setOrders (updRows (\<lambda>x. po_ID x = i) (\<lambda>x. (f x)\<lparr>po_UpdatedAt := e_now s\<rparr>) (pw_orders s)) s)
     else (Inl (Internal ''order not found''), s))"

text \<open>INSERT: the row gets the next id; the amounts are columns of two decimals.\<close>

definition orderCreate :: "pgnum \<Rightarrow> PaymentOrder \<Rightarrow> ('a paystate_scheme, PaymentOrder) proc" where
  "orderCreate N o' = db ''create order'' (\<lambda>s.
     if 64 < length (po_RechargeCode o') \<or> 64 < length (po_OutTradeNo o') \<or> 30 < length (po_PaymentType o')
     then (Inl (Internal ''validator failed''), s)
     else let made = o'\<lparr>po_ID := pw_nextOrder s, po_UpdatedAt := e_now s, po_CreatedAt := e_now s\<rparr>;
              row = made\<lparr>po_Amount := n_store2 N (po_Amount o'), po_PayAmount := n_store2 N (po_PayAmount o'),
                po_DiscountAmount := n_store2 N (po_DiscountAmount o'), po_BonusAmount := n_store2 N (po_BonusAmount o')\<rparr>
          in (Inr made, (setOrders (pw_orders s @ [row]) s)\<lparr>pw_nextOrder := pw_nextOrder s + 1\<rparr>))"

definition psIsRefundStatus :: "string \<Rightarrow> bool" where
  "psIsRefundStatus st \<longleftrightarrow> st \<in> {OrderStatusRefundRequested, OrderStatusRefunding, OrderStatusPartiallyRefunded,
     OrderStatusRefunded, OrderStatusRefundFailed}"

subsection \<open>The audit log\<close>

text \<open>A failed insert is only logged; a failed count is zero.\<close>

definition writeAuditLog :: "int \<Rightarrow> string \<Rightarrow> string \<Rightarrow> ('a paystate_scheme, unit) proc" where
  "writeAuditLog i action operator = ignoreP (db ''insert audit'' (modP (\<lambda>s.
     s\<lparr>pw_audit := pw_audit s @ [\<lparr>al_order = i, al_action = action, al_operator = operator, al_created = e_now s\<rparr>]\<rparr>)))"

definition hasAuditLog :: "int \<Rightarrow> string \<Rightarrow> ('a paystate_scheme, bool) proc" where
  "hasAuditLog i action = tryP (db ''count audit'' (getP (\<lambda>s. list_ex (\<lambda>a. al_order a = i \<and> al_action a = action) (pw_audit s))))
     (\<lambda>_. ret False) ret"

end
