(* ===== verification/PaymentFulfillment.thy ===== *)
theory PaymentFulfillment
  imports PaymentOrders
begin

section \<open>Payment notifications and fulfilment\<close>

text \<open>
  service/payment_fulfillment.go.  A verified notification marks its order paid and fulfils it: a
  balance order by creating and redeeming a code of its amount, a subscription order by assigning,
  extending or stacking.  \<open>N\<close> are the numeric operations of the database.
\<close>

record PaymentNotification =
  n_TradeNo :: string
  n_OrderID :: string
  n_Amount :: f64
  n_Status :: string

subsection \<open>Completion and failure\<close>

definition recordPromotionUsage :: "PaymentOrder \<Rightarrow> int \<Rightarrow> ('a paystate_scheme, unit) proc" where
  "recordPromotionUsage o' now = (case po_PromotionID o' of
       None \<Rightarrow> ret ()
     | Some pid \<Rightarrow>
         tryP (db ''count usages'' (getP (\<lambda>s. list_ex (\<lambda>u. pu_OrderID u = po_ID o') (pw_promoUsages s)))) (\<lambda>_. ret ()) (\<lambda>already.
         if already then ret ()
         else tryP (db ''insert usage'' (modP (\<lambda>s. s\<lparr>pw_promoUsages := pw_promoUsages s @
                [\<lparr>pu_PromotionID = pid, pu_UserID = po_UserID o', pu_OrderID = po_ID o', pu_PlanID = po_PlanID o',
                  pu_DiscountAmount = po_DiscountAmount o', pu_BonusAmount = po_BonusAmount o', pu_UsedAt = now\<rparr>]\<rparr>)))
              (\<lambda>_. ret ()) (\<lambda>_. writeAuditLog (po_ID o') ''PROMO_APPLIED'' ''system'')))"

definition markCompleted :: "PaymentOrder \<Rightarrow> string \<Rightarrow> ('a paystate_scheme, unit) proc" where
  "markCompleted o' auditAction =
     bindP nowP (\<lambda>now.
     bindP (ordersUpdate (\<lambda>x. po_ID x = po_ID o' \<and> po_Status x = OrderStatusRecharging)
              (\<lambda>x. x\<lparr>po_Status := OrderStatusCompleted, po_CompletedAt := Some now\<rparr>)) (\<lambda>_.
     bindP (writeAuditLog (po_ID o') auditAction ''system'') (\<lambda>_.
     recordPromotionUsage o' now)))"

definition markFailed :: "int \<Rightarrow> err \<Rightarrow> ('a paystate_scheme, unit) proc" where
  "markFailed oid cause =
     bindP nowP (\<lambda>now.
     tryP (ordersUpdate (\<lambda>x. po_ID x = oid \<and> po_Status x = OrderStatusRecharging)
              (\<lambda>x. x\<lparr>po_Status := OrderStatusFailed, po_FailedAt := Some now, po_FailedReason := Some cause\<rparr>))
       (\<lambda>_. ret ())
       (\<lambda>c. if 0 < c then writeAuditLog oid ''FULFILLMENT_FAILED'' ''system'' else ret ()))"

subsection \<open>Rewards\<close>

definition reward :: "rewardCall \<Rightarrow> ('a paystate_scheme, unit) proc" where
  "reward r = modP (\<lambda>s. s\<lparr>pw_rewards := pw_rewards s @ [r]\<rparr>)"

definition handleSalesCommissionAfterBalanceCompleted :: "PaymentOrder \<Rightarrow> ('a paystate_scheme, unit) proc" where
  "handleSalesCommissionAfterBalanceCompleted o' = reward (SalesCommission (o'\<lparr>po_Status := OrderStatusCompleted\<rparr>))"

definition handleBalanceRechargeRewards :: "PaymentOrder \<Rightarrow> bool \<Rightarrow> ('a paystate_scheme, unit) proc" where
  "handleBalanceRechargeRewards o' isFirst =
     bindP (if isFirst
            then bindP (reward (InviterFirstRecharge (po_UserID o') (po_Amount o')))
                   (\<lambda>_. reward (InviteeFirstRecharge (po_UserID o') (po_Amount o') (po_ID o')))
            else ret ()) (\<lambda>_.
     bindP (reward (OngoingRecharge (po_UserID o') (po_Amount o') (po_ID o') isFirst)) (\<lambda>_.
     handleSalesCommissionAfterBalanceCompleted o'))"

subsection \<open>Balance orders\<close>

datatype redeemAction = RedeemActionCreate | RedeemActionRedeem | RedeemActionSkipCompleted

definition resolveRedeemAction :: "err + RedeemCode \<Rightarrow> redeemAction" where
  "resolveRedeemAction r = (case r of
       Inl _ \<Rightarrow> RedeemActionCreate
     | Inr c \<Rightarrow> if codeIsUsed c then RedeemActionSkipCompleted else RedeemActionRedeem)"

definition doBalance :: "pgnum \<Rightarrow> PaymentOrder \<Rightarrow> ('a paystate_scheme, unit) proc" where
  "doBalance N o' =
     bindP (tryP (GetByCode (po_RechargeCode o')) (\<lambda>e. ret (Inl e)) (\<lambda>c. ret (Inr c))) (\<lambda>existing.
     case resolveRedeemAction existing of
       RedeemActionSkipCompleted \<Rightarrow>
         bindP (markCompleted o' ''RECHARGE_SUCCESS'') (\<lambda>_. handleBalanceRechargeRewards o' False)
     | action \<Rightarrow>
         bindP (if action = RedeemActionCreate
                then bindP (CreateCode N (blankCode\<lparr>rc_Code := po_RechargeCode o', rc_Type := RedeemTypeBalance,
                        rc_Value := po_Amount o', rc_Status := StatusUnused\<rparr>)) (\<lambda>_. ret ())
                else ret ()) (\<lambda>_.
         bindP (tryP (IsFirstRecharge (po_UserID o')) (\<lambda>_. ret False) ret) (\<lambda>isFirst.
         bindP (Redeem N (po_UserID o') (po_RechargeCode o') []) (\<lambda>_.
         bindP (markCompleted o' ''RECHARGE_SUCCESS'') (\<lambda>_.
         handleBalanceRechargeRewards o' isFirst)))))"

text \<open>Taking the order for fulfilment; \<open>False\<close> when another call already has it.\<close>

definition lockOrder :: "int \<Rightarrow> ('a paystate_scheme, bool) proc" where
  "lockOrder oid = bindP (ordersUpdate (\<lambda>x. po_ID x = oid \<and> po_Status x \<in> {OrderStatusPaid, OrderStatusFailed})
       (\<lambda>x. x\<lparr>po_Status := OrderStatusRecharging\<rparr>)) (\<lambda>c. ret (0 < c))"

definition orFailed :: "int \<Rightarrow> ('a paystate_scheme, unit) proc \<Rightarrow> ('a paystate_scheme, unit) proc" where
  "orFailed oid m = tryP m (\<lambda>e. bindP (markFailed oid e) (\<lambda>_. fail e)) ret"

definition ExecuteBalanceFulfillment :: "pgnum \<Rightarrow> int \<Rightarrow> ('a paystate_scheme, unit) proc" where
  "ExecuteBalanceFulfillment N oid =
     tryP (orderGet oid) (\<lambda>_. fail ErrOrderNotFound) (\<lambda>o'.
     if po_Status o' = OrderStatusCompleted then handleBalanceRechargeRewards o' False
     else if psIsRefundStatus (po_Status o') then fail ErrInvalidStatus
     else if po_Status o' \<noteq> OrderStatusPaid \<and> po_Status o' \<noteq> OrderStatusFailed then fail ErrInvalidStatus
     else bindP (lockOrder oid) (\<lambda>locked. if \<not> locked then ret () else orFailed oid (doBalance N o')))"

subsection \<open>Subscription orders\<close>

definition orderNote :: "PaymentOrder \<Rightarrow> string" where
  "orderNote o' = ''payment order '' @ itoa (po_ID o')"

text \<open>The group must exist and be active.  The two pointers were checked by the caller.\<close>

definition doSub :: "pgnum \<Rightarrow> PaymentOrder \<Rightarrow> int \<Rightarrow> int \<Rightarrow> ('a paystate_scheme, unit) proc" where
  "doSub N o' gid days =
     tryP (groupGetByID gid) (\<lambda>_. fail (Internal ''group no longer exists or inactive'')) (\<lambda>g.
     if g_Status g \<noteq> ''active'' then fail (Internal ''group no longer exists or inactive'')
     else bindP (hasAuditLog (po_ID o') ''SUBSCRIPTION_SUCCESS'') (\<lambda>already.
     if already then markCompleted o' ''SUBSCRIPTION_SUCCESS''
     else let mode = case_option [] id (po_SubscriptionMode o') in
       bindP (if mode = SubscriptionModeExtend \<or> mode = SubscriptionModeStack
              then bindP (ApplyRedeemSubscription N False \<lparr>ri_UserID = po_UserID o', ri_GroupID = gid, ri_ValidityDays = days,
                      ri_Mode = mode, ri_Notes = orderNote o'\<rparr>) (\<lambda>_. ret ())
              else bindP (AssignOrExtendSubscription N False \<lparr>ai_UserID = po_UserID o', ai_GroupID = gid, ai_ValidityDays = days,
                      ai_AssignedBy = 0, ai_Notes = orderNote o'\<rparr>) (\<lambda>_. ret ())) (\<lambda>_.
       markCompleted o' ''SUBSCRIPTION_SUCCESS'')))"

definition ExecuteSubscriptionFulfillment :: "pgnum \<Rightarrow> int \<Rightarrow> ('a paystate_scheme, unit) proc" where
  "ExecuteSubscriptionFulfillment N oid =
     tryP (orderGet oid) (\<lambda>_. fail ErrOrderNotFound) (\<lambda>o'.
     if po_Status o' = OrderStatusCompleted then ret ()
     else if psIsRefundStatus (po_Status o') then fail ErrInvalidStatus
     else if po_Status o' \<noteq> OrderStatusPaid \<and> po_Status o' \<noteq> OrderStatusFailed then fail ErrInvalidStatus
     else (case (po_SubscriptionGroupID o', po_SubscriptionDays o') of
         (Some gid, Some days) \<Rightarrow>
           bindP (lockOrder oid) (\<lambda>locked. if \<not> locked then ret () else orFailed oid (doSub N o' gid days))
       | _ \<Rightarrow> fail ErrInvalidStatus))"

definition executeFulfillment :: "pgnum \<Rightarrow> int \<Rightarrow> ('a paystate_scheme, unit) proc" where
  "executeFulfillment N oid =
     bindP (orderGet oid) (\<lambda>o'.
     if po_OrderType o' = OrderTypeSubscription then ExecuteSubscriptionFulfillment N oid
     else ExecuteBalanceFulfillment N oid)"

subsection \<open>Notifications\<close>

definition alreadyProcessed :: "pgnum \<Rightarrow> PaymentOrder \<Rightarrow> ('a paystate_scheme, unit) proc" where
  "alreadyProcessed N o' =
     tryP (orderGet (po_ID o')) (\<lambda>_. ret ()) (\<lambda>cur.
     if po_Status cur = OrderStatusCompleted \<or> po_Status cur = OrderStatusRefunded then ret ()
     else if po_Status cur = OrderStatusFailed then executeFulfillment N (po_ID o')
     else if po_Status cur = OrderStatusPaid \<or> po_Status cur = OrderStatusRecharging then fail (Internal ''order is being processed'')
     else if po_Status cur = OrderStatusExpired then writeAuditLog (po_ID o') ''PAYMENT_AFTER_EXPIRY'' ''system''
     else ret ())"

definition payableNow :: "int \<Rightarrow> PaymentOrder \<Rightarrow> bool" where
  "payableNow now x \<longleftrightarrow> po_Status x = OrderStatusPending \<or> po_Status x = OrderStatusCancelled
     \<or> (po_Status x = OrderStatusExpired \<and> now - paymentGraceMinutes * 60 * second \<le> po_UpdatedAt x)"

definition toPaid :: "pgnum \<Rightarrow> PaymentOrder \<Rightarrow> string \<Rightarrow> f64 \<Rightarrow> string \<Rightarrow> ('a paystate_scheme, unit) proc" where
  "toPaid N o' tradeNo paid pk =
    (if 128 < length tradeNo then fail (Internal ''validator failed'')
     else bindP nowP (\<lambda>now.
     bindP (ordersUpdate (\<lambda>x. po_ID x = po_ID o' \<and> payableNow now x)
              (\<lambda>x. x\<lparr>po_Status := OrderStatusPaid, po_PayAmount := n_store2 N paid, po_PaymentTradeNo := tradeNo,
                     po_PaidAt := Some now, po_FailedAt := None, po_FailedReason := None\<rparr>)) (\<lambda>c.
     if c = 0 then alreadyProcessed N o'
     else bindP (if po_Status o' = OrderStatusCancelled \<or> po_Status o' = OrderStatusExpired
                 then writeAuditLog (po_ID o') ''ORDER_RECOVERED'' pk else ret ()) (\<lambda>_.
          bindP (writeAuditLog (po_ID o') ''ORDER_PAID'' pk) (\<lambda>_.
          executeFulfillment N (po_ID o'))))))"

definition reported :: "f64 \<Rightarrow> bool" where
  "reported paid \<longleftrightarrow> flt (Fin 0) paid \<and> paid \<noteq> PInf"

text \<open>An order that cannot be read is acknowledged: the notification is not an error.\<close>

definition confirmPayment :: "pgnum \<Rightarrow> int \<Rightarrow> string \<Rightarrow> f64 \<Rightarrow> string \<Rightarrow> ('a paystate_scheme, unit) proc" where
  "confirmPayment N oid tradeNo paid pk =
     tryP (orderGet oid) (\<lambda>_. ret ()) (\<lambda>o'.
     if reported paid \<and> flt amountToleranceCNY (fabs (fsub paid (po_PayAmount o')))
     then bindP (writeAuditLog (po_ID o') ''PAYMENT_AMOUNT_MISMATCH'' pk) (\<lambda>_. fail (Internal ''amount mismatch''))
     else toPaid N o' tradeNo (if reported paid then paid else po_PayAmount o') pk)"

definition HandlePaymentNotification :: "pgnum \<Rightarrow> PaymentNotification \<Rightarrow> string \<Rightarrow> ('a paystate_scheme, unit) proc" where
  "HandlePaymentNotification N n pk =
    (if n_Status n \<noteq> ''success'' then ret ()
     else tryP (orderByOutTradeNo (n_OrderID n))
       (\<lambda>_. case parseInt (trimPrefix (n_OrderID n) ''sub2_'') of
          Some oid \<Rightarrow> confirmPayment N oid (n_TradeNo n) (n_Amount n) pk
        | None \<Rightarrow> fail (Internal ''order not found for out_trade_no''))
       (\<lambda>o'. confirmPayment N (po_ID o') (n_TradeNo n) (n_Amount n) pk))"

definition RetryFulfillment :: "pgnum \<Rightarrow> int \<Rightarrow> ('a paystate_scheme, unit) proc" where
  "RetryFulfillment N oid =
     tryP (orderGet oid) (\<lambda>_. fail ErrOrderNotFound) (\<lambda>o'.
     if po_Status o' = OrderStatusCompleted
     then if po_OrderType o' \<noteq> OrderTypeBalance then fail ErrInvalidStatus
          else bindP (writeAuditLog oid ''RECHARGE_RETRY'' ''admin'') (\<lambda>_. executeFulfillment N oid)
     else if po_PaidAt o' = None then fail ErrInvalidStatus
     else if psIsRefundStatus (po_Status o') then fail ErrInvalidStatus
     else if po_Status o' = OrderStatusRecharging then fail ErrConflict
     else if po_Status o' \<noteq> OrderStatusFailed \<and> po_Status o' \<noteq> OrderStatusPaid then fail ErrInvalidStatus
     else bindP (ordersUpdate (\<lambda>x. po_ID x = oid \<and> po_Status x \<in> {OrderStatusFailed, OrderStatusPaid})
              (\<lambda>x. x\<lparr>po_Status := OrderStatusPaid, po_FailedAt := None, po_FailedReason := None\<rparr>)) (\<lambda>_.
          bindP (writeAuditLog oid ''RECHARGE_RETRY'' ''admin'') (\<lambda>_. executeFulfillment N oid)))"

subsection \<open>Offline recharges\<close>

record OfflineRechargeRequest =
  or_UserID :: int
  or_PayAmountCNY :: f64
  or_CreditedAmount :: f64
  or_CreditBalance :: bool

text \<open>generateOutTradeNo's date and random characters are the argument \<open>stamp\<close>.\<close>

definition offlineOrder :: "OfflineRechargeRequest \<Rightarrow> string \<Rightarrow> int \<Rightarrow> PaymentOrder" where
  "offlineOrder req stamp now =
    (let no = ''offline_'' @ stamp in
     \<lparr>po_ID = 0, po_UserID = or_UserID req, po_Amount = or_CreditedAmount req, po_PayAmount = or_PayAmountCNY req,
      po_RechargeCode = ''OFFLINE-'' @ no, po_OutTradeNo = no, po_PaymentType = ''offline'', po_PaymentTradeNo = [],
      po_OrderType = OrderTypeBalance, po_PlanID = None, po_SubscriptionGroupID = None, po_SubscriptionDays = None,
      po_SubscriptionMode = None, po_ProviderInstanceID = None, po_Status = OrderStatusCompleted, po_PromotionID = None,
      po_PromotionRuleID = None, po_DiscountAmount = Fin 0, po_BonusAmount = Fin 0, po_RefundAmount = Fin 0,
      po_RefundReason = None, po_RefundAt = None, po_ForceRefund = False, po_RefundRequestedAt = None,
      po_RefundRequestReason = None, po_RefundRequestedBy = None, po_ExpiresAt = now, po_PaidAt = Some now,
      po_CompletedAt = Some now, po_FailedAt = None, po_FailedReason = None, po_UpdatedAt = now, po_CreatedAt = now\<rparr>)"

definition CreateOfflineRechargeOrder :: "pgnum \<Rightarrow> OfflineRechargeRequest \<Rightarrow> string \<Rightarrow> ('a paystate_scheme, int) proc" where
  "CreateOfflineRechargeOrder N req stamp =
     bindP (userGetByID (or_UserID req)) (\<lambda>_.
     bindP nowP (\<lambda>now.
     bindP (orderCreate N (offlineOrder req stamp now)) (\<lambda>o'.
     bindP (if or_CreditBalance req then UpdateBalance N (or_UserID req) (or_CreditedAmount req) else ret ()) (\<lambda>_.
     bindP (writeAuditLog (po_ID o') ''OFFLINE_RECHARGE_COMPLETED'' ''admin'') (\<lambda>_.
     ret (po_ID o'))))))"

end
