(* ===== verification/PaymentLifecycle.thy ===== *)
theory PaymentLifecycle
  imports PaymentFulfillment
begin

section \<open>Cancelling, expiring, verifying and refunding orders\<close>

text \<open>
  service/payment_order_lifecycle.go, service/payment_refund.go and service/payment_amounts.go.
  The payment providers are outside the repository: \<open>G\<close> has, per provider instance id, its two refund flags and
  the provider built from its configuration, and the registry's provider per payment type; a provider answers a
  query or a refund by a function of the time and the request.
\<close>

record provider =
  pv_key :: string
  pv_query :: "int \<Rightarrow> string \<Rightarrow> err + string \<times> f64"
  pv_refund :: "int \<Rightarrow> string \<Rightarrow> string \<Rightarrow> string \<Rightarrow> string \<Rightarrow> err option"

record gateways =
  gw_flags :: "int \<Rightarrow> (bool \<times> bool) option"
  gw_instance :: "int \<Rightarrow> provider option"
  gw_registry :: "string \<Rightarrow> provider option"

definition getOrderProvider :: "gateways \<Rightarrow> PaymentOrder \<Rightarrow> provider option" where
  "getOrderProvider G o' =
    (case Option.bind (po_ProviderInstanceID o') (\<lambda>i. if i = [] then None else Option.bind (parseInt i) (gw_instance G)) of
       Some p \<Rightarrow> Some p
     | None \<Rightarrow> gw_registry G (po_PaymentType o'))"

subsection \<open>Cancel and expire\<close>

record cancelConfig =
  cc_Enabled :: bool
  cc_Max :: int
  cc_Window :: int
  cc_Unit :: string
  cc_Mode :: string

text \<open>time.Truncate rounds down since Go's zero time, which is a whole number of hours.\<close>

definition cancelRateLimitWindowStart :: "int \<Rightarrow> int \<Rightarrow> cancelConfig \<Rightarrow> int" where
  "cancelRateLimitWindowStart zone now cfg =
    (let w = (if cc_Window cfg \<le> 0 then 1 else cc_Window cfg);
         unit = (if cc_Unit cfg = [] then ''day'' else cc_Unit cfg);
         minute = 60 * second
     in if cc_Mode cfg = ''fixed''
        then if unit = ''minute'' then now - now mod minute - (w - 1) * minute
             else if unit = ''day'' then addDays (startOfDayIn zone now) (- (w - 1))
             else now - now mod hour - (w - 1) * hour
        else if unit = ''minute'' then now - w * minute
             else if unit = ''day'' then addDays now (- w)
             else now - w * hour)"

definition userOperator :: "int \<Rightarrow> string" where
  "userOperator user = ''user:'' @ itoa user"

definition ErrCancelRateLimited :: err where "ErrCancelRateLimited = AppErr ''CANCEL_RATE_LIMITED''"

definition checkCancelRateLimit :: "int \<Rightarrow> cancelConfig \<Rightarrow> ('a paystate_scheme, unit) proc" where
  "checkCancelRateLimit user cfg =
    (if \<not> cc_Enabled cfg \<or> cc_Max cfg \<le> 0 then ret ()
     else bindP (getP (\<lambda>s. cancelRateLimitWindowStart (ss_zone s) (e_now s) cfg)) (\<lambda>start.
       tryP (db ''count audit'' (getP (\<lambda>s. int (length (filter (\<lambda>a. al_action a = ''ORDER_CANCELLED''
               \<and> al_operator a = userOperator user \<and> start \<le> al_created a) (pw_audit s))))))
         (\<lambda>_. ret ()) (\<lambda>n. if cc_Max cfg \<le> n then fail ErrCancelRateLimited else ret ())))"

text \<open>Asks the provider; \<open>True\<close> is already_paid, whatever became of the fulfilment.\<close>

definition checkPaid :: "pgnum \<Rightarrow> gateways \<Rightarrow> PaymentOrder \<Rightarrow> ('a paystate_scheme, bool) proc" where
  "checkPaid N G o' = (case getOrderProvider G o' of
       None \<Rightarrow> ret False
     | Some p \<Rightarrow>
         let tradeNo = (if po_PaymentTradeNo o' = [] then po_OutTradeNo o' else po_PaymentTradeNo o') in
         bindP nowP (\<lambda>now. case pv_query p now tradeNo of
           Inl _ \<Rightarrow> ret False
         | Inr (status, amount) \<Rightarrow>
             if status = ''paid''
             then bindP (ignoreP (HandlePaymentNotification N \<lparr>n_TradeNo = po_PaymentTradeNo o', n_OrderID = po_OutTradeNo o',
                      n_Amount = amount, n_Status = ''success''\<rparr> (pv_key p))) (\<lambda>_. ret True)
             else ret False))"

text \<open>The result is whether the order turned out to be paid.\<close>

definition cancelCore :: "pgnum \<Rightarrow> gateways \<Rightarrow> PaymentOrder \<Rightarrow> string \<Rightarrow> string \<Rightarrow> ('a paystate_scheme, bool) proc" where
  "cancelCore N G o' final operator =
     bindP (if po_PaymentTradeNo o' \<noteq> [] \<or> po_PaymentType o' \<noteq> [] then checkPaid N G o' else ret False) (\<lambda>paid.
     if paid then ret True
     else bindP (ordersUpdate (\<lambda>x. po_ID x = po_ID o' \<and> po_Status x = OrderStatusPending) (\<lambda>x. x\<lparr>po_Status := final\<rparr>)) (\<lambda>c.
          bindP (if 0 < c
                 then writeAuditLog (po_ID o') (if final = OrderStatusExpired then ''ORDER_EXPIRED'' else ''ORDER_CANCELLED'') operator
                 else ret ()) (\<lambda>_. ret False)))"

definition CancelOrder :: "pgnum \<Rightarrow> gateways \<Rightarrow> int \<Rightarrow> int \<Rightarrow> ('a paystate_scheme, bool) proc" where
  "CancelOrder N G oid user =
     tryP (orderGet oid) (\<lambda>_. fail ErrOrderNotFound) (\<lambda>o'.
     if po_UserID o' \<noteq> user then fail ErrOrderForbidden
     else if po_Status o' \<noteq> OrderStatusPending then fail ErrInvalidStatus
     else cancelCore N G o' OrderStatusCancelled (userOperator user))"

definition AdminCancelOrder :: "pgnum \<Rightarrow> gateways \<Rightarrow> int \<Rightarrow> ('a paystate_scheme, bool) proc" where
  "AdminCancelOrder N G oid =
     tryP (orderGet oid) (\<lambda>_. fail ErrOrderNotFound) (\<lambda>o'.
     if po_Status o' \<noteq> OrderStatusPending then fail ErrInvalidStatus
     else cancelCore N G o' OrderStatusCancelled ''admin'')"

definition verifyLoaded :: "pgnum \<Rightarrow> gateways \<Rightarrow> PaymentOrder \<Rightarrow> ('a paystate_scheme, PaymentOrder) proc" where
  "verifyLoaded N G o' =
    (if po_Status o' = OrderStatusPending \<or> po_Status o' = OrderStatusExpired
     then bindP (checkPaid N G o') (\<lambda>paid. if paid then orderGet (po_ID o') else ret o')
     else ret o')"

definition VerifyOrderByOutTradeNo :: "pgnum \<Rightarrow> gateways \<Rightarrow> string \<Rightarrow> int \<Rightarrow> ('a paystate_scheme, PaymentOrder) proc" where
  "VerifyOrderByOutTradeNo N G no user =
     tryP (orderByOutTradeNo no) (\<lambda>_. fail ErrOrderNotFound) (\<lambda>o'.
     if po_UserID o' \<noteq> user then fail ErrOrderForbidden else verifyLoaded N G o')"

definition VerifyOrderPublic :: "pgnum \<Rightarrow> gateways \<Rightarrow> string \<Rightarrow> ('a paystate_scheme, PaymentOrder) proc" where
  "VerifyOrderPublic N G no = tryP (orderByOutTradeNo no) (\<lambda>_. fail ErrOrderNotFound) (verifyLoaded N G)"

fun expireLoop :: "pgnum \<Rightarrow> gateways \<Rightarrow> PaymentOrder list \<Rightarrow> nat \<Rightarrow> ('a paystate_scheme, nat) proc" where
  "expireLoop N G [] n = ret n"
| "expireLoop N G (x # xs) n =
     tryP (cancelCore N G x OrderStatusExpired ''system'') (\<lambda>_. expireLoop N G xs n)
       (\<lambda>paid. expireLoop N G xs (if paid then n else n + 1))"

definition ExpireTimedOutOrders :: "pgnum \<Rightarrow> gateways \<Rightarrow> ('a paystate_scheme, nat) proc" where
  "ExpireTimedOutOrders N G =
     bindP (db ''list timed out orders'' (getP (\<lambda>s.
         filter (\<lambda>x. po_Status x = OrderStatusPending \<and> po_ExpiresAt x \<le> e_now s) (pw_orders s))))
       (\<lambda>xs. expireLoop N G xs 0)"

subsection \<open>Amounts\<close>

definition normalizeBalanceRechargeMultiplier :: "f64 \<Rightarrow> f64" where
  "normalizeBalanceRechargeMultiplier m = (if reported m then m else Fin 1)"

definition calculateCreditedBalance :: "'d decimal \<Rightarrow> f64 \<Rightarrow> f64 \<Rightarrow> f64" where
  "calculateCreditedBalance D payment multiplier =
     d_float D (d_round D 2 (d_mul D (d_of D payment) (d_of D (normalizeBalanceRechargeMultiplier multiplier))))"

definition calculateGatewayRefundAmount :: "'d decimal \<Rightarrow> f64 \<Rightarrow> f64 \<Rightarrow> f64 \<Rightarrow> f64" where
  "calculateGatewayRefundAmount D orderAmount payAmount refundAmount =
    (if fle orderAmount (Fin 0) \<or> fle payAmount (Fin 0) \<or> fle refundAmount (Fin 0) then Fin 0
     else if fle (fabs (fsub refundAmount orderAmount)) amountToleranceCNY then d_float D (d_round D 2 (d_of D payAmount))
     else d_float D (d_round D 2 (d_div D (d_mul D (d_of D payAmount) (d_of D refundAmount)) (d_of D orderAmount))))"

subsection \<open>Refunds\<close>

datatype deductionType = DeductNone | DeductBal | DeductSub

record RefundPlan =
  rp_OrderID :: int
  rp_Order :: PaymentOrder
  rp_RefundAmount :: f64
  rp_GatewayAmount :: f64
  rp_Reason :: string
  rp_Force :: bool
  rp_DeductBalance :: bool
  rp_DeductionType :: deductionType
  rp_BalanceToDeduct :: f64
  rp_SubDaysToDeduct :: int
  rp_SubscriptionID :: int

record RefundResult =
  rr_Success :: bool
  rr_RequireForce :: bool
  rr_BalanceDeducted :: f64
  rr_SubDaysDeducted :: int

definition ErrRefundDisabled :: err where "ErrRefundDisabled = AppErr ''REFUND_DISABLED''"
definition ErrUserRefundDisabled :: err where "ErrUserRefundDisabled = AppErr ''USER_REFUND_DISABLED''"
definition ErrRefundAmountExceeded :: err where "ErrRefundAmountExceeded = AppErr ''REFUND_AMOUNT_EXCEEDED''"
definition ErrInvalidAmount :: err where "ErrInvalidAmount = AppErr ''INVALID_AMOUNT''"
definition ErrBalanceNotEnough :: err where "ErrBalanceNotEnough = AppErr ''BALANCE_NOT_ENOUGH''"

text \<open>\<open>None\<close> is an order without a (numeric) provider instance; the flags are RefundEnabled and AllowUserRefund.\<close>

definition getOrderProviderInstance :: "gateways \<Rightarrow> PaymentOrder \<Rightarrow> ('a paystate_scheme, (bool \<times> bool) option) proc" where
  "getOrderProviderInstance G o' =
    (case Option.bind (po_ProviderInstanceID o') (\<lambda>i. if i = [] then None else parseInt i) of
       None \<Rightarrow> ret None
     | Some i \<Rightarrow> db ''get provider instance'' (\<lambda>s. (case gw_flags G i of
           None \<Rightarrow> Inl (Internal ''provider instance not found'') | Some f \<Rightarrow> Inr (Some f), s)))"

definition validateRefundRequest :: "gateways \<Rightarrow> int \<Rightarrow> int \<Rightarrow> ('a paystate_scheme, PaymentOrder) proc" where
  "validateRefundRequest G oid user =
     tryP (orderGet oid) (\<lambda>_. fail ErrOrderNotFound) (\<lambda>o'.
     if po_UserID o' \<noteq> user then fail ErrOrderForbidden
     else if po_OrderType o' \<noteq> OrderTypeBalance then fail (AppErr ''INVALID_ORDER_TYPE'')
     else if po_Status o' \<noteq> OrderStatusCompleted then fail ErrInvalidStatus
     else tryP (getOrderProviderInstance G o') (\<lambda>_. fail ErrUserRefundDisabled) (\<lambda>inst. case inst of
         None \<Rightarrow> fail ErrUserRefundDisabled
       | Some (enabled, byUser) \<Rightarrow> if \<not> byUser then fail ErrUserRefundDisabled else ret o'))"

definition RequestRefund :: "pgnum \<Rightarrow> gateways \<Rightarrow> int \<Rightarrow> int \<Rightarrow> string \<Rightarrow> ('a paystate_scheme, unit) proc" where
  "RequestRefund N G oid user reason =
     bindP (validateRefundRequest G oid user) (\<lambda>o'.
     bindP (userGetByID (po_UserID o')) (\<lambda>u.
     if flt (fst u) (po_Amount o') then fail ErrBalanceNotEnough
     else bindP nowP (\<lambda>now.
       bindP (ordersUpdate (\<lambda>x. po_ID x = oid \<and> po_UserID x = user \<and> po_Status x = OrderStatusCompleted \<and> po_OrderType x = OrderTypeBalance)
            (\<lambda>x. x\<lparr>po_Status := OrderStatusRefundRequested, po_RefundRequestedAt := Some now,
               po_RefundRequestReason := Some (trimSpace reason), po_RefundRequestedBy := Some (itoa user),
               po_RefundAmount := n_store2 N (po_Amount o')\<rparr>)) (\<lambda>c.
       if c = 0 then fail ErrConflict else writeAuditLog oid ''REFUND_REQUESTED'' (userOperator user)))))"

text \<open>strconv.FormatFloat(x, 'f', 2, 64).\<close>

definition formatFixed2 :: "f64 \<Rightarrow> string" where
  "formatFixed2 x = (case x of
       NaN \<Rightarrow> ''NaN'' | PInf \<Rightarrow> ''+Inf'' | NInf \<Rightarrow> ''-Inf''
     | Fin r \<Rightarrow> (let n = rne (\<bar>r\<bar> * 100) in
         (if r < 0 then ''-'' else []) @ itoa (n div 100) @ ''.'' @ itoa (n mod 100 div 10) @ itoa (n mod 10)))"

definition refundable :: "string \<Rightarrow> bool" where
  "refundable st \<longleftrightarrow> st \<in> {OrderStatusCompleted, OrderStatusRefundRequested, OrderStatusRefundFailed}"

text \<open>\<open>Inl\<close> is the answer that asks for force.  The texts of warnings are left out.\<close>

definition needForce :: RefundResult where
  "needForce = \<lparr>rr_Success = False, rr_RequireForce = True, rr_BalanceDeducted = Fin 0, rr_SubDaysDeducted = 0\<rparr>"

definition prepDeduct :: "pgnum \<Rightarrow> bool \<Rightarrow> bool \<Rightarrow> PaymentOrder \<Rightarrow> RefundPlan \<Rightarrow> bool \<Rightarrow> ('a paystate_scheme, RefundResult + RefundPlan) proc" where
  "prepDeduct N hit kept o' p force =
    (if po_OrderType o' = OrderTypeSubscription
     then let p1 = p\<lparr>rp_DeductionType := DeductSub\<rparr> in
       (case (po_SubscriptionGroupID o', po_SubscriptionDays o') of
          (Some g, Some days) \<Rightarrow>
            let p2 = p1\<lparr>rp_SubDaysToDeduct := days\<rparr> in
            tryP (GetActiveSubscription N hit kept (po_UserID o') g)
              (\<lambda>_. if \<not> force then ret (Inl needForce) else ret (Inr p2))
              (\<lambda>sub. ret (Inr (p2\<lparr>rp_SubscriptionID := us_ID sub\<rparr>)))
        | _ \<Rightarrow> ret (Inr p1))
     else tryP (userGetByID (po_UserID o'))
       (\<lambda>_. if \<not> force then ret (Inl needForce) else ret (Inr p))
       (\<lambda>u. ret (Inr (p\<lparr>rp_DeductionType := DeductBal, rp_BalanceToDeduct := fmin (rp_RefundAmount p) (fst u)\<rparr>))))"

definition refundReason :: "PaymentOrder \<Rightarrow> string \<Rightarrow> string" where
  "refundReason o' reason =
    (let r1 = trimSpace reason;
         r2 = (if r1 = [] then case_option [] id (po_RefundRequestReason o') else r1)
     in if r2 = [] then ''refund order:'' @ itoa (po_ID o') else r2)"

definition PrepareRefund :: "pgnum \<Rightarrow> 'd decimal \<Rightarrow> gateways \<Rightarrow> bool \<Rightarrow> bool \<Rightarrow> int \<Rightarrow> f64 \<Rightarrow> string \<Rightarrow> bool \<Rightarrow> bool \<Rightarrow> ('a paystate_scheme, RefundResult + RefundPlan) proc" where
  "PrepareRefund N D G hit kept oid amt0 reason force deduct =
     tryP (orderGet oid) (\<lambda>_. fail ErrOrderNotFound) (\<lambda>o'.
     if \<not> refundable (po_Status o') then fail ErrInvalidStatus
     else tryP (getOrderProviderInstance G o') (\<lambda>_. fail (AppErr ''PROVIDER_LOOKUP_FAILED'')) (\<lambda>inst. case inst of
         None \<Rightarrow> fail ErrRefundDisabled
       | Some (enabled, byUser) \<Rightarrow>
           if \<not> enabled then fail ErrRefundDisabled
           else if amt0 \<in> {NaN, PInf, NInf} then fail ErrInvalidAmount
           else let amt = (if fle amt0 (Fin 0) then po_Amount o' else amt0) in
             if flt amountToleranceCNY (fsub amt (po_Amount o')) then fail ErrRefundAmountExceeded
             else let p = \<lparr>rp_OrderID = oid, rp_Order = o', rp_RefundAmount = amt,
                     rp_GatewayAmount = calculateGatewayRefundAmount D (po_Amount o') (po_PayAmount o') amt,
                     rp_Reason = refundReason o' reason, rp_Force = force, rp_DeductBalance = deduct, rp_DeductionType = DeductNone,
                     rp_BalanceToDeduct = Fin 0, rp_SubDaysToDeduct = 0, rp_SubscriptionID = 0\<rparr>
               in if deduct then prepDeduct N hit kept o' p force else ret (Inr p)))"

definition restoreStatus :: "RefundPlan \<Rightarrow> ('a paystate_scheme, unit) proc" where
  "restoreStatus p = ignoreP (orderUpdateOne (rp_OrderID p) (\<lambda>x. x\<lparr>po_Status :=
     (if po_Status (rp_Order p) = OrderStatusRefundRequested then OrderStatusRefundRequested else OrderStatusCompleted)\<rparr>))"

definition RollbackRefund :: "pgnum \<Rightarrow> RefundPlan \<Rightarrow> ('a paystate_scheme, bool) proc" where
  "RollbackRefund N p =
    (let broken = bindP (writeAuditLog (rp_OrderID p) ''REFUND_ROLLBACK_FAILED'' ''admin'') (\<lambda>_. ret False) in
     tryP (if rp_DeductionType p = DeductBal \<and> flt (Fin 0) (rp_BalanceToDeduct p)
           then UpdateBalance N (po_UserID (rp_Order p)) (rp_BalanceToDeduct p) else ret ())
       (\<lambda>_. broken) (\<lambda>_.
     tryP (if rp_DeductionType p = DeductSub \<and> 0 < rp_SubDaysToDeduct p \<and> 0 < rp_SubscriptionID p
           then bindP (ExtendSubscription (rp_SubscriptionID p) (rp_SubDaysToDeduct p)) (\<lambda>_. ret ()) else ret ())
       (\<lambda>_. broken) (\<lambda>_. ret True)))"

definition gwRefund :: "gateways \<Rightarrow> RefundPlan \<Rightarrow> ('a paystate_scheme, unit) proc" where
  "gwRefund G p =
    (let o' = rp_Order p in
     if po_PaymentTradeNo o' = [] then writeAuditLog (po_ID o') ''REFUND_NO_TRADE_NO'' ''admin''
     else case getOrderProvider G o' of
         None \<Rightarrow> fail (Internal ''get refund provider'')
       | Some v \<Rightarrow> bindP nowP (\<lambda>now.
           case pv_refund v now (po_PaymentTradeNo o') (po_OutTradeNo o') (formatFixed2 (rp_GatewayAmount p)) (rp_Reason p) of
             None \<Rightarrow> ret () | Some e \<Rightarrow> fail e))"

definition handleGwFail :: "pgnum \<Rightarrow> RefundPlan \<Rightarrow> err \<Rightarrow> ('a paystate_scheme, RefundResult) proc" where
  "handleGwFail N p gErr =
     bindP (RollbackRefund N p) (\<lambda>rolledBack.
     if rolledBack
     then bindP (restoreStatus p) (\<lambda>_. bindP (writeAuditLog (rp_OrderID p) ''REFUND_GATEWAY_FAILED'' ''admin'') (\<lambda>_.
          ret \<lparr>rr_Success = False, rr_RequireForce = False, rr_BalanceDeducted = Fin 0, rr_SubDaysDeducted = 0\<rparr>))
     else bindP nowP (\<lambda>now.
          bindP (ignoreP (orderUpdateOne (rp_OrderID p) (\<lambda>x. x\<lparr>po_Status := OrderStatusRefundFailed, po_FailedAt := Some now,
             po_FailedReason := Some gErr\<rparr>))) (\<lambda>_.
          bindP (writeAuditLog (rp_OrderID p) ''REFUND_FAILED'' ''admin'') (\<lambda>_.
          fail (AppErr ''REFUND_FAILED'')))))"

definition markRefundOk :: "pgnum \<Rightarrow> RefundPlan \<Rightarrow> ('a paystate_scheme, RefundResult) proc" where
  "markRefundOk N p =
    (let fs = (if flt (rp_RefundAmount p) (po_Amount (rp_Order p)) then OrderStatusPartiallyRefunded else OrderStatusRefunded) in
     bindP nowP (\<lambda>now.
     bindP (orderUpdateOne (rp_OrderID p) (\<lambda>x. x\<lparr>po_Status := fs, po_RefundAmount := n_store2 N (rp_RefundAmount p),
        po_RefundReason := Some (rp_Reason p), po_RefundAt := Some now, po_ForceRefund := rp_Force p\<rparr>)) (\<lambda>_.
     bindP (writeAuditLog (rp_OrderID p) ''REFUND_SUCCESS'' ''admin'') (\<lambda>_.
     ret \<lparr>rr_Success = True, rr_RequireForce = False, rr_BalanceDeducted = rp_BalanceToDeduct p,
          rr_SubDaysDeducted = rp_SubDaysToDeduct p\<rparr>))))"

text \<open>The balance taken back: once, unless an earlier attempt took it and could not return it.\<close>

definition deductStep :: "pgnum \<Rightarrow> RefundPlan \<Rightarrow> ('a paystate_scheme, RefundPlan) proc" where
  "deductStep N p =
    (if rp_DeductionType p = DeductBal \<and> flt (Fin 0) (rp_BalanceToDeduct p)
     then bindP (hasAuditLog (rp_OrderID p) ''REFUND_ROLLBACK_FAILED'') (\<lambda>taken.
       if \<not> taken
       then tryP (DeductBalance N (po_UserID (rp_Order p)) (rp_BalanceToDeduct p))
              (\<lambda>e. bindP (restoreStatus p) (\<lambda>_. fail e)) (\<lambda>_. ret p)
       else ret (p\<lparr>rp_BalanceToDeduct := Fin 0\<rparr>))
     else ret p)"

text \<open>The days taken back; a subscription they would end is revoked.\<close>

definition deductDaysStep :: "RefundPlan \<Rightarrow> ('a paystate_scheme, RefundPlan) proc" where
  "deductDaysStep p =
    (if rp_DeductionType p = DeductSub \<and> 0 < rp_SubDaysToDeduct p \<and> 0 < rp_SubscriptionID p
     then bindP (hasAuditLog (rp_OrderID p) ''REFUND_ROLLBACK_FAILED'') (\<lambda>taken.
       if \<not> taken
       then tryP (ExtendSubscription (rp_SubscriptionID p) (- rp_SubDaysToDeduct p))
              (\<lambda>e. if e = ErrAdjustWouldExpire
                   then tryP (RevokeSubscription (rp_SubscriptionID p))
                          (\<lambda>e'. bindP (restoreStatus p) (\<lambda>_. fail e')) (\<lambda>_. ret p)
                   else bindP (restoreStatus p) (\<lambda>_. fail e))
              (\<lambda>_. ret p)
       else ret (p\<lparr>rp_SubDaysToDeduct := 0\<rparr>))
     else ret p)"

definition ExecuteRefund :: "pgnum \<Rightarrow> gateways \<Rightarrow> RefundPlan \<Rightarrow> ('a paystate_scheme, RefundResult) proc" where
  "ExecuteRefund N G p =
     bindP (ordersUpdate (\<lambda>x. po_ID x = rp_OrderID p \<and> refundable (po_Status x)) (\<lambda>x. x\<lparr>po_Status := OrderStatusRefunding\<rparr>)) (\<lambda>c.
     if c = 0 then fail ErrConflict
     else bindP (deductStep N p) (\<lambda>p1.
          bindP (deductDaysStep p1) (\<lambda>p2.
          tryP (gwRefund G p2) (handleGwFail N p2) (\<lambda>_. markRefundOk N p2))))"

end
