(* ===== verification/PaymentSafety.thy ===== *)
theory PaymentSafety
  imports PaymentLifecycle
begin

section \<open>What payments do to balances\<close>

text \<open>
  Every way a payment reaches a balance (notifications, retries, the checks made when an order is
  cancelled, expires or is verified) goes through the redemption of the order's code.  So a balance
  after any sequence of these operations is the balance before plus one credit per code that has
  become used in between, each code once.
\<close>

subsection \<open>Operations\<close>

datatype paymentOp = Notify PaymentNotification string | Retry int | UserCancel int int | AdminCancelOp int
  | Verify string int | VerifyAnonymously string | Expire | AskRefund int int string
  | UserRedeem int string string | AddCode RedeemCode | AddCodes int f64 string "nat list list" | DropCode int
  | Wait int | Disturb "bool list"

fun runPaymentOp :: "pgnum \<Rightarrow> gateways \<Rightarrow> paymentOp \<Rightarrow> 'a paystate_scheme \<Rightarrow> err option \<times> 'a paystate_scheme" where
  "runPaymentOp N G (Notify n pk) s = map_prod (case_sum Some (\<lambda>_. None)) id (HandlePaymentNotification N n pk s)"
| "runPaymentOp N G (Retry oid) s = map_prod (case_sum Some (\<lambda>_. None)) id (RetryFulfillment N oid s)"
| "runPaymentOp N G (UserCancel oid u) s = map_prod (case_sum Some (\<lambda>_. None)) id (CancelOrder N G oid u s)"
| "runPaymentOp N G (AdminCancelOp oid) s = map_prod (case_sum Some (\<lambda>_. None)) id (AdminCancelOrder N G oid s)"
| "runPaymentOp N G (Verify no u) s = map_prod (case_sum Some (\<lambda>_. None)) id (VerifyOrderByOutTradeNo N G no u s)"
| "runPaymentOp N G (VerifyAnonymously no) s = map_prod (case_sum Some (\<lambda>_. None)) id (VerifyOrderPublic N G no s)"
| "runPaymentOp N G Expire s = map_prod (case_sum Some (\<lambda>_. None)) id (ExpireTimedOutOrders N G s)"
| "runPaymentOp N G (AskRefund oid u reason) s = map_prod (case_sum Some (\<lambda>_. None)) id (RequestRefund N G oid u reason s)"
| "runPaymentOp N G (UserRedeem u code mode) s = map_prod (case_sum Some (\<lambda>_. None)) id (Redeem N u code mode s)"
| "runPaymentOp N G (AddCode c) s = map_prod (case_sum Some (\<lambda>_. None)) id (CreateCode N c s)"
| "runPaymentOp N G (AddCodes n v ty bytes) s = map_prod (case_sum Some (\<lambda>_. None)) id (GenerateCodes N n v ty bytes s)"
| "runPaymentOp N G (DropCode i) s = map_prod (case_sum Some (\<lambda>_. None)) id (redeemDelete i s)"
| "runPaymentOp N G (Wait d) s = (None, s\<lparr>e_now := e_now s + d\<rparr>)"
| "runPaymentOp N G (Disturb fs) s = (None, s\<lparr>e_faults := fs\<rparr>)"

text \<open>An invariant of every operation is one of every sequence.\<close>

lemma runOps_keeps:
  "(\<And>op s. op \<in> set ops \<Longrightarrow> P s \<Longrightarrow> P (snd (step op s))) \<Longrightarrow> P s \<Longrightarrow> P (snd (runOps step ops s))"
  by (induction ops arbitrary: s) (simp_all add: Let_def split: prod.splits, metis snd_conv)

subsection \<open>Credits\<close>

definition credit :: "pgnum \<Rightarrow> (int \<rightharpoonup> f64) \<Rightarrow> string \<times> int \<times> f64 \<Rightarrow> (int \<rightharpoonup> f64)" where
  "credit N b = (\<lambda>(code, user, v). b(user \<mapsto> n_store8 N (n_plus N (case_option (Fin 0) id (b user)) v)))"

text \<open>The row of a code that was credited: a negative code may have been cut to the balance.\<close>

definition creditRow :: "string \<times> int \<times> f64 \<Rightarrow> RedeemCode \<Rightarrow> bool" where
  "creditRow = (\<lambda>(code, user, v) c. rc_Code c = code \<and> codeIsUsed c \<and> rc_UsedBy c = Some user
     \<and> (v = rc_Value c \<or> flt (rc_Value c) (Fin 0)))"

definition usedKept :: "'a redeemstate_scheme \<Rightarrow> 'a redeemstate_scheme \<Rightarrow> bool" where
  "usedKept s s' \<longleftrightarrow> (\<forall>c \<in> set (rw_codes s). codeIsUsed c \<longrightarrow> c \<in> set (rw_codes s'))"

definition grown :: "pgnum \<Rightarrow> 'a redeemstate_scheme \<Rightarrow> 'a redeemstate_scheme \<Rightarrow> bool" where
  "grown N s s' \<longleftrightarrow> usedKept s s' \<and> (\<exists>ms. distinct (map fst ms)
     \<and> (\<forall>m \<in> set ms. \<not> usedCode (fst m) s \<and> list_ex (creditRow m) (rw_codes s'))
     \<and> bw_balance s' = foldl (credit N) (bw_balance s) ms)"

lemma usedKept_usedCode: "usedKept s s' \<Longrightarrow> usedCode k s \<Longrightarrow> usedCode k s'"
  by (auto simp: usedKept_def usedCode_def list_ex_iff)

lemma creditRow_used: "list_ex (creditRow m) (rw_codes s) \<Longrightarrow> usedCode (fst m) s"
  by (auto simp: usedCode_def list_ex_iff creditRow_def split: prod.splits)

lemma creditRow_kept: "usedKept s s' \<Longrightarrow> list_ex (creditRow m) (rw_codes s) \<Longrightarrow> list_ex (creditRow m) (rw_codes s')"
  by (auto simp: usedKept_def list_ex_iff creditRow_def split: prod.splits)

lemma grown_quiet: "usedKept s s' \<Longrightarrow> bw_balance s' = bw_balance s \<Longrightarrow> grown N s s'"
  unfolding grown_def by (intro conjI exI [of _ "[]"]) simp_all

lemma grown_refl: "grown N s s"
  by (rule grown_quiet) (simp_all add: usedKept_def)

lemma grown_trans:
  assumes "grown N s t" and "grown N t u"
  shows "grown N s u"
proof -
  from assms(1) obtain ms where k1: "usedKept s t" and d1: "distinct (map fst ms)" and b1: "bw_balance t = foldl (credit N) (bw_balance s) ms"
    and r1: "\<And>m. m \<in> set ms \<Longrightarrow> \<not> usedCode (fst m) s \<and> list_ex (creditRow m) (rw_codes t)"
    unfolding grown_def by blast
  from assms(2) obtain ns where k2: "usedKept t u" and d2: "distinct (map fst ns)" and b2: "bw_balance u = foldl (credit N) (bw_balance t) ns"
    and r2: "\<And>m. m \<in> set ns \<Longrightarrow> \<not> usedCode (fst m) t \<and> list_ex (creditRow m) (rw_codes u)"
    unfolding grown_def by blast
  have "fst m \<noteq> fst n" if "m \<in> set ms" "n \<in> set ns" for m n
    using r1 [OF that(1)] r2 [OF that(2)] creditRow_used by metis
  then have "distinct (map fst (ms @ ns))" using d1 d2 by auto
  moreover have "\<not> usedCode (fst m) s \<and> list_ex (creditRow m) (rw_codes u)" if "m \<in> set (ms @ ns)" for m
    using that unfolding set_append Un_iff by (metis r1 r2 creditRow_kept [OF k2] usedKept_usedCode [OF k1])
  moreover have "usedKept s u" using k1 k2 by (auto simp: usedKept_def)
  ultimately show ?thesis
    unfolding grown_def using b1 b2 by (intro conjI exI [of _ "ms @ ns"]) auto
qed

lemma keeps_grownI: "(\<And>s. grown N s (snd (m s))) \<Longrightarrow> keepsP (grown N s0) m"
  by (rule keepsPI) (rule grown_trans)

lemma grown_faults [simp]: "grown N s (t\<lparr>e_faults := fs\<rparr>) = grown N s t"
  by (simp add: grown_def usedKept_def)

lemma keeps_grown_db:
  assumes act: "\<And>s. rw_codes (snd (act s)) = rw_codes s" "\<And>s. bw_balance (snd (act s)) = bw_balance s"
  shows "keepsP (grown N s0) (db tag act)"
proof (rule keeps_db)
  show "keepsP (grown N s0) act"
  proof (rule keeps_grownI, rule grown_quiet)
    fix s
    show "usedKept s (snd (act s))" using act(1) [of s] by (simp add: usedKept_def)
    show "bw_balance (snd (act s)) = bw_balance s" by (rule act(2))
  qed
qed simp

lemma keeps_grown_modP:
  assumes f: "\<And>s. rw_codes (f s) = rw_codes s" "\<And>s. bw_balance (f s) = bw_balance s"
  shows "keepsP (grown N s0) (modP f)"
proof (rule keeps_grownI, rule grown_quiet)
  fix s
  show "usedKept s (snd (modP f s))" using f(1) [of s] by (simp add: modP_def usedKept_def)
  show "bw_balance (snd (modP f s)) = bw_balance s" using f(2) [of s] by (simp add: modP_def)
qed

lemma keeps_grown_framed: "(\<And>x. keepsP (framed x) m) \<Longrightarrow> keepsP (grown N s0) m"
proof (intro keeps_grownI grown_quiet)
  fix s
  assume m: "\<And>x. keepsP (framed x) m"
  obtain r s' where r: "m s = (r, s')" by fastforce
  from more_codes [OF framed_run(1) [OF m r]] have "rw_codes s' = rw_codes s \<and> bw_balance s' = bw_balance s" by blast
  then show "usedKept s (snd (m s))" "bw_balance (snd (m s)) = bw_balance s" using r by (simp_all add: usedKept_def)
qed

lemma keeps_grown_books: "(\<And>L. keepsP (books L) m) \<Longrightarrow> keepsP (grown N s0) m"
proof (intro keeps_grownI grown_quiet)
  fix s
  assume m: "\<And>L. keepsP (books L) m"
  obtain r s' where r: "m s = (r, s')" by fastforce
  have "ledger s' = ledger s" using books_run [OF m r] .
  then show "usedKept s (snd (m s))" "bw_balance (snd (m s)) = bw_balance s" using r by (simp_all add: usedKept_def ledger_def)
qed

subsection \<open>Redeeming\<close>

lemma redeemPay_other:
  assumes "redeemPay N user usr c mode s = (Inr (), s')" and "rc_Type c \<noteq> RedeemTypeBalance"
  shows "bw_balance s' = bw_balance s"
proof -
  have c: "bw_balance s' = bw_balance s" if "UpdateConcurrency user d s = (Inr (), s')" for d
    using that unfolding UpdateConcurrency_def by (elim db_Inr) (auto split: option.splits)
  have r: "bw_balance s' = bw_balance s" if "reduceOrCancelSubscription user g d code s = (Inr (), s')" for g d code
    using framed_run [OF framed_reduce that] more_codes by metis
  have a: "bw_balance s' = bw_balance s" if "bindP (ApplyRedeemSubscription N True input) (\<lambda>_. ret ()) s = (Inr (), s')" for input
  proof -
    from that obtain u t where "ApplyRedeemSubscription N True input s = (Inr u, t)" "s' = t"
      by (elim bindP_Inr) (auto simp: ret_def)
    then show ?thesis using framed_run [OF frame_ApplyRedeem] more_codes by metis
  qed
  show ?thesis
    using assms c r a unfolding redeemPay_def Let_def by (auto simp: fail_def split: if_splits option.splits)
qed

lemma grown_Redeem: "grown N s (snd (Redeem N user code subMode s))"
proof -
  obtain r s' where R: "Redeem N user code subMode s = (r, s')" by fastforce
  then have "grown N s s'"
  proof (cases rule: Redeem_cases)
    case (none e)
    then show ?thesis by (intro grown_quiet) (simp_all add: ledger_def usedKept_def)
  next
    case (paid c usr m t1 t2)
    have codes: "rw_codes s' = useCode user (e_now s) m (rc_ID c) (rw_codes s)"
      using paid(4,6) redeemPay_Inr(1) [OF paid(5)] by (simp add: ledger_def)
    have bal: "bw_balance t1 = bw_balance s" "bw_balance s' = bw_balance t2" using paid(4,6) by (simp_all add: ledger_def)
    have kept: "usedKept s s'"
      by (auto simp: usedKept_def codes useCode_def updRows_def codeIsUsed_def StatusUsed_def StatusUnused_def image_iff)
    show ?thesis
    proof (cases "rc_Type c = RedeemTypeBalance")
      case False
      show ?thesis by (rule grown_quiet [OF kept]) (simp add: bal redeemPay_other [OF paid(5) False])
    next
      case True
      let ?v = "if flt (rc_Value c) (Fin 0) \<and> flt (fadd (fst usr) (rc_Value c)) (Fin 0) then fneg (fst usr) else rc_Value c"
      have "c \<in> set (filter (\<lambda>x. rc_Code x = code) (rw_codes s))" by (simp add: paid(1))
      then have c: "c \<in> set (rw_codes s)" "rc_Code c = code" by simp_all
      then have row: "list_ex (creditRow (code, user, ?v)) (rw_codes s')"
        unfolding codes useCode_def list_ex_updRows_iff unfolding list_ex_iff
        by (intro bexI [of _ c]) (simp_all add: creditRow_def markUsed_def codeIsUsed_def paid(2))
      have "bw_balance s' = foldl (credit N) (bw_balance s) [(code, user, ?v)]"
        using redeemPay_Inr(3) [OF paid(5) True] by (auto simp: bal credit_def)
      with row kept useCode_used(1) [OF paid(1,2)] show ?thesis
        unfolding grown_def by (intro conjI exI [of _ "[(code, user, ?v)]"]) (auto simp: usedCode_def)
    qed
  qed
  with R show ?thesis by simp
qed

lemma grow_codes [keeps]:
  "keepsP (grown N s0) (Redeem N user code mode)" "keepsP (grown N s0) (CreateCode N c)"
  "keepsP (grown N s0) (GenerateCodes N n v ty bytes)" "keepsP (grown N s0) (GetByCode code)"
  "keepsP (grown N s0) (userGetByID u)" "keepsP (grown N s0) (IsFirstRecharge u)"
proof -
  show "keepsP (grown N s0) (CreateCode N c)" "keepsP (grown N s0) (GenerateCodes N n v ty bytes)"
    unfolding CreateCode_def GenerateCodes_def codeCreateBatch_def codeCreate_def Let_def
    by (intro keeps keeps_db; (rule keeps_grownI, rule grown_quiet)?; simp add: usedKept_def)+
qed (auto intro: keeps_grownI grown_Redeem keeps_grown_books books_steps simp: GetByCode_def)

lemma onlyRow_unique: "onlyRow e p rows = Inr r \<Longrightarrow> x \<in> set rows \<Longrightarrow> p x \<Longrightarrow> x = r"
proof -
  assume "onlyRow e p rows = Inr r" "x \<in> set rows" "p x"
  then have "filter p rows = [r]" "x \<in> set (filter p rows)" by (auto simp: onlyRow_def split: list.splits)
  then show "x = r" by simp
qed

lemma grow_delete [keeps]: "keepsP (grown N s0) (redeemDelete i)"
proof (rule keeps_grownI, rule grown_quiet)
  fix s :: "'a redeemstate_scheme"
  obtain q t where q: "codeGetByID i s = (q, t)" by fastforce
  have t: "rw_codes t = rw_codes s" "bw_balance t = bw_balance s"
    using books_run [OF books_steps(2) q] by (simp_all add: ledger_def)
  have d: "rw_codes (snd (codeDelete i t)) \<in> {rw_codes t, filter (\<lambda>c. rc_ID c \<noteq> i) (rw_codes t)}"
    "bw_balance (snd (codeDelete i t)) = bw_balance t"
    by (auto simp: codeDelete_def db_def modP_def split: list.splits)
  show "bw_balance (snd (redeemDelete i s)) = bw_balance s"
    using q t d by (cases q) (auto simp: redeemDelete_def bindP_def fail_def)
  show "usedKept s (snd (redeemDelete i s))"
  proof (cases "\<exists>c. q = Inr c \<and> \<not> codeIsUsed c")
    case True
    then obtain c where c: "q = Inr c" "\<not> codeIsUsed c" by blast
    have "onlyRow ErrRedeemCodeNotFound (\<lambda>c. rc_ID c = i) (rw_codes s) = Inr c"
      using q unfolding codeGetByID_def c(1) by (elim db_Inr) simp
    then have "rc_ID x \<noteq> i" if "x \<in> set (rw_codes s)" "codeIsUsed x" for x
      using onlyRow_unique that c(2) by fastforce
    then show ?thesis using q c d(1) by (auto simp: redeemDelete_def bindP_def usedKept_def t)
  next
    case False
    then have "snd (redeemDelete i s) = t" using q by (cases q) (auto simp: redeemDelete_def bindP_def fail_def)
    then show ?thesis by (simp add: usedKept_def t)
  qed
qed

subsection \<open>Payments\<close>

lemma grow_tables [keeps]:
  "keepsP (grown N s0) (orderGet i)" "keepsP (grown N s0) (orderByOutTradeNo no)" "keepsP (grown N s0) (ordersUpdate p f)"
  "keepsP (grown N s0) (orderUpdateOne i f)" "keepsP (grown N s0) (hasAuditLog i a)" "keepsP (grown N s0) (writeAuditLog i a op)"
  "keepsP (grown N s0) (reward rw)" "keepsP (grown N s0) (recordPromotionUsage o' now)" "keepsP (grown N s0) (lockOrder i)"
  "keepsP (grown N s0) (getOrderProviderInstance G o')"
  unfolding orderGet_def orderByOutTradeNo_def ordersUpdate_def orderUpdateOne_def hasAuditLog_def writeAuditLog_def reward_def
    recordPromotionUsage_def lockOrder_def getOrderProviderInstance_def
  by (intro keeps keeps_grown_db keeps_grown_modP; simp add: setOrders_def modP_def getP_def)+

lemma grow_subscriptions [keeps]:
  "keepsP (grown N s0) (groupGetByID g)" "keepsP (grown N s0) (ApplyRedeemSubscription N' b input)"
  "keepsP (grown N s0) (AssignOrExtendSubscription N' b input')"
  by (rule keeps_grown_framed, rule keeps)+

lemma grow_fulfilment [keeps]:
  "keepsP (grown N s0) (markCompleted o' a)" "keepsP (grown N s0) (markFailed i e)" "keepsP (grown N s0) (handleBalanceRechargeRewards o' b)"
  unfolding markCompleted_def markFailed_def handleBalanceRechargeRewards_def handleSalesCommissionAfterBalanceCompleted_def
  by (intro keeps)+

lemma grow_doBalance [keeps]: "keepsP (grown N s0) (doBalance N o')"
  unfolding doBalance_def by (auto split: redeemAction.split intro!: keeps)

lemma grow_doSub [keeps]: "keepsP (grown N s0) (doSub N' o' g d)"
  unfolding doSub_def Let_def by (intro keeps)

lemma grow_orFailed [keeps]: "keepsP (grown N s0) m \<Longrightarrow> keepsP (grown N s0) (orFailed i m)"
  unfolding orFailed_def by (intro keeps)

lemma grow_execute [keeps]: "keepsP (grown N s0) (executeFulfillment N i)"
  unfolding executeFulfillment_def ExecuteBalanceFulfillment_def ExecuteSubscriptionFulfillment_def
  by (auto intro!: keeps split: option.split)

lemma grow_confirm [keeps]: "keepsP (grown N s0) (confirmPayment N i tn v pk)"
  unfolding confirmPayment_def toPaid_def alreadyProcessed_def by (intro keeps)

lemma grow_notify [keeps]: "keepsP (grown N s0) (HandlePaymentNotification N n pk)"
  unfolding HandlePaymentNotification_def by (intro keeps)

lemma grow_retry [keeps]: "keepsP (grown N s0) (RetryFulfillment N i)"
  unfolding RetryFulfillment_def by (intro keeps)

lemma grow_checkPaid [keeps]: "keepsP (grown N s0) (checkPaid N G o')"
  unfolding checkPaid_def Let_def by (auto intro!: keeps split: option.split sum.split prod.split)

lemma grow_cancel [keeps]:
  "keepsP (grown N s0) (cancelCore N G o' st op)" "keepsP (grown N s0) (CancelOrder N G i u)" "keepsP (grown N s0) (AdminCancelOrder N G i)"
  unfolding CancelOrder_def AdminCancelOrder_def cancelCore_def by (intro keeps)+

lemma grow_verify [keeps]:
  "keepsP (grown N s0) (VerifyOrderByOutTradeNo N G no u)" "keepsP (grown N s0) (VerifyOrderPublic N G no)"
  unfolding VerifyOrderByOutTradeNo_def VerifyOrderPublic_def verifyLoaded_def by (intro keeps)+

lemma grow_expire [keeps]: "keepsP (grown N s0) (ExpireTimedOutOrders N G)"
proof -
  have "keepsP (grown N s0) (expireLoop N G xs n)" for xs n
    by (induction xs arbitrary: n) (auto intro!: keeps)
  then show ?thesis
    unfolding ExpireTimedOutOrders_def by (intro keeps keeps_grown_db) (simp_all add: getP_def)
qed

lemma grow_askRefund [keeps]: "keepsP (grown N s0) (RequestRefund N G i u reason)"
  unfolding RequestRefund_def validateRefundRequest_def by (auto intro!: keeps split: option.split prod.split)

lemma runPaymentOp_grown: "grown N s0 s \<Longrightarrow> grown N s0 (snd (runPaymentOp N G op s))"
proof -
  assume g: "grown N s0 s"
  note run = keepsPD [where P = "grown N s0", OF _ g]
  have "grown N s0 (s\<lparr>e_now := t\<rparr>)" for t using g by (simp add: grown_def usedKept_def)
  with g show ?thesis
    by (cases op) (simp_all add: run keeps)
qed


end
