(* ===== verification/PaymentStates.thy ===== *)
theory PaymentStates
  imports PaymentSafety BillingMoney
begin

section \<open>The life of a payment order\<close>

text \<open>
  The statuses of an order and the steps between them.  Whatever is done to the orders, an order
  only ever follows these steps, and what was ordered never changes: an order that is completed is
  never fulfilled again, and a refunded one stays refunded.
\<close>

subsection \<open>Statuses\<close>

inductive statusStep :: "string \<Rightarrow> string \<Rightarrow> bool" where
  pay: "st \<in> {OrderStatusPending, OrderStatusCancelled, OrderStatusExpired} \<Longrightarrow> statusStep st OrderStatusPaid"
| close: "st \<in> {OrderStatusCancelled, OrderStatusExpired} \<Longrightarrow> statusStep OrderStatusPending st"
| take: "st \<in> {OrderStatusPaid, OrderStatusFailed} \<Longrightarrow> statusStep st OrderStatusRecharging"
| finish: "st \<in> {OrderStatusCompleted, OrderStatusFailed} \<Longrightarrow> statusStep OrderStatusRecharging st"
| again: "statusStep OrderStatusFailed OrderStatusPaid"
| ask: "statusStep OrderStatusCompleted OrderStatusRefundRequested"
| refund: "refundable st \<Longrightarrow> statusStep st OrderStatusRefunding"
| settle: "st \<in> {OrderStatusCompleted, OrderStatusRefundRequested, OrderStatusRefundFailed, OrderStatusRefunded,
     OrderStatusPartiallyRefunded} \<Longrightarrow> statusStep OrderStatusRefunding st"

inductive_cases from_refunded: "statusStep OrderStatusRefunded st"
inductive_cases from_partially_refunded: "statusStep OrderStatusPartiallyRefunded st"

definition settled :: "string \<Rightarrow> bool" where
  "settled st \<longleftrightarrow> st \<in> {OrderStatusCompleted, OrderStatusRefundRequested, OrderStatusRefunding, OrderStatusRefundFailed,
     OrderStatusRefunded, OrderStatusPartiallyRefunded}"

lemma settled_step: "statusStep st st' \<Longrightarrow> settled st \<Longrightarrow> settled st'"
  by (induction rule: statusStep.induct) (auto simp: settled_def refundable_def order_statuses)

lemma settled_stays: "statusStep\<^sup>*\<^sup>* st st' \<Longrightarrow> settled st \<Longrightarrow> settled st'"
  by (induction rule: rtranclp_induct) (auto dest: settled_step)

definition refundedStatus :: "string \<Rightarrow> bool" where
  "refundedStatus st \<longleftrightarrow> st \<in> {OrderStatusRefunded, OrderStatusPartiallyRefunded}"

lemma refunded_step: "statusStep st st' \<Longrightarrow> \<not> refundedStatus st"
  by (induction rule: statusStep.induct) (auto simp: refundedStatus_def refundable_def order_statuses)

lemma refunded_stays: "statusStep\<^sup>*\<^sup>* st st' \<Longrightarrow> refundedStatus st \<Longrightarrow> st' = st"
  by (induction rule: converse_rtranclp_induct) (auto dest: refunded_step)

subsection \<open>Orders\<close>

definition evolvedTo :: "PaymentOrder \<Rightarrow> PaymentOrder \<Rightarrow> bool" where
  "evolvedTo x y \<longleftrightarrow> po_ID y = po_ID x \<and> po_UserID y = po_UserID x \<and> po_Amount y = po_Amount x
     \<and> po_RechargeCode y = po_RechargeCode x \<and> po_OutTradeNo y = po_OutTradeNo x \<and> po_OrderType y = po_OrderType x
     \<and> po_PlanID y = po_PlanID x \<and> po_SubscriptionGroupID y = po_SubscriptionGroupID x
     \<and> po_SubscriptionDays y = po_SubscriptionDays x \<and> po_SubscriptionMode y = po_SubscriptionMode x
     \<and> statusStep\<^sup>*\<^sup>* (po_Status x) (po_Status y)"

lemma evolvedTo_refl: "evolvedTo x x"
  by (simp add: evolvedTo_def)

lemma evolvedTo_trans: "evolvedTo x y \<Longrightarrow> evolvedTo y z \<Longrightarrow> evolvedTo x z"
  by (auto simp: evolvedTo_def)

definition wfOrders :: "'a paystate_scheme \<Rightarrow> bool" where
  "wfOrders s \<longleftrightarrow> distinct (map po_ID (pw_orders s)) \<and> list_all (\<lambda>x. po_ID x < pw_nextOrder s) (pw_orders s)"

text \<open>The orders \<open>fst os\<close> have evolved, those added since are not pending, and what a state has beyond
  the orders is still \<open>snd os\<close>.\<close>

definition evo :: "PaymentOrder list \<times> 'a \<Rightarrow> 'a paystate_scheme \<Rightarrow> bool" where
  "evo os s \<longleftrightarrow> wfOrders s \<and> paystate.more s = snd os \<and> length (fst os) \<le> length (pw_orders s)
     \<and> list_all2 evolvedTo (fst os) (List.take (length (fst os)) (pw_orders s))
     \<and> list_all (\<lambda>x. po_Status x \<noteq> OrderStatusPending) (drop (length (fst os)) (pw_orders s))"

lemma never_pending_again: "statusStep st st' \<Longrightarrow> st' \<noteq> OrderStatusPending"
  by (induction rule: statusStep.induct) (auto simp: order_statuses)

lemma evolvedTo_pending: "evolvedTo x y \<Longrightarrow> po_Status y = OrderStatusPending \<Longrightarrow> po_Status x = OrderStatusPending"
  unfolding evolvedTo_def by (metis never_pending_again rtranclp.cases)

lemma evo_start: "wfOrders s \<Longrightarrow> evo (pw_orders s, paystate.more s) s"
  by (simp add: evo_def list.rel_refl evolvedTo_refl)

lemma evo_simps [simp]:
  "evo os (s\<lparr>e_faults := fs\<rparr>) = evo os s" "evo os (s\<lparr>e_now := t\<rparr>) = evo os s"
  "evo os (s\<lparr>pw_audit := a\<rparr>) = evo os s" "evo os (s\<lparr>pw_promoUsages := u\<rparr>) = evo os s" "evo os (s\<lparr>pw_rewards := r\<rparr>) = evo os s"
  by (simp_all add: evo_def wfOrders_def)

lemma evo_update:
  assumes e: "evo os s" and f: "\<And>x. x \<in> set (pw_orders s) \<Longrightarrow> p x \<Longrightarrow> evolvedTo x (f x)"
  shows "evo os (setOrders (updRows p f (pw_orders s)) s)"
proof -
  let ?h = "\<lambda>x. if p x then f x else x"
  have h: "evolvedTo x (?h x)" if "x \<in> set (pw_orders s)" for x using f that by (simp add: evolvedTo_refl)
  have ids: "map po_ID (map ?h (pw_orders s)) = map po_ID (pw_orders s)"
    using h by (auto simp: evolvedTo_def)
  have "list_all (\<lambda>x. po_ID x < pw_nextOrder s) (map ?h (pw_orders s))"
    using e h by (fastforce simp: list_all_iff evo_def wfOrders_def evolvedTo_def)
  moreover have "list_all2 evolvedTo (fst os) (map ?h (List.take (length (fst os)) (pw_orders s)))"
    unfolding list_all2_conv_all_nth
  proof (intro conjI allI impI)
    show "length (fst os) = length (map ?h (List.take (length (fst os)) (pw_orders s)))" using e by (simp add: evo_def)
    fix i
    assume i: "i < length (fst os)"
    then have n: "i < length (pw_orders s)" using e by (simp add: evo_def)
    have "evolvedTo (fst os ! i) (pw_orders s ! i)"
      using e i by (auto simp: evo_def list_all2_conv_all_nth)
    then have "evolvedTo (fst os ! i) (?h (pw_orders s ! i))" using evolvedTo_trans h n nth_mem by blast
    then show "evolvedTo (fst os ! i) (map ?h (List.take (length (fst os)) (pw_orders s)) ! i)"
      using i n by (cases "p (pw_orders s ! i)") simp_all
  qed
  moreover have "list_all (\<lambda>x. po_Status x \<noteq> OrderStatusPending) (map ?h (drop (length (fst os)) (pw_orders s)))"
    using e h evolvedTo_pending by (fastforce simp: list_all_iff evo_def dest: in_set_dropD)
  moreover have "distinct (map po_ID (map ?h (pw_orders s)))"
    unfolding ids using e by (simp add: evo_def wfOrders_def)
  ultimately show ?thesis
    using e by (simp add: evo_def wfOrders_def setOrders_def updRows_def take_map drop_map del: map_map)
qed

lemma evo_append:
  assumes e: "evo os s" and x: "po_ID x = pw_nextOrder s" "po_Status x \<noteq> OrderStatusPending"
  shows "evo os ((setOrders (pw_orders s @ [x]) s)\<lparr>pw_nextOrder := pw_nextOrder s + 1\<rparr>)"
  using e x by (auto simp: evo_def wfOrders_def setOrders_def list_all_iff)

subsection \<open>What leaves the orders alone\<close>

definition apart :: "'a \<Rightarrow> 'a redeemstate_scheme \<Rightarrow> bool" where
  "apart x s \<longleftrightarrow> x = redeemstate.more s"

lemma apart_simps [simp]:
  "apart x (s\<lparr>e_faults := fs\<rparr>) = apart x s" "apart x (s\<lparr>e_now := t\<rparr>) = apart x s"
  by (simp_all add: apart_def)

lemma apart_undo: "apart x s \<Longrightarrow> apart x (undoRedeem s s')"
  by (simp add: apart_def undoRedeem_def undoBill_def)

lemma more_apart: "substate.more s' = substate.more s \<Longrightarrow> redeemstate.more s' = redeemstate.more s"
  by (cases s; cases s') (auto elim!: billstate.cases_scheme simp: substate.defs)

lemma keeps_apart_framed: "(\<And>y. keepsP (framed y) m) \<Longrightarrow> keepsP (apart x) m"
proof (rule keepsPI)
  fix s
  assume m: "\<And>y. keepsP (framed y) m" and x: "apart x s"
  obtain r s' where r: "m s = (r, s')" by fastforce
  show "apart x (snd (m s))" using more_apart [OF framed_run(1) [OF m r]] x r by (simp add: apart_def)
qed

lemma keeps_apart_db: "(\<And>s. redeemstate.more (snd (act s)) = redeemstate.more s) \<Longrightarrow> keepsP (apart x) (db tag act)"
  by (rule keeps_db) (simp_all add: keepsP_def apart_def)

lemma apart_tables [keeps]:
  "keepsP (apart x) (codeGetByCode code)" "keepsP (apart x) (codeGetByID i)" "keepsP (apart x) (userGetByID u)"
  "keepsP (apart x) (IsFirstRecharge u)" "keepsP (apart x) (UpdateBalance N u a)" "keepsP (apart x) (DeductBalance N u a)"
  "keepsP (apart x) (UpdateConcurrency u d)" "keepsP (apart x) (codeUse i u m)" "keepsP (apart x) (codeCreate N c)"
  "keepsP (apart x) (codeDelete i)"
  unfolding codeGetByCode_def codeGetByID_def userGetByID_def IsFirstRecharge_def UpdateBalance_def DeductBalance_def
    UpdateConcurrency_def codeUse_def codeCreate_def codeDelete_def
  by (rule keeps_apart_db; simp add: Let_def modP_def split: option.splits)+

lemma apart_subscriptions [keeps]:
  "keepsP (apart x) (groupGetByID g)" "keepsP (apart x) (subGetByUserIDAndGroupID u g)" "keepsP (apart x) (billingInvalidate u g)"
  "keepsP (apart x) (ApplyRedeemSubscription N b input)" "keepsP (apart x) (AssignOrExtendSubscription N b input')"
  "keepsP (apart x) (populateQuotaSnapshot N sub t)" "keepsP (apart x) (reduceOrCancelSubscription u g d code)"
  "keepsP (apart x) (GetActiveSubscription N hit kept u g)" "keepsP (apart x) (ExtendSubscription i d)"
  "keepsP (apart x) (RevokeSubscription i)"
  by (rule keeps_apart_framed, rule keeps framed_reduce)+

lemma apart_caches [keeps]:
  "keepsP (apart x) (checkRedeemRateLimit u)" "keepsP (apart x) (incrementRedeemErrorCount u)"
  "keepsP (apart x) (acquireRedeemLock code)" "keepsP (apart x) (releaseRedeemLock code)"
  "keepsP (apart x) (invalidateRedeemCaches u c)"
  unfolding checkRedeemRateLimit_def incrementRedeemErrorCount_def acquireRedeemLock_def releaseRedeemLock_def
    invalidateRedeemCaches_def Let_def
  by (intro keeps keeps_apart_db keeps_modP; simp add: apart_def getP_def modP_def)+

lemma apart_redeemTx [keeps]: "keepsP (apart x) (redeemTx N u usr c mode m)"
  unfolding redeemTx_def redeemPay_def Let_def
  by (rule keeps_withTx) (auto intro!: keeps apart_undo)

lemma apart_Redeem [keeps]: "keepsP (apart x) (Redeem N u code mode)"
proof -
  have "keepsP (apart x) (redeemMode N u c mode')" for c mode'
    unfolding redeemMode_def by (auto intro!: keeps)
  then have l: "keepsP (apart x) (redeemLocked N u code mode)"
    unfolding redeemLocked_def Let_def by (intro keeps)
  have "keepsP (apart x) (\<lambda>s. case redeemLocked N u code mode s of (r, s1) \<Rightarrow> (r, snd (releaseRedeemLock code s1)))"
    using l apart_caches(4) by (fastforce simp: keepsP_def split: prod.splits)
  then show ?thesis unfolding Redeem_def by (intro keeps)
qed

lemma apart_codes [keeps]:
  "keepsP (apart x) (CreateCode N c)" "keepsP (apart x) (GenerateCodes N n v ty bytes)" "keepsP (apart x) (redeemDelete i)"
  "keepsP (apart x) (GetByCode code)"
  unfolding CreateCode_def GenerateCodes_def codeCreateBatch_def redeemDelete_def GetByCode_def Let_def
  by (intro keeps keeps_apart_db; simp)+

text \<open>A predicate of the order table, and of what a state has beyond the orders.\<close>

definition table :: "('a paystate_scheme \<Rightarrow> bool) \<Rightarrow> bool" where
  "table P \<longleftrightarrow> (\<forall>s s'. pw_orders s' = pw_orders s \<longrightarrow> pw_nextOrder s' = pw_nextOrder s \<longrightarrow>
     paystate.more s' = paystate.more s \<longrightarrow> P s' = P s)"

lemma tableD: "table P \<Longrightarrow> P s \<Longrightarrow> pw_orders s' = pw_orders s \<Longrightarrow> pw_nextOrder s' = pw_nextOrder s \<Longrightarrow>
   paystate.more s' = paystate.more s \<Longrightarrow> P s'"
  unfolding table_def by blast

lemma keeps_table_apart:
  fixes m :: "('a paystate_scheme, 'b) proc"
  assumes P: "table P" and m: "\<And>x. keepsP (apart x) m"
  shows "keepsP P m"
proof (rule keepsPI)
  fix s :: "'a paystate_scheme"
  assume e: "P s"
  have "redeemstate.more (snd (m s)) = redeemstate.more s"
    using keepsPD [OF m, of "redeemstate.more s" s] by (simp add: apart_def)
  then have "pw_orders (snd (m s)) = pw_orders s" "pw_nextOrder (snd (m s)) = pw_nextOrder s" "paystate.more (snd (m s)) = paystate.more s"
    by (cases s; cases "snd (m s)"; auto elim!: substate.cases_scheme simp: redeemstate.defs)+
  then show "P (snd (m s))" by (rule tableD [OF P e])
qed

lemma keeps_table_db:
  assumes P: "table P" and act: "\<And>s. pw_orders (snd (act s)) = pw_orders s" "\<And>s. pw_nextOrder (snd (act s)) = pw_nextOrder s"
    "\<And>s. paystate.more (snd (act s)) = paystate.more s"
  shows "keepsP P (db tag act)"
proof (rule keeps_db)
  show "P (s\<lparr>e_faults := fs\<rparr>)" if "P s" for s fs by (rule tableD [OF P that]) simp_all
  show "keepsP P act" by (rule keepsPI) (rule tableD [OF P _ act])
qed

lemma keeps_table_modP:
  assumes P: "table P" and f: "\<And>s. pw_orders (f s) = pw_orders s" "\<And>s. pw_nextOrder (f s) = pw_nextOrder s"
    "\<And>s. paystate.more (f s) = paystate.more s"
  shows "keepsP P (modP f)"
  by (rule keeps_modP) (rule tableD [OF P _ f])

lemma quiet_tables [keeps]:
  assumes "table P"
  shows "keepsP P (orderGet i)" "keepsP P (orderByOutTradeNo no)" "keepsP P (hasAuditLog i a)"
    "keepsP P (writeAuditLog i a op)" "keepsP P (reward rw)" "keepsP P (recordPromotionUsage o' now)"
    "keepsP P (getOrderProviderInstance G o')" "keepsP P (checkCancelRateLimit u cfg)"
  unfolding orderGet_def orderByOutTradeNo_def hasAuditLog_def writeAuditLog_def reward_def
    recordPromotionUsage_def getOrderProviderInstance_def checkCancelRateLimit_def
  by (intro keeps keeps_table_db [OF assms] keeps_table_modP [OF assms]; simp add: modP_def getP_def)+

lemma quiet_others [keeps]:
  assumes "table P"
  shows "keepsP P (Redeem N u code mode)" "keepsP P (CreateCode N c)" "keepsP P (GenerateCodes N n v ty bytes)"
    "keepsP P (redeemDelete d)" "keepsP P (GetByCode code)" "keepsP P (userGetByID u)" "keepsP P (IsFirstRecharge u)"
    "keepsP P (UpdateBalance N u a)" "keepsP P (DeductBalance N u a)" "keepsP P (groupGetByID g)"
    "keepsP P (ApplyRedeemSubscription N b input)" "keepsP P (AssignOrExtendSubscription N b input')"
    "keepsP P (GetActiveSubscription N hit kept u g)" "keepsP P (ExtendSubscription d i2)" "keepsP P (RevokeSubscription d)"
  by (rule keeps_table_apart [OF assms]; rule keeps)+

lemma table_evo [keeps]: "table (evo os)"
  by (simp add: table_def evo_def wfOrders_def)

subsection \<open>Payments\<close>

lemma evo_ordersUpdate:
  assumes "\<And>x t. p x \<Longrightarrow> evolvedTo x ((f x)\<lparr>po_UpdatedAt := t\<rparr>)"
  shows "keepsP (evo os) (ordersUpdate p f)"
  unfolding ordersUpdate_def by (rule keeps_db) (auto simp: keepsP_def intro!: evo_update assms)

lemma step_path: "statusStep a b \<Longrightarrow> statusStep\<^sup>*\<^sup>* a b"
  by blast

lemma paths: "statusStep\<^sup>*\<^sup>* OrderStatusFailed OrderStatusPaid" "statusStep\<^sup>*\<^sup>* OrderStatusCompleted OrderStatusRefundRequested"
  by (rule step_path, rule statusStep.intros)+

lemma evo_updates [keeps]:
  "keepsP (evo os) (markCompleted o' a)" "keepsP (evo os) (markFailed i e)" "keepsP (evo os) (lockOrder i)"
  unfolding markCompleted_def markFailed_def lockOrder_def
  by (intro keeps evo_ordersUpdate; auto simp: evolvedTo_def intro!: step_path statusStep.intros)+

lemma evo_rewards [keeps]: "keepsP (evo os) (handleBalanceRechargeRewards o' b)"
  unfolding handleBalanceRechargeRewards_def handleSalesCommissionAfterBalanceCompleted_def by (intro keeps)

lemma evo_doBalance [keeps]: "keepsP (evo os) (doBalance N o')"
  unfolding doBalance_def by (auto split: redeemAction.split intro!: keeps)

lemma evo_doSub [keeps]: "keepsP (evo os) (doSub N o' g d)"
  unfolding doSub_def Let_def by (intro keeps)

lemma evo_orFailed [keeps]: "keepsP (evo os) m \<Longrightarrow> keepsP (evo os) (orFailed i m)"
  unfolding orFailed_def by (intro keeps)

lemma evo_execute [keeps]: "keepsP (evo os) (executeFulfillment N i)"
  unfolding executeFulfillment_def ExecuteBalanceFulfillment_def ExecuteSubscriptionFulfillment_def
  by (auto intro!: keeps split: option.split)

lemma evo_toPaid [keeps]: "keepsP (evo os) (toPaid N o' tn v pk)"
  unfolding toPaid_def alreadyProcessed_def
  by (intro keeps evo_ordersUpdate) (auto simp: evolvedTo_def payableNow_def intro!: step_path statusStep.intros)

lemma evo_confirm [keeps]: "keepsP (evo os) (confirmPayment N i tn v pk)"
  unfolding confirmPayment_def by (intro keeps)

lemma evo_notify [keeps]: "keepsP (evo os) (HandlePaymentNotification N n pk)"
  unfolding HandlePaymentNotification_def by (intro keeps)

lemma evo_retry [keeps]: "keepsP (evo os) (RetryFulfillment N i)"
  unfolding RetryFulfillment_def by (intro keeps evo_ordersUpdate) (auto simp: evolvedTo_def paths)

lemma evo_checkPaid [keeps]: "keepsP (evo os) (checkPaid N G o')"
  unfolding checkPaid_def Let_def by (auto intro!: keeps split: option.split sum.split prod.split)

lemma evo_cancelCore:
  "st \<in> {OrderStatusCancelled, OrderStatusExpired} \<Longrightarrow> keepsP (evo os) (cancelCore N G o' st op)"
  unfolding cancelCore_def
  by (intro keeps evo_ordersUpdate) (auto simp: evolvedTo_def intro!: step_path statusStep.intros)

lemma evo_cancel [keeps]: "keepsP (evo os) (CancelOrder N G i u)" "keepsP (evo os) (AdminCancelOrder N G i)"
  unfolding CancelOrder_def AdminCancelOrder_def by (intro keeps evo_cancelCore; simp)+

lemma evo_verify [keeps]: "keepsP (evo os) (VerifyOrderByOutTradeNo N G no u)" "keepsP (evo os) (VerifyOrderPublic N G no)"
  unfolding VerifyOrderByOutTradeNo_def VerifyOrderPublic_def verifyLoaded_def by (intro keeps)+

lemma evo_expire [keeps]: "keepsP (evo os) (ExpireTimedOutOrders N G)"
proof -
  have "keepsP (evo os) (expireLoop N G xs n)" for xs n
    by (induction xs arbitrary: n) (auto intro!: keeps evo_cancelCore)
  then show ?thesis
    unfolding ExpireTimedOutOrders_def by (intro keeps keeps_table_db) (simp_all add: getP_def)
qed

lemma evo_askRefund [keeps]: "keepsP (evo os) (RequestRefund N G i u reason)"
  unfolding RequestRefund_def validateRefundRequest_def
  by (auto intro!: keeps evo_ordersUpdate split: option.split prod.split simp: evolvedTo_def paths)

lemma evo_create: "po_Status o' \<noteq> OrderStatusPending \<Longrightarrow> keepsP (evo os) (orderCreate N o')"
  unfolding orderCreate_def by (rule keeps_db) (auto simp: keepsP_def Let_def intro!: evo_append)

lemma evo_offline [keeps]: "keepsP (evo os) (CreateOfflineRechargeOrder N req stamp)"
  unfolding CreateOfflineRechargeOrder_def
  by (intro keeps evo_create) (simp add: offlineOrder_def order_statuses Let_def)

subsection \<open>Refunds\<close>

text \<open>While a refund runs, its order is REFUNDING, and only the refund itself ends that.\<close>

definition held :: "int \<Rightarrow> PaymentOrder list \<times> 'a \<Rightarrow> 'a paystate_scheme \<Rightarrow> bool" where
  "held i os s \<longleftrightarrow> evo os s \<and> list_all (\<lambda>x. po_ID x = i \<longrightarrow> po_Status x = OrderStatusRefunding) (pw_orders s)"

lemma table_held [keeps]: "table (held i os)"
  by (simp add: table_def held_def evo_def wfOrders_def)

lemma held_evo: "held i os s \<Longrightarrow> evo os s"
  by (simp add: held_def)

lemma held_lock:
  "hoareP (evo os :: 'a paystate_scheme \<Rightarrow> bool) (ordersUpdate (\<lambda>x. po_ID x = i \<and> refundable (po_Status x)) (\<lambda>x. x\<lparr>po_Status := OrderStatusRefunding\<rparr>))
     (evo os) (\<lambda>c s. evo os s \<and> (c \<noteq> 0 \<longrightarrow> held i os s))"
  unfolding ordersUpdate_def
proof (rule hoareP_db)
  show "hoareP (evo os) (\<lambda>s :: 'a paystate_scheme. (Inr (length (filter (\<lambda>x. po_ID x = i \<and> refundable (po_Status x)) (pw_orders s))),
      setOrders (updRows (\<lambda>x. po_ID x = i \<and> refundable (po_Status x)) (\<lambda>x. x\<lparr>po_Status := OrderStatusRefunding, po_UpdatedAt := e_now s\<rparr>) (pw_orders s)) s))
      (evo os) (\<lambda>c s. evo os s \<and> (c \<noteq> 0 \<longrightarrow> held i os s))" (is "hoareP _ (\<lambda>s. (Inr (length (filter ?p _)), ?u s)) _ _")
  proof (rule hoarePI)
    fix s :: "'a paystate_scheme" and c s'
    assume e: "evo os s" and run: "(Inr (length (filter ?p (pw_orders s))) :: err + nat, ?u s) = (Inr c, s')"
    have u: "evo os (?u s)"
      by (rule evo_update [OF e]) (auto simp: evolvedTo_def intro!: step_path statusStep.refund)
    have "held i os (?u s)" if c: "c \<noteq> 0"
    proof -
      have "filter ?p (pw_orders s) \<noteq> []" using run c by auto
      then obtain y where y: "y \<in> set (pw_orders s)" "?p y" by (auto simp: filter_empty_conv)
      have "x = y" if "x \<in> set (pw_orders s)" "po_ID x = i" for x
        using e y that by (auto simp: evo_def wfOrders_def distinct_map inj_on_def)
      then show ?thesis
        using u y by (auto simp: held_def setOrders_def updRows_def list_all_iff)
    qed
    then show "evo os s' \<and> (c \<noteq> 0 \<longrightarrow> held i os s')" using u run by auto
  qed simp
qed simp_all

lemma held_settle:
  assumes "\<And>x t. po_Status x = OrderStatusRefunding \<Longrightarrow> evolvedTo x ((f x)\<lparr>po_UpdatedAt := t\<rparr>)"
  shows "hoareP (held i os) (orderUpdateOne i f) (evo os) (\<lambda>_. evo os)"
  unfolding orderUpdateOne_def
proof (rule hoareP_db)
  show "hoareP (held i os) (\<lambda>s. if list_ex (\<lambda>x. po_ID x = i) (pw_orders s)
      then (Inr (), setOrders (updRows (\<lambda>x. po_ID x = i) (\<lambda>x. (f x)\<lparr>po_UpdatedAt := e_now s\<rparr>) (pw_orders s)) s)
      else (Inl (Internal ''order not found''), s)) (evo os) (\<lambda>_. evo os)"
    by (rule hoarePI) (auto simp: held_def list_all_iff split: if_splits intro!: evo_update assms)
qed (simp_all add: held_def)

lemma settled_evolved:
  "st \<in> {OrderStatusCompleted, OrderStatusRefundRequested, OrderStatusRefundFailed, OrderStatusRefunded, OrderStatusPartiallyRefunded}
   \<Longrightarrow> statusStep\<^sup>*\<^sup>* OrderStatusRefunding st"
  by (rule step_path) (rule statusStep.settle)

lemma held_restore: "hoareP (held (rp_OrderID p) os) (restoreStatus p) E (\<lambda>_. evo os)"
  unfolding restoreStatus_def
  by (intro hoareP_ignore held_settle) (auto simp: evolvedTo_def intro!: settled_evolved)

lemma held_quiet: "keepsP (held i os) m \<Longrightarrow> hoareP (held i os) m (evo os) (\<lambda>_. held i os)"
  by (rule hoareP_post [OF hoareP_keeps]) (auto simp: held_def)

lemma held_quiet_both: "keepsP (held i os) m \<Longrightarrow> hoareP (held i os) m (held i os) (\<lambda>_. held i os)"
  by (rule hoareP_keeps)

lemma evo_quiet: "keepsP (evo os) m \<Longrightarrow> hoareP (evo os) m (evo os) (\<lambda>_. evo os)"
  by (rule hoareP_keeps)

lemma restore_fail: "hoareP (held (rp_OrderID p) os) (bindP (restoreStatus p) (\<lambda>_. fail e)) (evo os) Q"
  by (rule hoareP_bind [OF held_restore]) (rule hoareP_fail)

definition samePlan :: "int \<Rightarrow> PaymentOrder list \<times> 'a \<Rightarrow> RefundPlan \<Rightarrow> 'a paystate_scheme \<Rightarrow> bool" where
  "samePlan i os p s \<longleftrightarrow> held i os s \<and> rp_OrderID p = i"

lemma samePlan_ret: "rp_OrderID p = i \<Longrightarrow> hoareP (held i os) (ret p) E (samePlan i os)"
  by (rule hoareP_ret) (simp add: samePlan_def)

lemma held_deduct: "hoareP (held (rp_OrderID p) os) (deductStep N p) (evo os) (samePlan (rp_OrderID p) os)"
  unfolding deductStep_def
  by (intro hoareP_if hoareP_bind [OF held_quiet] hoareP_try [OF held_quiet_both] restore_fail samePlan_ret keeps) simp_all

lemma held_deductDays: "hoareP (held (rp_OrderID p) os) (deductDaysStep p) (evo os) (samePlan (rp_OrderID p) os)"
  unfolding deductDaysStep_def
  by (intro hoareP_if hoareP_bind [OF held_quiet] hoareP_try [OF held_quiet_both] restore_fail samePlan_ret keeps) simp_all

lemma held_gwRefund: "keepsP (held i os) (gwRefund G p)"
  unfolding gwRefund_def Let_def by (auto intro!: keeps split: option.split)

lemma held_rollback: "keepsP (held i os) (RollbackRefund N p)"
  unfolding RollbackRefund_def Let_def by (intro keeps)

lemma held_handleGwFail: "hoareP (held (rp_OrderID p) os) (handleGwFail N p e) (evo os) (\<lambda>_. evo os)"
  unfolding handleGwFail_def
proof (rule hoareP_bind [OF held_quiet [OF held_rollback]], rule hoareP_if)
  show "hoareP (held (rp_OrderID p) os) (bindP (restoreStatus p) (\<lambda>_. bindP (writeAuditLog (rp_OrderID p) ''REFUND_GATEWAY_FAILED'' ''admin'')
     (\<lambda>_. ret \<lparr>rr_Success = False, rr_RequireForce = False, rr_BalanceDeducted = Fin 0, rr_SubDaysDeducted = 0\<rparr>))) (evo os) (\<lambda>_. evo os)"
    by (rule hoareP_bind [OF held_restore]) (intro evo_quiet keeps)
  show "hoareP (held (rp_OrderID p) os) (bindP nowP (\<lambda>now. bindP (ignoreP (orderUpdateOne (rp_OrderID p)
     (\<lambda>x. x\<lparr>po_Status := OrderStatusRefundFailed, po_FailedAt := Some now, po_FailedReason := Some e\<rparr>)))
     (\<lambda>_. bindP (writeAuditLog (rp_OrderID p) ''REFUND_FAILED'' ''admin'') (\<lambda>_. fail (AppErr ''REFUND_FAILED''))))) (evo os) (\<lambda>_. evo os)"
    by (rule hoareP_nowP, rule hoareP_bind [OF hoareP_ignore [OF held_settle]])
      (auto simp: evolvedTo_def intro!: settled_evolved evo_quiet keeps)
qed

lemma held_markRefundOk: "hoareP (held (rp_OrderID p) os) (markRefundOk N p) (evo os) (\<lambda>_. evo os)"
  unfolding markRefundOk_def Let_def
  by (rule hoareP_nowP, rule hoareP_bind [OF held_settle]) (auto simp: evolvedTo_def intro!: settled_evolved evo_quiet keeps)

lemma evo_ExecuteRefund [keeps]: "keepsP (evo os :: 'a paystate_scheme \<Rightarrow> bool) (ExecuteRefund N G p)"
proof (rule keepsPI)
  fix s :: "'a paystate_scheme"
  assume e: "evo os s"
  have fin: "hoareP (samePlan (rp_OrderID p) os p2) (tryP (gwRefund G p2) (handleGwFail N p2) (\<lambda>_. markRefundOk N p2)) (evo os) (\<lambda>_. evo os)" for p2
    unfolding samePlan_def
    by (rule hoareP_pure, drule sym, simp, rule hoareP_try [OF held_quiet_both [OF held_gwRefund]])
      (rule held_handleGwFail held_markRefundOk)+
  have days: "hoareP (samePlan (rp_OrderID p) os p1) (deductDaysStep p1) (evo os) (samePlan (rp_OrderID p) os)" for p1
    unfolding samePlan_def [of _ _ p1] by (rule hoareP_pure, drule sym, simp, rule held_deductDays)
  have body: "hoareP (held (rp_OrderID p) os) (bindP (deductStep N p) (\<lambda>p1. bindP (deductDaysStep p1) (\<lambda>p2.
      tryP (gwRefund G p2) (handleGwFail N p2) (\<lambda>_. markRefundOk N p2)))) (evo os) (\<lambda>_. evo os)"
    by (rule hoareP_bind [OF held_deduct], rule hoareP_bind [OF days], rule fin)
  have "hoareP (evo os :: 'a paystate_scheme \<Rightarrow> bool) (ExecuteRefund N G p) (evo os) (\<lambda>_. evo os)"
    unfolding ExecuteRefund_def
  proof (rule hoareP_bind [OF held_lock])
    fix c :: nat
    show "hoareP (\<lambda>s :: 'a paystate_scheme. evo os s \<and> (c \<noteq> 0 \<longrightarrow> held (rp_OrderID p) os s)) (if c = 0 then fail ErrConflict
       else bindP (deductStep N p) (\<lambda>p1. bindP (deductDaysStep p1) (\<lambda>p2.
         tryP (gwRefund G p2) (handleGwFail N p2) (\<lambda>_. markRefundOk N p2)))) (evo os) (\<lambda>_. evo os)"
      using body by (cases "c = 0") (auto simp: hoareP_def fail_def)
  qed
  from hoareP_run [OF this e] show "evo os (snd (ExecuteRefund N G p s))" .
qed

lemma evo_PrepareRefund [keeps]: "keepsP (evo os) (PrepareRefund N D G hit kept oid amt reason force deduct)"
  unfolding PrepareRefund_def prepDeduct_def Let_def by (auto intro!: keeps split: option.split prod.split)

subsection \<open>Properties\<close>

text \<open>A refund is prepared and, unless it needs force, executed.\<close>

datatype orderOp = Pay paymentOp | Refund bool bool int f64 string bool bool | Offline OfflineRechargeRequest string

fun runOrderOp :: "pgnum \<Rightarrow> 'd decimal \<Rightarrow> gateways \<Rightarrow> orderOp \<Rightarrow> 'a paystate_scheme \<Rightarrow> err option \<times> 'a paystate_scheme" where
  "runOrderOp N D G (Pay op) s = runPaymentOp N G op s"
| "runOrderOp N D G (Refund hit kept oid amt reason force deduct) s = map_prod (case_sum Some (\<lambda>_. None)) id
     (bindP (PrepareRefund N D G hit kept oid amt reason force deduct)
       (\<lambda>r. case r of Inl res \<Rightarrow> ret res | Inr p \<Rightarrow> ExecuteRefund N G p) s)"
| "runOrderOp N D G (Offline req stamp) s = map_prod (case_sum Some (\<lambda>_. None)) id (CreateOfflineRechargeOrder N req stamp s)"

lemma runPaymentOp_evo: "evo os s \<Longrightarrow> evo os (snd (runPaymentOp N G op s))"
proof -
  assume e: "evo os s"
  note run = keepsPD [where P = "evo os", OF _ e]
  show ?thesis using e by (cases op) (simp_all add: run keeps)
qed

lemma runOrderOp_evo: "evo os s \<Longrightarrow> evo os (snd (runOrderOp N D G op s))"
proof -
  assume e: "evo os s"
  note run = keepsPD [where P = "evo os", OF _ e]
  have r: "keepsP (evo os) (bindP (PrepareRefund N D G hit kept oid amt reason force deduct)
       (\<lambda>r. case r of Inl res \<Rightarrow> ret res | Inr p \<Rightarrow> ExecuteRefund N G p))" for hit kept oid amt reason force deduct
    by (auto intro!: keeps split: sum.split)
  show ?thesis
  proof (cases op)
    case (Refund hit kept oid amt reason force deduct)
    then show ?thesis using run [OF r] by simp
  qed (use e in \<open>simp_all add: run keeps runPaymentOp_evo\<close>)
qed

lemma runOrders_evo: "wfOrders s \<Longrightarrow> evo (pw_orders s, paystate.more s) (snd (runOps (runOrderOp N D G) ops s))"
  by (rule runOps_keeps) (simp_all add: runOrderOp_evo evo_start)

text \<open>
  Every order, through any sequence of payments, cancellations, expiries, refunds and offline
  recharges with whatever failures, keeps its owner, amount, recharge code and what it is for, and its status
  only follows the steps of \<open>statusStep\<close>.
\<close>

theorem orders_follow_the_state_machine:
  assumes "wfOrders s"
  shows "list_all2 evolvedTo (pw_orders s) (List.take (length (pw_orders s)) (pw_orders (snd (runOps (runOrderOp N D G) ops s))))"
  using runOrders_evo [OF assms, of N D G ops] by (simp add: evo_def)

definition demoOrder :: PaymentOrder where
  "demoOrder = (offlineOrder \<lparr>or_UserID = 1, or_PayAmountCNY = Fin 10, or_CreditedAmount = Fin 10, or_CreditBalance = False\<rparr> ''x'' 0)
     \<lparr>po_ID := 1, po_RechargeCode := ''PAY-1-7'', po_OutTradeNo := ''sub2_x'', po_PaymentType := ''alipay'',
      po_Status := OrderStatusPending, po_PaidAt := None, po_CompletedAt := None, po_ExpiresAt := 100\<rparr>"

definition demoPay :: "PaymentOrder \<Rightarrow> paystate" where
  "demoPay x = redeemstate.extend demoRedeem (paystate.fields [x] 2 [] [] [])"

lemma demoPay_simps [simp]:
  "pw_orders (demoPay x) = [x]" "pw_nextOrder (demoPay x) = 2" "pw_audit (demoPay x) = []" "e_faults (demoPay x) = []"
  "rw_codes (demoPay x) = [demoCode]" "bw_balance (demoPay x) = [1 \<mapsto> Fin 8]" "e_now (demoPay x) = 5"
  by (simp_all add: demoPay_def demoRedeem_def redeemstate.defs paystate.defs)

lemma demoPay_wf: "po_ID x = 1 \<Longrightarrow> wfOrders (demoPay x)"
  by (simp add: wfOrders_def)

definition demoGateways :: gateways where
  "demoGateways = \<lparr>gw_flags = (\<lambda>_. None), gw_instance = (\<lambda>_. None), gw_registry = (\<lambda>_. None)\<rparr>"

theorem orders_follow_the_state_machine_witness:
  "\<exists>s :: paystate. wfOrders s \<and> pw_orders s = [demoOrder] \<and> list_all2 evolvedTo (pw_orders s) (List.take (length (pw_orders s))
     (pw_orders (snd (runOps (runOrderOp demoNum fracDecimal demoGateways) [Pay Expire, Pay (UserCancel 1 1)] s))))"
proof -
  have wf: "wfOrders (demoPay demoOrder)" by (rule demoPay_wf) (simp add: demoOrder_def)
  show ?thesis
    by (intro exI [of _ "demoPay demoOrder"] conjI wf orders_follow_the_state_machine [OF wf]) (rule demoPay_simps(1))
qed

text \<open>
  C19: an order that was once completed is never fulfilled again: it stays among the statuses after
  completion whatever is notified, retried or verified later, and when it is refunded, in part or in full, it stays exactly that.
\<close>

theorem completed_orders_stay_settled:
  assumes "wfOrders s" and "x \<in> set (pw_orders s)" and "settled (po_Status x)"
  shows "list_ex (\<lambda>y. po_ID y = po_ID x \<and> settled (po_Status y) \<and> (refundedStatus (po_Status x) \<longrightarrow> po_Status y = po_Status x))
    (pw_orders (snd (runOps (runOrderOp N D G) ops s)))"
proof -
  let ?os = "pw_orders (snd (runOps (runOrderOp N D G) ops s))"
  have e: "list_all2 evolvedTo (pw_orders s) (List.take (length (pw_orders s)) ?os)"
    using runOrders_evo [OF assms(1), of N D G ops] by (simp add: evo_def)
  from assms(2) obtain i where i: "i < length (pw_orders s)" "pw_orders s ! i = x" by (auto simp: in_set_conv_nth)
  with e have ev: "evolvedTo x (List.take (length (pw_orders s)) ?os ! i)" by (auto simp: list_all2_conv_all_nth)
  have "List.take (length (pw_orders s)) ?os ! i \<in> set ?os"
    using i list_all2_lengthD [OF e] by (metis in_set_takeD nth_mem)
  then show ?thesis
    using ev settled_stays assms(3) refunded_stays unfolding list_ex_iff evolvedTo_def by metis
qed

theorem completed_orders_stay_settled_witness:
  "\<exists>x. settled (po_Status x) \<and> list_ex (\<lambda>y. po_ID y = po_ID x \<and> settled (po_Status y) \<and> (refundedStatus (po_Status x) \<longrightarrow> po_Status y = po_Status x))
    (pw_orders (snd (runOps (runOrderOp demoNum fracDecimal demoGateways) [Pay (Retry 1)] (demoPay x))))"
proof -
  let ?x = "demoOrder\<lparr>po_Status := OrderStatusRefunded\<rparr>"
  have x: "?x \<in> set (pw_orders (demoPay ?x))" by simp
  have st: "settled (po_Status ?x)" by (simp add: settled_def)
  have wf: "wfOrders (demoPay ?x)" by (rule demoPay_wf) (simp add: demoOrder_def)
  show ?thesis
    by (intro exI [of _ ?x] conjI st completed_orders_stay_settled [OF wf x st])
qed

end
