(* ===== verification/PaymentBehaviour.thy ===== *)
theory PaymentBehaviour
  imports PaymentStates
begin

section \<open>What a payment and a refund do\<close>

subsection \<open>Wrong amounts\<close>

text \<open>\<open>t\<close> is \<open>s\<close> but for the audit log (and the faults used up).\<close>

definition onlyAudited :: "'a paystate_scheme \<Rightarrow> 'a paystate_scheme \<Rightarrow> bool" where
  "onlyAudited s t \<longleftrightarrow> t = s\<lparr>e_faults := e_faults t, pw_audit := pw_audit t\<rparr>"

lemma onlyAudited_refl: "onlyAudited s s"
  by (simp add: onlyAudited_def)

lemma onlyAudited_faults: "onlyAudited s t \<Longrightarrow> onlyAudited s (t\<lparr>e_faults := fs\<rparr>)"
  unfolding onlyAudited_def by (cases s; cases t) simp

lemma onlyAudited_audit: "onlyAudited s t \<Longrightarrow> onlyAudited s (t\<lparr>pw_audit := a\<rparr>)"
  unfolding onlyAudited_def by (cases s; cases t) simp

lemma onlyAudited_orders: "onlyAudited s t \<Longrightarrow> pw_orders t = pw_orders s"
  unfolding onlyAudited_def by (cases s; cases t) simp

lemma audited_write: "keepsP (onlyAudited s) (writeAuditLog i a op)"
  unfolding writeAuditLog_def by (intro keeps keeps_db keeps_modP onlyAudited_faults onlyAudited_audit)

lemma audited_orderGet:
  "hoareP (onlyAudited s) (orderGet i) (onlyAudited s) (\<lambda>x t. onlyAudited s t \<and> (x \<in> set (pw_orders s) \<and> po_ID x = i))"
proof (rule hoarePI)
  have k: "keepsP (onlyAudited s) (orderGet i)"
    unfolding orderGet_def by (rule keeps_db) (simp_all add: keepsP_def onlyAudited_faults)
  fix t e t'
  assume t: "onlyAudited s t"
  show "orderGet i t = (Inl e, t') \<Longrightarrow> onlyAudited s t'" using keepsPD [OF k t] by simp
  fix x
  assume g: "orderGet i t = (Inr x, t')"
  then have t': "onlyAudited s t'" using keepsPD [OF k t] by simp
  from g have "onlyRow (Internal ''order not found'') (\<lambda>x. po_ID x = i) (pw_orders t) = Inr x"
    unfolding orderGet_def by (elim db_Inr) simp
  from onlyRow_Inr [OF this] show "onlyAudited s t' \<and> (x \<in> set (pw_orders s) \<and> po_ID x = i)"
    unfolding onlyAudited_orders [OF t] using t' by blast
qed

text \<open>
  A notification that reports an amount more than a cent away from what the order has to be
  paid changes nothing but the audit log, whatever the order's status is.
\<close>

theorem wrong_amount_changes_nothing:
  assumes "reported paid"
    and "list_all (\<lambda>x. po_ID x = oid \<longrightarrow> flt amountToleranceCNY (fabs (fsub paid (po_PayAmount x)))) (pw_orders s)"
  shows "onlyAudited s (snd (confirmPayment N oid tradeNo paid pk s))"
proof -
  have "hoareP (onlyAudited s) (confirmPayment N oid tradeNo paid pk) (onlyAudited s) (\<lambda>_. onlyAudited s)"
    unfolding confirmPayment_def
  proof (rule hoareP_try [OF audited_orderGet], rule hoareP_ret, assumption, rule hoareP_pure)
    fix x
    assume "x \<in> set (pw_orders s) \<and> po_ID x = oid"
    then have wrong: "flt amountToleranceCNY (fabs (fsub paid (po_PayAmount x)))" using assms(2) by (simp add: list_all_iff)
    have "hoareP (onlyAudited s) (bindP (writeAuditLog (po_ID x) ''PAYMENT_AMOUNT_MISMATCH'' pk) (\<lambda>_. fail (Internal ''amount mismatch'')))
       (onlyAudited s) (\<lambda>_. onlyAudited s)"
      by (rule hoareP_bind [OF hoareP_keeps [OF audited_write]]) (rule hoareP_fail)
    then show "hoareP (onlyAudited s) (if reported paid \<and> flt amountToleranceCNY (fabs (fsub paid (po_PayAmount x)))
       then bindP (writeAuditLog (po_ID x) ''PAYMENT_AMOUNT_MISMATCH'' pk) (\<lambda>_. fail (Internal ''amount mismatch''))
       else toPaid N x tradeNo (if reported paid then paid else po_PayAmount x) pk) (onlyAudited s) (\<lambda>_. onlyAudited s)"
      using wrong assms(1) by simp
  qed
  from hoareP_run [OF this onlyAudited_refl] show ?thesis .
qed

text \<open>Rounding is monotone, so the tolerance lies between 0 and 1.\<close>

lemma tolerance_range: "fle (Fin 0) amountToleranceCNY" "fle amountToleranceCNY (Fin 1)"
proof -
  have "fle (fl 0) (fl (1 / 100))" "fle (fl (1 / 100)) (fl 1)" by (rule fl_mono; simp)+
  then show "fle (Fin 0) amountToleranceCNY" "fle amountToleranceCNY (Fin 1)"
    unfolding amountToleranceCNY_def fl_0 fl_numeral(3) .
qed

lemma tolerance_small: "flt amountToleranceCNY (Fin 3)" "\<not> flt amountToleranceCNY (Fin 0)"
proof -
  have "fle a (Fin 1) \<Longrightarrow> flt a (Fin 3)" for a by (cases a) simp_all
  then show "flt amountToleranceCNY (Fin 3)" using tolerance_range(2) .
  show "\<not> flt amountToleranceCNY (Fin 0)" by (rule fle_not_flt [OF tolerance_range(1)])
qed

theorem wrong_amount_changes_nothing_witness:
  "onlyAudited (demoPay demoOrder) (snd (confirmPayment demoNum 1 ''t'' (Fin 7) ''alipay'' (demoPay demoOrder)))"
proof (rule wrong_amount_changes_nothing)
  have "fabs (fsub (Fin 7) (Fin 10)) = Fin 3" by (simp add: fsub_def)
  then show "list_all (\<lambda>x. po_ID x = 1 \<longrightarrow> flt amountToleranceCNY (fabs (fsub (Fin 7) (po_PayAmount x)))) (pw_orders (demoPay demoOrder))"
    using tolerance_small by (simp add: demoOrder_def offlineOrder_def Let_def)
qed (simp add: reported_def)

end
