(* ===== verification/PaymentCredit.thy ===== *)
theory PaymentCredit
  imports PaymentBehaviour
begin

section \<open>A paid order is credited\<close>

text \<open>
  When the database answers, a notification of the right amount for a pending balance order ends
  with the order completed, its code used and its amount on the balance.
\<close>

lemma db_unhindered [simp]: "e_faults s = [] \<Longrightarrow> db tag act s = act s"
  by (simp add: db_def)

text \<open>What the redemption of a code depends on, and the rows of one order.\<close>

definition kit where
  "kit s = (e_faults s, ledger s, rw_nextCode s, rw_cacheOn s, rw_attempts s, rw_locks s)"

definition orderRow :: "int \<Rightarrow> 'a paystate_scheme \<Rightarrow> PaymentOrder list" where
  "orderRow i s = filter (\<lambda>x. po_ID x = i) (pw_orders s)"

lemma kit_faults: "kit s' = kit s \<Longrightarrow> e_faults s' = e_faults s \<and> e_now s' = e_now s"
  by (simp add: kit_def ledger_def)

subsection \<open>The order table\<close>

lemma orderGet_ok: "e_faults s = [] \<Longrightarrow> orderRow i s = [x] \<Longrightarrow> orderGet i s = (Inr x, s)"
  by (simp add: orderGet_def orderRow_def onlyRow_def)

lemma orderRow_ID: "orderRow i s = [x] \<Longrightarrow> po_ID x = i"
proof -
  assume "orderRow i s = [x]"
  then have "x \<in> set (filter (\<lambda>x. po_ID x = i) (pw_orders s))" by (simp add: orderRow_def)
  then show ?thesis by simp
qed

lemma filter_updRows_other: "(\<And>r. P (if p r then f r else r) = P r) \<Longrightarrow> filter P (updRows p f rows) = updRows p f (filter P rows)"
  by (induction rows) (simp_all add: updRows_def)

lemma ordersUpdate_ok:
  assumes "e_faults s = []" and x: "orderRow i s = [x]" and p: "p x" and f: "\<And>y. po_ID (f y) = po_ID y"
  shows "\<exists>n s'. ordersUpdate p f s = (Inr (Suc n), s') \<and> kit s' = kit s \<and> orderRow i s' = [(f x)\<lparr>po_UpdatedAt := e_now s\<rparr>]"
proof -
  have "x \<in> set (filter (\<lambda>y. po_ID y = i) (pw_orders s))" using x by (simp add: orderRow_def)
  then have "x \<in> set (filter p (pw_orders s))" using p by simp
  then obtain n where n: "length (filter p (pw_orders s)) = Suc n" by (cases "filter p (pw_orders s)") auto
  let ?s = "setOrders (updRows p (\<lambda>x. (f x)\<lparr>po_UpdatedAt := e_now s\<rparr>) (pw_orders s)) s"
  have "orderRow i ?s = updRows p (\<lambda>x. (f x)\<lparr>po_UpdatedAt := e_now s\<rparr>) (orderRow i s)"
    unfolding orderRow_def setOrders_def by (simp add: filter_updRows_other f)
  then have "orderRow i ?s = [(f x)\<lparr>po_UpdatedAt := e_now s\<rparr>]" using x p by (simp add: updRows_def)
  moreover have "kit ?s = kit s" by (simp add: kit_def ledger_def setOrders_def)
  ultimately show ?thesis using assms(1) n by (simp add: ordersUpdate_def)
qed

lemma writeAuditLog_ok:
  "e_faults s = [] \<Longrightarrow> \<exists>s'. writeAuditLog j action op s = (Inr (), s') \<and> kit s' = kit s \<and> orderRow i s' = orderRow i s"
  by (simp add: writeAuditLog_def ignoreP_def modP_def kit_def ledger_def orderRow_def)

lemma reward_ok: "\<exists>s'. reward r s = (Inr (), s') \<and> kit s' = kit s \<and> orderRow i s' = orderRow i s"
  by (simp add: reward_def modP_def kit_def ledger_def orderRow_def)

lemma rewards_ok: "\<exists>s'. handleBalanceRechargeRewards o' b s = (Inr (), s') \<and> kit s' = kit s \<and> orderRow i s' = orderRow i s"
  unfolding handleBalanceRechargeRewards_def handleSalesCommissionAfterBalanceCompleted_def
  by (cases b) (simp_all add: bindP_def reward_def modP_def ret_def kit_def ledger_def orderRow_def)

lemma recordPromotionUsage_ok:
  "e_faults s = [] \<Longrightarrow> \<exists>s'. recordPromotionUsage o' t s = (Inr (), s') \<and> kit s' = kit s \<and> orderRow i s' = orderRow i s"
  unfolding recordPromotionUsage_def writeAuditLog_def
  by (cases "po_PromotionID o'")
    (simp_all add: bindP_def tryP_def getP_def ignoreP_def modP_def ret_def kit_def ledger_def orderRow_def)

lemma markCompleted_ok:
  assumes "e_faults s = []" and "orderRow i s = [x]" and "po_Status x = OrderStatusRecharging" and "po_ID o' = i"
  obtains s' x' where "markCompleted o' action s = (Inr (), s')" "kit s' = kit s" "orderRow i s' = [x']" "po_Status x' = OrderStatusCompleted"
proof -
  have "po_ID x = i" using orderRow_ID assms(2) .
  obtain n s1 where 1: "ordersUpdate (\<lambda>x. po_ID x = po_ID o' \<and> po_Status x = OrderStatusRecharging)
      (\<lambda>x. x\<lparr>po_Status := OrderStatusCompleted, po_CompletedAt := Some (e_now s)\<rparr>) s = (Inr (Suc n), s1)" "kit s1 = kit s"
      and r1: "orderRow i s1 = [x\<lparr>po_Status := OrderStatusCompleted, po_CompletedAt := Some (e_now s), po_UpdatedAt := e_now s\<rparr>]"
    using ordersUpdate_ok [OF assms(1,2), where p = "\<lambda>x. po_ID x = po_ID o' \<and> po_Status x = OrderStatusRecharging"
       and f = "\<lambda>x. x\<lparr>po_Status := OrderStatusCompleted, po_CompletedAt := Some (e_now s)\<rparr>"] assms(3,4) \<open>po_ID x = i\<close> by auto
  have f1: "e_faults s1 = []" using kit_faults [OF 1(2)] assms(1) by simp
  obtain s2 where 2: "writeAuditLog (po_ID o') action ''system'' s1 = (Inr (), s2)" "kit s2 = kit s1" "orderRow i s2 = orderRow i s1"
    using writeAuditLog_ok [OF f1] by blast
  have f2: "e_faults s2 = []" using kit_faults [OF 2(2)] f1 by simp
  obtain s3 where 3: "recordPromotionUsage o' (e_now s) s2 = (Inr (), s3)" "kit s3 = kit s2" "orderRow i s3 = orderRow i s2"
    using recordPromotionUsage_ok [OF f2] by blast
  show thesis
  proof (rule that [of s3])
    show "markCompleted o' action s = (Inr (), s3)" using 1(1) 2(1) 3(1) by (simp add: markCompleted_def bindP_def nowP_def getP_def)
    show "kit s3 = kit s" using 1 2 3 by simp
    show "orderRow i s3 = [x\<lparr>po_Status := OrderStatusCompleted, po_CompletedAt := Some (e_now s), po_UpdatedAt := e_now s\<rparr>]"
      using r1 2 3 by simp
  qed simp
qed

subsection \<open>Redeeming the order's code\<close>

text \<open>Nothing in Redis keeps this user from redeeming this code now.\<close>

definition unhindered :: "int \<Rightarrow> string \<Rightarrow> 'a redeemstate_scheme \<Rightarrow> bool" where
  "unhindered user code s \<longleftrightarrow> e_faults s = [] \<and> (rw_cacheOn s \<longrightarrow> attemptCount user s < redeemMaxErrorsPerHour \<and> \<not> lockHeld code s)"

lemma unhindered_kit: "kit s' = kit s \<Longrightarrow> unhindered user code s' = unhindered user code s"
  by (auto simp: unhindered_def kit_def attemptCount_def lockHeld_def ledger_def split: option.splits)

lemma Redeem_ok:
  fixes s :: "'a paystate_scheme"
  assumes un: "unhindered user code s"
    and c: "filter (\<lambda>x. rc_Code x = code) (rw_codes s) = [c]" "filter (\<lambda>x. rc_ID x = rc_ID c) (rw_codes s) = [c]"
      "rc_Status c = StatusUnused" "rc_Type c = RedeemTypeBalance"
    and v: "\<not> flt (rc_Value c) (Fin 0)" and b: "bw_balance s user = Some b"
  obtains c' s' where "Redeem N user code [] s = (Inr c', s')" "e_faults s' = []" "pw_orders s' = pw_orders s" "e_now s' = e_now s"
    "bw_balance s' = (bw_balance s)(user \<mapsto> n_store8 N (n_plus N b (rc_Value c)))" "usedCode code s'"
proof -
  let ?used = "\<lambda>x. rc_ID x = rc_ID c \<and> rc_Status x = StatusUnused"
  have f: "e_faults s = []" using un by (simp add: unhindered_def)
  have "c \<in> set (filter (\<lambda>x. rc_Code x = code) (rw_codes s))" by (simp add: c(1))
  then have mem: "c \<in> set (rw_codes s)" and code: "rc_Code c = code" by simp_all
  have ex: "list_ex ?used (rw_codes s)" using mem c(3) by (auto simp: list_ex_iff)
  have after: "filter (\<lambda>x. rc_ID x = rc_ID c) (updRows ?used (markUsed user t m) (rw_codes s)) = [markUsed user t m c]" for t m
    by (subst filter_updRows_other) (simp_all add: markUsed_def c updRows_def)
  have one: "onlyRow e (\<lambda>x. rc_Code x = code) (rw_codes s) = Inr c" for e by (simp add: onlyRow_def c)
  have two: "onlyRow e (\<lambda>x. rc_ID x = rc_ID c) (updRows ?used (markUsed user t m) (rw_codes s)) = Inr (markUsed user t m c)" for e t m
    by (simp add: onlyRow_def after)
  have mode: "redeemMode N user c m t = (Inr None, t)" for m and t :: "'a paystate_scheme"
    using c(4) by (cases "rc_GroupID c") (simp_all add: redeemMode_def ret_def RedeemTypeBalance_def RedeemTypeSubscription_def)
  note eval = Redeem_def checkRedeemRateLimit_def acquireRedeemLock_def releaseRedeemLock_def redeemLocked_def
    codeGetByCode_def codeGetByID_def userGetByID_def redeemTx_def codeUse_def redeemPay_def
    invalidateRedeemCaches_def UpdateBalance_def CanUse_def withTx_def bindP_def tryP_def ignoreP_def ret_def fail_def getP_def modP_def Let_def
  let ?s' = "snd (Redeem N user code [] s)"
  have "fst (Redeem N user code [] s) = Inr (markUsed user (e_now s) None c) \<and> e_faults ?s' = [] \<and> pw_orders ?s' = pw_orders s \<and> e_now ?s' = e_now s
      \<and> bw_balance ?s' = (bw_balance s)(user \<mapsto> n_store8 N (n_plus N b (rc_Value c)))
      \<and> rw_codes ?s' = updRows ?used (markUsed user (e_now s) None) (rw_codes s)"
  proof (cases "rw_cacheOn s")
    case True
    then show ?thesis using un f c(3,4) v b ex
      by (simp add: eval mode one two unhindered_def RedeemTypeBalance_def RedeemTypeSubscription_def split del: if_split cong: if_cong option.case_cong)
  next
    case False
    then show ?thesis using f c(3,4) v b ex
      by (simp add: eval mode one two RedeemTypeBalance_def RedeemTypeSubscription_def split del: if_split cong: if_cong option.case_cong)
  qed
  then obtain c' s' where R: "Redeem N user code [] s = (Inr c', s')" "e_faults s' = []" "pw_orders s' = pw_orders s" "e_now s' = e_now s"
    "bw_balance s' = (bw_balance s)(user \<mapsto> n_store8 N (n_plus N b (rc_Value c)))"
    "rw_codes s' = updRows ?used (markUsed user (e_now s) None) (rw_codes s)"
    by (metis prod.collapse)
  have "usedCode code s'"
    unfolding usedCode_def R(6) list_ex_updRows_iff unfolding list_ex_iff
    by (rule bexI [OF _ mem]) (simp add: code c(3) markUsed_def codeIsUsed_def)
  with R show thesis by (intro that)
qed

text \<open>The code of an order: no code of that text yet, and a text the column takes.\<close>

definition freshCode :: "string \<Rightarrow> 'a redeemstate_scheme \<Rightarrow> bool" where
  "freshCode code s \<longleftrightarrow> filter (\<lambda>c. rc_Code c = code) (rw_codes s) = [] \<and> list_all (\<lambda>c. rc_ID c < rw_nextCode s) (rw_codes s)
     \<and> code \<noteq> [] \<and> length code \<le> 32 \<and> trimSpace code = code"

lemma freshCode_kit: "kit s' = kit s \<Longrightarrow> freshCode code s' = freshCode code s"
  by (simp add: freshCode_def kit_def ledger_def)

lemma CreateCode_ok:
  assumes f: "e_faults s = []" and code: "freshCode code s" and v: "\<not> feq v (Fin 0)"
  defines "c \<equiv> blankCode\<lparr>rc_Code := code, rc_Type := RedeemTypeBalance, rc_Value := v, rc_Status := StatusUnused\<rparr>"
  shows "\<exists>c'. CreateCode N c s = (Inr c', s\<lparr>rw_codes := rw_codes s @ [c\<lparr>rc_ID := rw_nextCode s, rc_CreatedAt := e_now s, rc_Value := n_store8 N v\<rparr>],
     rw_nextCode := rw_nextCode s + 1\<rparr>)"
proof -
  have "\<not> list_ex (\<lambda>x. rc_Code x = code) (rw_codes s)"
    using code by (auto simp: freshCode_def filter_empty_conv list_ex_iff)
  then show ?thesis
    using assms by (simp add: CreateCode_def codeCreate_def codeColumnsOk_def freshCode_def blankCode_def Let_def
      RedeemTypeBalance_def RedeemTypeInvitation_def StatusUnused_def)
qed

lemma doBalance_ok:
  fixes s :: "'a paystate_scheme"
  assumes un: "unhindered (po_UserID o') (po_RechargeCode o') s" and fresh: "freshCode (po_RechargeCode o') s"
    and v: "\<not> feq (po_Amount o') (Fin 0)" "\<not> flt (n_store8 N (po_Amount o')) (Fin 0)"
    and b: "bw_balance s (po_UserID o') = Some b"
    and x: "orderRow i s = [x]" "po_Status x = OrderStatusRecharging" "po_ID o' = i"
  shows "\<exists>s' x'. doBalance N o' s = (Inr (), s') \<and> orderRow i s' = [x'] \<and> po_Status x' = OrderStatusCompleted
    \<and> bw_balance s' = (bw_balance s)(po_UserID o' \<mapsto> n_store8 N (n_plus N b (n_store8 N (po_Amount o'))))
    \<and> usedCode (po_RechargeCode o') s'"
proof -
  let ?code = "po_RechargeCode o'"
  have f: "e_faults s = []" using un by (simp add: unhindered_def)
  have "GetByCode ?code s = (Inl ErrRedeemCodeNotFound, s)"
    using f fresh by (simp add: GetByCode_def codeGetByCode_def onlyRow_def freshCode_def)
  then have get: "tryP (GetByCode ?code) (\<lambda>e. ret (Inl e)) (\<lambda>c. ret (Inr c)) s = (Inr (Inl ErrRedeemCodeNotFound), s)"
    by (simp add: tryP_def ret_def)
  let ?c = "blankCode\<lparr>rc_Code := ?code, rc_Type := RedeemTypeBalance, rc_Value := po_Amount o', rc_Status := StatusUnused\<rparr>"
  let ?row = "?c\<lparr>rc_ID := rw_nextCode s, rc_CreatedAt := e_now s, rc_Value := n_store8 N (po_Amount o')\<rparr>"
  let ?s1 = "s\<lparr>rw_codes := rw_codes s @ [?row], rw_nextCode := rw_nextCode s + 1\<rparr>"
  obtain c' where 1: "CreateCode N ?c s = (Inr c', ?s1)" using CreateCode_ok [OF f fresh v(1)] by blast
  obtain isFirst where 2: "tryP (IsFirstRecharge (po_UserID o')) (\<lambda>_. ret False) ret ?s1 = (Inr isFirst, ?s1)"
    using f b by (simp add: IsFirstRecharge_def tryP_def ret_def)
  have un1: "unhindered (po_UserID o') ?code ?s1" using un by (auto simp: unhindered_def attemptCount_def lockHeld_def split: option.splits)
  have ids: "filter (\<lambda>x. rc_ID x = rw_nextCode s) (rw_codes s) = []"
    using fresh by (auto simp: freshCode_def list_all_iff filter_empty_conv)
  obtain r s3 where 3: "Redeem N (po_UserID o') ?code [] ?s1 = (Inr r, s3)" "e_faults s3 = []" "pw_orders s3 = pw_orders ?s1"
      "bw_balance s3 = (bw_balance ?s1)(po_UserID o' \<mapsto> n_store8 N (n_plus N b (rc_Value ?row)))" "usedCode ?code s3"
    by (rule Redeem_ok [OF un1, of ?row b]) (use fresh ids v(2) b in \<open>simp_all add: freshCode_def\<close>)
  have row3: "orderRow i s3 = [x]" using x(1) 3(3) by (simp add: orderRow_def)
  obtain s4 x4 where 4: "markCompleted o' ''RECHARGE_SUCCESS'' s3 = (Inr (), s4)" "kit s4 = kit s3" "orderRow i s4 = [x4]" "po_Status x4 = OrderStatusCompleted"
    using markCompleted_ok [OF 3(2) row3 x(2,3)] by blast
  obtain s5 where 5: "handleBalanceRechargeRewards o' isFirst s4 = (Inr (), s5)" "kit s5 = kit s4" "orderRow i s5 = orderRow i s4"
    using rewards_ok by blast
  have "doBalance N o' s = (Inr (), s5)"
    using get 1 2 3(1) 4(1) 5(1) by (simp add: doBalance_def bindP_def resolveRedeemAction_def ret_def)
  moreover have "bw_balance s5 = bw_balance s3" "usedCode ?code s5"
    using 3(5) 4(2) 5(2) by (simp_all add: kit_def ledger_def usedCode_def)
  ultimately show ?thesis using 3(4) 4(3,4) 5(3) by auto
qed

subsection \<open>The notification\<close>

lemma ExecuteBalance_ok:
  fixes s :: "'a paystate_scheme"
  assumes un: "unhindered (po_UserID x) (po_RechargeCode x) s" and fresh: "freshCode (po_RechargeCode x) s"
    and v: "\<not> feq (po_Amount x) (Fin 0)" "\<not> flt (n_store8 N (po_Amount x)) (Fin 0)"
    and b: "bw_balance s (po_UserID x) = Some b"
    and x: "orderRow (po_ID x) s = [x]" "po_Status x = OrderStatusPaid" "po_OrderType x = OrderTypeBalance"
  shows "\<exists>s' y. executeFulfillment N (po_ID x) s = (Inr (), s') \<and> orderRow (po_ID x) s' = [y] \<and> po_Status y = OrderStatusCompleted
    \<and> bw_balance s' = (bw_balance s)(po_UserID x \<mapsto> n_store8 N (n_plus N b (n_store8 N (po_Amount x))))
    \<and> usedCode (po_RechargeCode x) s'"
proof -
  have f: "e_faults s = []" using un by (simp add: unhindered_def)
  let ?p = "\<lambda>y. po_ID y = po_ID x \<and> po_Status y \<in> {OrderStatusPaid, OrderStatusFailed}"
  obtain n s1 where 1: "ordersUpdate ?p (\<lambda>y. y\<lparr>po_Status := OrderStatusRecharging\<rparr>) s = (Inr (Suc n), s1)" "kit s1 = kit s"
      "orderRow (po_ID x) s1 = [x\<lparr>po_Status := OrderStatusRecharging, po_UpdatedAt := e_now s\<rparr>]"
    using ordersUpdate_ok [OF f x(1), where p = ?p and f = "\<lambda>y. y\<lparr>po_Status := OrderStatusRecharging\<rparr>"] x(2) by auto
  have b1: "bw_balance s1 = bw_balance s" using 1(2) by (simp add: kit_def ledger_def)
  obtain s2 y where 2: "doBalance N x s1 = (Inr (), s2)" "orderRow (po_ID x) s2 = [y]" "po_Status y = OrderStatusCompleted"
      "bw_balance s2 = (bw_balance s1)(po_UserID x \<mapsto> n_store8 N (n_plus N b (n_store8 N (po_Amount x))))" "usedCode (po_RechargeCode x) s2"
    using doBalance_ok [of x s1 N b "po_ID x"] un fresh v b b1 1(3) unhindered_kit [OF 1(2)] freshCode_kit [OF 1(2)] by auto
  have "lockOrder (po_ID x) s = (Inr True, s1)" using 1(1) by (simp add: lockOrder_def bindP_def ret_def)
  moreover have "orFailed (po_ID x) (doBalance N x) s1 = (Inr (), s2)" using 2(1) by (simp add: orFailed_def tryP_def ret_def)
  ultimately have "ExecuteBalanceFulfillment N (po_ID x) s = (Inr (), s2)"
    using orderGet_ok [OF f x(1)] x(2)
    by (simp add: ExecuteBalanceFulfillment_def tryP_def bindP_def psIsRefundStatus_def order_statuses)
  then have "executeFulfillment N (po_ID x) s = (Inr (), s2)"
    using orderGet_ok [OF f x(1)] x(3) by (simp add: executeFulfillment_def bindP_def OrderTypeBalance_def OrderTypeSubscription_def)
  with 2 b1 show ?thesis by auto
qed

lemma notification_credits:
  assumes "unhindered (po_UserID x) (po_RechargeCode x) s" and "freshCode (po_RechargeCode x) s"
    and "\<not> feq (po_Amount x) (Fin 0)" and "\<not> flt (n_store8 N (po_Amount x)) (Fin 0)"
    and "bw_balance s (po_UserID x) = Some b"
    and x: "filter (\<lambda>y. po_OutTradeNo y = n_OrderID n) (pw_orders s) = [x]" "orderRow (po_ID x) s = [x]"
      "po_Status x = OrderStatusPending" "po_OrderType x = OrderTypeBalance"
    and n: "n_Status n = ''success''" "length (n_TradeNo n) \<le> 128"
      "\<not> flt amountToleranceCNY (fabs (fsub (n_Amount n) (po_PayAmount x)))"
  shows "\<exists>s' y. HandlePaymentNotification N n pk s = (Inr (), s') \<and> orderRow (po_ID x) s' = [y] \<and> po_Status y = OrderStatusCompleted
    \<and> bw_balance s' = (bw_balance s)(po_UserID x \<mapsto> n_store8 N (n_plus N b (n_store8 N (po_Amount x))))
    \<and> usedCode (po_RechargeCode x) s'"
proof -
  have f: "e_faults s = []" using assms(1) by (simp add: unhindered_def)
  let ?v = "if reported (n_Amount n) then n_Amount n else po_PayAmount x"
  let ?p = "\<lambda>y. po_ID y = po_ID x \<and> payableNow (e_now s) y"
  let ?f = "\<lambda>y. y\<lparr>po_Status := OrderStatusPaid, po_PayAmount := n_store2 N ?v, po_PaymentTradeNo := n_TradeNo n,
     po_PaidAt := Some (e_now s), po_FailedAt := None, po_FailedReason := None\<rparr>"
  obtain k s1 where 1: "ordersUpdate ?p ?f s = (Inr (Suc k), s1)" "kit s1 = kit s"
      "orderRow (po_ID x) s1 = [(?f x)\<lparr>po_UpdatedAt := e_now s\<rparr>]"
    using ordersUpdate_ok [OF f x(2), where p = ?p and f = ?f] x(3) by (auto simp: payableNow_def)
  have f1: "e_faults s1 = []" using kit_faults [OF 1(2)] f by simp
  obtain s2 where 2: "writeAuditLog (po_ID x) ''ORDER_PAID'' pk s1 = (Inr (), s2)" "kit s2 = kit s1" "orderRow (po_ID x) s2 = orderRow (po_ID x) s1"
    using writeAuditLog_ok [OF f1] by blast
  let ?x = "(?f x)\<lparr>po_UpdatedAt := e_now s\<rparr>"
  have k2: "kit s2 = kit s" using 1(2) 2(2) by simp
  have b2: "bw_balance s2 = bw_balance s" using k2 by (simp add: kit_def ledger_def)
  obtain s3 y where 3: "executeFulfillment N (po_ID x) s2 = (Inr (), s3)" "orderRow (po_ID x) s3 = [y]" "po_Status y = OrderStatusCompleted"
      "bw_balance s3 = (bw_balance s2)(po_UserID x \<mapsto> n_store8 N (n_plus N b (n_store8 N (po_Amount x))))" "usedCode (po_RechargeCode x) s3"
    using ExecuteBalance_ok [of ?x s2 N b] assms(1-5) b2 1(3) 2(3) x(4) unhindered_kit [OF k2] freshCode_kit [OF k2] by auto
  have "toPaid N x (n_TradeNo n) ?v pk s = (Inr (), s3)"
    using 1(1) 2(1) 3(1) n(2) x(3)
    by (simp add: toPaid_def bindP_def nowP_def getP_def ret_def order_statuses)
  then have "confirmPayment N (po_ID x) (n_TradeNo n) (n_Amount n) pk s = (Inr (), s3)"
    using orderGet_ok [OF f x(2)] n(3) by (simp add: confirmPayment_def tryP_def)
  moreover have "orderByOutTradeNo (n_OrderID n) s = (Inr x, s)"
    using f x(1) by (simp add: orderByOutTradeNo_def onlyRow_def)
  ultimately have "HandlePaymentNotification N n pk s = (Inr (), s3)"
    using n(1) by (simp add: HandlePaymentNotification_def tryP_def)
  with 3 b2 show ?thesis by auto
qed

text \<open>
  When the database answers, a notification of a success with the right amount for a pending balance order
  (whose code is new, and whose user is not kept from redeeming by Redis) succeeds: the order
  ends COMPLETED, its recharge code is used, and its amount is on the balance, nobody else's balance changed.
\<close>

theorem paid_order_is_credited:
  assumes "unhindered (po_UserID x) (po_RechargeCode x) s" and "freshCode (po_RechargeCode x) s"
    and "\<not> feq (po_Amount x) (Fin 0)" and "\<not> flt (n_store8 N (po_Amount x)) (Fin 0)"
    and "bw_balance s (po_UserID x) = Some b"
    and x: "filter (\<lambda>y. po_OutTradeNo y = n_OrderID n) (pw_orders s) = [x]" "orderRow (po_ID x) s = [x]"
      "po_Status x = OrderStatusPending" "po_OrderType x = OrderTypeBalance"
    and n: "n_Status n = ''success''" "length (n_TradeNo n) \<le> 128"
      "\<not> flt amountToleranceCNY (fabs (fsub (n_Amount n) (po_PayAmount x)))"
  shows "\<exists>s' y. HandlePaymentNotification N n pk s = (Inr (), s') \<and> orderRow (po_ID x) s' = [y] \<and> po_Status y = OrderStatusCompleted
    \<and> bw_balance s' = (bw_balance s)(po_UserID x \<mapsto> n_store8 N (n_plus N b (n_store8 N (po_Amount x))))
    \<and> usedCode (po_RechargeCode x) s'"
  using assms by (rule notification_credits)

definition demoNotice :: PaymentNotification where
  "demoNotice = \<lparr>n_TradeNo = ''T'', n_OrderID = ''sub2_x'', n_Amount = Fin 10, n_Status = ''success''\<rparr>"

theorem paid_order_is_credited_witness:
  "\<exists>s' y. HandlePaymentNotification demoNum demoNotice ''alipay'' (demoPay demoOrder) = (Inr (), s') \<and> po_Status y = OrderStatusCompleted
    \<and> orderRow 1 s' = [y] \<and> bw_balance s' = [1 \<mapsto> fl 18]"
proof -
  have tol: "\<not> flt amountToleranceCNY (fabs (fsub (Fin 10) (Fin 10)))" using tolerance_small(2) by (simp add: fsub_def)
  have cache: "rw_attempts (demoPay demoOrder) = Map.empty" "rw_locks (demoPay demoOrder) = Map.empty" "rw_nextCode (demoPay demoOrder) = 2"
    by (simp_all add: demoPay_def demoRedeem_def redeemstate.defs)
  have trim: "trimSpace ''PAY-1-7'' = ''PAY-1-7''" by (simp add: trimSpace_printable printable_def)
  let ?s = "demoPay demoOrder"
  have "\<exists>s' y. HandlePaymentNotification demoNum demoNotice ''alipay'' ?s = (Inr (), s') \<and> orderRow (po_ID demoOrder) s' = [y]
      \<and> po_Status y = OrderStatusCompleted
      \<and> bw_balance s' = (bw_balance ?s)(po_UserID demoOrder \<mapsto> n_store8 demoNum (n_plus demoNum (Fin 8) (n_store8 demoNum (po_Amount demoOrder))))
      \<and> usedCode (po_RechargeCode demoOrder) s'"
    by (rule paid_order_is_credited)
      (use tol trim cache in \<open>simp_all add: unhindered_def freshCode_def attemptCount_def lockHeld_def redeemMaxErrorsPerHour_def orderRow_def
        demoNotice_def demoOrder_def offlineOrder_def Let_def demoNum_def demoCode_def blankCode_def\<close>)
  then show ?thesis by (simp add: demoOrder_def offlineOrder_def Let_def demoNum_def) blast
qed

end
