(* ===== verification/PaymentRefund.thy ===== *)
theory PaymentRefund
  imports PaymentCredit
begin

section \<open>What a refund takes\<close>

definition purse :: "(int \<rightharpoonup> f64) \<Rightarrow> 'a paystate_scheme \<Rightarrow> bool" where
  "purse b s \<longleftrightarrow> bw_balance s = b"

lemma purse_faults [simp]: "purse b (s\<lparr>e_faults := fs\<rparr>) = purse b s"
  by (simp add: purse_def)

lemma keeps_purse_db:
  assumes "\<And>s. bw_balance (snd (act s)) = bw_balance s"
  shows "keepsP (purse b) (db tag act)"
proof (rule keeps_db)
  show "keepsP (purse b) act" using assms by (auto simp: keepsP_def purse_def)
qed simp

lemma keeps_purse_framed:
  assumes m: "\<And>x. keepsP (framed x) m"
  shows "keepsP (purse b) m"
proof (rule keepsPI)
  fix s :: "'a paystate_scheme"
  assume b: "purse b s"
  obtain r s' where r: "m s = (r, s')" by fastforce
  from more_codes [OF framed_run(1) [OF m r]] b r show "purse b (snd (m s))" by (simp add: purse_def)
qed

lemma purse_steps [keeps]:
  "keepsP (purse b) (ordersUpdate p f)" "keepsP (purse b) (orderUpdateOne i f)" "keepsP (purse b) (writeAuditLog i a op)"
  "keepsP (purse b) (hasAuditLog i a)" "keepsP (purse b) (restoreStatus p')"
  "keepsP (purse b) (ExtendSubscription j d)" "keepsP (purse b) (RevokeSubscription j)"
proof -
  show o: "keepsP (purse b) (orderUpdateOne i f)" for i f
    unfolding orderUpdateOne_def by (rule keeps_purse_db) (simp add: setOrders_def)
  show "keepsP (purse b) (restoreStatus p')"
    unfolding restoreStatus_def by (intro keeps o)
  show "keepsP (purse b) (ordersUpdate p f)" "keepsP (purse b) (writeAuditLog i a op)" "keepsP (purse b) (hasAuditLog i a)"
    unfolding ordersUpdate_def writeAuditLog_def hasAuditLog_def
    by (intro keeps keeps_purse_db; simp add: setOrders_def modP_def getP_def)+
  show "keepsP (purse b) (ExtendSubscription j d)" "keepsP (purse b) (RevokeSubscription j)"
    by (rule keeps_purse_framed, rule keeps)+
qed

definition takesBalance :: "RefundPlan \<Rightarrow> bool" where
  "takesBalance p \<longleftrightarrow> rp_DeductionType p = DeductBal \<and> flt (Fin 0) (rp_BalanceToDeduct p)"

definition afterTaking :: "pgnum \<Rightarrow> RefundPlan \<Rightarrow> (int \<rightharpoonup> f64) \<Rightarrow> (int \<rightharpoonup> f64)" where
  "afterTaking N p b = credit N b ([], po_UserID (rp_Order p), fneg (rp_BalanceToDeduct p))"

definition afterReturning :: "pgnum \<Rightarrow> RefundPlan \<Rightarrow> (int \<rightharpoonup> f64) \<Rightarrow> (int \<rightharpoonup> f64)" where
  "afterReturning N p b = credit N b ([], po_UserID (rp_Order p), rp_BalanceToDeduct p)"

lemma hoare_Deduct:
  "hoareP (purse b) (DeductBalance N (po_UserID (rp_Order p)) (rp_BalanceToDeduct p)) (purse b) (\<lambda>_. purse (afterTaking N p b))"
  unfolding DeductBalance_def
  by (rule hoareP_db) (auto simp: hoareP_def purse_def afterTaking_def credit_def split: option.splits)

lemma hoare_Return:
  "hoareP (purse b) (UpdateBalance N (po_UserID (rp_Order p)) (rp_BalanceToDeduct p)) (purse b) (\<lambda>_. purse (afterReturning N p b))"
  unfolding UpdateBalance_def
  by (rule hoareP_db) (auto simp: hoareP_def purse_def afterReturning_def credit_def split: option.splits)

text \<open>The plan after the deduction, and the balances that go with it.\<close>

definition deducted :: "pgnum \<Rightarrow> RefundPlan \<Rightarrow> (int \<rightharpoonup> f64) \<Rightarrow> RefundPlan \<Rightarrow> 'a paystate_scheme \<Rightarrow> bool" where
  "deducted N p b q s \<longleftrightarrow> purse (if takesBalance q then afterTaking N p b else b) s
     \<and> (rp_DeductionType q = rp_DeductionType p \<and> rp_Order q = rp_Order p \<and> (takesBalance q \<longrightarrow> takesBalance p \<and> rp_BalanceToDeduct q = rp_BalanceToDeduct p))"

lemma hoare_deductStep: "hoareP (purse b) (deductStep N p) (purse b) (deducted N p b)"
proof -
  have r: "hoareP (purse b) (ret p) (purse b) (deducted N p b)" if "\<not> takesBalance p"
    by (rule hoareP_ret) (simp add: deducted_def that)
  have z: "hoareP (purse b) (ret (p\<lparr>rp_BalanceToDeduct := Fin 0\<rparr>)) (purse b) (deducted N p b)"
    by (rule hoareP_ret) (simp add: deducted_def takesBalance_def)
  have t: "hoareP (purse b) (tryP (DeductBalance N (po_UserID (rp_Order p)) (rp_BalanceToDeduct p))
      (\<lambda>e. bindP (restoreStatus p) (\<lambda>_. fail e)) (\<lambda>_. ret p)) (purse b) (deducted N p b)" if "takesBalance p"
    by (rule hoareP_try [OF hoare_Deduct], rule hoareP_bind [OF hoareP_keeps [OF purse_steps(5)]], rule hoareP_fail, assumption)
      (rule hoareP_ret, simp add: deducted_def that)
  show ?thesis
    unfolding deductStep_def using r t z
    by (auto simp: takesBalance_def intro!: hoareP_if hoareP_bind [OF hoareP_keeps [OF purse_steps(4)]])
qed

lemma hoare_deductDays:
  "hoareP (deducted N p b p1) (deductDaysStep p1) (\<lambda>s. purse b s \<or> purse (afterTaking N p b) s) (deducted N p b)"
proof -
  let ?B = "if takesBalance p1 then afterTaking N p b else b"
  have q: "takesBalance (p1\<lparr>rp_SubDaysToDeduct := 0\<rparr>) = takesBalance p1" by (simp add: takesBalance_def)
  let ?Q = "\<lambda>q (s :: 'a paystate_scheme). purse ?B s \<and> q \<in> {p1, p1\<lparr>rp_SubDaysToDeduct := 0\<rparr>}"
  have h: "hoareP (purse ?B :: 'a paystate_scheme \<Rightarrow> bool) (deductDaysStep p1) (purse ?B) ?Q"
    unfolding deductDaysStep_def
    by (intro hoareP_if hoareP_bind [OF hoareP_keeps] hoareP_try [OF hoareP_keeps] keeps hoareP_ret hoareP_fail) auto
  show ?thesis
    unfolding deducted_def [of N p b p1]
    by (rule hoareP_pure, rule hoareP_post [OF h]) (auto simp: deducted_def q split: if_splits)
qed

text \<open>What the end of a refund has done to the balances.\<close>

definition refundEnd :: "pgnum \<Rightarrow> RefundPlan \<Rightarrow> (int \<rightharpoonup> f64) \<Rightarrow> RefundResult \<Rightarrow> 'a paystate_scheme \<Rightarrow> bool" where
  "refundEnd N p b res s \<longleftrightarrow>
    (if rr_Success res
     then purse (if rp_DeductionType p = DeductBal \<and> flt (Fin 0) (rr_BalanceDeducted res) then afterTaking N p b else b) s
     else purse b s \<or> purse (afterReturning N p (afterTaking N p b)) s)"

lemma hoare_markRefundOk:
  "hoareP (deducted N p b q) (markRefundOk N q) (\<lambda>s. purse b s \<or> purse (afterTaking N p b) s) (refundEnd N p b)"
  unfolding deducted_def markRefundOk_def Let_def
  by (rule hoareP_pure, rule hoareP_nowP, rule hoareP_post [OF hoareP_bind [OF hoareP_keeps hoareP_bind [OF hoareP_keeps hoareP_ret]]])
    (auto intro!: keeps simp: refundEnd_def takesBalance_def split: if_splits)

lemma hoare_Rollback:
  assumes q: "takesBalance q \<Longrightarrow> takesBalance p \<and> rp_BalanceToDeduct q = rp_BalanceToDeduct p" "rp_Order q = rp_Order p"
  shows "hoareP (purse (if takesBalance q then afterTaking N p b else b)) (RollbackRefund N q) E
    (\<lambda>ok. if ok then (\<lambda>s. purse b s \<or> purse (afterReturning N p (afterTaking N p b)) s) else (\<lambda>s. purse b s \<or> purse (afterTaking N p b) s))"
proof -
  have broken: "hoareP (purse c) (bindP (writeAuditLog (rp_OrderID q) ''REFUND_ROLLBACK_FAILED'' ''admin'') (\<lambda>_. ret False)) E (\<lambda>ok s. \<not> ok \<and> purse c s)" for c
    by (simp add: hoareP_def writeAuditLog_def ignoreP_def bindP_def ret_def purse_def db_def modP_def split: list.splits)
  let ?days = "if rp_DeductionType q = DeductSub \<and> 0 < rp_SubDaysToDeduct q \<and> 0 < rp_SubscriptionID q
      then bindP (ExtendSubscription (rp_SubscriptionID q) (rp_SubDaysToDeduct q)) (\<lambda>_. ret ()) else ret ()"
  have days: "hoareP (purse c) (tryP ?days (\<lambda>_. bindP (writeAuditLog (rp_OrderID q) ''REFUND_ROLLBACK_FAILED'' ''admin'') (\<lambda>_. ret False)) (\<lambda>_. ret True))
      E (\<lambda>_. purse c)" for c
    by (rule hoareP_try [OF hoareP_keeps], intro keeps, rule hoareP_post [OF broken]) (auto intro!: hoareP_ret)
  show ?thesis
  proof (cases "takesBalance q")
    case False
    then have "\<not> (rp_DeductionType q = DeductBal \<and> flt (Fin 0) (rp_BalanceToDeduct q))" by (simp add: takesBalance_def)
    then show ?thesis
      unfolding RollbackRefund_def Let_def using False
      by (simp only: if_False, intro hoareP_try [where R = "\<lambda>_. purse b" and R' = "purse b"] hoareP_ret hoareP_post [OF broken] hoareP_post [OF days]) auto
  next
    case True
    then have t: "rp_DeductionType q = DeductBal" "flt (Fin 0) (rp_BalanceToDeduct q)" by (simp_all add: takesBalance_def)
    have nosub: "?days = ret ()" using t(1) by simp
    have ret_try: "tryP (ret ()) h (\<lambda>_. ret True) = ret True" for h :: "err \<Rightarrow> ('a paystate_scheme, bool) proc"
      by (simp add: tryP_def ret_def fun_eq_iff)
    have same: "afterReturning N q c = afterReturning N p c" "afterTaking N q c = afterTaking N p c" for c
      using q True by (simp_all add: afterReturning_def afterTaking_def)
    show ?thesis
      unfolding RollbackRefund_def Let_def nosub ret_try using True t
      by (simp, intro hoareP_try [OF hoare_Return] hoareP_post [OF broken] hoareP_ret) (auto simp: same)
  qed
qed

text \<open>Calls whose errors are dropped.\<close>

lemma hoare_dropped:
  assumes "keepsP P (orderUpdateOne i f)" and "keepsP P (restoreStatus q)" and "keepsP P (writeAuditLog j a op)"
  shows "hoareP P (ignoreP (orderUpdateOne i f)) E (\<lambda>_. P)" "hoareP P (restoreStatus q) E (\<lambda>_. P)" "hoareP P (writeAuditLog j a op) E (\<lambda>_. P)"
  using assms by (auto simp: hoareP_def keepsP_def restoreStatus_def writeAuditLog_def ignoreP_def)

lemma hoarePD: "hoareP P m E Q \<Longrightarrow> P s \<Longrightarrow> case m s of (Inl e, s') \<Rightarrow> E s' | (Inr a, s') \<Rightarrow> Q a s'"
  unfolding hoareP_def by (erule allE, erule mp)

lemma hoareP_any: "hoareP (\<lambda>_. True) m (\<lambda>_. True) (\<lambda>_ _. True)"
  by (auto simp: hoareP_def split: prod.splits sum.splits)

lemma keeps_or: "keepsP P m \<Longrightarrow> keepsP Q m \<Longrightarrow> keepsP (\<lambda>s. P s \<or> Q s) m"
  by (auto simp: keepsP_def)

lemma hoare_handleGwFail:
  "hoareP (deducted N p b q) (handleGwFail N q e) (\<lambda>s. purse b s \<or> purse (afterTaking N p b) s) (refundEnd N p b)"
  unfolding deducted_def handleGwFail_def
proof (rule hoareP_pure, rule hoareP_bind [OF hoare_Rollback])
  fix ok :: bool
  let ?O = "\<lambda>s :: 'a paystate_scheme. purse b s \<or> purse (afterReturning N p (afterTaking N p b)) s"
  let ?T = "\<lambda>s :: 'a paystate_scheme. purse b s \<or> purse (afterTaking N p b) s"
  let ?res = "\<lparr>rr_Success = False, rr_RequireForce = False, rr_BalanceDeducted = Fin 0, rr_SubDaysDeducted = 0\<rparr>"
  have k: "keepsP ?O (orderUpdateOne i f)" "keepsP ?O (restoreStatus q')" "keepsP ?O (writeAuditLog j a op)"
     "keepsP ?T (orderUpdateOne i f)" "keepsP ?T (restoreStatus q')" "keepsP ?T (writeAuditLog j a op)" for i f q' j a op
    by (intro keeps_or keeps)+
  have good: "hoareP ?O (bindP (restoreStatus q) (\<lambda>_. bindP (writeAuditLog (rp_OrderID q) ''REFUND_GATEWAY_FAILED'' ''admin'') (\<lambda>_. ret ?res)))
     ?T (refundEnd N p b)"
    by (intro hoareP_bind [OF hoare_dropped(2)] hoareP_bind [OF hoare_dropped(3)] hoareP_ret k) (simp add: refundEnd_def)
  have bad: "hoareP ?T (bindP nowP (\<lambda>now. bindP (ignoreP (orderUpdateOne (rp_OrderID q) (\<lambda>x. x\<lparr>po_Status := OrderStatusRefundFailed, po_FailedAt := Some now,
             po_FailedReason := Some e\<rparr>))) (\<lambda>_. bindP (writeAuditLog (rp_OrderID q) ''REFUND_FAILED'' ''admin'') (\<lambda>_. fail (AppErr ''REFUND_FAILED'')))))
     ?T (refundEnd N p b)"
    by (intro hoareP_nowP hoareP_bind [OF hoare_dropped(1)] hoareP_bind [OF hoare_dropped(3)] hoareP_fail k)
  show "hoareP (if ok then ?O else ?T) (if ok then bindP (restoreStatus q) (\<lambda>_. bindP (writeAuditLog (rp_OrderID q) ''REFUND_GATEWAY_FAILED'' ''admin'') (\<lambda>_. ret ?res))
     else bindP nowP (\<lambda>now. bindP (ignoreP (orderUpdateOne (rp_OrderID q) (\<lambda>x. x\<lparr>po_Status := OrderStatusRefundFailed, po_FailedAt := Some now,
             po_FailedReason := Some e\<rparr>))) (\<lambda>_. bindP (writeAuditLog (rp_OrderID q) ''REFUND_FAILED'' ''admin'') (\<lambda>_. fail (AppErr ''REFUND_FAILED'')))))
     ?T (refundEnd N p b)"
    using good bad by (cases ok) simp_all
qed auto

lemma keeps_purse_gwRefund: "keepsP (purse b) (gwRefund G p)"
  unfolding gwRefund_def Let_def by (auto intro!: keeps split: option.split)

lemma hoare_gwRefund: "hoareP (deducted N p b q) (gwRefund G q) (deducted N p b q) (\<lambda>_. deducted N p b q)"
  by (rule hoareP_keeps) (use keeps_purse_gwRefund in \<open>auto simp: keepsP_def deducted_def\<close>)

lemma hoare_ExecuteRefund:
  "hoareP (purse b) (ExecuteRefund N G p) (\<lambda>s. purse b s \<or> purse (afterTaking N p b) s) (refundEnd N p b)"
proof -
  let ?T = "\<lambda>s :: 'a paystate_scheme. purse b s \<or> purse (afterTaking N p b) s"
  have 1: "hoareP (purse b :: 'a paystate_scheme \<Rightarrow> bool) (ordersUpdate f g) ?T (\<lambda>_. purse b)" for f g
    by (rule hoareP_post [OF hoareP_keeps]) (auto intro: keeps)
  have 2: "hoareP (purse b :: 'a paystate_scheme \<Rightarrow> bool) (deductStep N p) ?T (deducted N p b)"
    by (rule hoareP_post [OF hoare_deductStep]) auto
  show ?thesis
    unfolding ExecuteRefund_def
    by (rule hoareP_bind [OF 1], rule hoareP_if, rule hoareP_fail, simp, rule hoareP_bind [OF 2],
        rule hoareP_bind [OF hoare_deductDays], rule hoareP_try [OF hoare_gwRefund], rule hoare_handleGwFail, rule hoare_markRefundOk)
qed


text \<open>
  What a refund is planned to take from the balance is never more than the balance read nor, by
  more than the tolerance, than the order's amount; a plan that cannot read the user takes nothing.
\<close>

theorem planned_deduction_is_bounded:
  "case PrepareRefund N D G hit kept oid amt reason force deduct s of
     (Inr (Inr p), s') \<Rightarrow> \<not> flt amountToleranceCNY (fsub (rp_RefundAmount p) (po_Amount (rp_Order p)))
        \<and> (if takesBalance p then \<exists>b. bw_balance s' (po_UserID (rp_Order p)) = Some b \<and> rp_BalanceToDeduct p = fmin (rp_RefundAmount p) b else True)
   | _ \<Rightarrow> True"
proof -
  let ?Q = "\<lambda>r (s :: 'a paystate_scheme). case r of Inl _ \<Rightarrow> True | Inr p \<Rightarrow> \<not> flt amountToleranceCNY (fsub (rp_RefundAmount p) (po_Amount (rp_Order p)))
        \<and> (rp_DeductionType p = DeductBal \<and> (\<exists>b. bw_balance s (po_UserID (rp_Order p)) = Some b \<and> rp_BalanceToDeduct p = fmin (rp_RefundAmount p) b)
           \<or> \<not> takesBalance p)"
  have u: "hoareP (\<lambda>_. True) (userGetByID u) (\<lambda>_. True) (\<lambda>r s :: 'a paystate_scheme. bw_balance s u = Some (fst r))" for u
    unfolding userGetByID_def by (rule hoareP_db) (auto simp: hoareP_def split: option.splits)
  have prep: "hoareP (\<lambda>_. True) (prepDeduct N hit kept o' p force) (\<lambda>_. True) ?Q"
    if "\<not> flt amountToleranceCNY (fsub (rp_RefundAmount p) (po_Amount (rp_Order p)))" "\<not> takesBalance p" "rp_Order p = o'" for o' p
  proof -
    have "\<not> takesBalance (p\<lparr>rp_DeductionType := DeductSub, rp_SubDaysToDeduct := d\<rparr>)" "\<not> takesBalance (p\<lparr>rp_DeductionType := DeductSub\<rparr>)"
       "\<not> takesBalance (p\<lparr>rp_DeductionType := DeductSub, rp_SubDaysToDeduct := d, rp_SubscriptionID := i\<rparr>)" for d i
      by (simp_all add: takesBalance_def)
    then show ?thesis
      unfolding prepDeduct_def Let_def using that
      by (auto intro!: hoareP_if hoareP_try [OF hoareP_any] hoareP_try [OF u] hoareP_ret split: option.split)
  qed
  have "hoareP (\<lambda>_. True) (PrepareRefund N D G hit kept oid amt reason force deduct) (\<lambda>_. True) ?Q"
    unfolding PrepareRefund_def Let_def
    by (auto intro!: hoareP_if hoareP_try [OF hoareP_any] hoareP_ret hoareP_fail prep split: option.split prod.split simp: takesBalance_def)
  from hoarePD [OF this, of s] show ?thesis
    by (cases "PrepareRefund N D G hit kept oid amt reason force deduct s") (simp split: sum.splits, blast)
qed

end
