(* ===== verification/PaymentFaults.thy ===== *)
theory PaymentFaults
  imports PaymentRefund
begin

section \<open>Two failures the payment code does not survive\<close>

text \<open>A subscription order and a state with its group; the second state is the one after it was fulfilled.\<close>

definition subOrder :: PaymentOrder where
  "subOrder = demoOrder\<lparr>po_OrderType := OrderTypeSubscription, po_SubscriptionGroupID := Some 1, po_SubscriptionDays := Some 30,
     po_Status := OrderStatusPaid, po_PaidAt := Some 5, po_PaymentTradeNo := ''T'', po_ProviderInstanceID := Some ''1''\<rparr>"

definition subState :: "bool list \<Rightarrow> paystate" where
  "subState fs = (demoPay subOrder)\<lparr>ss_groups := [1 \<mapsto> demoGroup], e_faults := fs\<rparr>"

lemma subState_eq: "subState fs = \<lparr>e_now = 5, e_faults = fs, ss_groups = [1 \<mapsto> demoGroup], ss_subs = [], ss_grants = [], ss_nextSub = 1,
     ss_nextGrant = 1, ss_l1on = False, ss_l1 = Map.empty, ss_billingInvalidated = [], ss_zone = 0,
     bw_dedup = [], bw_archive = [], bw_balance = [1 \<mapsto> Fin 8], bw_gifts = [], bw_commissions = [],
     bw_orderStatus = Map.empty, bw_keys = Map.empty, bw_quotas = Map.empty, bw_usageLogs = [], bw_outbox = [],
     rw_codes = [demoCode], rw_nextCode = 2, rw_recharged = Map.empty, rw_concurrency = Map.empty, rw_cacheOn = True,
     rw_attempts = Map.empty, rw_locks = Map.empty, rw_authInvalidated = [], rw_balanceInvalidated = [],
     pw_orders = [subOrder], pw_nextOrder = 2, pw_audit = [], pw_promoUsages = [], pw_rewards = []\<rparr>"
  by (simp add: subState_def demoPay_def demoRedeem_def redeemstate.defs paystate.defs)


text \<open>What it takes to run the fulfilment and the refund of a subscription order.\<close>

lemmas pay_eval = ExecuteSubscriptionFulfillment_def RetryFulfillment_def executeFulfillment_def orderGet_def onlyRow_def Let_def
     lockOrder_def orFailed_def doSub_def groupGetByID_def hasAuditLog_def ordersUpdate_def updRows_def setOrders_def orderNote_def
     markCompleted_def markFailed_def writeAuditLog_def recordPromotionUsage_def
     order_statuses OrderTypeBalance_def OrderTypeSubscription_def psIsRefundStatus_def
lemmas sub_eval = IsSubscriptionType_def SubscriptionTypeSubscription_def SubscriptionModeExtend_def SubscriptionModeStack_def normalizeAssignValidityDays_def
     newSubscription_def newExpiry_def addDays_def MaxExpiresAt_def invalidateCaches_def InvalidateSubCache_def billingInvalidate_def svcGetByID_def
     subGetByID_def populateQuotaSnapshot_def loadSub_def liveFor_def CountActiveBySubscriptionID_def SumActiveUsageBySubscriptionID_def undoSub_def
     AssignOrExtendSubscription_def createSubscription_def insertWithGrant_def subCreate_def grantCreate_def subGetByUserIDAndGroupID_def svcWithTx_def withTx_def
     demoGroup_def StatusActive_def ExtendExpiry_def UpdateStatus_def UpdateNotes_def updateSub_def appendNotes_def demoNum_def MaxValidityDays_def
     zeroTime_def day_def hour_def second_def mapE_def grantOf_def grantActiveAt_def activeGrants_def columnSum_def


text \<open>
  A retry can apply a subscription order twice.  When the update to COMPLETED fails after a
  30-day order was applied, the order becomes FAILED; the retry succeeds, and the
  subscription then runs 60 days: the audit entry that should prevent this is only written after that update.
\<close>

theorem subscription_order_applied_twice:
  "case ExecuteSubscriptionFulfillment demoNum 1 (subState [False, False, False, False, False, False, False, False, False, False, False, False, False, True]) of (r1, s1) \<Rightarrow>
   case RetryFulfillment demoNum 1 s1 of (r2, s2) \<Rightarrow>
     map po_Status (pw_orders s1) = [OrderStatusFailed] \<and> map (us_ExpiresAt \<circ> row_sub) (ss_subs s1) = [5 + 30 * day]
     \<and> r2 = Inr () \<and> map po_Status (pw_orders s2) = [OrderStatusCompleted] \<and> map (us_ExpiresAt \<circ> row_sub) (ss_subs s2) = [5 + 60 * day]"
  by (simp add: subState_eq subOrder_def demoOrder_def offlineOrder_def pay_eval sub_eval run_steps cong: run_congs)

definition refusing :: gateways where
  "refusing = \<lparr>gw_flags = [1 \<mapsto> (True, True)], gw_instance = [1 \<mapsto> \<lparr>pv_key = ''alipay'', pv_query = (\<lambda>_ _. Inl (Internal ''down'')),
     pv_refund = (\<lambda>_ _ _ _ _. Some (Internal ''refused''))\<rparr>], gw_registry = Map.empty\<rparr>"

lemmas refund_eval = PrepareRefund_def refundable_def getOrderProviderInstance_def refundReason_def prepDeduct_def GetActiveSubscription_def
  subCacheKey_def subGetActiveByUserIDAndGroupID_def ExecuteRefund_def deductStep_def deductDaysStep_def gwRefund_def getOrderProvider_def
  handleGwFail_def RollbackRefund_def restoreStatus_def orderUpdateOne_def ExtendSubscription_def RevokeSubscription_def subDelete_def

text \<open>
  A refused refund can cost the user the subscription.  When taking back the days would end
  the subscription it is revoked before the provider is asked; if the provider then refuses, the roll-back
  cannot extend the revoked subscription: nothing is paid back, the order is REFUND_FAILED and the subscription is gone.
\<close>

theorem refused_refund_loses_subscription:
  "case ExecuteSubscriptionFulfillment demoNum 1 (subState []) of (r1, s1) \<Rightarrow>
   case runOrderOp demoNum fracDecimal refusing (Refund False False 1 (Fin 0) [] False True) (s1\<lparr>e_now := 6 + day\<rparr>) of (r2, s2) \<Rightarrow>
     map row_deleted (ss_subs s1) = [False] \<and> r2 = Some (AppErr ''REFUND_FAILED'')
     \<and> map po_Status (pw_orders s2) = [OrderStatusRefundFailed] \<and> map row_deleted (ss_subs s2) = [True]"
proof -
  have bound_parse: "parseInt ''1'' = Some 1" by code_simp
  have tol: "\<not> flt amountToleranceCNY (fsub (Fin 10) (Fin 10))" using tolerance_small(2) by (simp add: fsub_def)
  show ?thesis
    by (simp add: subState_eq subOrder_def demoOrder_def offlineOrder_def refusing_def pay_eval sub_eval refund_eval bound_parse tol run_steps cong: run_congs)
qed

end
