(* ===== verification/Idempotency.thy ===== *)
theory Idempotency
  imports GoCrypto UserSubscriptions AtMostOnce
begin

section \<open>Idempotent requests\<close>

text \<open>
  service/idempotency.go and repository/idempotency_repo.go: a write request that carries an
  Idempotency-Key is executed once and its later copies get the stored response.  The clean-up job
  (idempotency_cleanup_service.go) and the handlers' wrapper (handler/admin/idempotency_helper.go)
  follow, and the part of util/logredact/redact.go that rewrites a response before it is stored.
  Metrics and audit logs are left out.

  The JSON library is a parameter \<open>L\<close>: \<open>jl_data\<close> encodes the value a handler returned (\<open>None\<close> where
  json.Marshal refuses it), \<open>jl_enc\<close> and \<open>jl_dec\<close> are Marshal and Unmarshal of generic values.
\<close>

subsection \<open>JSON values and redaction\<close>

datatype json = JNull | JBool bool | JNum f64 | JStr string | JArr "json list" | JObj "(string \<times> json) list"

record 'd jsonlib =
  jl_data :: "'d \<Rightarrow> string option"
  jl_enc :: "json \<Rightarrow> string"
  jl_dec :: "string \<Rightarrow> json option"

definition maxRedactDepth :: nat where "maxRedactDepth = 32"

definition defaultSensitiveKeys :: "string list" where
  "defaultSensitiveKeys = [''authorization_code'', ''code'', ''code_verifier'', ''access_token'', ''refresh_token'',
     ''id_token'', ''client_secret'', ''password'']"

definition normalizeKey :: "string \<Rightarrow> string" where
  "normalizeKey key = toLower (trimSpace key)"

definition isSensitiveKey :: "string \<Rightarrow> bool" where
  "isSensitiveKey key \<longleftrightarrow> normalizeKey key \<in> set defaultSensitiveKeys"

fun redactValueWithDepth :: "json \<Rightarrow> nat \<Rightarrow> json" where
  "redactValueWithDepth v depth =
     (if maxRedactDepth < depth then JStr ''<depth limit exceeded>''
      else case v of
        JObj kvs \<Rightarrow> JObj (map (\<lambda>(k, x). (k, if isSensitiveKey k then JStr ''***'' else redactValueWithDepth x (depth + 1))) kvs)
      | JArr xs \<Rightarrow> JArr (map (\<lambda>x. redactValueWithDepth x (depth + 1)) xs)
      | _ \<Rightarrow> v)"

declare redactValueWithDepth.simps [simp del]

definition RedactJSON :: "'d jsonlib \<Rightarrow> string \<Rightarrow> string" where
  "RedactJSON L raw =
     (if raw = [] then []
      else case jl_dec L raw of
        None \<Rightarrow> ''<non-json payload redacted>''
      | Some v \<Rightarrow> jl_enc L (redactValueWithDepth v 0))"

text \<open>RedactText on a text that is JSON, which is all the coordinator hands to it.\<close>

definition redactEncoded :: "'d jsonlib \<Rightarrow> string \<Rightarrow> string" where
  "redactEncoded L input = (let t = trimSpace input in if t = [] then [] else RedactJSON L t)"

subsection \<open>Records and their table\<close>

record IdempotencyRecord =
  ir_ID :: int
  ir_Scope :: string
  ir_IdempotencyKeyHash :: string
  ir_RequestFingerprint :: string
  ir_Status :: string
  ir_ResponseStatus :: "int option"
  ir_ResponseBody :: "string option"
  ir_ErrorReason :: "string option"
  ir_LockedUntil :: "int option"
  ir_ExpiresAt :: int
  ir_CreatedAt :: int
  ir_UpdatedAt :: int

record idemstate = env +
  iw_rows :: "IdempotencyRecord list"
  iw_nextID :: int

definition IdempotencyStatusProcessing :: string where "IdempotencyStatusProcessing = ''processing''"
definition IdempotencyStatusSucceeded :: string where "IdempotencyStatusSucceeded = ''succeeded''"
definition IdempotencyStatusFailedRetryable :: string where "IdempotencyStatusFailedRetryable = ''failed_retryable''"

lemmas idemStatus_defs = IdempotencyStatusProcessing_def IdempotencyStatusSucceeded_def IdempotencyStatusFailedRetryable_def

definition ErrIdempotencyKeyRequired :: err where "ErrIdempotencyKeyRequired = AppErr ''IDEMPOTENCY_KEY_REQUIRED''"
definition ErrIdempotencyKeyInvalid :: err where "ErrIdempotencyKeyInvalid = AppErr ''IDEMPOTENCY_KEY_INVALID''"
definition ErrIdempotencyKeyConflict :: err where "ErrIdempotencyKeyConflict = AppErr ''IDEMPOTENCY_KEY_CONFLICT''"
definition ErrIdempotencyInProgress :: err where "ErrIdempotencyInProgress = AppErr ''IDEMPOTENCY_IN_PROGRESS''"
definition ErrIdempotencyRetryBackoff :: err where "ErrIdempotencyRetryBackoff = AppErr ''IDEMPOTENCY_RETRY_BACKOFF''"
definition ErrIdempotencyStoreUnavail :: err where "ErrIdempotencyStoreUnavail = AppErr ''IDEMPOTENCY_STORE_UNAVAILABLE''"
definition ErrIdempotencyInvalidPayload :: err where "ErrIdempotencyInvalidPayload = AppErr ''IDEMPOTENCY_PAYLOAD_INVALID''"

text \<open>The length of a VARCHAR value: the code points of its UTF-8 form.\<close>

definition charLen :: "string \<Rightarrow> nat" where
  "charLen s = length (filter (\<lambda>c. (of_char c :: nat) div 64 \<noteq> 2) s)"

definition fitsColumn :: "nat \<Rightarrow> string \<Rightarrow> bool" where
  "fitsColumn k s \<longleftrightarrow> charLen s \<le> k"

definition forKey :: "string \<Rightarrow> string \<Rightarrow> IdempotencyRecord \<Rightarrow> bool" where
  "forKey scope hash r \<longleftrightarrow> ir_Scope r = scope \<and> ir_IdempotencyKeyHash r = hash"

text \<open>The new row's id, or \<open>None\<close> where the unique index of scope and key hash already holds a row.\<close>

definition CreateProcessing :: "string \<Rightarrow> string \<Rightarrow> string \<Rightarrow> int \<Rightarrow> int \<Rightarrow> ('a idemstate_scheme, int option) proc" where
  "CreateProcessing scope hash fp locked expires = db ''create processing'' (\<lambda>s.
     if \<not> fitsColumn 128 scope then (Inl (Internal ''value too long''), s)
     else if list_ex (forKey scope hash) (iw_rows s) then (Inr None, s)
     else (Inr (Some (iw_nextID s)),
       s\<lparr>iw_rows := iw_rows s @
            [\<lparr>ir_ID = iw_nextID s, ir_Scope = scope, ir_IdempotencyKeyHash = hash, ir_RequestFingerprint = fp,
              ir_Status = IdempotencyStatusProcessing, ir_ResponseStatus = None, ir_ResponseBody = None, ir_ErrorReason = None,
              ir_LockedUntil = Some locked, ir_ExpiresAt = expires, ir_CreatedAt = e_now s, ir_UpdatedAt = e_now s\<rparr>],
         iw_nextID := iw_nextID s + 1\<rparr>))"

definition GetByScopeAndKeyHash :: "string \<Rightarrow> string \<Rightarrow> ('a idemstate_scheme, IdempotencyRecord option) proc" where
  "GetByScopeAndKeyHash scope hash = db ''get by scope and key hash'' (\<lambda>s. (Inr (find (forKey scope hash) (iw_rows s)), s))"

text \<open>An UPDATE of the table: whether any row matched.\<close>

definition idemUpdate :: "string \<Rightarrow> (IdempotencyRecord \<Rightarrow> bool) \<Rightarrow> (IdempotencyRecord \<Rightarrow> IdempotencyRecord) \<Rightarrow> ('a idemstate_scheme, bool) proc" where
  "idemUpdate tag p f = db tag (\<lambda>s.
     (Inr (list_ex p (iw_rows s)), s\<lparr>iw_rows := updRows p (\<lambda>r. (f r)\<lparr>ir_UpdatedAt := e_now s\<rparr>) (iw_rows s)\<rparr>))"

definition reclaimable :: "int \<Rightarrow> string \<Rightarrow> int \<Rightarrow> IdempotencyRecord \<Rightarrow> bool" where
  "reclaimable i st now r \<longleftrightarrow> ir_ID r = i \<and> ir_Status r = st \<and> (case ir_LockedUntil r of None \<Rightarrow> True | Some l \<Rightarrow> l \<le> now)"

definition TryReclaim :: "int \<Rightarrow> string \<Rightarrow> int \<Rightarrow> int \<Rightarrow> int \<Rightarrow> ('a idemstate_scheme, bool) proc" where
  "TryReclaim i st now locked expires = idemUpdate ''try reclaim'' (reclaimable i st now)
     (\<lambda>r. r\<lparr>ir_Status := IdempotencyStatusProcessing, ir_LockedUntil := Some locked, ir_ErrorReason := None, ir_ExpiresAt := expires\<rparr>)"

definition ExtendProcessingLock :: "int \<Rightarrow> string \<Rightarrow> int \<Rightarrow> int \<Rightarrow> ('a idemstate_scheme, bool) proc" where
  "ExtendProcessingLock i fp locked expires = idemUpdate ''extend processing lock''
     (\<lambda>r. ir_ID r = i \<and> ir_Status r = IdempotencyStatusProcessing \<and> ir_RequestFingerprint r = fp)
     (\<lambda>r. r\<lparr>ir_LockedUntil := Some locked, ir_ExpiresAt := expires\<rparr>)"

definition MarkSucceeded :: "int \<Rightarrow> int \<Rightarrow> string \<Rightarrow> int \<Rightarrow> ('a idemstate_scheme, unit) proc" where
  "MarkSucceeded i st body expires = bindP (idemUpdate ''mark succeeded'' (\<lambda>r. ir_ID r = i)
     (\<lambda>r. r\<lparr>ir_Status := IdempotencyStatusSucceeded, ir_ResponseStatus := Some st, ir_ResponseBody := Some body,
        ir_ErrorReason := None, ir_LockedUntil := None, ir_ExpiresAt := expires\<rparr>)) (\<lambda>_. ret ())"

definition MarkFailedRetryable :: "int \<Rightarrow> string \<Rightarrow> int \<Rightarrow> int \<Rightarrow> ('a idemstate_scheme, unit) proc" where
  "MarkFailedRetryable i reason locked expires =
     (if fitsColumn 128 reason
      then bindP (idemUpdate ''mark failed retryable'' (\<lambda>r. ir_ID r = i)
        (\<lambda>r. r\<lparr>ir_Status := IdempotencyStatusFailedRetryable, ir_ErrorReason := Some reason, ir_LockedUntil := Some locked, ir_ExpiresAt := expires\<rparr>)) (\<lambda>_. ret ())
      else fail (Internal ''value too long''))"

definition DeleteExpired :: "int \<Rightarrow> int \<Rightarrow> ('a idemstate_scheme, nat) proc" where
  "DeleteExpired now limit = db ''delete expired'' (\<lambda>s.
     let victims = map ir_ID (take (nat (if limit \<le> 0 then 500 else limit))
           (sortBy (\<lambda>x y. ir_ExpiresAt x \<le> ir_ExpiresAt y) (filter (\<lambda>r. ir_ExpiresAt r \<le> now) (iw_rows s))));
         rest = filter (\<lambda>r. ir_ID r \<notin> set victims) (iw_rows s)
     in (Inr (length (iw_rows s) - length rest), s\<lparr>iw_rows := rest\<rparr>))"

text \<open>One round of the clean-up job; a batch size of the configuration that is not positive means 500.\<close>

definition cleanupOnce :: "int \<Rightarrow> ('a idemstate_scheme, unit) proc" where
  "cleanupOnce batch = bindP nowP (\<lambda>now. ignoreP (DeleteExpired now (if 0 < batch then batch else 500)))"

subsection \<open>Keys, fingerprints and stored responses\<close>

record idemConf =
  ic_HasRepo :: bool
  ic_DefaultTTL :: int
  ic_SystemOperationTTL :: int
  ic_ProcessingTimeout :: int
  ic_FailedRetryBackoff :: int
  ic_MaxStoredResponseLen :: int
  ic_ObserveOnly :: bool

definition DefaultIdempotencyConfig :: idemConf where
  "DefaultIdempotencyConfig = \<lparr>ic_HasRepo = True, ic_DefaultTTL = 24 * hour, ic_SystemOperationTTL = hour,
     ic_ProcessingTimeout = 30 * second, ic_FailedRetryBackoff = 5 * second, ic_MaxStoredResponseLen = 64 * 1024, ic_ObserveOnly = True\<rparr>"

text \<open>The options of a call; \<open>io_Payload\<close> is the payload's JSON, \<open>None\<close> where Marshal refuses it.\<close>

record idemOpts =
  io_Scope :: string
  io_ActorScope :: string
  io_Method :: string
  io_Route :: string
  io_IdempotencyKey :: string
  io_Payload :: "string option"
  io_TTL :: int
  io_RequireKey :: bool

definition NormalizeIdempotencyKey :: "string \<Rightarrow> err + string" where
  "NormalizeIdempotencyKey raw =
     (let key = trimSpace raw in
      if key = [] then Inr []
      else if 128 < length key then Inl ErrIdempotencyKeyInvalid
      else if list_ex (\<lambda>c. let n = of_char c :: nat in n < 33 \<or> 126 < n) key then Inl ErrIdempotencyKeyInvalid
      else Inr key)"

definition HashIdempotencyKey :: "string \<Rightarrow> string" where
  "HashIdempotencyKey = sha256hex"

definition upperByte :: "char \<Rightarrow> char" where
  "upperByte c = (let n = of_char c :: nat in if 97 \<le> n \<and> n \<le> 122 then char_of (n - 32) else c)"

definition orElse :: "string \<Rightarrow> string \<Rightarrow> string" where
  "orElse s d = (if s = [] then d else s)"

text \<open>The methods of HTTP are ASCII, where strings.ToUpper is bytewise.\<close>

definition BuildIdempotencyFingerprint :: "string \<Rightarrow> string \<Rightarrow> string \<Rightarrow> string option \<Rightarrow> err + string" where
  "BuildIdempotencyFingerprint meth route actor payload =
     (case payload of
        None \<Rightarrow> Inl ErrIdempotencyInvalidPayload
      | Some raw \<Rightarrow> Inr (sha256hex (map upperByte (orElse meth ''POST'') @ [CHR 0x0A] @ orElse route ''/'' @ [CHR 0x0A]
            @ orElse actor ''anonymous'' @ [CHR 0x0A] @ raw)))"

definition marshalStoredResponse :: "idemConf \<Rightarrow> 'd jsonlib \<Rightarrow> 'd \<Rightarrow> string option" where
  "marshalStoredResponse C L d =
     (case jl_data L d of
        None \<Rightarrow> None
      | Some raw \<Rightarrow>
          let redacted = redactEncoded L raw in
          Some (if 0 < ic_MaxStoredResponseLen C \<and> ic_MaxStoredResponseLen C < int (length redacted)
                then take (nat (ic_MaxStoredResponseLen C)) redacted @ ''...(truncated)'' else redacted))"

definition decodeStoredResponse :: "'d jsonlib \<Rightarrow> string option \<Rightarrow> json option" where
  "decodeStoredResponse L stored =
     (case stored of
        None \<Rightarrow> Some (JObj [])
      | Some b \<Rightarrow> if trimSpace b = [] then Some (JObj []) else jl_dec L b)"

subsection \<open>The coordinator\<close>

text \<open>
  What a call ends with: the handler's value, the stored one, or an error with the text of its
  \<^verbatim>\<open>retry_after\<close> entry (the errors of a handler come without one).
\<close>

datatype 'd exit = Answered 'd | Replayed json | Refused err "string option"

definition unavailable :: "'d exit" where
  "unavailable = Refused ErrIdempotencyStoreUnavail None"

definition conflictWithRetryAfter :: "err \<Rightarrow> int option \<Rightarrow> int \<Rightarrow> 'd exit" where
  "conflictWithRetryAfter base lockedUntil now =
     Refused base (case lockedUntil of
        None \<Rightarrow> None
      | Some l \<Rightarrow> let sec = ftrunc (durSeconds (l - now)) in Some (itoa (if sec \<le> 0 then 1 else sec)))"

definition RetryAfterSecondsFromError :: "'d exit \<Rightarrow> int" where
  "RetryAfterSecondsFromError x = (case x of
       Refused e (Some v0) \<Rightarrow>
         let v = trimSpace v0 in
         if v = [] then 0 else (case parseInt v of None \<Rightarrow> 0 | Some n \<Rightarrow> if n \<le> 0 then 0 else n)
     | _ \<Rightarrow> 0)"

definition executionReason :: "err \<Rightarrow> string" where
  "executionReason e = orElse (case e of AppErr r \<Rightarrow> r | Internal _ \<Rightarrow> []) ''EXECUTION_FAILED''"

definition effectiveTTL :: "idemConf \<Rightarrow> idemOpts \<Rightarrow> int" where
  "effectiveTTL C p = (if io_TTL p \<le> 0 then ic_DefaultTTL C else io_TTL p)"

text \<open>What the calls of the store are made with: the record Execute builds, and the time it read.\<close>

record ticket =
  tk_Scope :: string
  tk_Hash :: string
  tk_Fingerprint :: string
  tk_Now :: int
  tk_Locked :: int
  tk_Expires :: int

text \<open>The end of Execute: run the handler as the owner of record \<open>i\<close> and mark the record.\<close>

definition runOwned :: "idemConf \<Rightarrow> 'd jsonlib \<Rightarrow> ('a idemstate_scheme, 'd) proc \<Rightarrow> ticket \<Rightarrow> int \<Rightarrow> ('a idemstate_scheme, 'd exit) proc" where
  "runOwned C L ex t i =
     (if i = 0 then ret unavailable
      else tryP ex
        (\<lambda>e. bindP nowP (\<lambda>now.
           bindP (ignoreP (MarkFailedRetryable i (executionReason e) (now + ic_FailedRetryBackoff C) (tk_Expires t))) (\<lambda>_. ret (Refused e None))))
        (\<lambda>d. case marshalStoredResponse C L d of
           None \<Rightarrow> ret unavailable
         | Some body \<Rightarrow> tryP (MarkSucceeded i 200 body (tk_Expires t)) (\<lambda>_. ret unavailable) (\<lambda>_. ret (Answered d))))"

text \<open>The switch on the status of a record that was not taken over as expired.\<close>

definition byStatus :: "idemConf \<Rightarrow> 'd jsonlib \<Rightarrow> ('a idemstate_scheme, 'd) proc \<Rightarrow> ticket \<Rightarrow> IdempotencyRecord \<Rightarrow> ('a idemstate_scheme, 'd exit) proc" where
  "byStatus C L ex t r =
     (if ir_Status r = IdempotencyStatusSucceeded
      then ret (case decodeStoredResponse L (ir_ResponseBody r) of None \<Rightarrow> unavailable | Some v \<Rightarrow> Replayed v)
      else if ir_Status r = IdempotencyStatusProcessing
      then ret (conflictWithRetryAfter ErrIdempotencyInProgress (ir_LockedUntil r) (tk_Now t))
      else if ir_Status r = IdempotencyStatusFailedRetryable
      then if (case ir_LockedUntil r of None \<Rightarrow> False | Some l \<Rightarrow> tk_Now t < l)
           then ret (conflictWithRetryAfter ErrIdempotencyRetryBackoff (ir_LockedUntil r) (tk_Now t))
           else tryP (TryReclaim (ir_ID r) IdempotencyStatusFailedRetryable (tk_Now t) (tk_Locked t) (tk_Expires t)) (\<lambda>_. ret unavailable)
             (\<lambda>taken. if taken then runOwned C L ex t (ir_ID r)
               else ret (conflictWithRetryAfter ErrIdempotencyInProgress (ir_LockedUntil r) (tk_Now t)))
      else ret (Refused ErrIdempotencyKeyConflict None))"

text \<open>The record found when another request had it: as it is, or first taken over when it has expired.\<close>

definition withLatest :: "idemConf \<Rightarrow> 'd jsonlib \<Rightarrow> ('a idemstate_scheme, 'd) proc \<Rightarrow> ticket \<Rightarrow> IdempotencyRecord option \<Rightarrow> ('a idemstate_scheme, 'd exit) proc" where
  "withLatest C L ex t found = (case found of
       None \<Rightarrow> ret unavailable
     | Some r \<Rightarrow> if ir_RequestFingerprint r \<noteq> tk_Fingerprint t then ret (Refused ErrIdempotencyKeyConflict None) else byStatus C L ex t r)"

definition withExisting :: "idemConf \<Rightarrow> 'd jsonlib \<Rightarrow> ('a idemstate_scheme, 'd) proc \<Rightarrow> ticket \<Rightarrow> IdempotencyRecord option \<Rightarrow> ('a idemstate_scheme, 'd exit) proc" where
  "withExisting C L ex t found = (case found of
       None \<Rightarrow> ret unavailable
     | Some r \<Rightarrow>
         if ir_RequestFingerprint r \<noteq> tk_Fingerprint t then ret (Refused ErrIdempotencyKeyConflict None)
         else if ir_ExpiresAt r \<le> tk_Now t
         then tryP (TryReclaim (ir_ID r) (ir_Status r) (tk_Now t) (tk_Locked t) (tk_Expires t)) (\<lambda>_. ret unavailable)
           (\<lambda>taken. if taken then runOwned C L ex t (ir_ID r)
             else tryP (GetByScopeAndKeyHash (tk_Scope t) (tk_Hash t)) (\<lambda>_. ret unavailable) (withLatest C L ex t))
         else byStatus C L ex t r)"

definition claimAndRun :: "idemConf \<Rightarrow> 'd jsonlib \<Rightarrow> ('a idemstate_scheme, 'd) proc \<Rightarrow> ticket \<Rightarrow> ('a idemstate_scheme, 'd exit) proc" where
  "claimAndRun C L ex t =
     tryP (CreateProcessing (tk_Scope t) (tk_Hash t) (tk_Fingerprint t) (tk_Locked t) (tk_Expires t)) (\<lambda>_. ret unavailable)
       (\<lambda>created. case created of
          Some i \<Rightarrow> runOwned C L ex t i
        | None \<Rightarrow> tryP (GetByScopeAndKeyHash (tk_Scope t) (tk_Hash t)) (\<lambda>_. ret unavailable) (withExisting C L ex t))"

definition Execute :: "idemConf \<Rightarrow> 'd jsonlib \<Rightarrow> ('a idemstate_scheme, 'd) proc \<Rightarrow> idemOpts \<Rightarrow> ('a idemstate_scheme, 'd exit) proc" where
  "Execute C L ex p =
     (case NormalizeIdempotencyKey (io_IdempotencyKey p) of
        Inl e \<Rightarrow> ret (Refused e None)
      | Inr key \<Rightarrow>
     if key = [] then
       (if io_RequireKey p \<and> \<not> ic_ObserveOnly C then ret (Refused ErrIdempotencyKeyRequired None)
        else tryP ex (\<lambda>e. ret (Refused e None)) (\<lambda>d. ret (Answered d)))
     else if \<not> ic_HasRepo C then ret unavailable
     else if io_Scope p = [] then ret (Refused (AppErr ''IDEMPOTENCY_SCOPE_REQUIRED'') None)
     else (case BuildIdempotencyFingerprint (io_Method p) (io_Route p) (io_ActorScope p) (io_Payload p) of
        Inl e \<Rightarrow> ret (Refused e None)
      | Inr fp \<Rightarrow> bindP nowP (\<lambda>now. claimAndRun C L ex
          \<lparr>tk_Scope = io_Scope p, tk_Hash = HashIdempotencyKey key, tk_Fingerprint = fp, tk_Now = now,
           tk_Locked = now + ic_ProcessingTimeout C, tk_Expires = now + effectiveTTL C p\<rparr>)))"

subsection \<open>The handlers' wrapper\<close>

text \<open>
  executeAdminIdempotentJSONWithMode: what the client is sent, and whether a store error was worked
  around by running the handler without the store.  \<open>unavail\<close> is the set of the application's error
  reasons with status 503, next to the coordinator's own.
\<close>

datatype 'd reply = Success 'd "string option" | SuccessReplayed json | Failure err int

definition executeAdminIdempotentJSONWithMode ::
    "idemConf \<Rightarrow> 'd jsonlib \<Rightarrow> (err \<Rightarrow> bool) \<Rightarrow> bool \<Rightarrow> ('a idemstate_scheme, 'd) proc \<Rightarrow> idemOpts \<Rightarrow> ('a idemstate_scheme, 'd reply) proc" where
  "executeAdminIdempotentJSONWithMode C L unavail failOpen ex p =
     bindP (Execute C L ex p) (\<lambda>x. case x of
        Refused e ra \<Rightarrow>
          if (e = ErrIdempotencyStoreUnavail \<or> unavail e) \<and> failOpen
          then tryP ex (\<lambda>e2. ret (Failure e2 0)) (\<lambda>d. ret (Success d (Some ''store-unavailable'')))
          else ret (Failure e (RetryAfterSecondsFromError x))
      | Replayed v \<Rightarrow> ret (SuccessReplayed v)
      | Answered d \<Rightarrow> ret (Success d None))"

end
