(* ===== verification/IdempotencyRace.thy ===== *)
theory IdempotencyRace
  imports IdempotencySteps
begin

section \<open>Concurrent requests with one key\<close>

text \<open>
  Any number of requests in flight, each at its position, over one table: at every step one of them
  makes its next call of the database, or a request arrives, dies where it is, time passes, or the clean-up
  job runs.  While no record of a key can expire, at most one request of that key ever runs its handler to the
  end, and no two of them are between their claim and their mark at the same time.
\<close>

subsection \<open>The system\<close>

record ('a, 'd) system =
  sy_db :: "'a idemstate_scheme"
  sy_threads :: "(ticket \<times> 'd pc) list"
  sy_runs :: "(string \<times> string) list"

fun executing :: "'d pc \<Rightarrow> bool" where
  "executing (Owner _) = True"
| "executing (AtMarkFailed _ _ _) = True"
| "executing (AtMarkSucceeded _ _ _) = True"
| "executing _ = False"

text \<open>Whether a step from \<open>pc\<close> to \<open>pc'\<close> ran the handler and the handler succeeded.\<close>

fun ranHandler :: "'d pc \<Rightarrow> 'd pc \<Rightarrow> bool" where
  "ranHandler (Owner _) (AtMarkFailed _ _ _) = False"
| "ranHandler (Owner _) _ = True"
| "ranHandler _ _ = False"

text \<open>\<open>hor\<close> bounds the clock, and a request of key \<open>k\<close> makes records that expire no earlier.\<close>

inductive sysStep :: "idemConf \<Rightarrow> 'd jsonlib \<Rightarrow> (nat \<Rightarrow> ('a idemstate_scheme, 'd) proc) \<Rightarrow> string \<times> string \<Rightarrow> int \<Rightarrow> ('a, 'd) system \<Rightarrow> ('a, 'd) system \<Rightarrow> bool"
  for C L ex k hor where
  arrive: "\<lbrakk>ticketFor C p (e_now (sy_db y)) = Some (Inr t :: 'd exit + ticket); tkKey t = k \<Longrightarrow> hor \<le> tk_Expires t\<rbrakk> \<Longrightarrow>
     sysStep C L ex k hor y (y\<lparr>sy_threads := sy_threads y @ [(t, AtCreate)]\<rparr>)"
| turn: "\<lbrakk>i < length (sy_threads y); sy_threads y ! i = (t, pc); advance C L (ex i) t pc (sy_db y) = (pc', s')\<rbrakk> \<Longrightarrow>
     sysStep C L ex k hor y (y\<lparr>sy_db := s', sy_threads := (sy_threads y)[i := (t, pc')],
        sy_runs := (if ranHandler pc pc' then sy_runs y @ [tkKey t] else sy_runs y)\<rparr>)"
| die: "\<lbrakk>i < length (sy_threads y); sy_threads y ! i = (t, pc)\<rbrakk> \<Longrightarrow>
     sysStep C L ex k hor y (y\<lparr>sy_threads := (sy_threads y)[i := (t, Finished unavailable)]\<rparr>)"
| wait: "\<lbrakk>0 \<le> d; e_now (sy_db y) + d < hor\<rbrakk> \<Longrightarrow>
     sysStep C L ex k hor y (y\<lparr>sy_db := (sy_db y)\<lparr>e_now := e_now (sy_db y) + d\<rparr>\<rparr>)"
| clean: "sysStep C L ex k hor y (y\<lparr>sy_db := snd (cleanupOnce batch (sy_db y))\<rparr>)"

text \<open>A handler works on other tables: it leaves the records and, for a run of it, the clock alone.\<close>

definition leavesRecords :: "('a idemstate_scheme, 'd) proc \<Rightarrow> bool" where
  "leavesRecords ex \<longleftrightarrow> (\<forall>s. iw_rows (snd (ex s)) = iw_rows s \<and> iw_nextID (snd (ex s)) = iw_nextID s \<and> e_now (snd (ex s)) = e_now s)"

subsection \<open>What a call does to the table\<close>

definition rowKey :: "IdempotencyRecord \<Rightarrow> string \<times> string" where
  "rowKey r = (ir_Scope r, ir_IdempotencyKeyHash r)"

lemma forKey_rowKey: "forKey a b r \<longleftrightarrow> rowKey r = (a, b)"
  by (simp add: forKey_def rowKey_def)

definition statusOf :: "string \<times> string \<Rightarrow> 'a idemstate_scheme \<Rightarrow> string option" where
  "statusOf k s = map_option ir_Status (find (\<lambda>r. rowKey r = k) (iw_rows s))"

text \<open>A state reached by statements on the record of \<open>q\<close> alone.\<close>

definition onlyKey :: "string \<times> string \<Rightarrow> 'a idemstate_scheme \<Rightarrow> 'a idemstate_scheme \<Rightarrow> bool" where
  "onlyKey q s s' \<longleftrightarrow> e_now s' = e_now s \<and> iw_nextID s \<le> iw_nextID s'
     \<and> (\<forall>r'\<in>set (iw_rows s'). (\<exists>r\<in>set (iw_rows s). ir_ID r = ir_ID r' \<and> rowKey r = rowKey r') \<or> (iw_nextID s \<le> ir_ID r' \<and> rowKey r' = q))
     \<and> (\<forall>k. k \<noteq> q \<longrightarrow> statusOf k s' = statusOf k s)"

definition tableOk :: "string \<times> string \<Rightarrow> int \<Rightarrow> 'a idemstate_scheme \<Rightarrow> bool" where
  "tableOk k hor s \<longleftrightarrow> distinct (map ir_ID (iw_rows s)) \<and> distinct (map rowKey (iw_rows s)) \<and> 0 < iw_nextID s \<and> e_now s < hor
     \<and> (\<forall>r\<in>set (iw_rows s). 0 < ir_ID r \<and> ir_ID r < iw_nextID s \<and> (rowKey r = k \<longrightarrow> hor \<le> ir_ExpiresAt r))"

lemma onlyKey_refl: "onlyKey q s s"
  by (auto simp: onlyKey_def)

lemma faults_frame [simp]:
  "onlyKey q (s\<lparr>e_faults := fs\<rparr>) s' = onlyKey q s s'" "statusOf k (s\<lparr>e_faults := fs\<rparr>) = statusOf k s" "tableOk k hor (s\<lparr>e_faults := fs\<rparr>) = tableOk k hor s"
  by (simp_all add: onlyKey_def statusOf_def tableOk_def)

lemma onlyKey_faults [simp]: "onlyKey q s (s\<lparr>e_faults := fs\<rparr>)"
  by (auto simp: onlyKey_def statusOf_def)

text \<open>A call of the database either failed and changed nothing, or did its statement.\<close>

lemma db_either:
  assumes "db tag act s = (r, s')"
  obtains e fs where "r = Inl e" "s' = s\<lparr>e_faults := fs\<rparr>" | fs where "act (s\<lparr>e_faults := fs\<rparr>) = (r, s')"
proof (cases "e_faults s")
  case Nil
  then have "s\<lparr>e_faults := []\<rparr> = s" by (cases s) simp
  with Nil assms that(2) [of "[]"] show thesis by (simp add: db_def)
next
  case (Cons b bs)
  with assms that show thesis by (auto simp: db_def split: if_splits)
qed

lemma create_effect:
  assumes "CreateProcessing (fst q) (snd q) fp locked expires s = (r, s')" and ok: "tableOk k hor s" and "q = k \<Longrightarrow> hor \<le> expires"
  shows "onlyKey q s s' \<and> tableOk k hor s'
    \<and> (case r of Inr (Some i) \<Rightarrow> statusOf q s = None \<and> statusOf q s' = Some IdempotencyStatusProcessing \<and> 0 < i \<and> i < iw_nextID s' \<and> (\<forall>r\<in>set (iw_rows s'). ir_ID r = i \<longrightarrow> rowKey r = q)
         | _ \<Rightarrow> statusOf q s' = statusOf q s)"
  using assms(1) unfolding CreateProcessing_def
proof (cases rule: db_either)
  case (2 fs)
  show ?thesis
  proof (cases "fitsColumn 128 (fst q) \<and> \<not> list_ex (forKey (fst q) (snd q)) (iw_rows s)")
    case False
    then show ?thesis using 2 ok by (auto split: if_splits)
  next
    case True
    then have new: "rowKey r \<noteq> q" if "r \<in> set (iw_rows s)" for r
      using that by (auto simp: list_ex_iff forKey_rowKey)
    then have none: "find (\<lambda>r. rowKey r = q) (iw_rows s) = None" by (auto simp: find_None_iff)
    have app: "find P (xs @ [y]) = (case find P xs of None \<Rightarrow> if P y then Some y else None | z \<Rightarrow> z)" for P and xs :: "IdempotencyRecord list" and y
      by (induction xs) auto
    have ids: "ir_ID r \<le> iw_nextID s \<and> ir_ID r \<noteq> iw_nextID s" if "r \<in> set (iw_rows s)" for r
      using ok that by (fastforce simp: tableOk_def)
    have fresh: "iw_nextID s \<notin> ir_ID ` set (iw_rows s)" using ok by (force simp: tableOk_def)
    have "q \<notin> rowKey ` set (iw_rows s)" using new by blast
    then show ?thesis
      using 2 True ok none fresh assms(3)
      by (auto simp: onlyKey_def tableOk_def statusOf_def app rowKey_def dest: ids split: option.splits)
  qed
qed (use ok in auto)

lemma find_updRows: "(\<And>r. P (g r) = P r) \<Longrightarrow> find P (updRows p g rows) = map_option (\<lambda>r. if p r then g r else r) (find P rows)"
  by (induction rows) (auto simp: updRows_def)

lemma find_distinct: "distinct (map f xs) \<Longrightarrow> x \<in> set xs \<Longrightarrow> find (\<lambda>y. f y = f x) xs = Some x"
  by (induction xs) force+

lemma statusOf_row: "distinct (map rowKey (iw_rows s)) \<Longrightarrow> r \<in> set (iw_rows s) \<Longrightarrow> statusOf (rowKey r) s = Some (ir_Status r)"
  by (simp add: statusOf_def find_distinct)

lemma update_effect:
  assumes "idemUpdate tag p f s = (r, s')" and ok: "tableOk k hor s"
    and f: "\<And>r. ir_ID (f r) = ir_ID r" "\<And>r. ir_Scope (f r) = ir_Scope r" "\<And>r. ir_IdempotencyKeyHash (f r) = ir_IdempotencyKeyHash r" "\<And>r. ir_Status (f r) = st"
    and q: "\<And>r. r \<in> set (iw_rows s) \<Longrightarrow> p r \<Longrightarrow> rowKey r = q" and e: "\<And>r. q = k \<Longrightarrow> hor \<le> ir_ExpiresAt (f r)"
  shows "onlyKey q s s' \<and> tableOk k hor s' \<and> statusOf q s' \<in> {statusOf q s, Some st}
    \<and> (r = Inr True \<longrightarrow> statusOf q s' = Some st \<and> (\<exists>x\<in>set (iw_rows s). p x))"
  using assms(1) unfolding idemUpdate_def
proof (cases rule: db_either)
  case (2 fs)
  let ?g = "\<lambda>r. (f r)\<lparr>ir_UpdatedAt := e_now s\<rparr>"
  have s': "s' = s\<lparr>e_faults := fs, iw_rows := updRows p ?g (iw_rows s)\<rparr>" and r: "r = Inr (list_ex p (iw_rows s))"
    using 2 by auto
  have g: "rowKey (?g r) = rowKey r" "ir_ID (?g r) = ir_ID r" "ir_Status (?g r) = st" for r by (simp_all add: f rowKey_def)
  have st: "statusOf k' s' = map_option (\<lambda>r. if p r then st else ir_Status r) (find (\<lambda>r. rowKey r = k') (iw_rows s))" for k'
    unfolding statusOf_def s' by (simp add: find_updRows g option.map_comp comp_def if_distrib [of ir_Status] cong: if_cong)
  have same: "map rowKey (iw_rows s') = map rowKey (iw_rows s)" "map ir_ID (iw_rows s') = map ir_ID (iw_rows s)"
    by (auto simp: s' updRows_def g)
  have row: "\<exists>x\<in>set (iw_rows s). ir_ID x = ir_ID y \<and> rowKey x = rowKey y \<and> (y = x \<or> p x \<and> y = ?g x)" if "y \<in> set (iw_rows s')" for y
    using that g by (fastforce simp: s' updRows_def)
  have other: "statusOf k' s' = statusOf k' s" if "k' \<noteq> q" for k'
  proof (cases "find (\<lambda>r. rowKey r = k') (iw_rows s)")
    case (Some x)
    then have "x \<in> set (iw_rows s)" "rowKey x = k'" by (auto simp: find_Some_iff)
    then have "\<not> p x" using q that by blast
    with Some show ?thesis unfolding st by (simp add: statusOf_def)
  next
    case None
    then show ?thesis unfolding st by (simp add: statusOf_def)
  qed
  have "tableOk k hor s'"
    unfolding tableOk_def
  proof (intro conjI ballI)
    fix y
    assume "y \<in> set (iw_rows s')"
    then obtain x where x: "x \<in> set (iw_rows s)" "ir_ID x = ir_ID y" "rowKey x = rowKey y" "y = x \<or> p x \<and> y = ?g x" using row by blast
    then show "0 < ir_ID y" "ir_ID y < iw_nextID s'" "rowKey y = k \<longrightarrow> hor \<le> ir_ExpiresAt y"
      using ok q [OF x(1)] e by (auto simp: tableOk_def s')
  qed (use ok same in \<open>simp_all add: tableOk_def s'\<close>)
  moreover have "onlyKey q s s'" unfolding onlyKey_def using row other by (fastforce simp: s')
  moreover have "statusOf q s' \<in> {statusOf q s, Some st}"
    by (cases "find (\<lambda>r. rowKey r = q) (iw_rows s)") (auto simp: st [of q] statusOf_def [of q s])
  moreover have "statusOf q s' = Some st" if "x \<in> set (iw_rows s)" "p x" for x
  proof -
    have "distinct (map rowKey (iw_rows s'))" using ok same by (simp add: tableOk_def)
    moreover have "?g x \<in> set (iw_rows s')" using that by (force simp: s' updRows_def)
    ultimately have "statusOf (rowKey (?g x)) s' = Some (ir_Status (?g x))" by (rule statusOf_row)
    then show ?thesis using q [OF that] g by simp
  qed
  ultimately show ?thesis using r by (auto simp: list_ex_iff)
qed (use ok in auto)

subsection \<open>The invariant\<close>

fun target :: "'d pc \<Rightarrow> int option" where
  "target (AtReclaimExpired r) = Some (ir_ID r)"
| "target (AtReclaim r) = Some (ir_ID r)"
| "target (Owner i) = Some i"
| "target (AtMarkFailed i _ _) = Some i"
| "target (AtMarkSucceeded i _ _) = Some i"
| "target _ = None"

fun afterExpiry :: "'d pc \<Rightarrow> bool" where
  "afterExpiry (AtReclaimExpired _) = True"
| "afterExpiry AtGetAgain = True"
| "afterExpiry _ = False"

text \<open>Positions of an owner whose handler has not succeeded.\<close>

fun notYetRun :: "'d pc \<Rightarrow> bool" where
  "notYetRun (Owner _) = True"
| "notYetRun (AtMarkFailed _ _ _) = True"
| "notYetRun _ = False"

definition threadOk :: "string \<times> string \<Rightarrow> int \<Rightarrow> 'a idemstate_scheme \<Rightarrow> (string \<times> string) set \<Rightarrow> ticket \<times> 'd pc \<Rightarrow> bool" where
  "threadOk k hor s runs x \<longleftrightarrow> (case x of (t, pc) \<Rightarrow>
      tk_Now t \<le> e_now s
    \<and> (case target pc of None \<Rightarrow> True | Some i \<Rightarrow> i < iw_nextID s \<and> (\<forall>r\<in>set (iw_rows s). ir_ID r = i \<longrightarrow> rowKey r = tkKey t))
    \<and> (tkKey t = k \<longrightarrow> hor \<le> tk_Expires t \<and> \<not> afterExpiry pc
        \<and> (executing pc \<longrightarrow> statusOf k s = Some IdempotencyStatusProcessing) \<and> (notYetRun pc \<longrightarrow> k \<notin> runs)))"

definition alone :: "string \<times> string \<Rightarrow> (ticket \<times> 'd pc) list \<Rightarrow> bool" where
  "alone k ts \<longleftrightarrow> (\<forall>i j. i < length ts \<and> j < length ts \<and> tkKey (fst (ts ! i)) = k \<and> tkKey (fst (ts ! j)) = k
      \<and> executing (snd (ts ! i)) \<and> executing (snd (ts ! j)) \<longrightarrow> i = j)"

definition raceOk :: "string \<times> string \<Rightarrow> int \<Rightarrow> ('a, 'd) system \<Rightarrow> bool" where
  "raceOk k hor y \<longleftrightarrow> tableOk k hor (sy_db y) \<and> (\<forall>x\<in>set (sy_threads y). threadOk k hor (sy_db y) (set (sy_runs y)) x)
     \<and> alone k (sy_threads y) \<and> count_list (sy_runs y) k \<le> 1
     \<and> (k \<in> set (sy_runs y) \<longrightarrow> statusOf k (sy_db y) \<in> {Some IdempotencyStatusProcessing, Some IdempotencyStatusSucceeded})"

lemma onlyKeyD:
  assumes "onlyKey q s s'"
  shows "e_now s' = e_now s" "iw_nextID s \<le> iw_nextID s'" "k \<noteq> q \<Longrightarrow> statusOf k s' = statusOf k s"
  using assms unfolding onlyKey_def by blast+

lemma threadOk_frame:
  assumes x: "threadOk k hor s runs x" and o: "onlyKey q s s'"
    and e: "\<lbrakk>q = k; tkKey (fst x) = k; executing (snd x)\<rbrakk> \<Longrightarrow> statusOf k s' = Some IdempotencyStatusProcessing"
  shows "threadOk k hor s' runs x"
proof -
  obtain t pc where x': "x = (t, pc)" by fastforce
  have "\<forall>r\<in>set (iw_rows s'). ir_ID r = i \<longrightarrow> rowKey r = tkKey t" if "target pc = Some i" for i
  proof (intro ballI impI)
    fix r'
    assume r': "r' \<in> set (iw_rows s')" "ir_ID r' = i"
    have i: "i < iw_nextID s" "\<forall>r\<in>set (iw_rows s). ir_ID r = i \<longrightarrow> rowKey r = tkKey t"
      using x that by (auto simp: threadOk_def x')
    then obtain r where "r \<in> set (iw_rows s)" "ir_ID r = ir_ID r'" "rowKey r = rowKey r'"
      using o r' by (fastforce simp: onlyKey_def)
    then show "rowKey r' = tkKey t" using i r' by metis
  qed
  then show ?thesis
    using x e onlyKeyD [OF o] by (cases "q = k") (fastforce simp: threadOk_def x' split: option.splits)+
qed

lemma alone_update:
  assumes "alone k ts" and i: "i < length ts" "ts ! i = (t, pc)" and "tkKey t = k \<Longrightarrow> executing pc' \<Longrightarrow> executing pc \<or> \<not> (\<exists>x\<in>set ts. tkKey (fst x) = k \<and> executing (snd x))"
  shows "alone k (ts[i := (t, pc')])"
  unfolding alone_def
proof (intro allI impI, elim conjE)
  fix a b
  let ?ts = "ts[i := (t, pc')]"
  assume ab: "a < length ?ts" "b < length ?ts" "tkKey (fst (?ts ! a)) = k" "tkKey (fst (?ts ! b)) = k" "executing (snd (?ts ! a))" "executing (snd (?ts ! b))"
  have old: "c = i \<or> tkKey (fst (ts ! c)) = k \<and> executing (snd (ts ! c)) \<and> c < length ts"
    if "c < length ?ts" "tkKey (fst (?ts ! c)) = k" "executing (snd (?ts ! c))" for c
    using that by (auto simp: nth_list_update split: if_splits)
  have new: "tkKey t = k \<and> executing pc'" if "c = i" "tkKey (fst (?ts ! c)) = k" "executing (snd (?ts ! c))" for c
    using that i by auto
  show "a = b"
    using old [OF ab(1,3,5)] old [OF ab(2,4,6)] new [OF _ ab(3,5)] new [OF _ ab(4,6)] assms i
    unfolding alone_def by (metis fst_conv nth_mem snd_conv)
qed

subsection \<open>One step of a request\<close>

text \<open>How a step of a request of key \<open>k\<close> moves the status of its record.\<close>

definition moves :: "string \<times> string \<Rightarrow> 'a idemstate_scheme \<Rightarrow> 'a idemstate_scheme \<Rightarrow> 'd pc \<Rightarrow> 'd pc \<Rightarrow> bool" where
  "moves k s s' pc pc' \<longleftrightarrow>
     (if executing pc
      then if executing pc' then statusOf k s' = statusOf k s \<and> (\<exists>i. pc = Owner i) \<and> (\<forall>i. pc' \<noteq> Owner i)
           else statusOf k s' \<in> {statusOf k s, Some (if notYetRun pc \<and> \<not> ranHandler pc pc' then IdempotencyStatusFailedRetryable else IdempotencyStatusSucceeded)}
      else if executing pc' then statusOf k s \<in> {None, Some IdempotencyStatusFailedRetryable} \<and> statusOf k s' = Some IdempotencyStatusProcessing
      else statusOf k s' = statusOf k s)"

definition targetOk :: "'a idemstate_scheme \<Rightarrow> ticket \<Rightarrow> 'd pc \<Rightarrow> bool" where
  "targetOk s t pc \<longleftrightarrow> (case target pc of None \<Rightarrow> True
     | Some i \<Rightarrow> i < iw_nextID s \<and> (\<forall>r\<in>set (iw_rows s). ir_ID r = i \<longrightarrow> rowKey r = tkKey t))"

definition stepOk :: "string \<times> string \<Rightarrow> int \<Rightarrow> 'a idemstate_scheme \<Rightarrow> ticket \<Rightarrow> 'd pc \<Rightarrow> 'd pc \<times> 'a idemstate_scheme \<Rightarrow> bool" where
  "stepOk k hor s t pc res \<longleftrightarrow> (case res of (pc', s') \<Rightarrow>
      onlyKey (tkKey t) s s' \<and> tableOk k hor s' \<and> targetOk s' t pc' \<and> (tkKey t = k \<longrightarrow> \<not> afterExpiry pc' \<and> moves k s s' pc pc'))"

lemma Processing_neq [simp]:
  "IdempotencyStatusProcessing \<noteq> IdempotencyStatusFailedRetryable" "IdempotencyStatusProcessing \<noteq> IdempotencyStatusSucceeded"
  "IdempotencyStatusFailedRetryable \<noteq> IdempotencyStatusProcessing" "IdempotencyStatusFailedRetryable \<noteq> IdempotencyStatusSucceeded"
  "IdempotencyStatusSucceeded \<noteq> IdempotencyStatusProcessing" "IdempotencyStatusSucceeded \<noteq> IdempotencyStatusFailedRetryable"
  by (simp_all add: idemStatus_defs)

lemma step_create:
  assumes "tableOk k hor s" and "tkKey t = k \<Longrightarrow> hor \<le> tk_Expires t"
  shows "stepOk k hor s t AtCreate (advance C L ex t AtCreate s)"
proof -
  let ?m = "CreateProcessing (tk_Scope t) (tk_Hash t) (tk_Fingerprint t) (tk_Locked t) (tk_Expires t)"
  obtain r s' where m: "?m s = (r, s')" by fastforce
  have "CreateProcessing (fst (tkKey t)) (snd (tkKey t)) (tk_Fingerprint t) (tk_Locked t) (tk_Expires t) s = (r, s')"
    using m by (simp add: tkKey_def)
  from create_effect [OF this assms(1)] assms(2) show ?thesis
    by (auto simp: m call_def stepOk_def targetOk_def moves_def owned_def split: sum.splits option.splits)
qed

lemma find_key:
  assumes "GetByScopeAndKeyHash a b s = (Inr (Some r), s')" and "tableOk k hor s"
  shows "r \<in> set (iw_rows s) \<and> rowKey r = (a, b) \<and> ir_ID r < iw_nextID s \<and> (\<forall>x\<in>set (iw_rows s). ir_ID x = ir_ID r \<longrightarrow> rowKey x = (a, b))"
proof -
  have "find (forKey a b) (iw_rows s) = Some r"
    using assms(1) by (auto simp: GetByScopeAndKeyHash_def elim!: db_Inr)
  then have r: "r \<in> set (iw_rows s)" "rowKey r = (a, b)" by (auto simp: find_Some_iff forKey_rowKey)
  have "x = r" if "x \<in> set (iw_rows s)" "ir_ID x = ir_ID r" for x
    using assms(2) r(1) that by (auto simp: tableOk_def distinct_map dest: inj_onD)
  then show ?thesis using r assms(2) by (auto simp: tableOk_def)
qed

lemma step_get:
  assumes ok: "tableOk k hor s" and now: "tk_Now t \<le> e_now s" and pc: "\<not> executing pc"
  shows "stepOk k hor s t pc (call (GetByScopeAndKeyHash (tk_Scope t) (tk_Hash t)) (decideFound L first t) s)"
proof -
  let ?m = "GetByScopeAndKeyHash (tk_Scope t) (tk_Hash t) :: ('a idemstate_scheme, _) proc"
  obtain r s' where m: "?m s = (r, s')" by fastforce
  have s': "\<exists>fs. s' = s\<lparr>e_faults := fs\<rparr>"
    using m unfolding GetByScopeAndKeyHash_def by (cases rule: db_either) auto
  then obtain fs where fs: "s' = s\<lparr>e_faults := fs\<rparr>" by blast
  have tgt: "targetOk s' t (decideFound L first t f :: 'b pc) \<and> \<not> executing (decideFound L first t f :: 'b pc)
      \<and> (tkKey t = k \<longrightarrow> \<not> afterExpiry (decideFound L first t f :: 'b pc))" if "r = Inr f" for f
  proof (cases f)
    case (Some x)
    have x: "x \<in> set (iw_rows s)" "rowKey x = tkKey t" "ir_ID x < iw_nextID s" "\<forall>y\<in>set (iw_rows s). ir_ID y = ir_ID x \<longrightarrow> rowKey y = tkKey t"
      using find_key [OF m [unfolded that Some] ok] by (auto simp: tkKey_def)
    have "tk_Now t < ir_ExpiresAt x" if "tkKey t = k"
      using ok x that now by (fastforce simp: tableOk_def)
    then show ?thesis
      using x by (auto simp: Some targetOk_def decideFound_def decideStatus_def conflictWithRetryAfter_def fs split: option.splits)
  qed (simp add: targetOk_def decideFound_def)
  have "moves k s s' pc pc'" if "\<not> executing pc'" for pc' using that pc by (simp add: moves_def fs)
  with tgt ok fs show ?thesis
    by (cases r) (auto simp: m call_def stepOk_def targetOk_def)
qed

lemma step_reclaim:
  assumes ok: "tableOk k hor s" and tgt: "\<And>x. x \<in> set (iw_rows s) \<Longrightarrow> ir_ID x = ir_ID r \<Longrightarrow> rowKey x = tkKey t" "ir_ID r < iw_nextID s"
    and e: "tkKey t = k \<Longrightarrow> hor \<le> tk_Expires t \<and> st = IdempotencyStatusFailedRetryable"
    and no: "\<not> executing no" "target no = None" "tkKey t = k \<Longrightarrow> \<not> afterExpiry no" and pc: "\<not> executing pc"
  shows "stepOk k hor s t pc (call (TryReclaim (ir_ID r) st (tk_Now t) (tk_Locked t) (tk_Expires t)) (\<lambda>taken. if taken then owned (ir_ID r) else no) s)"
proof -
  let ?m = "TryReclaim (ir_ID r) st (tk_Now t) (tk_Locked t) (tk_Expires t)"
  obtain b s' where m: "?m s = (b, s')" by fastforce
  have eff: "onlyKey (tkKey t) s s' \<and> tableOk k hor s' \<and> statusOf (tkKey t) s' \<in> {statusOf (tkKey t) s, Some IdempotencyStatusProcessing}
    \<and> (b = Inr True \<longrightarrow> statusOf (tkKey t) s' = Some IdempotencyStatusProcessing \<and> (\<exists>x\<in>set (iw_rows s). reclaimable (ir_ID r) st (tk_Now t) x))"
    using m unfolding TryReclaim_def by (rule update_effect [OF _ ok]) (use tgt e in \<open>auto simp: reclaimable_def\<close>)
  have quiet: "statusOf (tkKey t) s' = statusOf (tkKey t) s" if "b \<noteq> Inr True"
    using m unfolding TryReclaim_def idemUpdate_def
  proof (cases rule: db_either)
    case (2 fs)
    with that have "\<not> list_ex (reclaimable (ir_ID r) st (tk_Now t)) (iw_rows s)" by auto
    then have "map (\<lambda>x. if reclaimable (ir_ID r) st (tk_Now t) x then F x else x) (iw_rows s) = iw_rows s" for F
      by (intro map_idI) (auto simp: list_ex_iff)
    with 2 show ?thesis by (auto simp: statusOf_def updRows_def)
  qed auto
  show ?thesis
  proof (cases "b = Inr True")
    case True
    with eff obtain x where x: "x \<in> set (iw_rows s)" "ir_ID x = ir_ID r" "ir_Status x = st" by (auto simp: reclaimable_def)
    have "0 < ir_ID r" using x ok by (force simp: tableOk_def)
    moreover have "statusOf (tkKey t) s = Some st" using statusOf_row [of s x] x ok tgt by (auto simp: tableOk_def)
    moreover have "targetOk s' t (Owner (ir_ID r))"
      using onlyKeyD [of "tkKey t" s s'] eff tgt unfolding targetOk_def onlyKey_def by auto
    ultimately show ?thesis using eff True e pc by (auto simp: m call_def stepOk_def moves_def owned_def)
  next
    case False
    then show ?thesis using quiet eff no pc by (cases b) (auto simp: m call_def stepOk_def moves_def targetOk_def unavailable_def)
  qed
qed

lemma mark_effect:
  assumes "bindP (idemUpdate tag (\<lambda>r. ir_ID r = i) f) (\<lambda>_. ret ()) s = (b, s')" and ok: "tableOk k hor s"
    and f: "\<And>r. ir_ID (f r) = ir_ID r" "\<And>r. ir_Scope (f r) = ir_Scope r" "\<And>r. ir_IdempotencyKeyHash (f r) = ir_IdempotencyKeyHash r" "\<And>r. ir_Status (f r) = st"
    and q: "\<And>r. r \<in> set (iw_rows s) \<Longrightarrow> ir_ID r = i \<Longrightarrow> rowKey r = q" and e: "\<And>r. q = k \<Longrightarrow> hor \<le> ir_ExpiresAt (f r)"
  shows "onlyKey q s s' \<and> tableOk k hor s' \<and> statusOf q s' \<in> {statusOf q s, Some st}"
proof -
  obtain r s1 where "idemUpdate tag (\<lambda>r. ir_ID r = i) f s = (r, s1)" by fastforce
  moreover from this have "s' = s1" using assms(1) by (auto simp: bindP_def ret_def split: sum.splits)
  ultimately show ?thesis using update_effect [OF _ ok f q e] by blast
qed

lemma step_succeeded:
  assumes ok: "tableOk k hor s" and tgt: "targetOk s t (AtMarkSucceeded i d body)" and e: "tkKey t = k \<Longrightarrow> hor \<le> tk_Expires t"
  shows "stepOk k hor s t (AtMarkSucceeded i d body) (advance C L ex t (AtMarkSucceeded i d body) s)"
proof -
  obtain b s' where m: "MarkSucceeded i 200 body (tk_Expires t) s = (b, s')" by fastforce
  have "onlyKey (tkKey t) s s' \<and> tableOk k hor s' \<and> statusOf (tkKey t) s' \<in> {statusOf (tkKey t) s, Some IdempotencyStatusSucceeded}"
    using m unfolding MarkSucceeded_def by (rule mark_effect [OF _ ok]) (use tgt e in \<open>auto simp: targetOk_def\<close>)
  then show ?thesis
    by (cases b) (auto simp: m call_def stepOk_def moves_def targetOk_def)
qed

lemma step_failed:
  assumes ok: "tableOk k hor s" and tgt: "targetOk s t (AtMarkFailed i e l)" and e: "tkKey t = k \<Longrightarrow> hor \<le> tk_Expires t"
  shows "stepOk k hor s t (AtMarkFailed i e l) (advance C L ex t (AtMarkFailed i e l) s)"
proof -
  obtain b s' where m: "MarkFailedRetryable i (executionReason e) l (tk_Expires t) s = (b, s')" by fastforce
  have "onlyKey (tkKey t) s s' \<and> tableOk k hor s' \<and> statusOf (tkKey t) s' \<in> {statusOf (tkKey t) s, Some IdempotencyStatusFailedRetryable}"
  proof (cases "fitsColumn 128 (executionReason e)")
    case True
    show ?thesis
      using m unfolding MarkFailedRetryable_def if_P [OF True] by (rule mark_effect [OF _ ok]) (use tgt e in \<open>auto simp: targetOk_def\<close>)
  qed (use m ok onlyKey_refl [of "tkKey t" s'] in \<open>auto simp: MarkFailedRetryable_def fail_def simp del: split_paired_All\<close>)
  then show ?thesis by (auto simp: m stepOk_def moves_def targetOk_def)
qed

lemma step_owner:
  assumes ok: "tableOk k hor s" and tgt: "targetOk s t (Owner i)" and ex: "leavesRecords ex"
  shows "stepOk k hor s t (Owner i) (advance C L ex t (Owner i) s)"
proof -
  obtain r s' where r: "ex s = (r, s')" by fastforce
  have same: "iw_rows s' = iw_rows s" "iw_nextID s' = iw_nextID s" "e_now s' = e_now s"
    using ex r unfolding leavesRecords_def by (metis snd_conv)+
  have "statusOf q s' = statusOf q s" "onlyKey q s s'" "tableOk k hor s'" for q
    using ok by (auto simp: statusOf_def onlyKey_def tableOk_def same)
  then show ?thesis
    using tgt by (cases r) (auto simp: r runHandler_def stepOk_def moves_def targetOk_def same split: option.split)
qed

lemma step_ok:
  assumes ok: "tableOk k hor s" and x: "threadOk k hor s runs (t, pc)" and ex: "leavesRecords ex"
  shows "stepOk k hor s t pc (advance C L ex t pc s)"
proof -
  have tgt: "targetOk s t pc" and e: "tkKey t = k \<Longrightarrow> hor \<le> tk_Expires t \<and> \<not> afterExpiry pc" and now: "tk_Now t \<le> e_now s"
    using x by (auto simp: threadOk_def targetOk_def)
  show ?thesis
  proof (cases pc)
    case (AtReclaimExpired r)
    with tgt e show ?thesis by (simp, intro step_reclaim [OF ok]) (auto simp: targetOk_def)
  next
    case (AtReclaim r)
    with tgt e show ?thesis by (simp, intro step_reclaim [OF ok]) (auto simp: targetOk_def conflictWithRetryAfter_def)
  next
    case (Finished z)
    then show ?thesis using ok by (simp add: stepOk_def onlyKey_refl targetOk_def moves_def)
  qed (use ok tgt e ex now in \<open>auto simp del: advance.simps(1,6-8) intro: step_create step_get step_owner step_failed step_succeeded\<close>)
qed

subsection \<open>One step of the system\<close>

lemma turn_ok:
  assumes ok: "raceOk k hor y" and i: "i < length (sy_threads y)" "sy_threads y ! i = (t, pc)" and ex: "leavesRecords (ex i)"
    and a: "advance C L (ex i) t pc (sy_db y) = (pc', s')"
  shows "raceOk k hor (y\<lparr>sy_db := s', sy_threads := (sy_threads y)[i := (t, pc')],
      sy_runs := (if ranHandler pc pc' then sy_runs y @ [tkKey t] else sy_runs y)\<rparr>)" (is "raceOk k hor ?y")
proof -
  let ?ts = "sy_threads y" and ?s = "sy_db y" and ?R = "sy_runs y"
  have tab: "tableOk k hor ?s" and th: "\<And>x. x \<in> set ?ts \<Longrightarrow> threadOk k hor ?s (set ?R) x" and al: "alone k ?ts"
    and one: "count_list ?R k \<le> 1" and st: "k \<in> set ?R \<Longrightarrow> statusOf k ?s \<in> {Some IdempotencyStatusProcessing, Some IdempotencyStatusSucceeded}"
    using ok by (auto simp: raceOk_def)
  have x: "threadOk k hor ?s (set ?R) (t, pc)" using th i by (metis nth_mem)
  have S: "onlyKey (tkKey t) ?s s'" "tableOk k hor s'" "targetOk s' t pc'" "tkKey t = k \<Longrightarrow> \<not> afterExpiry pc' \<and> moves k ?s s' pc pc'"
    using step_ok [OF tab x ex, of C L] by (auto simp: a stepOk_def)
  have ran: "ranHandler pc pc' \<Longrightarrow> executing pc \<and> notYetRun pc \<and> \<not> notYetRun pc'" if "executing pc \<Longrightarrow> \<forall>i. pc' \<noteq> Owner i" for pc pc' :: "'b pc"
    using that by (cases pc; cases pc') auto
  show ?thesis
  proof (cases "tkKey t = k")
    case False
    let ?R' = "sy_runs ?y"
    have old: "threadOk k hor s' (set ?R) z" if "z \<in> set ?ts" for z
      by (rule threadOk_frame [OF th [OF that] S(1)]) (use False in simp)
    have new: "threadOk k hor s' (set ?R) (t, pc')"
      using x S(3) onlyKeyD(1) [OF S(1)] False by (simp add: threadOk_def targetOk_def)
    have runs: "threadOk k hor s' (set ?R') z = threadOk k hor s' (set ?R) z" for z
      using False by (cases z) (auto simp: threadOk_def)
    have "threadOk k hor s' (set ?R') z" if "z \<in> set (?ts[i := (t, pc')])" for z
      unfolding runs using set_update_subset_insert [THEN subsetD, OF that] old new by blast
    moreover have "alone k (?ts[i := (t, pc')])" by (rule alone_update [OF al i]) (use False in simp)
    moreover have "count_list ?R' k = count_list ?R k" "k \<in> set ?R' \<longleftrightarrow> k \<in> set ?R" using False by auto
    ultimately show ?thesis
      using S(2) one st onlyKeyD(3) [OF S(1), of k] False unfolding raceOk_def by (simp del: split_paired_All)
  next
    case True
    let ?R' = "sy_runs ?y"
    have mv: "moves k ?s s' pc pc'" and late: "\<not> afterExpiry pc'" using S(4) True by auto
    have proc: "executing pc \<Longrightarrow> statusOf k ?s = Some IdempotencyStatusProcessing" and ny: "notYetRun pc \<Longrightarrow> k \<notin> set ?R"
      and hor: "hor \<le> tk_Expires t" using x True by (auto simp: threadOk_def)
    have others: "\<not> executing (snd (?ts ! j))" if "j < length ?ts" "j \<noteq> i" "tkKey (fst (?ts ! j)) = k" "executing pc \<or> executing pc'" for j
    proof (cases "executing pc")
      case True
      with al that i \<open>tkKey t = k\<close> show ?thesis unfolding alone_def by (metis fst_conv snd_conv)
    next
      case False
      then have "statusOf k ?s \<noteq> Some IdempotencyStatusProcessing" using mv that(4) by (auto simp: moves_def)
      then show ?thesis using th [OF nth_mem [OF that(1)]] that(3) by (cases "?ts ! j") (auto simp: threadOk_def)
    qed
    have R': "k \<in> set ?R' \<Longrightarrow> k \<in> set ?R \<or> ranHandler pc pc'" by auto
    have r: "ranHandler pc pc' \<Longrightarrow> executing pc \<and> notYetRun pc \<and> \<not> notYetRun pc'"
      by (rule ran) (use mv in \<open>cases pc'; auto simp: moves_def split: if_splits\<close>)
    have "threadOk k hor s' (set ?R') z" if z: "z \<in> set (?ts[i := (t, pc')])" for z
    proof -
      obtain j where j: "j < length ?ts" "z = ?ts[i := (t, pc')] ! j" using z by (metis in_set_conv_nth length_list_update)
      show ?thesis
      proof (cases "j = i")
        case True
        then have z: "z = (t, pc')" using j by simp
        have "k \<notin> set ?R'" if "notYetRun pc'"
          using that mv ny r proc st \<open>tkKey t = k\<close>
          by (cases pc') (auto simp: moves_def split: if_splits)
        then show ?thesis
          using x S late hor mv proc onlyKeyD(1) [OF S(1)] \<open>tkKey t = k\<close>
          by (auto simp: z threadOk_def targetOk_def moves_def split: if_splits)
      next
        case False
        then have z: "z = ?ts ! j" using j by simp
        have frame: "threadOk k hor s' (set ?R) z"
        proof (rule threadOk_frame [OF _ S(1)])
          show "threadOk k hor ?s (set ?R) z" using th z j by simp
          assume "tkKey (fst z) = k" "executing (snd z)"
          then have "\<not> executing pc" "\<not> executing pc'" using others [OF j(1) False] z by auto
          then show "statusOf k s' = Some IdempotencyStatusProcessing"
            using mv th [of z] z j \<open>tkKey (fst z) = k\<close> \<open>executing (snd z)\<close> by (cases z) (auto simp: moves_def threadOk_def)
        qed
        have nx: "notYetRun p \<Longrightarrow> executing p" for p :: "'b pc" by (cases p) auto
        have "\<not> notYetRun (snd z)" if "tkKey (fst z) = k" "ranHandler pc pc'"
          using others [OF j(1) False] that r nx z by blast
        then show ?thesis using frame by (cases z) (auto simp: threadOk_def True)
      qed
    qed
    moreover have "alone k (?ts[i := (t, pc')])"
    proof (rule alone_update [OF al i], rule disjCI)
      assume "executing pc'" and "\<not> \<not> (\<exists>x\<in>set ?ts. tkKey (fst x) = k \<and> executing (snd x))"
      then show "executing pc" using others i by (metis in_set_conv_nth snd_conv)
    qed
    moreover have "count_list ?R' k \<le> 1"
      using one r ny by (auto simp: count_list_0_iff)
    moreover have "statusOf k s' \<in> {Some IdempotencyStatusProcessing, Some IdempotencyStatusSucceeded}" if "k \<in> set ?R'"
      using R' [OF that] r ny proc st mv by (auto simp: moves_def split: if_splits)
    ultimately show ?thesis using S(2) unfolding raceOk_def by auto
  qed
qed

lemma find_filter: "(\<And>x. x \<in> set xs \<Longrightarrow> P x \<Longrightarrow> Q x) \<Longrightarrow> find P (filter Q xs) = find P xs"
  by (induction xs) auto

lemma cleanup_effect:
  assumes ok: "tableOk k hor s"
  shows "tableOk k hor (snd (cleanupOnce batch s)) \<and> statusOf k (snd (cleanupOnce batch s)) = statusOf k s
    \<and> set (iw_rows (snd (cleanupOnce batch s))) \<subseteq> set (iw_rows s) \<and> iw_nextID (snd (cleanupOnce batch s)) = iw_nextID s \<and> e_now (snd (cleanupOnce batch s)) = e_now s"
proof -
  obtain r s' where d: "DeleteExpired (e_now s) (if 0 < batch then batch else 500) s = (r, s')" by fastforce
  have eq: "snd (cleanupOnce batch s) = s'"
    using d by (auto simp: cleanupOnce_def ignoreP_def)
  show ?thesis
    using d unfolding DeleteExpired_def
  proof (cases rule: db_either)
    case (2 fs)
    define V where "V = ir_ID ` set (take (nat (if (if 0 < batch then batch else 500) \<le> 0 then 500 else (if 0 < batch then batch else 500)))
           (sortBy (\<lambda>x y. ir_ExpiresAt x \<le> ir_ExpiresAt y) (filter (\<lambda>r. ir_ExpiresAt r \<le> e_now s) (iw_rows s))))"
    have s': "s' = s\<lparr>e_faults := fs, iw_rows := filter (\<lambda>r. ir_ID r \<notin> V) (iw_rows s)\<rparr>"
      using 2 by (simp add: V_def Let_def)
    then have V: "iw_rows s' = filter (\<lambda>r. ir_ID r \<notin> V) (iw_rows s)" by simp
    have exp: "V \<subseteq> ir_ID ` {r \<in> set (iw_rows s). ir_ExpiresAt r \<le> e_now s}"
      unfolding V_def by (intro image_mono) (auto dest: in_set_takeD)
    have "ir_ID r \<notin> V" if r: "r \<in> set (iw_rows s)" "rowKey r = k" for r
    proof
      assume "ir_ID r \<in> V"
      then obtain x where x: "x \<in> set (iw_rows s)" "ir_ExpiresAt x \<le> e_now s" "ir_ID x = ir_ID r" using exp by auto
      then have "x = r" using ok r by (auto simp: tableOk_def distinct_map dest: inj_onD)
      then show False using x r ok by (fastforce simp: tableOk_def)
    qed
    then have "find (\<lambda>r. rowKey r = k) (iw_rows s') = find (\<lambda>r. rowKey r = k) (iw_rows s)"
      unfolding V by (intro find_filter)
    moreover have "iw_nextID s' = iw_nextID s" "e_now s' = e_now s" by (simp_all add: s')
    ultimately show ?thesis
      using ok by (auto simp: eq statusOf_def tableOk_def V distinct_map inj_on_def)
  qed (use ok eq in auto)
qed

lemma threadOk_shrink:
  "\<lbrakk>threadOk k hor s runs x; set (iw_rows s') \<subseteq> set (iw_rows s); iw_nextID s' = iw_nextID s; e_now s \<le> e_now s'; statusOf k s' = statusOf k s\<rbrakk> \<Longrightarrow> threadOk k hor s' runs x"
  by (cases x) (fastforce simp: threadOk_def split: option.splits)

lemma raceOk_db:
  assumes "raceOk k hor y" and "tableOk k hor s'" and "set (iw_rows s') \<subseteq> set (iw_rows (sy_db y))" and "iw_nextID s' = iw_nextID (sy_db y)"
    and "e_now (sy_db y) \<le> e_now s'" and "statusOf k s' = statusOf k (sy_db y)"
  shows "raceOk k hor (y\<lparr>sy_db := s'\<rparr>)"
proof -
  have "threadOk k hor s' (set (sy_runs y)) x" if "x \<in> set (sy_threads y)" for x
    by (rule threadOk_shrink [OF _ assms(3-6)]) (use that assms(1) in \<open>auto simp: raceOk_def\<close>)
  then show ?thesis using assms unfolding raceOk_def by simp
qed

lemma sysStep_ok:
  assumes "sysStep C L ex k hor y y'" and "raceOk k hor y" and ex: "\<And>i. leavesRecords (ex i)"
  shows "raceOk k hor y'"
  using assms(1,2)
proof cases
  case (arrive p t)
  have "tk_Now t = e_now (sy_db y)"
    using arrive(2) by (auto simp: ticketFor_def split: sum.splits if_splits)
  moreover have "alone k (sy_threads y @ [(t, AtCreate)])"
    using assms(2) by (auto simp: raceOk_def alone_def nth_append less_Suc_eq)
  ultimately show ?thesis using arrive assms(2) by (auto simp: raceOk_def threadOk_def)
next
  case (turn i t pc pc' s')
  with assms(2) ex show ?thesis using turn_ok by blast
next
  case (die i t pc)
  have "alone k ((sy_threads y)[i := (t, Finished unavailable)])"
    by (rule alone_update [OF _ die(2,3)]) (use assms(2) in \<open>auto simp: raceOk_def\<close>)
  moreover have "threadOk k hor (sy_db y) (set (sy_runs y)) (t, Finished unavailable)"
    using assms(2) die nth_mem [OF die(2)] by (auto simp: raceOk_def threadOk_def)
  ultimately show ?thesis
    using assms(2) die(1) unfolding raceOk_def by (auto simp del: split_paired_All split_paired_all dest!: set_update_subset_insert [THEN subsetD])
next
  case (wait d)
  show ?thesis unfolding wait(1)
    by (rule raceOk_db [OF assms(2)]) (use wait assms(2) in \<open>auto simp: raceOk_def tableOk_def statusOf_def\<close>)
next
  case (clean batch)
  have "tableOk k hor (sy_db y)" using assms(2) by (simp add: raceOk_def)
  from cleanup_effect [OF this, of batch] show ?thesis
    unfolding clean by (intro raceOk_db [OF assms(2)]) auto
qed

text \<open>
  C10: however requests, deaths of requests, clean-up rounds and failing calls of the database
  interleave, as long as the records of a key cannot expire at most one request with that key runs its handler to a success, and
  two of them are never both between their claim and the mark of its outcome.
\<close>

theorem handler_runs_at_most_once:
  fixes y0 y :: "('a, 'd) system"
  assumes ex: "\<And>i. leavesRecords (ex i)" and "tableOk k hor (sy_db y0)" and "statusOf k (sy_db y0) = None"
    and "sy_threads y0 = []" and "sy_runs y0 = []" and run: "(sysStep C L ex k hor)\<^sup>*\<^sup>* y0 y"
  shows "count_list (sy_runs y) k \<le> 1 \<and> alone k (sy_threads y)"
proof -
  have "raceOk k hor y0" using assms(2-5) by (simp add: raceOk_def alone_def)
  with run have "raceOk k hor y" by (induction rule: rtranclp_induct) (simp_all add: sysStep_ok [OF _ _ ex])
  then show ?thesis by (simp add: raceOk_def)
qed

definition demoLib :: "unit jsonlib" where
  "demoLib = \<lparr>jl_data = (\<lambda>_. Some ''{}''), jl_enc = (\<lambda>_. ''{}''), jl_dec = (\<lambda>x. if x = ''{}'' then Some (JObj []) else None)\<rparr>"

definition demoCall :: idemOpts where
  "demoCall = \<lparr>io_Scope = ''s'', io_ActorScope = ''user:1'', io_Method = ''POST'', io_Route = ''/r'', io_IdempotencyKey = ''k'',
     io_Payload = Some ''{}'', io_TTL = 100, io_RequireKey = True\<rparr>"

definition demoTicket :: "int \<Rightarrow> ticket" where
  "demoTicket now = \<lparr>tk_Scope = ''s'', tk_Hash = HashIdempotencyKey ''k'',
     tk_Fingerprint = sha256hex (''POST'' @ [CHR 0x0A] @ ''/r'' @ [CHR 0x0A] @ ''user:1'' @ [CHR 0x0A] @ ''{}''),
     tk_Now = now, tk_Locked = now + 30 * second, tk_Expires = now + 100\<rparr>"

definition demoStore :: idemstate where
  "demoStore = \<lparr>e_now = 0, e_faults = [], iw_rows = [], iw_nextID = 1\<rparr>"

lemma trimSpace_demo: "trimSpace ''k'' = ''k''" "trimSpace ''{}'' = ''{}''"
  by (simp_all add: trimSpace_printable printable_def)

lemma demo_ticket: "ticketFor DefaultIdempotencyConfig demoCall now = Some (Inr (demoTicket now))"
  by (simp add: ticketFor_def demoCall_def demoTicket_def NormalizeIdempotencyKey_def trimSpace_demo DefaultIdempotencyConfig_def
      BuildIdempotencyFingerprint_def orElse_def upperByte_def effectiveTTL_def)

lemma demo_marshal: "marshalStoredResponse DefaultIdempotencyConfig demoLib () = Some ''{}''"
  by (simp add: marshalStoredResponse_def demoLib_def redactEncoded_def RedactJSON_def trimSpace_demo DefaultIdempotencyConfig_def)

theorem handler_runs_at_most_once_witness:
  "\<exists>y :: (unit, unit) system. (sysStep DefaultIdempotencyConfig demoLib (\<lambda>_. ret ()) (tkKey (demoTicket 0)) 100)\<^sup>*\<^sup>* \<lparr>sy_db = demoStore, sy_threads = [], sy_runs = []\<rparr> y
     \<and> sy_runs y = [tkKey (demoTicket 0)] \<and> count_list (sy_runs y) (tkKey (demoTicket 0)) \<le> 1 \<and> alone (tkKey (demoTicket 0)) (sy_threads y)"
proof -
  let ?k = "tkKey (demoTicket 0)" and ?St = "sysStep DefaultIdempotencyConfig demoLib (\<lambda>_. ret () :: (idemstate, unit) proc) (tkKey (demoTicket 0)) 100"
  let ?y0 = "\<lparr>sy_db = demoStore, sy_threads = [], sy_runs = []\<rparr> :: (unit, unit) system"
  let ?y1 = "?y0\<lparr>sy_threads := [(demoTicket 0, AtCreate)]\<rparr>"
  have 1: "?St ?y0 ?y1"
    using sysStep.arrive [of DefaultIdempotencyConfig demoCall ?y0 "demoTicket 0" ?k 100 demoLib "\<lambda>_. ret ()"]
    by (simp add: demo_ticket demoTicket_def demoStore_def)
  obtain s2 where c: "advance DefaultIdempotencyConfig demoLib (ret ()) (demoTicket 0) AtCreate demoStore = (Owner 1, s2)"
    by (simp add: call_def CreateProcessing_def db_def demoStore_def demoTicket_def fitsColumn_def charLen_def owned_def)
  let ?y2 = "?y1\<lparr>sy_db := s2, sy_threads := [(demoTicket 0, Owner 1)]\<rparr>"
  let ?y3 = "?y2\<lparr>sy_threads := [(demoTicket 0, AtMarkSucceeded 1 () ''{}'')], sy_runs := [?k]\<rparr>"
  have 2: "?St ?y1 ?y2"
    using sysStep.turn [of 0 ?y1 "demoTicket 0" AtCreate DefaultIdempotencyConfig demoLib "\<lambda>_. ret ()" "Owner 1" s2 ?k 100] c by simp
  have h: "advance DefaultIdempotencyConfig demoLib (ret ()) (demoTicket 0) (Owner 1) s2 = (AtMarkSucceeded 1 () ''{}'', s2)"
    by (simp add: runHandler_def ret_def demo_marshal)
  have 3: "?St ?y2 ?y3"
    using sysStep.turn [of 0 ?y2 "demoTicket 0" "Owner 1" DefaultIdempotencyConfig demoLib "\<lambda>_. ret ()" "AtMarkSucceeded 1 () ''{}''" s2 ?k 100] h by simp
  have run: "?St\<^sup>*\<^sup>* ?y0 ?y3" using 1 2 3 by (meson converse_rtranclp_into_rtranclp rtranclp.rtrancl_refl)
  have "count_list (sy_runs ?y3) ?k \<le> 1 \<and> alone ?k (sy_threads ?y3)"
    by (rule handler_runs_at_most_once [OF _ _ _ _ _ run]) (simp_all add: leavesRecords_def ret_def tableOk_def statusOf_def demoStore_def)
  with run show ?thesis by (intro exI [of _ ?y3]) simp
qed

end
