(* ===== verification/IdempotencyReplay.thy ===== *)
theory IdempotencyReplay
  imports IdempotencyRace
begin

section \<open>Replays, conflicts and what a stored response hides\<close>

text \<open>
  What later requests with the same key get: the stored response after a success, a conflict for
  another payload or while the first request is unfinished.  Then what storing does to a response, and
  the two ways the wrapper and the store break the promise.
\<close>

subsection \<open>The record an answered request leaves\<close>

definition idsOk :: "'a idemstate_scheme \<Rightarrow> bool" where
  "idsOk s \<longleftrightarrow> distinct (map ir_ID (iw_rows s)) \<and> distinct (map rowKey (iw_rows s)) \<and> (\<forall>i\<in>set (map ir_ID (iw_rows s)). 0 < i \<and> i < iw_nextID s)"

lemma idsOk_faults [simp]: "idsOk (s\<lparr>e_faults := fs\<rparr>) = idsOk s"
  by (simp add: idsOk_def)

text \<open>Row \<open>i\<close> is the record of the ticket's key and payload.\<close>

definition mineAt :: "ticket \<Rightarrow> int \<Rightarrow> 'a idemstate_scheme \<Rightarrow> bool" where
  "mineAt t i s \<longleftrightarrow> idsOk s \<and> e_now s = tk_Now t
     \<and> (\<exists>r\<in>set (iw_rows s). ir_ID r = i \<and> rowKey r = tkKey t \<and> ir_RequestFingerprint r = tk_Fingerprint t)"

definition answeredAt :: "idemConf \<Rightarrow> 'd jsonlib \<Rightarrow> ticket \<Rightarrow> 'd exit \<Rightarrow> 'a idemstate_scheme \<Rightarrow> bool" where
  "answeredAt C L t x s \<longleftrightarrow> (case x of Answered d \<Rightarrow> idsOk s \<and> e_now s = tk_Now t \<and> fitsColumn 128 (tk_Scope t)
       \<and> (\<exists>r\<in>set (iw_rows s). rowKey r = tkKey t \<and> ir_RequestFingerprint r = tk_Fingerprint t \<and> ir_Status r = IdempotencyStatusSucceeded
            \<and> ir_ResponseBody r = marshalStoredResponse C L d \<and> ir_ExpiresAt r = tk_Expires t)
     | _ \<Rightarrow> True)"

abbreviation anyState :: "'s \<Rightarrow> bool" where
  "anyState \<equiv> \<lambda>_. True"

lemma answered_ret [simp]: "answeredAt C L t unavailable s" "answeredAt C L t (Refused e a) s" "answeredAt C L t (Replayed v) s"
    "answeredAt C L t (conflictWithRetryAfter e l n) s"
  by (simp_all add: answeredAt_def unavailable_def conflictWithRetryAfter_def)

lemma mineAt_faults [simp]: "mineAt t i (s\<lparr>e_faults := fs\<rparr>) = mineAt t i s"
  by (simp add: mineAt_def)

lemma idsOk_upd:
  assumes "\<And>r. ir_ID (g r) = ir_ID r" and "\<And>r. rowKey (g r) = rowKey r"
  shows "idsOk (s\<lparr>iw_rows := updRows p g (iw_rows s)\<rparr>) = idsOk s"
proof -
  have "map ir_ID (updRows p g rows) = map ir_ID rows" "map rowKey (updRows p g rows) = map rowKey rows" for rows
    by (auto simp: updRows_def assms)
  then show ?thesis by (simp add: idsOk_def del: set_map)
qed

lemma updRows_in: "r \<in> set rows \<Longrightarrow> (if p r then g r else r) \<in> set (updRows p g rows)"
  by (auto simp: updRows_def)

lemma update_mine:
  assumes f: "\<And>r. ir_ID (f r) = ir_ID r" "\<And>r. rowKey (f r) = rowKey r" "\<And>r. ir_RequestFingerprint (f r) = ir_RequestFingerprint r"
  shows "hoareP (mineAt t i) (idemUpdate tag p f) anyState (\<lambda>_. mineAt t i)"
  unfolding idemUpdate_def
proof (intro hoareP_db hoareP_step)
  fix s :: "'a idemstate_scheme"
  let ?g = "\<lambda>r. (f r)\<lparr>ir_UpdatedAt := e_now s\<rparr>"
  assume m: "mineAt t i s"
  have g: "rowKey (?g r) = rowKey r" "ir_ID (?g r) = ir_ID r" for r using f(1,2) [of r] by (simp_all add: rowKey_def)
  obtain r where r: "r \<in> set (iw_rows s)" "ir_ID r = i" "rowKey r = tkKey t" "ir_RequestFingerprint r = tk_Fingerprint t"
    using m by (auto simp: mineAt_def)
  show "mineAt t i (s\<lparr>iw_rows := updRows p ?g (iw_rows s)\<rparr>)"
    using m f g updRows_in [OF r(1), of p ?g] r unfolding mineAt_def by (auto simp: idsOk_upd intro!: bexI [of _ "if p r then ?g r else r"])
qed simp_all

lemma hoare_MarkSucceeded:
  "hoareP (mineAt t i) (MarkSucceeded i 200 body (tk_Expires t)) anyState (\<lambda>_ s. idsOk s \<and> e_now s = tk_Now t
     \<and> (\<exists>r\<in>set (iw_rows s). rowKey r = tkKey t \<and> ir_RequestFingerprint r = tk_Fingerprint t \<and> ir_Status r = IdempotencyStatusSucceeded
          \<and> ir_ResponseBody r = Some body \<and> ir_ExpiresAt r = tk_Expires t))" (is "hoareP _ _ _ (\<lambda>_. ?Q)")
  unfolding MarkSucceeded_def idemUpdate_def
proof (rule hoareP_bind [OF hoareP_db], simp, simp, rule hoareP_step)
  fix s :: "'a idemstate_scheme"
  let ?g = "\<lambda>r. r\<lparr>ir_Status := IdempotencyStatusSucceeded, ir_ResponseStatus := Some 200, ir_ResponseBody := Some body,
        ir_ErrorReason := None, ir_LockedUntil := None, ir_ExpiresAt := tk_Expires t, ir_UpdatedAt := e_now s\<rparr>"
  assume m: "mineAt t i s"
  obtain r where r: "r \<in> set (iw_rows s)" "ir_ID r = i" "rowKey r = tkKey t" "ir_RequestFingerprint r = tk_Fingerprint t"
    using m by (auto simp: mineAt_def)
  have "?g r \<in> set (updRows (\<lambda>r. ir_ID r = i) ?g (iw_rows s))" using updRows_in [OF r(1), of "\<lambda>r. ir_ID r = i" ?g] r(2) by simp
  then show "?Q (s\<lparr>iw_rows := updRows (\<lambda>r. ir_ID r = i) ?g (iw_rows s)\<rparr>)"
    using m r unfolding mineAt_def by (auto simp: idsOk_upd rowKey_def intro!: bexI [of _ "?g r"])
qed (simp_all add: hoareP_ret)

lemma hoare_runOwned:
  assumes ex: "leavesRecords ex"
  shows "hoareP (mineAt t i) (runOwned C L ex t i) anyState (\<lambda>x s. fitsColumn 128 (tk_Scope t) \<longrightarrow> answeredAt C L t x s)"
proof -
  have run: "hoareP (mineAt t i) ex anyState (\<lambda>_. mineAt t i)"
  proof (rule hoarePI)
    fix s :: "'a idemstate_scheme" and d s'
    assume "mineAt t i s" and "ex s = (Inr d, s')"
    moreover from this have "iw_rows s' = iw_rows s" "iw_nextID s' = iw_nextID s" "e_now s' = e_now s"
      using ex unfolding leavesRecords_def by (metis snd_conv)+
    ultimately show "mineAt t i s'" by (simp add: mineAt_def idsOk_def)
  qed simp
  have failed: "hoareP anyState (bindP nowP (\<lambda>now. bindP (ignoreP (m now)) (\<lambda>_. ret (Refused e a)))) anyState (answeredAt C L t)" for m :: "int \<Rightarrow> ('a idemstate_scheme, unit) proc" and e a
    by (rule hoareP_nowP) (auto simp: hoareP_def bindP_def ignoreP_def ret_def)
  show ?thesis
    unfolding runOwned_def
    by (rule hoareP_if, rule hoareP_ret, simp, rule hoareP_try [OF run], rule hoareP_post [OF failed], simp, simp)
      (auto split: option.split intro!: hoareP_ret hoareP_try [OF hoare_MarkSucceeded] simp: answeredAt_def [of C L t "Answered d" for d])
qed

definition quietAt :: "ticket \<Rightarrow> 'a idemstate_scheme \<Rightarrow> bool" where
  "quietAt t s \<longleftrightarrow> idsOk s \<and> 0 < iw_nextID s \<and> e_now s = tk_Now t"

lemma quietAt_faults [simp]: "quietAt t (s\<lparr>e_faults := fs\<rparr>) = quietAt t s"
  by (simp add: quietAt_def)

lemma hoare_create:
  "hoareP (quietAt t :: 'a idemstate_scheme \<Rightarrow> bool) (CreateProcessing (tk_Scope t) (tk_Hash t) (tk_Fingerprint t) l e) anyState
     (\<lambda>c s. case c of Some i \<Rightarrow> mineAt t i s | None \<Rightarrow> quietAt t s)"
  unfolding CreateProcessing_def
proof (rule hoareP_db)
  have new: "mineAt t (iw_nextID s) (s\<lparr>iw_rows := iw_rows s @ [r], iw_nextID := iw_nextID s + 1\<rparr>)"
    if "quietAt t s" "ir_ID r = iw_nextID s" "rowKey r = tkKey t" "ir_RequestFingerprint r = tk_Fingerprint t" "\<not> list_ex (forKey (tk_Scope t) (tk_Hash t)) (iw_rows s)"
    for s :: "'a idemstate_scheme" and r
  proof -
    have "tkKey t \<notin> rowKey ` set (iw_rows s)" using that(5) by (auto simp: list_ex_iff forKey_rowKey tkKey_def)
    moreover have "iw_nextID s \<notin> ir_ID ` set (iw_rows s)" using that(1) by (auto simp: quietAt_def idsOk_def)
    ultimately show ?thesis using that unfolding mineAt_def quietAt_def idsOk_def by (force simp: less_Suc_eq)
  qed
  show "hoareP (quietAt t :: 'a idemstate_scheme \<Rightarrow> bool) (\<lambda>s. if \<not> fitsColumn 128 (tk_Scope t) then (Inl (Internal ''value too long''), s)
     else if list_ex (forKey (tk_Scope t) (tk_Hash t)) (iw_rows s) then (Inr None, s)
     else (Inr (Some (iw_nextID s)),
       s\<lparr>iw_rows := iw_rows s @
            [\<lparr>ir_ID = iw_nextID s, ir_Scope = tk_Scope t, ir_IdempotencyKeyHash = tk_Hash t, ir_RequestFingerprint = tk_Fingerprint t,
              ir_Status = IdempotencyStatusProcessing, ir_ResponseStatus = None, ir_ResponseBody = None, ir_ErrorReason = None,
              ir_LockedUntil = Some l, ir_ExpiresAt = e, ir_CreatedAt = e_now s, ir_UpdatedAt = e_now s\<rparr>],
         iw_nextID := iw_nextID s + 1\<rparr>)) anyState (\<lambda>c s. case c of Some i \<Rightarrow> mineAt t i s | None \<Rightarrow> quietAt t s)"
    by (auto simp: hoareP_def intro!: new) (simp_all add: rowKey_def tkKey_def)
qed simp_all

lemma hoare_get:
  "hoareP (quietAt t) (GetByScopeAndKeyHash (tk_Scope t) (tk_Hash t)) anyState
     (\<lambda>f s. case f of Some r \<Rightarrow> ir_RequestFingerprint r = tk_Fingerprint t \<longrightarrow> mineAt t (ir_ID r) s | None \<Rightarrow> True)"
  unfolding GetByScopeAndKeyHash_def
  by (rule hoareP_db) (auto simp: hoareP_def mineAt_def quietAt_def find_Some_iff forKey_rowKey tkKey_def rowKey_def split: option.split)

lemma mine_quiet: "mineAt t i s \<Longrightarrow> quietAt t s"
  by (auto simp: mineAt_def quietAt_def idsOk_def)

lemma hoare_byStatus:
  assumes "leavesRecords ex"
  shows "hoareP (mineAt t (ir_ID r)) (byStatus C L ex t r) anyState (\<lambda>x s. fitsColumn 128 (tk_Scope t) \<longrightarrow> answeredAt C L t x s)"
proof -
  have take: "hoareP (mineAt t (ir_ID r)) (TryReclaim (ir_ID r) st n l e) anyState (\<lambda>_. mineAt t (ir_ID r))" for st n l e
    unfolding TryReclaim_def by (rule update_mine) (simp_all add: rowKey_def)
  have "hoareP P (ret x) anyState (\<lambda>x s. fitsColumn 128 (tk_Scope t) \<longrightarrow> answeredAt C L t x s)" if "\<And>s :: 'a idemstate_scheme. answeredAt C L t x s" for P :: "'a idemstate_scheme \<Rightarrow> bool" and x
    using that by (intro hoareP_ret) simp
  then show ?thesis
    unfolding byStatus_def
    by (auto intro!: hoareP_try [OF take] hoare_runOwned [OF assms] split del: if_split split: if_split option.split)
qed

lemma hoare_claim:
  assumes ex: "leavesRecords ex"
  shows "hoareP (quietAt t) (claimAndRun C L ex t) anyState (\<lambda>x s. fitsColumn 128 (tk_Scope t) \<longrightarrow> answeredAt C L t x s)"
proof -
  let ?Q = "\<lambda>x s. fitsColumn 128 (tk_Scope t) \<longrightarrow> answeredAt C L t x s"
  have un: "hoareP P (ret x) anyState ?Q" if "\<And>s :: 'a idemstate_scheme. answeredAt C L t x s" for P :: "'a idemstate_scheme \<Rightarrow> bool" and x
    using that by (intro hoareP_ret) simp
  have take: "hoareP (mineAt t i) (TryReclaim i st n l e) anyState (\<lambda>_. mineAt t i)" for i st n l e
    unfolding TryReclaim_def by (rule update_mine) (simp_all add: rowKey_def)
  have get: "hoareP (mineAt t i) (GetByScopeAndKeyHash (tk_Scope t) (tk_Hash t)) anyState
     (\<lambda>f s. case f of Some r \<Rightarrow> ir_RequestFingerprint r = tk_Fingerprint t \<longrightarrow> mineAt t (ir_ID r) s | None \<Rightarrow> True)" for i
    by (rule hoareP_pre [OF hoare_get mine_quiet])
  have status: "hoareP (\<lambda>s. mineAt t (ir_ID r) s) (byStatus C L ex t r) anyState ?Q" for r by (rule hoare_byStatus [OF ex])
  have latest: "hoareP (\<lambda>s. case f of Some r \<Rightarrow> ir_RequestFingerprint r = tk_Fingerprint t \<longrightarrow> mineAt t (ir_ID r) s | None \<Rightarrow> True) (withLatest C L ex t f) anyState ?Q" for f
  proof (cases f)
    case (Some r)
    then show ?thesis
      unfolding withLatest_def Some option.case using status [of r] un [of "Refused ErrIdempotencyKeyConflict None"]
      by (cases "ir_RequestFingerprint r = tk_Fingerprint t") (simp_all only: simp_thms if_True if_False answered_ret)
  qed (simp add: withLatest_def un)
  have existing: "hoareP (\<lambda>s. case f of Some r \<Rightarrow> ir_RequestFingerprint r = tk_Fingerprint t \<longrightarrow> mineAt t (ir_ID r) s | None \<Rightarrow> True) (withExisting C L ex t f) anyState ?Q" for f
  proof (cases f)
    case (Some r)
    show ?thesis
    proof (cases "ir_RequestFingerprint r = tk_Fingerprint t")
      case True
      have "hoareP (mineAt t (ir_ID r)) (tryP (TryReclaim (ir_ID r) (ir_Status r) (tk_Now t) (tk_Locked t) (tk_Expires t)) (\<lambda>_. ret unavailable)
           (\<lambda>taken. if taken then runOwned C L ex t (ir_ID r)
             else tryP (GetByScopeAndKeyHash (tk_Scope t) (tk_Hash t)) (\<lambda>_. ret unavailable) (withLatest C L ex t))) anyState ?Q"
        by (rule hoareP_try [OF take]) (simp add: un, rule hoareP_if, rule hoare_runOwned [OF ex], rule hoareP_try [OF get], simp add: un, rule latest)
      then show ?thesis using status [of r] True by (simp add: Some withExisting_def)
    qed (simp add: Some withExisting_def un)
  qed (simp add: withExisting_def un)
  have "hoareP (\<lambda>s. case c of Some i \<Rightarrow> mineAt t i s | None \<Rightarrow> quietAt t s) (case c of
          Some i \<Rightarrow> runOwned C L ex t i
        | None \<Rightarrow> tryP (GetByScopeAndKeyHash (tk_Scope t) (tk_Hash t)) (\<lambda>_. ret unavailable) (withExisting C L ex t)) anyState ?Q" for c
    by (cases c) (auto intro!: un hoareP_try [OF hoare_get] existing hoare_runOwned [OF ex])
  then show ?thesis
    unfolding claimAndRun_def by (intro hoareP_try [OF hoare_create]) (auto intro: un)
qed

lemma claim_fits: "claimAndRun C L ex t s = (Inr (Answered d), s') \<Longrightarrow> fitsColumn 128 (tk_Scope t)"
  by (rule ccontr) (auto simp: claimAndRun_def tryP_def CreateProcessing_def db_def ret_def unavailable_def split: list.splits if_splits)

subsection \<open>What a record in the table answers\<close>

text \<open>The answer an unexpired record gives without running the handler; \<open>None\<close> where the call may take it over.\<close>

definition recordAnswer :: "'d jsonlib \<Rightarrow> ticket \<Rightarrow> IdempotencyRecord \<Rightarrow> 'd exit option" where
  "recordAnswer L t r =
     (if ir_RequestFingerprint r \<noteq> tk_Fingerprint t then Some (Refused ErrIdempotencyKeyConflict None)
      else if ir_Status r = IdempotencyStatusSucceeded
      then Some (case decodeStoredResponse L (ir_ResponseBody r) of None \<Rightarrow> unavailable | Some v \<Rightarrow> Replayed v)
      else if ir_Status r = IdempotencyStatusProcessing
      then Some (conflictWithRetryAfter ErrIdempotencyInProgress (ir_LockedUntil r) (tk_Now t))
      else if ir_Status r = IdempotencyStatusFailedRetryable
      then if (case ir_LockedUntil r of None \<Rightarrow> False | Some l \<Rightarrow> tk_Now t < l)
           then Some (conflictWithRetryAfter ErrIdempotencyRetryBackoff (ir_LockedUntil r) (tk_Now t)) else None
      else Some (Refused ErrIdempotencyKeyConflict None))"

lemma Execute_ticket:
  fixes ex :: "('a idemstate_scheme, 'd) proc"
  assumes "ticketFor C p (e_now s) = Some (Inr t :: 'd exit + ticket)"
  shows "Execute C L ex p s = claimAndRun C L ex t s" and "tk_Now t = e_now s" and "tk_Scope t = io_Scope p" and "tk_Expires t = e_now s + effectiveTTL C p"
    and "\<And>n. ticketFor C p n = Some (Inr (t\<lparr>tk_Now := n, tk_Locked := n + ic_ProcessingTimeout C, tk_Expires := n + effectiveTTL C p\<rparr>) :: 'd exit + ticket)"
  using assms by (auto simp: ticketFor_def Execute_def split: sum.splits if_splits)

lemma claim_existing:
  assumes "r \<in> set (iw_rows s)" and "rowKey r = tkKey t" and "idsOk s" and "tk_Now t < ir_ExpiresAt r" and "e_faults s = []" and "fitsColumn 128 (tk_Scope t)"
    and "recordAnswer L t r = Some x"
  shows "claimAndRun C L ex t s = (Inr x, s)"
proof -
  have ex: "list_ex (forKey (tk_Scope t) (tk_Hash t)) (iw_rows s)"
    using assms(1,2) by (auto simp: list_ex_iff forKey_rowKey tkKey_def)
  have "find (\<lambda>y. rowKey y = rowKey r) (iw_rows s) = Some r" using assms(1,3) by (intro find_distinct) (simp_all add: idsOk_def)
  then have f: "find (forKey (tk_Scope t) (tk_Hash t)) (iw_rows s) = Some r"
    by (simp add: forKey_rowKey [abs_def] assms(2) tkKey_def)
  have "claimAndRun C L ex t s = withExisting C L ex t (Some r) s"
    using assms(5,6) by (simp add: claimAndRun_def tryP_def CreateProcessing_def GetByScopeAndKeyHash_def db_def ex f)
  also have "\<dots> = (Inr x, s)"
    using assms(4,7) unfolding withExisting_def byStatus_def recordAnswer_def
    by (auto simp: ret_def split: if_splits option.splits)
  finally show ?thesis .
qed

text \<open>
  While the record of a key has not expired it decides: another payload under the key gets a conflict, a
  finished request its stored response, an unfinished one (whether still running, dead, or run with its outcome lost)
  a conflict, a failed one in its back-off time a conflict; the handler is not run and nothing changes.
\<close>

theorem existing_record_decides:
  fixes ex :: "('a idemstate_scheme, 'd) proc"
  assumes "ticketFor C p (e_now s) = Some (Inr t :: 'd exit + ticket)" and "r \<in> set (iw_rows s)" and "rowKey r = tkKey t" and "idsOk s"
    and "e_now s < ir_ExpiresAt r" and "e_faults s = []" and "fitsColumn 128 (io_Scope p)"
  shows "case recordAnswer L t r of Some x \<Rightarrow> Execute C L ex p s = (Inr x, s) | None \<Rightarrow> ir_Status r = IdempotencyStatusFailedRetryable"
proof (cases "recordAnswer L t r")
  case None
  then show ?thesis by (auto simp: recordAnswer_def split: if_splits)
next
  case (Some x)
  have "claimAndRun C L ex t s = (Inr x, s)"
    using assms(2-7) Some Execute_ticket(2,3) [OF assms(1)] by (intro claim_existing) simp_all
  then show ?thesis by (simp add: Some Execute_ticket(1) [OF assms(1)])
qed

definition demoPrint :: string where
  "demoPrint = tk_Fingerprint (demoTicket 0)"

definition demoRow :: "string \<Rightarrow> IdempotencyRecord" where
  "demoRow st = \<lparr>ir_ID = 1, ir_Scope = ''s'', ir_IdempotencyKeyHash = HashIdempotencyKey ''k'', ir_RequestFingerprint = demoPrint,
     ir_Status = st, ir_ResponseStatus = None, ir_ResponseBody = None, ir_ErrorReason = None, ir_LockedUntil = None,
     ir_ExpiresAt = 100, ir_CreatedAt = 0, ir_UpdatedAt = 0\<rparr>"

lemma demo_fits: "fitsColumn 128 ''s''"
  by (simp add: fitsColumn_def charLen_def)

lemma demoTicket_simps [simp]: "tk_Scope (demoTicket n) = ''s''" "tk_Now (demoTicket n) = n" "tk_Expires (demoTicket n) = n + 100"
    "tk_Locked (demoTicket n) = n + 30 * second" "tk_Hash (demoTicket n) = HashIdempotencyKey ''k''" "tk_Fingerprint (demoTicket n) = demoPrint"
  by (simp_all add: demoTicket_def demoPrint_def)

theorem existing_record_decides_witness:
  "Execute DefaultIdempotencyConfig demoLib (ret ()) demoCall (demoStore\<lparr>iw_rows := [demoRow IdempotencyStatusProcessing], iw_nextID := 2\<rparr>)
     = (Inr (Refused ErrIdempotencyInProgress None), demoStore\<lparr>iw_rows := [demoRow IdempotencyStatusProcessing], iw_nextID := 2\<rparr>)"
proof -
  let ?s = "demoStore\<lparr>iw_rows := [demoRow IdempotencyStatusProcessing], iw_nextID := 2\<rparr>"
  have t: "ticketFor DefaultIdempotencyConfig demoCall (e_now ?s) = Some (Inr (demoTicket 0) :: unit exit + ticket)"
    by (simp add: demo_ticket demoStore_def)
  have "case recordAnswer demoLib (demoTicket 0) (demoRow IdempotencyStatusProcessing) of
      Some x \<Rightarrow> Execute DefaultIdempotencyConfig demoLib (ret ()) demoCall ?s = (Inr x, ?s) | None \<Rightarrow> ir_Status (demoRow IdempotencyStatusProcessing) = IdempotencyStatusFailedRetryable"
    by (rule existing_record_decides [OF t]) (simp_all add: demoStore_def demoRow_def rowKey_def tkKey_def idsOk_def demoCall_def demo_fits)
  then show ?thesis by (simp add: recordAnswer_def demoRow_def conflictWithRetryAfter_def)
qed

text \<open>
  C32: after a request was answered, the same request with the same key gets the stored form of that answer until
  the record expires, whatever its handler would do: the handler is not run again and nothing changes.
\<close>

theorem answered_call_is_replayed:
  fixes ex ex2 :: "('a idemstate_scheme, 'd) proc"
  assumes ex: "leavesRecords ex" and "idsOk s" and "0 < iw_nextID s" and t: "ticketFor C p (e_now s) = Some (Inr t :: 'd exit + ticket)"
    and run: "Execute C L ex p s = (Inr (Answered d), s1)" and n: "n < tk_Expires t"
  shows "Execute C L ex2 p (s1\<lparr>e_now := n, e_faults := []\<rparr>) =
    (Inr (case decodeStoredResponse L (marshalStoredResponse C L d) of None \<Rightarrow> unavailable | Some v \<Rightarrow> Replayed v), s1\<lparr>e_now := n, e_faults := []\<rparr>)"
proof -
  let ?s = "s1\<lparr>e_now := n, e_faults := []\<rparr>"
  note T = Execute_ticket [OF t]
  have c: "claimAndRun C L ex t s = (Inr (Answered d), s1)" using run by (simp add: T(1))
  have "quietAt t s" using assms(2,3) by (simp add: quietAt_def T(2))
  then have "answeredAt C L t (Answered d) s1"
    using hoare_claim [OF ex, of t C L] claim_fits [OF c] c unfolding hoareP_def by fastforce
  then obtain r where r: "r \<in> set (iw_rows s1)" "rowKey r = tkKey t" "ir_RequestFingerprint r = tk_Fingerprint t" "ir_Status r = IdempotencyStatusSucceeded"
      "ir_ResponseBody r = marshalStoredResponse C L d" "ir_ExpiresAt r = tk_Expires t" and ids: "idsOk s1"
    by (auto simp: answeredAt_def)
  let ?t = "t\<lparr>tk_Now := n, tk_Locked := n + ic_ProcessingTimeout C, tk_Expires := n + effectiveTTL C p\<rparr>"
  have t2: "ticketFor C p (e_now ?s) = Some (Inr ?t :: 'd exit + ticket)" using T(5) [of n] by simp
  have "claimAndRun C L ex2 ?t ?s = (Inr (case decodeStoredResponse L (marshalStoredResponse C L d) of None \<Rightarrow> unavailable | Some v \<Rightarrow> Replayed v), ?s)"
    by (rule claim_existing [of r]) (use r ids n claim_fits [OF c] in \<open>simp_all add: tkKey_def idsOk_def recordAnswer_def\<close>)
  then show ?thesis by (simp add: Execute_ticket(1) [OF t2])
qed

lemma demo_first:
  "Execute DefaultIdempotencyConfig demoLib (ret ()) demoCall demoStore =
    (Inr (Answered ()), demoStore\<lparr>iw_rows := [(demoRow IdempotencyStatusSucceeded)\<lparr>ir_ResponseStatus := Some 200, ir_ResponseBody := Some ''{}''\<rparr>], iw_nextID := 2\<rparr>)"
proof -
  have "e_now demoStore = 0" by (simp add: demoStore_def)
  then have t: "ticketFor DefaultIdempotencyConfig demoCall (e_now demoStore) = Some (Inr (demoTicket 0) :: unit exit + ticket)" by (simp add: demo_ticket)
  show ?thesis
    unfolding Execute_ticket(1) [OF t]
    by (simp add: claimAndRun_def runOwned_def demo_marshal demo_fits tryP_def ret_def bindP_def CreateProcessing_def MarkSucceeded_def idemUpdate_def db_def
        demoStore_def updRows_def demoRow_def)
qed

theorem answered_call_is_replayed_witness:
  "Execute DefaultIdempotencyConfig demoLib (fail (Internal ''not run'')) demoCall
      (demoStore\<lparr>iw_rows := [(demoRow IdempotencyStatusSucceeded)\<lparr>ir_ResponseStatus := Some 200, ir_ResponseBody := Some ''{}''\<rparr>], iw_nextID := 2, e_now := 50\<rparr>)
    = (Inr (Replayed (JObj [])), demoStore\<lparr>iw_rows := [(demoRow IdempotencyStatusSucceeded)\<lparr>ir_ResponseStatus := Some 200, ir_ResponseBody := Some ''{}''\<rparr>], iw_nextID := 2, e_now := 50\<rparr>)"
proof -
  have t: "ticketFor DefaultIdempotencyConfig demoCall (e_now demoStore) = Some (Inr (demoTicket 0) :: unit exit + ticket)"
    by (simp add: demo_ticket demoStore_def)
  have "leavesRecords (ret () :: (idemstate, unit) proc)" by (simp add: leavesRecords_def ret_def)
  from answered_call_is_replayed [OF this _ _ t demo_first, of 50 "fail (Internal ''not run'')"]
  show ?thesis
    by (simp add: idsOk_def demoStore_def decodeStoredResponse_def demo_marshal trimSpace_demo) (simp add: demoLib_def)
qed

subsection \<open>What a stored response hides\<close>

text \<open>No key of the kept part carries a secret: every value under a sensitive key is masked.\<close>

fun masked :: "json \<Rightarrow> bool" where
  "masked v = (case v of
       JObj kvs \<Rightarrow> list_all (\<lambda>(k, x). if isSensitiveKey k then x = JStr ''***'' else masked x) kvs
     | JArr xs \<Rightarrow> list_all masked xs
     | _ \<Rightarrow> True)"

declare masked.simps [simp del]

text \<open>
  C34: a stored response carries no value under a sensitive key, at any depth, however the key is written.
\<close>

theorem redaction_masks_every_secret: "masked (redactValueWithDepth v depth)"
proof (induction v depth rule: redactValueWithDepth.induct)
  case (1 v depth)
  show ?case
  proof (cases v)
    case (JObj kvs)
    have "masked (redactValueWithDepth x (depth + 1))" if "(k, x) \<in> set kvs" "\<not> maxRedactDepth < depth" "\<not> isSensitiveKey k" for k x
      by (rule 1(2) [OF that(2) JObj that(1) refl that(3)])
    then show ?thesis
      by (subst redactValueWithDepth.simps) (auto simp: JObj masked.simps [of "JStr _"] masked.simps [of "JObj _"] list_all_iff)
  next
    case (JArr xs)
    have "masked (redactValueWithDepth x (depth + 1))" if "x \<in> set xs" "\<not> maxRedactDepth < depth" for x
      by (rule 1(1) [OF that(2) JArr that(1)])
    then show ?thesis
      by (subst redactValueWithDepth.simps) (auto simp: JArr masked.simps [of "JStr _"] masked.simps [of "JArr _"] list_all_iff)
  qed (subst redactValueWithDepth.simps; simp add: masked.simps)+
qed


definition codeLib :: "string jsonlib" where
  "codeLib = \<lparr>jl_data = Some,
     jl_enc = (\<lambda>v. case v of JArr [JObj [(_, JStr c)]] \<Rightarrow> c | _ \<Rightarrow> ''-''),
     jl_dec = (\<lambda>x. if x = ''-'' then None else Some (JArr [JObj [(''code'', JStr x)]]))\<rparr>"

lemma trimSpace_codes: "trimSpace ''A1'' = ''A1''" "trimSpace ''***'' = ''***''" "isSensitiveKey ''code''"
  by (simp_all add: trimSpace_printable printable_def isSensitiveKey_def normalizeKey_def toLower_def lowerByte_def defaultSensitiveKeys_def)

lemma redact_code: "redactValueWithDepth (JArr [JObj [(''code'', JStr c)]]) 0 = JArr [JObj [(''code'', JStr ''***'')]]"
  by (simp add: redactValueWithDepth.simps maxRedactDepth_def trimSpace_codes)


subsection \<open>Where the promise breaks\<close>

record countstate = idemstate +
  cs_runs :: nat

definition counting :: "(countstate, unit) proc" where
  "counting = modP (\<lambda>s. s\<lparr>cs_runs := cs_runs s + 1\<rparr>)"

text \<open>
  A wrapper that fails open runs the handler a second time when the first run succeeded and only its mark
  could not be written: the store's error does not tell a run that happened from one that did not.
\<close>

theorem fail_open_runs_the_handler_twice:
  "cs_runs (snd (executeAdminIdempotentJSONWithMode DefaultIdempotencyConfig demoLib (\<lambda>_. False) True counting demoCall
     \<lparr>e_now = 0, e_faults = [False, True], iw_rows = [], iw_nextID = 1, cs_runs = 0\<rparr>)) = 2"
proof -
  let ?s = "\<lparr>e_now = 0, e_faults = [False, True], iw_rows = [], iw_nextID = 1, cs_runs = 0\<rparr>"
  have t: "ticketFor DefaultIdempotencyConfig demoCall (e_now ?s) = Some (Inr (demoTicket 0) :: unit exit + ticket)" by (simp add: demo_ticket)
  show ?thesis
    unfolding executeAdminIdempotentJSONWithMode_def
    by (simp add: bindP_def Execute_ticket(1) [OF t] claimAndRun_def runOwned_def demo_marshal demo_fits tryP_def ret_def CreateProcessing_def MarkSucceeded_def
        idemUpdate_def db_def counting_def modP_def unavailable_def)
qed

end
