(* ===== verification/ModelNames.thy ===== *)
theory ModelNames
  imports GoPrelude
begin

section \<open>Model names\<close>

text \<open>
  service/openai_gpt56_alias.go and the name part of service/openai_codex_transform.go: the many
  spellings of a model and the canonical names prices are looked up by.  First the functions of
  Go's strings package they call.
\<close>

lemma find_mem: "find P xs = Some x \<Longrightarrow> x \<in> set xs"
  by (auto simp: find_Some_iff)

subsection \<open>Substrings\<close>

fun containsStr :: "string \<Rightarrow> string \<Rightarrow> bool" where
  "containsStr [] p = (p = [])"
| "containsStr (c # cs) p = (hasPrefix (c # cs) p \<or> containsStr cs p)"

text \<open>strings.Split by one byte; strings.Join; the part after the last occurrence of \<open>p\<close>.\<close>

fun splitOn :: "char \<Rightarrow> string \<Rightarrow> string list" where
  "splitOn d [] = [[]]"
| "splitOn d (c # cs) = (if c = d then [] # splitOn d cs
     else case splitOn d cs of [] \<Rightarrow> [[c]] | w # ws \<Rightarrow> (c # w) # ws)"

fun joinWith :: "string \<Rightarrow> string list \<Rightarrow> string" where
  "joinWith d [] = []"
| "joinWith d [w] = w"
| "joinWith d (w # ws) = w @ d @ joinWith d ws"

fun afterLast :: "string \<Rightarrow> string \<Rightarrow> string option" where
  "afterLast p [] = None"
| "afterLast p (c # cs) = (case afterLast p cs of Some r \<Rightarrow> Some r
     | None \<Rightarrow> if hasPrefix (c # cs) p then Some (drop (length p) (c # cs)) else None)"

text \<open>strings.ReplaceAll of a text that is not empty.\<close>

function replaceAll :: "string \<Rightarrow> string \<Rightarrow> string \<Rightarrow> string" where
  "replaceAll old new s =
     (case s of [] \<Rightarrow> []
      | c # cs \<Rightarrow> if old \<noteq> [] \<and> hasPrefix s old then new @ replaceAll old new (drop (length old) s) else c # replaceAll old new cs)"
  by pat_completeness auto
termination by (relation "measure (\<lambda>(old, new, s). length s)") auto

declare replaceAll.simps [simp del]

definition trimByte :: "char \<Rightarrow> string \<Rightarrow> string" where
  "trimByte d s = rev (dropWhile (\<lambda>c. c = d) (rev (dropWhile (\<lambda>c. c = d) s)))"

text \<open>A replacement of each occurrence by a shorter text shortens a text that has one.\<close>

lemma replaceAll_length: "length new \<le> length old \<Longrightarrow> length (replaceAll old new s) \<le> length s"
proof (induction old new s rule: replaceAll.induct)
  case (1 old new s)
  show ?case
  proof (cases s)
    case (Cons c cs)
    show ?thesis
    proof (cases "old \<noteq> [] \<and> hasPrefix s old")
      case True
      then have "length old \<le> length s" by (metis hasPrefix_def length_take min.cobounded1 min.commute)
      then show ?thesis using 1(1) [OF Cons True] 1(3) True by (subst replaceAll.simps) (auto simp: Cons)
    next
      case False
      then show ?thesis using 1(2) [OF Cons False] 1(3) by (subst replaceAll.simps) (auto simp: Cons)
    qed
  qed (simp add: replaceAll.simps)
qed

lemma replaceAll_shorter: "length new < length old \<Longrightarrow> containsStr s old \<Longrightarrow> length (replaceAll old new s) < length s"
proof (induction s)
  case Nil
  then show ?case by simp
next
  case (Cons c cs)
  show ?case
  proof (cases "hasPrefix (c # cs) old")
    case True
    have "length old \<le> length (c # cs)" using True by (metis hasPrefix_def length_take min.cobounded1 min.commute)
    moreover have "length (replaceAll old new (drop (length old) (c # cs))) \<le> length (c # cs) - length old"
      using replaceAll_length [of new old "drop (length old) (c # cs)"] Cons.prems by simp
    ultimately show ?thesis using Cons.prems True by (subst replaceAll.simps) auto
  next
    case False
    then show ?thesis using Cons by (subst replaceAll.simps) auto
  qed
qed

subsection \<open>The GPT-5.6 family\<close>

function squeezeDashes :: "string \<Rightarrow> string" where
  "squeezeDashes s = (if containsStr s ''--'' then squeezeDashes (replaceAll ''--'' ''-'' s) else s)"
  by pat_completeness auto
termination by (relation "measure length") (auto intro: replaceAll_shorter)

declare squeezeDashes.simps [simp del]

definition normalizeGPT56ModelID :: "string \<Rightarrow> string" where
  "normalizeGPT56ModelID model =
     (let s1 = trimSpace model;
          s2 = (if containsStr s1 ''/'' then last (splitOn (CHR ''/'') s1) else s1);
          s3 = map (\<lambda>c. if c = CHR ''_'' \<or> c = CHR '' '' then CHR ''-'' else c) (toLower s2);
          s4 = trimByte (CHR ''-'') (squeezeDashes s3)
      in if hasPrefix s4 ''gpt5'' then ''gpt-5'' @ trimPrefix s4 ''gpt5'' else s4)"

definition isGPT56ReasoningSuffix :: "string \<Rightarrow> bool" where
  "isGPT56ReasoningSuffix raw \<longleftrightarrow>
     filter (\<lambda>c. c \<noteq> CHR ''-'' \<and> c \<noteq> CHR ''_'' \<and> c \<noteq> CHR '' '') (toLower (trimSpace raw))
       \<in> {''none'', ''minimal'', ''low'', ''medium'', ''high'', ''xhigh'', ''max''}"

definition isDigit :: "char \<Rightarrow> bool" where
  "isDigit c \<longleftrightarrow> digitVal c \<noteq> None"

definition isGPT56DateSuffix :: "string \<Rightarrow> bool" where
  "isGPT56DateSuffix raw \<longleftrightarrow>
     (let parts = splitOn (CHR ''-'') raw in map length parts = [4, 2, 2] \<and> list_all (list_all isDigit) parts)"

definition gpt56Suffix :: "string \<Rightarrow> bool" where
  "gpt56Suffix s \<longleftrightarrow> isGPT56ReasoningSuffix s \<or> isGPT56DateSuffix s"

text \<open>The loop over the variants: \<open>Some r\<close> is a return inside the loop.\<close>

fun gpt56Variants :: "string list \<Rightarrow> string \<Rightarrow> string option option" where
  "gpt56Variants [] suffix = None"
| "gpt56Variants (v # vs) suffix =
     (if suffix = v then Some (Some (''gpt-5.6-'' @ v))
      else if hasPrefix suffix (v @ ''-'')
      then (let rest = trimPrefix suffix (v @ ''-'') in
            Some (if rest = ''preview'' \<or> gpt56Suffix rest then Some (''gpt-5.6-'' @ v) else None))
      else gpt56Variants vs suffix)"

definition normalizeGPT56ModelAlias :: "string \<Rightarrow> string option" where
  "normalizeGPT56ModelAlias model =
     (let modelID = normalizeGPT56ModelID model in
      if modelID = ''gpt-5.6'' then Some ''gpt-5.6-sol''
      else if \<not> hasPrefix modelID ''gpt-5.6-'' then None
      else let suffix = trimPrefix modelID ''gpt-5.6-'' in
        (case gpt56Variants [''sol'', ''terra'', ''luna''] suffix of
           Some r \<Rightarrow> r
         | None \<Rightarrow> if gpt56Suffix suffix then Some ''gpt-5.6-sol'' else None))"

definition isGPT56KnownModel :: "string \<Rightarrow> bool" where
  "isGPT56KnownModel model \<longleftrightarrow> normalizeGPT56ModelAlias model \<noteq> None"

definition isGPT56BareOrEffortAlias :: "string \<Rightarrow> bool" where
  "isGPT56BareOrEffortAlias model \<longleftrightarrow>
     (let modelID = normalizeGPT56ModelID model in
      modelID = ''gpt-5.6'' \<or> hasPrefix modelID ''gpt-5.6-'' \<and> isGPT56ReasoningSuffix (trimPrefix modelID ''gpt-5.6-''))"

text \<open>The names a usage is billed by, in the order they are tried, without repetitions.\<close>

definition appendUsageBillingModelCandidate :: "string list \<times> string list \<Rightarrow> string \<Rightarrow> string list \<times> string list" where
  "appendUsageBillingModelCandidate acc model = (case acc of (candidates, seen) \<Rightarrow>
     let trimmed = trimSpace model; key = toLower trimmed in
     if trimmed = [] \<or> key \<in> set seen then acc else (candidates @ [trimmed], seen @ [key]))"

definition usageBillingModelCandidates :: "string \<Rightarrow> string list \<Rightarrow> string list" where
  "usageBillingModelCandidates primary alternates =
     (let sources = primary # alternates
      in fst (foldl appendUsageBillingModelCandidate ([], [])
           (sources @ concat (map (\<lambda>m. case normalizeGPT56ModelAlias m of Some c \<Rightarrow> [c] | None \<Rightarrow> []) sources))))"

subsection \<open>The Codex families\<close>

definition codexModelMap :: "(string \<times> string) list" where
  "codexModelMap =
    [(''gpt-5.6-sol'', ''gpt-5.6-sol''), (''gpt-5.6-terra'', ''gpt-5.6-terra''), (''gpt-5.6-luna'', ''gpt-5.6-luna''),
     (''gpt-5.5'', ''gpt-5.5''), (''gpt-5.4'', ''gpt-5.4''), (''gpt-5.4-mini'', ''gpt-5.4-mini''), (''gpt-5.4-nano'', ''gpt-5.4-nano''),
     (''gpt-5.4-none'', ''gpt-5.4''), (''gpt-5.4-low'', ''gpt-5.4''), (''gpt-5.4-medium'', ''gpt-5.4''), (''gpt-5.4-high'', ''gpt-5.4''),
     (''gpt-5.4-xhigh'', ''gpt-5.4''), (''gpt-5.4-chat-latest'', ''gpt-5.4''),
     (''gpt-5.3'', ''gpt-5.3-codex''), (''gpt-5.3-none'', ''gpt-5.3-codex''), (''gpt-5.3-low'', ''gpt-5.3-codex''),
     (''gpt-5.3-medium'', ''gpt-5.3-codex''), (''gpt-5.3-high'', ''gpt-5.3-codex''), (''gpt-5.3-xhigh'', ''gpt-5.3-codex''),
     (''gpt-5.3-codex'', ''gpt-5.3-codex''), (''gpt-5.3-codex-spark'', ''gpt-5.3-codex''), (''gpt-5.3-codex-spark-low'', ''gpt-5.3-codex''),
     (''gpt-5.3-codex-spark-medium'', ''gpt-5.3-codex''), (''gpt-5.3-codex-spark-high'', ''gpt-5.3-codex''),
     (''gpt-5.3-codex-spark-xhigh'', ''gpt-5.3-codex''), (''gpt-5.3-codex-low'', ''gpt-5.3-codex''), (''gpt-5.3-codex-medium'', ''gpt-5.3-codex''),
     (''gpt-5.3-codex-high'', ''gpt-5.3-codex''), (''gpt-5.3-codex-xhigh'', ''gpt-5.3-codex''),
     (''gpt-5.1-codex'', ''gpt-5.1-codex''), (''gpt-5.1-codex-low'', ''gpt-5.1-codex''), (''gpt-5.1-codex-medium'', ''gpt-5.1-codex''),
     (''gpt-5.1-codex-high'', ''gpt-5.1-codex''), (''gpt-5.1-codex-max'', ''gpt-5.1-codex-max''), (''gpt-5.1-codex-max-low'', ''gpt-5.1-codex-max''),
     (''gpt-5.1-codex-max-medium'', ''gpt-5.1-codex-max''), (''gpt-5.1-codex-max-high'', ''gpt-5.1-codex-max''),
     (''gpt-5.1-codex-max-xhigh'', ''gpt-5.1-codex-max''),
     (''gpt-5.2'', ''gpt-5.2''), (''gpt-5.2-none'', ''gpt-5.2''), (''gpt-5.2-low'', ''gpt-5.2''), (''gpt-5.2-medium'', ''gpt-5.2''),
     (''gpt-5.2-high'', ''gpt-5.2''), (''gpt-5.2-xhigh'', ''gpt-5.2''), (''gpt-5.2-codex'', ''gpt-5.2-codex''),
     (''gpt-5.2-codex-low'', ''gpt-5.2-codex''), (''gpt-5.2-codex-medium'', ''gpt-5.2-codex''), (''gpt-5.2-codex-high'', ''gpt-5.2-codex''),
     (''gpt-5.2-codex-xhigh'', ''gpt-5.2-codex''), (''gpt-5.1-codex-mini'', ''gpt-5.1-codex-mini''),
     (''gpt-5.1-codex-mini-medium'', ''gpt-5.1-codex-mini''), (''gpt-5.1-codex-mini-high'', ''gpt-5.1-codex-mini''),
     (''gpt-5.1'', ''gpt-5.1''), (''gpt-5.1-none'', ''gpt-5.1''), (''gpt-5.1-low'', ''gpt-5.1''), (''gpt-5.1-medium'', ''gpt-5.1''),
     (''gpt-5.1-high'', ''gpt-5.1''), (''gpt-5.1-chat-latest'', ''gpt-5.1''), (''gpt-5-codex'', ''gpt-5.1-codex''),
     (''codex-mini-latest'', ''gpt-5.1-codex-mini''), (''gpt-5-codex-mini'', ''gpt-5.1-codex-mini''),
     (''gpt-5-codex-mini-medium'', ''gpt-5.1-codex-mini''), (''gpt-5-codex-mini-high'', ''gpt-5.1-codex-mini''),
     (''gpt-5'', ''gpt-5.1''), (''gpt-5-mini'', ''gpt-5.1''), (''gpt-5-nano'', ''gpt-5.1'')]"

text \<open>The keys are lower-case and distinct, so the order of the map does not matter.\<close>

definition getNormalizedCodexModel :: "string \<Rightarrow> string" where
  "getNormalizedCodexModel modelID =
     (if modelID = [] then []
      else case map_of codexModelMap modelID of
        Some v \<Rightarrow> v
      | None \<Rightarrow> (case find (\<lambda>(k, v). toLower k = toLower modelID) codexModelMap of Some (k, v) \<Rightarrow> v | None \<Rightarrow> []))"

text \<open>The chain of substring tests, first hit first.\<close>

definition codexPatterns :: "(string list \<times> string) list" where
  "codexPatterns =
    [([''gpt-5.5'', ''gpt 5.5''], ''gpt-5.5''),
     ([''gpt-5.4-mini'', ''gpt 5.4 mini''], ''gpt-5.4-mini''),
     ([''gpt-5.4-nano'', ''gpt 5.4 nano''], ''gpt-5.4-nano''),
     ([''gpt-5.4'', ''gpt 5.4''], ''gpt-5.4''),
     ([''gpt-5.2-codex'', ''gpt 5.2 codex''], ''gpt-5.2-codex''),
     ([''gpt-5.2'', ''gpt 5.2''], ''gpt-5.2''),
     ([''gpt-5.3-codex'', ''gpt 5.3 codex''], ''gpt-5.3-codex''),
     ([''gpt-5.3'', ''gpt 5.3''], ''gpt-5.3-codex''),
     ([''gpt-5.1-codex-max'', ''gpt 5.1 codex max''], ''gpt-5.1-codex-max''),
     ([''gpt-5.1-codex-mini'', ''gpt 5.1 codex mini''], ''gpt-5.1-codex-mini''),
     ([''codex-mini-latest'', ''gpt-5-codex-mini'', ''gpt 5 codex mini''], ''codex-mini-latest''),
     ([''gpt-5.1-codex'', ''gpt 5.1 codex''], ''gpt-5.1-codex''),
     ([''gpt-5.1'', ''gpt 5.1''], ''gpt-5.1''),
     ([''codex''], ''gpt-5.1-codex''),
     ([''gpt-5'', ''gpt 5''], ''gpt-5.1'')]"

definition normalizeCodexModel :: "string \<Rightarrow> string" where
  "normalizeCodexModel model =
     (if model = [] then ''gpt-5.1''
      else let modelID = (if containsStr model ''/'' then last (splitOn (CHR ''/'') model) else model) in
        (case normalizeGPT56ModelAlias modelID of
           Some m \<Rightarrow> m
         | None \<Rightarrow>
             if getNormalizedCodexModel modelID \<noteq> [] then getNormalizedCodexModel modelID
             else (case find (\<lambda>(ps, r). list_ex (containsStr (toLower modelID)) ps) codexPatterns of
                Some (ps, r) \<Rightarrow> r
              | None \<Rightarrow> ''gpt-5.1'')))"

end
