(* ===== verification/PricingCatalog.thy ===== *)
theory PricingCatalog
  imports ModelNames GoFloat
begin

section \<open>The price table\<close>

text \<open>
  service/pricing_service.go: the table of LiteLLM prices, how it is read, and how the price of
  a model name is found in it.  Prices are float64 (GoFloat); a decimal literal of the source
  denotes the nearest float64.  The table is an association list with distinct keys.  Go ranges
  over a map in an order of its own choice: \<open>ord n\<close> is the order the nth range loop of a call
  meets the entries in, a permutation of the table.
\<close>

definition dec :: "int \<Rightarrow> nat \<Rightarrow> f64" where
  "dec m e = fl (of_int m / 10 ^ e)"

record LiteLLMModelPricing =
  lp_InputCostPerToken :: f64
  lp_InputCostPerTokenPriority :: f64
  lp_OutputCostPerToken :: f64
  lp_OutputCostPerTokenPriority :: f64
  lp_CacheCreationInputTokenCost :: f64
  lp_CacheCreationInputTokenCostPriority :: f64
  lp_CacheCreationInputTokenCostAbove1hr :: f64
  lp_CacheReadInputTokenCost :: f64
  lp_CacheReadInputTokenCostPriority :: f64
  lp_LongContextInputTokenThreshold :: int
  lp_LongContextInputCostMultiplier :: f64
  lp_LongContextOutputCostMultiplier :: f64
  lp_SupportsServiceTier :: bool
  lp_LiteLLMProvider :: string
  lp_Mode :: string
  lp_SupportsPromptCaching :: bool
  lp_OutputCostPerImage :: f64
  lp_OutputCostPerImageToken :: f64

text \<open>A composite literal leaves the fields it does not name zero.\<close>

definition zeroLiteLLM :: LiteLLMModelPricing where
  "zeroLiteLLM = \<lparr>lp_InputCostPerToken = Fin 0, lp_InputCostPerTokenPriority = Fin 0,
     lp_OutputCostPerToken = Fin 0, lp_OutputCostPerTokenPriority = Fin 0,
     lp_CacheCreationInputTokenCost = Fin 0, lp_CacheCreationInputTokenCostPriority = Fin 0,
     lp_CacheCreationInputTokenCostAbove1hr = Fin 0, lp_CacheReadInputTokenCost = Fin 0,
     lp_CacheReadInputTokenCostPriority = Fin 0, lp_LongContextInputTokenThreshold = 0,
     lp_LongContextInputCostMultiplier = Fin 0, lp_LongContextOutputCostMultiplier = Fin 0,
     lp_SupportsServiceTier = False, lp_LiteLLMProvider = [], lp_Mode = [], lp_SupportsPromptCaching = False,
     lp_OutputCostPerImage = Fin 0, lp_OutputCostPerImageToken = Fin 0\<rparr>"

definition openAIGPT54FallbackPricing :: LiteLLMModelPricing where
  "openAIGPT54FallbackPricing = zeroLiteLLM\<lparr>lp_InputCostPerToken := dec 25 7, lp_OutputCostPerToken := dec 15 6,
     lp_CacheReadInputTokenCost := dec 25 8, lp_LongContextInputTokenThreshold := 272000,
     lp_LongContextInputCostMultiplier := dec 2 0, lp_LongContextOutputCostMultiplier := dec 15 1,
     lp_LiteLLMProvider := ''openai'', lp_Mode := ''chat'', lp_SupportsPromptCaching := True\<rparr>"

definition openAIGPT54MiniFallbackPricing :: LiteLLMModelPricing where
  "openAIGPT54MiniFallbackPricing = zeroLiteLLM\<lparr>lp_InputCostPerToken := dec 75 8, lp_OutputCostPerToken := dec 45 7,
     lp_CacheReadInputTokenCost := dec 75 9, lp_LiteLLMProvider := ''openai'', lp_Mode := ''chat'', lp_SupportsPromptCaching := True\<rparr>"

definition openAIGPT54NanoFallbackPricing :: LiteLLMModelPricing where
  "openAIGPT54NanoFallbackPricing = zeroLiteLLM\<lparr>lp_InputCostPerToken := dec 2 7, lp_OutputCostPerToken := dec 125 8,
     lp_CacheReadInputTokenCost := dec 2 8, lp_LiteLLMProvider := ''openai'', lp_Mode := ''chat'', lp_SupportsPromptCaching := True\<rparr>"

definition openAIGPT56SolFallbackPricing :: LiteLLMModelPricing where
  "openAIGPT56SolFallbackPricing = zeroLiteLLM\<lparr>lp_InputCostPerToken := dec 5 6, lp_InputCostPerTokenPriority := dec 10 6,
     lp_OutputCostPerToken := dec 30 6, lp_OutputCostPerTokenPriority := dec 60 6,
     lp_CacheCreationInputTokenCost := dec 625 8, lp_CacheCreationInputTokenCostPriority := dec 125 7,
     lp_CacheReadInputTokenCost := dec 5 7, lp_CacheReadInputTokenCostPriority := dec 1 6,
     lp_LongContextInputTokenThreshold := 272000, lp_LongContextInputCostMultiplier := dec 2 0,
     lp_LongContextOutputCostMultiplier := dec 15 1, lp_SupportsServiceTier := True,
     lp_LiteLLMProvider := ''openai'', lp_Mode := ''chat'', lp_SupportsPromptCaching := True\<rparr>"

definition openAIGPT56TerraFallbackPricing :: LiteLLMModelPricing where
  "openAIGPT56TerraFallbackPricing = zeroLiteLLM\<lparr>lp_InputCostPerToken := dec 25 7, lp_InputCostPerTokenPriority := dec 5 6,
     lp_OutputCostPerToken := dec 15 6, lp_OutputCostPerTokenPriority := dec 30 6,
     lp_CacheCreationInputTokenCost := dec 3125 9, lp_CacheCreationInputTokenCostPriority := dec 625 8,
     lp_CacheReadInputTokenCost := dec 25 8, lp_CacheReadInputTokenCostPriority := dec 5 7,
     lp_LongContextInputTokenThreshold := 272000, lp_LongContextInputCostMultiplier := dec 2 0,
     lp_LongContextOutputCostMultiplier := dec 15 1, lp_SupportsServiceTier := True,
     lp_LiteLLMProvider := ''openai'', lp_Mode := ''chat'', lp_SupportsPromptCaching := True\<rparr>"

definition openAIGPT56LunaFallbackPricing :: LiteLLMModelPricing where
  "openAIGPT56LunaFallbackPricing = zeroLiteLLM\<lparr>lp_InputCostPerToken := dec 1 6, lp_InputCostPerTokenPriority := dec 2 6,
     lp_OutputCostPerToken := dec 6 6, lp_OutputCostPerTokenPriority := dec 12 6,
     lp_CacheCreationInputTokenCost := dec 125 8, lp_CacheCreationInputTokenCostPriority := dec 25 7,
     lp_CacheReadInputTokenCost := dec 1 7, lp_CacheReadInputTokenCostPriority := dec 2 7,
     lp_LongContextInputTokenThreshold := 272000, lp_LongContextInputCostMultiplier := dec 2 0,
     lp_LongContextOutputCostMultiplier := dec 15 1, lp_SupportsServiceTier := True,
     lp_LiteLLMProvider := ''openai'', lp_Mode := ''chat'', lp_SupportsPromptCaching := True\<rparr>"

type_synonym priceTable = "(string \<times> LiteLLMModelPricing) list"
type_synonym rangeOrder = "nat \<Rightarrow> priceTable"

subsection \<open>Looking a model up\<close>

definition isNumeric :: "string \<Rightarrow> bool" where
  "isNumeric s \<longleftrightarrow> list_all isDigit s"

definition lastSegment :: "string \<Rightarrow> string" where
  "lastSegment model = (case afterLast ''/'' model of Some r \<Rightarrow> r | None \<Rightarrow> model)"

definition trimLeftByte :: "char \<Rightarrow> string \<Rightarrow> string" where
  "trimLeftByte d s = dropWhile (\<lambda>c. c = d) s"

definition cutAfterLast :: "string \<Rightarrow> string \<Rightarrow> string" where
  "cutAfterLast p s = (case afterLast p s of Some r \<Rightarrow> r | None \<Rightarrow> s)"

definition normalizeModelNameForPricing :: "string \<Rightarrow> string" where
  "normalizeModelNameForPricing model =
     (let m1 = trimLeftByte (CHR ''/'') (trimSpace model);
          m2 = trimPrefix (trimPrefix m1 ''models/'') ''publishers/google/models/'';
          m3 = cutAfterLast ''/models/'' (cutAfterLast ''/publishers/google/models/'' m2)
      in trimLeftByte (CHR ''/'') m3)"

fun dedupeNames :: "string list \<Rightarrow> string list \<Rightarrow> string list" where
  "dedupeNames seen [] = []"
| "dedupeNames seen (c # cs) =
     (let t = trimSpace c in if t = [] \<or> t \<in> set seen then dedupeNames seen cs else t # dedupeNames (t # seen) cs)"

definition buildModelLookupCandidates :: "string \<Rightarrow> string list" where
  "buildModelLookupCandidates modelLower =
     (let base = [normalizeModelNameForPricing modelLower, modelLower];
          withAlias = (case normalizeGPT56ModelAlias modelLower of Some n \<Rightarrow> n # base | None \<Rightarrow> base);
          out = dedupeNames [] (withAlias @ [trimPrefix modelLower ''models/'', lastSegment modelLower,
                  lastSegment (trimPrefix modelLower ''models/'')])
      in if out = [] then [modelLower] else out)"

definition extractBaseName :: "string \<Rightarrow> string" where
  "extractBaseName model =
     joinWith ''-'' (filter (\<lambda>part. \<not> (length part = 8 \<and> isNumeric part) \<and> \<not> containsStr part '':'')
       (splitOn (CHR ''-'') model))"

record modelFamily =
  mf_name :: string
  mf_match :: "string list"
  mf_pricing :: "string list option"

definition modelFamilies :: "modelFamily list" where
  "modelFamilies =
    [\<lparr>mf_name = ''opus-4.7'', mf_match = [''claude-opus-4-7'', ''claude-opus-4.7''],
        mf_pricing = Some [''claude-opus-4-7'', ''claude-opus-4.7'', ''claude-opus-4-6'']\<rparr>,
     \<lparr>mf_name = ''opus-4.6'', mf_match = [''claude-opus-4-6'', ''claude-opus-4.6''], mf_pricing = None\<rparr>,
     \<lparr>mf_name = ''opus-4.5'', mf_match = [''claude-opus-4-5'', ''claude-opus-4.5''], mf_pricing = None\<rparr>,
     \<lparr>mf_name = ''opus-4'', mf_match = [''claude-opus-4'', ''claude-3-opus''], mf_pricing = None\<rparr>,
     \<lparr>mf_name = ''sonnet-4.5'', mf_match = [''claude-sonnet-4-5'', ''claude-sonnet-4.5''], mf_pricing = None\<rparr>,
     \<lparr>mf_name = ''sonnet-4'', mf_match = [''claude-sonnet-4'', ''claude-3-5-sonnet''], mf_pricing = None\<rparr>,
     \<lparr>mf_name = ''sonnet-3.5'', mf_match = [''claude-3-5-sonnet'', ''claude-3.5-sonnet''], mf_pricing = None\<rparr>,
     \<lparr>mf_name = ''sonnet-3'', mf_match = [''claude-3-sonnet''], mf_pricing = None\<rparr>,
     \<lparr>mf_name = ''haiku-3.5'', mf_match = [''claude-3-5-haiku'', ''claude-3.5-haiku''], mf_pricing = None\<rparr>,
     \<lparr>mf_name = ''haiku-3'', mf_match = [''claude-3-haiku''], mf_pricing = None\<rparr>]"

text \<open>Phase 2 of the classification, by key words.\<close>

definition familyByKeyword :: "string \<Rightarrow> string" where
  "familyByKeyword model =
     (let has = (\<lambda>p. containsStr model p) in
      if has ''opus'' then
        (if has ''4.7'' \<or> has ''4-7'' then ''opus-4.7'' else if has ''4.6'' \<or> has ''4-6'' then ''opus-4.6''
         else if has ''4.5'' \<or> has ''4-5'' then ''opus-4.5'' else ''opus-4'')
      else if has ''sonnet'' then
        (if has ''4.5'' \<or> has ''4-5'' then ''sonnet-4.5'' else if has ''3-5'' \<or> has ''3.5'' then ''sonnet-3.5'' else ''sonnet-4'')
      else if has ''haiku'' then (if has ''3-5'' \<or> has ''3.5'' then ''haiku-3.5'' else ''haiku-3'')
      else [])"

definition familyOf :: "string \<Rightarrow> modelFamily option" where
  "familyOf model =
     (case find (\<lambda>f. list_ex (\<lambda>p. containsStr model p \<or> containsStr model (replaceAll ''-'' [] p)) (mf_match f)) modelFamilies of
        Some f \<Rightarrow> Some f
      | None \<Rightarrow> find (\<lambda>f. mf_name f = familyByKeyword model) modelFamilies)"

text \<open>Phase 3: the patterns in order, for each one range loop over the table.\<close>

fun familyPrice :: "rangeOrder \<Rightarrow> nat \<Rightarrow> string list \<Rightarrow> LiteLLMModelPricing option" where
  "familyPrice ord n [] = None"
| "familyPrice ord n (p # ps) =
     (case find (\<lambda>(key, pricing). containsStr (toLower key) p) (ord n) of
        Some (key, pricing) \<Rightarrow> Some pricing
      | None \<Rightarrow> familyPrice ord (Suc n) ps)"

definition matchByModelFamily :: "rangeOrder \<Rightarrow> string \<Rightarrow> LiteLLMModelPricing option" where
  "matchByModelFamily ord model =
     (case familyOf model of
        None \<Rightarrow> None
      | Some f \<Rightarrow> familyPrice ord 1 (case mf_pricing f of Some ps \<Rightarrow> ps | None \<Rightarrow> mf_match f))"

text \<open>The two regular expressions: a date of eight digits at the end; \<open>gpt-X\<close> or \<open>gpt-X.Y\<close>
  followed by a dash or the end.\<close>

definition stripDate :: "string \<Rightarrow> string" where
  "stripDate model =
     (let n = length model - 9; tail = drop n model in
      if 9 \<le> length model \<and> hd tail = CHR ''-'' \<and> list_all isDigit (tl tail) then take n model else model)"

definition openAIBase :: "string \<Rightarrow> string option" where
  "openAIBase model =
     (if \<not> hasPrefix model ''gpt-'' then None
      else let r = drop 4 model; d1 = takeWhile isDigit r; r1 = dropWhile isDigit r;
               ends = (\<lambda>s. s = [] \<or> hd s = CHR ''-'');
               d2 = takeWhile isDigit (drop 1 r1); r2 = dropWhile isDigit (drop 1 r1)
           in if d1 = [] then None
              else if r1 \<noteq> [] \<and> hd r1 = CHR ''.'' \<and> d2 \<noteq> [] \<and> ends r2 then Some (''gpt-'' @ d1 @ ''.'' @ d2)
              else if ends r1 then Some (''gpt-'' @ d1)
              else None)"

definition addVariant :: "string \<Rightarrow> string \<Rightarrow> string list \<Rightarrow> string list" where
  "addVariant model v vs = (if v \<noteq> model \<and> v \<notin> set vs then vs @ [v] else vs)"

definition addBase :: "string \<Rightarrow> string \<Rightarrow> string list \<Rightarrow> string list" where
  "addBase model v vs = (case openAIBase v of Some b \<Rightarrow> addVariant model b vs | None \<Rightarrow> vs)"

definition generateOpenAIModelVariants :: "string \<Rightarrow> string list" where
  "generateOpenAIModelVariants model =
     (let withoutDate = stripDate model;
          v1 = (if withoutDate \<noteq> model then addVariant model withoutDate [] else []);
          v2 = addBase model model v1
      in if withoutDate \<noteq> model then addBase model withoutDate v2 else v2)"

fun firstOf :: "('k \<Rightarrow> 'v option) \<Rightarrow> 'k list \<Rightarrow> 'v option" where
  "firstOf f [] = None"
| "firstOf f (k # ks) = (case f k of Some v \<Rightarrow> Some v | None \<Rightarrow> firstOf f ks)"

definition orElse :: "'a option \<Rightarrow> 'a option \<Rightarrow> 'a option" where
  "orElse a b = (case a of Some x \<Rightarrow> Some x | None \<Rightarrow> b)"

definition matchOpenAIModel :: "priceTable \<Rightarrow> string \<Rightarrow> LiteLLMModelPricing option" where
  "matchOpenAIModel data model =
     (if hasPrefix model ''gpt-5.6'' then
        (case normalizeGPT56ModelAlias model of
           None \<Rightarrow> None
         | Some n \<Rightarrow> if n = ''gpt-5.6-sol'' then Some openAIGPT56SolFallbackPricing
             else if n = ''gpt-5.6-terra'' then Some openAIGPT56TerraFallbackPricing
             else if n = ''gpt-5.6-luna'' then Some openAIGPT56LunaFallbackPricing else None)
      else
        orElse (if hasPrefix model ''gpt-5.3-codex-spark'' then map_of data ''gpt-5.1-codex'' else None)
       (orElse (firstOf (map_of data) (generateOpenAIModelVariants model))
       (orElse (if hasPrefix model ''gpt-5.3-codex'' then map_of data ''gpt-5.2-codex'' else None)
       (if hasPrefix model ''gpt-5.5'' then Some openAIGPT54FallbackPricing
        else if hasPrefix model ''gpt-5.4-mini'' then Some openAIGPT54MiniFallbackPricing
        else if hasPrefix model ''gpt-5.4-nano'' then Some openAIGPT54NanoFallbackPricing
        else if hasPrefix model ''gpt-5.4'' then Some openAIGPT54FallbackPricing
        else map_of data ''gpt-5.1-codex''))))"

definition exactPrice :: "priceTable \<Rightarrow> string list \<Rightarrow> LiteLLMModelPricing option" where
  "exactPrice data candidates =
     orElse (firstOf (\<lambda>c. if c = [] then None else map_of data c) candidates)
            (firstOf (\<lambda>c. map_of data (replaceAll ''-4-5-'' ''-4.5-'' c)) candidates)"

definition catalogPrice :: "priceTable \<Rightarrow> rangeOrder \<Rightarrow> string \<Rightarrow> LiteLLMModelPricing option" where
  "catalogPrice data ord modelName =
     (if modelName = [] then None
      else let candidates = buildModelLookupCandidates (toLower (trimSpace modelName)); c0 = hd candidates in
        orElse (exactPrice data candidates)
       (orElse (map_option snd (find (\<lambda>(key, p). extractBaseName (toLower key) = extractBaseName c0) (ord 0)))
       (orElse (matchByModelFamily ord c0)
        (if hasPrefix c0 ''gpt-'' then matchOpenAIModel data c0 else None))))"

end
