(* ===== verification/PricingUpdates.thy ===== *)
theory PricingUpdates
  imports PricingCatalog
begin

section \<open>Loading and updating the price table\<close>

text \<open>
  The other half of service/pricing_service.go: reading the table from JSON, from the local file,
  the fallback file and the remote, and the start and the scheduled synchronisation.  JSON
  decoding and SHA-256 are parameters (\<open>decode\<close>: the members of the object, each with its entry
  unless that does not decode; \<open>sha\<close>: the hex digest).  What the remote and the file system answer
  during one call is the record \<open>PricingIO\<close>.
\<close>

record LiteLLMRawEntry =
  re_InputCostPerToken :: "f64 option"
  re_InputCostPerTokenPriority :: "f64 option"
  re_OutputCostPerToken :: "f64 option"
  re_OutputCostPerTokenPriority :: "f64 option"
  re_CacheCreationInputTokenCost :: "f64 option"
  re_CacheCreationInputTokenCostPriority :: "f64 option"
  re_CacheCreationInputTokenCostAbove1hr :: "f64 option"
  re_CacheReadInputTokenCost :: "f64 option"
  re_CacheReadInputTokenCostPriority :: "f64 option"
  re_LongContextInputTokenThreshold :: "int option"
  re_LongContextInputCostMultiplier :: "f64 option"
  re_LongContextOutputCostMultiplier :: "f64 option"
  re_SupportsServiceTier :: bool
  re_LiteLLMProvider :: string
  re_Mode :: string
  re_SupportsPromptCaching :: bool
  re_OutputCostPerImage :: "f64 option"
  re_OutputCostPerImageToken :: "f64 option"

definition orZero :: "f64 option \<Rightarrow> f64" where
  "orZero v = (case v of Some x \<Rightarrow> x | None \<Rightarrow> Fin 0)"

definition entryPricing :: "LiteLLMRawEntry \<Rightarrow> LiteLLMModelPricing" where
  "entryPricing e =
     \<lparr>lp_InputCostPerToken = orZero (re_InputCostPerToken e),
      lp_InputCostPerTokenPriority = orZero (re_InputCostPerTokenPriority e),
      lp_OutputCostPerToken = orZero (re_OutputCostPerToken e),
      lp_OutputCostPerTokenPriority = orZero (re_OutputCostPerTokenPriority e),
      lp_CacheCreationInputTokenCost = orZero (re_CacheCreationInputTokenCost e),
      lp_CacheCreationInputTokenCostPriority = orZero (re_CacheCreationInputTokenCostPriority e),
      lp_CacheCreationInputTokenCostAbove1hr = orZero (re_CacheCreationInputTokenCostAbove1hr e),
      lp_CacheReadInputTokenCost = orZero (re_CacheReadInputTokenCost e),
      lp_CacheReadInputTokenCostPriority = orZero (re_CacheReadInputTokenCostPriority e),
      lp_LongContextInputTokenThreshold = (case re_LongContextInputTokenThreshold e of Some n \<Rightarrow> n | None \<Rightarrow> 0),
      lp_LongContextInputCostMultiplier = orZero (re_LongContextInputCostMultiplier e),
      lp_LongContextOutputCostMultiplier = orZero (re_LongContextOutputCostMultiplier e),
      lp_SupportsServiceTier = re_SupportsServiceTier e, lp_LiteLLMProvider = re_LiteLLMProvider e,
      lp_Mode = re_Mode e, lp_SupportsPromptCaching = re_SupportsPromptCaching e,
      lp_OutputCostPerImage = orZero (re_OutputCostPerImage e),
      lp_OutputCostPerImageToken = orZero (re_OutputCostPerImageToken e)\<rparr>"

fun keptEntries :: "(string \<times> LiteLLMRawEntry option) list \<Rightarrow> priceTable" where
  "keptEntries [] = []"
| "keptEntries ((modelName, raw) # rest) =
     (case raw of
        None \<Rightarrow> keptEntries rest
      | Some e \<Rightarrow> if modelName = ''sample_spec'' \<or> re_InputCostPerToken e = None \<and> re_OutputCostPerToken e = None
          then keptEntries rest else (modelName, entryPricing e) # keptEntries rest)"

type_synonym 'b jsonDecode = "'b \<Rightarrow> (string \<times> LiteLLMRawEntry option) list option"

definition parsePricingData :: "'b jsonDecode \<Rightarrow> 'b \<Rightarrow> priceTable option" where
  "parsePricingData decode body =
     (case decode body of
        None \<Rightarrow> None
      | Some raw \<Rightarrow> if keptEntries raw = [] then None else Some (keptEntries raw))"

record PricingConfig =
  pc_HashURL :: string
  pc_UpdateInterval :: int

record 'b PricingService =
  ps_pricingData :: priceTable
  ps_lastUpdated :: int
  ps_localHash :: string
  ps_file :: "('b \<times> int) option"
  ps_hashFile :: "string option"
  ps_fallbackFile :: "('b \<times> int) option"

text \<open>The hash is fetched up to twice in a call; a fetch fails for an invalid URL too.\<close>

record 'b PricingIO =
  io_now :: int
  io_hash :: "string option"
  io_hashAgain :: "string option"
  io_body :: "'b option"
  io_fileWritable :: bool
  io_hashFileWritable :: bool
  io_readable :: bool
  io_statOk :: bool

definition loadPricingData :: "'b jsonDecode \<Rightarrow> ('b \<Rightarrow> string) \<Rightarrow> 'b PricingIO \<Rightarrow> ('b \<times> int) option \<Rightarrow> 'b PricingService \<Rightarrow> bool \<times> 'b PricingService" where
  "loadPricingData decode sha io f s =
     (case f of
        None \<Rightarrow> (False, s)
      | Some (data, mtime) \<Rightarrow>
          if \<not> io_readable io then (False, s)
          else (case parsePricingData decode data of
              None \<Rightarrow> (False, s)
            | Some t \<Rightarrow> (True, s\<lparr>ps_pricingData := t, ps_localHash := sha data,
                ps_lastUpdated := (if io_statOk io then mtime else io_now io)\<rparr>)))"

text \<open>An invalid remote URL and a failed fetch are both \<open>io_body = None\<close>.\<close>

definition downloadPricingData :: "'b jsonDecode \<Rightarrow> ('b \<Rightarrow> string) \<Rightarrow> PricingConfig \<Rightarrow> 'b PricingIO \<Rightarrow> 'b PricingService \<Rightarrow> bool \<times> 'b PricingService" where
  "downloadPricingData decode sha cfg io s =
     (let remoteHash = (if trimSpace (pc_HashURL cfg) \<noteq> [] then (case io_hashAgain io of Some h \<Rightarrow> h | None \<Rightarrow> []) else []) in
      case io_body io of
        None \<Rightarrow> (False, s)
      | Some body \<Rightarrow>
          (case parsePricingData decode body of
             None \<Rightarrow> (False, s)
           | Some t \<Rightarrow>
               let syncHash = (if remoteHash \<noteq> [] then remoteHash else sha body) in
               (True, s\<lparr>ps_file := (if io_fileWritable io then Some (body, io_now io) else ps_file s),
                  ps_hashFile := (if io_hashFileWritable io then Some (syncHash @ [CHR 0x0A]) else ps_hashFile s),
                  ps_pricingData := t, ps_lastUpdated := io_now io, ps_localHash := syncHash\<rparr>)))"

definition syncWithRemote :: "'b jsonDecode \<Rightarrow> ('b \<Rightarrow> string) \<Rightarrow> PricingConfig \<Rightarrow> 'b PricingIO \<Rightarrow> 'b PricingService \<Rightarrow> bool \<times> 'b PricingService" where
  "syncWithRemote decode sha cfg io s =
     (if pc_HashURL cfg \<noteq> [] then
        (case io_hash io of
           None \<Rightarrow> (True, s)
         | Some h \<Rightarrow> if ps_localHash s = [] \<or> h \<noteq> ps_localHash s then downloadPricingData decode sha cfg io s else (True, s))
      else (case (if io_statOk io then ps_file s else None) of
           None \<Rightarrow> downloadPricingData decode sha cfg io s
         | Some (data, mtime) \<Rightarrow>
             if pc_UpdateInterval cfg < io_now io - mtime then downloadPricingData decode sha cfg io s else (True, s)))"

definition checkAndUpdatePricing :: "'b jsonDecode \<Rightarrow> ('b \<Rightarrow> string) \<Rightarrow> PricingConfig \<Rightarrow> 'b PricingIO \<Rightarrow> 'b PricingService \<Rightarrow> bool \<times> 'b PricingService" where
  "checkAndUpdatePricing decode sha cfg io s =
     (case ps_file s of
        None \<Rightarrow> downloadPricingData decode sha cfg io s
      | Some (data, mtime) \<Rightarrow>
          (case loadPricingData decode sha io (ps_file s) s of
             (False, s1) \<Rightarrow> downloadPricingData decode sha cfg io s1
           | (True, s1) \<Rightarrow>
               if pc_HashURL cfg \<noteq> [] then
                 (case io_hash io of
                    None \<Rightarrow> (True, s1)
                  | Some h \<Rightarrow> if ps_localHash s1 = [] \<or> h \<noteq> ps_localHash s1
                      then (True, snd (downloadPricingData decode sha cfg io s1)) else (True, s1))
               else if io_statOk io \<and> pc_UpdateInterval cfg < io_now io - mtime
                 then (True, snd (downloadPricingData decode sha cfg io s1))
               else (True, s1)))"

definition useFallbackPricing :: "'b jsonDecode \<Rightarrow> ('b \<Rightarrow> string) \<Rightarrow> 'b PricingIO \<Rightarrow> 'b PricingService \<Rightarrow> bool \<times> 'b PricingService" where
  "useFallbackPricing decode sha io s =
     (case ps_fallbackFile s of
        None \<Rightarrow> (False, s)
      | Some (data, mtime) \<Rightarrow> if \<not> io_readable io then (False, s)
          else loadPricingData decode sha io (Some (data, mtime))
            (s\<lparr>ps_file := (if io_fileWritable io then Some (data, io_now io) else ps_file s)\<rparr>))"

definition InitializePricing :: "'b jsonDecode \<Rightarrow> ('b \<Rightarrow> string) \<Rightarrow> PricingConfig \<Rightarrow> 'b PricingIO \<Rightarrow> 'b PricingService \<Rightarrow> bool \<times> 'b PricingService" where
  "InitializePricing decode sha cfg io s =
     (case checkAndUpdatePricing decode sha cfg io s of
        (True, s1) \<Rightarrow> (True, s1)
      | (False, s1) \<Rightarrow> useFallbackPricing decode sha io s1)"


subsection \<open>What the table in use can be\<close>

definition servable :: "'b jsonDecode \<Rightarrow> priceTable \<Rightarrow> bool" where
  "servable decode t \<longleftrightarrow> t \<noteq> [] \<and> map_of t ''sample_spec'' = None \<and> (\<exists>body. parsePricingData decode body = Some t)"

text \<open>The scheduled rounds after the start, with the answers of each.\<close>

definition pricingRounds :: "'b jsonDecode \<Rightarrow> ('b \<Rightarrow> string) \<Rightarrow> PricingConfig \<Rightarrow> 'b PricingIO list \<Rightarrow> 'b PricingService \<Rightarrow> 'b PricingService" where
  "pricingRounds decode sha cfg ios s = foldl (\<lambda>s io. snd (syncWithRemote decode sha cfg io s)) s ios"

lemma sample_spec_dropped: "map_of (keptEntries raw) ''sample_spec'' = None"
  by (induction raw rule: keptEntries.induct) (auto split: option.splits)

lemma parse_servable: "parsePricingData decode body = Some t \<Longrightarrow> servable decode t"
  by (auto simp: servable_def parsePricingData_def sample_spec_dropped split: option.splits if_splits)

lemma load_cases:
  "loadPricingData decode sha io f s = (b, s') \<Longrightarrow>
     b \<and> servable decode (ps_pricingData s') \<or> \<not> b \<and> s' = s"
  by (cases "parsePricingData decode (fst (the f))") (auto simp: loadPricingData_def parse_servable split: option.splits if_splits)

lemma download_cases:
  "downloadPricingData decode sha cfg io s = (b, s') \<Longrightarrow>
     b \<and> servable decode (ps_pricingData s') \<or> \<not> b \<and> s' = s"
  by (auto simp: downloadPricingData_def Let_def split: option.splits intro: parse_servable)

lemma download_keeps:
  "servable decode (ps_pricingData s) \<Longrightarrow> servable decode (ps_pricingData (snd (downloadPricingData decode sha cfg io s)))"
  using download_cases [of decode sha cfg io s] by (metis prod.collapse)

lemma sync_keeps:
  "servable decode (ps_pricingData s) \<Longrightarrow> servable decode (ps_pricingData (snd (syncWithRemote decode sha cfg io s)))"
  by (auto simp: syncWithRemote_def download_keeps split: option.splits)

lemma sync_failed: "syncWithRemote decode sha cfg io s = (False, s') \<Longrightarrow> s' = s"
  by (auto simp: syncWithRemote_def split: option.splits if_splits dest: download_cases)

lemma rounds_keep:
  "servable decode (ps_pricingData s) \<Longrightarrow> servable decode (ps_pricingData (pricingRounds decode sha cfg ios s))"
  unfolding pricingRounds_def by (induction ios arbitrary: s) (auto intro: sync_keeps)

lemma check_True:
  "checkAndUpdatePricing decode sha cfg io s = (True, s') \<Longrightarrow> servable decode (ps_pricingData s')"
  by (auto simp: checkAndUpdatePricing_def split: option.splits if_splits bool.splits prod.splits
      dest!: load_cases dest: download_cases intro: download_keeps)

lemma fallback_True:
  "useFallbackPricing decode sha io s = (True, s') \<Longrightarrow> servable decode (ps_pricingData s')"
  by (auto simp: useFallbackPricing_def split: option.splits if_splits dest: load_cases)


definition rawInput :: "f64 \<Rightarrow> LiteLLMRawEntry" where
  "rawInput p = \<lparr>re_InputCostPerToken = Some p, re_InputCostPerTokenPriority = None, re_OutputCostPerToken = None,
     re_OutputCostPerTokenPriority = None, re_CacheCreationInputTokenCost = None,
     re_CacheCreationInputTokenCostPriority = None, re_CacheCreationInputTokenCostAbove1hr = None,
     re_CacheReadInputTokenCost = None, re_CacheReadInputTokenCostPriority = None,
     re_LongContextInputTokenThreshold = None, re_LongContextInputCostMultiplier = None,
     re_LongContextOutputCostMultiplier = None, re_SupportsServiceTier = False, re_LiteLLMProvider = [],
     re_Mode = [], re_SupportsPromptCaching = False, re_OutputCostPerImage = None, re_OutputCostPerImageToken = None\<rparr>"

definition ioDown :: "nat PricingIO" where
  "ioDown = \<lparr>io_now = 5, io_hash = Some ''b'', io_hashAgain = None, io_body = Some 0, io_fileWritable = False,
     io_hashFileWritable = False, io_readable = True, io_statOk = False\<rparr>"

definition decodeSmall :: "nat jsonDecode" where
  "decodeSmall n = (if n = 1 then Some [(''sample_spec'', Some (rawInput (Fin 1))), (''m'', Some (rawInput (Fin 2))), (''bad'', None)] else None)"

definition servicePs :: "nat PricingService" where
  "servicePs = \<lparr>ps_pricingData = [], ps_lastUpdated = 0, ps_localHash = [], ps_file = Some (1, 3), ps_hashFile = None, ps_fallbackFile = None\<rparr>"


end
