(* ===== verification/ChannelPricing.thy ===== *)
theory ChannelPricing
  imports GoPrelude
begin

section \<open>Channels and their prices\<close>

text \<open>
  service/channel.go: a channel, the price entries of its models with their token intervals, the
  lookups in them and the validation of intervals.  A value of a channel is never shared with the
  cache (Clone copies it), so values stand for the pointers here.
\<close>

abbreviation BillingModeToken :: string where "BillingModeToken \<equiv> ''token''"
abbreviation BillingModePerRequest :: string where "BillingModePerRequest \<equiv> ''per_request''"
abbreviation BillingModeImage :: string where "BillingModeImage \<equiv> ''image''"

definition BillingMode_IsValid :: "string \<Rightarrow> bool" where
  "BillingMode_IsValid m \<longleftrightarrow> m \<in> {BillingModeToken, BillingModePerRequest, BillingModeImage, []}"

definition allowedModelCapabilities :: "string list" where
  "allowedModelCapabilities =
    [''streaming'', ''system_prompt'', ''function_calling'', ''tools'', ''json_mode'', ''structured_output'',
     ''prompt_cache'', ''vision'', ''image_generation'', ''video_generation'', ''audio_input'', ''audio_output'', ''embedding'']"

fun normalizeCapabilities :: "string list \<Rightarrow> string list \<Rightarrow> string list" where
  "normalizeCapabilities seen [] = []"
| "normalizeCapabilities seen (raw # rest) =
     (let capability = toLower (trimSpace raw) in
      if capability \<notin> set allowedModelCapabilities \<or> capability \<in> set seen then normalizeCapabilities seen rest
      else capability # normalizeCapabilities (capability # seen) rest)"

definition NormalizeModelCapabilities :: "string list \<Rightarrow> string list" where
  "NormalizeModelCapabilities input = normalizeCapabilities [] input"

record PricingInterval =
  iv_ID :: int
  iv_PricingID :: int
  iv_MinTokens :: int
  iv_MaxTokens :: "int option"
  iv_TierLabel :: string
  iv_InputPrice :: "f64 option"
  iv_OutputPrice :: "f64 option"
  iv_CacheWritePrice :: "f64 option"
  iv_CacheReadPrice :: "f64 option"
  iv_PerRequestPrice :: "f64 option"
  iv_SortOrder :: int

record ChannelModelPricing =
  cp_ID :: int
  cp_ChannelID :: int
  cp_Platform :: string
  cp_Models :: "string list"
  cp_Capabilities :: "string list"
  cp_BillingMode :: string
  cp_InputPrice :: "f64 option"
  cp_OutputPrice :: "f64 option"
  cp_CacheWritePrice :: "f64 option"
  cp_CacheReadPrice :: "f64 option"
  cp_ImageOutputPrice :: "f64 option"
  cp_PerRequestPrice :: "f64 option"
  cp_Intervals :: "PricingInterval list"

record AccountStatsPricingRule =
  ar_ID :: int
  ar_Name :: string
  ar_GroupIDs :: "int list"
  ar_AccountIDs :: "int list"
  ar_SortOrder :: int
  ar_Pricing :: "ChannelModelPricing list"

text \<open>A value of the free-form feature configuration, as far as the code tells them apart.\<close>

datatype anyValue = AnyBool bool | AnyMap "(string \<times> anyValue) list" | AnyOther string

record Channel =
  ch_ID :: int
  ch_Name :: string
  ch_Description :: string
  ch_Status :: string
  ch_BillingModelSource :: string
  ch_RestrictModels :: bool
  ch_Features :: string
  ch_FeaturesConfig :: "(string \<times> anyValue) list option"
  ch_GroupIDs :: "int list"
  ch_ModelPricing :: "ChannelModelPricing list"
  ch_ModelMapping :: "(string \<times> (string \<times> string) list) list"
  ch_ApplyPricingToAccountStats :: bool
  ch_AccountStatsPricingRules :: "AccountStatsPricingRule list"

definition Channel_IsActive :: "Channel \<Rightarrow> bool" where
  "Channel_IsActive c \<longleftrightarrow> ch_Status c = ''active''"

definition Channel_GetModelPricing :: "Channel \<Rightarrow> string \<Rightarrow> ChannelModelPricing option" where
  "Channel_GetModelPricing c model =
     find (\<lambda>p. list_ex (\<lambda>m. toLower m = toLower model) (cp_Models p)) (ch_ModelPricing c)"

definition IsWebSearchEmulationEnabled :: "Channel option \<Rightarrow> string \<Rightarrow> bool" where
  "IsWebSearchEmulationEnabled c platform =
     (case c of None \<Rightarrow> False | Some ch \<Rightarrow>
       (case ch_FeaturesConfig ch of None \<Rightarrow> False | Some cfg \<Rightarrow>
         (case map_of cfg ''web_search_emulation'' of
            Some (AnyMap wse) \<Rightarrow> (case map_of wse platform of Some (AnyBool enabled) \<Rightarrow> enabled | _ \<Rightarrow> False)
          | _ \<Rightarrow> False)))"

subsection \<open>Intervals\<close>

definition covers :: "int \<Rightarrow> PricingInterval \<Rightarrow> bool" where
  "covers n iv \<longleftrightarrow> iv_MinTokens iv < n \<and> (case iv_MaxTokens iv of None \<Rightarrow> True | Some m \<Rightarrow> n \<le> m)"

definition FindMatchingInterval :: "PricingInterval list \<Rightarrow> int \<Rightarrow> PricingInterval option" where
  "FindMatchingInterval intervals totalTokens = find (covers totalTokens) intervals"

definition GetIntervalForContext :: "ChannelModelPricing \<Rightarrow> int \<Rightarrow> PricingInterval option" where
  "GetIntervalForContext p totalTokens = FindMatchingInterval (cp_Intervals p) totalTokens"

definition GetTierByLabel :: "ChannelModelPricing \<Rightarrow> string \<Rightarrow> PricingInterval option" where
  "GetTierByLabel p label = find (\<lambda>iv. toLower (iv_TierLabel iv) = toLower label) (cp_Intervals p)"

text \<open>The errors name the intervals by their place in the sorted list.\<close>

datatype intervalError =
    NegativeMin nat
  | MaxNotPositive nat
  | MaxNotAboveMin nat
  | NegativeIntervalPrice nat string
  | UnboundedNotLast nat
  | IntervalsOverlap nat nat

definition negative :: "f64 option \<Rightarrow> bool" where
  "negative v \<longleftrightarrow> (case v of Some x \<Rightarrow> flt x (Fin 0) | None \<Rightarrow> False)"

definition intervalPrices :: "PricingInterval \<Rightarrow> (string \<times> f64 option) list" where
  "intervalPrices iv =
    [(''input_price'', iv_InputPrice iv), (''output_price'', iv_OutputPrice iv), (''cache_write_price'', iv_CacheWritePrice iv),
     (''cache_read_price'', iv_CacheReadPrice iv), (''per_request_price'', iv_PerRequestPrice iv)]"

definition validateIntervalPrices :: "PricingInterval \<Rightarrow> nat \<Rightarrow> intervalError option" where
  "validateIntervalPrices iv idx =
     map_option (\<lambda>(name, v). NegativeIntervalPrice (idx + 1) name) (find (\<lambda>(name, v). negative v) (intervalPrices iv))"

definition validateSingleInterval :: "PricingInterval \<Rightarrow> nat \<Rightarrow> intervalError option" where
  "validateSingleInterval iv idx =
     (if iv_MinTokens iv < 0 then Some (NegativeMin (idx + 1))
      else case iv_MaxTokens iv of
        Some m \<Rightarrow> if m \<le> 0 then Some (MaxNotPositive (idx + 1))
          else if m \<le> iv_MinTokens iv then Some (MaxNotAboveMin (idx + 1))
          else validateIntervalPrices iv idx
      | None \<Rightarrow> validateIntervalPrices iv idx)"

fun validateEachInterval :: "nat \<Rightarrow> PricingInterval list \<Rightarrow> intervalError option" where
  "validateEachInterval i [] = None"
| "validateEachInterval i (iv # ivs) =
     (case validateSingleInterval iv i of Some e \<Rightarrow> Some e | None \<Rightarrow> validateEachInterval (Suc i) ivs)"

fun overlapLoop :: "nat \<Rightarrow> PricingInterval option \<Rightarrow> PricingInterval list \<Rightarrow> intervalError option" where
  "overlapLoop i prev [] = None"
| "overlapLoop i prev (iv # ivs) =
     (if iv_MaxTokens iv = None \<and> ivs \<noteq> [] then Some (UnboundedNotLast (i + 1))
      else if (case prev of None \<Rightarrow> False | Some p \<Rightarrow>
          (case iv_MaxTokens p of None \<Rightarrow> True | Some m \<Rightarrow> iv_MinTokens iv < m)) then Some (IntervalsOverlap i (i + 1))
      else overlapLoop (Suc i) (Some iv) ivs)"

definition validateIntervalOverlap :: "PricingInterval list \<Rightarrow> intervalError option" where
  "validateIntervalOverlap ordered = overlapLoop 0 None ordered"

text \<open>Go's sort is not stable; two intervals with the same lower bound are an error in any order.\<close>

definition ValidateIntervals :: "PricingInterval list \<Rightarrow> intervalError option" where
  "ValidateIntervals intervals =
     (let ordered = sortBy (\<lambda>a b. iv_MinTokens a \<le> iv_MinTokens b) intervals in
      case validateEachInterval 0 ordered of Some e \<Rightarrow> Some e | None \<Rightarrow> validateIntervalOverlap ordered)"

subsection \<open>Accepted intervals cover every token count at most once\<close>

definition wellFormed :: "PricingInterval \<Rightarrow> bool" where
  "wellFormed iv \<longleftrightarrow> 0 \<le> iv_MinTokens iv \<and> (case iv_MaxTokens iv of None \<Rightarrow> True | Some m \<Rightarrow> iv_MinTokens iv < m)
     \<and> list_all (\<lambda>(name, v). \<not> negative v) (intervalPrices iv)"

definition coveredOnce :: "PricingInterval list \<Rightarrow> bool" where
  "coveredOnce ivs \<longleftrightarrow> (\<forall>n. length (filter (covers n) ivs) \<le> 1)"

definition precedes :: "PricingInterval \<Rightarrow> PricingInterval \<Rightarrow> bool" where
  "precedes a b \<longleftrightarrow> (case iv_MaxTokens a of None \<Rightarrow> False | Some m \<Rightarrow> m \<le> iv_MinTokens b)"

lemma find_None_list_all: "find P xs = None \<longleftrightarrow> list_all (\<lambda>x. \<not> P x) xs"
  by (induction xs) auto

lemma validateSingle_ok: "validateSingleInterval iv i = None \<longleftrightarrow> wellFormed iv"
  unfolding validateSingleInterval_def validateIntervalPrices_def wellFormed_def
  by (auto simp: find_None_list_all case_prod_unfold split: option.splits)

lemma validateEach_ok: "validateEachInterval i ivs = None \<longleftrightarrow> list_all wellFormed ivs"
proof (induction ivs arbitrary: i)
  case (Cons iv ivs)
  then show ?case using validateSingle_ok [of iv i] by (cases "validateSingleInterval iv i") auto
qed simp

lemma overlapLoop_ok: "overlapLoop i prev ivs = None \<longleftrightarrow> successively precedes ((case prev of None \<Rightarrow> [] | Some p \<Rightarrow> [p]) @ ivs)"
proof (induction ivs arbitrary: i prev)
  case (Cons iv ivs)
  have "overlapLoop i prev (iv # ivs) = None \<longleftrightarrow>
      (iv_MaxTokens iv = None \<longrightarrow> ivs = []) \<and> (case prev of None \<Rightarrow> True | Some p \<Rightarrow> precedes p iv) \<and> successively precedes (iv # ivs)"
    by (auto simp: Cons.IH precedes_def split: option.splits)
  also have "\<dots> \<longleftrightarrow> (case prev of None \<Rightarrow> True | Some p \<Rightarrow> precedes p iv) \<and> successively precedes (iv # ivs)"
    by (cases ivs) (auto simp: precedes_def split: option.splits)
  finally show ?case by (cases prev) auto
qed (auto split: option.splits)

lemma atMostOne_filter: "length (filter P xs) \<le> 1 \<longleftrightarrow> sorted_wrt (\<lambda>a b. \<not> (P a \<and> P b)) xs"
proof (induction xs)
  case (Cons x xs)
  then show ?case by (cases "P x") (auto simp: filter_empty_conv le_Suc_eq intro: sorted_wrt_mono_rel)
qed simp

lemma precedes_trans: "precedes a b \<Longrightarrow> precedes b c \<Longrightarrow> wellFormed b \<Longrightarrow> precedes a c"
  by (auto simp: precedes_def wellFormed_def split: option.splits)

lemma successively_precedes:
  assumes "list_all wellFormed ivs"
  shows "successively precedes ivs \<longleftrightarrow> sorted_wrt precedes ivs"
proof -
  let ?P = "\<lambda>a b. precedes a b \<and> wellFormed a \<and> wellFormed b"
  have "transp ?P" by (rule transpI) (auto intro: precedes_trans)
  then have "successively ?P ivs \<longleftrightarrow> sorted_wrt ?P ivs" by (simp add: successively_conv_sorted_wrt)
  moreover have "successively ?P ivs \<longleftrightarrow> successively precedes ivs"
    using assms by (intro successively_cong) (auto simp: list_all_iff)
  moreover have "sorted_wrt ?P ivs \<longleftrightarrow> sorted_wrt precedes ivs"
    using assms by (induction ivs) (auto simp: list_all_iff)
  ultimately show ?thesis by simp
qed

lemma precedes_disjoint: "wellFormed b \<Longrightarrow> precedes a b \<Longrightarrow> \<not> (covers n a \<and> covers n b)"
  by (auto simp: precedes_def covers_def split: option.splits)

lemma disjoint_precedes:
  assumes "wellFormed a" and "wellFormed b" and "iv_MinTokens a \<le> iv_MinTokens b"
    and "\<not> (covers (iv_MinTokens b + 1) a \<and> covers (iv_MinTokens b + 1) b)"
  shows "precedes a b"
  using assms by (auto simp: precedes_def covers_def wellFormed_def split: option.splits)

lemma length_filter_mset: "mset xs = mset ys \<Longrightarrow> length (filter P xs) = length (filter P ys)"
  by (metis mset_filter size_mset)

lemma coveredOnce_mset: "mset xs = mset ys \<Longrightarrow> coveredOnce xs \<longleftrightarrow> coveredOnce ys"
  unfolding coveredOnce_def using length_filter_mset by metis

lemma sorted_wrt_all:
  "list_all Q xs \<Longrightarrow> (\<And>a b. Q a \<Longrightarrow> Q b \<Longrightarrow> R a b \<Longrightarrow> S a b) \<Longrightarrow> sorted_wrt R xs \<Longrightarrow> sorted_wrt S xs"
  by (induction xs) (auto simp: list_all_iff)

lemma sorted_wrt_forall: "(\<forall>n. sorted_wrt (R n) xs) \<longleftrightarrow> sorted_wrt (\<lambda>a b. \<forall>n. R n a b) xs"
  by (induction xs) auto

lemma sorted_wrt_conj: "sorted_wrt R xs \<Longrightarrow> sorted_wrt S xs \<Longrightarrow> sorted_wrt (\<lambda>a b. R a b \<and> S a b) xs"
  by (induction xs) auto

lemma precedes_covered:
  assumes wf: "list_all wellFormed ivs" and s: "sorted_wrt (\<lambda>a b. iv_MinTokens a \<le> iv_MinTokens b) ivs"
  shows "sorted_wrt precedes ivs \<longleftrightarrow> coveredOnce ivs"
proof -
  let ?D = "\<lambda>a b. \<forall>n. \<not> (covers n a \<and> covers n b)"
  have c: "coveredOnce ivs \<longleftrightarrow> sorted_wrt ?D ivs"
    unfolding coveredOnce_def atMostOne_filter by (rule sorted_wrt_forall)
  have "sorted_wrt ?D ivs" if "sorted_wrt precedes ivs"
    using wf _ that by (rule sorted_wrt_all) (use precedes_disjoint in blast)
  moreover have "sorted_wrt precedes ivs" if "sorted_wrt ?D ivs"
    using wf _ sorted_wrt_conj [OF s that] by (rule sorted_wrt_all) (use disjoint_precedes in blast)
  ultimately show ?thesis using c by blast
qed

text \<open>
  C27: The validation by a scan of the sorted list accepts exactly the lists whose intervals are not
  empty, have no negative price, and cover every number of tokens at most once.
\<close>

theorem intervals_accepted_iff:
  "ValidateIntervals ivs = None \<longleftrightarrow> list_all wellFormed ivs \<and> coveredOnce ivs"
proof -
  let ?s = "sortBy (\<lambda>a b. iv_MinTokens a \<le> iv_MinTokens b) ivs"
  have s: "sorted_wrt (\<lambda>a b. iv_MinTokens a \<le> iv_MinTokens b) ?s" by (rule sorted_sortBy) auto
  have wf: "list_all wellFormed ?s \<longleftrightarrow> list_all wellFormed ivs" by (simp add: list_all_iff)
  have cv: "coveredOnce ?s \<longleftrightarrow> coveredOnce ivs" by (rule coveredOnce_mset) simp
  have "ValidateIntervals ivs = None \<longleftrightarrow> list_all wellFormed ?s \<and> successively precedes ?s"
    by (auto simp: ValidateIntervals_def validateIntervalOverlap_def overlapLoop_ok validateEach_ok [of 0, symmetric] Let_def split: option.splits)
  also have "\<dots> \<longleftrightarrow> list_all wellFormed ivs \<and> coveredOnce ivs"
    using successively_precedes [of ?s] precedes_covered [OF _ s] wf cv by blast
  finally show ?thesis .
qed

text \<open>So the interval found for a token count does not depend on the order of an accepted list.\<close>

lemma find_unique:
  assumes "length (filter P xs) \<le> 1" and "mset xs = mset ys"
  shows "find P xs = find P ys"
proof -
  have f: "find P zs = (case filter P zs of [] \<Rightarrow> None | z # _ \<Rightarrow> Some z)" for zs :: "'a list"
    by (induction zs) auto
  have l: "length (filter P ys) \<le> 1" using assms length_filter_mset by metis
  have m: "mset (filter P xs) = mset (filter P ys)" using assms(2) by (metis mset_filter)
  show ?thesis
    unfolding f using assms(1) l m by (cases "filter P xs"; cases "filter P ys") auto
qed

lemma interval_order_irrelevant:
  assumes "ValidateIntervals ivs = None" and "mset ivs = mset ivs'"
  shows "FindMatchingInterval ivs n = FindMatchingInterval ivs' n"
  using assms unfolding FindMatchingInterval_def
  by (intro find_unique) (auto simp: intervals_accepted_iff coveredOnce_def)

end
