(* ===== verification/BillingPrices.thy ===== *)
theory BillingPrices
  imports PricingCatalog ChannelPricing
begin

section \<open>Prices of the billing service\<close>

text \<open>
  The first half of service/billing_service.go: the price of a model for billing, from the price
  table or from the prices built into the program, and the policy for the models with a long
  context.  \<open>fallbackPrices\<close> is a Go map of pointers, and several names point to one price: a
  cell of the store is named by the first name given to it, and GetModelPricing returns with the
  price the cell it lives in, if it is shared.
\<close>

record ModelPricing =
  mp_InputPricePerToken :: f64
  mp_InputPricePerTokenPriority :: f64
  mp_OutputPricePerToken :: f64
  mp_OutputPricePerTokenPriority :: f64
  mp_CacheCreationPricePerToken :: f64
  mp_CacheCreationPricePerTokenPriority :: f64
  mp_CacheCreationPriceExplicit :: bool
  mp_CacheReadPricePerToken :: f64
  mp_CacheReadPricePerTokenPriority :: f64
  mp_CacheCreation5mPrice :: f64
  mp_CacheCreation1hPrice :: f64
  mp_SupportsCacheBreakdown :: bool
  mp_LongContextInputThreshold :: int
  mp_LongContextInputMultiplier :: f64
  mp_LongContextOutputMultiplier :: f64
  mp_ImageOutputPricePerToken :: f64

definition zeroPricing :: ModelPricing where
  "zeroPricing = \<lparr>mp_InputPricePerToken = Fin 0, mp_InputPricePerTokenPriority = Fin 0,
     mp_OutputPricePerToken = Fin 0, mp_OutputPricePerTokenPriority = Fin 0,
     mp_CacheCreationPricePerToken = Fin 0, mp_CacheCreationPricePerTokenPriority = Fin 0,
     mp_CacheCreationPriceExplicit = False, mp_CacheReadPricePerToken = Fin 0,
     mp_CacheReadPricePerTokenPriority = Fin 0, mp_CacheCreation5mPrice = Fin 0, mp_CacheCreation1hPrice = Fin 0,
     mp_SupportsCacheBreakdown = False, mp_LongContextInputThreshold = 0, mp_LongContextInputMultiplier = Fin 0,
     mp_LongContextOutputMultiplier = Fin 0, mp_ImageOutputPricePerToken = Fin 0\<rparr>"

subsection \<open>The built-in prices\<close>

definition flatPrice :: "f64 \<Rightarrow> f64 \<Rightarrow> f64 \<Rightarrow> f64 \<Rightarrow> ModelPricing" where
  "flatPrice i out cw cr = zeroPricing\<lparr>mp_InputPricePerToken := i, mp_OutputPricePerToken := out,
     mp_CacheCreationPricePerToken := cw, mp_CacheReadPricePerToken := cr\<rparr>"

definition withPriority :: "f64 \<Rightarrow> f64 \<Rightarrow> f64 \<Rightarrow> ModelPricing \<Rightarrow> ModelPricing" where
  "withPriority i out cr p = p\<lparr>mp_InputPricePerTokenPriority := i, mp_OutputPricePerTokenPriority := out,
     mp_CacheReadPricePerTokenPriority := cr\<rparr>"

definition withCachePriority :: "f64 \<Rightarrow> ModelPricing \<Rightarrow> ModelPricing" where
  "withCachePriority cw p = p\<lparr>mp_CacheCreationPricePerTokenPriority := cw\<rparr>"

definition withLongContext :: "ModelPricing \<Rightarrow> ModelPricing" where
  "withLongContext p = p\<lparr>mp_LongContextInputThreshold := 272000, mp_LongContextInputMultiplier := dec 2 0,
     mp_LongContextOutputMultiplier := dec 15 1\<rparr>"

type_synonym priceStore = "(string \<times> ModelPricing) list"

definition initFallbackPricing :: priceStore where
  "initFallbackPricing =
    [(''claude-opus-4.5'', flatPrice (dec 5 6) (dec 25 6) (dec 625 8) (dec 5 7)),
     (''claude-sonnet-4'', flatPrice (dec 3 6) (dec 15 6) (dec 375 8) (dec 3 7)),
     (''claude-3-5-sonnet'', flatPrice (dec 3 6) (dec 15 6) (dec 375 8) (dec 3 7)),
     (''claude-3-5-haiku'', flatPrice (dec 1 6) (dec 5 6) (dec 125 8) (dec 1 7)),
     (''claude-3-opus'', flatPrice (dec 15 6) (dec 75 6) (dec 1875 8) (dec 15 7)),
     (''claude-3-haiku'', flatPrice (dec 25 8) (dec 125 8) (dec 3 7) (dec 3 8)),
     (''gemini-3.1-pro'', flatPrice (dec 2 6) (dec 12 6) (dec 2 6) (dec 2 7)),
     (''gpt-5.1'', withPriority (dec 25 7) (dec 20 6) (dec 25 8) (flatPrice (dec 125 8) (dec 10 6) (dec 125 8) (dec 125 9))),
     (''gpt-5.4'', withLongContext (withPriority (dec 5 6) (dec 30 6) (dec 5 7) (flatPrice (dec 25 7) (dec 15 6) (dec 25 7) (dec 25 8)))),
     (''gpt-5.6-sol'', withLongContext (withCachePriority (dec 125 7) (withPriority (dec 10 6) (dec 60 6) (dec 1 6)
        (flatPrice (dec 5 6) (dec 30 6) (dec 625 8) (dec 5 7))))),
     (''gpt-5.6-terra'', withLongContext (withCachePriority (dec 625 8) (withPriority (dec 5 6) (dec 30 6) (dec 5 7)
        (flatPrice (dec 25 7) (dec 15 6) (dec 3125 9) (dec 25 8))))),
     (''gpt-5.6-luna'', withLongContext (withCachePriority (dec 25 7) (withPriority (dec 2 6) (dec 12 6) (dec 2 7)
        (flatPrice (dec 1 6) (dec 6 6) (dec 125 8) (dec 1 7))))),
     (''gpt-5.4-mini'', flatPrice (dec 75 8) (dec 45 7) (Fin 0) (dec 75 9)),
     (''gpt-5.4-nano'', flatPrice (dec 2 7) (dec 125 8) (Fin 0) (dec 2 8)),
     (''gpt-5.2'', withPriority (dec 35 7) (dec 28 6) (dec 35 8) (flatPrice (dec 175 8) (dec 14 6) (dec 175 8) (dec 175 9))),
     (''gpt-5.1-codex'', withPriority (dec 3 6) (dec 24 6) (dec 3 7) (flatPrice (dec 15 7) (dec 12 6) (dec 15 7) (dec 15 8))),
     (''gpt-5.2-codex'', withPriority (dec 35 7) (dec 28 6) (dec 35 8) (flatPrice (dec 175 8) (dec 14 6) (dec 175 8) (dec 175 9)))]"

text \<open>The names that point to the price of another name.\<close>

definition fallbackAlias :: "string \<Rightarrow> string" where
  "fallbackAlias name =
     (if name = ''claude-opus-4.6'' \<or> name = ''claude-opus-4.7'' then ''claude-opus-4.5''
      else if name = ''gpt-5.5'' then ''gpt-5.4''
      else if name = ''gpt-5.3-codex'' then ''gpt-5.1-codex''
      else name)"

definition getFallbackPricing :: "string \<Rightarrow> string option" where
  "getFallbackPricing model =
     (let has = (\<lambda>p. containsStr (toLower model) p); modelID = normalizeGPT56ModelID model in
      if has ''opus'' then
        Some (if has ''4.7'' \<or> has ''4-7'' then ''claude-opus-4.7'' else if has ''4.6'' \<or> has ''4-6'' then ''claude-opus-4.6''
              else if has ''4.5'' \<or> has ''4-5'' then ''claude-opus-4.5'' else ''claude-3-opus'')
      else if has ''sonnet'' then Some (if has ''4'' \<and> \<not> has ''3'' then ''claude-sonnet-4'' else ''claude-3-5-sonnet'')
      else if has ''haiku'' then Some (if has ''3-5'' \<or> has ''3.5'' then ''claude-3-5-haiku'' else ''claude-3-haiku'')
      else if has ''claude'' then Some ''claude-sonnet-4''
      else if has ''gemini-3.1-pro'' \<or> has ''gemini-3-1-pro'' then Some ''gemini-3.1-pro''
      else if (modelID = ''gpt-5.6'' \<or> hasPrefix modelID ''gpt-5.6-'') \<and> \<not> isGPT56KnownModel modelID then None
      else if has ''gpt-5'' \<or> has ''codex'' then
        (let normalized = normalizeCodexModel (toLower model) in
         if normalized \<in> {''gpt-5.6-sol'', ''gpt-5.6-terra'', ''gpt-5.6-luna'', ''gpt-5.5'', ''gpt-5.4-mini'', ''gpt-5.4-nano'',
              ''gpt-5.4'', ''gpt-5.2'', ''gpt-5.2-codex'', ''gpt-5.3-codex'', ''gpt-5.1''} then Some normalized
         else if normalized \<in> {''gpt-5.1-codex'', ''gpt-5.1-codex-max'', ''gpt-5.1-codex-mini'', ''codex-mini-latest''}
           then Some ''gpt-5.1-codex''
         else None)
      else None)"

subsection \<open>The policy for the models with a long context\<close>

definition isOpenAIGPT54Model :: "string \<Rightarrow> bool" where
  "isOpenAIGPT54Model model \<longleftrightarrow>
     normalizeCodexModel (trimSpace (toLower model))
       \<in> {''gpt-5.4'', ''gpt-5.5'', ''gpt-5.6-sol'', ''gpt-5.6-terra'', ''gpt-5.6-luna''}"

definition notPositive :: "f64 \<Rightarrow> bool" where
  "notPositive x \<longleftrightarrow> fle x (Fin 0)"

definition defaultLongContext :: "ModelPricing \<Rightarrow> ModelPricing" where
  "defaultLongContext p = p\<lparr>
     mp_LongContextInputThreshold := (if mp_LongContextInputThreshold p \<le> 0 then 272000 else mp_LongContextInputThreshold p),
     mp_LongContextInputMultiplier := (if notPositive (mp_LongContextInputMultiplier p) then dec 2 0 else mp_LongContextInputMultiplier p),
     mp_LongContextOutputMultiplier := (if notPositive (mp_LongContextOutputMultiplier p) then dec 15 1 else mp_LongContextOutputMultiplier p)\<rparr>"

definition defaultCacheWrite :: "ModelPricing \<Rightarrow> ModelPricing" where
  "defaultCacheWrite p =
     (if notPositive (mp_CacheCreationPricePerToken p) \<and> \<not> mp_CacheCreationPriceExplicit p
      then let cc = fmul (mp_InputPricePerToken p) (dec 125 2) in
        p\<lparr>mp_CacheCreationPricePerToken := cc,
          mp_CacheCreation5mPrice := (if notPositive (mp_CacheCreation5mPrice p) then cc else mp_CacheCreation5mPrice p)\<rparr>
      else p)"

definition defaultCacheWritePriority :: "ModelPricing \<Rightarrow> ModelPricing" where
  "defaultCacheWritePriority p =
     (if notPositive (mp_CacheCreationPricePerTokenPriority p) \<and> flt (Fin 0) (mp_InputPricePerTokenPriority p)
         \<and> \<not> mp_CacheCreationPriceExplicit p
      then p\<lparr>mp_CacheCreationPricePerTokenPriority := fmul (mp_InputPricePerTokenPriority p) (dec 125 2)\<rparr>
      else p)"

text \<open>\<open>None\<close>: the pricing itself is returned, not a copy.\<close>

definition pricingPolicy :: "string \<Rightarrow> ModelPricing \<Rightarrow> ModelPricing option" where
  "pricingPolicy model p =
     (if isGPT56KnownModel model then Some (defaultLongContext (defaultCacheWritePriority (defaultCacheWrite p)))
      else if \<not> isOpenAIGPT54Model model then None
      else if 0 < mp_LongContextInputThreshold p \<and> flt (Fin 0) (mp_LongContextInputMultiplier p)
           \<and> flt (Fin 0) (mp_LongContextOutputMultiplier p) then None
      else Some (defaultLongContext p))"

definition applyModelSpecificPricingPolicy :: "string \<Rightarrow> ModelPricing \<Rightarrow> ModelPricing" where
  "applyModelSpecificPricingPolicy model p = (case pricingPolicy model p of Some c \<Rightarrow> c | None \<Rightarrow> p)"

lemma policy_cell:
  "map_option fst (case pricingPolicy m p of Some c \<Rightarrow> Some (c, None) | None \<Rightarrow> Some (p, a)) = Some (applyModelSpecificPricingPolicy m p)"
  by (simp add: applyModelSpecificPricingPolicy_def split: option.split)

subsection \<open>The price of a model\<close>

record BillingService =
  bs_pricingService :: "priceTable option"
  bs_fallbackPrices :: priceStore
  bs_defaultRateMultiplier :: f64

definition fromLiteLLM :: "LiteLLMModelPricing \<Rightarrow> ModelPricing" where
  "fromLiteLLM l =
     (let price5m = lp_CacheCreationInputTokenCost l; price1h = lp_CacheCreationInputTokenCostAbove1hr l in
      \<lparr>mp_InputPricePerToken = lp_InputCostPerToken l, mp_InputPricePerTokenPriority = lp_InputCostPerTokenPriority l,
       mp_OutputPricePerToken = lp_OutputCostPerToken l, mp_OutputPricePerTokenPriority = lp_OutputCostPerTokenPriority l,
       mp_CacheCreationPricePerToken = lp_CacheCreationInputTokenCost l,
       mp_CacheCreationPricePerTokenPriority = lp_CacheCreationInputTokenCostPriority l,
       mp_CacheCreationPriceExplicit = False,
       mp_CacheReadPricePerToken = lp_CacheReadInputTokenCost l, mp_CacheReadPricePerTokenPriority = lp_CacheReadInputTokenCostPriority l,
       mp_CacheCreation5mPrice = price5m, mp_CacheCreation1hPrice = price1h,
       mp_SupportsCacheBreakdown = (flt (Fin 0) price1h \<and> flt price5m price1h),
       mp_LongContextInputThreshold = lp_LongContextInputTokenThreshold l,
       mp_LongContextInputMultiplier = lp_LongContextInputCostMultiplier l,
       mp_LongContextOutputMultiplier = lp_LongContextOutputCostMultiplier l,
       mp_ImageOutputPricePerToken = lp_OutputCostPerImageToken l\<rparr>)"

definition locateModelPricing :: "BillingService \<Rightarrow> rangeOrder \<Rightarrow> string \<Rightarrow> (ModelPricing \<times> string option) option" where
  "locateModelPricing s ord model0 =
     (let model = toLower model0 in
      case (case bs_pricingService s of None \<Rightarrow> None | Some data \<Rightarrow> catalogPrice data ord model) of
        Some l \<Rightarrow> Some (applyModelSpecificPricingPolicy model (fromLiteLLM l), None)
      | None \<Rightarrow>
          (case getFallbackPricing model of
             None \<Rightarrow> None
           | Some name \<Rightarrow>
               (case map_of (bs_fallbackPrices s) (fallbackAlias name) of
                  None \<Rightarrow> None
                | Some p \<Rightarrow> (case pricingPolicy model p of
                    Some c \<Rightarrow> Some (c, None)
                  | None \<Rightarrow> Some (p, Some (fallbackAlias name))))))"

definition GetModelPricing :: "BillingService \<Rightarrow> rangeOrder \<Rightarrow> string \<Rightarrow> ModelPricing option" where
  "GetModelPricing s ord model = map_option fst (locateModelPricing s ord model)"

definition setCacheWrite :: "f64 \<Rightarrow> ModelPricing \<Rightarrow> ModelPricing" where
  "setCacheWrite v p = p\<lparr>mp_CacheCreationPricePerToken := v, mp_CacheCreationPricePerTokenPriority := v,
     mp_CacheCreation5mPrice := v, mp_CacheCreation1hPrice := v, mp_CacheCreationPriceExplicit := True\<rparr>"

definition overridePrices :: "f64 option \<Rightarrow> f64 option \<Rightarrow> f64 option \<Rightarrow> f64 option \<Rightarrow> ModelPricing \<Rightarrow> ModelPricing" where
  "overridePrices input out cw cr p0 =
     (let p1 = (case input of Some v \<Rightarrow> p0\<lparr>mp_InputPricePerToken := v, mp_InputPricePerTokenPriority := v\<rparr> | None \<Rightarrow> p0);
          p2 = (case out of Some v \<Rightarrow> p1\<lparr>mp_OutputPricePerToken := v, mp_OutputPricePerTokenPriority := v\<rparr> | None \<Rightarrow> p1);
          p3 = (case cw of Some v \<Rightarrow> setCacheWrite v p2 | None \<Rightarrow> p2)
      in case cr of Some v \<Rightarrow> p3\<lparr>mp_CacheReadPricePerToken := v, mp_CacheReadPricePerTokenPriority := v\<rparr> | None \<Rightarrow> p3)"

definition channelOverride :: "ChannelModelPricing \<Rightarrow> ModelPricing \<Rightarrow> ModelPricing" where
  "channelOverride cp p =
     (let q = overridePrices (cp_InputPrice cp) (cp_OutputPrice cp) (cp_CacheWritePrice cp) (cp_CacheReadPrice cp) p in
      case cp_ImageOutputPrice cp of Some v \<Rightarrow> q\<lparr>mp_ImageOutputPricePerToken := v\<rparr> | None \<Rightarrow> q)"

text \<open>The override is written through the pointer that was returned: into the shared cell, if it is one.\<close>

definition GetModelPricingWithChannel :: "BillingService \<Rightarrow> rangeOrder \<Rightarrow> string \<Rightarrow> ChannelModelPricing option \<Rightarrow> ModelPricing option \<times> BillingService" where
  "GetModelPricingWithChannel s ord model cp =
     (case locateModelPricing s ord model of
        None \<Rightarrow> (None, s)
      | Some (p, cell) \<Rightarrow>
          (case cp of
             None \<Rightarrow> (Some p, s)
           | Some c \<Rightarrow> (Some (channelOverride c p),
               case cell of
                 None \<Rightarrow> s
               | Some a \<Rightarrow> s\<lparr>bs_fallbackPrices := map (\<lambda>(k, v). (k, if k = a then channelOverride c p else v)) (bs_fallbackPrices s)\<rparr>)))"

end
