(* ===== verification/ChannelCache.thy ===== *)
theory ChannelCache
  imports ChannelPricing
begin

section \<open>The channel cache\<close>

text \<open>
  The pure part of service/channel_service.go: the snapshot the hot path looks prices and model
  mappings up in, how it is filled from the channels, the look-ups, and the conflict check of
  model patterns.  A Go map is a partial function; the inner map of a channel's model mapping is
  ranged over when the snapshot is filled, in the order \<open>ord channel group\<close> (a permutation of its
  entries, chosen by the runtime).
\<close>

type_synonym modelKey = "int \<times> string \<times> string"
type_synonym gpKey = "int \<times> string"

record channelCache =
  cc_pricingByGroupModel :: "modelKey \<rightharpoonup> ChannelModelPricing"
  cc_wildcardByGroupPlatform :: "gpKey \<Rightarrow> (string \<times> ChannelModelPricing) list"
  cc_mappingByGroupModel :: "modelKey \<rightharpoonup> string"
  cc_wildcardMappingByGP :: "gpKey \<Rightarrow> (string \<times> string) list"
  cc_channelByGroupID :: "int \<rightharpoonup> Channel"
  cc_groupPlatform :: "int \<rightharpoonup> string"
  cc_byID :: "int \<rightharpoonup> Channel"
  cc_loadedAt :: int

definition newEmptyChannelCache :: channelCache where
  "newEmptyChannelCache = \<lparr>cc_pricingByGroupModel = Map.empty, cc_wildcardByGroupPlatform = (\<lambda>_. []),
     cc_mappingByGroupModel = Map.empty, cc_wildcardMappingByGP = (\<lambda>_. []), cc_channelByGroupID = Map.empty,
     cc_groupPlatform = Map.empty, cc_byID = Map.empty, cc_loadedAt = zeroTime\<rparr>"

definition isPlatformPricingMatch :: "string \<Rightarrow> string \<Rightarrow> bool" where
  "isPlatformPricingMatch groupPlatform pricingPlatform \<longleftrightarrow> groupPlatform = pricingPlatform"

definition matchingPlatforms :: "string \<Rightarrow> string list" where
  "matchingPlatforms groupPlatform = [groupPlatform]"

definition platformOf :: "(int \<rightharpoonup> string) \<Rightarrow> int \<Rightarrow> string" where
  "platformOf platforms gid = (case platforms gid of Some p \<Rightarrow> p | None \<Rightarrow> [])"

subsection \<open>Filling the snapshot\<close>

definition addPricing :: "int \<Rightarrow> ChannelModelPricing \<Rightarrow> channelCache \<Rightarrow> string \<Rightarrow> channelCache" where
  "addPricing gid pricing cache model =
     (if hasSuffix model ''*''
      then cache\<lparr>cc_wildcardByGroupPlatform := (cc_wildcardByGroupPlatform cache)((gid, cp_Platform pricing) :=
             cc_wildcardByGroupPlatform cache (gid, cp_Platform pricing) @ [(toLower (trimSuffix model ''*''), pricing)])\<rparr>
      else cache\<lparr>cc_pricingByGroupModel := (cc_pricingByGroupModel cache)((gid, cp_Platform pricing, toLower model) \<mapsto> pricing)\<rparr>)"

definition expandPricingToCache :: "Channel \<Rightarrow> int \<Rightarrow> string \<Rightarrow> channelCache \<Rightarrow> channelCache" where
  "expandPricingToCache ch gid platform cache =
     foldl (\<lambda>c pricing. if \<not> isPlatformPricingMatch platform (cp_Platform pricing) then c
              else foldl (addPricing gid pricing) c (cp_Models pricing)) cache (ch_ModelPricing ch)"

definition addMapping :: "int \<Rightarrow> string \<Rightarrow> channelCache \<Rightarrow> string \<times> string \<Rightarrow> channelCache" where
  "addMapping gid platform cache sd = (case sd of (src, dst) \<Rightarrow>
     if hasSuffix src ''*''
     then cache\<lparr>cc_wildcardMappingByGP := (cc_wildcardMappingByGP cache)((gid, platform) :=
            cc_wildcardMappingByGP cache (gid, platform) @ [(toLower (trimSuffix src ''*''), dst)])\<rparr>
     else cache\<lparr>cc_mappingByGroupModel := (cc_mappingByGroupModel cache)((gid, platform, toLower src) \<mapsto> dst)\<rparr>)"

type_synonym mappingOrder = "int \<Rightarrow> int \<Rightarrow> (string \<times> string) list \<Rightarrow> (string \<times> string) list"

definition expandMappingToCache :: "mappingOrder \<Rightarrow> Channel \<Rightarrow> int \<Rightarrow> string \<Rightarrow> channelCache \<Rightarrow> channelCache" where
  "expandMappingToCache ord ch gid platform cache =
     foldl (\<lambda>c mp. case map_of (ch_ModelMapping ch) mp of
              None \<Rightarrow> c
            | Some platformMapping \<Rightarrow> foldl (addMapping gid mp) c (ord (ch_ID ch) gid platformMapping))
       cache (matchingPlatforms platform)"

definition addGroup :: "mappingOrder \<Rightarrow> (int \<rightharpoonup> string) \<Rightarrow> Channel \<Rightarrow> channelCache \<Rightarrow> int \<Rightarrow> channelCache" where
  "addGroup ord platforms ch cache gid =
     (let platform = platformOf platforms gid in
      expandMappingToCache ord ch gid platform (expandPricingToCache ch gid platform
        (cache\<lparr>cc_channelByGroupID := (cc_channelByGroupID cache)(gid \<mapsto> ch)\<rparr>)))"

definition addChannel :: "mappingOrder \<Rightarrow> (int \<rightharpoonup> string) \<Rightarrow> channelCache \<Rightarrow> Channel \<Rightarrow> channelCache" where
  "addChannel ord platforms cache ch =
     foldl (addGroup ord platforms ch) (cache\<lparr>cc_byID := (cc_byID cache)(ch_ID ch \<mapsto> ch)\<rparr>) (ch_GroupIDs ch)"

definition populateChannelCache :: "mappingOrder \<Rightarrow> int \<Rightarrow> Channel list \<Rightarrow> (int \<rightharpoonup> string) \<Rightarrow> channelCache" where
  "populateChannelCache ord now channels platforms =
     foldl (addChannel ord platforms)
       (newEmptyChannelCache\<lparr>cc_groupPlatform := platforms, cc_loadedAt := now\<rparr>) channels"

subsection \<open>Looking up\<close>

definition matchWildcard :: "channelCache \<Rightarrow> int \<Rightarrow> string \<Rightarrow> string \<Rightarrow> ChannelModelPricing option" where
  "matchWildcard c gid platform modelLower =
     map_option snd (find (\<lambda>(prefix, _). hasPrefix modelLower prefix) (cc_wildcardByGroupPlatform c (gid, platform)))"

definition matchWildcardMapping :: "channelCache \<Rightarrow> int \<Rightarrow> string \<Rightarrow> string \<Rightarrow> string" where
  "matchWildcardMapping c gid platform modelLower =
     (case find (\<lambda>(prefix, _). hasPrefix modelLower prefix) (cc_wildcardMappingByGP c (gid, platform)) of
        Some (_, target) \<Rightarrow> target | None \<Rightarrow> [])"

fun firstSome :: "('k \<Rightarrow> 'v option) \<Rightarrow> 'k list \<Rightarrow> 'v option" where
  "firstSome f [] = None"
| "firstSome f (k # ks) = (case f k of Some v \<Rightarrow> Some v | None \<Rightarrow> firstSome f ks)"

definition lookupPricingAcrossPlatforms :: "channelCache \<Rightarrow> int \<Rightarrow> string \<Rightarrow> string \<Rightarrow> ChannelModelPricing option" where
  "lookupPricingAcrossPlatforms cache gid groupPlatform modelLower =
     (case firstSome (\<lambda>p. cc_pricingByGroupModel cache (gid, p, modelLower)) (matchingPlatforms groupPlatform) of
        Some pricing \<Rightarrow> Some pricing
      | None \<Rightarrow> firstSome (\<lambda>p. matchWildcard cache gid p modelLower) (matchingPlatforms groupPlatform))"

definition lookupMappingAcrossPlatforms :: "channelCache \<Rightarrow> int \<Rightarrow> string \<Rightarrow> string \<Rightarrow> string" where
  "lookupMappingAcrossPlatforms cache gid groupPlatform modelLower =
     (case firstSome (\<lambda>p. cc_mappingByGroupModel cache (gid, p, modelLower)) (matchingPlatforms groupPlatform) of
        Some mapped \<Rightarrow> mapped
      | None \<Rightarrow> (case firstSome (\<lambda>p. let m = matchWildcardMapping cache gid p modelLower in if m \<noteq> [] then Some m else None)
                    (matchingPlatforms groupPlatform) of Some m \<Rightarrow> m | None \<Rightarrow> []))"

record channelLookup =
  lk_cache :: channelCache
  lk_channel :: Channel
  lk_platform :: string

record ChannelMappingResult =
  cr_MappedModel :: string
  cr_ChannelID :: int
  cr_Mapped :: bool
  cr_BillingModelSource :: string

definition resolveMapping :: "channelLookup \<Rightarrow> int \<Rightarrow> string \<Rightarrow> ChannelMappingResult" where
  "resolveMapping lk gid model =
     (let source = ch_BillingModelSource (lk_channel lk);
          mapped = lookupMappingAcrossPlatforms (lk_cache lk) gid (lk_platform lk) (toLower model)
      in \<lparr>cr_MappedModel = (if mapped \<noteq> [] then mapped else model), cr_ChannelID = ch_ID (lk_channel lk),
          cr_Mapped = (mapped \<noteq> []), cr_BillingModelSource = (if source = [] then ''channel_mapped'' else source)\<rparr>)"

definition checkRestricted :: "channelLookup \<Rightarrow> int \<Rightarrow> string \<Rightarrow> bool" where
  "checkRestricted lk gid model \<longleftrightarrow>
     ch_RestrictModels (lk_channel lk) \<and> lookupPricingAcrossPlatforms (lk_cache lk) gid (lk_platform lk) (toLower model) = None"

text \<open>The arrow of the printed chain is U+2192 in UTF-8.\<close>

definition arrow :: string where "arrow = map char_of [226 :: nat, 134, 146]"

definition BuildModelMappingChain :: "ChannelMappingResult \<Rightarrow> string \<Rightarrow> string \<Rightarrow> string" where
  "BuildModelMappingChain r reqModel upstreamModel =
     (if \<not> cr_Mapped r then (if upstreamModel \<noteq> [] \<and> upstreamModel \<noteq> reqModel then reqModel @ arrow @ upstreamModel else [])
      else if upstreamModel \<noteq> [] \<and> upstreamModel \<noteq> cr_MappedModel r
        then reqModel @ arrow @ cr_MappedModel r @ arrow @ upstreamModel
      else reqModel @ arrow @ cr_MappedModel r)"

record ChannelUsageFields =
  cu_ChannelID :: int
  cu_OriginalModel :: string
  cu_ChannelMappedModel :: string
  cu_BillingModelSource :: string
  cu_ModelMappingChain :: string

definition ToUsageFields :: "ChannelMappingResult \<Rightarrow> string \<Rightarrow> string \<Rightarrow> ChannelUsageFields" where
  "ToUsageFields r reqModel upstreamModel =
     \<lparr>cu_ChannelID = cr_ChannelID r, cu_OriginalModel = reqModel,
      cu_ChannelMappedModel = (if cr_Mapped r then cr_MappedModel r else reqModel),
      cu_BillingModelSource = cr_BillingModelSource r, cu_ModelMappingChain = BuildModelMappingChain r reqModel upstreamModel\<rparr>"

subsection \<open>Conflicts of model patterns\<close>

record modelEntry =
  me_pattern :: string
  me_prefix :: string
  me_wildcard :: bool

definition toModelEntry :: "string \<Rightarrow> modelEntry" where
  "toModelEntry pattern =
     (let lower = toLower pattern; isWild = hasSuffix lower ''*'' in
      \<lparr>me_pattern = pattern, me_prefix = (if isWild then trimSuffix lower ''*'' else lower), me_wildcard = isWild\<rparr>)"

definition conflictsBetween :: "modelEntry \<Rightarrow> modelEntry \<Rightarrow> bool" where
  "conflictsBetween a b =
     (if \<not> me_wildcard a \<and> \<not> me_wildcard b then me_prefix a = me_prefix b
      else if me_wildcard a \<and> \<not> me_wildcard b then hasPrefix (me_prefix b) (me_prefix a)
      else if \<not> me_wildcard a \<and> me_wildcard b then hasPrefix (me_prefix a) (me_prefix b)
      else hasPrefix (me_prefix a) (me_prefix b) \<or> hasPrefix (me_prefix b) (me_prefix a))"

fun detectConflicts :: "modelEntry list \<Rightarrow> (modelEntry \<times> modelEntry) option" where
  "detectConflicts [] = None"
| "detectConflicts (e # es) = (case find (conflictsBetween e) es of Some f \<Rightarrow> Some (e, f) | None \<Rightarrow> detectConflicts es)"

definition platformEntries :: "ChannelModelPricing list \<Rightarrow> string \<Rightarrow> modelEntry list" where
  "platformEntries pricingList platform =
     concat (map (\<lambda>p. if cp_Platform p = platform then map toModelEntry (cp_Models p) else []) pricingList)"

text \<open>Both checks range over a map of platforms; only which of several conflicts is reported depends on the order.\<close>

definition validateNoConflictingModels :: "ChannelModelPricing list \<Rightarrow> (modelEntry \<times> modelEntry) option" where
  "validateNoConflictingModels pricingList =
     firstSome (\<lambda>platform. detectConflicts (platformEntries pricingList platform)) (remdups (map cp_Platform pricingList))"

definition validateNoConflictingMappings :: "(string \<times> (string \<times> string) list) list \<Rightarrow> (modelEntry \<times> modelEntry) option" where
  "validateNoConflictingMappings mapping =
     firstSome (\<lambda>(platform, platformMapping). detectConflicts (map (\<lambda>(src, _). toModelEntry src) platformMapping)) mapping"

end
