(* ===== verification/CostCalculation.thy ===== *)
theory CostCalculation
  imports BillingPrices ChannelCache
begin

section \<open>What a request costs\<close>

text \<open>
  service/model_pricing_resolver.go and the second half of service/billing_service.go: how the
  price of a channel overrides the base price, and how the cost of a request is computed from
  its tokens.  Every float operation rounds (GoFloat), in the order the code has them.  The
  channel service is a parameter here: \<open>chan\<close> is its GetChannelModelPricing, if there is one.
\<close>

record UsageTokens =
  ut_InputTokens :: int
  ut_OutputTokens :: int
  ut_CacheCreationTokens :: int
  ut_CacheReadTokens :: int
  ut_CacheCreation5mTokens :: int
  ut_CacheCreation1hTokens :: int
  ut_ImageOutputTokens :: int

definition noTokens :: UsageTokens where
  "noTokens = \<lparr>ut_InputTokens = 0, ut_OutputTokens = 0, ut_CacheCreationTokens = 0, ut_CacheReadTokens = 0,
     ut_CacheCreation5mTokens = 0, ut_CacheCreation1hTokens = 0, ut_ImageOutputTokens = 0\<rparr>"

record CostBreakdown =
  cb_InputCost :: f64
  cb_OutputCost :: f64
  cb_ImageOutputCost :: f64
  cb_CacheCreationCost :: f64
  cb_CacheReadCost :: f64
  cb_TotalCost :: f64
  cb_ActualCost :: f64
  cb_BillingMode :: string

definition noCost :: CostBreakdown where
  "noCost = \<lparr>cb_InputCost = Fin 0, cb_OutputCost = Fin 0, cb_ImageOutputCost = Fin 0, cb_CacheCreationCost = Fin 0,
     cb_CacheReadCost = Fin 0, cb_TotalCost = Fin 0, cb_ActualCost = Fin 0, cb_BillingMode = []\<rparr>"

definition ofTokens :: "int \<Rightarrow> f64" where
  "ofTokens n = fl (of_int n)"

subsection \<open>Service tiers and the long context\<close>

definition normalizeBillingServiceTier :: "string \<Rightarrow> string" where
  "normalizeBillingServiceTier tier = toLower (trimSpace tier)"

definition usePriorityServiceTierPricing :: "string \<Rightarrow> ModelPricing \<Rightarrow> bool" where
  "usePriorityServiceTierPricing tier p \<longleftrightarrow> normalizeBillingServiceTier tier = ''priority'' \<and>
     (flt (Fin 0) (mp_InputPricePerTokenPriority p) \<or> flt (Fin 0) (mp_OutputPricePerTokenPriority p)
      \<or> flt (Fin 0) (mp_CacheCreationPricePerTokenPriority p) \<or> flt (Fin 0) (mp_CacheReadPricePerTokenPriority p))"

definition serviceTierCostMultiplier :: "string \<Rightarrow> f64" where
  "serviceTierCostMultiplier tier =
     (if normalizeBillingServiceTier tier = ''priority'' then Fin 2
      else if normalizeBillingServiceTier tier = ''flex'' then Fin (1 / 2) else Fin 1)"

definition shouldApplySessionLongContextPricing :: "UsageTokens \<Rightarrow> ModelPricing \<Rightarrow> bool" where
  "shouldApplySessionLongContextPricing t p \<longleftrightarrow>
     0 < mp_LongContextInputThreshold p \<and> \<not> (fle (mp_LongContextInputMultiplier p) (Fin 1) \<and> fle (mp_LongContextOutputMultiplier p) (Fin 1))
     \<and> mp_LongContextInputThreshold p < ut_InputTokens t + ut_CacheCreationTokens t + ut_CacheReadTokens t"

subsection \<open>The cost of tokens\<close>

definition computeCacheCreationCost :: "ModelPricing \<Rightarrow> UsageTokens \<Rightarrow> f64 \<Rightarrow> f64 \<Rightarrow> f64" where
  "computeCacheCreationCost p t price multiplier =
     (if mp_SupportsCacheBreakdown p \<and> (flt (Fin 0) (mp_CacheCreation5mPrice p) \<or> flt (Fin 0) (mp_CacheCreation1hPrice p)) then
        (if ut_CacheCreation5mTokens t = 0 \<and> ut_CacheCreation1hTokens t = 0 \<and> 0 < ut_CacheCreationTokens t
         then fmul (fmul (ofTokens (ut_CacheCreationTokens t)) (mp_CacheCreation5mPrice p)) multiplier
         else fadd (fmul (fmul (ofTokens (ut_CacheCreation5mTokens t)) (mp_CacheCreation5mPrice p)) multiplier)
                   (fmul (fmul (ofTokens (ut_CacheCreation1hTokens t)) (mp_CacheCreation1hPrice p)) multiplier))
      else fmul (fmul (ofTokens (ut_CacheCreationTokens t)) price) multiplier)"

definition orPriority :: "bool \<Rightarrow> f64 \<Rightarrow> f64 \<Rightarrow> f64" where
  "orPriority usePriority priority price = (if usePriority \<and> flt (Fin 0) priority then priority else price)"

definition scaledBy :: "f64 \<Rightarrow> f64 \<Rightarrow> f64" where
  "scaledBy k x = (if feq k (Fin 1) then x else fmul x k)"

definition effectiveRate :: "f64 \<Rightarrow> f64" where
  "effectiveRate rate = (if fle rate (Fin 0) then Fin 1 else rate)"

definition computeTokenBreakdown :: "ModelPricing \<Rightarrow> UsageTokens \<Rightarrow> f64 \<Rightarrow> string \<Rightarrow> bool \<Rightarrow> CostBreakdown" where
  "computeTokenBreakdown p t rateMultiplier tier applyLongCtx =
     (let rate = effectiveRate rateMultiplier;
          pr = usePriorityServiceTierPricing tier p;
          inputPrice0 = orPriority pr (mp_InputPricePerTokenPriority p) (mp_InputPricePerToken p);
          outputPrice0 = orPriority pr (mp_OutputPricePerTokenPriority p) (mp_OutputPricePerToken p);
          cacheReadPrice0 = orPriority pr (mp_CacheReadPricePerTokenPriority p) (mp_CacheReadPricePerToken p);
          cacheCreationPrice = orPriority pr (mp_CacheCreationPricePerTokenPriority p) (mp_CacheCreationPricePerToken p);
          tierMultiplier = (if pr then Fin 1 else serviceTierCostMultiplier tier);
          long = (applyLongCtx \<and> shouldApplySessionLongContextPricing t p);
          inputPrice = (if long then fmul inputPrice0 (mp_LongContextInputMultiplier p) else inputPrice0);
          outputPrice = (if long then fmul outputPrice0 (mp_LongContextOutputMultiplier p) else outputPrice0);
          cacheReadPrice = (if long then fmul cacheReadPrice0 (mp_LongContextInputMultiplier p) else cacheReadPrice0);
          cacheCreationMultiplier = (if long then mp_LongContextInputMultiplier p else Fin 1);
          textOutput = max 0 (ut_OutputTokens t - ut_ImageOutputTokens t);
          imgPrice = (if feq (mp_ImageOutputPricePerToken p) (Fin 0) then outputPrice else mp_ImageOutputPricePerToken p);
          scale = scaledBy tierMultiplier;
          inputCost = scale (fmul (ofTokens (ut_InputTokens t)) inputPrice);
          outputCost = scale (fmul (ofTokens textOutput) outputPrice);
          imageCost = scale (if 0 < ut_ImageOutputTokens t then fmul (ofTokens (ut_ImageOutputTokens t)) imgPrice else Fin 0);
          creationCost = scale (computeCacheCreationCost p t cacheCreationPrice cacheCreationMultiplier);
          readCost = scale (fmul (ofTokens (ut_CacheReadTokens t)) cacheReadPrice);
          totalCost = fadd (fadd (fadd (fadd inputCost outputCost) imageCost) creationCost) readCost
      in \<lparr>cb_InputCost = inputCost, cb_OutputCost = outputCost, cb_ImageOutputCost = imageCost,
          cb_CacheCreationCost = creationCost, cb_CacheReadCost = readCost, cb_TotalCost = totalCost,
          cb_ActualCost = fmul totalCost rate, cb_BillingMode = []\<rparr>)"

subsection \<open>The cost without a channel\<close>

definition calculateCostInternal :: "BillingService \<Rightarrow> rangeOrder \<Rightarrow> string \<Rightarrow> UsageTokens \<Rightarrow> f64 \<Rightarrow> string \<Rightarrow> CostBreakdown option" where
  "calculateCostInternal s ord model t rate tier =
     (case GetModelPricing s ord model of None \<Rightarrow> None | Some p \<Rightarrow> Some (computeTokenBreakdown p t rate tier True))"

definition CalculateCost :: "BillingService \<Rightarrow> rangeOrder \<Rightarrow> string \<Rightarrow> UsageTokens \<Rightarrow> f64 \<Rightarrow> CostBreakdown option" where
  "CalculateCost s ord model t rate = calculateCostInternal s ord model t rate []"

definition CalculateCostWithServiceTier :: "BillingService \<Rightarrow> rangeOrder \<Rightarrow> string \<Rightarrow> UsageTokens \<Rightarrow> f64 \<Rightarrow> string \<Rightarrow> CostBreakdown option" where
  "CalculateCostWithServiceTier s ord model t rate tier = calculateCostInternal s ord model t rate tier"

definition CalculateCostWithConfig :: "BillingService \<Rightarrow> rangeOrder \<Rightarrow> string \<Rightarrow> UsageTokens \<Rightarrow> CostBreakdown option" where
  "CalculateCostWithConfig s ord model t = CalculateCost s ord model t (effectiveRate (bs_defaultRateMultiplier s))"

definition GetEstimatedCost :: "BillingService \<Rightarrow> rangeOrder \<Rightarrow> string \<Rightarrow> int \<Rightarrow> int \<Rightarrow> f64 option" where
  "GetEstimatedCost s ord model input out =
     map_option cb_ActualCost (CalculateCostWithConfig s ord model (noTokens\<lparr>ut_InputTokens := input, ut_OutputTokens := out\<rparr>))"

text \<open>The tokens inside and beyond a threshold, the cache before the input.\<close>

definition splitLongContext :: "UsageTokens \<Rightarrow> int \<Rightarrow> UsageTokens \<times> UsageTokens" where
  "splitLongContext t threshold =
     (let (inCache, inInput, outCache, outInput) =
        (if threshold \<le> ut_CacheReadTokens t
         then (threshold, 0, ut_CacheReadTokens t - threshold, ut_InputTokens t)
         else (ut_CacheReadTokens t, threshold - ut_CacheReadTokens t, 0, ut_InputTokens t - (threshold - ut_CacheReadTokens t)))
      in (t\<lparr>ut_InputTokens := inInput, ut_CacheReadTokens := inCache\<rparr>,
          noTokens\<lparr>ut_InputTokens := outInput, ut_CacheReadTokens := outCache\<rparr>))"

text \<open>
  The price is looked up once per part, each time with a range order of its own (\<open>ord\<close> and
  \<open>ord'\<close>).  The result of the first part alone, with an error, stands for no cost: no caller
  reads it.
\<close>

definition CalculateCostWithLongContext ::
  "BillingService \<Rightarrow> rangeOrder \<Rightarrow> rangeOrder \<Rightarrow> string \<Rightarrow> UsageTokens \<Rightarrow> f64 \<Rightarrow> int \<Rightarrow> f64 \<Rightarrow> CostBreakdown option" where
  "CalculateCostWithLongContext s ord ord' model t rate threshold extra =
     (if threshold \<le> 0 \<or> fle extra (Fin 1) then CalculateCost s ord model t rate
      else if ut_CacheReadTokens t + ut_InputTokens t \<le> threshold then CalculateCost s ord model t rate
      else (case splitLongContext t threshold of (inT, outT) \<Rightarrow>
        (case CalculateCost s ord model inT rate of
           None \<Rightarrow> None
         | Some a \<Rightarrow>
             (case CalculateCost s ord' model outT (fmul rate extra) of
                None \<Rightarrow> None
              | Some b \<Rightarrow> Some \<lparr>cb_InputCost = fadd (cb_InputCost a) (cb_InputCost b), cb_OutputCost = cb_OutputCost a,
                  cb_ImageOutputCost = cb_ImageOutputCost a, cb_CacheCreationCost = cb_CacheCreationCost a,
                  cb_CacheReadCost = fadd (cb_CacheReadCost a) (cb_CacheReadCost b),
                  cb_TotalCost = fadd (cb_TotalCost a) (cb_TotalCost b),
                  cb_ActualCost = fadd (cb_ActualCost a) (cb_ActualCost b), cb_BillingMode = []\<rparr>))))"

definition IsModelSupported :: "string \<Rightarrow> bool" where
  "IsModelSupported model \<longleftrightarrow>
     list_ex (containsStr (toLower model)) [''claude'', ''opus'', ''sonnet'', ''haiku'']"

end
