(* ===== verification/CostBounds.thy ===== *)
theory CostBounds
  imports CostCalculation
begin

section \<open>No cost is negative, infinite or NaN\<close>

text \<open>
  \<open>ranged k x\<close>: the float \<open>x\<close> is a number from 0 to 2 ^ k.  Rounding is monotone and powers of
  two are exact, so products and sums stay below the obvious powers.  Prices up to 2 ^ 10 dollars
  a token, multipliers and rates up to 2 ^ 10 and up to 2 ^ 40 tokens of a kind are far beyond
  anything configured.
\<close>

named_theorems bounded "float operations and the powers of two they stay below"

definition ranged :: "nat \<Rightarrow> f64 \<Rightarrow> bool" where
  "ranged k x \<longleftrightarrow> fle (Fin 0) x \<and> fle x (Fin (2 ^ k))"

lemma fl_pow2: "k \<le> 1000 \<Longrightarrow> fl (2 ^ k) = Fin (2 ^ k)"
proof -
  assume k: "k \<le> 1000"
  have r: "rnd (2 ^ k) = 2 ^ k" using rnd_exact [of 1 "int k"] by simp
  have u: "(2 :: rat) ^ k < 2 ^ 1024" using k by (intro power_strict_increasing) auto
  have "(0 :: rat) < 2 ^ k" and "(0 :: rat) < 2 ^ 1024" by (rule zero_less_power, simp)+
  then have l: "- (2 ^ 1024) < (2 :: rat) ^ k" by (meson neg_less_0_iff_less order_less_trans)
  show ?thesis unfolding fl_def Let_def r using u l by (meson not_le)
qed

lemma ranged_Fin: "ranged k x \<longleftrightarrow> (\<exists>a. x = Fin a \<and> 0 \<le> a \<and> a \<le> 2 ^ k)"
  by (cases x) (auto simp: ranged_def)

lemma ranged_fl: "0 \<le> a \<Longrightarrow> a \<le> 2 ^ k \<Longrightarrow> k \<le> 1000 \<Longrightarrow> ranged k (fl a)"
  using fl_mono [of 0 a] fl_mono [of a "2 ^ k"] by (simp add: ranged_def fl_pow2)

lemma ranged_mono: "ranged j x \<Longrightarrow> j \<le> k \<Longrightarrow> ranged k x"
proof -
  assume "ranged j x" and jk: "j \<le> k"
  then obtain a where a: "x = Fin a" "0 \<le> a" "a \<le> 2 ^ j" unfolding ranged_Fin by blast
  have "(2 :: rat) ^ j \<le> 2 ^ k" using jk by (rule power_increasing) simp
  with a(3) have "a \<le> 2 ^ k" by (rule order_trans)
  with a show ?thesis unfolding ranged_Fin by blast
qed

lemma ranged_0 [bounded]: "ranged k (Fin 0)"
  by (simp add: ranged_Fin)

lemma ranged_1 [bounded]: "ranged k (Fin 1)"
  by (simp add: ranged_Fin)

lemma ranged_fmul [bounded]: "ranged j x \<Longrightarrow> ranged k y \<Longrightarrow> n = j + k \<Longrightarrow> n \<le> 1000 \<Longrightarrow> ranged n (fmul x y)"
  by (auto simp: ranged_Fin [of j] ranged_Fin [of k] power_add intro!: ranged_fl mult_mono mult_nonneg_nonneg)

lemma ranged_fadd [bounded]: "ranged j x \<Longrightarrow> ranged j y \<Longrightarrow> n = Suc j \<Longrightarrow> n \<le> 1000 \<Longrightarrow> ranged n (fadd x y)"
  by (auto simp: ranged_Fin [of j] intro!: ranged_fl)

lemma ranged_tokens: "0 \<le> n \<Longrightarrow> n \<le> 2 ^ 40 \<Longrightarrow> ranged 40 (ofTokens n)"
  unfolding ofTokens_def by (rule ranged_fl) (simp_all flip: of_int_numeral of_int_power only: of_int_le_iff, simp_all)

lemma ranged_dec: "0 \<le> m \<Longrightarrow> m \<le> 10 ^ e * 2 ^ k \<Longrightarrow> k \<le> 1000 \<Longrightarrow> ranged k (dec m e)"
proof -
  assume m: "0 \<le> m" "m \<le> 10 ^ e * 2 ^ k" and k: "k \<le> 1000"
  have "(of_int m :: rat) \<le> of_int (10 ^ e * 2 ^ k)" using m(2) by (simp only: of_int_le_iff)
  then have "(of_int m :: rat) / 10 ^ e \<le> 2 ^ k" by (simp add: pos_divide_le_eq mult.commute)
  then show ?thesis unfolding dec_def using m(1) k by (intro ranged_fl) auto
qed

definition pricedWithin :: "nat \<Rightarrow> ModelPricing \<Rightarrow> bool" where
  "pricedWithin k p \<longleftrightarrow> list_all (ranged k)
     [mp_InputPricePerToken p, mp_InputPricePerTokenPriority p, mp_OutputPricePerToken p, mp_OutputPricePerTokenPriority p,
      mp_CacheCreationPricePerToken p, mp_CacheCreationPricePerTokenPriority p, mp_CacheReadPricePerToken p,
      mp_CacheReadPricePerTokenPriority p, mp_CacheCreation5mPrice p, mp_CacheCreation1hPrice p,
      mp_LongContextInputMultiplier p, mp_LongContextOutputMultiplier p, mp_ImageOutputPricePerToken p]"

definition tokensWithin :: "UsageTokens \<Rightarrow> bool" where
  "tokensWithin t \<longleftrightarrow> list_all (\<lambda>n. 0 \<le> n \<and> n \<le> 2 ^ 40)
     [ut_InputTokens t, ut_OutputTokens t, ut_CacheCreationTokens t, ut_CacheReadTokens t, ut_CacheCreation5mTokens t,
      ut_CacheCreation1hTokens t, ut_ImageOutputTokens t]"

definition costWithin :: "CostBreakdown \<Rightarrow> bool" where
  "costWithin c \<longleftrightarrow> list_all (ranged 80)
     [cb_InputCost c, cb_OutputCost c, cb_ImageOutputCost c, cb_CacheCreationCost c, cb_CacheReadCost c, cb_TotalCost c, cb_ActualCost c]"

lemma ranged_orPriority: "ranged k a \<Longrightarrow> ranged k b \<Longrightarrow> ranged k (orPriority c a b)"
  by (simp add: orPriority_def)

lemma ranged_if: "(c \<Longrightarrow> ranged k a) \<Longrightarrow> (\<not> c \<Longrightarrow> ranged k b) \<Longrightarrow> ranged k (if c then a else b)"
  by simp

lemma ranged_tier: "ranged 1 (serviceTierCostMultiplier tier)"
  by (simp add: serviceTierCostMultiplier_def ranged_def)

lemma ranged_scaled: "ranged j x \<Longrightarrow> ranged 1 k \<Longrightarrow> n = Suc j \<Longrightarrow> n \<le> 1000 \<Longrightarrow> ranged n (scaledBy k x)"
  using ranged_fmul [of j x 1 k n] by (auto simp: scaledBy_def intro: ranged_mono)

lemma ranged_rate: "ranged k rate \<Longrightarrow> ranged k (effectiveRate rate)"
  by (simp add: effectiveRate_def ranged_1)

lemma ranged_long: "ranged j a \<Longrightarrow> ranged 11 m \<Longrightarrow> n = j + 11 \<Longrightarrow> n \<le> 1000 \<Longrightarrow> ranged n (if c then fmul a m else a)"
  using ranged_fmul [of j a 11 m n] by (auto intro: ranged_mono)

lemma ranged_creation:
  assumes p: "pricedWithin 11 p" and t: "tokensWithin t" and "ranged 11 price" and "ranged 11 k"
  shows "ranged 63 (computeCacheCreationCost p t price k)"
proof -
  have one: "ranged 62 (fmul (fmul (ofTokens n) q) k)" if "0 \<le> n" "n \<le> 2 ^ 40" "ranged 11 q" for n q
    using ranged_fmul [OF ranged_fmul [OF ranged_tokens [OF that(1,2)] that(3)] assms(4)] by simp
  have two: "ranged 63 (fadd a b)" if "ranged 62 a" "ranged 62 b" for a b
    using ranged_fadd [OF that] by simp
  show ?thesis
    using p t assms(3) unfolding computeCacheCreationCost_def
    by (auto simp: pricedWithin_def tokensWithin_def intro!: ranged_if two one ranged_mono [OF one])
qed

text \<open>The cost of tokens is bounded by its factors, whichever tier and however long the context.\<close>

lemma breakdown_within:
  assumes p: "pricedWithin 11 p" and t: "tokensWithin t" and r: "ranged 10 rate"
  shows "costWithin (computeTokenBreakdown p t rate tier long)"
proof -
  let ?pr = "usePriorityServiceTierPricing tier p" and ?lc = "long \<and> shouldApplySessionLongContextPricing t p"
  let ?k = "if ?pr then Fin 1 else serviceTierCostMultiplier tier"
  let ?in0 = "orPriority ?pr (mp_InputPricePerTokenPriority p) (mp_InputPricePerToken p)"
  let ?out0 = "orPriority ?pr (mp_OutputPricePerTokenPriority p) (mp_OutputPricePerToken p)"
  let ?rd0 = "orPriority ?pr (mp_CacheReadPricePerTokenPriority p) (mp_CacheReadPricePerToken p)"
  let ?cc = "orPriority ?pr (mp_CacheCreationPricePerTokenPriority p) (mp_CacheCreationPricePerToken p)"
  let ?in = "if ?lc then fmul ?in0 (mp_LongContextInputMultiplier p) else ?in0"
  let ?out = "if ?lc then fmul ?out0 (mp_LongContextOutputMultiplier p) else ?out0"
  let ?rd = "if ?lc then fmul ?rd0 (mp_LongContextInputMultiplier p) else ?rd0"
  let ?cm = "if ?lc then mp_LongContextInputMultiplier p else Fin 1"
  let ?img = "if feq (mp_ImageOutputPricePerToken p) (Fin 0) then ?out else mp_ImageOutputPricePerToken p"
  have k: "ranged 1 ?k" by (intro ranged_if ranged_1 ranged_tier)
  have cm: "ranged 11 ?cm" by (rule ranged_if) (use p in \<open>simp_all add: pricedWithin_def ranged_1\<close>)
  have prices: "ranged 22 ?in" "ranged 22 ?out" "ranged 22 ?rd" "ranged 11 ?cc"
    using p by (simp_all add: pricedWithin_def ranged_long [where j = 11] ranged_orPriority split del: if_split)
  have img: "ranged 22 ?img" using prices(2) p by (auto simp: pricedWithin_def intro: ranged_mono)
  have tok: "ranged 64 (scaledBy ?k (fmul (ofTokens n) q))" if "0 \<le> n" "n \<le> 2 ^ 40" "ranged 22 q" for n q
    by (rule ranged_mono [of 63]) (use ranged_scaled [OF ranged_fmul [OF ranged_tokens [OF that(1,2)] that(3), of 62] k, of 63] in simp_all)
  have cr: "ranged 64 (scaledBy ?k (computeCacheCreationCost p t ?cc ?cm))"
    using ranged_scaled [OF ranged_creation [OF p t prices(4) cm] k] by simp
  have img': "ranged 64 (scaledBy ?k (if 0 < n then fmul (ofTokens n) ?img else Fin 0))" if "0 \<le> n" "n \<le> 2 ^ 40" for n
    using tok [OF that img] ranged_scaled [OF ranged_0 k, of 64 63] by (cases "0 < n") (simp_all split del: if_split)
  have sum5: "ranged 68 (fadd (fadd (fadd (fadd a b) c) d) e)"
    if "ranged 64 a" "ranged 64 b" "ranged 64 c" "ranged 64 d" "ranged 64 e" for a b c d e
    using ranged_fadd [OF ranged_fadd [OF ranged_fadd [OF ranged_fadd [OF that(1,2), of 65]
      ranged_mono [OF that(3), of 65], of 66] ranged_mono [OF that(4), of 66], of 67] ranged_mono [OF that(5), of 67], of 68] by simp
  have act: "ranged 78 (fmul a (effectiveRate rate))" if "ranged 68 a" for a
    using ranged_fmul [OF that ranged_rate [OF r], of 78] by simp
  have tn: "0 \<le> ut_InputTokens t" "ut_InputTokens t \<le> 2 ^ 40" "0 \<le> ut_CacheReadTokens t" "ut_CacheReadTokens t \<le> 2 ^ 40"
    "0 \<le> ut_ImageOutputTokens t" "ut_ImageOutputTokens t \<le> 2 ^ 40"
    "0 \<le> max 0 (ut_OutputTokens t - ut_ImageOutputTokens t)" "max 0 (ut_OutputTokens t - ut_ImageOutputTokens t) \<le> 2 ^ 40"
    using t by (auto simp: tokensWithin_def)
  note parts = tok [OF tn(1,2) prices(1)] tok [OF tn(7,8) prices(2)] img' [OF tn(5,6)] cr tok [OF tn(3,4) prices(3)]
  note total = sum5 [OF parts]
  note all = parts [THEN ranged_mono, of 80] total [THEN ranged_mono, of 80] act [OF total, THEN ranged_mono, of 80]
  show ?thesis
    unfolding costWithin_def computeTokenBreakdown_def Let_def CostBreakdown.simps list.pred_inject
    by (intro conjI) (rule all; simp | simp only: list.pred_inject)+
qed

subsection \<open>From the tables to the cost\<close>

definition tableWithin :: "priceTable \<Rightarrow> bool" where
  "tableWithin data \<longleftrightarrow> list_all (\<lambda>(name, l). pricedWithin 10 (fromLiteLLM l)) data"

definition storeWithin :: "priceStore \<Rightarrow> bool" where
  "storeWithin store \<longleftrightarrow> list_all (\<lambda>(name, p). pricedWithin 10 p) store"

lemma builtin_prices_within: "storeWithin initFallbackPricing"
  by (simp add: storeWithin_def initFallbackPricing_def pricedWithin_def flatPrice_def withPriority_def withCachePriority_def
      withLongContext_def zeroPricing_def ranged_0 ranged_dec)

definition staticPrices :: "LiteLLMModelPricing list" where
  "staticPrices = [openAIGPT54FallbackPricing, openAIGPT54MiniFallbackPricing, openAIGPT54NanoFallbackPricing,
     openAIGPT56SolFallbackPricing, openAIGPT56TerraFallbackPricing, openAIGPT56LunaFallbackPricing]"

lemma static_prices_within: "list_all (\<lambda>l. pricedWithin 10 (fromLiteLLM l)) staticPrices"
  by (simp add: staticPrices_def openAIGPT54FallbackPricing_def openAIGPT54MiniFallbackPricing_def openAIGPT54NanoFallbackPricing_def
      openAIGPT56SolFallbackPricing_def openAIGPT56TerraFallbackPricing_def openAIGPT56LunaFallbackPricing_def
      zeroLiteLLM_def fromLiteLLM_def pricedWithin_def ranged_0 ranged_dec Let_def)

lemma pricedWithin_mono: "pricedWithin j p \<Longrightarrow> j \<le> k \<Longrightarrow> pricedWithin k p"
  unfolding pricedWithin_def by (erule list.pred_mono_strong) (rule ranged_mono)

lemma policy_within:
  assumes "pricedWithin 10 p"
  shows "pricedWithin 11 (applyModelSpecificPricingPolicy m p)"
proof -
  have b: "ranged 11 x" if "ranged 10 x" for x using that by (rule ranged_mono) simp
  have c: "ranged 11 (fmul x (dec 125 2))" if "ranged 10 x" for x
    using ranged_fmul [OF that ranged_dec [of 125 2 1], of 11] by simp
  have w: "pricedWithin 11 (defaultCacheWrite p)"
    using assms by (simp add: defaultCacheWrite_def Let_def pricedWithin_def b c)
  have wp: "pricedWithin 11 (defaultCacheWritePriority (defaultCacheWrite p))"
    using w assms by (auto simp: defaultCacheWritePriority_def defaultCacheWrite_def Let_def pricedWithin_def b c)
  have l: "pricedWithin 11 (defaultLongContext q)" if "pricedWithin 11 q" for q
    using that by (simp add: defaultLongContext_def pricedWithin_def ranged_dec)
  show ?thesis
    using l [OF wp] l [OF pricedWithin_mono [OF assms]] pricedWithin_mono [OF assms, of 11]
    by (simp add: applyModelSpecificPricingPolicy_def pricingPolicy_def)
qed

text \<open>The range order of a call meets the entries of the table.\<close>

definition rangesOver :: "rangeOrder \<Rightarrow> priceTable \<Rightarrow> bool" where
  "rangesOver ord data \<longleftrightarrow> (\<forall>n. mset (ord n) = mset data)"

lemma rangesOver_set: "rangesOver ord data \<Longrightarrow> set (ord n) = set data"
  unfolding rangesOver_def by (metis set_mset_mset)

lemma orElse_Some: "orElse a b = Some x \<Longrightarrow> a = Some x \<or> b = Some x"
  by (auto simp: orElse_def split: option.splits)

lemma orElse4: "orElse a (orElse b (orElse c d)) = Some x \<Longrightarrow> a = Some x \<or> b = Some x \<or> c = Some x \<or> d = Some x"
  by (simp add: orElse_def split: option.splits)

lemma firstOf_Some: "firstOf f ks = Some v \<Longrightarrow> \<exists>k. f k = Some v"
  by (induction ks) (auto split: option.splits)

definition listedPrices :: "priceTable \<Rightarrow> LiteLLMModelPricing set" where
  "listedPrices data = snd ` set data \<union> set staticPrices"

lemma listed_map_of: "map_of data k = Some l \<Longrightarrow> l \<in> listedPrices data"
  by (auto simp: listedPrices_def dest!: map_of_SomeD intro: rev_image_eqI)

lemma exactPrice_listed: "exactPrice data cs = Some l \<Longrightarrow> l \<in> listedPrices data"
  unfolding exactPrice_def by (auto dest!: orElse_Some firstOf_Some intro: listed_map_of split: if_splits)

lemma familyPrice_listed: "rangesOver ord data \<Longrightarrow> familyPrice ord n ps = Some l \<Longrightarrow> l \<in> listedPrices data"
proof (induction ord n ps rule: familyPrice.induct)
  case (2 ord n p ps)
  show ?case
  proof (cases "find (\<lambda>(key, pricing). containsStr (toLower key) p) (ord n)")
    case None
    then show ?thesis using 2 by auto
  next
    case (Some kv)
    then have "kv \<in> set (ord n)" by (rule find_mem)
    then have "kv \<in> set data" using 2(2) by (simp add: rangesOver_set)
    moreover have "snd kv = l" using 2(3) Some by (simp add: case_prod_unfold)
    ultimately show ?thesis unfolding listedPrices_def by blast
  qed
qed simp

lemma matchByModelFamily_listed: "rangesOver ord data \<Longrightarrow> matchByModelFamily ord m = Some l \<Longrightarrow> l \<in> listedPrices data"
  unfolding matchByModelFamily_def by (auto intro: familyPrice_listed split: option.splits)

lemma matchOpenAIModel_listed: "matchOpenAIModel data m = Some l \<Longrightarrow> l \<in> listedPrices data"
proof -
  have st: "openAIGPT54FallbackPricing \<in> listedPrices data" "openAIGPT54MiniFallbackPricing \<in> listedPrices data"
    "openAIGPT54NanoFallbackPricing \<in> listedPrices data" "openAIGPT56SolFallbackPricing \<in> listedPrices data"
    "openAIGPT56TerraFallbackPricing \<in> listedPrices data" "openAIGPT56LunaFallbackPricing \<in> listedPrices data"
    by (simp_all add: listedPrices_def staticPrices_def)
  assume "matchOpenAIModel data m = Some l"
  then show ?thesis
    unfolding matchOpenAIModel_def
    by (auto simp: st dest!: orElse_Some firstOf_Some intro: listed_map_of split: if_splits option.splits)
qed

lemma catalogPrice_listed:
  assumes r: "rangesOver ord data" and c: "catalogPrice data ord m = Some l"
  shows "l \<in> listedPrices data"
proof -
  let ?cs = "buildModelLookupCandidates (toLower (trimSpace m))"
  have near: "l \<in> listedPrices data" if n: "map_option snd (find P (ord 0)) = Some l" for P
  proof -
    obtain kv where kv: "find P (ord 0) = Some kv" "snd kv = l" using n by (cases "find P (ord 0)") auto
    have "kv \<in> set data" using find_mem [OF kv(1)] rangesOver_set [OF r, of 0] by simp
    with kv show ?thesis unfolding listedPrices_def by blast
  qed
  from c consider "exactPrice data ?cs = Some l"
    | "map_option snd (find (\<lambda>(key, p). extractBaseName (toLower key) = extractBaseName (hd ?cs)) (ord 0)) = Some l"
    | "matchByModelFamily ord (hd ?cs) = Some l" | "matchOpenAIModel data (hd ?cs) = Some l"
  proof -
    note d = orElse4 [of "exactPrice data ?cs" _ "matchByModelFamily ord (hd ?cs)"
        "if hasPrefix (hd ?cs) ''gpt-'' then matchOpenAIModel data (hd ?cs) else None" l]
    show thesis
    proof (cases "m = []")
      case True
      with c show thesis by (simp add: catalogPrice_def)
    next
      case False
      with c have "orElse (exactPrice data ?cs) (orElse (map_option snd (find (\<lambda>(key, p). extractBaseName (toLower key) = extractBaseName (hd ?cs)) (ord 0)))
          (orElse (matchByModelFamily ord (hd ?cs)) (if hasPrefix (hd ?cs) ''gpt-'' then matchOpenAIModel data (hd ?cs) else None))) = Some l"
        by (simp only: catalogPrice_def Let_def if_False)
      from d [OF this] that show thesis by (metis option.distinct(1))
    qed
  qed
  then show ?thesis
  proof cases
    case 1 then show ?thesis by (rule exactPrice_listed)
  next
    case 2 then show ?thesis by (rule near)
  next
    case 3 with r show ?thesis by (rule matchByModelFamily_listed)
  next
    case 4 then show ?thesis by (rule matchOpenAIModel_listed)
  qed
qed

definition serviceWithin :: "BillingService \<Rightarrow> rangeOrder \<Rightarrow> bool" where
  "serviceWithin s ord \<longleftrightarrow> storeWithin (bs_fallbackPrices s)
     \<and> (case bs_pricingService s of None \<Rightarrow> True | Some data \<Rightarrow> tableWithin data \<and> rangesOver ord data)"

lemma listed_within: "tableWithin data \<Longrightarrow> l \<in> listedPrices data \<Longrightarrow> pricedWithin 10 (fromLiteLLM l)"
  using static_prices_within by (auto simp: listedPrices_def tableWithin_def list_all_iff)

lemma GetModelPricing_within:
  assumes s: "serviceWithin s ord" and p: "GetModelPricing s ord m = Some p"
  shows "pricedWithin 11 p"
proof -
  have base: "pricedWithin 11 (applyModelSpecificPricingPolicy n q)" if "pricedWithin 10 q" for n q
    using that by (rule policy_within)
  have cell: "pricedWithin 11 c" if "pricedWithin 10 q" and "pricingPolicy n q = Some c" for n q c
    using policy_within [OF that(1), of n] that(2) by (simp add: applyModelSpecificPricingPolicy_def)
  have store: "pricedWithin 10 q" if "map_of (bs_fallbackPrices s) k = Some q" for k q
    using s that by (auto simp: serviceWithin_def storeWithin_def list_all_iff dest!: map_of_SomeD)
  have cat: "pricedWithin 10 (fromLiteLLM l)" if "bs_pricingService s = Some data" "catalogPrice data ord n = Some l" for data n l
    using s that catalogPrice_listed listed_within by (auto simp: serviceWithin_def)
  show ?thesis
    using p unfolding GetModelPricing_def locateModelPricing_def Let_def
    by (auto split: option.splits intro: base [OF cat] cell [OF store] pricedWithin_mono [OF store])
qed

text \<open>
  C23: With prices up to 2 ^ 10 in the table and the store (the built-in ones are), a request of up to
  2 ^ 40 tokens of each kind and a rate up to 2 ^ 10 costs a number from 0 to 2 ^ 80 dollars in
  every part, whichever tier it uses: never a negative amount, an infinity or NaN.
\<close>

theorem token_cost_is_finite_and_not_negative:
  assumes "serviceWithin s ord" and "tokensWithin t" and "ranged 10 rate"
    and "CalculateCostWithServiceTier s ord m t rate tier = Some c"
  shows "costWithin c"
  using assms GetModelPricing_within [OF assms(1)]
  by (auto simp: CalculateCostWithServiceTier_def calculateCostInternal_def intro: breakdown_within split: option.splits)

definition builtinService :: BillingService where
  "builtinService = \<lparr>bs_pricingService = None, bs_fallbackPrices = initFallbackPricing, bs_defaultRateMultiplier = Fin 1\<rparr>"

lemma token_cost_is_finite_and_not_negative_witness:
  "\<exists>c. CalculateCostWithServiceTier builtinService (\<lambda>_. []) ''claude-3-opus'' (noTokens\<lparr>ut_InputTokens := 5, ut_OutputTokens := 7\<rparr>) (Fin 2) ''flex'' = Some c
     \<and> costWithin c"
proof -
  let ?t = "noTokens\<lparr>ut_InputTokens := 5, ut_OutputTokens := 7\<rparr>"
  have "getFallbackPricing (toLower ''claude-3-opus'') = Some ''claude-3-opus''"
    by (simp add: getFallbackPricing_def toLower_def lowerByte_def hasPrefix_def)
  then obtain c where c: "CalculateCostWithServiceTier builtinService (\<lambda>_. []) ''claude-3-opus'' ?t (Fin 2) ''flex'' = Some c"
    by (auto simp: CalculateCostWithServiceTier_def calculateCostInternal_def GetModelPricing_def locateModelPricing_def
        builtinService_def fallbackAlias_def initFallbackPricing_def policy_cell Let_def)
  have "serviceWithin builtinService (\<lambda>_. [])" using builtin_prices_within by (simp add: serviceWithin_def builtinService_def)
  then have "costWithin c"
    by (rule token_cost_is_finite_and_not_negative [OF _ _ _ c]) (simp_all add: tokensWithin_def noTokens_def ranged_Fin)
  with c show ?thesis by blast
qed

end
