(* ===== verification/PricingResolver.thy ===== *)
theory PricingResolver
  imports CostCalculation
begin

section \<open>Prices with channels\<close>

text \<open>
  service/model_pricing_resolver.go: the base price with the overrides of the group's channel,
  the unified cost (service/billing_service.go), the cost of images, and the choice between the
  ways in service/gateway_service.go.
\<close>

record ResolvedPricing =
  rp_Mode :: string
  rp_BasePricing :: "ModelPricing option"
  rp_Intervals :: "PricingInterval list"
  rp_RequestTiers :: "PricingInterval list"
  rp_DefaultPerRequestPrice :: f64
  rp_Source :: string
  rp_SupportsCacheBreakdown :: bool

type_synonym channelLookupFn = "int \<Rightarrow> string \<Rightarrow> ChannelModelPricing option"

definition resolveBasePricing :: "BillingService \<Rightarrow> rangeOrder \<Rightarrow> string \<Rightarrow> ModelPricing option \<times> string" where
  "resolveBasePricing s ord model =
     (case GetModelPricing s ord model of None \<Rightarrow> (None, ''fallback'') | Some p \<Rightarrow> (Some p, ''litellm''))"

definition hasPrice :: "PricingInterval \<Rightarrow> bool" where
  "hasPrice iv \<longleftrightarrow> iv_InputPrice iv \<noteq> None \<or> iv_OutputPrice iv \<noteq> None \<or> iv_CacheWritePrice iv \<noteq> None
     \<or> iv_CacheReadPrice iv \<noteq> None \<or> iv_PerRequestPrice iv \<noteq> None"

definition filterValidIntervals :: "PricingInterval list \<Rightarrow> PricingInterval list" where
  "filterValidIntervals intervals = filter hasPrice intervals"

definition cloneModelPricingOrNew :: "ModelPricing option \<Rightarrow> ModelPricing" where
  "cloneModelPricingOrNew p = (case p of None \<Rightarrow> zeroPricing | Some q \<Rightarrow> q)"

definition applyTokenOverrides :: "ChannelModelPricing \<Rightarrow> ResolvedPricing \<Rightarrow> ResolvedPricing" where
  "applyTokenOverrides cp r =
     (let base = cloneModelPricingOrNew (rp_BasePricing r); valid = filterValidIntervals (cp_Intervals cp) in
      if valid \<noteq> [] then r\<lparr>rp_Intervals := valid, rp_BasePricing := Some base\<rparr>
      else r\<lparr>rp_BasePricing := Some (channelOverride cp base)\<rparr>)"

definition applyRequestTierOverrides :: "ChannelModelPricing \<Rightarrow> ResolvedPricing \<Rightarrow> ResolvedPricing" where
  "applyRequestTierOverrides cp r =
     r\<lparr>rp_RequestTiers := filterValidIntervals (cp_Intervals cp),
       rp_DefaultPerRequestPrice := (case cp_PerRequestPrice cp of Some v \<Rightarrow> v | None \<Rightarrow> rp_DefaultPerRequestPrice r)\<rparr>"

definition applyChannelOverrides :: "ChannelModelPricing option \<Rightarrow> ResolvedPricing \<Rightarrow> ResolvedPricing" where
  "applyChannelOverrides chPricing r =
     (case chPricing of
        None \<Rightarrow> r
      | Some cp \<Rightarrow>
          (let mode = (if cp_BillingMode cp = [] then BillingModeToken else cp_BillingMode cp);
               r1 = r\<lparr>rp_Source := ''channel'', rp_Mode := mode\<rparr>
           in if mode = BillingModeToken then applyTokenOverrides cp r1
              else if mode = BillingModePerRequest \<or> mode = BillingModeImage then applyRequestTierOverrides cp r1
              else r1))"

definition Resolve :: "channelLookupFn option \<Rightarrow> BillingService \<Rightarrow> rangeOrder \<Rightarrow> string \<Rightarrow> int option \<Rightarrow> ResolvedPricing" where
  "Resolve chan s ord model gid =
     (case resolveBasePricing s ord model of (base, source) \<Rightarrow>
        let r = \<lparr>rp_Mode = BillingModeToken, rp_BasePricing = base, rp_Intervals = [], rp_RequestTiers = [],
                 rp_DefaultPerRequestPrice = Fin 0, rp_Source = source,
                 rp_SupportsCacheBreakdown = (case base of Some p \<Rightarrow> mp_SupportsCacheBreakdown p | None \<Rightarrow> False)\<rparr>
        in case (gid, chan) of (Some g, Some f) \<Rightarrow> applyChannelOverrides (f g model) r | _ \<Rightarrow> r)"

definition intervalToModelPricingWithBase :: "PricingInterval \<Rightarrow> bool \<Rightarrow> ModelPricing option \<Rightarrow> ModelPricing" where
  "intervalToModelPricingWithBase iv breakdown base =
     overridePrices (iv_InputPrice iv) (iv_OutputPrice iv) (iv_CacheWritePrice iv) (iv_CacheReadPrice iv)
       ((cloneModelPricingOrNew base)\<lparr>mp_SupportsCacheBreakdown := breakdown\<rparr>)"

definition GetIntervalPricing :: "ResolvedPricing \<Rightarrow> int \<Rightarrow> ModelPricing option" where
  "GetIntervalPricing r totalContext =
     (if rp_Intervals r = [] then rp_BasePricing r
      else (case FindMatchingInterval (rp_Intervals r) totalContext of
          None \<Rightarrow> rp_BasePricing r
        | Some iv \<Rightarrow> Some (intervalToModelPricingWithBase iv (rp_SupportsCacheBreakdown r) (rp_BasePricing r))))"

definition GetRequestTierPrice :: "ResolvedPricing \<Rightarrow> string \<Rightarrow> f64" where
  "GetRequestTierPrice r label =
     (case find (\<lambda>tier. iv_TierLabel tier = label \<and> iv_PerRequestPrice tier \<noteq> None) (rp_RequestTiers r) of
        Some tier \<Rightarrow> the (iv_PerRequestPrice tier) | None \<Rightarrow> Fin 0)"

definition GetRequestTierPriceByContext :: "ResolvedPricing \<Rightarrow> int \<Rightarrow> f64" where
  "GetRequestTierPriceByContext r totalContext =
     (case FindMatchingInterval (rp_RequestTiers r) totalContext of
        Some iv \<Rightarrow> (case iv_PerRequestPrice iv of Some v \<Rightarrow> v | None \<Rightarrow> Fin 0) | None \<Rightarrow> Fin 0)"

subsection \<open>The unified cost\<close>

record CostInput =
  ci_Model :: string
  ci_GroupID :: "int option"
  ci_Tokens :: UsageTokens
  ci_RequestCount :: int
  ci_SizeTier :: string
  ci_RateMultiplier :: f64
  ci_ServiceTier :: string

definition calculateTokenCost :: "ResolvedPricing \<Rightarrow> CostInput \<Rightarrow> CostBreakdown option" where
  "calculateTokenCost r i =
     (let t = ci_Tokens i in
      case GetIntervalPricing r (ut_InputTokens t + ut_CacheCreationTokens t + ut_CacheReadTokens t) of
        None \<Rightarrow> None
      | Some p \<Rightarrow> Some (computeTokenBreakdown (applyModelSpecificPricingPolicy (ci_Model i) p) t (ci_RateMultiplier i)
          (ci_ServiceTier i) (rp_Intervals r = [])))"

definition calculatePerRequestCost :: "ResolvedPricing \<Rightarrow> CostInput \<Rightarrow> CostBreakdown" where
  "calculatePerRequestCost r i =
     (let t = ci_Tokens i;
          requests = (if ci_RequestCount i \<le> 0 then 1 else ci_RequestCount i);
          u1 = (if ci_SizeTier i \<noteq> [] then GetRequestTierPrice r (ci_SizeTier i) else Fin 0);
          u2 = (if feq u1 (Fin 0) then GetRequestTierPriceByContext r (ut_InputTokens t + ut_CacheReadTokens t) else u1);
          unitPrice = (if feq u2 (Fin 0) then rp_DefaultPerRequestPrice r else u2);
          totalCost = fmul unitPrice (ofTokens requests)
      in noCost\<lparr>cb_TotalCost := totalCost, cb_ActualCost := fmul totalCost (ci_RateMultiplier i)\<rparr>)"

text \<open>With a resolver; \<open>pre\<close> is the pricing resolved before, if the caller has it.\<close>

definition CalculateCostUnified ::
  "channelLookupFn option \<Rightarrow> BillingService \<Rightarrow> rangeOrder \<Rightarrow> CostInput \<Rightarrow> ResolvedPricing option \<Rightarrow> CostBreakdown option" where
  "CalculateCostUnified chan s ord i0 pre =
     (let r = (case pre of Some x \<Rightarrow> x | None \<Rightarrow> Resolve chan s ord (ci_Model i0) (ci_GroupID i0));
          i = i0\<lparr>ci_RateMultiplier := effectiveRate (ci_RateMultiplier i0)\<rparr>;
          b = (if rp_Mode r = BillingModePerRequest \<or> rp_Mode r = BillingModeImage then Some (calculatePerRequestCost r i)
               else calculateTokenCost r i)
      in map_option (\<lambda>c. c\<lparr>cb_BillingMode := (if rp_Mode r = [] then BillingModeToken else rp_Mode r)\<rparr>) b)"

subsection \<open>Images\<close>

record ImagePriceConfig =
  ip_Price1K :: "f64 option"
  ip_Price2K :: "f64 option"
  ip_Price4K :: "f64 option"

definition getDefaultImagePrice :: "BillingService \<Rightarrow> rangeOrder \<Rightarrow> string \<Rightarrow> string \<Rightarrow> f64" where
  "getDefaultImagePrice s ord model imageSize =
     (let found = (case bs_pricingService s of None \<Rightarrow> Fin 0 | Some data \<Rightarrow>
            (case catalogPrice data ord model of
               Some l \<Rightarrow> if flt (Fin 0) (lp_OutputCostPerImage l) then lp_OutputCostPerImage l else Fin 0
             | None \<Rightarrow> Fin 0));
          base = (if fle found (Fin 0) then dec 134 3 else found)
      in if imageSize = ''2K'' then fmul base (dec 15 1) else if imageSize = ''4K'' then fmul base (Fin 2) else base)"

definition getImageUnitPrice :: "BillingService \<Rightarrow> rangeOrder \<Rightarrow> string \<Rightarrow> string \<Rightarrow> ImagePriceConfig option \<Rightarrow> f64" where
  "getImageUnitPrice s ord model imageSize cfg =
     (let configured = (case cfg of None \<Rightarrow> None | Some c \<Rightarrow>
         (if imageSize = ''1K'' then ip_Price1K c else if imageSize = ''2K'' then ip_Price2K c else if imageSize = ''4K'' then ip_Price4K c else None))
      in case configured of Some v \<Rightarrow> v | None \<Rightarrow> getDefaultImagePrice s ord model imageSize)"

definition CalculateImageCost :: "BillingService \<Rightarrow> rangeOrder \<Rightarrow> string \<Rightarrow> string \<Rightarrow> int \<Rightarrow> ImagePriceConfig option \<Rightarrow> f64 \<Rightarrow> CostBreakdown" where
  "CalculateImageCost s ord model imageSize imageCount cfg rate =
     (if imageCount \<le> 0 then noCost
      else let total = fmul (getImageUnitPrice s ord model imageSize cfg) (ofTokens imageCount) in
        noCost\<lparr>cb_TotalCost := total, cb_ActualCost := fmul total (effectiveRate rate), cb_BillingMode := BillingModeImage\<rparr>)"

subsection \<open>The gateway's choice\<close>

text \<open>The group of the API key, if it has one, with its image prices.\<close>

record pricedGroup =
  pg_ID :: int
  pg_ImagePrices :: ImagePriceConfig

record pricedResult =
  pf_Tokens :: UsageTokens
  pf_ImageCount :: int
  pf_ImageSize :: string

definition resolveChannelPricing ::
  "channelLookupFn option \<Rightarrow> BillingService \<Rightarrow> rangeOrder \<Rightarrow> string \<Rightarrow> pricedGroup option \<Rightarrow> ResolvedPricing option" where
  "resolveChannelPricing chan s ord billingModel g =
     (case g of None \<Rightarrow> None | Some grp \<Rightarrow>
        (let r = Resolve chan s ord billingModel (Some (pg_ID grp)) in if rp_Source r = ''channel'' then Some r else None))"

definition gatewayInput :: "string \<Rightarrow> pricedGroup option \<Rightarrow> UsageTokens \<Rightarrow> f64 \<Rightarrow> CostInput" where
  "gatewayInput billingModel g t rate =
     \<lparr>ci_Model = billingModel, ci_GroupID = map_option pg_ID g, ci_Tokens = t, ci_RequestCount = 1, ci_SizeTier = [],
      ci_RateMultiplier = rate, ci_ServiceTier = []\<rparr>"

definition orNoCost :: "CostBreakdown option \<Rightarrow> CostBreakdown" where
  "orNoCost c = (case c of Some b \<Rightarrow> b | None \<Rightarrow> noCost)"

definition gateway_calculateImageCost ::
  "channelLookupFn option \<Rightarrow> BillingService \<Rightarrow> rangeOrder \<Rightarrow> rangeOrder \<Rightarrow> pricedResult \<Rightarrow> pricedGroup option \<Rightarrow> string \<Rightarrow> f64 \<Rightarrow> CostBreakdown" where
  "gateway_calculateImageCost chan s ord ord' res g billingModel rate =
     (case resolveChannelPricing chan s ord billingModel g of
        Some r \<Rightarrow> orNoCost (CalculateCostUnified chan s ord' (gatewayInput billingModel g
            (noTokens\<lparr>ut_InputTokens := ut_InputTokens (pf_Tokens res), ut_OutputTokens := ut_OutputTokens (pf_Tokens res),
               ut_ImageOutputTokens := ut_ImageOutputTokens (pf_Tokens res)\<rparr>) rate) (Some r))
      | None \<Rightarrow> CalculateImageCost s ord' billingModel (pf_ImageSize res) (pf_ImageCount res) (map_option pg_ImagePrices g) rate)"

definition gateway_calculateTokenCost ::
  "channelLookupFn option \<Rightarrow> BillingService \<Rightarrow> (nat \<Rightarrow> rangeOrder) \<Rightarrow> pricedResult \<Rightarrow> pricedGroup option \<Rightarrow> string \<Rightarrow> f64 \<Rightarrow> int \<times> f64 \<Rightarrow> CostBreakdown" where
  "gateway_calculateTokenCost chan s ords res g billingModel rate opts =
     (case opts of (threshold, extra) \<Rightarrow> orNoCost
       (case resolveChannelPricing chan s (ords 0) billingModel g of
          Some r \<Rightarrow> CalculateCostUnified chan s (ords 1) (gatewayInput billingModel g (pf_Tokens res) rate) (Some r)
        | None \<Rightarrow>
            if 0 < threshold then CalculateCostWithLongContext s (ords 1) (ords 2) billingModel (pf_Tokens res) rate threshold extra
            else CalculateCost s (ords 1) billingModel (pf_Tokens res) rate))"

definition calculateRecordUsageCost ::
  "channelLookupFn option \<Rightarrow> BillingService \<Rightarrow> (nat \<Rightarrow> rangeOrder) \<Rightarrow> pricedResult \<Rightarrow> pricedGroup option \<Rightarrow> string \<Rightarrow> f64 \<Rightarrow> int \<times> f64 \<Rightarrow> CostBreakdown" where
  "calculateRecordUsageCost chan s ords res g billingModel rate opts =
     (if 0 < pf_ImageCount res then gateway_calculateImageCost chan s (ords 0) (ords 1) res g billingModel rate
      else gateway_calculateTokenCost chan s ords res g billingModel rate opts)"

end
