(* ===== verification/AsciiCase.thy ===== *)
theory AsciiCase
  imports ModelNames
begin

section \<open>Lower case and the other string functions\<close>

text \<open>
  Lower-casing keeps every byte that is not an ASCII letter, so it commutes with cutting a string
  at such bytes: spaces, dashes, slashes and stars.
\<close>

definition letter :: "char \<Rightarrow> bool" where
  "letter c \<longleftrightarrow> (let n = of_char c :: nat in 65 \<le> n \<and> n \<le> 90 \<or> 97 \<le> n \<and> n \<le> 122)"

lemma of_char_lowerByte: "(of_char (lowerByte c) :: nat) = (let n = of_char c in if 65 \<le> n \<and> n \<le> 90 then n + 32 else n)"
  by (simp add: lowerByte_def Let_def)

lemma char_eq_nat: "c = d \<longleftrightarrow> (of_char c :: nat) = of_char d"
  by simp

lemma lowerByte_eq: "\<not> letter d \<Longrightarrow> lowerByte c = d \<longleftrightarrow> c = d"
  unfolding char_eq_nat [of "lowerByte c"] char_eq_nat [of c] of_char_lowerByte letter_def Let_def by auto

lemma lowerByte_fix: "\<not> letter d \<Longrightarrow> lowerByte d = d"
  using lowerByte_eq by blast

lemma lowerByte_idem [simp]: "lowerByte (lowerByte c) = lowerByte c"
  unfolding char_eq_nat [of "lowerByte (lowerByte c)"] of_char_lowerByte Let_def by simp

lemma toLower_idem [simp]: "toLower (toLower s) = toLower s"
  by (simp add: toLower_def)

lemma toLower_append: "toLower (s @ t) = toLower s @ toLower t"
  by (simp add: toLower_def)

lemma length_toLower [simp]: "length (toLower s) = length s"
  by (simp add: toLower_def)

lemma toLower_take: "toLower (take n s) = take n (toLower s)"
  by (simp add: toLower_def take_map)

lemma toLower_drop: "toLower (drop n s) = drop n (toLower s)"
  by (simp add: toLower_def drop_map)

lemma toLower_is_Nil [simp]: "toLower s = [] \<longleftrightarrow> s = []"
  by (simp add: toLower_def)

definition caseless :: "string \<Rightarrow> bool" where
  "caseless p \<longleftrightarrow> list_all (\<lambda>c. \<not> letter c) p"

lemma toLower_eq_caseless: "caseless p \<Longrightarrow> toLower s = p \<longleftrightarrow> s = p"
proof (induction s arbitrary: p)
  case (Cons c s)
  then show ?case by (cases p) (auto simp: toLower_def caseless_def lowerByte_eq)
qed (auto simp: toLower_def)

lemma hasPrefix_toLower: "caseless p \<Longrightarrow> hasPrefix (toLower s) p \<longleftrightarrow> hasPrefix s p"
  unfolding hasPrefix_def toLower_take [symmetric] by (rule toLower_eq_caseless)

lemma hasSuffix_toLower: "caseless p \<Longrightarrow> hasSuffix (toLower s) p \<longleftrightarrow> hasSuffix s p"
  unfolding hasSuffix_def length_toLower toLower_drop [symmetric] by (simp add: toLower_eq_caseless)

lemma trimSuffix_toLower: "caseless p \<Longrightarrow> trimSuffix (toLower s) p = toLower (trimSuffix s p)"
  by (simp add: trimSuffix_def hasSuffix_toLower toLower_take)

lemma caseless_star: "caseless ''*''"
  by (simp add: caseless_def letter_def)

lemma caseless_spaces: "list_all caseless spaces"
  by (simp add: spaces_def caseless_def letter_def)

lemma find_cong_on: "(\<And>x. x \<in> set xs \<Longrightarrow> P x = Q x) \<Longrightarrow> find P xs = find Q xs"
  by (induction xs) auto

lemma find_space_toLower:
  "find (hasPrefix (toLower s)) spaces = find (hasPrefix s) spaces"
  "find (hasSuffix (toLower s)) spaces = find (hasSuffix s) spaces"
  using caseless_spaces by (auto intro!: find_cong_on simp: list_all_iff hasPrefix_toLower hasSuffix_toLower)

lemma trimLeftSpace_toLower: "trimLeftSpace (toLower s) = toLower (trimLeftSpace s)"
proof (induction s rule: trimLeftSpace.induct)
  case (1 s)
  show ?case
  proof (cases "find (hasPrefix s) spaces")
    case None
    then show ?thesis by (simp add: trimLeftSpace.simps [of s] trimLeftSpace.simps [of "toLower s"] find_space_toLower)
  next
    case (Some p)
    then show ?thesis
      using 1 [OF Some] by (simp add: trimLeftSpace.simps [of s] trimLeftSpace.simps [of "toLower s"] find_space_toLower toLower_drop)
  qed
qed

lemma trimRightSpace_toLower: "trimRightSpace (toLower s) = toLower (trimRightSpace s)"
proof (induction s rule: trimRightSpace.induct)
  case (1 s)
  show ?case
  proof (cases "find (hasSuffix s) spaces")
    case None
    then show ?thesis by (simp add: trimRightSpace.simps [of s] trimRightSpace.simps [of "toLower s"] find_space_toLower)
  next
    case (Some p)
    then show ?thesis
      using 1 [OF Some] by (simp add: trimRightSpace.simps [of s] trimRightSpace.simps [of "toLower s"] find_space_toLower toLower_take)
  qed
qed

lemma trimSpace_toLower: "trimSpace (toLower s) = toLower (trimSpace s)"
  by (simp add: trimSpace_def trimLeftSpace_toLower trimRightSpace_toLower)

lemma containsStr_toLower: "caseless p \<Longrightarrow> containsStr (toLower s) p \<longleftrightarrow> containsStr s p"
proof (induction s)
  case (Cons c s)
  then show ?case using hasPrefix_toLower [of p "c # s"] by (simp add: toLower_def)
qed (simp add: toLower_def)

lemma splitOn_toLower: "\<not> letter d \<Longrightarrow> splitOn d (toLower s) = map toLower (splitOn d s)"
proof (induction s)
  case (Cons c s)
  then show ?case by (cases "splitOn d s") (auto simp: toLower_def lowerByte_eq lowerByte_fix)
qed (simp add: toLower_def)

lemma splitOn_not_Nil [simp]: "splitOn d s \<noteq> []"
  by (induction s) (auto split: list.splits)

text \<open>The GPT-5.6 names are found without regard to case.\<close>

lemma normalizeGPT56ModelID_toLower: "normalizeGPT56ModelID (toLower m) = normalizeGPT56ModelID m"
proof -
  have "\<not> letter (CHR ''/'')" and "caseless ''/''" by (simp_all add: letter_def caseless_def)
  then show ?thesis
    unfolding normalizeGPT56ModelID_def Let_def trimSpace_toLower
    by (simp add: containsStr_toLower splitOn_toLower last_map)
qed

lemma isGPT56KnownModel_toLower: "isGPT56KnownModel (toLower m) \<longleftrightarrow> isGPT56KnownModel m"
  by (simp add: isGPT56KnownModel_def normalizeGPT56ModelAlias_def normalizeGPT56ModelID_toLower)

end
