(* ===== verification/CostFacts.thy ===== *)
theory CostFacts
  imports PricingResolver AsciiCase
begin

section \<open>Facts about costs\<close>

text \<open>
  The two ways to a cost agree where both apply; the long-context split loses no token; what the
  cost of images with a channel depends on.
\<close>

subsection \<open>The policy\<close>

lemma isOpenAIGPT54Model_toLower: "isOpenAIGPT54Model (toLower m) \<longleftrightarrow> isOpenAIGPT54Model m"
  by (simp add: isOpenAIGPT54Model_def)

lemma pricingPolicy_toLower: "pricingPolicy (toLower m) p = pricingPolicy m p"
  by (simp add: pricingPolicy_def isGPT56KnownModel_toLower isOpenAIGPT54Model_toLower)

lemma defaultLongContext_idem: "defaultLongContext (defaultLongContext p) = defaultLongContext p"
  by (simp add: defaultLongContext_def)

lemma defaultCacheWrite_sel:
  "defaultCacheWrite p = (let n = notPositive (mp_CacheCreationPricePerToken p) \<and> \<not> mp_CacheCreationPriceExplicit p;
     cc = fmul (mp_InputPricePerToken p) (dec 125 2) in
     p\<lparr>mp_CacheCreationPricePerToken := (if n then cc else mp_CacheCreationPricePerToken p),
       mp_CacheCreation5mPrice := (if n \<and> notPositive (mp_CacheCreation5mPrice p) then cc else mp_CacheCreation5mPrice p)\<rparr>)"
  by (simp add: defaultCacheWrite_def Let_def)
lemma defaultCacheWritePriority_sel:
  "defaultCacheWritePriority p = p\<lparr>mp_CacheCreationPricePerTokenPriority := (if notPositive (mp_CacheCreationPricePerTokenPriority p) \<and> flt (Fin 0) (mp_InputPricePerTokenPriority p)
         \<and> \<not> mp_CacheCreationPriceExplicit p then fmul (mp_InputPricePerTokenPriority p) (dec 125 2) else mp_CacheCreationPricePerTokenPriority p)\<rparr>"
  by (simp add: defaultCacheWritePriority_def)
lemma defaultCacheWrite_again:
  "defaultCacheWrite (defaultLongContext (defaultCacheWritePriority (defaultCacheWrite p))) = defaultLongContext (defaultCacheWritePriority (defaultCacheWrite p))"
  unfolding defaultCacheWrite_sel defaultLongContext_def defaultCacheWritePriority_sel Let_def
  by simp

lemma defaultCacheWritePriority_again:
  "defaultCacheWritePriority (defaultLongContext (defaultCacheWritePriority p)) = defaultLongContext (defaultCacheWritePriority p)"
  by (simp add: defaultLongContext_def defaultCacheWritePriority_def)

lemma policy_idem: "applyModelSpecificPricingPolicy m (applyModelSpecificPricingPolicy m p) = applyModelSpecificPricingPolicy m p"
proof (cases "isGPT56KnownModel m")
  case True
  then show ?thesis
    by (simp add: applyModelSpecificPricingPolicy_def pricingPolicy_def defaultCacheWrite_again defaultCacheWritePriority_again defaultLongContext_idem)
next
  case False
  then show ?thesis
    by (simp add: applyModelSpecificPricingPolicy_def pricingPolicy_def defaultLongContext_idem)
qed

lemma policy_toLower: "applyModelSpecificPricingPolicy (toLower m) p = applyModelSpecificPricingPolicy m p"
  by (simp add: applyModelSpecificPricingPolicy_def pricingPolicy_toLower)

text \<open>A price that was looked up has had the policy applied.\<close>

lemma GetModelPricing_policy:
  assumes "GetModelPricing s ord m = Some p"
  shows "applyModelSpecificPricingPolicy m p = p"
proof -
  have "\<exists>q. p = applyModelSpecificPricingPolicy (toLower m) q"
  proof (cases "case bs_pricingService s of None \<Rightarrow> None | Some data \<Rightarrow> catalogPrice data ord (toLower m)")
    case (Some l)
    then show ?thesis using assms by (auto simp: GetModelPricing_def locateModelPricing_def Let_def)
  next
    case None
    then obtain name where n: "getFallbackPricing (toLower m) = Some name"
      using assms by (cases "getFallbackPricing (toLower m)") (simp_all add: GetModelPricing_def locateModelPricing_def Let_def)
    then obtain q where "map_of (bs_fallbackPrices s) (fallbackAlias name) = Some q"
      using assms None by (cases "map_of (bs_fallbackPrices s) (fallbackAlias name)") (simp_all add: GetModelPricing_def locateModelPricing_def Let_def)
    then have "Some p = Some (applyModelSpecificPricingPolicy (toLower m) q)"
      using assms None n by (simp add: GetModelPricing_def locateModelPricing_def policy_cell Let_def)
    then show ?thesis by blast
  qed
  then show ?thesis by (metis policy_idem policy_toLower)
qed

subsection \<open>Without a channel the unified cost is the old cost\<close>

definition noChannelPrice :: "channelLookupFn option \<Rightarrow> int option \<Rightarrow> string \<Rightarrow> bool" where
  "noChannelPrice chan gid model \<longleftrightarrow> (case (gid, chan) of (Some g, Some f) \<Rightarrow> f g model = None | _ \<Rightarrow> True)"

lemma effectiveRate_idem [simp]: "effectiveRate (effectiveRate r) = effectiveRate r"
  by (simp add: effectiveRate_def)

lemma breakdown_effectiveRate: "computeTokenBreakdown p t (effectiveRate r) tier b = computeTokenBreakdown p t r tier b"
  by (simp only: computeTokenBreakdown_def effectiveRate_idem)

lemma Resolve_base:
  "noChannelPrice chan gid model \<Longrightarrow> rp_Mode (Resolve chan s ord model gid) = BillingModeToken
     \<and> rp_Intervals (Resolve chan s ord model gid) = [] \<and> rp_BasePricing (Resolve chan s ord model gid) = GetModelPricing s ord model"
  by (auto simp: Resolve_def resolveBasePricing_def noChannelPrice_def applyChannelOverrides_def Let_def split: option.splits)

text \<open>
  C30: A request whose group has no channel price costs the same through the resolver as without it,
  whatever its tokens, rate and service tier; only the mode is filled in.
\<close>

theorem unified_cost_without_channel:
  assumes "noChannelPrice chan (ci_GroupID i) (ci_Model i)"
  shows "CalculateCostUnified chan s ord i None =
    map_option (\<lambda>c. c\<lparr>cb_BillingMode := BillingModeToken\<rparr>)
      (CalculateCostWithServiceTier s ord (ci_Model i) (ci_Tokens i) (ci_RateMultiplier i) (ci_ServiceTier i))"
proof -
  note r = Resolve_base [OF assms, of s ord]
  show ?thesis
    using GetModelPricing_policy [of s ord "ci_Model i"] r
    by (cases "GetModelPricing s ord (ci_Model i)")
      (simp_all add: CalculateCostUnified_def CalculateCostWithServiceTier_def calculateCostInternal_def calculateTokenCost_def
        GetIntervalPricing_def breakdown_effectiveRate Let_def)
qed

definition someInput :: CostInput where
  "someInput = \<lparr>ci_Model = ''claude-3-opus'', ci_GroupID = Some 3, ci_Tokens = noTokens\<lparr>ut_InputTokens := 5\<rparr>, ci_RequestCount = 1,
     ci_SizeTier = [], ci_RateMultiplier = Fin 2, ci_ServiceTier = ''flex''\<rparr>"

lemma unified_cost_without_channel_witness:
  "CalculateCostUnified (Some (\<lambda>_ _. None)) \<lparr>bs_pricingService = None, bs_fallbackPrices = initFallbackPricing, bs_defaultRateMultiplier = Fin 1\<rparr>
      (\<lambda>_. []) someInput None
    = map_option (\<lambda>c. c\<lparr>cb_BillingMode := BillingModeToken\<rparr>)
        (CalculateCostWithServiceTier \<lparr>bs_pricingService = None, bs_fallbackPrices = initFallbackPricing, bs_defaultRateMultiplier = Fin 1\<rparr>
          (\<lambda>_. []) ''claude-3-opus'' (noTokens\<lparr>ut_InputTokens := 5\<rparr>) (Fin 2) ''flex'')"
  using unified_cost_without_channel [of "Some (\<lambda>_ _. None)" someInput] by (simp add: noChannelPrice_def someInput_def)

subsection \<open>The long-context split\<close>

definition inputSide :: "UsageTokens \<Rightarrow> int" where
  "inputSide t = ut_InputTokens t + ut_CacheReadTokens t"

text \<open>
  Beyond the threshold the two parts have all input and cached tokens of the request between
  them, the first exactly as many as the threshold, none negative; the other counts are in the
  first part alone.
\<close>

theorem long_context_split_conserves_tokens:
  assumes "splitLongContext t threshold = (a, b)"
    and "0 < threshold" and "threshold < inputSide t" and "0 \<le> ut_InputTokens t" and "0 \<le> ut_CacheReadTokens t"
  shows "ut_InputTokens a + ut_InputTokens b = ut_InputTokens t
    \<and> ut_CacheReadTokens a + ut_CacheReadTokens b = ut_CacheReadTokens t
    \<and> inputSide a = threshold
    \<and> 0 \<le> ut_InputTokens a \<and> 0 \<le> ut_InputTokens b \<and> 0 \<le> ut_CacheReadTokens a \<and> 0 \<le> ut_CacheReadTokens b
    \<and> a\<lparr>ut_InputTokens := ut_InputTokens t, ut_CacheReadTokens := ut_CacheReadTokens t\<rparr> = t
    \<and> b\<lparr>ut_InputTokens := 0, ut_CacheReadTokens := 0\<rparr> = noTokens"
  using assms by (auto simp: splitLongContext_def inputSide_def noTokens_def split: if_splits)

lemma long_context_split_conserves_tokens_witness:
  "\<exists>a b. splitLongContext (noTokens\<lparr>ut_InputTokens := 10000, ut_CacheReadTokens := 210000\<rparr>) 200000 = (a, b)
     \<and> inputSide a = 200000 \<and> ut_CacheReadTokens a + ut_CacheReadTokens b = 210000"
proof -
  let ?t = "noTokens\<lparr>ut_InputTokens := 10000, ut_CacheReadTokens := 210000\<rparr>"
  obtain a b where ab: "splitLongContext ?t 200000 = (a, b)" by fastforce
  show ?thesis using ab long_context_split_conserves_tokens [OF ab] by (auto simp: inputSide_def noTokens_def)
qed

text \<open>A rate that is not positive counts as 1 in each part, so the part beyond the threshold loses its multiplier.\<close>

lemma nonpositive_rate_loses_multiplier:
  "CalculateCost s ord m t (fmul (Fin 0) (Fin k)) = CalculateCost s ord m t (Fin 1)"
proof -
  have "computeTokenBreakdown p t (Fin 0) [] True = computeTokenBreakdown p t (Fin 1) [] True" for p
    using breakdown_effectiveRate [of p t "Fin 0" "[]" True] by (simp add: effectiveRate_def)
  then show ?thesis by (simp add: CalculateCost_def calculateCostInternal_def split: option.splits)
qed

subsection \<open>Images of a channel\<close>

text \<open>
  With a channel price the cost of an image request does not depend on the size of the images or
  on how many there are: the size tiers of the channel are never looked at on this way.
\<close>

lemma channel_image_cost_ignores_size_and_number:
  assumes "resolveChannelPricing chan s ord billingModel g = Some r"
  shows "gateway_calculateImageCost chan s ord ord' (res\<lparr>pf_ImageSize := sz, pf_ImageCount := n\<rparr>) g billingModel rate
    = gateway_calculateImageCost chan s ord ord' res g billingModel rate"
  using assms by (simp add: gateway_calculateImageCost_def)

end
