(* ===== verification/CatalogFacts.thy ===== *)
theory CatalogFacts
  imports PricingCatalog
begin

section \<open>What the price table answers\<close>

text \<open>
  A name that is in the table, in one of the spellings tried, has one price; the fuzzy steps
  after that take the first entry a Go map range meets, which is not determined.  The Codex names
  are always one of a fixed list.
\<close>

theorem exact_price_is_order_independent:
  "case exactPrice data (buildModelLookupCandidates (toLower (trimSpace m))) of
     Some l \<Rightarrow> catalogPrice data ord m = (if m = [] then None else Some l)
   | None \<Rightarrow> True"
  by (simp add: catalogPrice_def orElse_def Let_def split: option.splits)

definition tableTwo :: priceTable where
  "tableTwo = [(''us.anthropic.claude-opus-4-5-v1'', zeroLiteLLM\<lparr>lp_InputCostPerToken := Fin 3\<rparr>),
               (''vertex_ai/claude-opus-4-5'', zeroLiteLLM\<lparr>lp_InputCostPerToken := Fin 2\<rparr>)]"

lemma name_low: "toLower (trimSpace ''claude-opus-4-5-preview'') = ''claude-opus-4-5-preview''"
  by (simp add: trimSpace_printable printable_def toLower_def lowerByte_def)

lemma name_norm: "normalizeModelNameForPricing ''claude-opus-4-5-preview'' = ''claude-opus-4-5-preview''"
  by (simp add: normalizeModelNameForPricing_def trimSpace_printable printable_def trimLeftByte_def trimPrefix_def hasPrefix_def cutAfterLast_def Let_def)

lemma squeezeDashes_id: "\<not> containsStr s ''--'' \<Longrightarrow> squeezeDashes s = s"
  by (subst squeezeDashes.simps) simp

lemma name_56: "normalizeGPT56ModelAlias ''claude-opus-4-5-preview'' = None"
  by (simp add: normalizeGPT56ModelAlias_def normalizeGPT56ModelID_def trimSpace_printable printable_def toLower_def lowerByte_def
     squeezeDashes_id hasPrefix_def trimByte_def Let_def)

lemma name_cands: "buildModelLookupCandidates ''claude-opus-4-5-preview'' = [''claude-opus-4-5-preview'']"
  by (simp add: buildModelLookupCandidates_def name_norm name_56 lastSegment_def trimPrefix_def hasPrefix_def trimSpace_printable printable_def Let_def)

lemma name_exact: "exactPrice tableTwo [''claude-opus-4-5-preview''] = None"
  by (simp add: exactPrice_def tableTwo_def replaceAll.simps hasPrefix_def orElse_def)

lemma name_base: "find (\<lambda>(key, p). extractBaseName (toLower key) = extractBaseName ''claude-opus-4-5-preview'') tableTwo = None"
  "find (\<lambda>(key, p). extractBaseName (toLower key) = extractBaseName ''claude-opus-4-5-preview'') (rev tableTwo) = None"
  by (simp_all add: tableTwo_def extractBaseName_def toLower_def lowerByte_def isNumeric_def isDigit_def digitVal_def hasPrefix_def)

lemma name_family: "familyOf ''claude-opus-4-5-preview'' = Some \<lparr>mf_name = ''opus-4.5'', mf_match = [''claude-opus-4-5'', ''claude-opus-4.5''], mf_pricing = None\<rparr>"
  by (simp add: familyOf_def modelFamilies_def hasPrefix_def replaceAll.simps)

text \<open>
  Two orders of one table, two prices of one model: the family was found in a fixed order, its
  price in the table was not.
\<close>

theorem fuzzy_price_depends_on_map_order:
  "map_option lp_InputCostPerToken (catalogPrice tableTwo (\<lambda>_. tableTwo) ''claude-opus-4-5-preview'') = Some (Fin 3)
   \<and> map_option lp_InputCostPerToken (catalogPrice tableTwo (\<lambda>_. rev tableTwo) ''claude-opus-4-5-preview'') = Some (Fin 2)
   \<and> mset (rev tableTwo) = mset tableTwo"
  by (simp add: catalogPrice_def name_low name_cands name_exact name_base orElse_def matchByModelFamily_def name_family)
    (simp add: tableTwo_def toLower_def lowerByte_def hasPrefix_def)
definition codexNames :: "string list" where
  "codexNames = [''gpt-5.6-sol'', ''gpt-5.6-terra'', ''gpt-5.6-luna'', ''gpt-5.5'', ''gpt-5.4'', ''gpt-5.4-mini'', ''gpt-5.4-nano'',
     ''gpt-5.3-codex'', ''gpt-5.2'', ''gpt-5.2-codex'', ''gpt-5.1'', ''gpt-5.1-codex'', ''gpt-5.1-codex-max'', ''gpt-5.1-codex-mini'',
     ''codex-mini-latest'']"

lemma gpt56Variants_names: "gpt56Variants vs suffix = Some (Some n) \<Longrightarrow> \<exists>v\<in>set vs. n = ''gpt-5.6-'' @ v"
  by (induction vs suffix rule: gpt56Variants.induct) (auto simp: Let_def split: if_splits)

lemma normalizeGPT56ModelAlias_names:
  assumes "normalizeGPT56ModelAlias m = Some n"
  shows "n \<in> {''gpt-5.6-sol'', ''gpt-5.6-terra'', ''gpt-5.6-luna''}"
proof -
  have "n = ''gpt-5.6-sol'' \<or> (\<exists>s. gpt56Variants [''sol'', ''terra'', ''luna''] s = Some (Some n))"
    using assms unfolding normalizeGPT56ModelAlias_def Let_def by (auto simp del: gpt56Variants.simps split: if_splits option.splits)
  then show ?thesis using gpt56Variants_names by fastforce
qed

lemma codexModelMap_names: "list_all (\<lambda>(k, v). v \<in> set codexNames) codexModelMap"
  by (simp add: codexModelMap_def codexNames_def)

lemma codexPatterns_names: "list_all (\<lambda>(ps, r). r \<in> set codexNames) codexPatterns"
  by (simp add: codexPatterns_def codexNames_def)

lemma getNormalizedCodexModel_names: "getNormalizedCodexModel m \<noteq> [] \<Longrightarrow> getNormalizedCodexModel m \<in> set codexNames"
proof -
  assume "getNormalizedCodexModel m \<noteq> []"
  then obtain k v where "(k, v) \<in> set codexModelMap" "getNormalizedCodexModel m = v"
    unfolding getNormalizedCodexModel_def by (auto split: if_splits option.splits dest: map_of_SomeD find_mem)
  then show ?thesis using codexModelMap_names by (auto simp: list_all_iff)
qed


end
