(* ===== verification/ChannelStore.thy ===== *)
theory ChannelStore
  imports ChannelCache
begin

section \<open>The tables of the channels\<close>

text \<open>
  repository/channel_repo.go, channel_repo_pricing.go and channel_repo_account_stats_pricing.go.
  A row of \<open>cs_channels\<close> is a row of the table channels together with the rows of its child tables
  (groups, price entries with their intervals, rules of the account statistics), which are only
  ever reached through it and go with it (ON DELETE CASCADE); its lists hold the children in the order of
  their ids, and a read puts them into the order the queries ask for.  \<open>cs_groups\<close> is the table of
  groups with their platforms, \<open>cs_seq\<close> the sequences the ids come from, which a rollback keeps.
  What the columns do to a value they store (rounding to their decimals, refusing what does not
  fit) is the parameter \<open>chancols\<close>.
\<close>

abbreviation PlatformAnthropic :: string where "PlatformAnthropic \<equiv> ''anthropic''"

definition ErrChannelNotFound :: err where "ErrChannelNotFound = AppErr ''CHANNEL_NOT_FOUND''"
definition ErrChannelExists :: err where "ErrChannelExists = AppErr ''CHANNEL_EXISTS''"
definition ErrGroupAlreadyInChannel :: err where "ErrGroupAlreadyInChannel = AppErr ''GROUP_ALREADY_IN_CHANNEL''"

record chanstate = env +
  cs_channels :: "Channel list"
  cs_groups :: "int \<rightharpoonup> string"
  cs_seq :: "string \<Rightarrow> int"
  cs_cache :: "channelCache option"
  cs_authInvalidated :: "int list"

record chancols =
  cl_price :: "f64 \<Rightarrow> f64"
  cl_request :: "f64 \<Rightarrow> f64"
  cl_image :: "f64 \<Rightarrow> f64"
  cl_stats :: "f64 \<Rightarrow> f64"
  cl_channelFits :: "Channel \<Rightarrow> bool"
  cl_pricingFits :: "ChannelModelPricing \<Rightarrow> bool"
  cl_intervalFits :: "PricingInterval \<Rightarrow> bool"
  cl_ruleFits :: "AccountStatsPricingRule \<Rightarrow> bool"

definition undoChannels :: "'a chanstate_scheme \<Rightarrow> 'a chanstate_scheme \<Rightarrow> 'a chanstate_scheme" where
  "undoChannels s s' = s'\<lparr>cs_channels := cs_channels s, cs_groups := cs_groups s\<rparr>"

definition misfit :: err where "misfit = Internal ''value does not fit its column''"

definition nextval :: "string \<Rightarrow> ('a chanstate_scheme, int) proc" where
  "nextval table = (\<lambda>s. (Inr (cs_seq s table), s\<lparr>cs_seq := (cs_seq s)(table := cs_seq s table + 1)\<rparr>))"

definition updChannel :: "int \<Rightarrow> (Channel \<Rightarrow> Channel) \<Rightarrow> ('a chanstate_scheme, unit) proc" where
  "updChannel i f = modP (\<lambda>s. s\<lparr>cs_channels := updRows (\<lambda>x. ch_ID x = i) f (cs_channels s)\<rparr>)"

subsection \<open>Reading\<close>

definition intervalBefore :: "PricingInterval \<Rightarrow> PricingInterval \<Rightarrow> bool" where
  "intervalBefore a b \<longleftrightarrow> iv_SortOrder a < iv_SortOrder b \<or> (iv_SortOrder a = iv_SortOrder b \<and> iv_ID a \<le> iv_ID b)"

definition ruleBefore :: "AccountStatsPricingRule \<Rightarrow> AccountStatsPricingRule \<Rightarrow> bool" where
  "ruleBefore a b \<longleftrightarrow> ar_SortOrder a < ar_SortOrder b \<or> (ar_SortOrder a = ar_SortOrder b \<and> ar_ID a \<le> ar_ID b)"

definition readIntervals :: "ChannelModelPricing \<Rightarrow> ChannelModelPricing" where
  "readIntervals p = p\<lparr>cp_Intervals := sortBy intervalBefore (cp_Intervals p)\<rparr>"

definition scanModelPricing :: "ChannelModelPricing \<Rightarrow> ChannelModelPricing" where
  "scanModelPricing p = readIntervals (p\<lparr>cp_Capabilities := NormalizeModelCapabilities (cp_Capabilities p)\<rparr>)"

definition readRule :: "AccountStatsPricingRule \<Rightarrow> AccountStatsPricingRule" where
  "readRule r = r\<lparr>ar_Pricing := map readIntervals (ar_Pricing r)\<rparr>"

definition readChannel :: "Channel \<Rightarrow> Channel" where
  "readChannel r = r\<lparr>ch_GroupIDs := sortBy (\<le>) (ch_GroupIDs r), ch_ModelPricing := map scanModelPricing (ch_ModelPricing r),
     ch_AccountStatsPricingRules := map readRule (sortBy ruleBefore (ch_AccountStatsPricingRules r))\<rparr>"

text \<open>A query that is only made when there is something to ask for.\<close>

definition touch :: "string \<Rightarrow> bool \<Rightarrow> ('a chanstate_scheme, unit) proc" where
  "touch tag asked = (if asked then db tag (ret ()) else ret ())"

definition batchLoadModelPricing :: "Channel list \<Rightarrow> ('a chanstate_scheme, unit) proc" where
  "batchLoadModelPricing rows =
     bindP (db ''batch load model pricing'' (ret ())) (\<lambda>_.
     touch ''batch load intervals'' (list_ex (\<lambda>r. ch_ModelPricing r \<noteq> []) rows))"

definition batchLoadAccountStatsPricingRules :: "Channel list \<Rightarrow> ('a chanstate_scheme, unit) proc" where
  "batchLoadAccountStatsPricingRules rows =
     bindP (db ''batch load account stats pricing rules'' (ret ())) (\<lambda>_.
     bindP (touch ''batch load account stats model pricing'' (list_ex (\<lambda>r. ch_AccountStatsPricingRules r \<noteq> []) rows)) (\<lambda>_.
     touch ''batch load account stats pricing intervals''
       (list_ex (\<lambda>r. list_ex (\<lambda>x. ar_Pricing x \<noteq> []) (ch_AccountStatsPricingRules r)) rows)))"

definition loadChildren :: "Channel list \<Rightarrow> ('a chanstate_scheme, Channel list) proc" where
  "loadChildren rows =
     bindP (db ''batch load group ids'' (ret ())) (\<lambda>_.
     bindP (batchLoadModelPricing rows) (\<lambda>_.
     bindP (batchLoadAccountStatsPricingRules rows) (\<lambda>_.
     ret (map readChannel rows))))"

definition ChannelRepo_GetByID :: "int \<Rightarrow> ('a chanstate_scheme, Channel) proc" where
  "ChannelRepo_GetByID i =
     bindP (db ''get channel'' (\<lambda>s. (case find (\<lambda>x. ch_ID x = i) (cs_channels s) of None \<Rightarrow> Inl ErrChannelNotFound | Some r \<Rightarrow> Inr r, s))) (\<lambda>r.
     bindP (loadChildren [r]) (\<lambda>rs. ret (hd rs)))"

definition ListAll :: "('a chanstate_scheme, Channel list) proc" where
  "ListAll = bindP (db ''query all channels'' (getP cs_channels)) (\<lambda>rows. if rows = [] then ret [] else loadChildren rows)"

definition GetGroupIDs :: "int \<Rightarrow> ('a chanstate_scheme, int list) proc" where
  "GetGroupIDs i = db ''get group ids'' (getP (\<lambda>s. case find (\<lambda>x. ch_ID x = i) (cs_channels s) of
     Some r \<Rightarrow> sortBy (\<le>) (ch_GroupIDs r) | None \<Rightarrow> []))"

definition GetChannelIDByGroupID :: "int \<Rightarrow> ('a chanstate_scheme, int) proc" where
  "GetChannelIDByGroupID gid = db ''get channel of group'' (getP (\<lambda>s. case find (\<lambda>x. gid \<in> set (ch_GroupIDs x)) (cs_channels s) of
     Some r \<Rightarrow> ch_ID r | None \<Rightarrow> 0))"

definition GetGroupsInOtherChannels :: "int \<Rightarrow> int list \<Rightarrow> ('a chanstate_scheme, int list) proc" where
  "GetGroupsInOtherChannels i gids =
     (if gids = [] then ret []
      else db ''get groups in other channels'' (getP (\<lambda>s.
        concat (map (\<lambda>x. if ch_ID x = i then [] else filter (\<lambda>g. g \<in> set gids) (ch_GroupIDs x)) (cs_channels s)))))"

definition GetGroupPlatforms :: "int list \<Rightarrow> ('a chanstate_scheme, int \<rightharpoonup> string) proc" where
  "GetGroupPlatforms gids =
     (if gids = [] then ret Map.empty
      else db ''get group platforms'' (getP (\<lambda>s. \<lambda>g. if g \<in> set gids then cs_groups s g else None)))"

definition ExistsByName :: "string \<Rightarrow> ('a chanstate_scheme, bool) proc" where
  "ExistsByName name = db ''exists by name'' (getP (\<lambda>s. list_ex (\<lambda>x. ch_Name x = name) (cs_channels s)))"

definition ExistsByNameExcluding :: "string \<Rightarrow> int \<Rightarrow> ('a chanstate_scheme, bool) proc" where
  "ExistsByNameExcluding name i =
     db ''exists by name'' (getP (\<lambda>s. list_ex (\<lambda>x. ch_Name x = name \<and> ch_ID x \<noteq> i) (cs_channels s)))"

subsection \<open>Writing\<close>

definition storedInterval :: "chancols \<Rightarrow> int \<Rightarrow> int \<Rightarrow> PricingInterval \<Rightarrow> PricingInterval" where
  "storedInterval c i pid iv = iv\<lparr>iv_ID := i, iv_PricingID := pid, iv_InputPrice := map_option (cl_price c) (iv_InputPrice iv),
     iv_OutputPrice := map_option (cl_price c) (iv_OutputPrice iv), iv_CacheWritePrice := map_option (cl_price c) (iv_CacheWritePrice iv),
     iv_CacheReadPrice := map_option (cl_price c) (iv_CacheReadPrice iv), iv_PerRequestPrice := map_option (cl_price c) (iv_PerRequestPrice iv)\<rparr>"

definition createIntervalExec :: "chancols \<Rightarrow> string \<Rightarrow> int \<Rightarrow> PricingInterval \<Rightarrow> ('a chanstate_scheme, PricingInterval) proc" where
  "createIntervalExec c table pid iv = db ''insert interval''
     (if \<not> cl_intervalFits c iv then fail misfit else bindP (nextval table) (\<lambda>i. ret (storedInterval c i pid iv)))"

definition storedPricing :: "chancols \<Rightarrow> int \<Rightarrow> ChannelModelPricing \<Rightarrow> ChannelModelPricing" where
  "storedPricing c i p = p\<lparr>cp_ID := i, cp_Platform := (if cp_Platform p = [] then PlatformAnthropic else cp_Platform p),
     cp_Capabilities := NormalizeModelCapabilities (cp_Capabilities p),
     cp_BillingMode := (if cp_BillingMode p = [] then BillingModeToken else cp_BillingMode p),
     cp_InputPrice := map_option (cl_price c) (cp_InputPrice p), cp_OutputPrice := map_option (cl_price c) (cp_OutputPrice p),
     cp_CacheWritePrice := map_option (cl_price c) (cp_CacheWritePrice p), cp_CacheReadPrice := map_option (cl_price c) (cp_CacheReadPrice p),
     cp_ImageOutputPrice := map_option (cl_image c) (cp_ImageOutputPrice p),
     cp_PerRequestPrice := map_option (cl_request c) (cp_PerRequestPrice p), cp_Intervals := []\<rparr>"

definition createModelPricingExec :: "chancols \<Rightarrow> ChannelModelPricing \<Rightarrow> ('a chanstate_scheme, ChannelModelPricing) proc" where
  "createModelPricingExec c p =
     bindP (db ''insert model pricing''
       (if \<not> cl_pricingFits c p then fail misfit else bindP (nextval ''channel_model_pricing'') (\<lambda>i. ret (storedPricing c i p)))) (\<lambda>row.
     bindP (mapP (createIntervalExec c ''channel_pricing_intervals'' (cp_ID row)) (cp_Intervals p)) (\<lambda>ivs.
     ret (row\<lparr>cp_Intervals := ivs\<rparr>)))"

text \<open>The entries of a rule keep an empty platform and no capabilities.\<close>

definition storedStatsPricing :: "chancols \<Rightarrow> int \<Rightarrow> ChannelModelPricing \<Rightarrow> ChannelModelPricing" where
  "storedStatsPricing c i p = p\<lparr>cp_ID := i, cp_ChannelID := 0, cp_Capabilities := [],
     cp_BillingMode := (if cp_BillingMode p = [] then BillingModeToken else cp_BillingMode p),
     cp_InputPrice := map_option (cl_stats c) (cp_InputPrice p), cp_OutputPrice := map_option (cl_stats c) (cp_OutputPrice p),
     cp_CacheWritePrice := map_option (cl_stats c) (cp_CacheWritePrice p), cp_CacheReadPrice := map_option (cl_stats c) (cp_CacheReadPrice p),
     cp_ImageOutputPrice := map_option (cl_stats c) (cp_ImageOutputPrice p),
     cp_PerRequestPrice := map_option (cl_stats c) (cp_PerRequestPrice p), cp_Intervals := []\<rparr>"

definition createAccountStatsModelPricingTx :: "chancols \<Rightarrow> ChannelModelPricing \<Rightarrow> ('a chanstate_scheme, ChannelModelPricing) proc" where
  "createAccountStatsModelPricingTx c p =
     bindP (db ''insert account stats model pricing''
       (if \<not> cl_pricingFits c p then fail misfit
        else bindP (nextval ''channel_account_stats_model_pricing'') (\<lambda>i. ret (storedStatsPricing c i p)))) (\<lambda>row.
     bindP (mapP (createIntervalExec c ''channel_account_stats_pricing_intervals'' (cp_ID row)) (cp_Intervals p)) (\<lambda>ivs.
     ret (row\<lparr>cp_Intervals := ivs\<rparr>)))"

definition createAccountStatsPricingRuleTx :: "chancols \<Rightarrow> AccountStatsPricingRule \<Rightarrow> ('a chanstate_scheme, AccountStatsPricingRule) proc" where
  "createAccountStatsPricingRuleTx c rule =
     bindP (db ''insert account stats pricing rule''
       (if \<not> cl_ruleFits c rule then fail misfit
        else bindP (nextval ''channel_account_stats_pricing_rules'') (\<lambda>i. ret (rule\<lparr>ar_ID := i\<rparr>)))) (\<lambda>row.
     bindP (mapP (createAccountStatsModelPricingTx c) (ar_Pricing rule)) (\<lambda>ps. ret (row\<lparr>ar_Pricing := ps\<rparr>)))"

definition replaceModelPricingTx :: "chancols \<Rightarrow> int \<Rightarrow> ChannelModelPricing list \<Rightarrow> ('a chanstate_scheme, unit) proc" where
  "replaceModelPricingTx c i ps =
     bindP (db ''delete old model pricing'' (updChannel i (\<lambda>x. x\<lparr>ch_ModelPricing := []\<rparr>))) (\<lambda>_.
     bindP (mapP (\<lambda>p. createModelPricingExec c (p\<lparr>cp_ChannelID := i\<rparr>)) ps) (\<lambda>rows.
     updChannel i (\<lambda>x. x\<lparr>ch_ModelPricing := rows\<rparr>)))"

definition replaceAccountStatsPricingRulesTx :: "chancols \<Rightarrow> int \<Rightarrow> AccountStatsPricingRule list \<Rightarrow> ('a chanstate_scheme, unit) proc" where
  "replaceAccountStatsPricingRulesTx c i rules =
     bindP (db ''delete old account stats pricing rules'' (updChannel i (\<lambda>x. x\<lparr>ch_AccountStatsPricingRules := []\<rparr>))) (\<lambda>_.
     bindP (mapP (createAccountStatsPricingRuleTx c) rules) (\<lambda>rows.
     updChannel i (\<lambda>x. x\<lparr>ch_AccountStatsPricingRules := rows\<rparr>)))"

text \<open>The unique index on group_id and the two foreign keys of channel_groups.\<close>

definition groupsFree :: "int \<Rightarrow> int list \<Rightarrow> 'a chanstate_scheme \<Rightarrow> bool" where
  "groupsFree i gids s \<longleftrightarrow> distinct gids \<and> list_all (\<lambda>g. g \<in> dom (cs_groups s)) gids \<and> list_ex (\<lambda>x. ch_ID x = i) (cs_channels s)
     \<and> list_all (\<lambda>x. ch_ID x = i \<or> set (ch_GroupIDs x) \<inter> set gids = {}) (cs_channels s)"

definition setGroupIDsTx :: "int \<Rightarrow> int list \<Rightarrow> ('a chanstate_scheme, unit) proc" where
  "setGroupIDsTx i gids =
     bindP (db ''delete old group associations'' (updChannel i (\<lambda>x. x\<lparr>ch_GroupIDs := []\<rparr>))) (\<lambda>_.
     if gids = [] then ret ()
     else db ''insert group associations'' (\<lambda>s.
       if groupsFree i gids s then updChannel i (\<lambda>x. x\<lparr>ch_GroupIDs := gids\<rparr>) s
       else (Inl (Internal ''constraint violation''), s)))"

definition setColumns :: "Channel \<Rightarrow> Channel \<Rightarrow> Channel" where
  "setColumns ch r = r\<lparr>ch_Name := ch_Name ch, ch_Description := ch_Description ch, ch_Status := ch_Status ch,
     ch_ModelMapping := ch_ModelMapping ch, ch_BillingModelSource := ch_BillingModelSource ch, ch_RestrictModels := ch_RestrictModels ch,
     ch_Features := ch_Features ch, ch_FeaturesConfig := (case ch_FeaturesConfig ch of None \<Rightarrow> Some [] | Some m \<Rightarrow> Some m),
     ch_ApplyPricingToAccountStats := ch_ApplyPricingToAccountStats ch\<rparr>"

definition insertChannel :: "chancols \<Rightarrow> Channel \<Rightarrow> ('a chanstate_scheme, int) proc" where
  "insertChannel c ch = db ''insert channel'' (\<lambda>s.
     if \<not> cl_channelFits c ch then (Inl misfit, s)
     else if list_ex (\<lambda>x. ch_Name x = ch_Name ch) (cs_channels s) then (Inl ErrChannelExists, s)
     else bindP (nextval ''channels'') (\<lambda>i. bindP (modP (\<lambda>s. s\<lparr>cs_channels := cs_channels s @
       [setColumns ch (ch\<lparr>ch_ID := i, ch_GroupIDs := [], ch_ModelPricing := [], ch_AccountStatsPricingRules := []\<rparr>)]\<rparr>)) (\<lambda>_. ret i)) s)"

definition ChannelRepo_Create :: "chancols \<Rightarrow> Channel \<Rightarrow> ('a chanstate_scheme, int) proc" where
  "ChannelRepo_Create c ch = withTx undoChannels
     (bindP (insertChannel c ch) (\<lambda>i.
      bindP (if ch_GroupIDs ch \<noteq> [] then setGroupIDsTx i (ch_GroupIDs ch) else ret ()) (\<lambda>_.
      bindP (if ch_ModelPricing ch \<noteq> [] then replaceModelPricingTx c i (ch_ModelPricing ch) else ret ()) (\<lambda>_.
      bindP (if ch_AccountStatsPricingRules ch \<noteq> [] then replaceAccountStatsPricingRulesTx c i (ch_AccountStatsPricingRules ch) else ret ()) (\<lambda>_.
      ret i)))))"

definition updateChannelRow :: "chancols \<Rightarrow> Channel \<Rightarrow> ('a chanstate_scheme, unit) proc" where
  "updateChannelRow c ch = db ''update channel'' (\<lambda>s.
     if \<not> list_ex (\<lambda>x. ch_ID x = ch_ID ch) (cs_channels s) then (Inl ErrChannelNotFound, s)
     else if \<not> cl_channelFits c ch then (Inl misfit, s)
     else if list_ex (\<lambda>x. ch_Name x = ch_Name ch \<and> ch_ID x \<noteq> ch_ID ch) (cs_channels s) then (Inl ErrChannelExists, s)
     else updChannel (ch_ID ch) (setColumns ch) s)"

text \<open>The flags say which of the three lists is not nil.\<close>

definition ChannelRepo_Update :: "chancols \<Rightarrow> Channel \<Rightarrow> bool \<Rightarrow> bool \<Rightarrow> bool \<Rightarrow> ('a chanstate_scheme, unit) proc" where
  "ChannelRepo_Update c ch setGroups setPricing setRules = withTx undoChannels
     (bindP (updateChannelRow c ch) (\<lambda>_.
      bindP (if setGroups then setGroupIDsTx (ch_ID ch) (ch_GroupIDs ch) else ret ()) (\<lambda>_.
      bindP (if setPricing then replaceModelPricingTx c (ch_ID ch) (ch_ModelPricing ch) else ret ()) (\<lambda>_.
      (if setRules then replaceAccountStatsPricingRulesTx c (ch_ID ch) (ch_AccountStatsPricingRules ch) else ret ())))))"

definition ChannelRepo_Delete :: "int \<Rightarrow> ('a chanstate_scheme, unit) proc" where
  "ChannelRepo_Delete i = db ''delete channel'' (\<lambda>s.
     if list_ex (\<lambda>x. ch_ID x = i) (cs_channels s)
     then (Inr (), s\<lparr>cs_channels := filter (\<lambda>x. ch_ID x \<noteq> i) (cs_channels s)\<rparr>)
     else (Inl ErrChannelNotFound, s))"

text \<open>Operations of the repository that no service calls.\<close>

definition SetGroupIDs :: "int \<Rightarrow> int list \<Rightarrow> ('a chanstate_scheme, unit) proc" where
  "SetGroupIDs i gids = setGroupIDsTx i gids"

definition ReplaceModelPricing :: "chancols \<Rightarrow> int \<Rightarrow> ChannelModelPricing list \<Rightarrow> ('a chanstate_scheme, unit) proc" where
  "ReplaceModelPricing c i ps = withTx undoChannels (replaceModelPricingTx c i ps)"

end
