(* ===== verification/ChannelService.thy ===== *)
theory ChannelService
  imports ChannelStore
begin

section \<open>The channel service\<close>

text \<open>
  The stateful part of service/channel_service.go: the cached snapshot with its lifetime and the
  short-lived empty one after an error of the database, the look-ups of the hot path, the
  validation of a configuration, and the changes an administrator makes, with the request
  conversion of handler/admin/channel_handler.go in front of them.  Requests share one load of
  the cache (singleflight); a single call at a time is what the model runs.  \<open>ord\<close> is the order Go
  walks the mappings in when a snapshot is built, \<open>authOn\<close> whether there is an invalidator of the
  API key cache.
\<close>

definition channelCacheTTL :: int where "channelCacheTTL = 600 * second"
definition channelErrorTTL :: int where "channelErrorTTL = 5 * second"

subsection \<open>The snapshot\<close>

definition storeErrorCache :: "('a chanstate_scheme, unit) proc" where
  "storeErrorCache = modP (\<lambda>s. s\<lparr>cs_cache :=
     Some (newEmptyChannelCache\<lparr>cc_loadedAt := e_now s - (channelCacheTTL - channelErrorTTL)\<rparr>)\<rparr>)"

definition fetchChannelData :: "('a chanstate_scheme, Channel list \<times> (int \<rightharpoonup> string)) proc" where
  "fetchChannelData =
     tryP ListAll (\<lambda>e. bindP storeErrorCache (\<lambda>_. fail e)) (\<lambda>channels.
     let allGroupIDs = concat (map ch_GroupIDs channels) in
     if allGroupIDs = [] then ret (channels, Map.empty)
     else tryP (GetGroupPlatforms allGroupIDs) (\<lambda>e. bindP storeErrorCache (\<lambda>_. fail e)) (\<lambda>platforms. ret (channels, platforms)))"

definition buildCache :: "mappingOrder \<Rightarrow> ('a chanstate_scheme, channelCache) proc" where
  "buildCache ord =
     bindP fetchChannelData (\<lambda>(channels, platforms). bindP nowP (\<lambda>now.
     let cache = populateChannelCache ord now channels platforms in
     bindP (modP (\<lambda>s. s\<lparr>cs_cache := Some cache\<rparr>)) (\<lambda>_. ret cache)))"

definition loadCache :: "mappingOrder \<Rightarrow> ('a chanstate_scheme, channelCache) proc" where
  "loadCache ord = (\<lambda>s. case cs_cache s of
       Some c \<Rightarrow> if e_now s - cc_loadedAt c < channelCacheTTL then (Inr c, s) else buildCache ord s
     | None \<Rightarrow> buildCache ord s)"

definition invalidateCache :: "mappingOrder \<Rightarrow> ('a chanstate_scheme, unit) proc" where
  "invalidateCache ord = bindP (modP (\<lambda>s. s\<lparr>cs_cache := None\<rparr>)) (\<lambda>_. ignoreP (buildCache ord))"

subsection \<open>The hot path\<close>

definition lookupGroupChannel :: "mappingOrder \<Rightarrow> int \<Rightarrow> ('a chanstate_scheme, channelLookup option) proc" where
  "lookupGroupChannel ord gid = bindP (loadCache ord) (\<lambda>cache. ret
     (case cc_channelByGroupID cache gid of
        None \<Rightarrow> None
      | Some ch \<Rightarrow> if \<not> Channel_IsActive ch then None
          else Some \<lparr>lk_cache = cache, lk_channel = ch, lk_platform = platformOf (cc_groupPlatform cache) gid\<rparr>))"

definition GetChannelForGroup :: "mappingOrder \<Rightarrow> int \<Rightarrow> ('a chanstate_scheme, Channel option) proc" where
  "GetChannelForGroup ord gid = bindP (loadCache ord) (\<lambda>cache. ret
     (case cc_channelByGroupID cache gid of None \<Rightarrow> None | Some ch \<Rightarrow> if Channel_IsActive ch then Some ch else None))"

definition GetGroupPlatform :: "mappingOrder \<Rightarrow> int \<Rightarrow> ('a chanstate_scheme, string) proc" where
  "GetGroupPlatform ord gid = tryP (loadCache ord) (\<lambda>_. ret []) (\<lambda>cache. ret (platformOf (cc_groupPlatform cache) gid))"

definition GetChannelModelPricing :: "mappingOrder \<Rightarrow> int \<Rightarrow> string \<Rightarrow> ('a chanstate_scheme, ChannelModelPricing option) proc" where
  "GetChannelModelPricing ord gid model =
     tryP (lookupGroupChannel ord gid) (\<lambda>_. ret None) (\<lambda>lk. ret
       (case lk of None \<Rightarrow> None
        | Some l \<Rightarrow> lookupPricingAcrossPlatforms (lk_cache l) gid (lk_platform l) (toLower model)))"

definition noMapping :: "string \<Rightarrow> ChannelMappingResult" where
  "noMapping model = \<lparr>cr_MappedModel = model, cr_ChannelID = 0, cr_Mapped = False, cr_BillingModelSource = []\<rparr>"

definition ResolveChannelMapping :: "mappingOrder \<Rightarrow> int \<Rightarrow> string \<Rightarrow> ('a chanstate_scheme, ChannelMappingResult) proc" where
  "ResolveChannelMapping ord gid model =
     tryP (lookupGroupChannel ord gid) (\<lambda>_. ret (noMapping model)) (\<lambda>lk. ret
       (case lk of None \<Rightarrow> noMapping model | Some l \<Rightarrow> resolveMapping l gid model))"

definition IsModelRestricted :: "mappingOrder \<Rightarrow> int \<Rightarrow> string \<Rightarrow> ('a chanstate_scheme, bool) proc" where
  "IsModelRestricted ord gid model =
     tryP (lookupGroupChannel ord gid) (\<lambda>_. ret False) (\<lambda>lk. ret
       (case lk of None \<Rightarrow> False | Some l \<Rightarrow> checkRestricted l gid model))"

definition ResolveChannelMappingAndRestrict ::
  "mappingOrder \<Rightarrow> int option \<Rightarrow> string \<Rightarrow> ('a chanstate_scheme, ChannelMappingResult \<times> bool) proc" where
  "ResolveChannelMappingAndRestrict ord groupID model =
     (case groupID of
        None \<Rightarrow> ret (noMapping model, False)
      | Some gid \<Rightarrow> bindP (ResolveChannelMapping ord gid model) (\<lambda>r. ret (r, False)))"

subsection \<open>Validation of a configuration\<close>

definition checkBillingModeRequirements :: "ChannelModelPricing \<Rightarrow> err option" where
  "checkBillingModeRequirements p =
     (if (cp_BillingMode p = BillingModePerRequest \<or> cp_BillingMode p = BillingModeImage)
         \<and> cp_PerRequestPrice p = None \<and> cp_Intervals p = []
      then Some (AppErr ''BILLING_MODE_MISSING_PRICE'') else None)"

definition checkPricesNotNegative :: "ChannelModelPricing \<Rightarrow> err option" where
  "checkPricesNotNegative p =
     (if list_ex negative [cp_InputPrice p, cp_OutputPrice p, cp_CacheWritePrice p, cp_CacheReadPrice p, cp_ImageOutputPrice p, cp_PerRequestPrice p]
      then Some (AppErr ''NEGATIVE_PRICE'') else None)"

definition unpriced :: "PricingInterval \<Rightarrow> bool" where
  "unpriced iv \<longleftrightarrow> iv_InputPrice iv = None \<and> iv_OutputPrice iv = None \<and> iv_CacheWritePrice iv = None
     \<and> iv_CacheReadPrice iv = None \<and> iv_PerRequestPrice iv = None"

definition checkIntervalsHavePrices :: "ChannelModelPricing \<Rightarrow> err option" where
  "checkIntervalsHavePrices p =
     (if list_ex unpriced (cp_Intervals p) then Some (AppErr ''INTERVAL_MISSING_PRICE'') else None)"

text \<open>The checks one after another; the first error ends them.\<close>

definition both :: "err option \<Rightarrow> err option \<Rightarrow> err option" where
  "both a b = (case a of Some e \<Rightarrow> Some e | None \<Rightarrow> b)"

fun validatePricingBillingMode :: "ChannelModelPricing list \<Rightarrow> err option" where
  "validatePricingBillingMode [] = None"
| "validatePricingBillingMode (p # ps) =
     both (checkBillingModeRequirements p) (both (checkPricesNotNegative p) (both (checkIntervalsHavePrices p) (validatePricingBillingMode ps)))"

fun validatePricingIntervals :: "ChannelModelPricing list \<Rightarrow> err option" where
  "validatePricingIntervals [] = None"
| "validatePricingIntervals (p # ps) =
     (if ValidateIntervals (cp_Intervals p) \<noteq> None then Some (AppErr ''INVALID_PRICING_INTERVALS'') else validatePricingIntervals ps)"

definition normalizePricingCapabilities :: "ChannelModelPricing list \<Rightarrow> ChannelModelPricing list" where
  "normalizePricingCapabilities = map (\<lambda>p. p\<lparr>cp_Capabilities := NormalizeModelCapabilities (cp_Capabilities p)\<rparr>)"

text \<open>The capabilities are normalised in place before the checks, which do not look at them.\<close>

definition validatePricingEntries :: "ChannelModelPricing list \<Rightarrow> err option" where
  "validatePricingEntries ps =
     both (if validateNoConflictingModels ps \<noteq> None then Some (AppErr ''MODEL_PATTERN_CONFLICT'') else None)
       (both (validatePricingIntervals ps) (validatePricingBillingMode ps))"

definition validateChannelConfig :: "ChannelModelPricing list \<Rightarrow> (string \<times> (string \<times> string) list) list \<Rightarrow> err option" where
  "validateChannelConfig ps mapping =
     both (validatePricingEntries ps)
       (if validateNoConflictingMappings mapping \<noteq> None then Some (AppErr ''MAPPING_PATTERN_CONFLICT'') else None)"

fun validateRules :: "AccountStatsPricingRule list \<Rightarrow> err option" where
  "validateRules [] = None"
| "validateRules (r # rs) = both (validatePricingEntries (ar_Pricing r)) (validateRules rs)"

definition normalizedChannel :: "Channel \<Rightarrow> Channel" where
  "normalizedChannel ch = ch\<lparr>ch_ModelPricing := normalizePricingCapabilities (ch_ModelPricing ch),
     ch_AccountStatsPricingRules := map (\<lambda>r. r\<lparr>ar_Pricing := normalizePricingCapabilities (ar_Pricing r)\<rparr>) (ch_AccountStatsPricingRules ch)\<rparr>"

definition validateChannel :: "Channel \<Rightarrow> ('a chanstate_scheme, Channel) proc" where
  "validateChannel ch =
     (case both (validateChannelConfig (ch_ModelPricing ch) (ch_ModelMapping ch)) (validateRules (ch_AccountStatsPricingRules ch)) of
        Some e \<Rightarrow> fail e
      | None \<Rightarrow> ret (normalizedChannel ch))"

subsection \<open>Changes\<close>

record CreateChannelInput =
  cri_Name :: string
  cri_Description :: string
  cri_GroupIDs :: "int list"
  cri_ModelPricing :: "ChannelModelPricing list"
  cri_ModelMapping :: "(string \<times> (string \<times> string) list) list"
  cri_BillingModelSource :: string
  cri_RestrictModels :: bool
  cri_Features :: string
  cri_FeaturesConfig :: "(string \<times> anyValue) list option"
  cri_ApplyPricingToAccountStats :: bool
  cri_AccountStatsPricingRules :: "AccountStatsPricingRule list"

record UpdateChannelInput =
  upi_Name :: string
  upi_Description :: "string option"
  upi_Status :: string
  upi_GroupIDs :: "int list option"
  upi_ModelPricing :: "ChannelModelPricing list option"
  upi_ModelMapping :: "(string \<times> (string \<times> string) list) list option"
  upi_BillingModelSource :: string
  upi_RestrictModels :: "bool option"
  upi_Features :: "string option"
  upi_FeaturesConfig :: "(string \<times> anyValue) list option"
  upi_ApplyPricingToAccountStats :: "bool option"
  upi_AccountStatsPricingRules :: "AccountStatsPricingRule list option"

definition checkGroupConflicts :: "int \<Rightarrow> int list \<Rightarrow> ('a chanstate_scheme, unit) proc" where
  "checkGroupConflicts i gids =
     (if gids = [] then ret ()
      else bindP (GetGroupsInOtherChannels i gids) (\<lambda>conflicting. if conflicting \<noteq> [] then fail ErrGroupAlreadyInChannel else ret ()))"

definition newChannel :: "CreateChannelInput \<Rightarrow> Channel" where
  "newChannel i = \<lparr>ch_ID = 0, ch_Name = cri_Name i, ch_Description = cri_Description i, ch_Status = ''active'',
     ch_BillingModelSource = (if cri_BillingModelSource i = [] then ''channel_mapped'' else cri_BillingModelSource i),
     ch_RestrictModels = cri_RestrictModels i, ch_Features = cri_Features i, ch_FeaturesConfig = cri_FeaturesConfig i,
     ch_GroupIDs = cri_GroupIDs i, ch_ModelPricing = cri_ModelPricing i, ch_ModelMapping = cri_ModelMapping i,
     ch_ApplyPricingToAccountStats = cri_ApplyPricingToAccountStats i, ch_AccountStatsPricingRules = cri_AccountStatsPricingRules i\<rparr>"

definition Channel_Create :: "chancols \<Rightarrow> mappingOrder \<Rightarrow> CreateChannelInput \<Rightarrow> ('a chanstate_scheme, Channel) proc" where
  "Channel_Create c ord i =
     bindP (ExistsByName (cri_Name i)) (\<lambda>exists.
     if exists then fail ErrChannelExists
     else bindP (checkGroupConflicts 0 (cri_GroupIDs i)) (\<lambda>_.
     bindP (validateChannel (newChannel i)) (\<lambda>ch.
     bindP (ChannelRepo_Create c ch) (\<lambda>cid.
     bindP (invalidateCache ord) (\<lambda>_. ChannelRepo_GetByID cid)))))"

definition orOld :: "'v option \<Rightarrow> 'v \<Rightarrow> 'v" where
  "orOld new old = (case new of Some v \<Rightarrow> v | None \<Rightarrow> old)"

definition applyUpdateInput :: "Channel \<Rightarrow> UpdateChannelInput \<Rightarrow> ('a chanstate_scheme, Channel) proc" where
  "applyUpdateInput ch i =
     bindP (if upi_Name i \<noteq> [] \<and> upi_Name i \<noteq> ch_Name ch
            then bindP (ExistsByNameExcluding (upi_Name i) (ch_ID ch)) (\<lambda>exists.
              if exists then fail ErrChannelExists else ret (ch\<lparr>ch_Name := upi_Name i\<rparr>))
            else ret ch) (\<lambda>c1.
     let c2 = c1\<lparr>ch_Description := orOld (upi_Description i) (ch_Description c1),
          ch_Status := (if upi_Status i \<noteq> [] then upi_Status i else ch_Status c1),
          ch_RestrictModels := orOld (upi_RestrictModels i) (ch_RestrictModels c1),
          ch_Features := orOld (upi_Features i) (ch_Features c1)\<rparr> in
     bindP (case upi_GroupIDs i of
              None \<Rightarrow> ret c2
            | Some gids \<Rightarrow> bindP (checkGroupConflicts (ch_ID ch) gids) (\<lambda>_. ret (c2\<lparr>ch_GroupIDs := gids\<rparr>))) (\<lambda>c3.
     ret (c3\<lparr>ch_ModelPricing := orOld (upi_ModelPricing i) (ch_ModelPricing c3),
          ch_ModelMapping := orOld (upi_ModelMapping i) (ch_ModelMapping c3),
          ch_BillingModelSource := (if upi_BillingModelSource i \<noteq> [] then upi_BillingModelSource i else ch_BillingModelSource c3),
          ch_FeaturesConfig := (case upi_FeaturesConfig i of Some m \<Rightarrow> Some m | None \<Rightarrow> ch_FeaturesConfig c3),
          ch_ApplyPricingToAccountStats := orOld (upi_ApplyPricingToAccountStats i) (ch_ApplyPricingToAccountStats c3),
          ch_AccountStatsPricingRules := orOld (upi_AccountStatsPricingRules i) (ch_AccountStatsPricingRules c3)\<rparr>)))"

definition getOldGroupIDs :: "bool \<Rightarrow> int \<Rightarrow> ('a chanstate_scheme, int list) proc" where
  "getOldGroupIDs authOn i = (if \<not> authOn then ret [] else tryP (GetGroupIDs i) (\<lambda>_. ret []) ret)"

definition invalidateAuthCacheForGroups :: "bool \<Rightarrow> int list list \<Rightarrow> ('a chanstate_scheme, unit) proc" where
  "invalidateAuthCacheForGroups authOn sets =
     (if \<not> authOn then ret ()
      else modP (\<lambda>s. s\<lparr>cs_authInvalidated := cs_authInvalidated s @ rev (remdups (rev (concat sets)))\<rparr>))"

definition Channel_Update :: "chancols \<Rightarrow> mappingOrder \<Rightarrow> bool \<Rightarrow> int \<Rightarrow> UpdateChannelInput \<Rightarrow> ('a chanstate_scheme, Channel) proc" where
  "Channel_Update c ord authOn i input =
     bindP (ChannelRepo_GetByID i) (\<lambda>old.
     bindP (applyUpdateInput old input) (\<lambda>new.
     bindP (validateChannel new) (\<lambda>ch.
     bindP (getOldGroupIDs authOn i) (\<lambda>oldGroups.
     bindP (ChannelRepo_Update c ch (upi_GroupIDs input \<noteq> None \<or> ch_GroupIDs old \<noteq> [])
       (upi_ModelPricing input \<noteq> None \<or> ch_ModelPricing old \<noteq> [])
       (upi_AccountStatsPricingRules input \<noteq> None \<or> ch_AccountStatsPricingRules old \<noteq> [])) (\<lambda>_.
     bindP (invalidateCache ord) (\<lambda>_.
     bindP (invalidateAuthCacheForGroups authOn [oldGroups, ch_GroupIDs ch]) (\<lambda>_. ChannelRepo_GetByID i)))))))"

definition Channel_Delete :: "mappingOrder \<Rightarrow> bool \<Rightarrow> int \<Rightarrow> ('a chanstate_scheme, unit) proc" where
  "Channel_Delete ord authOn i =
     bindP (tryP (GetGroupIDs i) (\<lambda>_. ret []) ret) (\<lambda>gids.
     bindP (ChannelRepo_Delete i) (\<lambda>_.
     bindP (invalidateCache ord) (\<lambda>_. invalidateAuthCacheForGroups authOn [gids])))"

subsection \<open>The requests of an administrator\<close>

definition pricingRequestToService :: "ChannelModelPricing list \<Rightarrow> ChannelModelPricing list" where
  "pricingRequestToService = map (\<lambda>p. p\<lparr>cp_Capabilities := NormalizeModelCapabilities (cp_Capabilities p),
     cp_BillingMode := (if cp_BillingMode p = [] then BillingModeToken else cp_BillingMode p)\<rparr>)"

definition mainPricing :: "ChannelModelPricing list \<Rightarrow> ChannelModelPricing list" where
  "mainPricing reqs = map (\<lambda>p. if cp_Platform p = [] then p\<lparr>cp_Platform := PlatformAnthropic\<rparr> else p) (pricingRequestToService reqs)"

fun statsRules :: "int \<Rightarrow> AccountStatsPricingRule list \<Rightarrow> err + AccountStatsPricingRule list" where
  "statsRules i [] = Inr []"
| "statsRules i (r # rs) =
     (if ar_GroupIDs r = [] \<and> ar_AccountIDs r = [] then Inl (AppErr ''PRICING_RULE_EMPTY_SCOPE'')
      else if ar_Pricing r = [] then Inl (AppErr ''PRICING_RULE_EMPTY_PRICING'')
      else mapE (\<lambda>xs. r\<lparr>ar_Pricing := pricingRequestToService (ar_Pricing r), ar_SortOrder := i\<rparr> # xs) (statsRules (i + 1) rs))"

definition Handler_Create :: "chancols \<Rightarrow> mappingOrder \<Rightarrow> CreateChannelInput \<Rightarrow> ('a chanstate_scheme, Channel) proc" where
  "Handler_Create c ord req =
     bindP (liftE (statsRules 0 (cri_AccountStatsPricingRules req))) (\<lambda>rules.
     Channel_Create c ord (req\<lparr>cri_ModelPricing := mainPricing (cri_ModelPricing req), cri_AccountStatsPricingRules := rules\<rparr>))"

definition Handler_Update :: "chancols \<Rightarrow> mappingOrder \<Rightarrow> bool \<Rightarrow> int \<Rightarrow> UpdateChannelInput \<Rightarrow> ('a chanstate_scheme, Channel) proc" where
  "Handler_Update c ord authOn i req =
     bindP (case upi_AccountStatsPricingRules req of
              None \<Rightarrow> ret None
            | Some rs \<Rightarrow> bindP (liftE (statsRules 0 rs)) (\<lambda>rules. ret (Some rules))) (\<lambda>rules.
     Channel_Update c ord authOn i (req\<lparr>upi_ModelPricing := map_option mainPricing (upi_ModelPricing req),
       upi_AccountStatsPricingRules := rules\<rparr>))"

end
