(* ===== verification/ChannelLookup.thy ===== *)
theory ChannelLookup
  imports ChannelCache AsciiCase
begin

section \<open>The snapshot answers as the configuration does\<close>

text \<open>
  The channel cache flattens every channel into maps keyed by group, platform and lower-case
  model, with the wildcard patterns in lists beside them.  For a configuration that passes the
  conflict check, looking a model up there gives what the channel's own list says, in whatever
  order Go walked the maps.
\<close>

definition matchesName :: "modelEntry \<Rightarrow> string \<Rightarrow> bool" where
  "matchesName e name \<longleftrightarrow> (if me_wildcard e then hasPrefix name (me_prefix e) else name = me_prefix e)"

lemma prefixes_comparable: "hasPrefix n p \<Longrightarrow> hasPrefix n q \<Longrightarrow> hasPrefix p q \<or> hasPrefix q p"
  unfolding hasPrefix_iff by (metis append_eq_append_conv2)

text \<open>C29: The four cases of the conflict check say that some name is matched by both patterns.\<close>

theorem conflictsBetween_iff_common_name:
  "conflictsBetween a b \<longleftrightarrow> (\<exists>name. matchesName a name \<and> matchesName b name)"
proof
  assume "conflictsBetween a b"
  then have "matchesName a (me_prefix a) \<and> matchesName b (me_prefix a) \<or> matchesName a (me_prefix b) \<and> matchesName b (me_prefix b)"
    by (auto simp: conflictsBetween_def matchesName_def hasPrefix_iff split: if_splits)
  then show "\<exists>name. matchesName a name \<and> matchesName b name" by blast
next
  assume "\<exists>name. matchesName a name \<and> matchesName b name"
  then show "conflictsBetween a b"
    using prefixes_comparable by (auto simp: conflictsBetween_def matchesName_def split: if_splits)
qed

definition matchedOnce :: "modelEntry list \<Rightarrow> bool" where
  "matchedOnce es \<longleftrightarrow> (\<forall>name. length (filter (\<lambda>e. matchesName e name) es) \<le> 1)"

lemma detectConflicts_sorted: "detectConflicts es = None \<longleftrightarrow> sorted_wrt (\<lambda>a b. \<not> conflictsBetween a b) es"
proof (induction es rule: detectConflicts.induct)
  case (2 e es)
  show ?case
  proof (cases "find (conflictsBetween e) es")
    case None
    then have "\<forall>x\<in>set es. \<not> conflictsBetween e x" by (simp add: find_None_list_all list_all_iff)
    then show ?thesis using 2 None by simp
  next
    case (Some f)
    then have "f \<in> set es \<and> conflictsBetween e f" by (auto simp: find_Some_iff)
    then show ?thesis using Some by auto
  qed
qed simp

lemma detectConflicts_iff: "detectConflicts es = None \<longleftrightarrow> matchedOnce es"
  unfolding detectConflicts_sorted matchedOnce_def atMostOne_filter sorted_wrt_forall
  by (simp add: conflictsBetween_iff_common_name)

lemma firstSome_None: "firstSome f ks = None \<longleftrightarrow> (\<forall>k\<in>set ks. f k = None)"
  by (induction ks) (auto split: option.splits)

lemma models_ok_iff: "validateNoConflictingModels ps = None \<longleftrightarrow> (\<forall>platform. matchedOnce (platformEntries ps platform))"
proof -
  have "platformEntries ps platform = []" if "platform \<notin> set (map cp_Platform ps)" for platform
    using that by (auto simp: platformEntries_def)
  moreover have "matchedOnce []" by (simp add: matchedOnce_def)
  ultimately show ?thesis
    unfolding validateNoConflictingModels_def firstSome_None detectConflicts_iff set_remdups by metis
qed

subsection \<open>Names and patterns\<close>

lemma entry_wildcard: "me_wildcard (toModelEntry m) \<longleftrightarrow> hasSuffix m ''*''"
  by (simp add: toModelEntry_def Let_def hasSuffix_toLower caseless_star)

lemma entry_prefix: "me_prefix (toModelEntry m) = toLower (if hasSuffix m ''*'' then trimSuffix m ''*'' else m)"
  by (simp add: toModelEntry_def Let_def hasSuffix_toLower trimSuffix_toLower caseless_star)

subsection \<open>What the snapshot holds of one group\<close>

definition priceEntries :: "Channel \<Rightarrow> string \<Rightarrow> (modelEntry \<times> ChannelModelPricing) list" where
  "priceEntries ch platform =
     concat (map (\<lambda>p. if cp_Platform p = platform then map (\<lambda>m. (toModelEntry m, p)) (cp_Models p) else []) (ch_ModelPricing ch))"

definition mapEntries :: "(string \<times> string) list \<Rightarrow> (modelEntry \<times> string) list" where
  "mapEntries mp = map (\<lambda>(src, dst). (toModelEntry src, dst)) mp"

definition exactEntries :: "(modelEntry \<times> 'v) list \<Rightarrow> (string \<times> 'v) list" where
  "exactEntries es = map (\<lambda>(e, v). (me_prefix e, v)) (filter (\<lambda>(e, v). \<not> me_wildcard e) es)"

definition wildEntries :: "(modelEntry \<times> 'v) list \<Rightarrow> (string \<times> 'v) list" where
  "wildEntries es = map (\<lambda>(e, v). (me_prefix e, v)) (filter (\<lambda>(e, v). me_wildcard e) es)"

lemma entries_simps [simp]:
  "exactEntries [] = []" "wildEntries [] = []"
  "exactEntries ((e, v) # es) = (if me_wildcard e then exactEntries es else (me_prefix e, v) # exactEntries es)"
  "wildEntries ((e, v) # es) = (if me_wildcard e then (me_prefix e, v) # wildEntries es else wildEntries es)"
  "exactEntries (es @ es') = exactEntries es @ exactEntries es'" "wildEntries (es @ es') = wildEntries es @ wildEntries es'"
  by (simp_all add: exactEntries_def wildEntries_def)

text \<open>A map over the names of one group and platform.\<close>

definition keyed :: "int \<Rightarrow> string \<Rightarrow> (string \<rightharpoonup> 'v) \<Rightarrow> (modelKey \<rightharpoonup> 'v)" where
  "keyed gid q f = (\<lambda>(g, r, n). if g = gid \<and> r = q then f n else None)"

lemma keyed_simps: "keyed gid q (f ++ h) = keyed gid q f ++ keyed gid q h" "keyed gid q Map.empty = Map.empty"
  by (auto simp: keyed_def map_add_def fun_eq_iff)

lemma keyed_upd: "m((gid, q, n) \<mapsto> v) = m ++ keyed gid q [n \<mapsto> v]"
  by (auto simp: keyed_def map_add_def fun_eq_iff)

definition latest :: "(modelEntry \<times> 'v) list \<Rightarrow> (string \<rightharpoonup> 'v)" where
  "latest es = map_of (rev (exactEntries es))"

lemma latest_append: "latest (es @ es') = latest es ++ latest es'"
  by (simp add: latest_def)

lemma latest_Nil [simp]: "latest [] = Map.empty"
  by (simp add: latest_def)

lemma latest_single: "latest [(e, v)] = (if me_wildcard e then Map.empty else [me_prefix e \<mapsto> v])"
  by (auto simp: latest_def fun_eq_iff)

text \<open>Adding one list of entries: the effect on the prices, and that nothing else changes.\<close>

definition pricesAdded :: "int \<Rightarrow> string \<Rightarrow> (modelEntry \<times> ChannelModelPricing) list \<Rightarrow> channelCache \<Rightarrow> channelCache \<Rightarrow> bool" where
  "pricesAdded gid q es c c' \<longleftrightarrow>
     c' = c\<lparr>cc_pricingByGroupModel := cc_pricingByGroupModel c ++ keyed gid q (latest es),
            cc_wildcardByGroupPlatform := (\<lambda>k. cc_wildcardByGroupPlatform c k @ (if k = (gid, q) then wildEntries es else []))\<rparr>"

lemma pricesAdded_Nil: "pricesAdded gid q [] c c"
  by (simp add: pricesAdded_def keyed_simps cong: if_cong)

lemma pricesAdded_append: "pricesAdded gid q es c c' \<Longrightarrow> pricesAdded gid q es' c' c'' \<Longrightarrow> pricesAdded gid q (es @ es') c c''"
  by (simp add: pricesAdded_def latest_append keyed_simps if_distrib [of "\<lambda>x. _ @ x"] cong: if_cong)

lemma pricesAdded_one: "pricesAdded gid (cp_Platform p) [(toModelEntry m, p)] c (addPricing gid p c m)"
  by (auto simp: pricesAdded_def addPricing_def entry_wildcard entry_prefix latest_single keyed_simps keyed_upd fun_eq_iff)

lemma pricesAdded_models:
  "pricesAdded gid (cp_Platform p) (map (\<lambda>m. (toModelEntry m, p)) models) c (foldl (addPricing gid p) c models)"
proof (induction models arbitrary: c)
  case (Cons m ms)
  show ?case using pricesAdded_append [OF pricesAdded_one Cons.IH] by simp
qed (simp add: pricesAdded_Nil)

lemma pricesAdded_channel: "pricesAdded gid platform (priceEntries ch platform) c (expandPricingToCache ch gid platform c)"
proof -
  let ?step = "\<lambda>c pricing. if \<not> isPlatformPricingMatch platform (cp_Platform pricing) then c else foldl (addPricing gid pricing) c (cp_Models pricing)"
  let ?es = "\<lambda>p. if cp_Platform p = platform then map (\<lambda>m. (toModelEntry m, p)) (cp_Models p) else []"
  have one: "pricesAdded gid platform (?es p) c (?step c p)" for c p
    using pricesAdded_models [of gid p "cp_Models p" c] by (auto simp: isPlatformPricingMatch_def pricesAdded_Nil)
  have "pricesAdded gid platform (concat (map ?es ps)) c (foldl ?step c ps)" for ps
  proof (induction ps arbitrary: c)
    case (Cons p ps)
    show ?case using pricesAdded_append [OF one Cons.IH] by simp
  qed (simp add: pricesAdded_Nil)
  then show ?thesis by (simp add: priceEntries_def expandPricingToCache_def)
qed

definition targetsAdded :: "int \<Rightarrow> string \<Rightarrow> (modelEntry \<times> string) list \<Rightarrow> channelCache \<Rightarrow> channelCache \<Rightarrow> bool" where
  "targetsAdded gid q es c c' \<longleftrightarrow>
     c' = c\<lparr>cc_mappingByGroupModel := cc_mappingByGroupModel c ++ keyed gid q (latest es),
            cc_wildcardMappingByGP := (\<lambda>k. cc_wildcardMappingByGP c k @ (if k = (gid, q) then wildEntries es else []))\<rparr>"

lemma targetsAdded_Nil: "targetsAdded gid q [] c c"
  by (simp add: targetsAdded_def keyed_simps cong: if_cong)

lemma targetsAdded_append: "targetsAdded gid q es c c' \<Longrightarrow> targetsAdded gid q es' c' c'' \<Longrightarrow> targetsAdded gid q (es @ es') c c''"
  by (simp add: targetsAdded_def latest_append keyed_simps if_distrib [of "\<lambda>x. _ @ x"] cong: if_cong)

lemma targetsAdded_one: "targetsAdded gid q [(toModelEntry src, dst)] c (addMapping gid q c (src, dst))"
  by (auto simp: targetsAdded_def addMapping_def entry_wildcard entry_prefix latest_single keyed_simps keyed_upd fun_eq_iff)

lemma targetsAdded_all: "targetsAdded gid q (mapEntries mp) c (foldl (addMapping gid q) c mp)"
proof (induction mp arbitrary: c)
  case (Cons sd mp)
  obtain src dst where sd: "sd = (src, dst)" by fastforce
  show ?case using targetsAdded_append [OF targetsAdded_one [of gid q src dst c] Cons.IH] by (simp add: mapEntries_def sd)
qed (simp add: targetsAdded_Nil mapEntries_def)

definition targetEntries :: "mappingOrder \<Rightarrow> Channel \<Rightarrow> int \<Rightarrow> string \<Rightarrow> (modelEntry \<times> string) list" where
  "targetEntries ord ch gid platform =
     (case map_of (ch_ModelMapping ch) platform of None \<Rightarrow> [] | Some mp \<Rightarrow> mapEntries (ord (ch_ID ch) gid mp))"

lemma targetsAdded_channel: "targetsAdded gid platform (targetEntries ord ch gid platform) c (expandMappingToCache ord ch gid platform c)"
  by (auto simp: expandMappingToCache_def matchingPlatforms_def targetEntries_def targetsAdded_all targetsAdded_Nil split: option.splits)

subsection \<open>The whole snapshot\<close>

definition blank :: "channelCache \<Rightarrow> int \<Rightarrow> bool" where
  "blank c gid \<longleftrightarrow> (\<forall>q n. cc_pricingByGroupModel c (gid, q, n) = None \<and> cc_mappingByGroupModel c (gid, q, n) = None)
     \<and> (\<forall>q. cc_wildcardByGroupPlatform c (gid, q) = [] \<and> cc_wildcardMappingByGP c (gid, q) = [])"

definition holdsGroup :: "mappingOrder \<Rightarrow> (int \<rightharpoonup> string) \<Rightarrow> Channel \<Rightarrow> int \<Rightarrow> channelCache \<Rightarrow> bool" where
  "holdsGroup ord platforms ch gid c \<longleftrightarrow>
     (let platform = platformOf platforms gid in
      cc_channelByGroupID c gid = Some ch
      \<and> (\<forall>n. cc_pricingByGroupModel c (gid, platform, n) = latest (priceEntries ch platform) n)
      \<and> (\<forall>n. cc_mappingByGroupModel c (gid, platform, n) = latest (targetEntries ord ch gid platform) n)
      \<and> cc_wildcardByGroupPlatform c (gid, platform) = wildEntries (priceEntries ch platform)
      \<and> cc_wildcardMappingByGP c (gid, platform) = wildEntries (targetEntries ord ch gid platform))"

lemma addGroup_shape:
  "addGroup ord platforms ch c g =
     (let platform = platformOf platforms g in
      c\<lparr>cc_channelByGroupID := (cc_channelByGroupID c)(g \<mapsto> ch),
        cc_pricingByGroupModel := cc_pricingByGroupModel c ++ keyed g platform (latest (priceEntries ch platform)),
        cc_wildcardByGroupPlatform := (\<lambda>k. cc_wildcardByGroupPlatform c k @ (if k = (g, platform) then wildEntries (priceEntries ch platform) else [])),
        cc_mappingByGroupModel := cc_mappingByGroupModel c ++ keyed g platform (latest (targetEntries ord ch g platform)),
        cc_wildcardMappingByGP := (\<lambda>k. cc_wildcardMappingByGP c k @ (if k = (g, platform) then wildEntries (targetEntries ord ch g platform) else []))\<rparr>)"
  using pricesAdded_channel [of g "platformOf platforms g" ch "c\<lparr>cc_channelByGroupID := (cc_channelByGroupID c)(g \<mapsto> ch)\<rparr>"]
    targetsAdded_channel [of g "platformOf platforms g" ord ch "expandPricingToCache ch g (platformOf platforms g) (c\<lparr>cc_channelByGroupID := (cc_channelByGroupID c)(g \<mapsto> ch)\<rparr>)"]
  by (simp add: addGroup_def pricesAdded_def targetsAdded_def Let_def)

lemma addGroup_blank: "g \<noteq> gid \<Longrightarrow> blank c gid \<Longrightarrow> blank (addGroup ord platforms ch c g) gid"
  by (simp add: addGroup_shape blank_def keyed_def map_add_def Let_def)

lemma addGroup_keeps: "g \<noteq> gid \<Longrightarrow> holdsGroup ord platforms ch gid c \<Longrightarrow> holdsGroup ord platforms ch gid (addGroup ord platforms ch' c g)"
  by (simp add: addGroup_shape holdsGroup_def keyed_def map_add_def Let_def)

lemma addGroup_fills: "blank c gid \<Longrightarrow> holdsGroup ord platforms ch gid (addGroup ord platforms ch c gid)"
  by (simp add: addGroup_shape holdsGroup_def blank_def keyed_def map_add_def Let_def split: option.splits)

lemma addGroups_other:
  assumes "gid \<notin> set gs"
  shows "blank c gid \<Longrightarrow> blank (foldl (addGroup ord platforms ch') c gs) gid"
    and "holdsGroup ord platforms ch gid c \<Longrightarrow> holdsGroup ord platforms ch gid (foldl (addGroup ord platforms ch') c gs)"
  using assms by (induction gs arbitrary: c) (auto simp: addGroup_blank addGroup_keeps)

lemma addGroups_fill:
  "gid \<in> set gs \<Longrightarrow> distinct gs \<Longrightarrow> blank c gid \<Longrightarrow> holdsGroup ord platforms ch gid (foldl (addGroup ord platforms ch) c gs)"
proof (induction gs arbitrary: c)
  case (Cons g gs)
  show ?case
  proof (cases "g = gid")
    case True
    with Cons.prems show ?thesis using addGroups_other(2) [OF _ addGroup_fills] by simp
  next
    case False
    with Cons show ?thesis by (simp add: addGroup_blank)
  qed
qed simp

lemma byID_irrelevant [simp]:
  "blank (c\<lparr>cc_byID := m\<rparr>) gid = blank c gid" "holdsGroup ord platforms ch gid (c\<lparr>cc_byID := m\<rparr>) = holdsGroup ord platforms ch gid c"
  by (simp_all add: blank_def holdsGroup_def Let_def)

definition groupsOnce :: "Channel list \<Rightarrow> bool" where
  "groupsOnce channels \<longleftrightarrow> distinct (concat (map ch_GroupIDs channels))"

lemma addChannels_other:
  assumes "gid \<notin> set (concat (map ch_GroupIDs chs))"
  shows "blank c gid \<Longrightarrow> blank (foldl (addChannel ord platforms) c chs) gid"
    and "holdsGroup ord platforms ch gid c \<Longrightarrow> holdsGroup ord platforms ch gid (foldl (addChannel ord platforms) c chs)"
  using assms by (induction chs arbitrary: c) (auto simp: addChannel_def addGroups_other)

lemma addChannels_fill:
  "groupsOnce chs \<Longrightarrow> ch \<in> set chs \<Longrightarrow> gid \<in> set (ch_GroupIDs ch) \<Longrightarrow> blank c gid \<Longrightarrow>
     holdsGroup ord platforms ch gid (foldl (addChannel ord platforms) c chs)"
proof (induction chs arbitrary: c)
  case (Cons ch' chs)
  have d: "distinct (ch_GroupIDs ch')" and o: "groupsOnce chs"
    and x: "gid \<in> set (ch_GroupIDs ch') \<Longrightarrow> gid \<notin> set (concat (map ch_GroupIDs chs))" for gid
    using Cons.prems(1) by (auto simp: groupsOnce_def)
  show ?case
  proof (cases "gid \<in> set (ch_GroupIDs ch')")
    case True
    then have "ch = ch'" using Cons.prems(2,3) x by auto
    moreover have "holdsGroup ord platforms ch' gid (addChannel ord platforms c ch')"
      using True d Cons.prems(4) by (simp add: addChannel_def addGroups_fill)
    ultimately show ?thesis
      using addChannels_other(2) [OF x [OF True]] by simp
  next
    case False
    then have "ch \<in> set chs" using Cons.prems by auto
    then show ?thesis
      using Cons.IH [OF o _ Cons.prems(3)] False Cons.prems(4) by (simp add: addChannel_def addGroups_other)
  qed
qed simp

lemma populated_holds:
  "groupsOnce channels \<Longrightarrow> ch \<in> set channels \<Longrightarrow> gid \<in> set (ch_GroupIDs ch) \<Longrightarrow>
     holdsGroup ord platforms ch gid (populateChannelCache ord now channels platforms)"
  unfolding populateChannelCache_def by (rule addChannels_fill) (simp_all add: blank_def newEmptyChannelCache_def)

subsection \<open>Looking up is searching the configuration\<close>

lemma find_on_filter: "find P xs = (case filter P xs of [] \<Rightarrow> None | x # _ \<Rightarrow> Some x)"
  by (induction xs) auto

lemma map_of_filter: "map_of xs n = (case filter (\<lambda>(k, v). k = n) xs of [] \<Rightarrow> None | (k, v) # _ \<Rightarrow> Some v)"
  by (induction xs) auto

lemma exact_filter: "filter (\<lambda>(k, v). k = n) (exactEntries es) =
    map (\<lambda>(e, v). (me_prefix e, v)) (filter (\<lambda>(e, v). \<not> me_wildcard e) (filter (\<lambda>(e, v). matchesName e n) es))"
  by (induction es) (auto simp: exactEntries_def matchesName_def)

lemma wild_filter: "filter (\<lambda>(p, _). hasPrefix n p) (wildEntries es) =
    map (\<lambda>(e, v). (me_prefix e, v)) (filter (\<lambda>(e, v). me_wildcard e) (filter (\<lambda>(e, v). matchesName e n) es))"
  by (induction es) (auto simp: wildEntries_def matchesName_def)

lemma two_steps_are_one:
  assumes "matchedOnce (map fst es)"
  shows "(case latest es n of Some v \<Rightarrow> Some v | None \<Rightarrow> map_option snd (find (\<lambda>(p, _). hasPrefix n p) (wildEntries es)))
    = map_option snd (find (\<lambda>(e, v). matchesName e n) es)"
proof -
  let ?F = "filter (\<lambda>(e, v). matchesName e n) es"
  have "length (filter (\<lambda>e. matchesName e n) (map fst es)) \<le> 1" using assms by (simp add: matchedOnce_def)
  then have "length ?F \<le> 1" by (simp add: filter_map comp_def case_prod_unfold)
  then consider "?F = []" | e v where "?F = [(e, v)]" by (cases ?F) auto
  then show ?thesis
    by cases (simp_all add: latest_def map_of_filter [of "rev _"] rev_filter [symmetric] exact_filter
        find_on_filter [of "\<lambda>(p, _). hasPrefix n p"] wild_filter find_on_filter [of "\<lambda>(e, v). matchesName e n"])
qed

lemma firsts_priceEntries: "map fst (priceEntries ch platform) = platformEntries (ch_ModelPricing ch) platform"
  by (simp add: priceEntries_def platformEntries_def map_concat comp_def if_distrib [of "map fst"] cong: if_cong)

definition configuredPrice :: "Channel \<Rightarrow> string \<Rightarrow> string \<Rightarrow> ChannelModelPricing option" where
  "configuredPrice ch platform model =
     find (\<lambda>p. cp_Platform p = platform \<and> list_ex (\<lambda>m. matchesName (toModelEntry m) (toLower model)) (cp_Models p)) (ch_ModelPricing ch)"

lemma find_append: "find P (xs @ ys) = (case find P xs of Some x \<Rightarrow> Some x | None \<Rightarrow> find P ys)"
  by (induction xs) auto

lemma find_entries_of_price:
  "find (\<lambda>(e, v). Q e) (map (\<lambda>m. (f m, p)) ms) = (if list_ex (\<lambda>m. Q (f m)) ms then Some (f (the (find (\<lambda>m. Q (f m)) ms)), p) else None)"
  by (induction ms) auto

lemma configuredPrice_entries:
  "configuredPrice ch platform model = map_option snd (find (\<lambda>(e, v). matchesName e (toLower model)) (priceEntries ch platform))"
proof -
  let ?es = "\<lambda>p. if cp_Platform p = platform then map (\<lambda>m. (toModelEntry m, p)) (cp_Models p) else []"
  have "find (\<lambda>p. cp_Platform p = platform \<and> list_ex (\<lambda>m. matchesName (toModelEntry m) (toLower model)) (cp_Models p)) ps
      = map_option snd (find (\<lambda>(e, v). matchesName e (toLower model)) (concat (map ?es ps)))" for ps
    by (induction ps) (auto simp: find_append find_entries_of_price)
  then show ?thesis by (simp add: configuredPrice_def priceEntries_def)
qed

text \<open>
  C21: The price found in the snapshot is the price of the one entry of the channel whose pattern
  matches the model.
\<close>

theorem cached_price_is_configured_price:
  assumes "groupsOnce channels" and "ch \<in> set channels" and "gid \<in> set (ch_GroupIDs ch)"
    and "validateNoConflictingModels (ch_ModelPricing ch) = None"
  shows "lookupPricingAcrossPlatforms (populateChannelCache ord now channels platforms) gid (platformOf platforms gid) (toLower model)
    = configuredPrice ch (platformOf platforms gid) model"
proof -
  let ?q = "platformOf platforms gid" and ?c = "populateChannelCache ord now channels platforms"
  have h: "holdsGroup ord platforms ch gid ?c" using assms(1-3) by (rule populated_holds)
  have "matchedOnce (map fst (priceEntries ch ?q))" using assms(4) by (simp add: firsts_priceEntries models_ok_iff)
  from two_steps_are_one [OF this, of "toLower model"] show ?thesis
    using h unfolding configuredPrice_entries lookupPricingAcrossPlatforms_def matchWildcard_def matchingPlatforms_def holdsGroup_def Let_def
    by (auto split: option.splits)
qed

definition configuredTarget :: "Channel \<Rightarrow> string \<Rightarrow> string \<Rightarrow> string" where
  "configuredTarget ch platform model =
     (case map_of (ch_ModelMapping ch) platform of
        None \<Rightarrow> []
      | Some mp \<Rightarrow> (case find (\<lambda>(src, dst). matchesName (toModelEntry src) (toLower model)) mp of Some (src, dst) \<Rightarrow> dst | None \<Rightarrow> []))"

definition reorders :: "mappingOrder \<Rightarrow> bool" where
  "reorders ord \<longleftrightarrow> (\<forall>c g mp. mset (ord c g mp) = mset mp)"

lemma find_mapEntries: "map_option snd (find (\<lambda>(e, v). Q e) (mapEntries mp)) = map_option snd (find (\<lambda>(src, dst). Q (toModelEntry src)) mp)"
  by (induction mp) (auto simp: mapEntries_def)

lemma matchedOnce_mset: "mset es = mset es' \<Longrightarrow> matchedOnce es \<longleftrightarrow> matchedOnce es'"
  unfolding matchedOnce_def using length_filter_mset by metis

lemma mappings_ok:
  assumes "validateNoConflictingMappings mapping = None" and "map_of mapping platform = Some mp"
  shows "matchedOnce (map fst (mapEntries mp))"
proof -
  have "detectConflicts (map (\<lambda>(src, _). toModelEntry src) mp) = None"
    using assms map_of_SomeD [OF assms(2)] by (auto simp: validateNoConflictingMappings_def firstSome_None)
  moreover have "map (\<lambda>(src, _). toModelEntry src) mp = map fst (mapEntries mp)"
    by (simp add: mapEntries_def case_prod_unfold)
  ultimately show ?thesis by (simp add: detectConflicts_iff)
qed

text \<open>C24: The order Go walks the mapping in does not matter, since no two patterns match one name.\<close>

theorem cached_target_is_configured_target:
  assumes "groupsOnce channels" and "ch \<in> set channels" and "gid \<in> set (ch_GroupIDs ch)"
    and "validateNoConflictingMappings (ch_ModelMapping ch) = None" and "reorders ord"
  shows "lookupMappingAcrossPlatforms (populateChannelCache ord now channels platforms) gid (platformOf platforms gid) (toLower model)
    = configuredTarget ch (platformOf platforms gid) model"
proof -
  let ?q = "platformOf platforms gid" and ?c = "populateChannelCache ord now channels platforms"
  let ?es = "targetEntries ord ch gid ?q" and ?n = "toLower model"
  have h: "holdsGroup ord platforms ch gid ?c" using assms(1-3) by (rule populated_holds)
  have l: "lookupMappingAcrossPlatforms ?c gid ?q ?n = (case map_option snd (find (\<lambda>(e, v). matchesName e ?n) ?es) of Some m \<Rightarrow> m | None \<Rightarrow> [])"
    if "matchedOnce (map fst ?es)"
    using two_steps_are_one [OF that, of ?n, symmetric] h
    unfolding lookupMappingAcrossPlatforms_def matchWildcardMapping_def matchingPlatforms_def holdsGroup_def Let_def
    by (auto split: option.splits prod.splits)
  show ?thesis
  proof (cases "map_of (ch_ModelMapping ch) ?q")
    case None
    then show ?thesis using l by (simp add: targetEntries_def configuredTarget_def matchedOnce_def)
  next
    case (Some mp)
    let ?o = "ord (ch_ID ch) gid mp"
    have m: "mset ?o = mset mp" using assms(5) by (simp add: reorders_def)
    have once: "matchedOnce (map fst (mapEntries mp))" using assms(4) Some by (rule mappings_ok)
    have "mset (map fst (mapEntries ?o)) = mset (map fst (mapEntries mp))" using m by (simp add: mapEntries_def)
    with once have once': "matchedOnce (map fst (mapEntries ?o))" using matchedOnce_mset by blast
    have "length (filter (\<lambda>e. matchesName e ?n) (map fst (mapEntries ?o))) \<le> 1" using once' by (simp add: matchedOnce_def)
    then have "length (filter (\<lambda>(src, dst). matchesName (toModelEntry src) ?n) ?o) \<le> 1"
      by (simp add: mapEntries_def filter_map comp_def case_prod_unfold)
    then have "find (\<lambda>(src, dst). matchesName (toModelEntry src) ?n) ?o = find (\<lambda>(src, dst). matchesName (toModelEntry src) ?n) mp"
      using m by (rule find_unique)
    then have "map_option snd (find (\<lambda>(e, v). matchesName e ?n) ?es) = map_option snd (find (\<lambda>(src, dst). matchesName (toModelEntry src) ?n) mp)"
      using Some find_mapEntries [of "\<lambda>e. matchesName e ?n" ?o] by (simp add: targetEntries_def)
    moreover have "matchedOnce (map fst ?es)" using once' Some by (simp add: targetEntries_def)
    ultimately show ?thesis
      using l Some by (cases "find (\<lambda>(src, dst). matchesName (toModelEntry src) ?n) mp") (auto simp: configuredTarget_def)
  qed
qed

subsection \<open>An example\<close>

definition someInterval :: "int \<Rightarrow> int option \<Rightarrow> PricingInterval" where
  "someInterval lo hi = \<lparr>iv_ID = 0, iv_PricingID = 0, iv_MinTokens = lo, iv_MaxTokens = hi, iv_TierLabel = [], iv_InputPrice = Some (Fin 1),
     iv_OutputPrice = None, iv_CacheWritePrice = None, iv_CacheReadPrice = None, iv_PerRequestPrice = None, iv_SortOrder = 0\<rparr>"

definition somePricing :: "string list \<Rightarrow> ChannelModelPricing" where
  "somePricing models = \<lparr>cp_ID = 1, cp_ChannelID = 1, cp_Platform = ''openai'', cp_Models = models, cp_Capabilities = [],
     cp_BillingMode = ''token'', cp_InputPrice = Some (Fin 1), cp_OutputPrice = None, cp_CacheWritePrice = None, cp_CacheReadPrice = None,
     cp_ImageOutputPrice = None, cp_PerRequestPrice = None, cp_Intervals = []\<rparr>"

definition someChannel :: Channel where
  "someChannel = \<lparr>ch_ID = 1, ch_Name = ''a'', ch_Description = [], ch_Status = ''active'', ch_BillingModelSource = [], ch_RestrictModels = True,
     ch_Features = [], ch_FeaturesConfig = None, ch_GroupIDs = [7, 8], ch_ModelPricing = [somePricing [''GPT-4*''], somePricing [''o3'']],
     ch_ModelMapping = [(''openai'', [(''a*'', ''o3''), (''b'', ''o4'')])], ch_ApplyPricingToAccountStats = False, ch_AccountStatsPricingRules = []\<rparr>"

lemma some_valid: "validateNoConflictingModels (ch_ModelPricing someChannel) = None" "validateNoConflictingMappings (ch_ModelMapping someChannel) = None"
  by (simp_all add: someChannel_def somePricing_def validateNoConflictingModels_def validateNoConflictingMappings_def platformEntries_def
      toModelEntry_def conflictsBetween_def toLower_def lowerByte_def hasSuffix_def trimSuffix_def hasPrefix_def Let_def)

lemma some_groups: "groupsOnce [someChannel]" "7 \<in> set (ch_GroupIDs someChannel)" "8 \<in> set (ch_GroupIDs someChannel)"
  by (simp_all add: groupsOnce_def someChannel_def)

lemma some_platforms: "platformOf [7 \<mapsto> ''openai'', 8 \<mapsto> ''openai''] 7 = ''openai''" "platformOf [7 \<mapsto> ''openai'', 8 \<mapsto> ''openai''] 8 = ''openai''"
  by (simp_all add: platformOf_def)

lemma cached_price_is_configured_price_witness:
  "lookupPricingAcrossPlatforms (populateChannelCache (\<lambda>_ _ mp. rev mp) 0 [someChannel] [7 \<mapsto> ''openai'', 8 \<mapsto> ''openai'']) 8 ''openai'' (toLower ''Gpt-4o'')
    = Some (somePricing [''GPT-4*''])"
proof -
  have "configuredPrice someChannel ''openai'' ''Gpt-4o'' = Some (somePricing [''GPT-4*''])"
    by (simp add: someChannel_def configuredPrice_def somePricing_def matchesName_def
      toModelEntry_def toLower_def lowerByte_def char_of_def bit_simps hasSuffix_def trimSuffix_def hasPrefix_def Let_def)
  then show ?thesis
    using cached_price_is_configured_price [OF some_groups(1) _ some_groups(3) some_valid(1),
        of "\<lambda>_ _ mp. rev mp" 0 "[7 \<mapsto> ''openai'', 8 \<mapsto> ''openai'']" "''Gpt-4o''"]
    unfolding some_platforms by simp
qed

lemma cached_target_is_configured_target_witness:
  "lookupMappingAcrossPlatforms (populateChannelCache (\<lambda>_ _ mp. rev mp) 0 [someChannel] [7 \<mapsto> ''openai'', 8 \<mapsto> ''openai'']) 7 ''openai'' (toLower ''Abc'') = ''o3''"
proof -
  have r: "reorders (\<lambda>_ _ mp. rev mp)" by (simp add: reorders_def)
  have "configuredTarget someChannel ''openai'' ''Abc'' = ''o3''"
    by (simp add: someChannel_def configuredTarget_def matchesName_def
      toModelEntry_def toLower_def lowerByte_def char_of_def bit_simps hasSuffix_def trimSuffix_def hasPrefix_def Let_def)
  then show ?thesis
    using cached_target_is_configured_target [OF some_groups(1) _ some_groups(2) some_valid(2) r,
        of 0 "[7 \<mapsto> ''openai'', 8 \<mapsto> ''openai'']" "''Abc''"]
    unfolding some_platforms by simp
qed

end
