(* ===== verification/ChannelValidity.thy ===== *)
theory ChannelValidity
  imports ChannelService ChannelLookup
begin

section \<open>Storing a valid configuration keeps it valid\<close>

text \<open>
  What the validation of a configuration means entry by entry, and that what the tables make of a
  valid configuration (rounded prices, filled-in defaults, another order of intervals and rules)
  is valid again.
\<close>

lemma both_None [simp]: "both a b = None \<longleftrightarrow> a = None \<and> b = None"
  by (simp add: both_def split: option.split)

definition entryOk :: "ChannelModelPricing \<Rightarrow> bool" where
  "entryOk p \<longleftrightarrow> ValidateIntervals (cp_Intervals p) = None \<and> checkBillingModeRequirements p = None
     \<and> checkPricesNotNegative p = None \<and> checkIntervalsHavePrices p = None"

lemma validatePricingEntries_ok:
  "validatePricingEntries ps = None \<longleftrightarrow> validateNoConflictingModels ps = None \<and> list_all entryOk ps"
proof -
  have "validatePricingIntervals ps = None \<longleftrightarrow> list_all (\<lambda>p. ValidateIntervals (cp_Intervals p) = None) ps"
    by (induction ps) auto
  moreover have "validatePricingBillingMode ps = None \<longleftrightarrow>
      list_all (\<lambda>p. checkBillingModeRequirements p = None \<and> checkPricesNotNegative p = None \<and> checkIntervalsHavePrices p = None) ps"
    by (induction ps) auto
  ultimately show ?thesis
    by (cases "validateNoConflictingModels ps") (auto simp: validatePricingEntries_def entryOk_def list_all_iff)
qed

definition rulesOk :: "AccountStatsPricingRule list \<Rightarrow> bool" where
  "rulesOk rs \<longleftrightarrow> list_all (\<lambda>r. validatePricingEntries (ar_Pricing r) = None) rs"

lemma validateRules_ok: "validateRules rs = None \<longleftrightarrow> rulesOk rs"
  by (induction rs) (auto simp: rulesOk_def)

definition configOk :: "Channel \<Rightarrow> bool" where
  "configOk ch \<longleftrightarrow> validatePricingEntries (ch_ModelPricing ch) = None \<and> validateNoConflictingMappings (ch_ModelMapping ch) = None
     \<and> rulesOk (ch_AccountStatsPricingRules ch)"

lemma validateChannel_Inr: "validateChannel ch s = (Inr ch', s') \<longleftrightarrow> configOk ch \<and> ch' = normalizedChannel ch \<and> s' = s"
  using validateRules_ok [of "ch_AccountStatsPricingRules ch"]
  by (cases "both (validateChannelConfig (ch_ModelPricing ch) (ch_ModelMapping ch)) (validateRules (ch_AccountStatsPricingRules ch))";
      cases "validateNoConflictingMappings (ch_ModelMapping ch)")
    (auto simp: validateChannel_def configOk_def validateChannelConfig_def both_def fail_def ret_def split: option.splits)

text \<open>Two lists of entries with the same names, entry by entry, have the same conflicts.\<close>

lemma conflicts_same:
  "map (\<lambda>p. (cp_Platform p, cp_Models p)) ps = map (\<lambda>p. (cp_Platform p, cp_Models p)) qs \<Longrightarrow>
     validateNoConflictingModels ps = None \<longleftrightarrow> validateNoConflictingModels qs = None"
proof -
  assume eq: "map (\<lambda>p. (cp_Platform p, cp_Models p)) ps = map (\<lambda>p. (cp_Platform p, cp_Models p)) qs"
  have "platformEntries ps platform = concat (map (\<lambda>(q, ms). if q = platform then map toModelEntry ms else [])
      (map (\<lambda>p. (cp_Platform p, cp_Models p)) ps))" for ps platform
    by (simp add: platformEntries_def comp_def)
  then have "platformEntries ps platform = platformEntries qs platform" for platform using eq by (simp del: map_map)
  then show "validateNoConflictingModels ps = None \<longleftrightarrow> validateNoConflictingModels qs = None"
    by (simp add: models_ok_iff)
qed

text \<open>Rounding to the decimals of a column never makes a price negative.\<close>

definition roundsPrices :: "chancols \<Rightarrow> bool" where
  "roundsPrices c \<longleftrightarrow> (\<forall>v. \<not> flt v (Fin 0) \<longrightarrow> \<not> flt (cl_price c v) (Fin 0) \<and> \<not> flt (cl_request c v) (Fin 0)
     \<and> \<not> flt (cl_image c v) (Fin 0) \<and> \<not> flt (cl_stats c v) (Fin 0))"

lemma negative_rounded:
  assumes "roundsPrices c" and "\<not> negative v"
  shows "\<not> negative (map_option (cl_price c) v)" "\<not> negative (map_option (cl_request c) v)"
    "\<not> negative (map_option (cl_image c) v)" "\<not> negative (map_option (cl_stats c) v)"
  using assms by (auto simp: roundsPrices_def negative_def split: option.splits)

lemma storedInterval_simps [simp]:
  "iv_MinTokens (storedInterval c i pid iv) = iv_MinTokens iv" "iv_MaxTokens (storedInterval c i pid iv) = iv_MaxTokens iv"
  "iv_InputPrice (storedInterval c i pid iv) = map_option (cl_price c) (iv_InputPrice iv)"
  "iv_OutputPrice (storedInterval c i pid iv) = map_option (cl_price c) (iv_OutputPrice iv)"
  "iv_CacheWritePrice (storedInterval c i pid iv) = map_option (cl_price c) (iv_CacheWritePrice iv)"
  "iv_CacheReadPrice (storedInterval c i pid iv) = map_option (cl_price c) (iv_CacheReadPrice iv)"
  "iv_PerRequestPrice (storedInterval c i pid iv) = map_option (cl_price c) (iv_PerRequestPrice iv)"
  "unpriced (storedInterval c i pid iv) = unpriced iv" "covers n (storedInterval c i pid iv) = covers n iv"
  by (simp_all add: storedInterval_def unpriced_def covers_def)

lemma storedInterval_wf: "roundsPrices c \<Longrightarrow> wellFormed iv \<Longrightarrow> wellFormed (storedInterval c i pid iv)"
  by (cases "iv_MaxTokens iv") (simp_all add: wellFormed_def intervalPrices_def negative_rounded(1))

text \<open>\<open>stored\<close>: a row made of an entry, by either table of entries.\<close>

definition storedIntervals :: "chancols \<Rightarrow> PricingInterval list \<Rightarrow> PricingInterval list \<Rightarrow> bool" where
  "storedIntervals c = list_all2 (\<lambda>iv row. \<exists>i pid. row = storedInterval c i pid iv)"

lemma storedIntervals_ok:
  assumes "storedIntervals c ivs rows" and "roundsPrices c" and "ValidateIntervals ivs = None"
  shows "ValidateIntervals rows = None"
proof -
  have "list_all wellFormed rows" if "list_all wellFormed ivs"
    using assms(1) that unfolding storedIntervals_def
    by (induction rule: list_all2_induct) (auto intro: storedInterval_wf [OF assms(2)])
  moreover have "length (filter (covers n) rows) = length (filter (covers n) ivs)" for n
    using assms(1) unfolding storedIntervals_def by (induction rule: list_all2_induct) auto
  ultimately show ?thesis using assms(3) by (simp add: intervals_accepted_iff coveredOnce_def)
qed

lemma storedIntervals_misc: "storedIntervals c ivs rows \<Longrightarrow> list_ex unpriced rows = list_ex unpriced ivs \<and> (rows = [] \<longleftrightarrow> ivs = [])"
  unfolding storedIntervals_def by (induction rule: list_all2_induct) auto

text \<open>What both tables do to an entry.\<close>

definition rowOf :: "chancols \<Rightarrow> ChannelModelPricing \<Rightarrow> ChannelModelPricing \<Rightarrow> bool" where
  "rowOf c p row \<longleftrightarrow> cp_Models row = cp_Models p \<and> (cp_Platform p \<noteq> [] \<longrightarrow> cp_Platform row = cp_Platform p)
     \<and> cp_BillingMode row = (if cp_BillingMode p = [] then BillingModeToken else cp_BillingMode p)
     \<and> (cp_PerRequestPrice row = None \<longleftrightarrow> cp_PerRequestPrice p = None)
     \<and> (roundsPrices c \<longrightarrow> checkPricesNotNegative p = None \<longrightarrow> checkPricesNotNegative row = None)
     \<and> storedIntervals c (cp_Intervals p) (cp_Intervals row)"

lemma rowOf_stored:
  assumes "storedIntervals c (cp_Intervals p) ivs"
  shows "rowOf c p ((storedPricing c i p)\<lparr>cp_Intervals := ivs\<rparr>)" and "rowOf c p ((storedStatsPricing c i p)\<lparr>cp_Intervals := ivs\<rparr>)"
proof -
  have "cp_Models (storedPricing c i p) = cp_Models p" "cp_Platform p \<noteq> [] \<longrightarrow> cp_Platform (storedPricing c i p) = cp_Platform p"
    "cp_BillingMode (storedPricing c i p) = (if cp_BillingMode p = [] then BillingModeToken else cp_BillingMode p)"
    "cp_PerRequestPrice (storedPricing c i p) = None \<longleftrightarrow> cp_PerRequestPrice p = None"
    by (simp_all add: storedPricing_def)
  moreover have "checkPricesNotNegative (storedPricing c i p) = None" if "roundsPrices c" "checkPricesNotNegative p = None"
    using that by (simp add: checkPricesNotNegative_def storedPricing_def negative_rounded split: if_splits)
  ultimately show "rowOf c p ((storedPricing c i p)\<lparr>cp_Intervals := ivs\<rparr>)"
    using assms by (simp add: rowOf_def checkPricesNotNegative_def)
next
  have "cp_Models (storedStatsPricing c i p) = cp_Models p" "cp_Platform (storedStatsPricing c i p) = cp_Platform p"
    "cp_BillingMode (storedStatsPricing c i p) = (if cp_BillingMode p = [] then BillingModeToken else cp_BillingMode p)"
    "cp_PerRequestPrice (storedStatsPricing c i p) = None \<longleftrightarrow> cp_PerRequestPrice p = None"
    by (simp_all add: storedStatsPricing_def)
  moreover have "checkPricesNotNegative (storedStatsPricing c i p) = None" if "roundsPrices c" "checkPricesNotNegative p = None"
    using that by (simp add: checkPricesNotNegative_def storedStatsPricing_def negative_rounded split: if_splits)
  ultimately show "rowOf c p ((storedStatsPricing c i p)\<lparr>cp_Intervals := ivs\<rparr>)"
    using assms by (simp add: rowOf_def checkPricesNotNegative_def)
qed

lemma rowOf_ok:
  assumes row: "rowOf c p row" and "roundsPrices c" and ok: "entryOk p"
  shows "entryOk row"
proof -
  have s: "storedIntervals c (cp_Intervals p) (cp_Intervals row)" using row by (simp add: rowOf_def)
  have "ValidateIntervals (cp_Intervals row) = None" using storedIntervals_ok [OF s assms(2)] ok by (simp add: entryOk_def)
  moreover have "checkIntervalsHavePrices row = None"
    using ok storedIntervals_misc [OF s] by (simp add: entryOk_def checkIntervalsHavePrices_def split: if_splits)
  moreover have "checkBillingModeRequirements row = None"
    using ok row storedIntervals_misc [OF s] by (auto simp: entryOk_def rowOf_def checkBillingModeRequirements_def split: if_splits)
  moreover have "checkPricesNotNegative row = None" using row assms(2) ok by (simp add: rowOf_def entryOk_def)
  ultimately show ?thesis by (simp add: entryOk_def)
qed

text \<open>The platform of a main entry is never empty; a rule's may be, and is stored as it is.\<close>

lemma rows_ok:
  assumes rows: "list_all2 (rowOf c) ps rows" and r: "roundsPrices c" and ok: "validatePricingEntries ps = None"
    and pl: "list_all2 (\<lambda>p row. cp_Platform row = cp_Platform p) ps rows"
  shows "validatePricingEntries rows = None"
proof -
  have "list_all entryOk rows" if "list_all entryOk ps"
    using rows that by (induction rule: list_all2_induct) (auto intro: rowOf_ok [OF _ r])
  moreover have "map (\<lambda>p. (cp_Platform p, cp_Models p)) rows = map (\<lambda>p. (cp_Platform p, cp_Models p)) ps"
    using rows pl by (induction rule: list_all2_induct) (auto simp: rowOf_def)
  then have "validateNoConflictingModels rows = None \<longleftrightarrow> validateNoConflictingModels ps = None" by (rule conflicts_same)
  ultimately show ?thesis using ok by (simp add: validatePricingEntries_ok)
qed

end
