(* ===== verification/ChannelConsistency.thy ===== *)
theory ChannelConsistency
  imports ChannelValidity
begin

section \<open>The tables of the channels stay consistent\<close>

text \<open>
  The invariant of the tables: ids and names are unique, a group belongs to at most one channel
  and exists, and every stored configuration passes the validation.  It holds in every state
  the administrators' requests reach, however the database fails in between.
\<close>

subsection \<open>The invariant\<close>

definition platformsSet :: "ChannelModelPricing list \<Rightarrow> bool" where
  "platformsSet ps \<longleftrightarrow> list_all (\<lambda>p. cp_Platform p \<noteq> []) ps"

definition rowValid :: "Channel \<Rightarrow> bool" where
  "rowValid ch \<longleftrightarrow> configOk ch \<and> platformsSet (ch_ModelPricing ch)"

definition consistent :: "'a chanstate_scheme \<Rightarrow> bool" where
  "consistent s \<longleftrightarrow> distinct (map ch_ID (cs_channels s)) \<and> list_all (\<lambda>x. ch_ID x < cs_seq s ''channels'') (cs_channels s)
     \<and> distinct (map ch_Name (cs_channels s)) \<and> groupsOnce (cs_channels s)
     \<and> list_all (\<lambda>x. set (ch_GroupIDs x) \<subseteq> dom (cs_groups s)) (cs_channels s) \<and> list_all rowValid (cs_channels s)"

definition held :: "int \<Rightarrow> 'a chanstate_scheme \<Rightarrow> bool" where
  "held n s \<longleftrightarrow> consistent s \<and> n \<le> cs_seq s ''channels''"

lemma held_simps [simp]:
  "held n (s\<lparr>e_faults := fs\<rparr>) = held n s" "held n (s\<lparr>e_now := t\<rparr>) = held n s"
  "held n (s\<lparr>cs_cache := k\<rparr>) = held n s" "held n (s\<lparr>cs_authInvalidated := v\<rparr>) = held n s"
  by (simp_all add: held_def consistent_def)

lemma keeps_held_db: "keepsP (held n) act \<Longrightarrow> keepsP (held n) (db tag act)"
  by (rule keeps_db) auto

lemma keeps_nextval [keeps]: "keepsP (held n) (nextval table)"
  by (auto simp: keepsP_def nextval_def held_def consistent_def list_all_iff)

lemma hoare_held_db: "hoareP (held n) act (held n) Q \<Longrightarrow> hoareP (held n) (db tag act) (held n) Q"
  by (rule hoareP_db) auto

text \<open>A transaction restores the table; the sequence has only moved on since.\<close>

lemma keeps_held_withTx:
  fixes m :: "('a chanstate_scheme, 'b) proc"
  assumes m: "\<And>k. keepsP (held k) m"
  shows "keepsP (held n) (withTx undoChannels m)"
proof (rule keepsPI)
  fix s :: "'a chanstate_scheme"
  assume h: "held n s"
  obtain r1 s1 where 1: "db ''begin transaction'' (ret ()) s = (r1, s1)" by fastforce
  obtain r2 s2 where 2: "m s1 = (r2, s2)" by fastforce
  obtain r3 s3 where 3: "db ''commit transaction'' (ret ()) s2 = (r3, s3)" by fastforce
  have d: "keepsP (held k) (db t (ret ()))" for k t by (intro keeps_held_db keeps)
  let ?k = "cs_seq s1 ''channels''"
  have s1: "held n s1" using keepsPD [OF d h] 1 by (metis snd_conv)
  then have "held ?k s1" by (simp add: held_def)
  then have s2: "held ?k s2" using keepsPD [OF m] 2 by (metis snd_conv)
  then have s3: "held ?k s3" using keepsPD [OF d] 3 by (metis snd_conv)
  have undo: "held n (undoChannels s1 t)" if "held ?k t" for t
    using s1 that by (auto simp: held_def consistent_def undoChannels_def list_all_iff)
  show "held n (snd (withTx undoChannels m s))"
    by (cases r1; cases r2; cases r3)
      (use s1 undo [OF s2] undo [OF s3] s3 in \<open>simp_all add: withTx_def 1 2 3\<close>, use s1 s3 in \<open>simp add: held_def\<close>)
qed

subsection \<open>Changes of rows\<close>

lemma keeps_updChannel:
  assumes "\<And>x. ch_ID (f x) = ch_ID x \<and> ch_Name (f x) = ch_Name x \<and> ch_GroupIDs (f x) = ch_GroupIDs x"
    and "\<And>x. rowValid x \<Longrightarrow> rowValid (f x)"
  shows "keepsP (held n) (updChannel i f)"
proof (rule keepsPI)
  fix s :: "'a chanstate_scheme"
  assume "held n s"
  then show "held n (snd (updChannel i f s))"
    using assms by (simp add: updChannel_def modP_def held_def consistent_def groupsOnce_def) (auto simp: list_all_iff set_updRows; blast)
qed

lemma groupsOnce_upd:
  assumes "distinct (map ch_ID xs)" and "groupsOnce xs" and "distinct gids"
    and "\<forall>x \<in> set xs. ch_ID x = i \<or> set (ch_GroupIDs x) \<inter> set gids = {}"
  shows "groupsOnce (updRows (\<lambda>x. ch_ID x = i) (\<lambda>x. x\<lparr>ch_GroupIDs := gids\<rparr>) xs)"
  using assms
proof (induction xs)
  case (Cons x xs)
  let ?u = "updRows (\<lambda>x. ch_ID x = i) (\<lambda>x. x\<lparr>ch_GroupIDs := gids\<rparr>)"
  show ?case
  proof (cases "ch_ID x = i")
    case True
    have "?u xs = map (\<lambda>x. x) xs" unfolding updRows_def by (rule map_cong) (use True Cons.prems(1) in \<open>auto simp: image_iff\<close>)
    moreover have "\<forall>y \<in> set xs. set (ch_GroupIDs y) \<inter> set gids = {}" using True Cons.prems(1,4) by (metis distinct.simps(2) image_eqI list.set_map list.simps(9) list.set_intros(2))
    ultimately show ?thesis using True Cons.prems by (auto simp: groupsOnce_def updRows_def)
  next
    case False
    have "set (concat (map ch_GroupIDs (?u xs))) \<subseteq> set gids \<union> set (concat (map ch_GroupIDs xs))" by (auto simp: updRows_def split: if_splits)
    moreover have "set (ch_GroupIDs x) \<inter> (set gids \<union> set (concat (map ch_GroupIDs xs))) = {}"
      using False Cons.prems(2,4) by (auto simp: groupsOnce_def)
    ultimately have "set (ch_GroupIDs x) \<inter> set (concat (map ch_GroupIDs (?u xs))) = {}" by blast
    moreover have "groupsOnce (?u xs)" by (rule Cons.IH) (use Cons.prems in \<open>simp_all add: groupsOnce_def\<close>)
    moreover have "?u (x # xs) = x # ?u xs" using False by (simp add: updRows_def)
    moreover have "distinct (ch_GroupIDs x)" using Cons.prems(2) by (simp add: groupsOnce_def)
    ultimately show ?thesis by (simp add: groupsOnce_def)
  qed
qed (simp add: groupsOnce_def updRows_def)

lemma held_setGroups:
  assumes h: "held n s" and g: "gids = [] \<or> groupsFree i gids s"
  shows "held n (s\<lparr>cs_channels := updRows (\<lambda>x. ch_ID x = i) (\<lambda>x. x\<lparr>ch_GroupIDs := gids\<rparr>) (cs_channels s)\<rparr>)"
proof -
  have c: "consistent s" using h by (simp add: held_def)
  have "groupsOnce (updRows (\<lambda>x. ch_ID x = i) (\<lambda>x. x\<lparr>ch_GroupIDs := gids\<rparr>) (cs_channels s))"
    by (rule groupsOnce_upd) (use c g in \<open>auto simp: consistent_def groupsFree_def list_all_iff\<close>)
  moreover have "rowValid (x\<lparr>ch_GroupIDs := gids\<rparr>) = rowValid x" for x
    by (simp add: rowValid_def configOk_def)
  ultimately show ?thesis
    using h g by (simp add: held_def consistent_def) (auto simp: list_all_iff set_updRows groupsFree_def)
qed

lemma keeps_setGroupIDsTx [keeps]: "keepsP (held n) (setGroupIDsTx i gids)"
proof -
  have "keepsP (held n) (updChannel i (\<lambda>x. x\<lparr>ch_GroupIDs := []\<rparr>))"
    by (rule keepsPI) (simp add: updChannel_def modP_def held_setGroups)
  moreover have "keepsP (held n) (\<lambda>s. if groupsFree i gids s then updChannel i (\<lambda>x. x\<lparr>ch_GroupIDs := gids\<rparr>) s
      else (Inl (Internal ''constraint violation''), s))"
    by (rule keepsPI) (simp add: updChannel_def modP_def held_setGroups)
  ultimately show ?thesis
    unfolding setGroupIDsTx_def by (intro keeps keeps_held_db)
qed

subsection \<open>Storing entries\<close>

lemma hoareP_mapP:
  assumes "\<And>x. hoareP P (f x) P (\<lambda>y s. P s \<and> R x y)"
  shows "hoareP P (mapP f xs) P (\<lambda>ys s. P s \<and> list_all2 R xs ys)"
proof (induction xs)
  case Nil
  show ?case by (simp add: hoareP_ret)
next
  case (Cons x xs)
  have "hoareP (\<lambda>s. P s \<and> R x y) (bindP (mapP f xs) (\<lambda>ys. ret (y # ys))) P (\<lambda>ys s. P s \<and> list_all2 R (x # xs) ys)" for y
    by (rule hoareP_pure, rule hoareP_bind [OF Cons.IH], rule hoareP_ret) simp
  then show ?case unfolding mapP.simps by (rule hoareP_bind [OF assms])
qed

text \<open>Inserting one row under the next id of its sequence.\<close>

lemma hoare_insert:
  assumes "\<And>i. R (row i)"
  shows "hoareP (held n) (db tag (if bad then fail misfit else bindP (nextval table) (\<lambda>i. ret (row i)))) (held n) (\<lambda>y s. held n s \<and> R y)"
proof (rule hoare_held_db, rule hoareP_if)
  show "hoareP (held n) (fail misfit) (held n) (\<lambda>y s. held n s \<and> R y)" by (rule hoareP_fail)
  show "hoareP (held n) (bindP (nextval table) (\<lambda>i. ret (row i))) (held n) (\<lambda>y s. held n s \<and> R y)"
    by (rule hoareP_bind [OF hoareP_keeps [OF keeps_nextval]], rule hoareP_ret) (simp add: assms)
qed

lemma hoare_interval:
  "hoareP (held n) (createIntervalExec c table pid iv) (held n) (\<lambda>row s. held n s \<and> (\<exists>i pid. row = storedInterval c i pid iv))"
  unfolding createIntervalExec_def by (rule hoare_insert) blast

lemma hoare_intervals:
  "hoareP (held n) (mapP (createIntervalExec c table pid) ivs) (held n) (\<lambda>rows s. held n s \<and> storedIntervals c ivs rows)"
  unfolding storedIntervals_def by (rule hoareP_mapP) (rule hoare_interval)

definition mainRow :: "chancols \<Rightarrow> ChannelModelPricing \<Rightarrow> ChannelModelPricing \<Rightarrow> bool" where
  "mainRow c p row \<longleftrightarrow> rowOf c p row \<and> cp_Platform row = (if cp_Platform p = [] then PlatformAnthropic else cp_Platform p)"

lemma hoare_createModelPricing:
  "hoareP (held n) (createModelPricingExec c p) (held n) (\<lambda>row s. held n s \<and> mainRow c p row)"
  unfolding createModelPricingExec_def
proof (rule hoareP_bind [OF hoare_insert [where R = "\<lambda>row. \<exists>i. row = storedPricing c i p"]], blast)
  fix row
  show "hoareP (\<lambda>s. held n s \<and> (\<exists>i. row = storedPricing c i p))
      (bindP (mapP (createIntervalExec c ''channel_pricing_intervals'' (cp_ID row)) (cp_Intervals p)) (\<lambda>ivs. ret (row\<lparr>cp_Intervals := ivs\<rparr>)))
      (held n) (\<lambda>row s. held n s \<and> mainRow c p row)"
    by (rule hoareP_pure, rule hoareP_bind [OF hoare_intervals], rule hoareP_ret)
      (auto simp: mainRow_def rowOf_stored(1), auto simp: storedPricing_def)
qed

lemma hoare_createStatsPricing:
  "hoareP (held n) (createAccountStatsModelPricingTx c p) (held n) (\<lambda>row s. held n s \<and> rowOf c p row \<and> cp_Platform row = cp_Platform p)"
  unfolding createAccountStatsModelPricingTx_def
proof (rule hoareP_bind [OF hoare_insert [where R = "\<lambda>row. \<exists>i. row = storedStatsPricing c i p"]], blast)
  fix row
  show "hoareP (\<lambda>s. held n s \<and> (\<exists>i. row = storedStatsPricing c i p))
      (bindP (mapP (createIntervalExec c ''channel_account_stats_pricing_intervals'' (cp_ID row)) (cp_Intervals p))
        (\<lambda>ivs. ret (row\<lparr>cp_Intervals := ivs\<rparr>)))
      (held n) (\<lambda>row s. held n s \<and> rowOf c p row \<and> cp_Platform row = cp_Platform p)"
    by (rule hoareP_pure, rule hoareP_bind [OF hoare_intervals], rule hoareP_ret)
      (auto simp: rowOf_stored(2), auto simp: storedStatsPricing_def)
qed

lemma hoare_createRule:
  "hoareP (held n) (createAccountStatsPricingRuleTx c rule) (held n)
     (\<lambda>row s. held n s \<and> list_all2 (\<lambda>p q. rowOf c p q \<and> cp_Platform q = cp_Platform p) (ar_Pricing rule) (ar_Pricing row))"
  unfolding createAccountStatsPricingRuleTx_def
proof (rule hoareP_bind [OF hoare_insert [where R = "\<lambda>_. True"]], blast)
  fix row
  show "hoareP (\<lambda>s. held n s \<and> True) (bindP (mapP (createAccountStatsModelPricingTx c) (ar_Pricing rule)) (\<lambda>ps. ret (row\<lparr>ar_Pricing := ps\<rparr>)))
      (held n) (\<lambda>row s. held n s \<and> list_all2 (\<lambda>p q. rowOf c p q \<and> cp_Platform q = cp_Platform p) (ar_Pricing rule) (ar_Pricing row))"
    by (rule hoareP_pure, rule hoareP_bind [OF hoareP_mapP [OF hoare_createStatsPricing]], rule hoareP_ret) simp
qed

lemma hoareP_keepsP: "hoareP P m P (\<lambda>_. P) \<Longrightarrow> keepsP P m"
  by (auto intro: keepsPI hoareP_run)

lemma keeps_then:
  assumes "hoareP (held n) m (held n) (\<lambda>a s. held n s \<and> R a)" and "\<And>a. R a \<Longrightarrow> keepsP (held n) (f a)"
  shows "keepsP (held n) (bindP m f)"
  by (rule hoareP_keepsP, rule hoareP_bind [OF assms(1)], rule hoareP_pure) (auto intro: hoareP_keeps assms(2))

subsection \<open>The repository\<close>

lemma validate_Nil [simp]: "validatePricingEntries [] = None"
  by (simp add: validatePricingEntries_ok validateNoConflictingModels_def)

lemma keeps_updPricing:
  "validatePricingEntries ps = None \<Longrightarrow> platformsSet ps \<Longrightarrow> keepsP (held n) (updChannel i (\<lambda>x. x\<lparr>ch_ModelPricing := ps\<rparr>))"
  by (rule keeps_updChannel) (auto simp: rowValid_def configOk_def)

lemma keeps_updRules: "rulesOk rs \<Longrightarrow> keepsP (held n) (updChannel i (\<lambda>x. x\<lparr>ch_AccountStatsPricingRules := rs\<rparr>))"
  by (rule keeps_updChannel) (auto simp: rowValid_def configOk_def)

lemma mainRows_ok:
  assumes "list_all2 (\<lambda>p row. mainRow c (p\<lparr>cp_ChannelID := i\<rparr>) row) ps rows"
    and "roundsPrices c" and "validatePricingEntries ps = None" and "platformsSet ps"
  shows "validatePricingEntries rows = None \<and> platformsSet rows"
proof -
  have "list_all2 (rowOf c) ps rows" using assms(1) by (rule list_all2_mono) (simp add: mainRow_def rowOf_def checkPricesNotNegative_def)
  moreover have "list_all2 (\<lambda>p row. cp_Platform row = cp_Platform p) ps rows \<and> platformsSet rows"
    using assms(1,4) by (induction rule: list_all2_induct) (auto simp: mainRow_def platformsSet_def)
  ultimately show ?thesis using rows_ok assms(2,3) by blast
qed

lemma keeps_replaceModelPricingTx:
  assumes "roundsPrices c" and "validatePricingEntries ps = None" and "platformsSet ps"
  shows "keepsP (held n) (replaceModelPricingTx c i ps)"
  unfolding replaceModelPricingTx_def
proof (rule keeps_bindP)
  show "keepsP (held n) (db ''delete old model pricing'' (updChannel i (\<lambda>x. x\<lparr>ch_ModelPricing := []\<rparr>)))"
    by (intro keeps_held_db keeps_updPricing) (simp_all add: platformsSet_def)
  fix u :: unit
  show "keepsP (held n) (bindP (mapP (\<lambda>p. createModelPricingExec c (p\<lparr>cp_ChannelID := i\<rparr>)) ps) (\<lambda>rows.
      updChannel i (\<lambda>x. x\<lparr>ch_ModelPricing := rows\<rparr>)))"
    by (rule keeps_then [OF hoareP_mapP [OF hoare_createModelPricing]]) (use mainRows_ok [OF _ assms] in \<open>auto intro: keeps_updPricing\<close>)
qed

lemma keeps_replaceRulesTx:
  assumes "roundsPrices c" and "rulesOk rs"
  shows "keepsP (held n) (replaceAccountStatsPricingRulesTx c i rs)"
  unfolding replaceAccountStatsPricingRulesTx_def
proof (rule keeps_bindP)
  show "keepsP (held n) (db ''delete old account stats pricing rules'' (updChannel i (\<lambda>x. x\<lparr>ch_AccountStatsPricingRules := []\<rparr>)))"
    by (intro keeps_held_db keeps_updRules) (simp add: rulesOk_def)
  fix u :: unit
  let ?R = "\<lambda>r row. list_all2 (\<lambda>p q. rowOf c p q \<and> cp_Platform q = cp_Platform p) (ar_Pricing r) (ar_Pricing row)"
  have ok: "rulesOk rows" if "list_all2 ?R rs rows" for rows
    using that assms(2)
  proof (induction rule: list_all2_induct)
    case (Cons r rs row rows)
    have "list_all2 (rowOf c) (ar_Pricing r) (ar_Pricing row)" "list_all2 (\<lambda>p q. cp_Platform q = cp_Platform p) (ar_Pricing r) (ar_Pricing row)"
      using Cons.hyps(1) by (auto elim!: list_all2_mono)
    from rows_ok [OF this(1) assms(1) _ this(2)] show ?case using Cons by (simp add: rulesOk_def)
  qed (simp add: rulesOk_def)
  show "keepsP (held n) (bindP (mapP (createAccountStatsPricingRuleTx c) rs) (\<lambda>rows.
      updChannel i (\<lambda>x. x\<lparr>ch_AccountStatsPricingRules := rows\<rparr>)))"
    by (rule keeps_then [OF hoareP_mapP [OF hoare_createRule]]) (use ok in \<open>auto intro: keeps_updRules\<close>)
qed

lemma setColumns_simps [simp]:
  "ch_ID (setColumns ch r) = ch_ID r" "ch_GroupIDs (setColumns ch r) = ch_GroupIDs r" "ch_Name (setColumns ch r) = ch_Name ch"
  "ch_ModelPricing (setColumns ch r) = ch_ModelPricing r" "ch_AccountStatsPricingRules (setColumns ch r) = ch_AccountStatsPricingRules r"
  "ch_ModelMapping (setColumns ch r) = ch_ModelMapping ch"
  by (simp_all add: setColumns_def)

lemma held_append:
  assumes "held n s" and "rowValid row" and "ch_ID row = cs_seq s ''channels''" and "ch_GroupIDs row = []"
    and "\<not> list_ex (\<lambda>x. ch_Name x = ch_Name row) (cs_channels s)"
  shows "held n (s\<lparr>cs_seq := (cs_seq s)(''channels'' := cs_seq s ''channels'' + 1), cs_channels := cs_channels s @ [row]\<rparr>)"
  using assms by (auto simp: held_def consistent_def groupsOnce_def list_all_iff list_ex_iff)

lemma keeps_insertChannel:
  assumes "configOk ch"
  shows "keepsP (held n) (insertChannel c ch)"
  unfolding insertChannel_def
proof (intro keeps_held_db keepsPI)
  fix s :: "'a chanstate_scheme"
  assume h: "held n s"
  define row where "row = (\<lambda>i. setColumns ch (ch\<lparr>ch_ID := i, ch_GroupIDs := [], ch_ModelPricing := [], ch_AccountStatsPricingRules := []\<rparr>))"
  have row: "rowValid (row i)" "ch_ID (row i) = i" "ch_GroupIDs (row i) = []" "ch_Name (row i) = ch_Name ch" for i
    using assms by (simp_all add: row_def rowValid_def configOk_def platformsSet_def rulesOk_def)
  have "held n (snd (if \<not> cl_channelFits c ch then (Inl misfit, s)
      else if list_ex (\<lambda>x. ch_Name x = ch_Name ch) (cs_channels s) then (Inl ErrChannelExists, s)
      else bindP (nextval ''channels'') (\<lambda>i. bindP (modP (\<lambda>s. s\<lparr>cs_channels := cs_channels s @ [row i]\<rparr>)) (\<lambda>_. ret i)) s))"
    using h held_append [OF h row(1) row(2) row(3)] by (simp add: bindP_def modP_def ret_def nextval_def row(4))
  then show "held n (snd (if \<not> cl_channelFits c ch then (Inl misfit, s)
      else if list_ex (\<lambda>x. ch_Name x = ch_Name ch) (cs_channels s) then (Inl ErrChannelExists, s)
      else bindP (nextval ''channels'') (\<lambda>i. bindP (modP (\<lambda>s. s\<lparr>cs_channels := cs_channels s @
        [setColumns ch (ch\<lparr>ch_ID := i, ch_GroupIDs := [], ch_ModelPricing := [], ch_AccountStatsPricingRules := []\<rparr>)]\<rparr>)) (\<lambda>_. ret i)) s))"
    unfolding row_def .
qed

text \<open>The configuration of a channel that is handed to the repository.\<close>

definition storable :: "Channel \<Rightarrow> bool" where
  "storable ch \<longleftrightarrow> configOk ch \<and> platformsSet (ch_ModelPricing ch)"

lemma keeps_Repo_Create:
  assumes "roundsPrices c" and "storable ch"
  shows "keepsP (held n) (ChannelRepo_Create c ch)"
  unfolding ChannelRepo_Create_def
  by (intro keeps_held_withTx keeps keeps_insertChannel keeps_replaceModelPricingTx keeps_replaceRulesTx assms(1))
    (use assms(2) in \<open>auto simp: storable_def configOk_def\<close>)

lemma distinct_names_upd:
  assumes "distinct (map ch_ID xs)" and "distinct (map ch_Name xs)" and "\<forall>x \<in> set xs. ch_Name x = m \<longrightarrow> ch_ID x = i"
    and "\<And>x. ch_Name (f x) = m"
  shows "distinct (map ch_Name (updRows (\<lambda>x. ch_ID x = i) f xs))"
  using assms(1-3)
proof (induction xs)
  case (Cons x xs)
  have u: "ch_Name ` set (updRows (\<lambda>x. ch_ID x = i) f xs) \<subseteq> ch_Name ` set xs \<union> (if i \<in> ch_ID ` set xs then {m} else {})"
    using assms(4) by (auto simp: set_updRows)
  have "ch_Name (if ch_ID x = i then f x else x) \<notin> ch_Name ` set (updRows (\<lambda>x. ch_ID x = i) f xs)"
  proof (cases "ch_ID x = i")
    case True
    then have i: "i \<notin> ch_ID ` set xs" using Cons.prems(1) by auto
    then have "\<forall>y \<in> set xs. ch_ID y \<noteq> i" by auto
    then have "m \<notin> ch_Name ` set xs" using Cons.prems(3) by auto
    then show ?thesis using True i u assms(4) by auto
  next
    case False
    then have "ch_Name x \<noteq> m" "ch_Name x \<notin> ch_Name ` set xs" using Cons.prems(2,3) by auto
    then show ?thesis using False u by (auto split: if_splits)
  qed
  moreover have "distinct (map ch_Name (updRows (\<lambda>x. ch_ID x = i) f xs))" using Cons by simp
  moreover have "updRows (\<lambda>x. ch_ID x = i) f (x # xs) = (if ch_ID x = i then f x else x) # updRows (\<lambda>x. ch_ID x = i) f xs"
    by (simp add: updRows_def)
  ultimately show ?case by (simp only: list.map distinct.simps set_map simp_thms)
qed (simp add: updRows_def)

lemma keeps_updateChannelRow:
  assumes "configOk ch"
  shows "keepsP (held n) (updateChannelRow c ch)"
  unfolding updateChannelRow_def
proof (intro keeps_held_db keepsPI)
  fix s :: "'a chanstate_scheme"
  assume h: "held n s"
  have "held n (s\<lparr>cs_channels := updRows (\<lambda>x. ch_ID x = ch_ID ch) (setColumns ch) (cs_channels s)\<rparr>)"
    if "\<not> list_ex (\<lambda>x. ch_Name x = ch_Name ch \<and> ch_ID x \<noteq> ch_ID ch) (cs_channels s)"
  proof -
    have "distinct (map ch_Name (updRows (\<lambda>x. ch_ID x = ch_ID ch) (setColumns ch) (cs_channels s)))"
      by (rule distinct_names_upd [where m = "ch_Name ch"]) (use h that in \<open>auto simp: held_def consistent_def list_ex_iff\<close>)
    moreover have "rowValid (setColumns ch x)" if "rowValid x" for x
      using that assms by (simp add: rowValid_def configOk_def)
    ultimately show ?thesis
      using h by (simp add: held_def consistent_def groupsOnce_def) (auto simp: list_all_iff set_updRows; blast)
  qed
  then show "held n (snd (if \<not> list_ex (\<lambda>x. ch_ID x = ch_ID ch) (cs_channels s) then (Inl ErrChannelNotFound, s)
      else if \<not> cl_channelFits c ch then (Inl misfit, s)
      else if list_ex (\<lambda>x. ch_Name x = ch_Name ch \<and> ch_ID x \<noteq> ch_ID ch) (cs_channels s) then (Inl ErrChannelExists, s)
      else updChannel (ch_ID ch) (setColumns ch) s))"
    using h by (simp add: updChannel_def modP_def)
qed

lemma keeps_Repo_Update:
  assumes "roundsPrices c" and "storable ch"
  shows "keepsP (held n) (ChannelRepo_Update c ch g p r)"
  unfolding ChannelRepo_Update_def
  by (intro keeps_held_withTx keeps keeps_updateChannelRow keeps_replaceModelPricingTx keeps_replaceRulesTx assms(1))
    (use assms(2) in \<open>auto simp: storable_def configOk_def\<close>)

lemma keeps_Repo_Delete [keeps]: "keepsP (held n) (ChannelRepo_Delete i)"
proof -
  have "distinct (concat (map ch_GroupIDs (filter p xs)))" if "distinct (concat (map ch_GroupIDs xs))" for p xs
    using that by (induction xs) auto
  then have "held n (s\<lparr>cs_channels := filter p (cs_channels s)\<rparr>)" if "held n s" for p and s :: "'a chanstate_scheme"
    using that by (auto simp: held_def consistent_def groupsOnce_def list_all_iff distinct_map_filter)
  then show ?thesis unfolding ChannelRepo_Delete_def by (intro keeps_held_db keepsPI) simp
qed

subsection \<open>The service\<close>

lemma keeps_held_reads [keeps]:
  "keepsP (held n) ListAll" "keepsP (held n) (ChannelRepo_GetByID i)" "keepsP (held n) (GetGroupIDs i)"
  "keepsP (held n) (GetGroupPlatforms gids)" "keepsP (held n) (GetGroupsInOtherChannels i gids)"
  "keepsP (held n) (ExistsByName m)" "keepsP (held n) (ExistsByNameExcluding m i)"
proof -
  have touch: "keepsP (held n) (touch t b)" for t b
    unfolding touch_def by (intro keeps keeps_held_db)
  have children: "keepsP (held n) (loadChildren rows)" for rows
    unfolding loadChildren_def batchLoadModelPricing_def batchLoadAccountStatsPricingRules_def by (intro keeps keeps_held_db touch)
  show "keepsP (held n) ListAll" "keepsP (held n) (GetGroupIDs i)"
    "keepsP (held n) (GetGroupPlatforms gids)" "keepsP (held n) (GetGroupsInOtherChannels i gids)"
    "keepsP (held n) (ExistsByName m)" "keepsP (held n) (ExistsByNameExcluding m i)"
    unfolding ListAll_def GetGroupIDs_def GetGroupPlatforms_def GetGroupsInOtherChannels_def ExistsByName_def ExistsByNameExcluding_def
    by (intro keeps keeps_held_db children)+
  show "keepsP (held n) (ChannelRepo_GetByID i)"
    unfolding ChannelRepo_GetByID_def by (intro keeps keeps_held_db children) (simp add: keepsP_def)
qed

lemma keeps_held_cache [keeps]: "keepsP (held n) (buildCache ord)" "keepsP (held n) (loadCache ord)" "keepsP (held n) (invalidateCache ord)"
proof -
  have store: "keepsP (held n) storeErrorCache" by (auto simp: keepsP_def storeErrorCache_def modP_def)
  have fetch: "keepsP (held n) fetchChannelData" unfolding fetchChannelData_def Let_def by (intro keeps store)
  have set: "keepsP (held n) (modP (\<lambda>s. s\<lparr>cs_cache := k\<rparr>))" for k by (rule keeps_modP) simp
  show build: "keepsP (held n) (buildCache ord)" for ord
    unfolding buildCache_def Let_def case_prod_unfold by (intro keeps fetch set)
  show "keepsP (held n) (loadCache ord)"
    unfolding loadCache_def using build by (auto simp: keepsP_def split: option.split)
  show "keepsP (held n) (invalidateCache ord)" unfolding invalidateCache_def by (intro keeps set build)
qed

lemma keeps_held_lookup [keeps]: "keepsP (held n) (GetChannelModelPricing ord gid model)" "keepsP (held n) (ResolveChannelMapping ord gid model)"
  "keepsP (held n) (IsModelRestricted ord gid model)"
  unfolding GetChannelModelPricing_def ResolveChannelMapping_def IsModelRestricted_def lookupGroupChannel_def by (intro keeps)+

lemma keeps_held_auth [keeps]: "keepsP (held n) (invalidateAuthCacheForGroups b gs)" "keepsP (held n) (getOldGroupIDs b i)"
  "keepsP (held n) (checkGroupConflicts i gids)"
  unfolding invalidateAuthCacheForGroups_def getOldGroupIDs_def checkGroupConflicts_def
  by (intro keeps keeps_modP; simp)+

lemma storable_normalized: "configOk ch \<Longrightarrow> platformsSet (ch_ModelPricing ch) \<Longrightarrow> storable (normalizedChannel ch)"
proof -
  assume ok: "configOk ch" and pl: "platformsSet (ch_ModelPricing ch)"
  have e: "entryOk (p\<lparr>cp_Capabilities := k\<rparr>) = entryOk p" for p k
    by (simp add: entryOk_def checkBillingModeRequirements_def checkPricesNotNegative_def checkIntervalsHavePrices_def)
  have n: "validatePricingEntries (normalizePricingCapabilities ps) = None \<longleftrightarrow> validatePricingEntries ps = None" for ps
    using conflicts_same [of "normalizePricingCapabilities ps" ps]
    by (simp add: validatePricingEntries_ok normalizePricingCapabilities_def list_all_iff comp_def e)
  show "storable (normalizedChannel ch)"
    using ok pl by (simp add: storable_def normalizedChannel_def configOk_def n rulesOk_def list_all_iff)
      (simp add: normalizePricingCapabilities_def platformsSet_def list_all_iff)
qed

lemma hoare_validate:
  assumes "platformsSet (ch_ModelPricing ch)"
  shows "hoareP (held n) (validateChannel ch) (held n) (\<lambda>ch' s. held n s \<and> storable ch')"
  by (rule hoarePI) (use assms in \<open>auto simp: validateChannel_Inr storable_normalized\<close>,
      auto simp: validateChannel_def fail_def ret_def split: option.splits)

lemma keeps_Channel_Create:
  assumes "roundsPrices c" and "platformsSet (cri_ModelPricing i)"
  shows "keepsP (held n) (Channel_Create c ord i)"
  unfolding Channel_Create_def
  by (intro keeps keeps_then [OF hoare_validate] keeps_Repo_Create) (use assms in \<open>auto simp: newChannel_def\<close>)

lemma loadChildren_Inr: "loadChildren rows s = (Inr rs, s') \<Longrightarrow> rs = map readChannel rows"
  by (auto simp: loadChildren_def ret_def elim!: bindP_Inr)

lemma Repo_GetByID_Inr:
  assumes "ChannelRepo_GetByID i s = (Inr ch, s')"
  obtains r where "find (\<lambda>x. ch_ID x = i) (cs_channels s) = Some r" and "ch = readChannel r"
proof -
  from assms obtain r t rs t' where r: "db ''get channel'' (\<lambda>s. (case find (\<lambda>x. ch_ID x = i) (cs_channels s) of
        None \<Rightarrow> Inl ErrChannelNotFound | Some r \<Rightarrow> Inr r, s)) s = (Inr r, t)"
    and l: "loadChildren [r] t = (Inr rs, t')" and h: "ch = hd rs"
    unfolding ChannelRepo_GetByID_def by (auto simp: ret_def elim!: bindP_Inr)
  from r have "find (\<lambda>x. ch_ID x = i) (cs_channels s) = Some r" by (elim db_Inr) (auto split: option.splits)
  then show thesis using that loadChildren_Inr [OF l] h by simp
qed

lemma hoare_Repo_GetByID: "hoareP (held n) (ChannelRepo_GetByID i) (held n) (\<lambda>ch s. held n s \<and> platformsSet (ch_ModelPricing ch))"
proof (rule hoarePI)
  fix s e and s' :: "'a chanstate_scheme"
  assume "held n s" and "ChannelRepo_GetByID i s = (Inl e, s')"
  then show "held n s'" using keepsPD [OF keeps_held_reads(2)] by (metis snd_conv)
next
  fix s ch and s' :: "'a chanstate_scheme"
  assume h: "held n s" and g: "ChannelRepo_GetByID i s = (Inr ch, s')"
  obtain r where 1: "find (\<lambda>x. ch_ID x = i) (cs_channels s) = Some r" and r: "ch = readChannel r"
    using g by (rule Repo_GetByID_Inr)
  have "platformsSet (ch_ModelPricing r)" using find_mem [OF 1] h by (simp add: held_def consistent_def rowValid_def list_all_iff)
  then have "platformsSet (ch_ModelPricing ch)" by (simp add: r readChannel_def platformsSet_def list_all_iff scanModelPricing_def readIntervals_def)
  then show "held n s' \<and> platformsSet (ch_ModelPricing ch)" using h g keepsPD [OF keeps_held_reads(2)] by (metis snd_conv)
qed

lemma hoareP_keeps_same: "keepsP P m \<Longrightarrow> hoareP P m P (\<lambda>a s. P s \<and> True)"
  by (rule hoareP_post [OF hoareP_keeps]) auto

text \<open>The prices of the updated channel are the new ones or those read.\<close>

lemma hoare_applyUpdate:
  assumes "platformsSet (ch_ModelPricing ch)" and "\<And>ps. upi_ModelPricing i = Some ps \<Longrightarrow> platformsSet ps"
  shows "hoareP (held n) (applyUpdateInput ch i) (held n) (\<lambda>ch' s. held n s \<and> platformsSet (ch_ModelPricing ch'))"
proof (rule hoarePI)
  fix s e and s' :: "'a chanstate_scheme"
  have k: "keepsP (held n) (applyUpdateInput ch i)"
    unfolding applyUpdateInput_def Let_def by (intro keeps)
  show "held n s'" if "held n s" "applyUpdateInput ch i s = (Inl e, s')"
    using keepsPD [OF k that(1)] that(2) by simp
  fix ch'
  assume h: "held n s" and r: "applyUpdateInput ch i s = (Inr ch', s')"
  have "ch_ModelPricing ch' = orOld (upi_ModelPricing i) (ch_ModelPricing ch)"
    using r unfolding applyUpdateInput_def Let_def
    by (auto simp: ret_def fail_def elim!: bindP_Inr split: if_splits option.splits)
  then have "platformsSet (ch_ModelPricing ch')" using assms by (auto simp: orOld_def split: option.splits)
  moreover have "held n s'" using keepsPD [OF k h] r by simp
  ultimately show "held n s' \<and> platformsSet (ch_ModelPricing ch')" by simp
qed

lemma keeps_Channel_Update:
  assumes "roundsPrices c" and "\<And>ps. upi_ModelPricing input = Some ps \<Longrightarrow> platformsSet ps"
  shows "keepsP (held n) (Channel_Update c ord b i input)"
  unfolding Channel_Update_def
  by (rule keeps_then [OF hoare_Repo_GetByID], rule keeps_then [OF hoare_applyUpdate], assumption, erule assms(2),
      rule keeps_then [OF hoare_validate], assumption) (intro keeps keeps_Repo_Update assms(1))

lemma keeps_Channel_Delete [keeps]: "keepsP (held n) (Channel_Delete ord b i)"
  unfolding Channel_Delete_def by (intro keeps)

lemma platformsSet_main [simp]: "platformsSet (mainPricing ps)"
  by (auto simp: mainPricing_def platformsSet_def list_all_iff)

lemma keeps_Handler [keeps]:
  assumes "roundsPrices c"
  shows "keepsP (held n) (Handler_Create c ord req)" and "keepsP (held n) (Handler_Update c ord b i upd)"
  unfolding Handler_Create_def Handler_Update_def
  by (intro keeps keeps_Channel_Create keeps_Channel_Update assms; auto)+

subsection \<open>All reachable states\<close>

text \<open>
  What administrators, requests and the surroundings do: the clock moves on, the database gets a
  new script of faults, groups are created, change their platform or go (with their rows in
  channel_groups), the process restarts.
\<close>

datatype chanOp =
    OpTickTock nat
  | OpDbFaults "bool list"
  | OpSetGroup int string
  | OpDropGroup int
  | OpRestart
  | OpCreateChannel mappingOrder CreateChannelInput
  | OpUpdateChannel mappingOrder bool int UpdateChannelInput
  | OpDeleteChannel mappingOrder bool int
  | OpPriceLookup mappingOrder int string
  | OpMapLookup mappingOrder int string

fun runChanOp :: "chancols \<Rightarrow> chanOp \<Rightarrow> chanstate \<Rightarrow> chanstate" where
  "runChanOp c (OpTickTock d) s = s\<lparr>e_now := e_now s + int d\<rparr>"
| "runChanOp c (OpDbFaults fs) s = s\<lparr>e_faults := fs\<rparr>"
| "runChanOp c (OpSetGroup g p) s = s\<lparr>cs_groups := (cs_groups s)(g \<mapsto> p)\<rparr>"
| "runChanOp c (OpDropGroup g) s = s\<lparr>cs_groups := (cs_groups s)(g := None),
     cs_channels := map (\<lambda>x. x\<lparr>ch_GroupIDs := filter (\<lambda>h. h \<noteq> g) (ch_GroupIDs x)\<rparr>) (cs_channels s)\<rparr>"
| "runChanOp c OpRestart s = s\<lparr>cs_cache := None\<rparr>"
| "runChanOp c (OpCreateChannel ord req) s = snd (Handler_Create c ord req s)"
| "runChanOp c (OpUpdateChannel ord b i req) s = snd (Handler_Update c ord b i req s)"
| "runChanOp c (OpDeleteChannel ord b i) s = snd (Channel_Delete ord b i s)"
| "runChanOp c (OpPriceLookup ord gid model) s = snd (GetChannelModelPricing ord gid model s)"
| "runChanOp c (OpMapLookup ord gid model) s = snd (ResolveChannelMapping ord gid model s)"

definition emptyChannels :: "int \<Rightarrow> chanstate" where
  "emptyChannels now = \<lparr>e_now = now, e_faults = [], cs_channels = [], cs_groups = Map.empty, cs_seq = (\<lambda>_. 1), cs_cache = None,
     cs_authInvalidated = []\<rparr>"

lemma held_dropGroup:
  assumes "held n s"
  shows "held n (runChanOp c (OpDropGroup g) s)"
proof -
  let ?f = "\<lambda>x::Channel. x\<lparr>ch_GroupIDs := filter (\<lambda>h. h \<noteq> g) (ch_GroupIDs x)\<rparr>"
  have "concat (map ch_GroupIDs (map ?f xs)) = filter (\<lambda>h. h \<noteq> g) (concat (map ch_GroupIDs xs))" for xs
    by (induction xs) auto
  then have "groupsOnce (map ?f xs)" if "groupsOnce xs" for xs using that by (simp add: groupsOnce_def del: map_map)
  moreover have "map ch_ID (map ?f xs) = map ch_ID xs" "map ch_Name (map ?f xs) = map ch_Name xs" for xs by simp_all
  moreover have "rowValid (?f x) = rowValid x" for x by (simp add: rowValid_def configOk_def)
  ultimately show ?thesis
    using assms by (auto simp: held_def consistent_def list_all_iff simp del: map_map)
qed

lemma runChanOp_held: "roundsPrices c \<Longrightarrow> held n s \<Longrightarrow> held n (runChanOp c op s)"
proof (cases op)
  case (OpDropGroup g)
  then show "held n s \<Longrightarrow> held n (runChanOp c op s)" using held_dropGroup by blast
next
  case (OpSetGroup g p)
  then show "held n s \<Longrightarrow> held n (runChanOp c op s)" by (auto simp: held_def consistent_def list_all_iff)
qed (auto intro!: keepsPD [where P = "held n"] keeps)

lemma reachable_consistent:
  assumes "roundsPrices c"
  shows "consistent (fold (runChanOp c) ops (emptyChannels now))"
proof -
  have "held n s \<Longrightarrow> held n (fold (runChanOp c) ops s)" for n s
    by (induction ops arbitrary: s) (auto simp: runChanOp_held [OF assms])
  moreover have "held 1 (emptyChannels now)" by (simp add: held_def consistent_def emptyChannels_def groupsOnce_def)
  ultimately show ?thesis by (auto simp: held_def)
qed

end
