(* ===== verification/ChannelEffect.thy ===== *)
theory ChannelEffect
  imports ChannelConsistency
begin

section \<open>What the hot path sees of a change\<close>

text \<open>
  The tables, the snapshot built from them and the look-ups in it together: the invariant of all
  reachable states, and the effect of an administrator's change on the very next request.
\<close>

subsection \<open>A configuration read back is valid\<close>

lemma entryOk_read: "entryOk (readIntervals p) = entryOk p"
proof -
  have "coveredOnce (sortBy intervalBefore ivs) = coveredOnce ivs" for ivs by (rule coveredOnce_mset) simp
  moreover have "sortBy intervalBefore ivs = [] \<longleftrightarrow> ivs = []" for ivs using length_sortBy [of intervalBefore ivs] by (metis length_0_conv)
  ultimately show ?thesis
    by (simp add: entryOk_def readIntervals_def intervals_accepted_iff checkBillingModeRequirements_def checkPricesNotNegative_def
        checkIntervalsHavePrices_def list_all_iff list_ex_iff)
qed

lemma entryOk_scan: "entryOk (scanModelPricing p) = entryOk p"
  by (simp add: scanModelPricing_def entryOk_read)
    (simp add: entryOk_def checkBillingModeRequirements_def checkPricesNotNegative_def checkIntervalsHavePrices_def)

lemma read_names [simp]:
  "cp_Models (readIntervals p) = cp_Models p" "cp_Platform (readIntervals p) = cp_Platform p"
  "cp_Models (scanModelPricing p) = cp_Models p" "cp_Platform (scanModelPricing p) = cp_Platform p"
  by (simp_all add: readIntervals_def scanModelPricing_def)

lemma validate_read:
  "validatePricingEntries ps = None \<Longrightarrow> validatePricingEntries (map readIntervals ps) = None"
  "validatePricingEntries ps = None \<Longrightarrow> validatePricingEntries (map scanModelPricing ps) = None"
  using conflicts_same [of "map readIntervals ps" ps] conflicts_same [of "map scanModelPricing ps" ps]
  by (simp_all add: validatePricingEntries_ok list_all_iff entryOk_read entryOk_scan comp_def)

lemma configOk_read: "configOk ch \<Longrightarrow> configOk (readChannel ch)"
  by (simp add: configOk_def readChannel_def validate_read rulesOk_def list_all_iff readRule_def)

lemma groupsOnce_read: "groupsOnce chs \<Longrightarrow> groupsOnce (map readChannel chs)"
proof (induction chs)
  case (Cons ch chs)
  have m: "set (ch_GroupIDs (readChannel x)) = set (ch_GroupIDs x)" for x by (simp add: readChannel_def)
  have "distinct (ch_GroupIDs (readChannel ch)) = distinct (ch_GroupIDs ch)"
    unfolding readChannel_def by simp (metis mset_sortBy mset_eq_imp_distinct_iff)
  then show ?case using Cons by (auto simp: groupsOnce_def m)
qed (simp add: groupsOnce_def)

subsection \<open>The invariant of the reachable states\<close>

text \<open>
  C13: Whatever administrators ask for and however the database fails in between, channels have
  distinct names, a group belongs to at most one channel and exists, and every channel read
  from the tables is one the validation accepts.
\<close>

theorem channels_stay_consistent:
  assumes "roundsPrices c"
  shows "let s = fold (runChanOp c) ops (emptyChannels now) in
    distinct (map ch_Name (cs_channels s)) \<and> groupsOnce (cs_channels s)
    \<and> list_all (\<lambda>x. set (ch_GroupIDs x) \<subseteq> dom (cs_groups s)) (cs_channels s)
    \<and> list_all (\<lambda>x. validateChannelConfig (ch_ModelPricing x) (ch_ModelMapping x) = None
         \<and> validateRules (ch_AccountStatsPricingRules x) = None) (map readChannel (cs_channels s))"
proof -
  have v: "configOk x \<longleftrightarrow> validateChannelConfig (ch_ModelPricing x) (ch_ModelMapping x) = None
      \<and> validateRules (ch_AccountStatsPricingRules x) = None" for x
    by (cases "validateNoConflictingMappings (ch_ModelMapping x)") (auto simp: configOk_def validateChannelConfig_def validateRules_ok)
  have "list_all (\<lambda>x. validateChannelConfig (ch_ModelPricing x) (ch_ModelMapping x) = None
      \<and> validateRules (ch_AccountStatsPricingRules x) = None) (map readChannel chs)" if "list_all rowValid chs" for chs
    unfolding v [symmetric] using that configOk_read by (auto simp: list_all_iff rowValid_def)
  then show ?thesis
    using reachable_consistent [OF assms, of ops now] by (simp add: consistent_def Let_def)
qed

subsection \<open>A quiet database\<close>

definition quiet :: "int \<Rightarrow> 'a chanstate_scheme \<Rightarrow> bool" where
  "quiet t s \<longleftrightarrow> e_faults s = [] \<and> e_now s = t"

lemma db_quiet [simp]: "quiet t s \<Longrightarrow> db tag act s = act s"
  by (simp add: db_def quiet_def)

lemma keeps_quiet_db: "keepsP (quiet t) act \<Longrightarrow> keepsP (quiet t) (db tag act)"
  by (auto simp: keepsP_def)

lemma quiet_simps [simp]:
  "quiet t (s\<lparr>cs_cache := k\<rparr>) = quiet t s" "quiet t (s\<lparr>cs_authInvalidated := v\<rparr>) = quiet t s"
  "quiet t (s\<lparr>cs_channels := x\<rparr>) = quiet t s" "quiet t (s\<lparr>cs_seq := q\<rparr>) = quiet t s" "quiet t (undoChannels s s') = quiet t s'"
  by (simp_all add: quiet_def undoChannels_def)

lemma keeps_quiet_withTx:
  fixes m :: "('a chanstate_scheme, 'b) proc"
  assumes "keepsP (quiet t) m"
  shows "keepsP (quiet t) (withTx undoChannels m)"
proof (rule keepsPI)
  fix s :: "'a chanstate_scheme"
  assume q: "quiet t s"
  then have "quiet t (snd (m s))" by (rule keepsPD [OF assms])
  with q show "quiet t (snd (withTx undoChannels m s))"
    by (auto simp: withTx_def ret_def split: prod.splits sum.splits)
qed

lemma keeps_quiet_steps [keeps]: "keepsP (quiet t) (nextval table)" "keepsP (quiet t) (updChannel i f)" "keepsP (quiet t) (setGroupIDsTx i gids)"
proof -
  show n: "keepsP (quiet t) (nextval table)" and u: "keepsP (quiet t) (updChannel i f)" for f
    by (auto simp: keepsP_def nextval_def updChannel_def modP_def)
  show "keepsP (quiet t) (setGroupIDsTx i gids)"
    unfolding setGroupIDsTx_def by (intro keeps keeps_quiet_db u) (auto simp: keepsP_def updChannel_def modP_def)
qed

lemma keeps_quiet_replace [keeps]: "keepsP (quiet t) (replaceModelPricingTx c i ps)" "keepsP (quiet t) (replaceAccountStatsPricingRulesTx c i rs)"
  unfolding replaceModelPricingTx_def replaceAccountStatsPricingRulesTx_def createModelPricingExec_def createIntervalExec_def
    createAccountStatsPricingRuleTx_def createAccountStatsModelPricingTx_def
  by (intro keeps keeps_quiet_db)+

lemma keeps_quiet_repo [keeps]: "keepsP (quiet t) (ChannelRepo_Create c ch)" "keepsP (quiet t) (ChannelRepo_Update c ch g p r)"
proof -
  have "keepsP (quiet t) (insertChannel c ch)"
    unfolding insertChannel_def by (intro keeps_quiet_db keepsPI) (auto simp: bindP_def modP_def nextval_def ret_def)
  then show "keepsP (quiet t) (ChannelRepo_Create c ch)"
    unfolding ChannelRepo_Create_def by (intro keeps_quiet_withTx keeps)
  have "keepsP (quiet t) (updateChannelRow c ch)"
    unfolding updateChannelRow_def by (intro keeps_quiet_db keepsPI) (auto simp: updChannel_def modP_def)
  then show "keepsP (quiet t) (ChannelRepo_Update c ch g p r)"
    unfolding ChannelRepo_Update_def by (intro keeps_quiet_withTx keeps)
qed

text \<open>With a database that answers, a read returns what the tables hold and changes nothing.\<close>

lemma loadChildren_quiet: "quiet t s \<Longrightarrow> loadChildren rows s = (Inr (map readChannel rows), s)"
  by (simp add: loadChildren_def batchLoadModelPricing_def batchLoadAccountStatsPricingRules_def touch_def bindP_def ret_def)

definition snapshotOf :: "mappingOrder \<Rightarrow> 'a chanstate_scheme \<Rightarrow> channelCache" where
  "snapshotOf ord s = (let chs = map readChannel (cs_channels s) in populateChannelCache ord (e_now s) chs
     (\<lambda>g. if g \<in> set (concat (map ch_GroupIDs chs)) then cs_groups s g else None))"

lemma buildCache_quiet:
  assumes "quiet t s"
  shows "buildCache ord s = (Inr (snapshotOf ord s), s\<lparr>cs_cache := Some (snapshotOf ord s)\<rparr>)"
proof -
  have l: "ListAll s = (Inr (map readChannel (cs_channels s)), s)"
    using assms by (simp add: ListAll_def bindP_def getP_def ret_def loadChildren_quiet)
  let ?gs = "concat (map ch_GroupIDs (map readChannel (cs_channels s)))"
  have p: "GetGroupPlatforms ?gs s = (Inr (\<lambda>g. if g \<in> set ?gs then cs_groups s g else None), s)" if "?gs \<noteq> []"
    using assms that by (simp add: GetGroupPlatforms_def getP_def del: concat_eq_Nil_conv map_map)
  have "fetchChannelData s = (Inr (map readChannel (cs_channels s), \<lambda>g. if g \<in> set ?gs then cs_groups s g else None), s)"
    unfolding fetchChannelData_def tryP_def l Let_def using p
    by (cases "?gs = []") (simp_all add: ret_def del: concat_eq_Nil_conv map_map set_concat)
  then show ?thesis by (simp add: buildCache_def bindP_def modP_def ret_def nowP_def getP_def snapshotOf_def Let_def del: map_map set_concat)
qed

subsection \<open>The next request sees the change\<close>

lemma populate_fields:
  "cc_loadedAt (populateChannelCache ord now chs pl) = now" "cc_groupPlatform (populateChannelCache ord now chs pl) = pl"
proof -
  have g: "cc_loadedAt (foldl (addGroup ord pl ch) c gs) = cc_loadedAt c \<and> cc_groupPlatform (foldl (addGroup ord pl ch) c gs) = cc_groupPlatform c"
    for ch c gs
    by (induction gs arbitrary: c) (auto simp: addGroup_shape Let_def)
  have "cc_loadedAt (foldl (addChannel ord pl) c chs) = cc_loadedAt c \<and> cc_groupPlatform (foldl (addChannel ord pl) c chs) = cc_groupPlatform c" for c
    by (induction chs arbitrary: c) (auto simp: addChannel_def g)
  then show "cc_loadedAt (populateChannelCache ord now chs pl) = now" "cc_groupPlatform (populateChannelCache ord now chs pl) = pl"
    by (simp_all add: populateChannelCache_def)
qed

text \<open>A channel's row, the snapshot of its tables in the cache: the look-ups read its configuration.\<close>

lemma fresh_lookups:
  assumes c: "consistent s0" and snap: "cs_cache s = Some (snapshotOf ord s0)" and now: "e_now s = e_now s0"
    and row: "r \<in> set (cs_channels s0)" and active: "Channel_IsActive (readChannel r)" and gid: "gid \<in> set (ch_GroupIDs (readChannel r))"
    and ord: "reorders ord"
  defines "platform \<equiv> platformOf (cs_groups s0) gid" and "ch \<equiv> readChannel r"
  shows "GetChannelModelPricing ord' gid model s = (Inr (configuredPrice ch platform model), s)"
    and "IsModelRestricted ord' gid model s = (Inr (ch_RestrictModels ch \<and> configuredPrice ch platform model = None), s)"
    and "ResolveChannelMapping ord' gid model s = (Inr (let target = configuredTarget ch platform model in
      \<lparr>cr_MappedModel = (if target = [] then model else target), cr_ChannelID = ch_ID ch, cr_Mapped = (target \<noteq> []),
       cr_BillingModelSource = (if ch_BillingModelSource ch = [] then ''channel_mapped'' else ch_BillingModelSource ch)\<rparr>), s)"
proof -
  let ?chs = "map readChannel (cs_channels s0)"
  let ?pl = "\<lambda>g. if g \<in> set (concat (map ch_GroupIDs ?chs)) then cs_groups s0 g else None"
  let ?c = "snapshotOf ord s0"
  have snap': "?c = populateChannelCache ord (e_now s0) ?chs ?pl" by (simp only: snapshotOf_def Let_def)
  have once: "groupsOnce ?chs" using c by (simp add: consistent_def groupsOnce_read)
  have mem: "ch \<in> set ?chs" using row by (simp add: ch_def)
  have g: "gid \<in> set (ch_GroupIDs ch)" using gid by (simp add: ch_def)
  have valid: "configOk ch" using c row configOk_read by (auto simp: consistent_def rowValid_def list_all_iff ch_def)
  have pl: "platformOf ?pl gid = platform" using mem g by (auto simp: platformOf_def platform_def)
  have h: "holdsGroup ord ?pl ch gid ?c" unfolding snap' using once mem g by (rule populated_holds)
  have at: "cc_channelByGroupID ?c gid = Some ch" "cc_loadedAt ?c = e_now s0" "cc_groupPlatform ?c = ?pl"
    using h by (simp_all only: holdsGroup_def Let_def) (simp_all add: snap' populate_fields del: set_concat map_map)
  have load: "loadCache ord' s = (Inr ?c, s)"
    using snap now at by (simp add: loadCache_def channelCacheTTL_def second_def)
  have look: "lookupGroupChannel ord' gid s = (Inr (Some \<lparr>lk_cache = ?c, lk_channel = ch, lk_platform = platform\<rparr>), s)"
    using active by (simp add: lookupGroupChannel_def bindP_def load ret_def at pl ch_def [symmetric] del: set_concat map_map)
  have price: "lookupPricingAcrossPlatforms ?c gid platform (toLower model) = configuredPrice ch platform model"
    using cached_price_is_configured_price [OF once mem g, of ord "e_now s0" ?pl model] valid
    by (simp only: snap' pl configOk_def validatePricingEntries_ok)
  have target: "lookupMappingAcrossPlatforms ?c gid platform (toLower model) = configuredTarget ch platform model"
    using cached_target_is_configured_target [OF once mem g _ ord, of "e_now s0" ?pl model] valid
    by (simp only: snap' pl configOk_def)
  show "GetChannelModelPricing ord' gid model s = (Inr (configuredPrice ch platform model), s)"
    by (simp add: GetChannelModelPricing_def tryP_def look ret_def price)
  show "IsModelRestricted ord' gid model s = (Inr (ch_RestrictModels ch \<and> configuredPrice ch platform model = None), s)"
    by (simp add: IsModelRestricted_def tryP_def look ret_def checkRestricted_def price)
  show "ResolveChannelMapping ord' gid model s = (Inr (let target = configuredTarget ch platform model in
      \<lparr>cr_MappedModel = (if target = [] then model else target), cr_ChannelID = ch_ID ch, cr_Mapped = (target \<noteq> []),
       cr_BillingModelSource = (if ch_BillingModelSource ch = [] then ''channel_mapped'' else ch_BillingModelSource ch)\<rparr>), s)"
    by (simp add: ResolveChannelMapping_def tryP_def look ret_def resolveMapping_def target Let_def)
qed

definition inForce :: "Channel \<Rightarrow> 'a chanstate_scheme \<Rightarrow> bool" where
  "inForce ch s \<longleftrightarrow> (\<exists>ord s0 r. consistent (s0 :: 'a chanstate_scheme) \<and> cs_cache s = Some (snapshotOf ord s0) \<and> e_now s = e_now s0
     \<and> cs_groups s = cs_groups s0 \<and> r \<in> set (cs_channels s0) \<and> ch = readChannel r \<and> reorders ord)"

lemma snapshotOf_cache [simp]: "snapshotOf ord (s\<lparr>cs_cache := k\<rparr>) = snapshotOf ord s" "snapshotOf ord (s\<lparr>cs_authInvalidated := v\<rparr>) = snapshotOf ord s"
  by (simp_all add: snapshotOf_def cong: if_cong)

lemma invalidateCache_quiet:
  "quiet t s \<Longrightarrow> invalidateCache ord s = (Inr (), s\<lparr>cs_cache := Some (snapshotOf ord s)\<rparr>)"
  using buildCache_quiet [of t "s\<lparr>cs_cache := None\<rparr>" ord]
  by (simp add: invalidateCache_def bindP_def modP_def ignoreP_def)

lemma Repo_GetByID_quiet:
  assumes "quiet t s" and "ChannelRepo_GetByID i s = (Inr ch, s')"
  shows "s' = s \<and> (\<exists>r \<in> set (cs_channels s). ch = readChannel r)"
proof -
  obtain r where r: "find (\<lambda>x. ch_ID x = i) (cs_channels s) = Some r" and ch: "ch = readChannel r"
    using assms(2) by (rule Repo_GetByID_Inr)
  then have "ChannelRepo_GetByID i s = (Inr (readChannel r), s)"
    using assms(1) by (simp add: ChannelRepo_GetByID_def bindP_def loadChildren_quiet ret_def)
  with find_mem [OF r] ch assms(2) show ?thesis by auto
qed

lemma change_ends_in_force:
  assumes q: "quiet t s" and c: "consistent s" and ord: "reorders ord"
    and 1: "invalidateCache ord s = (Inr u, s1)" and 2: "s2 = s1 \<or> invalidateAuthCacheForGroups b gs s1 = (Inr v, s2)"
    and g: "ChannelRepo_GetByID i s2 = (Inr ch, s')"
  shows "inForce ch s'"
proof -
  let ?s1 = "s\<lparr>cs_cache := Some (snapshotOf ord s)\<rparr>"
  have 2: "s2 = ?s1 \<or> (\<exists>v. s2 = ?s1\<lparr>cs_authInvalidated := v\<rparr>)"
    using 1 2 by (auto simp: invalidateCache_quiet [OF q] invalidateAuthCacheForGroups_def ret_def modP_def split: if_splits)
  have "quiet t s2" using 2 q by auto
  from Repo_GetByID_quiet [OF this g] 2 c ord show ?thesis
    by (auto simp: inForce_def intro!: exI [of _ ord] exI [of _ s])
qed

lemma hoareP_Inr: "hoareP P m E Q \<Longrightarrow> P s \<Longrightarrow> m s = (Inr a, s') \<Longrightarrow> Q a s'"
  by (fastforce simp: hoareP_def)

lemma keepsP_Inr: "keepsP P m \<Longrightarrow> P s \<Longrightarrow> m s = (Inr a, s') \<Longrightarrow> P s'"
  using keepsPD by fastforce

lemma validate_same: "validateChannel ch s = (Inr ch', s') \<Longrightarrow> s' = s"
  by (simp add: validateChannel_Inr)

lemma keeps_quiet_reads [keeps]:
  "keepsP (quiet t) (ChannelRepo_GetByID i)" "keepsP (quiet t) (applyUpdateInput ch input)" "keepsP (quiet t) (getOldGroupIDs b i)"
  "keepsP (quiet t) (ExistsByName m)" "keepsP (quiet t) (checkGroupConflicts i gids)"
proof -
  have "keepsP (quiet t) (touch t' a)" for t' a unfolding touch_def by (intro keeps keeps_quiet_db)
  then have "keepsP (quiet t) (loadChildren rows)" for rows
    unfolding loadChildren_def batchLoadModelPricing_def batchLoadAccountStatsPricingRules_def by (intro keeps keeps_quiet_db)
  then show "keepsP (quiet t) (ChannelRepo_GetByID i)"
    unfolding ChannelRepo_GetByID_def by (intro keeps keeps_quiet_db) (simp_all add: keepsP_def)
  show g: "keepsP (quiet t) (checkGroupConflicts i gids)" for i gids
    unfolding checkGroupConflicts_def GetGroupsInOtherChannels_def by (intro keeps keeps_quiet_db)
  show "keepsP (quiet t) (applyUpdateInput ch input)" "keepsP (quiet t) (getOldGroupIDs b i)" "keepsP (quiet t) (ExistsByName m)"
    unfolding applyUpdateInput_def getOldGroupIDs_def ExistsByName_def ExistsByNameExcluding_def GetGroupIDs_def Let_def
    by (intro keeps keeps_quiet_db g)+
qed

lemma update_in_force:
  assumes r: "roundsPrices c" and h: "held n s" and q: "quiet t s" and ord: "reorders ord"
    and pl: "\<And>ps. upi_ModelPricing input = Some ps \<Longrightarrow> platformsSet ps" and run: "Channel_Update c ord b i input s = (Inr ch, s')"
  shows "inForce ch s'"
proof -
  obtain old s1 new s2 ch1 s3 gs s4 s5 s6 s7 u5 u6 u7 where 1: "ChannelRepo_GetByID i s = (Inr old, s1)" and 2: "applyUpdateInput old input s1 = (Inr new, s2)"
    and 3: "validateChannel new s2 = (Inr ch1, s3)" and 4: "getOldGroupIDs b i s3 = (Inr gs, s4)"
    and 5: "ChannelRepo_Update c ch1 (upi_GroupIDs input \<noteq> None \<or> ch_GroupIDs old \<noteq> []) (upi_ModelPricing input \<noteq> None \<or> ch_ModelPricing old \<noteq> [])
      (upi_AccountStatsPricingRules input \<noteq> None \<or> ch_AccountStatsPricingRules old \<noteq> []) s4 = (Inr u5, s5)"
    and 6: "invalidateCache ord s5 = (Inr u6, s6)" "s7 = s6 \<or> invalidateAuthCacheForGroups b [gs, ch_GroupIDs ch1] s6 = (Inr u7, s7)"
      "ChannelRepo_GetByID i s7 = (Inr ch, s')"
    using run unfolding Channel_Update_def by (elim bindP_Inr) blast
  have h1: "held n s1 \<and> platformsSet (ch_ModelPricing old)" using hoareP_Inr [OF hoare_Repo_GetByID h 1] .
  have h2: "held n s2 \<and> platformsSet (ch_ModelPricing new)" using hoareP_Inr [OF hoare_applyUpdate _ 2] h1 pl by blast
  have h3: "held n s3 \<and> storable ch1" using hoareP_Inr [OF hoare_validate _ 3] h2 by blast
  have "held n s4" using keepsP_Inr [OF keeps_held_auth(2) _ 4] h3 by blast
  then have h5: "held n s5" using keepsP_Inr [OF keeps_Repo_Update [OF r] _ 5] h3 by blast
  have "quiet t s3" using keepsP_Inr [OF keeps_quiet_reads(2) keepsP_Inr [OF keeps_quiet_reads(1) q 1] 2] validate_same [OF 3] by simp
  then have "quiet t s5" using keepsP_Inr [OF keeps_quiet_repo(2) _ 5] keepsP_Inr [OF keeps_quiet_reads(3) _ 4] by blast
  from change_ends_in_force [OF this _ ord 6] h5 show ?thesis by (simp add: held_def)
qed

lemma create_in_force:
  assumes r: "roundsPrices c" and h: "held n s" and q: "quiet t s" and ord: "reorders ord"
    and pl: "platformsSet (cri_ModelPricing i)" and run: "Channel_Create c ord i s = (Inr ch, s')"
  shows "inForce ch s'"
proof -
  obtain s1 s2 ch1 s3 cid s4 s5 where 1: "ExistsByName (cri_Name i) s = (Inr False, s1)" and 2: "checkGroupConflicts 0 (cri_GroupIDs i) s1 = (Inr (), s2)"
    and 3: "validateChannel (newChannel i) s2 = (Inr ch1, s3)" and 4: "ChannelRepo_Create c ch1 s3 = (Inr cid, s4)"
    and 5: "invalidateCache ord s4 = (Inr (), s5)" "ChannelRepo_GetByID cid s5 = (Inr ch, s')"
    using run unfolding Channel_Create_def by (elim bindP_Inr) (auto simp: fail_def elim!: bindP_Inr split: if_splits)
  have "held n s2" using keepsP_Inr [OF keeps_held_auth(3) _ 2] keepsP_Inr [OF keeps_held_reads(6) h 1] by blast
  then have h3: "held n s3 \<and> storable ch1" using hoareP_Inr [OF hoare_validate _ 3] pl by (simp add: newChannel_def)
  then have h4: "held n s4" using keepsP_Inr [OF keeps_Repo_Create [OF r] _ 4] by blast
  have "quiet t s3" using keepsP_Inr [OF keeps_quiet_reads(5) keepsP_Inr [OF keeps_quiet_reads(4) q 1] 2] validate_same [OF 3] by simp
  then have "quiet t s4" using keepsP_Inr [OF keeps_quiet_repo(1) _ 4] by blast
  from change_ends_in_force [OF this _ ord 5(1) _ 5(2)] h4 show ?thesis by (simp add: held_def)
qed

text \<open>
  C15: After a successful change the returned channel is in force for the next request of each of its
  groups, if the database answered: its prices, its restriction and its mapping, in whatever
  order Go walks the maps.
\<close>

theorem change_takes_effect:
  assumes "roundsPrices c" and "s = fold (runChanOp c) ops (emptyChannels now)" and "e_faults s = []"
    and "Handler_Create c ord req s = (Inr ch, s') \<or> Handler_Update c ord b i upd s = (Inr ch, s')"
    and "Channel_IsActive ch" and "gid \<in> set (ch_GroupIDs ch)" and "reorders ord"
  shows "let platform = platformOf (cs_groups s') gid; target = configuredTarget ch platform model in
    fst (GetChannelModelPricing ord' gid model s') = Inr (configuredPrice ch platform model)
    \<and> fst (IsModelRestricted ord' gid model s') = Inr (ch_RestrictModels ch \<and> configuredPrice ch platform model = None)
    \<and> map_sum id cr_MappedModel (fst (ResolveChannelMapping ord' gid model s')) = Inr (if target = [] then model else target)"
proof -
  have h: "held (cs_seq s ''channels'') s" using reachable_consistent [OF assms(1)] assms(2) by (simp add: held_def)
  have q: "quiet (e_now s) s" using assms(3) by (simp add: quiet_def)
  have "inForce ch s'"
    using assms(4)
  proof
    assume "Handler_Create c ord req s = (Inr ch, s')"
    then obtain rules where "Channel_Create c ord (req\<lparr>cri_ModelPricing := mainPricing (cri_ModelPricing req), cri_AccountStatsPricingRules := rules\<rparr>) s = (Inr ch, s')"
      by (auto simp: Handler_Create_def liftE_def elim!: bindP_Inr)
    then show ?thesis by (rule create_in_force [OF assms(1) h q assms(7), rotated]) simp
  next
    assume "Handler_Update c ord b i upd s = (Inr ch, s')"
    then obtain rules where "Channel_Update c ord b i (upd\<lparr>upi_ModelPricing := map_option mainPricing (upi_ModelPricing upd), upi_AccountStatsPricingRules := rules\<rparr>) s = (Inr ch, s')"
      by (auto simp: Handler_Update_def liftE_def ret_def elim!: bindP_Inr split: option.splits)
    then show ?thesis by (rule update_in_force [OF assms(1) h q assms(7), rotated]) auto
  qed
  then obtain ord0 s0 r where f: "consistent (s0 :: chanstate)" "cs_cache s' = Some (snapshotOf ord0 s0)" "e_now s' = e_now s0"
      "cs_groups s' = cs_groups s0" "r \<in> set (cs_channels s0)" "ch = readChannel r" "reorders ord0"
    by (auto simp: inForce_def)
  show ?thesis
    using fresh_lookups [OF f(1-3,5) _ _ f(7)] assms(5,6) f(4,6) by (simp add: Let_def)
qed

subsection \<open>A failed load\<close>

text \<open>
  When the tables cannot be read, an empty snapshot stands in for them: for as long as it lives every
  model is allowed and no channel has a price.
\<close>

lemma failed_load_forgets_channels:
  assumes "cs_cache s = None" and "e_faults s = True # fs" and "0 \<le> d" and "d < channelErrorTTL"
    and s1: "s1 = snd (IsModelRestricted ord gid model s)"
  shows "fst (IsModelRestricted ord gid model s) = Inr False"
    and "fst (IsModelRestricted ord' gid' model' (s1\<lparr>e_now := e_now s + d\<rparr>)) = Inr False"
    and "fst (GetChannelModelPricing ord' gid' model' (s1\<lparr>e_now := e_now s + d\<rparr>)) = Inr None"
proof -
  let ?c = "newEmptyChannelCache\<lparr>cc_loadedAt := e_now s - (channelCacheTTL - channelErrorTTL)\<rparr>"
  have load: "loadCache ord s = (Inl (Internal ''query all channels''), s\<lparr>e_faults := fs, cs_cache := Some ?c\<rparr>)"
    using assms(1,2)
    by (simp add: loadCache_def buildCache_def fetchChannelData_def ListAll_def storeErrorCache_def bindP_def tryP_def db_def modP_def fail_def)
  then have r: "IsModelRestricted ord gid model s = (Inr False, s\<lparr>e_faults := fs, cs_cache := Some ?c\<rparr>)"
    by (simp add: IsModelRestricted_def lookupGroupChannel_def tryP_def bindP_def ret_def)
  then show "fst (IsModelRestricted ord gid model s) = Inr False" by simp
  have "loadCache ord' (s1\<lparr>e_now := e_now s + d\<rparr>) = (Inr ?c, s1\<lparr>e_now := e_now s + d\<rparr>)"
    using assms(4) by (simp add: s1 r loadCache_def)
  then show "fst (IsModelRestricted ord' gid' model' (s1\<lparr>e_now := e_now s + d\<rparr>)) = Inr False"
    "fst (GetChannelModelPricing ord' gid' model' (s1\<lparr>e_now := e_now s + d\<rparr>)) = Inr None"
    by (simp_all add: IsModelRestricted_def GetChannelModelPricing_def lookupGroupChannel_def tryP_def bindP_def ret_def newEmptyChannelCache_def)
qed

subsection \<open>An example\<close>

definition exactCols :: chancols where
  "exactCols = \<lparr>cl_price = id, cl_request = id, cl_image = id, cl_stats = id, cl_channelFits = (\<lambda>_. True), cl_pricingFits = (\<lambda>_. True),
     cl_intervalFits = (\<lambda>_. True), cl_ruleFits = (\<lambda>_. True)\<rparr>"

definition someRequest :: CreateChannelInput where
  "someRequest = \<lparr>cri_Name = ''a'', cri_Description = [], cri_GroupIDs = [7], cri_ModelPricing = [somePricing [''GPT-4*'']],
     cri_ModelMapping = [(''openai'', [(''a*'', ''o3'')])], cri_BillingModelSource = [], cri_RestrictModels = True, cri_Features = [],
     cri_FeaturesConfig = None, cri_ApplyPricingToAccountStats = False, cri_AccountStatsPricingRules = []\<rparr>"

definition storedChannel :: Channel where
  "storedChannel = \<lparr>ch_ID = 1, ch_Name = ''a'', ch_Description = [], ch_Status = ''active'', ch_BillingModelSource = ''channel_mapped'',
     ch_RestrictModels = True, ch_Features = [], ch_FeaturesConfig = Some [], ch_GroupIDs = [7], ch_ModelPricing = [somePricing [''GPT-4*'']],
     ch_ModelMapping = [(''openai'', [(''a*'', ''o3'')])], ch_ApplyPricingToAccountStats = False, ch_AccountStatsPricingRules = []\<rparr>"

lemma exactCols_rounds: "roundsPrices exactCols"
  by (simp add: roundsPrices_def exactCols_def)

lemma some_config: "configOk (newChannel (someRequest\<lparr>cri_ModelPricing := [somePricing [''GPT-4*'']]\<rparr>))"
proof -
  have "validateNoConflictingModels [somePricing [''GPT-4*'']] = None"
    by (simp add: validateNoConflictingModels_def somePricing_def platformEntries_def)
  moreover have "entryOk (somePricing [''GPT-4*''])"
    by (simp add: entryOk_def somePricing_def ValidateIntervals_def sortBy_def validateIntervalOverlap_def checkBillingModeRequirements_def
        checkPricesNotNegative_def negative_def checkIntervalsHavePrices_def)
  moreover have "validateNoConflictingMappings [(''openai'', [(''a*'', ''o3'')])] = None"
    by (simp add: validateNoConflictingMappings_def)
  ultimately show ?thesis
    by (simp add: configOk_def newChannel_def someRequest_def validatePricingEntries_ok rulesOk_def)
qed

lemma some_create:
  "\<exists>s'. Handler_Create exactCols (\<lambda>_ _ mp. mp) someRequest (fold (runChanOp exactCols) [OpSetGroup 7 ''openai''] (emptyChannels 0)) = (Inr storedChannel, s')
     \<and> cs_groups s' = [7 \<mapsto> ''openai'']"
proof -
  let ?s = "(emptyChannels 0)\<lparr>cs_groups := [7 \<mapsto> ''openai'']\<rparr>"
  let ?s1 = "?s\<lparr>cs_channels := [storedChannel], cs_seq := (\<lambda>_. 1)(''channels'' := 2, ''channel_model_pricing'' := 2)\<rparr>"
  let ?i = "someRequest\<lparr>cri_ModelPricing := mainPricing (cri_ModelPricing someRequest), cri_AccountStatsPricingRules := []\<rparr>"
  let ?n = "normalizedChannel (newChannel ?i)"
  have p: "mainPricing (cri_ModelPricing someRequest) = [somePricing [''GPT-4*'']]"
    by (simp add: mainPricing_def pricingRequestToService_def someRequest_def somePricing_def NormalizeModelCapabilities_def)
  have i: "?i = someRequest\<lparr>cri_ModelPricing := [somePricing [''GPT-4*'']]\<rparr>" unfolding p by (simp add: someRequest_def)
  have v: "validateChannel (newChannel ?i) ?s = (Inr ?n, ?s)" using some_config unfolding i by (simp add: validateChannel_Inr)
  have n: "?n = storedChannel\<lparr>ch_ID := 0, ch_FeaturesConfig := None\<rparr>"
    by (simp add: i normalizedChannel_def newChannel_def someRequest_def storedChannel_def normalizePricingCapabilities_def somePricing_def
        NormalizeModelCapabilities_def mainPricing_def pricingRequestToService_def)
  have q: "quiet 0 ?s" "quiet 0 ?s1" by (simp_all add: quiet_def emptyChannels_def)
  have c: "ChannelRepo_Create exactCols ?n ?s = (Inr 1, ?s1)"
    unfolding n ChannelRepo_Create_def withTx_def
    by (simp add: run_steps insertChannel_def emptyChannels_def nextval_def exactCols_def storedChannel_def setColumns_def setGroupIDsTx_def
        updChannel_def updRows_def groupsFree_def replaceModelPricingTx_def createModelPricingExec_def somePricing_def storedPricing_def
        NormalizeModelCapabilities_def)
  have e: "ExistsByName (cri_Name ?i) ?s = (Inr False, ?s)" "checkGroupConflicts 0 (cri_GroupIDs ?i) ?s = (Inr (), ?s)"
    by (simp_all add: ExistsByName_def checkGroupConflicts_def GetGroupsInOtherChannels_def run_steps emptyChannels_def)
  let ?s2 = "?s1\<lparr>cs_cache := Some (snapshotOf (\<lambda>_ _ mp. mp) ?s1)\<rparr>"
  have "quiet 0 ?s2" using q by simp
  have g: "ChannelRepo_GetByID 1 ?s2 = (Inr storedChannel, ?s2)"
    using loadChildren_quiet [OF \<open>quiet 0 ?s2\<close>, of "[storedChannel]"]
    by (simp add: ChannelRepo_GetByID_def run_steps emptyChannels_def storedChannel_def readChannel_def sortBy_def scanModelPricing_def
        readIntervals_def somePricing_def NormalizeModelCapabilities_def)
  have "Handler_Create exactCols (\<lambda>_ _ mp. mp) someRequest ?s = (Inr storedChannel, ?s2)"
  proof -
    have "liftE (statsRules 0 (cri_AccountStatsPricingRules someRequest)) ?s = (Inr [], ?s)" by (simp add: someRequest_def liftE_def)
    then show ?thesis
      by (simp only: Handler_Create_def Channel_Create_def bindP_def e v c g invalidateCache_quiet [OF q(2)] prod.case sum.case if_False)
  qed
  moreover have "fold (runChanOp exactCols) [OpSetGroup 7 ''openai''] (emptyChannels 0) = ?s" by (simp add: emptyChannels_def)
  ultimately show ?thesis by (auto simp: emptyChannels_def)
qed

lemma some_lookup: "configuredPrice storedChannel ''openai'' ''Gpt-4o'' = Some (somePricing [''GPT-4*''])"
  "configuredTarget storedChannel ''openai'' ''Gpt-4o'' = []"
  by (simp_all add: storedChannel_def configuredPrice_def configuredTarget_def somePricing_def matchesName_def
      toModelEntry_def toLower_def lowerByte_def char_of_def bit_simps hasSuffix_def trimSuffix_def hasPrefix_def Let_def)

lemma change_takes_effect_witness:
  "let r = Handler_Create exactCols (\<lambda>_ _ mp. mp) someRequest (fold (runChanOp exactCols) [OpSetGroup 7 ''openai''] (emptyChannels 0)) in
     fst r = Inr storedChannel \<and> fst (GetChannelModelPricing (\<lambda>_ _ mp. rev mp) 7 ''Gpt-4o'' (snd r)) = Inr (Some (somePricing [''GPT-4*'']))
     \<and> fst (IsModelRestricted (\<lambda>_ _ mp. rev mp) 7 ''Gpt-4o'' (snd r)) = Inr False"
proof -
  obtain s' where 1: "Handler_Create exactCols (\<lambda>_ _ mp. mp) someRequest (fold (runChanOp exactCols) [OpSetGroup 7 ''openai''] (emptyChannels 0)) = (Inr storedChannel, s')"
    and 2: "cs_groups s' = [7 \<mapsto> ''openai'']" using some_create by blast
  have r: "reorders (\<lambda>_ _ mp. mp)" by (simp add: reorders_def)
  have a: "Channel_IsActive storedChannel" "7 \<in> set (ch_GroupIDs storedChannel)" by (simp_all add: Channel_IsActive_def storedChannel_def)
  have f: "e_faults (fold (runChanOp exactCols) [OpSetGroup 7 ''openai''] (emptyChannels 0)) = []" by (simp add: emptyChannels_def)
  have pl: "platformOf (cs_groups s') 7 = ''openai''" by (simp add: 2 platformOf_def)
  show ?thesis
    using change_takes_effect [OF exactCols_rounds refl f disjI1 [OF 1] a r, where ord' = "\<lambda>_ _ mp. rev mp" and model = "''Gpt-4o''"] 1
    unfolding pl 1 by (simp add: Let_def some_lookup)
qed

lemma channels_stay_consistent_witness:
  "let s = fold (runChanOp exactCols) [OpSetGroup 7 ''openai'', OpCreateChannel (\<lambda>_ _ mp. mp) someRequest, OpDbFaults [True],
       OpDeleteChannel (\<lambda>_ _ mp. mp) True 1] (emptyChannels 0) in
     groupsOnce (cs_channels s) \<and> distinct (map ch_Name (cs_channels s))"
  using channels_stay_consistent [OF exactCols_rounds, of "[OpSetGroup 7 ''openai'', OpCreateChannel (\<lambda>_ _ mp. mp) someRequest, OpDbFaults [True],
       OpDeleteChannel (\<lambda>_ _ mp. mp) True 1]" 0]
  by (simp only: Let_def simp_thms)

end
