(* ===== verification/AccountStats.thy ===== *)
theory AccountStats
  imports PricingResolver ChannelLookup
begin

section \<open>What a request costs the account\<close>

text \<open>
  service/account_stats_pricing.go: the cost put on an account's statistics, by the rules of the
  channel, the cost of the customer, or the price table, in this order.  \<open>None\<close> leaves the default
  formula.  The channel service is asked twice, for the channel of the group (\<open>channelOf\<close>, None
  without one or on an error) and for the platform of the group.
\<close>

definition matchAccountStatsRule :: "AccountStatsPricingRule \<Rightarrow> int \<Rightarrow> int \<Rightarrow> bool" where
  "matchAccountStatsRule rule accountID groupID \<longleftrightarrow>
     (if ar_AccountIDs rule = [] \<and> ar_GroupIDs rule = [] then False
      else accountID \<in> set (ar_AccountIDs rule) \<or> groupID \<in> set (ar_GroupIDs rule))"

definition isPlatformMatch :: "string \<Rightarrow> string \<Rightarrow> bool" where
  "isPlatformMatch queryPlatform pricingPlatform \<longleftrightarrow>
     queryPlatform = [] \<or> pricingPlatform = [] \<or> queryPlatform = pricingPlatform"

definition wildcardMatches :: "string \<Rightarrow> string \<Rightarrow> bool" where
  "wildcardMatches modelLower m \<longleftrightarrow>
     (let ml = toLower m in hasSuffix ml ''*'' \<and> hasPrefix modelLower (trimSuffix ml ''*''))"

definition findPricingForModel :: "ChannelModelPricing list \<Rightarrow> string \<Rightarrow> string \<Rightarrow> ChannelModelPricing option" where
  "findPricingForModel pricingList platform modelLower =
     (case find (\<lambda>p. isPlatformMatch platform (cp_Platform p) \<and> list_ex (\<lambda>m. toLower m = modelLower) (cp_Models p)) pricingList of
        Some p \<Rightarrow> Some p
      | None \<Rightarrow> find (\<lambda>p. isPlatformMatch platform (cp_Platform p) \<and> list_ex (wildcardMatches modelLower) (cp_Models p)) pricingList)"

definition positiveCost :: "f64 \<Rightarrow> f64 option" where
  "positiveCost c = (if fle c (Fin 0) then None else Some c)"

definition sumCosts :: "UsageTokens \<Rightarrow> f64 \<Rightarrow> f64 \<Rightarrow> f64 \<Rightarrow> f64 \<Rightarrow> f64 \<Rightarrow> f64" where
  "sumCosts t input out cw cr img =
     fadd (fadd (fadd (fadd (fmul (ofTokens (ut_InputTokens t)) input) (fmul (ofTokens (ut_OutputTokens t)) out))
       (fmul (ofTokens (ut_CacheCreationTokens t)) cw)) (fmul (ofTokens (ut_CacheReadTokens t)) cr))
       (fmul (ofTokens (ut_ImageOutputTokens t)) img)"

definition deref :: "f64 option \<Rightarrow> f64" where
  "deref v = (case v of Some x \<Rightarrow> x | None \<Rightarrow> Fin 0)"

definition calculatePerRequestStatsCost :: "ChannelModelPricing \<Rightarrow> int \<Rightarrow> f64 option" where
  "calculatePerRequestStatsCost p requestCount =
     (case cp_PerRequestPrice p of
        None \<Rightarrow> None
      | Some v \<Rightarrow> if fle v (Fin 0) then None else Some (fmul v (ofTokens requestCount)))"

definition calculateTokenStatsCost :: "ChannelModelPricing \<Rightarrow> UsageTokens \<Rightarrow> f64 option" where
  "calculateTokenStatsCost p t =
     (case (if cp_Intervals p = [] then None
            else FindMatchingInterval (cp_Intervals p)
              (ut_InputTokens t + ut_OutputTokens t + ut_CacheCreationTokens t + ut_CacheReadTokens t)) of
        Some iv \<Rightarrow> positiveCost (sumCosts t (deref (iv_InputPrice iv)) (deref (iv_OutputPrice iv)) (deref (iv_CacheWritePrice iv))
            (deref (iv_CacheReadPrice iv)) (Fin 0))
      | None \<Rightarrow> positiveCost (sumCosts t (deref (cp_InputPrice p)) (deref (cp_OutputPrice p)) (deref (cp_CacheWritePrice p))
            (deref (cp_CacheReadPrice p)) (deref (cp_ImageOutputPrice p))))"

definition calculateStatsCost :: "ChannelModelPricing \<Rightarrow> UsageTokens \<Rightarrow> int \<Rightarrow> f64 option" where
  "calculateStatsCost p t requestCount =
     (if cp_BillingMode p = BillingModePerRequest \<or> cp_BillingMode p = BillingModeImage
      then calculatePerRequestStatsCost p requestCount else calculateTokenStatsCost p t)"

text \<open>The first rule that matches and prices the model ends the search, also when its cost is none.\<close>

fun tryRules :: "AccountStatsPricingRule list \<Rightarrow> int \<Rightarrow> int \<Rightarrow> string \<Rightarrow> string \<Rightarrow> UsageTokens \<Rightarrow> int \<Rightarrow> f64 option" where
  "tryRules [] accountID groupID platform modelLower t n = None"
| "tryRules (rule # rules) accountID groupID platform modelLower t n =
     (if \<not> matchAccountStatsRule rule accountID groupID then tryRules rules accountID groupID platform modelLower t n
      else (case findPricingForModel (ar_Pricing rule) platform modelLower of
          None \<Rightarrow> tryRules rules accountID groupID platform modelLower t n
        | Some p \<Rightarrow> calculateStatsCost p t n))"

definition tryCustomRules :: "Channel \<Rightarrow> int \<Rightarrow> int \<Rightarrow> string \<Rightarrow> string \<Rightarrow> UsageTokens \<Rightarrow> int \<Rightarrow> f64 option" where
  "tryCustomRules ch accountID groupID platform model t n =
     tryRules (ch_AccountStatsPricingRules ch) accountID groupID platform (toLower model) t n"

definition tryModelFilePricing :: "BillingService \<Rightarrow> rangeOrder \<Rightarrow> string \<Rightarrow> UsageTokens \<Rightarrow> f64 option" where
  "tryModelFilePricing s ord model t =
     (case GetModelPricing s ord model of
        None \<Rightarrow> None
      | Some p \<Rightarrow> positiveCost (sumCosts t (mp_InputPricePerToken p) (mp_OutputPricePerToken p) (mp_CacheCreationPricePerToken p)
          (mp_CacheReadPricePerToken p) (mp_ImageOutputPricePerToken p)))"

definition resolveAccountStatsCost ::
  "(int \<Rightarrow> Channel option) \<Rightarrow> (int \<Rightarrow> string) \<Rightarrow> BillingService option \<Rightarrow> rangeOrder \<Rightarrow> int \<Rightarrow> int \<Rightarrow> string \<Rightarrow> UsageTokens \<Rightarrow> int \<Rightarrow> f64 \<Rightarrow> f64 option" where
  "resolveAccountStatsCost channelOf platformOf' billing ord accountID groupID upstreamModel t n totalCost =
     (if upstreamModel = [] then None
      else case channelOf groupID of
        None \<Rightarrow> None
      | Some ch \<Rightarrow>
          (case tryCustomRules ch accountID groupID (platformOf' groupID) upstreamModel t n of
             Some c \<Rightarrow> Some c
           | None \<Rightarrow>
               if ch_ApplyPricingToAccountStats ch then positiveCost totalCost
               else (case billing of Some s \<Rightarrow> tryModelFilePricing s ord upstreamModel t | None \<Rightarrow> None)))"

definition applyAccountStatsCost ::
  "(int \<Rightarrow> Channel option) \<Rightarrow> (int \<Rightarrow> string) \<Rightarrow> BillingService option \<Rightarrow> rangeOrder \<Rightarrow> int \<Rightarrow> int \<Rightarrow> string \<Rightarrow> string \<Rightarrow> UsageTokens \<Rightarrow> f64 \<Rightarrow> f64 option" where
  "applyAccountStatsCost channelOf platformOf' billing ord accountID groupID upstreamModel requestedModel t totalCost =
     resolveAccountStatsCost channelOf platformOf' billing ord accountID groupID
       (if upstreamModel = [] then requestedModel else upstreamModel) t 1 totalCost"

text \<open>
  The customer's cost takes the image tokens out of the output tokens before it prices them; the
  statistics price them in both sums.
\<close>

lemma image_tokens_counted_twice:
  defines "p \<equiv> zeroPricing\<lparr>mp_OutputPricePerToken := Fin 1, mp_ImageOutputPricePerToken := Fin 2\<rparr>"
    and "t \<equiv> noTokens\<lparr>ut_OutputTokens := 4, ut_ImageOutputTokens := 4\<rparr>"
  shows "cb_TotalCost (computeTokenBreakdown p t (Fin 1) [] False) = Fin 8"
    and "sumCosts t (mp_InputPricePerToken p) (mp_OutputPricePerToken p) (mp_CacheCreationPricePerToken p)
      (mp_CacheReadPricePerToken p) (mp_ImageOutputPricePerToken p) = Fin 12"
proof -
  have tier: "serviceTierCostMultiplier [] = Fin 1" "normalizeBillingServiceTier [] = []"
    by (simp_all add: serviceTierCostMultiplier_def normalizeBillingServiceTier_def)
  show "cb_TotalCost (computeTokenBreakdown p t (Fin 1) [] False) = Fin 8"
    by (simp add: computeTokenBreakdown_def p_def t_def zeroPricing_def noTokens_def ofTokens_def usePriorityServiceTierPricing_def tier
        orPriority_def scaledBy_def computeCacheCreationCost_def Let_def)
  show "sumCosts t (mp_InputPricePerToken p) (mp_OutputPricePerToken p) (mp_CacheCreationPricePerToken p)
      (mp_CacheReadPricePerToken p) (mp_ImageOutputPricePerToken p) = Fin 12"
    by (simp add: sumCosts_def p_def t_def zeroPricing_def noTokens_def ofTokens_def)
qed

end
