(* ===== verification/ConcurrencySlots.thy ===== *)
theory ConcurrencySlots
  imports GoPrelude
begin

section \<open>Concurrency slots\<close>

text \<open>
  repository/concurrency_cache.go, service/concurrency_service.go and the slot part of
  handler/gateway_helper.go.  The requests that run on an account or for a user hold a member of
  a sorted set in Redis, whose score is the second it was taken in; the requests that wait are
  counted.  Redis runs a script as one step, and its clock is the only one read.  A call can be
  refused, or take effect while its answer is lost; both are errors to the caller.
\<close>

subsection \<open>Redis\<close>

text \<open>
  A key has its value and the millisecond it expires after: every script that writes a key sets
  EXPIRE in the same step.  Sorted sets and counters have keys of their own prefixes, so they are
  kept in two lists.  A sorted set that becomes empty is a key no longer.
\<close>

datatype callFault = Refused | AnswerLost

record redis =
  rd_now :: int
  rd_sets :: "(string \<times> (string \<times> int) list \<times> int) list"
  rd_counters :: "(string \<times> int \<times> int) list"
  rd_faults :: "callFault option list"

definition redisCall :: "string \<Rightarrow> ('r redis_scheme, 'a) proc \<Rightarrow> ('r redis_scheme, 'a) proc" where
  "redisCall tag act = (\<lambda>s. case rd_faults s of
       [] \<Rightarrow> act s
     | None # fs \<Rightarrow> act (s\<lparr>rd_faults := fs\<rparr>)
     | Some Refused # fs \<Rightarrow> (Inl (Internal tag), s\<lparr>rd_faults := fs\<rparr>)
     | Some AnswerLost # fs \<Rightarrow> (Inl (Internal tag), snd (act (s\<lparr>rd_faults := fs\<rparr>))))"

definition redisSeconds :: "'r redis_scheme \<Rightarrow> int" where
  "redisSeconds s = rd_now s div second"

definition redisMillis :: "'r redis_scheme \<Rightarrow> int" where
  "redisMillis s = rd_now s div 1000000"

definition expireAfter :: "int \<Rightarrow> 'r redis_scheme \<Rightarrow> int" where
  "expireAfter ttl s = redisMillis s + ttl * 1000"

definition put :: "'k \<Rightarrow> 'v \<Rightarrow> ('k \<times> 'v) list \<Rightarrow> ('k \<times> 'v) list" where
  "put k v kvs = (k, v) # filter (\<lambda>p. fst p \<noteq> k) kvs"

definition del :: "'k \<Rightarrow> ('k \<times> 'v) list \<Rightarrow> ('k \<times> 'v) list" where
  "del k kvs = filter (\<lambda>p. fst p \<noteq> k) kvs"

definition zMembers :: "string \<Rightarrow> 'r redis_scheme \<Rightarrow> (string \<times> int) list" where
  "zMembers k s = (case map_of (rd_sets s) k of
       None \<Rightarrow> [] | Some (z, ex) \<Rightarrow> if ex < redisMillis s then [] else z)"

text \<open>ZADD, ZREM and ZREMRANGEBYSCORE with the set they leave; EXPIRE is \<open>zStore\<close>, \<open>zKeep\<close> leaves the time to live.\<close>

definition zadd :: "string \<Rightarrow> int \<Rightarrow> (string \<times> int) list \<Rightarrow> (string \<times> int) list" where
  "zadd m sc z = put m sc z"

definition zremUpTo :: "int \<Rightarrow> (string \<times> int) list \<Rightarrow> (string \<times> int) list" where
  "zremUpTo b z = filter (\<lambda>p. b < snd p) z"

definition zStore :: "string \<Rightarrow> (string \<times> int) list \<Rightarrow> int \<Rightarrow> 'r redis_scheme \<Rightarrow> 'r redis_scheme" where
  "zStore k z ttl s = s\<lparr>rd_sets := (if z = [] then del k (rd_sets s) else put k (z, expireAfter ttl s) (rd_sets s))\<rparr>"

definition zKeep :: "string \<Rightarrow> (string \<times> int) list \<Rightarrow> 'r redis_scheme \<Rightarrow> 'r redis_scheme" where
  "zKeep k z s = s\<lparr>rd_sets := (case map_of (rd_sets s) k of
       None \<Rightarrow> rd_sets s | Some (_, ex) \<Rightarrow> if z = [] then del k (rd_sets s) else put k (z, ex) (rd_sets s))\<rparr>"

definition counterGet :: "string \<Rightarrow> 'r redis_scheme \<Rightarrow> int option" where
  "counterGet k s = (case map_of (rd_counters s) k of
       None \<Rightarrow> None | Some (v, ex) \<Rightarrow> if ex < redisMillis s then None else Some v)"

subsection \<open>The scripts\<close>

definition acquireScript :: "string \<Rightarrow> int \<Rightarrow> int \<Rightarrow> string \<Rightarrow> ('r redis_scheme, int) proc" where
  "acquireScript key maxConcurrency ttl requestID = (\<lambda>s.
     let now = redisSeconds s; z = zremUpTo (now - ttl) (zMembers key s) in
     if requestID \<in> set (map fst z) then (Inr 1, zStore key (zadd requestID now z) ttl s)
     else if int (length z) < maxConcurrency then (Inr 1, zStore key (zadd requestID now z) ttl s)
     else (Inr 0, zKeep key z s))"

definition getCountScript :: "string \<Rightarrow> int \<Rightarrow> ('r redis_scheme, int) proc" where
  "getCountScript key ttl = (\<lambda>s. let z = zremUpTo (redisSeconds s - ttl) (zMembers key s) in (Inr (int (length z)), zKeep key z s))"

definition trackSlotScript :: "string \<Rightarrow> int \<Rightarrow> string \<Rightarrow> ('r redis_scheme, int) proc" where
  "trackSlotScript key ttl requestID = (\<lambda>s.
     let now = redisSeconds s; z = zremUpTo (now - ttl) (zMembers key s) in (Inr 1, zStore key (zadd requestID now z) ttl s))"

definition incrementWaitScript :: "string \<Rightarrow> int \<Rightarrow> int \<Rightarrow> ('r redis_scheme, int) proc" where
  "incrementWaitScript key maxWait ttl = (\<lambda>s.
     let current = (case counterGet key s of None \<Rightarrow> 0 | Some v \<Rightarrow> v) in
     if maxWait \<le> current then (Inr 0, s)
     else (Inr 1, s\<lparr>rd_counters := put key (current + 1, expireAfter ttl s) (rd_counters s)\<rparr>))"

definition decrementWaitScript :: "string \<Rightarrow> ('r redis_scheme, int) proc" where
  "decrementWaitScript key = (\<lambda>s. (Inr 1, (case map_of (rd_counters s) key of
       None \<Rightarrow> s
     | Some (v, ex) \<Rightarrow> if redisMillis s \<le> ex \<and> 0 < v then s\<lparr>rd_counters := put key (v - 1, ex) (rd_counters s)\<rparr> else s)))"

definition cleanupExpiredSlotsScript :: "string \<Rightarrow> int \<Rightarrow> ('r redis_scheme, int) proc" where
  "cleanupExpiredSlotsScript key ttl = (\<lambda>s. (Inr 1, zStore key (zremUpTo (redisSeconds s - ttl) (zMembers key s)) ttl s))"

text \<open>Only members of the given prefix stay; the result is how many went.\<close>

definition ofProcess :: "string \<Rightarrow> (string \<times> int) list \<Rightarrow> (string \<times> int) list" where
  "ofProcess activePrefix z = filter (\<lambda>p. hasPrefix (fst p) activePrefix) z"

fun startupCleanupScript :: "string list \<Rightarrow> string \<Rightarrow> int \<Rightarrow> ('r redis_scheme, int) proc" where
  "startupCleanupScript [] activePrefix slotTTL s = (Inr 0, s)"
| "startupCleanupScript (key # ks) activePrefix slotTTL s =
     (let z = zMembers key s; z' = ofProcess activePrefix z;
          (r, s') = startupCleanupScript ks activePrefix slotTTL (zStore key z' slotTTL s)
      in (mapE (\<lambda>n. int (length z) - int (length z') + n) r, s'))"

definition zRem :: "string \<Rightarrow> string \<Rightarrow> ('r redis_scheme, unit) proc" where
  "zRem key m = (\<lambda>s. (Inr (), zKeep key (filter (\<lambda>p. fst p \<noteq> m) (zMembers key s)) s))"

subsection \<open>The cache\<close>

record concurrencyCache =
  slotTTLSeconds :: int
  waitQueueTTLSeconds :: int

definition defaultSlotTTLMinutes :: int where "defaultSlotTTLMinutes = 15"

definition NewConcurrencyCache :: "int \<Rightarrow> int \<Rightarrow> concurrencyCache" where
  "NewConcurrencyCache slotTTLMinutes waitQueueTTL =
     (let m = (if slotTTLMinutes \<le> 0 then defaultSlotTTLMinutes else slotTTLMinutes);
          w = (if waitQueueTTL \<le> 0 then m * 60 else waitQueueTTL)
      in \<lparr>slotTTLSeconds = m * 60, waitQueueTTLSeconds = w\<rparr>)"

definition accountSlotKeyPrefix :: string where "accountSlotKeyPrefix = ''concurrency:account:''"
definition userSlotKeyPrefix :: string where "userSlotKeyPrefix = ''concurrency:user:''"
definition apiKeySlotKeyPrefix :: string where "apiKeySlotKeyPrefix = ''concurrency:api_key:''"
definition waitQueueKeyPrefix :: string where "waitQueueKeyPrefix = ''concurrency:wait:''"
definition accountWaitKeyPrefix :: string where "accountWaitKeyPrefix = ''wait:account:''"

definition accountSlotKey :: "int \<Rightarrow> string" where "accountSlotKey i = accountSlotKeyPrefix @ itoa i"
definition userSlotKey :: "int \<Rightarrow> string" where "userSlotKey i = userSlotKeyPrefix @ itoa i"
definition apiKeySlotKey :: "int \<Rightarrow> string" where "apiKeySlotKey i = apiKeySlotKeyPrefix @ itoa i"
definition waitQueueKey :: "int \<Rightarrow> string" where "waitQueueKey i = waitQueueKeyPrefix @ itoa i"
definition accountWaitKey :: "int \<Rightarrow> string" where "accountWaitKey i = accountWaitKeyPrefix @ itoa i"

definition cache_AcquireAccountSlot :: "concurrencyCache \<Rightarrow> int \<Rightarrow> int \<Rightarrow> string \<Rightarrow> ('r redis_scheme, bool) proc" where
  "cache_AcquireAccountSlot c accountID maxConcurrency requestID =
     bindP (redisCall ''acquire'' (acquireScript (accountSlotKey accountID) maxConcurrency (slotTTLSeconds c) requestID))
       (\<lambda>r. ret (r = 1))"

definition cache_ReleaseAccountSlot :: "int \<Rightarrow> string \<Rightarrow> ('r redis_scheme, unit) proc" where
  "cache_ReleaseAccountSlot accountID requestID = redisCall ''release'' (zRem (accountSlotKey accountID) requestID)"

definition GetAccountConcurrency :: "concurrencyCache \<Rightarrow> int \<Rightarrow> ('r redis_scheme, int) proc" where
  "GetAccountConcurrency c accountID = redisCall ''count'' (getCountScript (accountSlotKey accountID) (slotTTLSeconds c))"

definition cache_AcquireUserSlot :: "concurrencyCache \<Rightarrow> int \<Rightarrow> int \<Rightarrow> string \<Rightarrow> ('r redis_scheme, bool) proc" where
  "cache_AcquireUserSlot c userID maxConcurrency requestID =
     bindP (redisCall ''acquire'' (acquireScript (userSlotKey userID) maxConcurrency (slotTTLSeconds c) requestID))
       (\<lambda>r. ret (r = 1))"

definition cache_ReleaseUserSlot :: "int \<Rightarrow> string \<Rightarrow> ('r redis_scheme, unit) proc" where
  "cache_ReleaseUserSlot userID requestID = redisCall ''release'' (zRem (userSlotKey userID) requestID)"

definition GetUserConcurrency :: "concurrencyCache \<Rightarrow> int \<Rightarrow> ('r redis_scheme, int) proc" where
  "GetUserConcurrency c userID = redisCall ''count'' (getCountScript (userSlotKey userID) (slotTTLSeconds c))"

definition cache_TrackAPIKeySlot :: "concurrencyCache \<Rightarrow> int \<Rightarrow> string \<Rightarrow> ('r redis_scheme, unit) proc" where
  "cache_TrackAPIKeySlot c apiKeyID requestID =
     bindP (redisCall ''track'' (trackSlotScript (apiKeySlotKey apiKeyID) (slotTTLSeconds c) requestID)) (\<lambda>_. ret ())"

definition ReleaseAPIKeySlot :: "int \<Rightarrow> string \<Rightarrow> ('r redis_scheme, unit) proc" where
  "ReleaseAPIKeySlot apiKeyID requestID = redisCall ''release'' (zRem (apiKeySlotKey apiKeyID) requestID)"

text \<open>
  The counts of many accounts in one pipeline: members that have expired since the last script
  are still counted.  A Go map of results is a partial function; a later entry of one id wins.
\<close>

definition zCard :: "string \<Rightarrow> 'r redis_scheme \<Rightarrow> int" where
  "zCard k s = int (length (zMembers k s))"

definition cache_GetAccountConcurrencyBatch :: "int list \<Rightarrow> ('r redis_scheme, int \<Rightarrow> int option) proc" where
  "cache_GetAccountConcurrencyBatch accountIDs =
     (if accountIDs = [] then ret (\<lambda>_. None)
      else redisCall ''pipeline exec'' (getP (\<lambda>s. map_of (rev (map (\<lambda>i. (i, zCard (accountSlotKeyPrefix @ itoa i) s)) accountIDs)))))"

fun countAfterClean :: "int \<Rightarrow> int list \<Rightarrow> ('r redis_scheme, (int \<times> int) list) proc" where
  "countAfterClean cutoff [] s = (Inr [], s)"
| "countAfterClean cutoff (i # ids) s =
     (let z = zremUpTo cutoff (zMembers (apiKeySlotKey i) s);
          (r, s') = countAfterClean cutoff ids (zKeep (apiKeySlotKey i) z s)
      in (mapE (\<lambda>kvs. (i, int (length z)) # kvs) r, s'))"

definition cache_GetAPIKeyConcurrencyBatch :: "concurrencyCache \<Rightarrow> int list \<Rightarrow> ('r redis_scheme, int \<Rightarrow> int option) proc" where
  "cache_GetAPIKeyConcurrencyBatch c apiKeyIDs =
     (if apiKeyIDs = [] then ret (\<lambda>_. None)
      else bindP (redisCall ''redis TIME'' (getP redisSeconds)) (\<lambda>now.
        bindP (redisCall ''pipeline exec'' (countAfterClean (now - slotTTLSeconds c) apiKeyIDs)) (\<lambda>kvs.
          ret (map_of (rev kvs)))))"

definition cache_IncrementWaitCount :: "concurrencyCache \<Rightarrow> int \<Rightarrow> int \<Rightarrow> ('r redis_scheme, bool) proc" where
  "cache_IncrementWaitCount c userID maxWait =
     bindP (redisCall ''increment wait'' (incrementWaitScript (waitQueueKey userID) maxWait (waitQueueTTLSeconds c))) (\<lambda>r. ret (r = 1))"

definition cache_DecrementWaitCount :: "int \<Rightarrow> ('r redis_scheme, unit) proc" where
  "cache_DecrementWaitCount userID =
     bindP (redisCall ''decrement wait'' (decrementWaitScript (waitQueueKey userID))) (\<lambda>_. ret ())"

definition cache_IncrementAccountWaitCount :: "concurrencyCache \<Rightarrow> int \<Rightarrow> int \<Rightarrow> ('r redis_scheme, bool) proc" where
  "cache_IncrementAccountWaitCount c accountID maxWait =
     bindP (redisCall ''increment wait'' (incrementWaitScript (accountWaitKey accountID) maxWait (waitQueueTTLSeconds c))) (\<lambda>r. ret (r = 1))"

definition cache_DecrementAccountWaitCount :: "int \<Rightarrow> ('r redis_scheme, unit) proc" where
  "cache_DecrementAccountWaitCount accountID =
     bindP (redisCall ''decrement wait'' (decrementWaitScript (accountWaitKey accountID))) (\<lambda>_. ret ())"

definition GetAccountWaitingCount :: "int \<Rightarrow> ('r redis_scheme, int) proc" where
  "GetAccountWaitingCount accountID =
     redisCall ''get'' (getP (\<lambda>s. case counterGet (accountWaitKey accountID) s of None \<Rightarrow> 0 | Some v \<Rightarrow> v))"

record LoadInfo =
  ld_ID :: int
  ld_CurrentConcurrency :: int
  ld_WaitingCount :: int
  ld_LoadRate :: int

definition loadInfo :: "string \<Rightarrow> string \<Rightarrow> int \<Rightarrow> int \<Rightarrow> 'r redis_scheme \<Rightarrow> LoadInfo" where
  "loadInfo slotKey waitKey i maxConcurrency s =
     (let cur = zCard slotKey s; w = (case counterGet waitKey s of None \<Rightarrow> 0 | Some v \<Rightarrow> v) in
      \<lparr>ld_ID = i, ld_CurrentConcurrency = cur, ld_WaitingCount = w,
       ld_LoadRate = (if 0 < maxConcurrency then goDiv ((cur + w) * 100) maxConcurrency else 0)\<rparr>)"

definition GetAccountsLoadBatch :: "(int \<times> int) list \<Rightarrow> ('r redis_scheme, int \<Rightarrow> LoadInfo option) proc" where
  "GetAccountsLoadBatch accounts =
     (if accounts = [] then ret (\<lambda>_. None)
      else redisCall ''pipeline exec'' (getP (\<lambda>s. map_of (rev (map (\<lambda>(i, mx).
        (i, loadInfo (accountSlotKeyPrefix @ itoa i) (accountWaitKeyPrefix @ itoa i) i mx s)) accounts)))))"

definition GetUsersLoadBatch :: "(int \<times> int) list \<Rightarrow> ('r redis_scheme, int \<Rightarrow> LoadInfo option) proc" where
  "GetUsersLoadBatch users =
     (if users = [] then ret (\<lambda>_. None)
      else redisCall ''pipeline exec'' (getP (\<lambda>s. map_of (rev (map (\<lambda>(i, mx).
        (i, loadInfo (userSlotKeyPrefix @ itoa i) (waitQueueKeyPrefix @ itoa i) i mx s)) users)))))"

definition CleanupExpiredAccountSlots :: "concurrencyCache \<Rightarrow> int \<Rightarrow> ('r redis_scheme, unit) proc" where
  "CleanupExpiredAccountSlots c accountID =
     bindP (redisCall ''cleanup'' (cleanupExpiredSlotsScript (accountSlotKey accountID) (slotTTLSeconds c))) (\<lambda>_. ret ())"

text \<open>
  SCAN gives the keys of a pattern in pages, \<open>pages n\<close> of the nth scan: Redis only promises that a key
  that is there all along is in some page.  Each page is fetched by one call.
\<close>

type_synonym scan = "string \<Rightarrow> string list list"

fun overPages :: "(string list \<Rightarrow> ('r redis_scheme, unit) proc) \<Rightarrow> string list list \<Rightarrow> ('r redis_scheme, unit) proc" where
  "overPages f [] = ret ()"
| "overPages f (ks # pgs) = bindP (redisCall ''scan'' (ret ())) (\<lambda>_. bindP (f ks) (\<lambda>_. overPages f pgs))"

definition overPatterns :: "scan \<Rightarrow> string list \<Rightarrow> (string list \<Rightarrow> ('r redis_scheme, unit) proc) \<Rightarrow> ('r redis_scheme, unit) proc" where
  "overPatterns pages patterns f = bindP (mapP (\<lambda>p. overPages f (pages p)) patterns) (\<lambda>_. ret ())"

definition slotPatterns :: "string list" where
  "slotPatterns = [accountSlotKeyPrefix, userSlotKeyPrefix, apiKeySlotKeyPrefix]"

definition waitPatterns :: "string list" where
  "waitPatterns = [accountWaitKeyPrefix, waitQueueKeyPrefix]"

definition CleanupExpiredSlotsByScan :: "concurrencyCache \<Rightarrow> scan \<Rightarrow> ('r redis_scheme, unit) proc" where
  "CleanupExpiredSlotsByScan c pages = overPatterns pages slotPatterns (\<lambda>ks.
     bindP (mapP (\<lambda>k. redisCall ''cleanup'' (cleanupExpiredSlotsScript k (slotTTLSeconds c))) ks) (\<lambda>_. ret ()))"

definition cleanupPage :: "concurrencyCache \<Rightarrow> string \<Rightarrow> string list \<Rightarrow> ('r redis_scheme, unit) proc" where
  "cleanupPage c activePrefix ks =
     (if ks = [] then ret ()
      else bindP (redisCall ''cleanup slots'' (startupCleanupScript ks activePrefix (slotTTLSeconds c))) (\<lambda>_. ret ()))"

definition deletePage :: "string list \<Rightarrow> ('r redis_scheme, unit) proc" where
  "deletePage ks =
     (if ks = [] then ret ()
      else redisCall ''del'' (modP (\<lambda>s. s\<lparr>rd_counters := filter (\<lambda>p. fst p \<notin> set ks) (rd_counters s)\<rparr>)))"

definition cache_CleanupStaleProcessSlots :: "concurrencyCache \<Rightarrow> scan \<Rightarrow> string \<Rightarrow> ('r redis_scheme, unit) proc" where
  "cache_CleanupStaleProcessSlots c pages activePrefix =
     (if activePrefix = [] then ret ()
      else bindP (overPatterns pages slotPatterns (cleanupPage c activePrefix)) (\<lambda>_.
        overPatterns pages waitPatterns deletePage))"

subsection \<open>The service\<close>

text \<open>
  A process has its random prefix and its counter; ids are the prefix, a dash and the counter in
  base 36.  \<open>Some release\<close> is a slot that was granted, with the procedure that gives it back (whose
  error is only logged).  The atomic counter is 64 bits wide, more than any process counts to.
\<close>

definition digit36 :: "nat \<Rightarrow> char" where
  "digit36 d = char_of (if d < 10 then 48 + d else 87 + d)"

fun base36 :: "nat \<Rightarrow> string" where
  "base36 n = (if n < 36 then [digit36 n] else base36 (n div 36) @ [digit36 (n mod 36)])"

declare base36.simps [simp del]

text \<open>\<open>rnd\<close> is the random number of eight bytes, or the clock and the process id when there is none.\<close>

definition initRequestIDPrefix :: "nat \<Rightarrow> string" where
  "initRequestIDPrefix n = CHR ''r'' # base36 n"

record slotProcess =
  sp_prefix :: string
  sp_counter :: nat

record gateway = redis +
  gw_process :: slotProcess
  gw_streamStarted :: bool

definition generateRequestID :: "('r gateway_scheme, string) proc" where
  "generateRequestID = (\<lambda>s. let p = gw_process s; n = sp_counter p + 1 in
     (Inr (sp_prefix p @ ''-'' @ base36 n), s\<lparr>gw_process := p\<lparr>sp_counter := n\<rparr>\<rparr>))"

text \<open>What a granted slot gives back when the request is done: nothing without a limit.\<close>

datatype slotRelease = NoSlot | AccountSlot int string | UserSlot int string | APIKeySlot int string

definition ReleaseFunc :: "slotRelease \<Rightarrow> ('r redis_scheme, unit) proc" where
  "ReleaseFunc r = (case r of
       NoSlot \<Rightarrow> ret ()
     | AccountSlot i rid \<Rightarrow> ignoreP (cache_ReleaseAccountSlot i rid)
     | UserSlot i rid \<Rightarrow> ignoreP (cache_ReleaseUserSlot i rid)
     | APIKeySlot i rid \<Rightarrow> ignoreP (ReleaseAPIKeySlot i rid))"

definition AcquireAccountSlot :: "concurrencyCache \<Rightarrow> int \<Rightarrow> int \<Rightarrow> ('r gateway_scheme, slotRelease option) proc" where
  "AcquireAccountSlot c accountID maxConcurrency =
     (if maxConcurrency \<le> 0 then ret (Some NoSlot)
      else bindP generateRequestID (\<lambda>requestID.
        bindP (cache_AcquireAccountSlot c accountID maxConcurrency requestID) (\<lambda>acquired.
          ret (if acquired then Some (AccountSlot accountID requestID) else None))))"

definition AcquireUserSlot :: "concurrencyCache \<Rightarrow> int \<Rightarrow> int \<Rightarrow> ('r gateway_scheme, slotRelease option) proc" where
  "AcquireUserSlot c userID maxConcurrency =
     (if maxConcurrency \<le> 0 then ret (Some NoSlot)
      else bindP generateRequestID (\<lambda>requestID.
        bindP (cache_AcquireUserSlot c userID maxConcurrency requestID) (\<lambda>acquired.
          ret (if acquired then Some (UserSlot userID requestID) else None))))"

text \<open>Tracking and counting the requests of an API key never fails.\<close>

definition TrackAPIKeySlot :: "concurrencyCache \<Rightarrow> int \<Rightarrow> ('r gateway_scheme, slotRelease) proc" where
  "TrackAPIKeySlot c apiKeyID =
     (if apiKeyID \<le> 0 then ret NoSlot
      else bindP generateRequestID (\<lambda>requestID.
        tryP (cache_TrackAPIKeySlot c apiKeyID requestID) (\<lambda>_. ret NoSlot) (\<lambda>_. ret (APIKeySlot apiKeyID requestID))))"

definition zeroAPIKeyConcurrencyMap :: "int list \<Rightarrow> int \<Rightarrow> int option" where
  "zeroAPIKeyConcurrencyMap apiKeyIDs = (\<lambda>i. if i \<in> set apiKeyIDs then Some 0 else None)"

definition GetAPIKeyConcurrencyBatch :: "concurrencyCache \<Rightarrow> int list \<Rightarrow> ('r redis_scheme, int \<Rightarrow> int option) proc" where
  "GetAPIKeyConcurrencyBatch c apiKeyIDs =
     (if apiKeyIDs = [] then ret (zeroAPIKeyConcurrencyMap apiKeyIDs)
      else tryP (cache_GetAPIKeyConcurrencyBatch c apiKeyIDs)
        (\<lambda>_. ret (zeroAPIKeyConcurrencyMap apiKeyIDs))
        (\<lambda>counts. ret (\<lambda>i. if i \<in> set apiKeyIDs then Some (case counts i of None \<Rightarrow> 0 | Some n \<Rightarrow> n) else None)))"

text \<open>The counts of waiting requests let a request through when Redis fails.\<close>

definition IncrementWaitCount :: "concurrencyCache \<Rightarrow> int \<Rightarrow> int \<Rightarrow> ('r redis_scheme, bool) proc" where
  "IncrementWaitCount c userID maxWait = tryP (cache_IncrementWaitCount c userID maxWait) (\<lambda>_. ret True) ret"

definition DecrementWaitCount :: "int \<Rightarrow> ('r redis_scheme, unit) proc" where
  "DecrementWaitCount userID = ignoreP (cache_DecrementWaitCount userID)"

definition IncrementAccountWaitCount :: "concurrencyCache \<Rightarrow> int \<Rightarrow> int \<Rightarrow> ('r redis_scheme, bool) proc" where
  "IncrementAccountWaitCount c accountID maxWait = tryP (cache_IncrementAccountWaitCount c accountID maxWait) (\<lambda>_. ret True) ret"

definition DecrementAccountWaitCount :: "int \<Rightarrow> ('r redis_scheme, unit) proc" where
  "DecrementAccountWaitCount accountID = ignoreP (cache_DecrementAccountWaitCount accountID)"

definition defaultExtraWaitSlots :: int where "defaultExtraWaitSlots = 20"

definition CalculateMaxWait :: "int \<Rightarrow> int" where
  "CalculateMaxWait userConcurrency = (if userConcurrency \<le> 0 then 1 else userConcurrency) + defaultExtraWaitSlots"

definition CleanupStaleProcessSlots :: "concurrencyCache \<Rightarrow> scan \<Rightarrow> ('r gateway_scheme, unit) proc" where
  "CleanupStaleProcessSlots c pages =
     bindP (getP (sp_prefix \<circ> gw_process)) (\<lambda>pre. cache_CleanupStaleProcessSlots c pages pre)"

text \<open>A process that starts clears the slots of all others and the counts of waiting requests.\<close>

definition ProvideConcurrencyService :: "concurrencyCache \<Rightarrow> scan \<Rightarrow> ('r gateway_scheme, unit) proc" where
  "ProvideConcurrencyService c pages = ignoreP (CleanupStaleProcessSlots c pages)"

definition runCleanup :: "concurrencyCache \<Rightarrow> scan \<Rightarrow> ('r redis_scheme, unit) proc" where
  "runCleanup c pages = ignoreP (CleanupExpiredSlotsByScan c pages)"

subsection \<open>The handlers\<close>

text \<open>
  A handler holds the releases of one request in the order it runs them.  \<open>wrapReleaseOnDone\<close> runs
  them at the first of its calls, by the handler or by the end of the context; \<open>fired\<close> says whether
  one has been.
\<close>

definition releaseAll :: "slotRelease list \<Rightarrow> ('r redis_scheme, unit) proc" where
  "releaseAll rs = bindP (mapP ReleaseFunc rs) (\<lambda>_. ret ())"

definition wrapReleaseOnDone :: "slotRelease list \<Rightarrow> bool \<Rightarrow> ('r redis_scheme, bool) proc" where
  "wrapReleaseOnDone rs fired = (if fired then ret True else bindP (releaseAll rs) (\<lambda>_. ret True))"

definition TryAcquireUserSlot :: "concurrencyCache \<Rightarrow> int \<Rightarrow> int \<Rightarrow> ('r gateway_scheme, slotRelease list option) proc" where
  "TryAcquireUserSlot c userID maxConcurrency =
     bindP (AcquireUserSlot c userID maxConcurrency) (\<lambda>r. ret (map_option (\<lambda>x. [x]) r))"

definition TryAcquireAccountSlot :: "concurrencyCache \<Rightarrow> int \<Rightarrow> int \<Rightarrow> ('r gateway_scheme, slotRelease list option) proc" where
  "TryAcquireAccountSlot c accountID maxConcurrency =
     bindP (AcquireAccountSlot c accountID maxConcurrency) (\<lambda>r. ret (map_option (\<lambda>x. [x]) r))"

definition withAPIKeySlot :: "concurrencyCache \<Rightarrow> int \<Rightarrow> slotRelease list \<Rightarrow> ('r gateway_scheme, slotRelease list) proc" where
  "withAPIKeySlot c apiKeyID rs =
     (if apiKeyID \<le> 0 then ret rs else bindP (TrackAPIKeySlot c apiKeyID) (\<lambda>k. ret (rs @ [k])))"

definition TryAcquireUserSlotForAPIKey :: "concurrencyCache \<Rightarrow> int \<Rightarrow> int \<Rightarrow> int \<Rightarrow> ('r gateway_scheme, slotRelease list option) proc" where
  "TryAcquireUserSlotForAPIKey c userID maxConcurrency apiKeyID =
     bindP (TryAcquireUserSlot c userID maxConcurrency) (\<lambda>r. case r of
       None \<Rightarrow> ret None
     | Some rs \<Rightarrow> bindP (withAPIKeySlot c apiKeyID rs) (\<lambda>rs'. ret (Some rs')))"

definition initialBackoff :: int where "initialBackoff = 100000000"
definition maxBackoff :: int where "maxBackoff = 2 * second"

text \<open>\<open>rand\<close> is rand.Float64().\<close>

definition nextBackoff :: "int \<Rightarrow> f64 \<Rightarrow> int" where
  "nextBackoff current rand =
     (let next0 = ftrunc (fmul (fl (of_int current)) (fl 1.5));
          next1 = (if maxBackoff < next0 then maxBackoff else next0);
          jitter = fadd (fl 0.8) (fmul rand (fl 0.4));
          jittered = ftrunc (fmul (fl (of_int next1)) jitter)
      in if jittered < initialBackoff then initialBackoff
         else if maxBackoff < jittered then maxBackoff else jittered)"

text \<open>
  The waiting loop.  A list says which case each select takes, with what the other requests and
  the clock do before it: the context ends, a ping is due (and writing it works or not), or the
  timer fires, with the random number for the next one.  \<open>None\<close> is a loop still waiting when the
  list ends.
\<close>

datatype waitEvent = CtxDone | PingDue bool | TimerFires f64

fun waitLoop :: "string \<Rightarrow> ('r gateway_scheme, slotRelease option) proc \<Rightarrow> bool \<Rightarrow> int \<Rightarrow>
    (('r gateway_scheme \<Rightarrow> 'r gateway_scheme) \<times> waitEvent) list \<Rightarrow> ('r gateway_scheme, (slotRelease \<times> int) option) proc" where
  "waitLoop slotType acquireSlot needPing backoff [] = ret None"
| "waitLoop slotType acquireSlot needPing backoff ((others, e) # evs) = bindP (modP others) (\<lambda>_. case e of
       CtxDone \<Rightarrow> fail (Internal (''timeout waiting for '' @ slotType @ '' concurrency slot''))
     | PingDue ok \<Rightarrow>
         if \<not> needPing then waitLoop slotType acquireSlot needPing backoff evs
         else bindP (modP (\<lambda>s. s\<lparr>gw_streamStarted := True\<rparr>)) (\<lambda>_.
           if \<not> ok then fail (Internal ''write'') else waitLoop slotType acquireSlot needPing backoff evs)
     | TimerFires rand \<Rightarrow> bindP acquireSlot (\<lambda>r. case r of
           Some x \<Rightarrow> ret (Some (x, backoff))
         | None \<Rightarrow> waitLoop slotType acquireSlot needPing (nextBackoff backoff rand) evs))"

definition acquireSlotOf :: "concurrencyCache \<Rightarrow> string \<Rightarrow> int \<Rightarrow> int \<Rightarrow> ('r gateway_scheme, slotRelease option) proc" where
  "acquireSlotOf c slotType i maxConcurrency =
     (if slotType = ''user'' then AcquireUserSlot c i maxConcurrency else AcquireAccountSlot c i maxConcurrency)"

text \<open>\<open>ping\<close>: the handler's ping format is not empty; \<open>canFlush\<close>: the writer is a flusher.\<close>

definition waitForSlotWithPingTimeout where
  "waitForSlotWithPingTimeout c ping canFlush slotType i maxConcurrency isStream tryImmediate evs =
     (let wait = (if isStream \<and> ping \<and> \<not> canFlush then fail (Internal ''streaming not supported'')
                  else bindP (waitLoop slotType (acquireSlotOf c slotType i maxConcurrency) (isStream \<and> ping) initialBackoff evs)
                    (\<lambda>r. ret (map_option (\<lambda>(x, _). [x]) r)))
      in if tryImmediate
         then bindP (acquireSlotOf c slotType i maxConcurrency) (\<lambda>r. case r of Some x \<Rightarrow> ret (Some [x]) | None \<Rightarrow> wait)
         else wait)"

text \<open>\<open>apiKey\<close>: the id of the key the request came with, if the context has one.\<close>

definition AcquireUserSlotWithWait where
  "AcquireUserSlotWithWait c ping canFlush apiKey userID maxConcurrency isStream evs =
     (let withKey = (\<lambda>rs. case apiKey of None \<Rightarrow> ret (Some rs) | Some k \<Rightarrow> bindP (withAPIKeySlot c k rs) (\<lambda>rs'. ret (Some rs')))
      in bindP (TryAcquireUserSlot c userID maxConcurrency) (\<lambda>r. case r of
           Some rs \<Rightarrow> withKey rs
         | None \<Rightarrow> bindP (waitForSlotWithPingTimeout c ping canFlush ''user'' userID maxConcurrency isStream False evs) (\<lambda>r'. case r' of
             None \<Rightarrow> ret None | Some rs \<Rightarrow> withKey rs)))"

definition AcquireAccountSlotWithWait where
  "AcquireAccountSlotWithWait c ping canFlush accountID maxConcurrency isStream evs =
     bindP (TryAcquireAccountSlot c accountID maxConcurrency) (\<lambda>r. case r of
       Some rs \<Rightarrow> ret (Some rs)
     | None \<Rightarrow> waitForSlotWithPingTimeout c ping canFlush ''account'' accountID maxConcurrency isStream False evs)"

end
