(* ===== verification/ConcurrencyLimits.thy ===== *)
theory ConcurrencyLimits
  imports ConcurrencySlots
begin

section \<open>Any number of processes over the slots\<close>

text \<open>
  Processes share the slots in Redis: at every step one of them takes a slot for a request, a
  request ends, a process dies with its requests, a process starts or makes the next call of its
  start-up clean-up, the clean-up job looks at a key, or time passes; calls of Redis fail at any
  point.  The running requests younger than the slots' time to live then never exceed the limit,
  unless a process starts while another one is serving; and a slot that was never given back is
  free again after its time to live.
\<close>

subsection \<open>The members of a key that count\<close>

definition heldSlots :: "int \<Rightarrow> string \<Rightarrow> 'r redis_scheme \<Rightarrow> (string \<times> int) list" where
  "heldSlots ttl k s = zremUpTo (redisSeconds s - ttl) (zMembers k s)"

definition wellStored :: "int \<Rightarrow> 'r redis_scheme \<Rightarrow> bool" where
  "wellStored ttl s \<longleftrightarrow> (\<forall>(k, z, ex) \<in> set (rd_sets s).
     distinct (map fst z) \<and> (\<forall>(m, sc) \<in> set z. sc \<le> redisSeconds s \<and> (sc + ttl) * 1000 \<le> ex))"

lemma wellStoredD:
  "wellStored ttl s \<Longrightarrow> (k, z, ex) \<in> set (rd_sets s) \<Longrightarrow> distinct (map fst z)"
  "wellStored ttl s \<Longrightarrow> (k, z, ex) \<in> set (rd_sets s) \<Longrightarrow> (m, sc) \<in> set z \<Longrightarrow> sc \<le> redisSeconds s \<and> (sc + ttl) * 1000 \<le> ex"
  unfolding wellStored_def by fast+

lemma map_of_put [simp]: "map_of (put k v kvs) = (map_of kvs)(k \<mapsto> v)"
proof
  fix x
  show "map_of (put k v kvs) x = ((map_of kvs)(k \<mapsto> v)) x"
    by (induction kvs) (auto simp: put_def)
qed

lemma map_of_del [simp]: "map_of (del k kvs) = (map_of kvs)(k := None)"
proof
  fix x
  show "map_of (del k kvs) x = ((map_of kvs)(k := None)) x"
    by (induction kvs) (auto simp: del_def)
qed

lemma redis_times [simp]:
  "redisSeconds (s\<lparr>rd_sets := z\<rparr>) = redisSeconds s" "redisMillis (s\<lparr>rd_sets := z\<rparr>) = redisMillis s"
  "redisSeconds (s\<lparr>rd_faults := f\<rparr>) = redisSeconds s" "redisMillis (s\<lparr>rd_faults := f\<rparr>) = redisMillis s"
  "redisSeconds (s\<lparr>rd_counters := n\<rparr>) = redisSeconds s" "redisMillis (s\<lparr>rd_counters := n\<rparr>) = redisMillis s"
  by (simp_all add: redisSeconds_def redisMillis_def)

lemma stores_times [simp]:
  "redisSeconds (zStore k z ttl s) = redisSeconds s" "redisSeconds (zKeep k z s) = redisSeconds s"
  "rd_now (zStore k z ttl s) = rd_now s" "rd_now (zKeep k z s) = rd_now s"
  by (simp_all add: zStore_def zKeep_def)

lemma millis_in_second: "redisSeconds s * 1000 \<le> redisMillis s" "redisMillis s < (redisSeconds s + 1) * 1000"
  by (simp_all add: redisSeconds_def redisMillis_def second_def)

lemma zMembers_other [simp]:
  "zMembers k (s\<lparr>rd_faults := f\<rparr>) = zMembers k s" "zMembers k (s\<lparr>rd_counters := n\<rparr>) = zMembers k s"
  by (simp_all add: zMembers_def split: option.split)

lemma zMembers_zStore [simp]: "0 \<le> ttl \<Longrightarrow> zMembers k' (zStore k z ttl s) = (if k' = k then z else zMembers k' s)"
  by (auto simp: zMembers_def zStore_def expireAfter_def split: option.split)

lemma zMembers_zKeep:
  "(zMembers k s = [] \<Longrightarrow> z = []) \<Longrightarrow> zMembers k' (zKeep k z s) = (if k' = k then z else zMembers k' s)"
  by (auto simp: zMembers_def zKeep_def split: option.splits if_splits)

lemma wellStored_other [simp]:
  "wellStored ttl (s\<lparr>rd_faults := f\<rparr>) = wellStored ttl s" "wellStored ttl (s\<lparr>rd_counters := n\<rparr>) = wellStored ttl s"
  by (simp_all add: wellStored_def)

lemma heldSlots_other [simp]:
  "heldSlots ttl k (s\<lparr>rd_faults := f\<rparr>) = heldSlots ttl k s" "heldSlots ttl k (s\<lparr>rd_counters := n\<rparr>) = heldSlots ttl k s"
  by (simp_all add: heldSlots_def)

lemma wellStored_members:
  assumes "wellStored ttl s"
  shows "distinct (map fst (zMembers k s))" "(m, sc) \<in> set (zMembers k s) \<Longrightarrow> sc \<le> redisSeconds s"
proof -
  have "distinct (map fst (zMembers k s)) \<and> (\<forall>(m, sc) \<in> set (zMembers k s). sc \<le> redisSeconds s)"
  proof (cases "map_of (rd_sets s) k")
    case (Some v)
    obtain z ex where v: "v = (z, ex)" by fastforce
    then have "(k, z, ex) \<in> set (rd_sets s)" using Some by (auto dest: map_of_SomeD)
    then show ?thesis using wellStoredD [OF assms] Some v by (auto simp: zMembers_def)
  qed (simp add: zMembers_def)
  then show "distinct (map fst (zMembers k s))" "(m, sc) \<in> set (zMembers k s) \<Longrightarrow> sc \<le> redisSeconds s" by auto
qed

lemma distinct_filter_fst: "distinct (map fst z) \<Longrightarrow> distinct (map fst (filter P z))"
  by (induction z) auto

lemma wellStored_zStore:
  assumes w: "wellStored ttl s" and d: "distinct (map fst z)" and sc: "\<And>m sc. (m, sc) \<in> set z \<Longrightarrow> sc \<le> redisSeconds s"
  shows "wellStored ttl (zStore k z ttl s)"
proof -
  have "(sc + ttl) * 1000 \<le> expireAfter ttl s" if "(m, sc) \<in> set z" for m sc
    using sc [OF that] millis_in_second(1) [of s] by (simp add: expireAfter_def)
  then show ?thesis
    using w d sc by (auto simp: wellStored_def zStore_def put_def del_def)
qed

lemma wellStored_zKeep:
  assumes w: "wellStored ttl s"
  shows "wellStored ttl (zKeep k (filter P (zMembers k s)) s)"
proof (cases "map_of (rd_sets s) k")
  case None
  with w show ?thesis by (simp add: zKeep_def wellStored_def)
next
  case (Some v)
  obtain z ex where v: "v = (z, ex)" by fastforce
  have "(k, z, ex) \<in> set (rd_sets s)" using Some v by (auto dest: map_of_SomeD)
  then show ?thesis
    using w Some v by (auto simp: wellStored_def zKeep_def put_def del_def zMembers_def distinct_filter_fst)
qed

lemma zremUpTo_filter: "zremUpTo b z = filter (\<lambda>p. b < snd p) z"
  by (simp add: zremUpTo_def)

lemma zKeep_id: "zMembers k' (zKeep k (filter P (zMembers k s)) s) = (if k' = k then filter P (zMembers k s) else zMembers k' s)"
  by (rule zMembers_zKeep) simp

text \<open>What each script does to the members that count.\<close>

lemma acquireScript_effect:
  assumes "wellStored ttl s" and "0 < ttl" and "acquireScript k mx ttl rid s = (r, s')"
  shows "wellStored ttl s'" and "rd_now s' = rd_now s"
    and "heldSlots ttl k' s' = (if k' = k \<and> r = Inr 1 then zadd rid (redisSeconds s) (heldSlots ttl k s) else heldSlots ttl k' s)"
    and "r = Inr 1 \<longleftrightarrow> rid \<in> set (map fst (heldSlots ttl k s)) \<or> int (length (heldSlots ttl k s)) < mx"
    and "r = Inr 1 \<or> r = Inr 0"
proof -
  let ?now = "redisSeconds s" and ?z = "zremUpTo (redisSeconds s - ttl) (zMembers k s)"
  have d: "distinct (map fst ?z)" using wellStored_members(1) [OF assms(1)] by (simp add: zremUpTo_def distinct_filter_fst)
  have d': "distinct (map fst (zadd rid ?now ?z))"
    using d by (auto simp: zadd_def put_def distinct_filter_fst)
  have sc: "sc \<le> ?now" if "(m, sc) \<in> set (zadd rid ?now ?z)" for m sc
    using that wellStored_members(2) [OF assms(1)] by (auto simp: zadd_def put_def zremUpTo_def)
  have st: "wellStored ttl (zStore k (zadd rid ?now ?z) ttl s)" by (rule wellStored_zStore [OF assms(1) d' sc])
  have kp: "wellStored ttl (zKeep k ?z s)" unfolding zremUpTo_def by (rule wellStored_zKeep [OF assms(1)])
  have up: "zremUpTo (?now - ttl) (zadd rid ?now ?z) = zadd rid ?now ?z"
    using assms(2) by (auto simp: zadd_def put_def zremUpTo_def intro!: filter_cong)
  have kp': "zMembers k' (zKeep k ?z s) = (if k' = k then ?z else zMembers k' s)" for k'
    unfolding zremUpTo_def by (rule zKeep_id)
  have idem: "zremUpTo (?now - ttl) ?z = ?z" by (simp add: zremUpTo_def)
  show "wellStored ttl s'" "rd_now s' = rd_now s" "r = Inr 1 \<or> r = Inr 0"
    "r = Inr 1 \<longleftrightarrow> rid \<in> set (map fst (heldSlots ttl k s)) \<or> int (length (heldSlots ttl k s)) < mx"
    using assms(3) st kp by (auto simp: acquireScript_def Let_def heldSlots_def split: if_splits)
  show "heldSlots ttl k' s' = (if k' = k \<and> r = Inr 1 then zadd rid ?now (heldSlots ttl k s) else heldSlots ttl k' s)"
    using assms(2,3) up kp' idem by (auto simp: acquireScript_def Let_def heldSlots_def split: if_splits)
qed

lemma zRem_effect:
  assumes "wellStored ttl s"
  shows "wellStored ttl (snd (zRem k m s))" and "rd_now (snd (zRem k m s)) = rd_now s"
    and "heldSlots ttl k' (snd (zRem k m s)) = (if k' = k then filter (\<lambda>p. fst p \<noteq> m) (heldSlots ttl k s) else heldSlots ttl k' s)"
  using wellStored_zKeep [OF assms]
  by (auto simp: zRem_def heldSlots_def zKeep_id zremUpTo_def conj_commute)

lemma getCountScript_effect:
  assumes "wellStored ttl s"
  shows "wellStored ttl (snd (getCountScript k ttl s))" and "rd_now (snd (getCountScript k ttl s)) = rd_now s"
    and "heldSlots ttl k' (snd (getCountScript k ttl s)) = heldSlots ttl k' s"
  using wellStored_zKeep [OF assms]
  by (auto simp: getCountScript_def Let_def heldSlots_def zKeep_id zremUpTo_def)

lemma cleanupExpiredSlotsScript_effect:
  assumes "wellStored ttl s" and "0 < ttl"
  shows "wellStored ttl (snd (cleanupExpiredSlotsScript k ttl s))" and "rd_now (snd (cleanupExpiredSlotsScript k ttl s)) = rd_now s"
    and "heldSlots ttl k' (snd (cleanupExpiredSlotsScript k ttl s)) = heldSlots ttl k' s"
proof -
  show "wellStored ttl (snd (cleanupExpiredSlotsScript k ttl s))"
    unfolding cleanupExpiredSlotsScript_def snd_conv
    by (rule wellStored_zStore [OF assms(1)]) (use wellStored_members [OF assms(1)] in \<open>auto simp: zremUpTo_def distinct_filter_fst\<close>)
qed (use assms(2) in \<open>auto simp: cleanupExpiredSlotsScript_def heldSlots_def zremUpTo_def\<close>)

lemma startupCleanupScript_effect:
  assumes "wellStored ttl s" and "0 < ttl"
  shows "wellStored ttl (snd (startupCleanupScript ks pre ttl s)) \<and> rd_now (snd (startupCleanupScript ks pre ttl s)) = rd_now s \<and>
    heldSlots ttl k' (snd (startupCleanupScript ks pre ttl s)) = (if k' \<in> set ks then ofProcess pre (heldSlots ttl k' s) else heldSlots ttl k' s)"
  using assms(1)
proof (induction ks arbitrary: s)
  case (Cons k ks)
  let ?s = "zStore k (ofProcess pre (zMembers k s)) ttl s"
  have w: "wellStored ttl ?s"
    by (rule wellStored_zStore [OF Cons.prems])
      (use wellStored_members [OF Cons.prems] in \<open>auto simp: ofProcess_def distinct_filter_fst\<close>)
  have h: "heldSlots ttl k' ?s = (if k' = k then ofProcess pre (heldSlots ttl k s) else heldSlots ttl k' s)"
    using assms(2) by (auto simp: heldSlots_def ofProcess_def zremUpTo_def conj_commute)
  have "ofProcess pre (ofProcess pre z) = ofProcess pre z" for z by (simp add: ofProcess_def)
  then show ?case
    using Cons.IH [OF w] h by (auto simp: Let_def split: prod.splits)
qed simp

lemma passes_effect:
  assumes "wellStored ttl s" and "0 \<le> d" and t: "t = s\<lparr>rd_now := rd_now s + d\<rparr>"
  shows "wellStored ttl t"
    and "heldSlots ttl k t = zremUpTo (redisSeconds t - ttl) (heldSlots ttl k s)"
proof -
  have sec: "redisSeconds s \<le> redisSeconds t" and ms: "redisMillis s \<le> redisMillis t" and sets: "rd_sets t = rd_sets s"
    using assms(2) t by (simp_all add: redisSeconds_def redisMillis_def second_def zdiv_mono1)
  show "wellStored ttl t"
    using assms(1) sec sets by (fastforce simp: wellStored_def)
  show "heldSlots ttl k t = zremUpTo (redisSeconds t - ttl) (heldSlots ttl k s)"
  proof (cases "map_of (rd_sets s) k")
    case None
    then show ?thesis using sets by (simp add: heldSlots_def zMembers_def zremUpTo_def)
  next
    case (Some v)
    obtain z ex where v: "v = (z, ex)" by fastforce
    then have in_z: "(k, z, ex) \<in> set (rd_sets s)" using Some by (auto dest: map_of_SomeD)
    have gone: "sc \<le> redisSeconds t - ttl" if "(m, sc) \<in> set z" "ex < redisMillis t" for m sc
    proof -
      have "(sc + ttl) * 1000 \<le> ex" using assms(1) in_z that(1) by (auto simp: wellStored_def)
      then show ?thesis using that(2) millis_in_second(2) [of t] by simp
    qed
    have none: "filter (\<lambda>p. redisSeconds t - ttl < snd p) z = []" if "ex < redisMillis t"
      using gone that by (fastforce simp: filter_empty_conv)
    have "redisSeconds s - ttl < b" if "redisSeconds t - ttl < b" for b using that sec by simp
    then have f: "filter (\<lambda>p. redisSeconds s - ttl < snd p \<and> redisSeconds t - ttl < snd p) z = filter (\<lambda>p. redisSeconds t - ttl < snd p) z"
      by (intro filter_cong) auto
    show ?thesis
      using Some v none ms f sets
      by (auto simp: heldSlots_def zMembers_def zremUpTo_def)
  qed
qed

subsection \<open>The ids of requests\<close>

lemma digit36_code: "d < 36 \<Longrightarrow> (of_char (digit36 d) :: nat) = (if d < 10 then 48 + d else 87 + d)"
proof -
  assume "d < 36"
  then have "(if d < 10 then 48 + d else 87 + d) < 256" by simp
  then show ?thesis by (simp only: digit36_def of_char_of mod_less)
qed

lemma digit36_eq: "d < 36 \<Longrightarrow> e < 36 \<Longrightarrow> digit36 d = digit36 e \<longleftrightarrow> d = e"
proof
  assume "d < 36" "e < 36" "digit36 d = digit36 e"
  then have "(if d < 10 then 48 + d else 87 + d) = (if e < 10 then 48 + e else 87 + e)"
    using digit36_code by metis
  then show "d = e" by (cases "d < 10"; cases "e < 10") simp_all
qed simp

lemma digit36_no_dash: "d < 36 \<Longrightarrow> digit36 d \<noteq> CHR ''-''"
proof
  assume "d < 36" "digit36 d = CHR ''-''"
  then have "(if d < 10 then 48 + d else 87 + d) = (of_char CHR ''-'' :: nat)" using digit36_code by metis
  then show False by (cases "d < 10") simp_all
qed

lemma base36_not_Nil [simp]: "base36 n \<noteq> []" "[] \<noteq> base36 n"
  by (subst base36.simps, simp)+

lemma base36_no_dash: "CHR ''-'' \<notin> set (base36 n)"
proof (induction n rule: base36.induct)
  case (1 n)
  then show ?case
    using digit36_no_dash [of n] digit36_no_dash [of "n mod 36"] by (subst base36.simps) auto
qed

lemma base36_eq: "base36 m = base36 n \<Longrightarrow> m = n"
proof (induction m arbitrary: n rule: base36.induct)
  case (1 m)
  have two: "\<not> (xs @ [x] = [y] \<and> xs \<noteq> [])" for xs :: string and x y by auto
  show ?case
  proof (cases "m < 36 \<or> n < 36")
    case True
    then have "m < 36 \<and> n < 36" using "1.prems" by (auto simp: base36.simps [of m] base36.simps [of n] split: if_splits)
    then show ?thesis using "1.prems" digit36_eq [of m n] by (simp add: base36.simps)
  next
    case False
    then have "base36 (m div 36) = base36 (n div 36)" "digit36 (m mod 36) = digit36 (n mod 36)"
      using "1.prems" by (simp_all add: base36.simps [of m] base36.simps [of n])
    then have "m div 36 = n div 36" "m mod 36 = n mod 36"
      using "1.IH" False digit36_eq [of "m mod 36" "n mod 36"] by auto
    then show ?thesis by (metis div_mult_mod_eq)
  qed
qed

definition requestID :: "string \<Rightarrow> nat \<Rightarrow> string" where
  "requestID pre n = pre @ ''-'' @ base36 n"

lemma requestID_eq: "requestID p m = requestID q n \<longleftrightarrow> p = q \<and> m = n"
proof
  assume "requestID p m = requestID q n"
  then have eq: "p @ CHR ''-'' # base36 m = q @ CHR ''-'' # base36 n" by (simp add: requestID_def)
  then have "rev (base36 m) @ CHR ''-'' # rev p = rev (base36 n) @ CHR ''-'' # rev q"
    by (metis append.assoc rev.simps(2) rev_append append_Cons append_Nil)
  then have "takeWhile (\<lambda>c. c \<noteq> CHR ''-'') (rev (base36 m) @ CHR ''-'' # rev p) = takeWhile (\<lambda>c. c \<noteq> CHR ''-'') (rev (base36 n) @ CHR ''-'' # rev q)"
    by simp
  then have "base36 m = base36 n"
    using base36_no_dash by (subst (asm) (1 2) takeWhile_append2) auto
  then show "p = q \<and> m = n" using eq base36_eq by auto
qed simp

lemma natDigits_eq: "natDigits m = natDigits n \<Longrightarrow> m = n"
  using parseDigits_natDigits [of m] parseDigits_natDigits [of n]
  by (metis add_0 mult_zero_left option.inject)

lemma itoa_eq: "itoa i = itoa j \<longleftrightarrow> i = j"
proof
  assume eq: "itoa i = itoa j"
  have h: "natDigits n \<noteq> CHR ''-'' # ds" for n ds using natDigits_head [of n] by auto
  then have "i < 0 \<longleftrightarrow> j < 0" using eq by (auto simp: itoa_def split: if_splits) (metis h)+
  then show "i = j" using eq natDigits_eq by (auto simp: itoa_def split: if_splits dest!: natDigits_eq)
qed simp

subsection \<open>Processes and running requests\<close>

datatype slotOwner = OfAccount int | OfUser int

definition ownerKey :: "slotOwner \<Rightarrow> string" where
  "ownerKey ow = (case ow of OfAccount i \<Rightarrow> accountSlotKey i | OfUser i \<Rightarrow> userSlotKey i)"

lemma ownerKey_eq: "ownerKey a = ownerKey b \<longleftrightarrow> a = b"
  by (cases a; cases b) (auto simp: ownerKey_def accountSlotKey_def userSlotKey_def accountSlotKeyPrefix_def userSlotKeyPrefix_def itoa_eq)

definition slotOf :: "slotRelease \<Rightarrow> (string \<times> string) option" where
  "slotOf sl = (case sl of
       AccountSlot i rid \<Rightarrow> Some (accountSlotKey i, rid)
     | UserSlot i rid \<Rightarrow> Some (userSlotKey i, rid)
     | APIKeySlot i rid \<Rightarrow> Some (apiKeySlotKey i, rid)
     | NoSlot \<Rightarrow> None)"

record slotRun =
  rn_slot :: slotRelease
  rn_process :: string
  rn_since :: int

record cluster = redis +
  cl_procs :: "slotProcess list"
  cl_running :: "slotRun list"

definition emptyCluster :: "int \<Rightarrow> callFault option list \<Rightarrow> cluster" where
  "emptyCluster t fs = \<lparr>rd_now = t, rd_sets = [], rd_counters = [], rd_faults = fs, cl_procs = [], cl_running = []\<rparr>"

text \<open>A procedure of the \<open>n\<close>th process: it sees Redis and its own counter.\<close>

definition asGateway :: "slotProcess \<Rightarrow> cluster \<Rightarrow> gateway" where
  "asGateway p st = \<lparr>rd_now = rd_now st, rd_sets = rd_sets st, rd_counters = rd_counters st, rd_faults = rd_faults st,
     gw_process = p, gw_streamStarted = False\<rparr>"

definition atProcess :: "nat \<Rightarrow> (gateway, 'a) proc \<Rightarrow> (cluster, 'a) proc" where
  "atProcess n m = (\<lambda>st. case m (asGateway (cl_procs st ! n) st) of (r, g) \<Rightarrow>
     (r, st\<lparr>rd_now := rd_now g, rd_sets := rd_sets g, rd_counters := rd_counters g, rd_faults := rd_faults g,
        cl_procs := (cl_procs st)[n := gw_process g]\<rparr>))"

definition acquireFor :: "concurrencyCache \<Rightarrow> slotOwner \<Rightarrow> int \<Rightarrow> (gateway, slotRelease option) proc" where
  "acquireFor c ow limit = (case ow of OfAccount i \<Rightarrow> AcquireAccountSlot c i limit | OfUser i \<Rightarrow> AcquireUserSlot c i limit)"

datatype clusterEvent =
    Passes int
  | Begins nat slotOwner int
  | Ends nat
  | Dies nat
  | Joins string
  | CleansPage nat "string list"
  | DropsWaits "string list"
  | Sweeps string
  | Counts slotOwner

definition without :: "nat \<Rightarrow> 'a list \<Rightarrow> 'a list" where
  "without n xs = take n xs @ drop (Suc n) xs"

fun clusterStep :: "concurrencyCache \<Rightarrow> clusterEvent \<Rightarrow> cluster \<Rightarrow> cluster" where
  "clusterStep c (Passes d) st = st\<lparr>rd_now := rd_now st + max 0 d\<rparr>"
| "clusterStep c (Begins n ow limit) st =
     (if n < length (cl_procs st) then
        (case atProcess n (acquireFor c ow limit) st of (r, st') \<Rightarrow>
           (case r of
              Inr (Some sl) \<Rightarrow> st'\<lparr>cl_running := \<lparr>rn_slot = sl, rn_process = sp_prefix (cl_procs st ! n), rn_since = redisSeconds st\<rparr> # cl_running st'\<rparr>
            | _ \<Rightarrow> st'))
      else st)"
| "clusterStep c (Ends n) st =
     (if n < length (cl_running st)
      then (snd (ReleaseFunc (rn_slot (cl_running st ! n)) st))\<lparr>cl_running := without n (cl_running st)\<rparr> else st)"
| "clusterStep c (Dies n) st =
     (if n < length (cl_procs st)
      then st\<lparr>cl_procs := without n (cl_procs st), cl_running := filter (\<lambda>r. rn_process r \<noteq> sp_prefix (cl_procs st ! n)) (cl_running st)\<rparr>
      else st)"
| "clusterStep c (Joins pre) st = st\<lparr>cl_procs := cl_procs st @ [\<lparr>sp_prefix = pre, sp_counter = 0\<rparr>]\<rparr>"
| "clusterStep c (CleansPage n ks) st =
     (if n < length (cl_procs st) then snd (cleanupPage c (sp_prefix (cl_procs st ! n)) ks st) else st)"
| "clusterStep c (DropsWaits ks) st = snd (deletePage ks st)"
| "clusterStep c (Sweeps k) st = snd (redisCall ''cleanup'' (cleanupExpiredSlotsScript k (slotTTLSeconds c)) st)"
| "clusterStep c (Counts ow) st = snd (case ow of OfAccount i \<Rightarrow> GetAccountConcurrency c i st | OfUser i \<Rightarrow> GetUserConcurrency c i st)"

definition runCluster :: "concurrencyCache \<Rightarrow> clusterEvent list \<Rightarrow> cluster \<Rightarrow> cluster" where
  "runCluster c steps st = fold (clusterStep c) steps st"

text \<open>
  What the deployment has to guarantee: random prefixes differ, and a process cleans up at its start
  only while no request of another process holds a slot.
\<close>

definition quietStep :: "clusterEvent \<Rightarrow> cluster \<Rightarrow> bool" where
  "quietStep x st = (case x of
       Joins pre \<Rightarrow> pre \<notin> set (map sp_prefix (cl_procs st))
     | CleansPage n ks \<Rightarrow> list_all (\<lambda>r. case slotOf (rn_slot r) of None \<Rightarrow> True
         | Some (k, rid) \<Rightarrow> hasPrefix rid (sp_prefix (cl_procs st ! n))) (cl_running st)
     | _ \<Rightarrow> True)"

fun quietRun :: "concurrencyCache \<Rightarrow> clusterEvent list \<Rightarrow> cluster \<Rightarrow> bool" where
  "quietRun c [] st = True"
| "quietRun c (x # xs) st = (quietStep x st \<and> quietRun c xs (clusterStep c x st))"

definition limitedBy :: "slotOwner \<Rightarrow> nat \<Rightarrow> clusterEvent \<Rightarrow> bool" where
  "limitedBy ow M x = (case x of Begins n ow' limit \<Rightarrow> ow' = ow \<longrightarrow> limit \<le> int M | _ \<Rightarrow> True)"

text \<open>The running requests of an owner that took a slot less than its time to live ago.\<close>

definition youngRuns :: "concurrencyCache \<Rightarrow> slotOwner \<Rightarrow> cluster \<Rightarrow> slotRun list" where
  "youngRuns c ow st = filter (\<lambda>r. (case slotOf (rn_slot r) of None \<Rightarrow> False | Some (k, rid) \<Rightarrow> k = ownerKey ow) \<and>
     redisSeconds st - slotTTLSeconds c < rn_since r) (cl_running st)"

subsection \<open>What a step does to the members that count\<close>

lemma keeps_redisCall:
  assumes "\<And>s fs. P (s\<lparr>rd_faults := fs\<rparr>) = P s" and "\<And>s. P s \<Longrightarrow> P (snd (act s))"
  shows "keepsP P (redisCall tag act)"
  using assms by (auto simp: keepsP_def redisCall_def split: list.split option.split callFault.split)

lemma redisCall_cases:
  assumes "redisCall tag act s = (r, s')"
  obtains (refused) e fs where "r = Inl e" "s' = s\<lparr>rd_faults := fs\<rparr>"
    | (lost) e fs where "r = Inl e" "s' = snd (act (s\<lparr>rd_faults := fs\<rparr>))"
    | (answered) fs where "r = fst (act (s\<lparr>rd_faults := fs\<rparr>))" "s' = snd (act (s\<lparr>rd_faults := fs\<rparr>))"
proof (cases "rd_faults s")
  case Nil
  then have eq: "s\<lparr>rd_faults := []\<rparr> = s" by simp
  have "act s = (r, s')" using assms Nil by (simp add: redisCall_def)
  then have "act (s\<lparr>rd_faults := []\<rparr>) = (r, s')" by (subst eq)
  then show ?thesis by (intro answered [of "[]"]) simp_all
next
  case (Cons f fs)
  show ?thesis
  proof (cases f)
    case None
    have "act (s\<lparr>rd_faults := fs\<rparr>) = (r, s')" using assms Cons None by (simp add: redisCall_def)
    then show ?thesis by (intro answered [of fs]) simp_all
  next
    case (Some fault)
    show ?thesis
      using assms Cons Some lost [of "Internal tag" fs] refused [of "Internal tag" fs]
      by (cases fault) (simp_all add: redisCall_def)
  qed
qed

definition slotFor :: "slotOwner \<Rightarrow> string \<Rightarrow> slotRelease" where
  "slotFor ow rid = (case ow of OfAccount i \<Rightarrow> AccountSlot i rid | OfUser i \<Rightarrow> UserSlot i rid)"

lemma slotOf_slotFor [simp]: "slotOf (slotFor ow rid) = Some (ownerKey ow, rid)"
  by (cases ow) (simp_all add: slotFor_def slotOf_def ownerKey_def)

lemma slotOf_NoSlot [simp]: "slotOf NoSlot = None"
  by (simp add: slotOf_def)

lemma bindP_ret_bindP: "bindP (bindP m (\<lambda>r. ret (p r))) (\<lambda>b. ret (F b)) = bindP m (\<lambda>r. ret (F (p r)))"
  by (auto simp: bindP_def ret_def fun_eq_iff split: prod.splits sum.splits)

lemma acquireFor_alt:
  "acquireFor c ow limit = (if limit \<le> 0 then ret (Some NoSlot) else bindP generateRequestID (\<lambda>rid.
     bindP (redisCall ''acquire'' (acquireScript (ownerKey ow) limit (slotTTLSeconds c) rid)) (\<lambda>r.
       ret (if r = 1 then Some (slotFor ow rid) else None))))"
  by (cases ow) (simp_all add: acquireFor_def AcquireAccountSlot_def AcquireUserSlot_def cache_AcquireAccountSlot_def
    cache_AcquireUserSlot_def slotFor_def ownerKey_def bindP_ret_bindP cong del: if_weak_cong)

text \<open>The acquired state: the new id may have been added, within the limit, and was if it was granted.\<close>

definition mayAdd :: "int \<Rightarrow> string \<Rightarrow> string \<Rightarrow> int \<Rightarrow> 'r redis_scheme \<Rightarrow> 't redis_scheme \<Rightarrow> bool" where
  "mayAdd ttl k rid limit s s' \<longleftrightarrow> heldSlots ttl k s' = heldSlots ttl k s \<or>
     heldSlots ttl k s' = zadd rid (redisSeconds s) (heldSlots ttl k s) \<and>
     (rid \<in> set (map fst (heldSlots ttl k s)) \<or> int (length (heldSlots ttl k s)) < limit)"

lemma acquireCall_effect:
  assumes w: "wellStored ttl s" and ttl: "0 < ttl" and r: "redisCall t (acquireScript k limit ttl rid) s = (r, s')"
  shows "wellStored ttl s'" "rd_now s' = rd_now s" "k' \<noteq> k \<Longrightarrow> heldSlots ttl k' s' = heldSlots ttl k' s"
    and "mayAdd ttl k rid limit s s'" and "r = Inr 1 \<Longrightarrow> heldSlots ttl k s' = zadd rid (redisSeconds s) (heldSlots ttl k s)"
proof -
  have w': "wellStored ttl (s\<lparr>rd_faults := fs\<rparr>)" for fs using w by simp
  note e = acquireScript_effect [OF w' ttl prod.collapse [symmetric], where ?k = k and ?mx = limit and ?rid = rid]
  have n: "rd_now (s\<lparr>rd_faults := fs\<rparr>) = rd_now s" for fs by simp
  show "wellStored ttl s'" "rd_now s' = rd_now s" "k' \<noteq> k \<Longrightarrow> heldSlots ttl k' s' = heldSlots ttl k' s"
    "mayAdd ttl k rid limit s s'" "r = Inr 1 \<Longrightarrow> heldSlots ttl k s' = zadd rid (redisSeconds s) (heldSlots ttl k s)"
    using r by (elim redisCall_cases; use w e(1-4) in \<open>auto simp: mayAdd_def\<close>)+
qed

text \<open>The steps change the records; what counts is read from Redis's part.\<close>

lemma held_fields: "rd_now s = rd_now t \<Longrightarrow> rd_sets s = rd_sets t \<Longrightarrow> heldSlots ttl k s = heldSlots ttl k t"
  by (simp add: heldSlots_def zMembers_def redisSeconds_def redisMillis_def split: option.split)

lemma wellStored_fields: "rd_now s = rd_now t \<Longrightarrow> rd_sets s = rd_sets t \<Longrightarrow> wellStored ttl s = wellStored ttl t"
  by (simp add: wellStored_def redisSeconds_def)

lemma redisSeconds_fields: "rd_now s = rd_now t \<Longrightarrow> redisSeconds s = redisSeconds t"
  by (simp add: redisSeconds_def)

definition nextID :: "slotProcess \<Rightarrow> string" where
  "nextID p = requestID (sp_prefix p) (sp_counter p + 1)"

lemma acquireFor_effect:
  fixes g g' :: gateway
  assumes w: "wellStored ttl g" and ttl: "slotTTLSeconds c = ttl" "0 < ttl" and r: "acquireFor c ow limit g = (r, g')"
  shows "wellStored ttl g'" "rd_now g' = rd_now g" "k' \<noteq> ownerKey ow \<Longrightarrow> heldSlots ttl k' g' = heldSlots ttl k' g"
    and "mayAdd ttl (ownerKey ow) (nextID (gw_process g)) limit g g'"
    and "sp_prefix (gw_process g') = sp_prefix (gw_process g)" "sp_counter (gw_process g) \<le> sp_counter (gw_process g')"
    and "r = Inr (Some sl) \<Longrightarrow> sl = NoSlot \<or> sl = slotFor ow (nextID (gw_process g)) \<and>
      sp_counter (gw_process g) < sp_counter (gw_process g') \<and>
      heldSlots ttl (ownerKey ow) g' = zadd (nextID (gw_process g)) (redisSeconds g) (heldSlots ttl (ownerKey ow) g)"
proof -
  let ?id = "nextID (gw_process g)"
  define g1 where "g1 = g\<lparr>gw_process := (gw_process g)\<lparr>sp_counter := sp_counter (gw_process g) + 1\<rparr>\<rparr>"
  have g1: "rd_now g1 = rd_now g" "rd_sets g1 = rd_sets g" by (simp_all add: g1_def)
  have w1: "wellStored ttl g1" using w wellStored_fields [OF g1] by simp
  have all: "wellStored ttl g' \<and> rd_now g' = rd_now g \<and> (k' \<noteq> ownerKey ow \<longrightarrow> heldSlots ttl k' g' = heldSlots ttl k' g) \<and>
    mayAdd ttl (ownerKey ow) ?id limit g g' \<and>
    sp_prefix (gw_process g') = sp_prefix (gw_process g) \<and> sp_counter (gw_process g) \<le> sp_counter (gw_process g') \<and>
    (r = Inr (Some sl) \<longrightarrow> sl = NoSlot \<or> sl = slotFor ow ?id \<and> sp_counter (gw_process g) < sp_counter (gw_process g') \<and>
      heldSlots ttl (ownerKey ow) g' = zadd ?id (redisSeconds g) (heldSlots ttl (ownerKey ow) g))"
  proof (cases "limit \<le> 0")
    case True
    with r w show ?thesis by (auto simp: acquireFor_alt ret_def mayAdd_def)
  next
    case False
    obtain q where q: "redisCall ''acquire'' (acquireScript (ownerKey ow) limit ttl ?id) g1 = (q, g')"
      and rq: "r = (case q of Inl e \<Rightarrow> Inl e | Inr v \<Rightarrow> Inr (if v = 1 then Some (slotFor ow ?id) else None))"
    proof -
      have "bindP (redisCall ''acquire'' (acquireScript (ownerKey ow) limit ttl ?id))
          (\<lambda>v. ret (if v = 1 then Some (slotFor ow ?id) else None)) g1 = (r, g')"
      proof -
        have "generateRequestID g = (Inr ?id, g1)"
          by (simp add: generateRequestID_def Let_def g1_def nextID_def requestID_def)
        then show ?thesis using r False ttl(1) by (simp add: acquireFor_alt bindP_def)
      qed
      then show thesis
        by (intro that [of "fst (redisCall ''acquire'' (acquireScript (ownerKey ow) limit ttl ?id) g1)"])
          (auto simp: bindP_def ret_def split: prod.splits sum.splits)
    qed
    have kp: "keepsP (\<lambda>s. gw_process s = gw_process g1) (redisCall ''acquire'' (acquireScript (ownerKey ow) limit ttl ?id))"
      by (rule keeps_redisCall) (auto simp: acquireScript_def Let_def zStore_def zKeep_def)
    have gp: "gw_process g' = gw_process g1" using keepsPD [OF kp, of g1] q by simp
    have eqs: "heldSlots ttl x g1 = heldSlots ttl x g" "redisSeconds g1 = redisSeconds g" for x
      using held_fields [OF g1] redisSeconds_fields [OF g1(1)] by simp_all
    note e = acquireCall_effect [OF w1 ttl(2) q, unfolded mayAdd_def eqs g1(1)]
    have granted: "q = Inr 1 \<and> sl = slotFor ow ?id" if "r = Inr (Some sl)"
      using that rq by (auto split: sum.splits if_splits)
    have procs: "sp_prefix (gw_process g') = sp_prefix (gw_process g)" "sp_counter (gw_process g') = sp_counter (gw_process g) + 1"
      unfolding gp by (simp_all add: g1_def)
    show ?thesis
      unfolding procs mayAdd_def using e(1-4) granted e(5) by simp
  qed
  show "wellStored ttl g'" "rd_now g' = rd_now g" "k' \<noteq> ownerKey ow \<Longrightarrow> heldSlots ttl k' g' = heldSlots ttl k' g"
    "mayAdd ttl (ownerKey ow) ?id limit g g'"
    "sp_prefix (gw_process g') = sp_prefix (gw_process g)" "sp_counter (gw_process g) \<le> sp_counter (gw_process g')"
    "r = Inr (Some sl) \<Longrightarrow> sl = NoSlot \<or> sl = slotFor ow ?id \<and>
      sp_counter (gw_process g) < sp_counter (gw_process g') \<and>
      heldSlots ttl (ownerKey ow) g' = zadd ?id (redisSeconds g) (heldSlots ttl (ownerKey ow) g)"
    using all by simp_all
qed

subsection \<open>The invariant\<close>

text \<open>
  Every running request belongs to a process that is alive and has one of the ids that process has
  handed out; no two of them share a slot; and as long as it is young its slot is in Redis.
\<close>

definition knownRun :: "cluster \<Rightarrow> slotRun \<Rightarrow> bool" where
  "knownRun st r \<longleftrightarrow> (\<exists>p\<in>set (cl_procs st). sp_prefix p = rn_process r \<and>
     (\<forall>k rid. slotOf (rn_slot r) = Some (k, rid) \<longrightarrow> (\<exists>n\<le>sp_counter p. rid = requestID (rn_process r) n)))"

definition slotKept :: "int \<Rightarrow> cluster \<Rightarrow> slotRun \<Rightarrow> bool" where
  "slotKept ttl st r \<longleftrightarrow> (\<forall>k rid. slotOf (rn_slot r) = Some (k, rid) \<longrightarrow> redisSeconds st - ttl < rn_since r \<longrightarrow>
     (rid, rn_since r) \<in> set (heldSlots ttl k st))"

fun slotsOf :: "slotRun list \<Rightarrow> (string \<times> string) list" where
  "slotsOf [] = []"
| "slotsOf (r # rs) = (case slotOf (rn_slot r) of None \<Rightarrow> slotsOf rs | Some x \<Rightarrow> x # slotsOf rs)"

definition clusterInv :: "int \<Rightarrow> cluster \<Rightarrow> bool" where
  "clusterInv ttl st \<longleftrightarrow> wellStored ttl st \<and> distinct (map sp_prefix (cl_procs st)) \<and> distinct (slotsOf (cl_running st)) \<and>
     (\<forall>r\<in>set (cl_running st). knownRun st r \<and> slotKept ttl st r)"

lemma clusterInvI:
  "wellStored ttl st \<Longrightarrow> distinct (map sp_prefix (cl_procs st)) \<Longrightarrow> distinct (slotsOf (cl_running st)) \<Longrightarrow>
   (\<And>r. r \<in> set (cl_running st) \<Longrightarrow> knownRun st r) \<Longrightarrow> (\<And>r. r \<in> set (cl_running st) \<Longrightarrow> slotKept ttl st r) \<Longrightarrow> clusterInv ttl st"
  by (simp add: clusterInv_def)

lemma slotsOf_append: "slotsOf (xs @ ys) = slotsOf xs @ slotsOf ys"
  by (induction xs) (auto split: option.split)

lemma set_slotsOf: "x \<in> set (slotsOf rs) \<longleftrightarrow> (\<exists>r\<in>set rs. slotOf (rn_slot r) = Some x)"
  by (induction rs) (auto split: option.splits)

lemma distinct_slotsOf_filter: "distinct (slotsOf rs) \<Longrightarrow> distinct (slotsOf (filter P rs))"
  by (induction rs) (auto simp: set_slotsOf split: option.splits)

lemma split_nth: "n < length xs \<Longrightarrow> xs = take n xs @ xs ! n # drop (Suc n) xs"
  by (simp add: id_take_nth_drop)

lemma set_without: "set (without n xs) \<subseteq> set xs"
  unfolding without_def using set_take_subset [of n xs] set_drop_subset [of "Suc n" xs] by auto

text \<open>Steps that leave the processes and the running requests alone, and keep the members of every running request.\<close>

lemma clusterInv_redis:
  assumes i: "clusterInv ttl st" and w: "wellStored ttl st'"
    and same: "cl_procs st' = cl_procs st" "set (cl_running st') \<subseteq> set (cl_running st)" "distinct (slotsOf (cl_running st'))"
    and sec: "redisSeconds st \<le> redisSeconds st'"
    and held: "\<And>r k rid. r \<in> set (cl_running st') \<Longrightarrow> slotOf (rn_slot r) = Some (k, rid) \<Longrightarrow> redisSeconds st' - ttl < rn_since r \<Longrightarrow>
      (rid, rn_since r) \<in> set (heldSlots ttl k st) \<Longrightarrow> (rid, rn_since r) \<in> set (heldSlots ttl k st')"
  shows "clusterInv ttl st'"
proof (rule clusterInvI)
  fix r
  assume r: "r \<in> set (cl_running st')"
  then have k: "knownRun st r" and s: "slotKept ttl st r" using i same(2) by (auto simp: clusterInv_def)
  show "knownRun st' r" using k same(1) by (simp add: knownRun_def)
  show "slotKept ttl st' r" using s held [OF r] sec by (auto simp: slotKept_def)
qed (use i w same in \<open>simp_all add: clusterInv_def\<close>)

text \<open>
  The calls that only take members away: \<open>s\<close> is \<open>st\<close> with no more members that count, and all
  those of \<open>Q\<close>.
\<close>

definition fewerSlots :: "int \<Rightarrow> (string \<Rightarrow> string \<Rightarrow> bool) \<Rightarrow> cluster \<Rightarrow> cluster \<Rightarrow> bool" where
  "fewerSlots ttl Q st s \<longleftrightarrow> wellStored ttl s \<and> rd_now s = rd_now st \<and> cl_procs s = cl_procs st \<and> cl_running s = cl_running st \<and>
     (\<forall>k rid sc. Q k rid \<longrightarrow> (rid, sc) \<in> set (heldSlots ttl k st) \<longrightarrow> (rid, sc) \<in> set (heldSlots ttl k s)) \<and>
     (\<forall>k. length (heldSlots ttl k s) \<le> length (heldSlots ttl k st))"

lemma cluster_stores [simp]:
  "cl_procs (zStore k z ttl s) = cl_procs s" "cl_running (zStore k z ttl s) = cl_running s"
  "cl_procs (zKeep k z s) = cl_procs s" "cl_running (zKeep k z s) = cl_running s"
  by (simp_all add: zStore_def zKeep_def)

lemma fewerSlots_self: "wellStored ttl st \<Longrightarrow> fewerSlots ttl Q st st"
  by (simp add: fewerSlots_def)

lemma fewerSlots_faults: "fewerSlots ttl Q st (s\<lparr>rd_faults := fs\<rparr>) = fewerSlots ttl Q st s"
  by (simp add: fewerSlots_def)

lemma fewerSlots_call: "(\<And>s. fewerSlots ttl Q st s \<Longrightarrow> fewerSlots ttl Q st (snd (act s))) \<Longrightarrow> keepsP (fewerSlots ttl Q st) (redisCall t act)"
  by (rule keeps_redisCall) (simp_all add: fewerSlots_faults)

lemma fewerSlots_script:
  assumes "fewerSlots ttl Q st s" and "wellStored ttl s'" and "rd_now s' = rd_now s"
    and "cl_procs s' = cl_procs s" and "cl_running s' = cl_running s"
    and "\<And>k. heldSlots ttl k s' = filter (P k) (heldSlots ttl k s)" and "\<And>k rid sc. Q k rid \<Longrightarrow> P k (rid, sc)"
  shows "fewerSlots ttl Q st s'"
  using assms(1-5,7) unfolding fewerSlots_def assms(6) by (auto intro: le_trans [OF length_filter_le])

lemma startupCleanupScript_cluster:
  "cl_procs (snd (startupCleanupScript ks pre ttl s)) = cl_procs s \<and> cl_running (snd (startupCleanupScript ks pre ttl s)) = cl_running s"
proof (induction ks arbitrary: s)
  case (Cons k ks)
  then show ?case
    using Cons [of "zStore k (ofProcess pre (zMembers k s)) ttl s"] by (simp add: Let_def split_beta)
qed simp

lemma fewer_sweep:
  assumes "0 < ttl"
  shows "keepsP (fewerSlots ttl Q st) (redisCall t (cleanupExpiredSlotsScript k ttl))"
proof (rule fewerSlots_call)
  fix s
  assume f: "fewerSlots ttl Q st s"
  then have w: "wellStored ttl s" by (simp add: fewerSlots_def)
  show "fewerSlots ttl Q st (snd (cleanupExpiredSlotsScript k ttl s))"
    by (rule fewerSlots_script [OF f, where P = "\<lambda>_ _. True"])
      (use cleanupExpiredSlotsScript_effect [OF w assms] in \<open>simp_all add: cleanupExpiredSlotsScript_def\<close>)
qed

lemma fewer_count: "keepsP (fewerSlots ttl Q st) (redisCall t (getCountScript k ttl))"
proof (rule fewerSlots_call)
  fix s
  assume f: "fewerSlots ttl Q st s"
  then have w: "wellStored ttl s" by (simp add: fewerSlots_def)
  show "fewerSlots ttl Q st (snd (getCountScript k ttl s))"
    by (rule fewerSlots_script [OF f, where P = "\<lambda>_ _. True"])
      (use getCountScript_effect [OF w] in \<open>simp_all add: getCountScript_def Let_def\<close>)
qed

lemma fewer_zRem: "(\<And>k' rid. Q k' rid \<Longrightarrow> \<not> (k' = k \<and> rid = m)) \<Longrightarrow> keepsP (fewerSlots ttl Q st) (redisCall t (zRem k m))"
proof (rule fewerSlots_call)
  fix s
  assume q: "\<And>k' rid. Q k' rid \<Longrightarrow> \<not> (k' = k \<and> rid = m)" and f: "fewerSlots ttl Q st s"
  then have w: "wellStored ttl s" by (simp add: fewerSlots_def)
  show "fewerSlots ttl Q st (snd (zRem k m s))"
    by (rule fewerSlots_script [OF f, where P = "\<lambda>k' p. \<not> (k' = k \<and> fst p = m)"])
      (use zRem_effect [OF w] q in \<open>auto simp: zRem_def\<close>)
qed

lemma fewer_startup:
  assumes "0 < ttl" and "\<And>k rid. Q k rid \<Longrightarrow> hasPrefix rid pre"
  shows "keepsP (fewerSlots ttl Q st) (redisCall t (startupCleanupScript ks pre ttl))"
proof (rule fewerSlots_call)
  fix s
  assume f: "fewerSlots ttl Q st s"
  then have w: "wellStored ttl s" by (simp add: fewerSlots_def)
  show "fewerSlots ttl Q st (snd (startupCleanupScript ks pre ttl s))"
    by (rule fewerSlots_script [OF f, where P = "\<lambda>k p. k \<in> set ks \<longrightarrow> hasPrefix (fst p) pre"])
      (use startupCleanupScript_effect [OF w assms(1)] assms(2) startupCleanupScript_cluster [of ks pre ttl s] in \<open>auto simp: ofProcess_def\<close>)
qed

lemma fewer_deletePage: "keepsP (fewerSlots ttl Q st) (deletePage ks)"
  unfolding deletePage_def
  by (intro keeps keeps_redisCall) (auto simp: fewerSlots_faults modP_def, simp add: fewerSlots_def)

lemma fewer_Release:
  "(\<And>k rid. Q k rid \<Longrightarrow> slotOf sl \<noteq> Some (k, rid)) \<Longrightarrow> keepsP (fewerSlots ttl Q st) (ReleaseFunc sl)"
  by (cases sl; auto simp: ReleaseFunc_def cache_ReleaseAccountSlot_def cache_ReleaseUserSlot_def ReleaseAPIKeySlot_def slotOf_def
    intro!: keeps fewer_zRem)

text \<open>A step that only takes members away keeps the invariant, if it keeps those of the running requests.\<close>

lemma clusterInv_fewer:
  assumes i: "clusterInv ttl st" and f: "fewerSlots ttl Q st s" and r: "cl_running s' = rs" "set rs \<subseteq> set (cl_running st)" "distinct (slotsOf rs)"
    and s': "rd_now s' = rd_now s" "rd_sets s' = rd_sets s" "cl_procs s' = cl_procs s"
    and q: "\<And>r k rid. r \<in> set rs \<Longrightarrow> slotOf (rn_slot r) = Some (k, rid) \<Longrightarrow> Q k rid"
  shows "clusterInv ttl s'"
proof (rule clusterInv_redis [OF i])
  show "wellStored ttl s'" using f wellStored_fields [OF s'(1,2)] by (simp add: fewerSlots_def)
  show "cl_procs s' = cl_procs st" "redisSeconds st \<le> redisSeconds s'" "set (cl_running s') \<subseteq> set (cl_running st)" "distinct (slotsOf (cl_running s'))"
    using f s' r by (simp_all add: fewerSlots_def redisSeconds_def)
  show "(rid, rn_since x) \<in> set (heldSlots ttl k s')"
    if "x \<in> set (cl_running s')" "slotOf (rn_slot x) = Some (k, rid)" "(rid, rn_since x) \<in> set (heldSlots ttl k st)" for x k rid
    using f q [of x k rid] that r(1) held_fields [OF s'(1,2)] by (simp add: fewerSlots_def)
qed

subsection \<open>Every step keeps it\<close>

definition keptBy :: "clusterEvent \<Rightarrow> cluster \<Rightarrow> string \<Rightarrow> string \<Rightarrow> bool" where
  "keptBy x st k rid = (case x of
       Ends n \<Rightarrow> n < length (cl_running st) \<longrightarrow> slotOf (rn_slot (cl_running st ! n)) \<noteq> Some (k, rid)
     | CleansPage n ks \<Rightarrow> hasPrefix rid (sp_prefix (cl_procs st ! n))
     | _ \<Rightarrow> True)"

lemma other_step:
  assumes w: "wellStored ttl st" and ttl: "slotTTLSeconds c = ttl" "0 < ttl"
    and x: "\<And>d. x \<noteq> Passes d" "\<And>n ow limit. x \<noteq> Begins n ow limit"
  obtains s where "fewerSlots ttl (keptBy x st) st s" and "rd_now (clusterStep c x st) = rd_now s" and "rd_sets (clusterStep c x st) = rd_sets s"
    and "(\<forall>n. x \<noteq> Dies n) \<Longrightarrow> (\<forall>pre. x \<noteq> Joins pre) \<Longrightarrow> cl_procs (clusterStep c x st) = cl_procs s"
    and "(\<forall>n. x \<noteq> Ends n) \<Longrightarrow> (\<forall>n. x \<noteq> Dies n) \<Longrightarrow> cl_running (clusterStep c x st) = cl_running s"
proof -
  have self: "fewerSlots ttl (keptBy x st) st st" using w by (rule fewerSlots_self)
  show thesis
  proof (cases x)
    case (Ends n)
    have "keepsP (fewerSlots ttl (keptBy x st) st) (ReleaseFunc (rn_slot (cl_running st ! n)))" if "n < length (cl_running st)"
      using that Ends by (intro fewer_Release) (simp add: keptBy_def)
    then show thesis using that self Ends keepsPD by (cases "n < length (cl_running st)") fastforce+
  next
    case (CleansPage n ks)
    have "keepsP (fewerSlots ttl (keptBy x st) st) (cleanupPage c (sp_prefix (cl_procs st ! n)) ks)"
      unfolding cleanupPage_def using ttl CleansPage by (auto intro!: keeps fewer_startup simp: keptBy_def)
    then show thesis using that self CleansPage keepsPD by (cases "n < length (cl_procs st)") fastforce+
  next
    case (DropsWaits ks)
    then show thesis using that [OF keepsPD [OF fewer_deletePage self, of ks]] by simp
  next
    case (Sweeps k)
    then show thesis using that [OF keepsPD [OF fewer_sweep [OF ttl(2)] self]] ttl(1) by simp
  next
    case (Counts ow)
    then show thesis
      using that [OF keepsPD [OF fewer_count self]] ttl(1) by (cases ow) (simp_all add: GetAccountConcurrency_def GetUserConcurrency_def)
  next
    case (Dies n)
    then show thesis using that [OF self] by (cases "n < length (cl_procs st)") simp_all
  next
    case (Joins pre)
    then show thesis using that [OF self] by simp
  qed (use x in simp_all)
qed

lemma in_without: "n < length xs \<Longrightarrow> x \<in> set xs \<Longrightarrow> x \<noteq> xs ! n \<Longrightarrow> x \<in> set (without n xs)"
  by (subst (asm) (2) split_nth [of n]) (auto simp: without_def)

lemma map_without: "map f (without n xs) = without n (map f xs)"
  by (simp add: without_def take_map drop_map)

lemma distinct_without: "distinct xs \<Longrightarrow> distinct (without n xs)"
  unfolding without_def using set_take_disj_set_drop_if_distinct [of xs n "Suc n"] by simp

lemma without_nth: "n < length xs \<Longrightarrow> distinct (slotsOf xs) \<Longrightarrow> distinct (slotsOf (without n xs)) \<and>
   (\<forall>x. slotOf (rn_slot (xs ! n)) = Some x \<longrightarrow> x \<notin> set (slotsOf (without n xs)))"
proof -
  assume "n < length xs" "distinct (slotsOf xs)"
  then have "distinct (slotsOf (take n xs @ xs ! n # drop (Suc n) xs))" using split_nth [of n xs] by simp
  then show ?thesis by (auto simp: without_def slotsOf_append split: option.splits)
qed

lemma nextID_fresh:
  assumes i: "clusterInv ttl st" and p: "p \<in> set (cl_procs st)" and r: "r \<in> set (cl_running st)" "slotOf (rn_slot r) = Some (k, rid)"
  shows "rid \<noteq> nextID p"
proof
  assume eq: "rid = nextID p"
  obtain q m where q: "q \<in> set (cl_procs st)" "sp_prefix q = rn_process r" "m \<le> sp_counter q" "rid = requestID (rn_process r) m"
    using i r unfolding clusterInv_def knownRun_def by metis
  then have "sp_prefix q = sp_prefix p" "m = sp_counter p + 1" using eq by (simp_all add: nextID_def requestID_eq)
  moreover have "q = p" using i q(1) p \<open>sp_prefix q = sp_prefix p\<close> by (auto simp: clusterInv_def distinct_map dest: inj_onD)
  ultimately show False using q(3) by simp
qed

lemma knownRun_update:
  assumes "knownRun st r" and "cl_procs st' = (cl_procs st)[n := p']" and "n < length (cl_procs st)"
    and "sp_prefix p' = sp_prefix (cl_procs st ! n)" and "sp_counter (cl_procs st ! n) \<le> sp_counter p'"
  shows "knownRun st' r"
proof -
  obtain q where q: "q \<in> set (cl_procs st)" "sp_prefix q = rn_process r"
    "\<forall>k rid. slotOf (rn_slot r) = Some (k, rid) \<longrightarrow> (\<exists>m\<le>sp_counter q. rid = requestID (rn_process r) m)"
    using assms(1) by (auto simp: knownRun_def)
  obtain j where j: "j < length (cl_procs st)" "q = cl_procs st ! j" using q(1) by (metis in_set_conv_nth)
  show ?thesis
  proof (cases "j = n")
    case True
    have "p' \<in> set (cl_procs st')" using assms(2,3) by (simp add: set_update_memI)
    moreover have "\<forall>k rid. slotOf (rn_slot r) = Some (k, rid) \<longrightarrow> (\<exists>m\<le>sp_counter p'. rid = requestID (rn_process r) m)"
      using q(3) j True assms(5) le_trans by metis
    ultimately show ?thesis using q(2) j True assms(4) unfolding knownRun_def by metis
  next
    case False
    then have "q \<in> set (cl_procs st')" using assms(2) j by (metis length_list_update nth_list_update_neq nth_mem)
    then show ?thesis using q unfolding knownRun_def by blast
  qed
qed

lemma clusterInv_Begins:
  assumes i: "clusterInv ttl st" and ttl: "slotTTLSeconds c = ttl" "0 < ttl"
  shows "clusterInv ttl (clusterStep c (Begins n ow limit) st)"
proof (cases "n < length (cl_procs st)")
  case False
  with i show ?thesis by simp
next
  case True
  define p where "p = cl_procs st ! n"
  obtain r g where rg: "acquireFor c ow limit (asGateway p st) = (r, g)" by fastforce
  have g0: "rd_now (asGateway p st) = rd_now st" "rd_sets (asGateway p st) = rd_sets st" "gw_process (asGateway p st) = p"
    by (simp_all add: asGateway_def)
  have w: "wellStored ttl (asGateway p st)" using i wellStored_fields [OF g0(1,2)] by (simp add: clusterInv_def)
  have eqs: "heldSlots ttl k (asGateway p st) = heldSlots ttl k st" "redisSeconds (asGateway p st) = redisSeconds st" for k
    using held_fields [OF g0(1,2)] redisSeconds_fields [OF g0(1)] by simp_all
  note e = acquireFor_effect [OF w ttl rg, unfolded g0 eqs mayAdd_def]
  define st1 where "st1 = snd (atProcess n (acquireFor c ow limit) st)"
  have at: "atProcess n (acquireFor c ow limit) st = (r, st1)" using rg by (simp add: st1_def atProcess_def p_def)
  have st1: "rd_now st1 = rd_now g" "rd_sets st1 = rd_sets g" "cl_procs st1 = (cl_procs st)[n := gw_process g]" "cl_running st1 = cl_running st"
    using rg by (simp_all add: st1_def atProcess_def p_def)
  have held1: "heldSlots ttl k st1 = heldSlots ttl k g" for k by (rule held_fields [OF st1(1,2)])
  have pn: "p \<in> set (cl_procs st)" using True by (simp add: p_def)
  have sec: "redisSeconds st1 = redisSeconds st" using st1(1) e(2) by (simp add: redisSeconds_def)
  have prefixes: "map sp_prefix (cl_procs st1) = map sp_prefix (cl_procs st)"
    unfolding st1(3) map_update using e(5) True by (simp add: p_def list_update_same_conv)
  have known: "knownRun st1 x" if "knownRun st x" for x
    by (rule knownRun_update [OF that st1(3) True]) (use e(5,6) in \<open>simp_all add: p_def\<close>)
  have stays: "m \<in> set (heldSlots ttl k st1)" if "m \<in> set (heldSlots ttl k st)" "fst m \<noteq> nextID p" for m k
    using that e(3) [of k] e(4) held1 [of k] by (cases "k = ownerKey ow") (auto simp: zadd_def put_def)
  have kept: "slotKept ttl st1 x" if "x \<in> set (cl_running st)" for x
    using i that stays nextID_fresh [OF i pn that] unfolding clusterInv_def slotKept_def sec by fastforce
  have i1: "clusterInv ttl st1"
    using i known kept e(1) prefixes st1 wellStored_fields [OF st1(1,2)] unfolding clusterInv_def by simp
  show ?thesis
  proof (cases "\<exists>sl. r = Inr (Some sl)")
    case False
    then have "clusterStep c (Begins n ow limit) st = st1" using at True by (auto split: sum.split option.split)
    then show ?thesis using i1 by simp
  next
    case True
    then obtain sl where sl: "r = Inr (Some sl)" by blast
    define x where "x = \<lparr>rn_slot = sl, rn_process = sp_prefix p, rn_since = redisSeconds st\<rparr>"
    have step: "clusterStep c (Begins n ow limit) st = st1\<lparr>cl_running := x # cl_running st1\<rparr>" (is "_ = ?st2")
      using at \<open>n < length (cl_procs st)\<close> sl by (simp add: x_def p_def)
    have gp: "gw_process g \<in> set (cl_procs st1)" using \<open>n < length (cl_procs st)\<close> by (simp add: st1(3) set_update_memI)
    have new: "sl = NoSlot \<or> sl = slotFor ow (nextID p) \<and> sp_counter p < sp_counter (gw_process g) \<and>
        heldSlots ttl (ownerKey ow) st1 = zadd (nextID p) (redisSeconds st) (heldSlots ttl (ownerKey ow) st)"
      using e(7) [OF sl] held1 by simp
    have "knownRun ?st2 x"
      unfolding knownRun_def
      by (rule bexI [of _ "gw_process g"]) (use new e(5) gp in \<open>auto simp: x_def nextID_def intro!: exI [of _ "sp_counter p + 1"]\<close>)
    moreover have "slotKept ttl ?st2 x"
      using new held_fields [of ?st2 st1] by (auto simp: slotKept_def x_def zadd_def put_def)
    moreover have "distinct (slotsOf (x # cl_running st))"
      using i new by (auto simp: clusterInv_def x_def set_slotsOf split: option.split dest: nextID_fresh [OF i pn])
    moreover have "knownRun ?st2 y = knownRun st1 y" "slotKept ttl ?st2 y = slotKept ttl st1 y" for y
      using held_fields [of ?st2 st1] by (simp_all add: knownRun_def slotKept_def redisSeconds_def)
    ultimately show ?thesis
      unfolding step using i1 st1(4) wellStored_fields [of ?st2 st1] by (auto simp: clusterInv_def)
  qed
qed

lemma clusterInv_step:
  assumes i: "clusterInv ttl st" and ttl: "slotTTLSeconds c = ttl" "0 < ttl" and quiet: "quietStep x st"
  shows "clusterInv ttl (clusterStep c x st)"
proof -
  have w: "wellStored ttl st" using i by (simp add: clusterInv_def)
  consider (p) d where "x = Passes d" | (b) n ow limit where "x = Begins n ow limit" | (o) "\<And>d. x \<noteq> Passes d" "\<And>n ow limit. x \<noteq> Begins n ow limit"
    by blast
  then show ?thesis
  proof cases
    case (p d)
    note e = passes_effect [OF w, of "max 0 d" "clusterStep c x st"]
    show ?thesis
      by (rule clusterInv_redis [OF i]) (use p e i in \<open>auto simp: clusterInv_def zremUpTo_def redisSeconds_def second_def intro!: zdiv_mono1\<close>)
  next
    case (b n ow limit)
    then show ?thesis using clusterInv_Begins [OF i ttl] by simp
  next
    case o
    from other_step [OF w ttl o] obtain s where s: "fewerSlots ttl (keptBy x st) st s"
      "rd_now (clusterStep c x st) = rd_now s" "rd_sets (clusterStep c x st) = rd_sets s"
      "(\<forall>n. x \<noteq> Dies n) \<Longrightarrow> (\<forall>pre. x \<noteq> Joins pre) \<Longrightarrow> cl_procs (clusterStep c x st) = cl_procs s"
      "(\<forall>n. x \<noteq> Ends n) \<Longrightarrow> (\<forall>n. x \<noteq> Dies n) \<Longrightarrow> cl_running (clusterStep c x st) = cl_running s"
      by blast
    have runs: "cl_running s = cl_running st" and procs: "cl_procs s = cl_procs st" using s(1) by (simp_all add: fewerSlots_def)
    show ?thesis
    proof (cases x)
      case (Ends n)
      show ?thesis
      proof (cases "n < length (cl_running st)")
        case True
        have d: "distinct (slotsOf (cl_running st))" using i by (simp add: clusterInv_def)
        have q: "keptBy x st k rid" if "r \<in> set (without n (cl_running st))" "slotOf (rn_slot r) = Some (k, rid)" for r k rid
          using without_nth [OF True d] that Ends by (auto simp: keptBy_def set_slotsOf)
        show ?thesis
          by (rule clusterInv_fewer [OF i s(1), where rs = "without n (cl_running st)"])
            (use True Ends s(2,3,4) without_nth [OF True d] set_without [of n "cl_running st"] q in simp_all)
      qed (use i Ends in simp)
    next
      case (Dies n)
      show ?thesis
      proof (cases "n < length (cl_procs st)")
        case True
        then have st': "clusterStep c x st = st\<lparr>cl_procs := without n (cl_procs st),
            cl_running := filter (\<lambda>r. rn_process r \<noteq> sp_prefix (cl_procs st ! n)) (cl_running st)\<rparr>" (is "_ = ?st'")
          using Dies by simp
        have held: "slotKept ttl ?st' r = slotKept ttl st r" for r
          using held_fields [of ?st' st] by (simp add: slotKept_def redisSeconds_def)
        have "knownRun ?st' r" if "knownRun st r" "rn_process r \<noteq> sp_prefix (cl_procs st ! n)" for r
          using that in_without [OF True] unfolding knownRun_def by fastforce
        then show ?thesis
          unfolding st' using i wellStored_fields [of ?st' st] held
          by (auto simp: clusterInv_def distinct_slotsOf_filter map_without distinct_without)
      qed (use i Dies in simp)
    next
      case (Joins pre)
      then have st': "clusterStep c x st = st\<lparr>cl_procs := cl_procs st @ [\<lparr>sp_prefix = pre, sp_counter = 0\<rparr>]\<rparr>" (is "_ = ?st'")
        by simp
      have "slotKept ttl ?st' r = slotKept ttl st r" "knownRun st r \<Longrightarrow> knownRun ?st' r" for r
        using held_fields [of ?st' st] by (auto simp: slotKept_def redisSeconds_def knownRun_def)
      then show ?thesis
        unfolding st' using i quiet Joins wellStored_fields [of ?st' st] by (auto simp: clusterInv_def quietStep_def)
    next
      case (CleansPage n ks)
      show ?thesis
        by (rule clusterInv_fewer [OF i s(1), where rs = "cl_running st"])
          (use CleansPage s(2-5) i quiet runs procs in \<open>auto simp: keptBy_def quietStep_def clusterInv_def list_all_iff\<close>)
    qed (use o clusterInv_fewer [OF i s(1), where rs = "cl_running st"] s(2-5) i runs in \<open>auto simp: keptBy_def clusterInv_def\<close>)
  qed
qed

lemma Begins_held:
  assumes w: "wellStored ttl st" and ttl: "slotTTLSeconds c = ttl" "0 < ttl"
  shows "wellStored ttl (clusterStep c (Begins n ow limit) st)"
    and "\<exists>rid. mayAdd ttl (ownerKey ow) rid limit st (clusterStep c (Begins n ow limit) st)"
    and "k \<noteq> ownerKey ow \<Longrightarrow> heldSlots ttl k (clusterStep c (Begins n ow limit) st) = heldSlots ttl k st"
proof -
  let ?g = "asGateway (cl_procs st ! n) st" and ?st' = "clusterStep c (Begins n ow limit) st"
  obtain r g where rg: "acquireFor c ow limit ?g = (r, g)" by fastforce
  have g0: "rd_now ?g = rd_now st" "rd_sets ?g = rd_sets st" by (simp_all add: asGateway_def)
  have "wellStored ttl ?g" using w wellStored_fields [OF g0] by simp
  note e = acquireFor_effect [OF this ttl rg]
  have st': "rd_now ?st' = rd_now g \<and> rd_sets ?st' = rd_sets g" if "n < length (cl_procs st)"
    using that rg by (auto simp: atProcess_def split: sum.split option.split)
  have eqs: "heldSlots ttl k ?g = heldSlots ttl k st" "redisSeconds ?g = redisSeconds st" for k
    using held_fields [OF g0] redisSeconds_fields [OF g0(1)] by simp_all
  have "wellStored ttl ?st' \<and> (\<exists>rid. mayAdd ttl (ownerKey ow) rid limit st ?st') \<and>
      (k \<noteq> ownerKey ow \<longrightarrow> heldSlots ttl k ?st' = heldSlots ttl k st)"
  proof (cases "n < length (cl_procs st)")
    case True
    have "heldSlots ttl x ?st' = heldSlots ttl x g" for x using st' [OF True] by (intro held_fields) auto
    moreover have "wellStored ttl ?st'" using e(1) st' [OF True] wellStored_fields [of ?st' g] by simp
    ultimately show ?thesis using e(3,4) eqs by (auto simp: mayAdd_def)
  qed (use w in \<open>simp add: mayAdd_def\<close>)
  then show "wellStored ttl ?st'" "\<exists>rid. mayAdd ttl (ownerKey ow) rid limit st ?st'"
    "k \<noteq> ownerKey ow \<Longrightarrow> heldSlots ttl k ?st' = heldSlots ttl k st" by blast+
qed

lemma length_zadd: "distinct (map fst z) \<Longrightarrow> length (zadd m sc z) = (if m \<in> set (map fst z) then length z else length z + 1)"
proof (induction z)
  case (Cons x z)
  have none: "m \<notin> set (map fst z) \<Longrightarrow> filter (\<lambda>p. fst p \<noteq> m) z = z" by (auto simp: filter_id_conv)
  show ?case using Cons none by (auto simp: zadd_def put_def)
qed (simp add: zadd_def put_def)

lemma step_wellStored:
  assumes "wellStored ttl st" and ttl: "slotTTLSeconds c = ttl" "0 < ttl"
  shows "wellStored ttl (clusterStep c x st)"
proof -
  have "wellStored ttl (clusterStep c x st)" if "\<And>d. x \<noteq> Passes d" "\<And>n ow limit. x \<noteq> Begins n ow limit"
    using other_step [OF assms that] wellStored_fields unfolding fewerSlots_def by metis
  then show ?thesis
    using passes_effect(1) [OF assms(1)] Begins_held(1) [OF assms] by (cases x) (auto simp del: clusterStep.simps(2-9))
qed

lemma step_limit:
  assumes w: "wellStored ttl st" and ttl: "slotTTLSeconds c = ttl" "0 < ttl"
    and x: "limitedBy ow M x" and M: "length (heldSlots ttl (ownerKey ow) st) \<le> M"
  shows "length (heldSlots ttl (ownerKey ow) (clusterStep c x st)) \<le> M"
proof -
  let ?k = "ownerKey ow"
  have d: "distinct (map fst (heldSlots ttl ?k st))"
    using wellStored_members(1) [OF w] by (simp add: heldSlots_def zremUpTo_def distinct_filter_fst)
  have o: "length (heldSlots ttl ?k (clusterStep c x st)) \<le> M" if x': "\<And>d. x \<noteq> Passes d" "\<And>n ow limit. x \<noteq> Begins n ow limit"
  proof -
    obtain s where "fewerSlots ttl (keptBy x st) st s" and "rd_now (clusterStep c x st) = rd_now s" "rd_sets (clusterStep c x st) = rd_sets s"
      using other_step [OF w ttl x'] by metis
    then show ?thesis using M held_fields [of "clusterStep c x st" s ttl ?k] by (auto simp: fewerSlots_def intro: le_trans)
  qed
  show ?thesis
  proof (cases x)
    case (Passes t)
    then have "heldSlots ttl ?k (clusterStep c x st) = zremUpTo (redisSeconds (clusterStep c x st) - ttl) (heldSlots ttl ?k st)"
      using passes_effect(2) [OF w, of "max 0 t" "clusterStep c x st"] by simp
    then show ?thesis using M by (simp add: zremUpTo_def le_trans [OF length_filter_le])
  next
    case (Begins n ow' limit)
    show ?thesis
    proof (cases "ow' = ow")
      case True
      obtain rid where "mayAdd ttl ?k rid limit st (clusterStep c x st)"
        using Begins_held(2) [OF w ttl, where ow = ow and n = n and limit = limit] Begins True by blast
      moreover have "limit \<le> int M" using x Begins True by (simp add: limitedBy_def)
      ultimately show ?thesis
        unfolding mayAdd_def using M length_zadd [OF d, of rid "redisSeconds st"] by (elim disjE conjE) simp_all
    next
      case False
      then show ?thesis using Begins_held(3) [OF w ttl, where k = ?k and ow = ow' and n = n and limit = limit] M Begins ownerKey_eq by metis
    qed
  qed (use o in auto)
qed

lemma clusterInv_empty: "clusterInv ttl (emptyCluster t fs)" "heldSlots ttl k (emptyCluster t fs) = []"
  by (simp_all add: clusterInv_def emptyCluster_def wellStored_def heldSlots_def zMembers_def zremUpTo_def)

lemma run_inv:
  assumes "slotTTLSeconds c = ttl" "0 < ttl"
  shows "wellStored ttl st \<Longrightarrow> wellStored ttl (runCluster c steps st)"
    and "clusterInv ttl st \<Longrightarrow> quietRun c steps st \<Longrightarrow> clusterInv ttl (runCluster c steps st)"
    and "wellStored ttl st \<Longrightarrow> list_all (limitedBy ow M) steps \<Longrightarrow> length (heldSlots ttl (ownerKey ow) st) \<le> M \<Longrightarrow>
      length (heldSlots ttl (ownerKey ow) (runCluster c steps st)) \<le> M"
  unfolding runCluster_def
  by (induction steps arbitrary: st)
    (use step_wellStored [OF _ assms] clusterInv_step [OF _ assms] step_limit [OF _ assms] in auto)

lemma NewConcurrencyCache_ttl: "0 < slotTTLSeconds (NewConcurrencyCache m w)"
  by (simp add: NewConcurrencyCache_def defaultSlotTTLMinutes_def Let_def)

lemma young_runs_hold_slots:
  assumes "clusterInv (slotTTLSeconds c) st"
  shows "length (youngRuns c ow st) \<le> length (heldSlots (slotTTLSeconds c) (ownerKey ow) st)"
proof -
  let ?ttl = "slotTTLSeconds c" and ?rs = "youngRuns c ow st"
  let ?id = "\<lambda>r. snd (the (slotOf (rn_slot r)))"
  have slots: "slotsOf ?rs = map (\<lambda>r. (ownerKey ow, ?id r)) ?rs"
  proof -
    have gen: "slotsOf (filter P rs) = map (\<lambda>r. (ownerKey ow, ?id r)) (filter P rs)"
      if "\<And>r. P r \<Longrightarrow> \<exists>rid. slotOf (rn_slot r) = Some (ownerKey ow, rid)" for P rs
      using that by (induction rs) fastforce+
    show ?thesis unfolding youngRuns_def by (rule gen) (auto split: option.splits)
  qed
  have "distinct (slotsOf ?rs)" using assms by (simp add: clusterInv_def youngRuns_def distinct_slotsOf_filter)
  then have d: "distinct (map ?id ?rs)" unfolding slots by (simp add: distinct_map inj_on_def)
  have "set (map ?id ?rs) \<subseteq> set (map fst (heldSlots ?ttl (ownerKey ow) st))"
  proof
    fix m
    assume "m \<in> set (map ?id ?rs)"
    then obtain r rid where "r \<in> set (cl_running st)" "slotOf (rn_slot r) = Some (ownerKey ow, rid)" "m = rid" "redisSeconds st - ?ttl < rn_since r"
      by (auto simp: youngRuns_def split: option.splits)
    then show "m \<in> set (map fst (heldSlots ?ttl (ownerKey ow) st))"
      using assms by (force simp: clusterInv_def slotKept_def)
  qed
  then have "card (set (map ?id ?rs)) \<le> card (set (map fst (heldSlots ?ttl (ownerKey ow) st)))" by (rule card_mono [rotated]) simp
  then show ?thesis using distinct_card [OF d] card_length [of "map fst (heldSlots ?ttl (ownerKey ow) st)"] by simp
qed

subsection \<open>Properties\<close>


definition oneAfterTheOther :: "clusterEvent list" where
  "oneAfterTheOther = [Joins ''ra'', CleansPage 0 [userSlotKey 7], Begins 0 (OfUser 7) 1, Begins 0 (OfUser 7) 1, Dies 0,
     Joins ''rb'', CleansPage 0 [userSlotKey 7], Begins 0 (OfUser 7) 1, Passes 5000000000, Begins 0 (OfUser 7) 1]"


text \<open>
  C16: no slot is lost for good: whatever happened before, crashes, clean-ups and lost answers
  included, once nothing was taken for the time to live of a slot, a request with a positive limit
  gets one.
\<close>

theorem slots_come_back:
  assumes c_def: "c = NewConcurrencyCache m w"
    and st_def: "st = runCluster c (steps @ [Passes (slotTTLSeconds c * second)]) (emptyCluster t fs)"
    and "0 < limit" and "n < length (cl_procs st)"
  shows "fst (atProcess n (acquireFor c ow limit) (st\<lparr>rd_faults := []\<rparr>)) = Inr (Some (slotFor ow (nextID (cl_procs st ! n))))"
proof -
  let ?ttl = "slotTTLSeconds c" and ?st0 = "runCluster c steps (emptyCluster t fs)"
  have ttl: "0 < ?ttl" unfolding c_def by (rule NewConcurrencyCache_ttl)
  have w: "wellStored ?ttl ?st0" by (rule run_inv(1) [OF refl ttl]) (simp add: wellStored_def emptyCluster_def)
  have st: "st = ?st0\<lparr>rd_now := rd_now ?st0 + ?ttl * second\<rparr>"
    using ttl by (simp add: st_def runCluster_def second_def)
  have sec: "redisSeconds st = redisSeconds ?st0 + ?ttl" by (simp add: st redisSeconds_def second_def)
  have "heldSlots ?ttl (ownerKey ow) st = zremUpTo (redisSeconds st - ?ttl) (heldSlots ?ttl (ownerKey ow) ?st0)"
    by (rule passes_effect(2) [OF w _ st]) (use ttl in \<open>simp add: second_def\<close>)
  also have "\<dots> = []"
    using wellStored_members(2) [OF w] sec by (fastforce simp: zremUpTo_def heldSlots_def filter_empty_conv)
  finally have none: "heldSlots ?ttl (ownerKey ow) st = []" .
  define g where "g = (asGateway (cl_procs st ! n) (st\<lparr>rd_faults := []\<rparr>))\<lparr>gw_process := (cl_procs st ! n)\<lparr>sp_counter := sp_counter (cl_procs st ! n) + 1\<rparr>\<rparr>"
  have g: "rd_now g = rd_now st" "rd_sets g = rd_sets st" "rd_faults g = []" by (simp_all add: g_def asGateway_def)
  have "zremUpTo (redisSeconds g - ?ttl) (zMembers (ownerKey ow) g) = []"
    using none held_fields [OF g(1,2)] by (simp add: heldSlots_def)
  then have "fst (acquireScript (ownerKey ow) limit ?ttl (nextID (cl_procs st ! n)) g) = Inr 1"
    using assms(3) by (simp add: acquireScript_def Let_def)
  moreover have "generateRequestID (asGateway (cl_procs st ! n) (st\<lparr>rd_faults := []\<rparr>)) = (Inr (nextID (cl_procs st ! n)), g)"
    by (simp add: generateRequestID_def Let_def g_def nextID_def requestID_def asGateway_def)
  ultimately show ?thesis
    using assms(3) g(3) by (simp add: atProcess_def acquireFor_alt bindP_def ret_def redisCall_def split_beta split: sum.split)
qed

theorem slots_come_back_witness:
  "fst (atProcess 0 (acquireFor (NewConcurrencyCache 0 0) (OfUser 7) 1)
     ((runCluster (NewConcurrencyCache 0 0) ([Joins ''ra'', Begins 0 (OfUser 7) 1, Dies 0, Joins ''rb''] @ [Passes 900000000000]) (emptyCluster 0 []))\<lparr>rd_faults := []\<rparr>))
   = Inr (Some (UserSlot 7 ''rb-1''))"
proof -
  let ?st = "runCluster (NewConcurrencyCache 0 0) ([Joins ''ra'', Begins 0 (OfUser 7) 1, Dies 0, Joins ''rb''] @ [Passes 900000000000]) (emptyCluster 0 [])"
  have ttl: "slotTTLSeconds (NewConcurrencyCache 0 0) * second = 900000000000" by code_simp
  have n: "cl_procs ?st = [\<lparr>sp_prefix = ''rb'', sp_counter = 0\<rparr>]" by code_simp
  have i: "slotFor (OfUser 7) (nextID \<lparr>sp_prefix = ''rb'', sp_counter = 0\<rparr>) = UserSlot 7 ''rb-1''" by code_simp
  show ?thesis
    using slots_come_back [where steps = "[Joins ''ra'', Begins 0 (OfUser 7) 1, Dies 0, Joins ''rb'']" and n = 0 and limit = 1 and ow = "OfUser 7", OF refl refl, of 0 0 0 "[]", unfolded ttl n] i
    by simp
qed

text \<open>
  The start-up clean-up of a second process takes the slots of the first one's running requests
  away, so two requests run for a user with the limit one.
\<close>

definition twoInstances :: "clusterEvent list" where
  "twoInstances = [Joins ''ra'', Begins 0 (OfUser 7) 1, Joins ''rb'', CleansPage 1 [userSlotKey 7], Begins 1 (OfUser 7) 1]"

theorem second_instance_exceeds_limit:
  "length (youngRuns (NewConcurrencyCache 0 0) (OfUser 7) (runCluster (NewConcurrencyCache 0 0) twoInstances (emptyCluster 0 []))) = 2"
  by code_simp

end
