(* ===== verification/Promotions.thy ===== *)
theory Promotions
  imports PaymentLifecycle
begin

section \<open>Promotions\<close>

text \<open>
  service/promotion.go, service/promotion_resolver.go, service/promotion_service.go and
  repository/promotion_repo.go: discounts of orders.  A promotion for recharges lowers the payment or
  adds to the credit; one for subscriptions has a rule per plan.  The row of a promotion holds
  its plan rules in the order of their ids.  The usages, which completed orders write, are
  \<open>pw_promoUsages\<close>; the listing for administrators is left out.  \<open>round4\<close> is the rounding of a rate
  column.
\<close>

definition PromotionTypeRecharge :: string where "PromotionTypeRecharge = ''recharge''"
definition PromotionTypeSubscription :: string where "PromotionTypeSubscription = ''subscription''"
definition PromotionDiscountModeReducePay :: string where "PromotionDiscountModeReducePay = ''reduce_pay''"
definition PromotionDiscountModeBonusCredit :: string where "PromotionDiscountModeBonusCredit = ''bonus_credit''"
definition PromotionDiscountModeRate :: string where "PromotionDiscountModeRate = ''rate''"
definition PromotionDiscountModeAmount :: string where "PromotionDiscountModeAmount = ''amount''"
definition PromotionStatusActive :: string where "PromotionStatusActive = ''active''"
definition PromotionStatusDisabled :: string where "PromotionStatusDisabled = ''disabled''"

lemmas promotion_words = PromotionTypeRecharge_def PromotionTypeSubscription_def PromotionDiscountModeReducePay_def
  PromotionDiscountModeBonusCredit_def PromotionDiscountModeRate_def PromotionDiscountModeAmount_def
  PromotionStatusActive_def PromotionStatusDisabled_def

record PromotionPlanRule =
  rule_ID :: int
  rule_PlanID :: int
  rule_DiscountMode :: string
  rule_DiscountRate :: "f64 option"
  rule_DiscountAmount :: "f64 option"
  rule_MinPriceFloor :: f64
  rule_MaxUsesPerUser :: int

record Promotion =
  pr_ID :: int
  pr_Name :: string
  pr_Description :: string
  pr_PromotionType :: string
  pr_DiscountMode :: string
  pr_RechargeRate :: "f64 option"
  pr_RechargeBonusRate :: "f64 option"
  pr_MaxUsesPerUser :: int
  pr_StartsAt :: "int option"
  pr_EndsAt :: "int option"
  pr_Status :: string
  pr_Priority :: int
  pr_PlanRules :: "PromotionPlanRule list"

record shopstate = paystate +
  sh_promotions :: "Promotion list"
  sh_nextPromotion :: int
  sh_nextRule :: int

subsection \<open>A promotion\<close>

definition Promotion_IsActive :: "Promotion \<Rightarrow> int \<Rightarrow> bool" where
  "Promotion_IsActive p now \<longleftrightarrow> pr_Status p = PromotionStatusActive \<and>
     (case pr_StartsAt p of None \<Rightarrow> True | Some t \<Rightarrow> t \<le> now) \<and> (case pr_EndsAt p of None \<Rightarrow> True | Some t \<Rightarrow> now < t)"

definition EffectiveMaxUses :: "Promotion \<Rightarrow> PromotionPlanRule option \<Rightarrow> int" where
  "EffectiveMaxUses p rule = (case rule of
       Some r \<Rightarrow> if 0 < rule_MaxUsesPerUser r then rule_MaxUsesPerUser r else pr_MaxUsesPerUser p
     | None \<Rightarrow> pr_MaxUsesPerUser p)"

definition findPlanRule :: "Promotion \<Rightarrow> int \<Rightarrow> PromotionPlanRule option" where
  "findPlanRule p planID = find (\<lambda>r. rule_PlanID r = planID) (pr_PlanRules p)"

record RechargeDiscount =
  rd_Promotion :: Promotion
  rd_Mode :: string
  rd_OriginalAmount :: f64
  rd_CreditedAmount :: f64
  rd_PaymentAmount :: f64
  rd_DiscountAmount :: f64
  rd_BonusAmount :: f64

record SubscriptionDiscount =
  sd_Promotion :: Promotion
  sd_Rule :: PromotionPlanRule
  sd_OriginalPrice :: f64
  sd_FinalPrice :: f64
  sd_DiscountAmount :: f64

definition notBelowZero :: "f64 \<Rightarrow> f64" where
  "notBelowZero x = (if flt x (Fin 0) then Fin 0 else x)"

definition buildRechargeCandidate :: "'d decimal \<Rightarrow> Promotion \<Rightarrow> f64 \<Rightarrow> RechargeDiscount option" where
  "buildRechargeCandidate D p userAmount =
     (if pr_DiscountMode p = PromotionDiscountModeReducePay then
        (case pr_RechargeRate p of
           None \<Rightarrow> None
         | Some rate \<Rightarrow>
             if fle rate (Fin 0) \<or> flt (Fin 1) rate then None
             else let pay = d_float D (d_round D 2 (d_mul D (d_of D userAmount) (d_of D rate)));
                      discount = d_float D (d_round D 2 (d_sub D (d_of D userAmount) (d_of D pay)))
                  in Some \<lparr>rd_Promotion = p, rd_Mode = pr_DiscountMode p, rd_OriginalAmount = userAmount, rd_CreditedAmount = userAmount,
                       rd_PaymentAmount = pay, rd_DiscountAmount = notBelowZero discount, rd_BonusAmount = Fin 0\<rparr>)
      else if pr_DiscountMode p = PromotionDiscountModeBonusCredit then
        (case pr_RechargeBonusRate p of
           None \<Rightarrow> None
         | Some rate \<Rightarrow>
             if flt rate (Fin 1) then None
             else let credited = d_float D (d_round D 2 (d_mul D (d_of D userAmount) (d_of D rate)));
                      bonus = d_float D (d_round D 2 (d_sub D (d_of D credited) (d_of D userAmount)))
                  in Some \<lparr>rd_Promotion = p, rd_Mode = pr_DiscountMode p, rd_OriginalAmount = userAmount, rd_CreditedAmount = credited,
                       rd_PaymentAmount = userAmount, rd_DiscountAmount = Fin 0, rd_BonusAmount = notBelowZero bonus\<rparr>)
      else None)"

text \<open>The price before it is held against the floor, if the rule has one for its mode.\<close>

definition ruleFinal :: "'d decimal \<Rightarrow> PromotionPlanRule \<Rightarrow> 'd \<Rightarrow> 'd option" where
  "ruleFinal D rule original =
     (if rule_DiscountMode rule = PromotionDiscountModeRate then
        (case rule_DiscountRate rule of
           None \<Rightarrow> None
         | Some rate \<Rightarrow> if fle rate (Fin 0) \<or> flt (Fin 1) rate then None else Some (d_mul D original (d_of D rate)))
      else if rule_DiscountMode rule = PromotionDiscountModeAmount then
        (case rule_DiscountAmount rule of
           None \<Rightarrow> None
         | Some amount \<Rightarrow> if flt amount (Fin 0) then None else Some (d_sub D original (d_of D amount)))
      else None)"

definition buildSubscriptionCandidate :: "'d decimal \<Rightarrow> Promotion \<Rightarrow> PromotionPlanRule \<Rightarrow> f64 \<Rightarrow> SubscriptionDiscount option" where
  "buildSubscriptionCandidate D p rule planPrice =
     (let original = d_of D planPrice; floor = d_of D (notBelowZero (rule_MinPriceFloor rule)) in
      case ruleFinal D rule original of
        None \<Rightarrow> None
      | Some f \<Rightarrow>
          let final = d_round D 2 (if \<not> d_le D floor f then floor else f) in
          if d_le D original final then None
          else Some \<lparr>sd_Promotion = p, sd_Rule = rule, sd_OriginalPrice = planPrice, sd_FinalPrice = d_float D final,
                 sd_DiscountAmount = notBelowZero (d_float D (d_round D 2 (d_sub D original final)))\<rparr>)"

definition rechargeBetter :: "RechargeDiscount \<Rightarrow> RechargeDiscount \<Rightarrow> bool" where
  "rechargeBetter candidate current =
     (let cs = fadd (rd_DiscountAmount candidate) (rd_BonusAmount candidate); bs = fadd (rd_DiscountAmount current) (rd_BonusAmount current) in
      if \<not> feq cs bs then flt bs cs else pr_Priority (rd_Promotion current) < pr_Priority (rd_Promotion candidate))"

definition subscriptionBetter :: "SubscriptionDiscount \<Rightarrow> SubscriptionDiscount \<Rightarrow> bool" where
  "subscriptionBetter candidate current =
     (if \<not> feq (sd_FinalPrice candidate) (sd_FinalPrice current) then flt (sd_FinalPrice candidate) (sd_FinalPrice current)
      else pr_Priority (sd_Promotion current) < pr_Priority (sd_Promotion candidate))"

subsection \<open>The tables\<close>

definition ErrPromotionNotFound :: err where "ErrPromotionNotFound = AppErr ''PROMOTION_NOT_FOUND''"

text \<open>The row and its rules are two queries.\<close>

definition promotionGetByID :: "int \<Rightarrow> ('a shopstate_scheme, Promotion) proc" where
  "promotionGetByID i =
     bindP (db ''get promotion'' (\<lambda>s. (onlyRow ErrPromotionNotFound (\<lambda>p. pr_ID p = i) (sh_promotions s), s))) (\<lambda>p.
     bindP (db ''list plan rules'' (ret ())) (\<lambda>_. ret p))"

definition CountUsageByUser :: "int \<Rightarrow> int option \<Rightarrow> int \<Rightarrow> ('a shopstate_scheme, int) proc" where
  "CountUsageByUser pid planID userID = db ''count usages'' (getP (\<lambda>s. int (length (filter
     (\<lambda>u. pu_PromotionID u = pid \<and> pu_UserID u = userID \<and> (case planID of None \<Rightarrow> True | Some i \<Rightarrow> pu_PlanID u = Some i)) (pw_promoUsages s)))))"

definition byPriority :: "Promotion \<Rightarrow> Promotion \<Rightarrow> bool" where
  "byPriority a b \<longleftrightarrow> pr_Priority b < pr_Priority a \<or> pr_Priority a = pr_Priority b \<and> pr_ID a \<le> pr_ID b"

definition ListActiveByType :: "string \<Rightarrow> ('a shopstate_scheme, Promotion list) proc" where
  "ListActiveByType t =
     bindP (db ''list promotions'' (getP (\<lambda>s. sortBy byPriority
       (filter (\<lambda>p. pr_PromotionType p = t \<and> Promotion_IsActive p (e_now s)) (sh_promotions s))))) (\<lambda>ps.
     if ps = [] then ret [] else bindP (db ''list plan rules'' (ret ())) (\<lambda>_. ret ps))"

definition ListActiveByPlanID :: "int \<Rightarrow> ('a shopstate_scheme, Promotion list) proc" where
  "ListActiveByPlanID planID =
     bindP (db ''promotions of plan'' (getP (\<lambda>s. map pr_ID (filter (\<lambda>p. list_ex (\<lambda>r. rule_PlanID r = planID) (pr_PlanRules p)) (sh_promotions s))))) (\<lambda>ids.
     if ids = [] then ret []
     else bindP (db ''list promotions'' (getP (\<lambda>s. sortBy byPriority
            (filter (\<lambda>p. pr_ID p \<in> set ids \<and> pr_PromotionType p = PromotionTypeSubscription \<and> Promotion_IsActive p (e_now s)) (sh_promotions s))))) (\<lambda>ps.
          if ps = [] then ret [] else bindP (db ''list plan rules'' (ret ())) (\<lambda>_. ret ps)))"

subsection \<open>The resolver\<close>

text \<open>Whether the user has uses of a promotion left; without a limit the usages are not counted.\<close>

definition usesLeft :: "int \<Rightarrow> int \<Rightarrow> int option \<Rightarrow> int \<Rightarrow> ('a shopstate_scheme, int option) proc" where
  "usesLeft maxUses pid planID userID =
     (if 0 < maxUses
      then bindP (CountUsageByUser pid planID userID) (\<lambda>used. ret (if maxUses \<le> used then None else Some used))
      else ret (Some 0))"

definition resolveRechargeByID :: "'d decimal \<Rightarrow> int \<Rightarrow> f64 \<Rightarrow> int \<Rightarrow> ('a shopstate_scheme, RechargeDiscount option) proc" where
  "resolveRechargeByID D userID userAmount pid =
     tryP (promotionGetByID pid) (\<lambda>_. ret None) (\<lambda>p.
     bindP nowP (\<lambda>now.
     if \<not> Promotion_IsActive p now \<or> pr_PromotionType p \<noteq> PromotionTypeRecharge then ret None
     else bindP (usesLeft (pr_MaxUsesPerUser p) (pr_ID p) None userID) (\<lambda>u. case u of
        None \<Rightarrow> ret None | Some _ \<Rightarrow> ret (buildRechargeCandidate D p userAmount))))"

fun bestRecharge :: "'d decimal \<Rightarrow> int \<Rightarrow> int \<Rightarrow> f64 \<Rightarrow> RechargeDiscount option \<Rightarrow> Promotion list \<Rightarrow> ('a shopstate_scheme, RechargeDiscount option) proc" where
  "bestRecharge D now userID userAmount best [] = ret best"
| "bestRecharge D now userID userAmount best (p # ps) =
     (if \<not> Promotion_IsActive p now then bestRecharge D now userID userAmount best ps
      else bindP (usesLeft (pr_MaxUsesPerUser p) (pr_ID p) None userID) (\<lambda>u. case u of
        None \<Rightarrow> bestRecharge D now userID userAmount best ps
      | Some _ \<Rightarrow> bestRecharge D now userID userAmount
          (case (buildRechargeCandidate D p userAmount, best) of
             (None, _) \<Rightarrow> best
           | (Some c, None) \<Rightarrow> Some c
           | (Some c, Some b) \<Rightarrow> if rechargeBetter c b then Some c else best) ps))"

definition ResolveRechargeDiscount :: "'d decimal \<Rightarrow> int \<Rightarrow> f64 \<Rightarrow> int \<Rightarrow> ('a shopstate_scheme, RechargeDiscount option) proc" where
  "ResolveRechargeDiscount D userID userAmount promotionID =
     (if fle userAmount (Fin 0) then ret None
      else if 0 < promotionID then resolveRechargeByID D userID userAmount promotionID
      else bindP (ListActiveByType PromotionTypeRecharge) (\<lambda>ps. bindP nowP (\<lambda>now. bestRecharge D now userID userAmount None ps)))"

definition resolveSubscriptionByID :: "'d decimal \<Rightarrow> int \<Rightarrow> int \<Rightarrow> f64 \<Rightarrow> int \<Rightarrow> ('a shopstate_scheme, SubscriptionDiscount option) proc" where
  "resolveSubscriptionByID D userID planID planPrice pid =
     tryP (promotionGetByID pid) (\<lambda>_. ret None) (\<lambda>p.
     bindP nowP (\<lambda>now.
     if \<not> Promotion_IsActive p now \<or> pr_PromotionType p \<noteq> PromotionTypeSubscription then ret None
     else (case findPlanRule p planID of
        None \<Rightarrow> ret None
      | Some rule \<Rightarrow> bindP (usesLeft (EffectiveMaxUses p (Some rule)) (pr_ID p) (Some planID) userID) (\<lambda>u. case u of
          None \<Rightarrow> ret None | Some _ \<Rightarrow> ret (buildSubscriptionCandidate D p rule planPrice)))))"

fun bestSubscription :: "'d decimal \<Rightarrow> int \<Rightarrow> int \<Rightarrow> int \<Rightarrow> f64 \<Rightarrow> SubscriptionDiscount option \<Rightarrow> Promotion list \<Rightarrow>
    ('a shopstate_scheme, SubscriptionDiscount option) proc" where
  "bestSubscription D now userID planID planPrice best [] = ret best"
| "bestSubscription D now userID planID planPrice best (p # ps) =
     (if \<not> Promotion_IsActive p now then bestSubscription D now userID planID planPrice best ps
      else (case findPlanRule p planID of
        None \<Rightarrow> bestSubscription D now userID planID planPrice best ps
      | Some rule \<Rightarrow> bindP (usesLeft (EffectiveMaxUses p (Some rule)) (pr_ID p) (Some planID) userID) (\<lambda>u. case u of
          None \<Rightarrow> bestSubscription D now userID planID planPrice best ps
        | Some _ \<Rightarrow> bestSubscription D now userID planID planPrice
            (case (buildSubscriptionCandidate D p rule planPrice, best) of
               (None, _) \<Rightarrow> best
             | (Some c, None) \<Rightarrow> Some c
             | (Some c, Some b) \<Rightarrow> if subscriptionBetter c b then Some c else best) ps)))"

definition ResolveSubscriptionDiscount :: "'d decimal \<Rightarrow> int \<Rightarrow> int \<Rightarrow> f64 \<Rightarrow> int \<Rightarrow> ('a shopstate_scheme, SubscriptionDiscount option) proc" where
  "ResolveSubscriptionDiscount D userID planID planPrice promotionID =
     (if fle planPrice (Fin 0) then ret None
      else if 0 < promotionID then resolveSubscriptionByID D userID planID planPrice promotionID
      else bindP (ListActiveByPlanID planID) (\<lambda>ps. bindP nowP (\<lambda>now. bestSubscription D now userID planID planPrice None ps)))"

record AvailablePromotion =
  ap_ID :: int
  ap_DiscountMode :: string
  ap_UsedCount :: int
  ap_MaxUses :: int

fun availableRecharge :: "int \<Rightarrow> int \<Rightarrow> Promotion list \<Rightarrow> ('a shopstate_scheme, AvailablePromotion list) proc" where
  "availableRecharge now userID [] = ret []"
| "availableRecharge now userID (p # ps) =
     (if \<not> Promotion_IsActive p now then availableRecharge now userID ps
      else bindP (usesLeft (pr_MaxUsesPerUser p) (pr_ID p) None userID) (\<lambda>u. case u of
        None \<Rightarrow> availableRecharge now userID ps
      | Some used \<Rightarrow> bindP (availableRecharge now userID ps) (\<lambda>rest.
          ret (\<lparr>ap_ID = pr_ID p, ap_DiscountMode = pr_DiscountMode p, ap_UsedCount = used, ap_MaxUses = pr_MaxUsesPerUser p\<rparr> # rest))))"

definition ListAvailableForRecharge :: "int \<Rightarrow> ('a shopstate_scheme, AvailablePromotion list) proc" where
  "ListAvailableForRecharge userID =
     bindP (ListActiveByType PromotionTypeRecharge) (\<lambda>ps. bindP nowP (\<lambda>now. availableRecharge now userID ps))"

fun availableSubscription :: "int \<Rightarrow> int \<Rightarrow> int \<Rightarrow> Promotion list \<Rightarrow> ('a shopstate_scheme, AvailablePromotion list) proc" where
  "availableSubscription now userID planID [] = ret []"
| "availableSubscription now userID planID (p # ps) =
     (if \<not> Promotion_IsActive p now then availableSubscription now userID planID ps
      else (case findPlanRule p planID of
        None \<Rightarrow> availableSubscription now userID planID ps
      | Some rule \<Rightarrow> bindP (usesLeft (EffectiveMaxUses p (Some rule)) (pr_ID p) (Some planID) userID) (\<lambda>u. case u of
          None \<Rightarrow> availableSubscription now userID planID ps
        | Some used \<Rightarrow> bindP (availableSubscription now userID planID ps) (\<lambda>rest.
            ret (\<lparr>ap_ID = pr_ID p, ap_DiscountMode = rule_DiscountMode rule, ap_UsedCount = used,
                  ap_MaxUses = EffectiveMaxUses p (Some rule)\<rparr> # rest)))))"

definition ListAvailableForSubscription :: "int \<Rightarrow> int \<Rightarrow> ('a shopstate_scheme, AvailablePromotion list) proc" where
  "ListAvailableForSubscription userID planID =
     bindP (ListActiveByPlanID planID) (\<lambda>ps. bindP nowP (\<lambda>now. availableSubscription now userID planID ps))"

subsection \<open>Administration\<close>

definition ErrPromotionInUse :: err where "ErrPromotionInUse = AppErr ''PROMOTION_IN_USE''"

definition badPromotion :: "string \<Rightarrow> err + 'a" where
  "badPromotion reason = Inl (AppErr reason)"

text \<open>\<open>andThen\<close> is a check followed by the rest of the function.\<close>

definition andThen :: "err + 'a \<Rightarrow> ('a \<Rightarrow> err + 'b) \<Rightarrow> err + 'b" where
  "andThen r k = (case r of Inl e \<Rightarrow> Inl e | Inr a \<Rightarrow> k a)"

definition rateWithin :: "f64 \<Rightarrow> bool" where
  "rateWithin v \<longleftrightarrow> fin v \<and> \<not> fle v (Fin 0) \<and> \<not> flt (Fin 1) v"

definition validatePlanRule :: "PromotionPlanRule \<Rightarrow> err + unit" where
  "validatePlanRule rule =
     andThen (if rule_DiscountMode rule = PromotionDiscountModeRate then
           (case rule_DiscountRate rule of
              None \<Rightarrow> badPromotion ''DISCOUNT_RATE_REQUIRED''
            | Some v \<Rightarrow> if \<not> rateWithin v then badPromotion ''INVALID_DISCOUNT_RATE'' else Inr ())
         else if rule_DiscountMode rule = PromotionDiscountModeAmount then
           (case rule_DiscountAmount rule of
              None \<Rightarrow> badPromotion ''DISCOUNT_AMOUNT_REQUIRED''
            | Some v \<Rightarrow> if \<not> fin v \<or> flt v (Fin 0) then badPromotion ''INVALID_DISCOUNT_AMOUNT'' else Inr ())
         else badPromotion ''INVALID_DISCOUNT_MODE'') (\<lambda>_.
       if flt (rule_MinPriceFloor rule) (Fin 0) then badPromotion ''INVALID_MIN_PRICE_FLOOR''
       else if rule_MaxUsesPerUser rule < 0 then badPromotion ''INVALID_LIMIT''
       else Inr ())"

fun validatePromotionRules :: "int list \<Rightarrow> PromotionPlanRule list \<Rightarrow> err + unit" where
  "validatePromotionRules seen [] = Inr ()"
| "validatePromotionRules seen (rule # rules) =
     (if rule_PlanID rule \<le> 0 then badPromotion ''INVALID_PLAN_ID''
      else if rule_PlanID rule \<in> set seen then badPromotion ''DUPLICATE_PLAN_RULE''
      else andThen (validatePlanRule rule) (\<lambda>_. validatePromotionRules (rule_PlanID rule # seen) rules))"

definition validateSubscriptionPromotion :: "Promotion \<Rightarrow> err + unit" where
  "validateSubscriptionPromotion p =
     (if pr_DiscountMode p \<noteq> [] then badPromotion ''INVALID_DISCOUNT_MODE''
      else if pr_RechargeRate p \<noteq> None \<or> pr_RechargeBonusRate p \<noteq> None then badPromotion ''INVALID_INPUT''
      else if pr_PlanRules p = [] then badPromotion ''PLAN_RULES_REQUIRED''
      else validatePromotionRules [] (pr_PlanRules p))"

definition validateRechargePromotion :: "Promotion \<Rightarrow> err + unit" where
  "validateRechargePromotion p =
     andThen (if pr_DiscountMode p = PromotionDiscountModeReducePay then
           (case pr_RechargeRate p of
              None \<Rightarrow> badPromotion ''RECHARGE_RATE_REQUIRED''
            | Some v \<Rightarrow> if \<not> rateWithin v then badPromotion ''INVALID_RECHARGE_RATE'' else Inr ())
         else if pr_DiscountMode p = PromotionDiscountModeBonusCredit then
           (case pr_RechargeBonusRate p of
              None \<Rightarrow> badPromotion ''RECHARGE_BONUS_RATE_REQUIRED''
            | Some v \<Rightarrow> if \<not> fin v \<or> flt v (Fin 1) then badPromotion ''INVALID_RECHARGE_BONUS_RATE'' else Inr ())
         else badPromotion ''INVALID_DISCOUNT_MODE'') (\<lambda>_.
       if pr_PlanRules p \<noteq> [] then badPromotion ''INVALID_PLAN_RULES'' else Inr ())"

text \<open>The promotion with its status filled in, or why it is refused.\<close>

definition validatePromotion :: "Promotion \<Rightarrow> err + Promotion" where
  "validatePromotion p0 =
     (if trimSpace (pr_Name p0) = [] then badPromotion ''PROMOTION_NAME_REQUIRED''
      else if pr_PromotionType p0 \<noteq> PromotionTypeRecharge \<and> pr_PromotionType p0 \<noteq> PromotionTypeSubscription
      then badPromotion ''INVALID_PROMOTION_TYPE''
      else let p = (if pr_Status p0 = [] then p0\<lparr>pr_Status := PromotionStatusActive\<rparr> else p0) in
        if pr_Status p \<noteq> PromotionStatusActive \<and> pr_Status p \<noteq> PromotionStatusDisabled then badPromotion ''INVALID_STATUS''
        else if pr_MaxUsesPerUser p < 0 then badPromotion ''INVALID_LIMIT''
        else if (case (pr_StartsAt p, pr_EndsAt p) of (Some a, Some b) \<Rightarrow> b \<le> a | _ \<Rightarrow> False) then badPromotion ''INVALID_TIME_WINDOW''
        else andThen (if pr_PromotionType p = PromotionTypeRecharge then validateRechargePromotion p else validateSubscriptionPromotion p)
               (\<lambda>_. Inr p))"

text \<open>The rules get ids of their own; rates and amounts take the form of their columns.\<close>

fun storedRules :: "(f64 \<Rightarrow> f64) \<Rightarrow> pgnum \<Rightarrow> int \<Rightarrow> PromotionPlanRule list \<Rightarrow> PromotionPlanRule list" where
  "storedRules round4 N i [] = []"
| "storedRules round4 N i (r # rs) =
     r\<lparr>rule_ID := i, rule_DiscountRate := map_option round4 (rule_DiscountRate r),
       rule_DiscountAmount := map_option (n_store2 N) (rule_DiscountAmount r), rule_MinPriceFloor := n_store2 N (rule_MinPriceFloor r)\<rparr>
     # storedRules round4 N (i + 1) rs"

definition storedPromotion :: "(f64 \<Rightarrow> f64) \<Rightarrow> Promotion \<Rightarrow> Promotion" where
  "storedPromotion round4 p = p\<lparr>pr_RechargeRate := map_option round4 (pr_RechargeRate p), pr_RechargeBonusRate := map_option round4 (pr_RechargeBonusRate p)\<rparr>"

definition undoPromotions :: "'a shopstate_scheme \<Rightarrow> 'a shopstate_scheme \<Rightarrow> 'a shopstate_scheme" where
  "undoPromotions s s' = s'\<lparr>sh_promotions := sh_promotions s\<rparr>"

text \<open>Ids are taken from sequences, which a rollback does not turn back.\<close>

definition insertRules :: "(f64 \<Rightarrow> f64) \<Rightarrow> pgnum \<Rightarrow> int \<Rightarrow> PromotionPlanRule list \<Rightarrow> ('a shopstate_scheme, unit) proc" where
  "insertRules round4 N i rules =
     (if rules = [] then ret ()
      else db ''insert plan rules'' (modP (\<lambda>s. s\<lparr>
        sh_promotions := updRows (\<lambda>q. pr_ID q = i) (\<lambda>q. q\<lparr>pr_PlanRules := storedRules round4 N (sh_nextRule s) rules\<rparr>) (sh_promotions s),
        sh_nextRule := sh_nextRule s + int (length rules)\<rparr>)))"

definition promotionCreate :: "(f64 \<Rightarrow> f64) \<Rightarrow> pgnum \<Rightarrow> Promotion \<Rightarrow> ('a shopstate_scheme, int) proc" where
  "promotionCreate round4 N p = withTx undoPromotions (
     bindP (db ''insert promotion'' (\<lambda>s. let i = sh_nextPromotion s in
       (Inr i, s\<lparr>sh_promotions := sh_promotions s @ [(storedPromotion round4 p)\<lparr>pr_ID := i, pr_PlanRules := []\<rparr>], sh_nextPromotion := i + 1\<rparr>))) (\<lambda>i.
     bindP (insertRules round4 N i (pr_PlanRules p)) (\<lambda>_. ret i)))"

definition promotionUpdate :: "(f64 \<Rightarrow> f64) \<Rightarrow> pgnum \<Rightarrow> Promotion \<Rightarrow> ('a shopstate_scheme, unit) proc" where
  "promotionUpdate round4 N p = withTx undoPromotions (
     bindP (db ''update promotion'' (\<lambda>s.
       if list_ex (\<lambda>q. pr_ID q = pr_ID p) (sh_promotions s)
       then (Inr (), s\<lparr>sh_promotions := updRows (\<lambda>q. pr_ID q = pr_ID p)
              (\<lambda>q. (storedPromotion round4 p)\<lparr>pr_PlanRules := pr_PlanRules q\<rparr>) (sh_promotions s)\<rparr>)
       else (Inl ErrPromotionNotFound, s))) (\<lambda>_.
     bindP (db ''delete plan rules'' (modP (\<lambda>s. s\<lparr>sh_promotions := updRows (\<lambda>q. pr_ID q = pr_ID p)
              (\<lambda>q. q\<lparr>pr_PlanRules := []\<rparr>) (sh_promotions s)\<rparr>))) (\<lambda>_.
     insertRules round4 N (pr_ID p) (pr_PlanRules p))))"

definition promotionDelete :: "int \<Rightarrow> ('a shopstate_scheme, unit) proc" where
  "promotionDelete i = db ''delete promotion'' (\<lambda>s.
     if list_ex (\<lambda>q. pr_ID q = i) (sh_promotions s)
     then (Inr (), s\<lparr>sh_promotions := filter (\<lambda>q. pr_ID q \<noteq> i) (sh_promotions s)\<rparr>)
     else (Inl ErrPromotionNotFound, s))"

definition CountActiveOrdersByPromotion :: "int \<Rightarrow> ('a shopstate_scheme, nat) proc" where
  "CountActiveOrdersByPromotion i = db ''count orders'' (getP (\<lambda>s. length (filter (\<lambda>x. po_PromotionID x = Some i
     \<and> po_Status x \<in> {OrderStatusPending, OrderStatusPaid, OrderStatusRecharging}) (pw_orders s))))"

definition normalizedInput :: "Promotion \<Rightarrow> Promotion" where
  "normalizedInput p = p\<lparr>pr_Name := trimSpace (pr_Name p), pr_Status := (if pr_Status p = [] then PromotionStatusActive else pr_Status p)\<rparr>"

text \<open>The input has the fields of a promotion, whose id the repository chooses.\<close>

definition Promotion_Create :: "(f64 \<Rightarrow> f64) \<Rightarrow> pgnum \<Rightarrow> Promotion \<Rightarrow> ('a shopstate_scheme, Promotion) proc" where
  "Promotion_Create round4 N input =
     bindP (liftE (validatePromotion (normalizedInput input))) (\<lambda>p.
     bindP (promotionCreate round4 N p) promotionGetByID)"

record UpdatePromotionInput =
  up_Name :: "string option"
  up_Description :: "string option"
  up_DiscountMode :: "string option"
  up_RechargeRate :: "f64 option"
  up_ClearRechargeRate :: bool
  up_RechargeBonusRate :: "f64 option"
  up_ClearBonusRate :: bool
  up_MaxUsesPerUser :: "int option"
  up_StartsAt :: "int option"
  up_ClearStartsAt :: bool
  up_EndsAt :: "int option"
  up_ClearEndsAt :: bool
  up_Status :: "string option"
  up_Priority :: "int option"
  up_PlanRules :: "PromotionPlanRule list option"

definition given :: "'a option \<Rightarrow> 'a \<Rightarrow> 'a" where
  "given v d = (case v of None \<Rightarrow> d | Some x \<Rightarrow> x)"

definition clearedOr :: "bool \<Rightarrow> 'a option \<Rightarrow> 'a option \<Rightarrow> 'a option" where
  "clearedOr clear v d = (if clear then None else if v = None then d else v)"

definition applyUpdatePromotion :: "Promotion \<Rightarrow> UpdatePromotionInput \<Rightarrow> Promotion" where
  "applyUpdatePromotion p u = p\<lparr>
     pr_Name := (case up_Name u of None \<Rightarrow> pr_Name p | Some n \<Rightarrow> trimSpace n),
     pr_Description := given (up_Description u) (pr_Description p),
     pr_DiscountMode := given (up_DiscountMode u) (pr_DiscountMode p),
     pr_RechargeRate := clearedOr (up_ClearRechargeRate u) (up_RechargeRate u) (pr_RechargeRate p),
     pr_RechargeBonusRate := clearedOr (up_ClearBonusRate u) (up_RechargeBonusRate u) (pr_RechargeBonusRate p),
     pr_MaxUsesPerUser := given (up_MaxUsesPerUser u) (pr_MaxUsesPerUser p),
     pr_StartsAt := clearedOr (up_ClearStartsAt u) (up_StartsAt u) (pr_StartsAt p),
     pr_EndsAt := clearedOr (up_ClearEndsAt u) (up_EndsAt u) (pr_EndsAt p),
     pr_Status := given (up_Status u) (pr_Status p),
     pr_Priority := given (up_Priority u) (pr_Priority p),
     pr_PlanRules := given (up_PlanRules u) (pr_PlanRules p)\<rparr>"

definition Promotion_Update :: "(f64 \<Rightarrow> f64) \<Rightarrow> pgnum \<Rightarrow> int \<Rightarrow> UpdatePromotionInput \<Rightarrow> ('a shopstate_scheme, Promotion) proc" where
  "Promotion_Update round4 N i u =
     bindP (promotionGetByID i) (\<lambda>current.
     bindP (liftE (validatePromotion (applyUpdatePromotion current u))) (\<lambda>p.
     bindP (promotionUpdate round4 N p) (\<lambda>_. promotionGetByID i)))"

definition Promotion_Delete :: "int \<Rightarrow> ('a shopstate_scheme, unit) proc" where
  "Promotion_Delete i =
     bindP (promotionGetByID i) (\<lambda>p.
     if pr_Status p \<noteq> PromotionStatusDisabled then fail (AppErr ''PROMOTION_NOT_DISABLED'')
     else bindP (CountActiveOrdersByPromotion i) (\<lambda>n.
          if 0 < n then fail ErrPromotionInUse else promotionDelete i))"

definition Promotion_SetStatus :: "(f64 \<Rightarrow> f64) \<Rightarrow> pgnum \<Rightarrow> int \<Rightarrow> string \<Rightarrow> ('a shopstate_scheme, Promotion) proc" where
  "Promotion_SetStatus round4 N i status =
     (if status \<noteq> PromotionStatusActive \<and> status \<noteq> PromotionStatusDisabled then fail (AppErr ''INVALID_STATUS'')
      else bindP (promotionGetByID i) (\<lambda>current.
           bindP (promotionUpdate round4 N (current\<lparr>pr_Status := status\<rparr>)) (\<lambda>_. promotionGetByID i)))"

end
