(* ===== verification/PaymentConfig.thy ===== *)
theory PaymentConfig
  imports Promotions ModelNames
begin

section \<open>Payment configuration\<close>

text \<open>
  service/payment_config_service.go, payment_config_plans.go and payment_config_providers.go: the
  settings as they are read and changed, subscription plans, and the provider instances with their
  credentials.  Encryption and the JSON of the credentials are the parameter \<open>K\<close>.  Plans and
  instances are lists in the order of their ids; texts that are only shown are left out.
\<close>

subsection \<open>Numbers in settings\<close>

text \<open>
  strconv.ParseFloat(_, 64) of a decimal literal, an infinity or NaN; hexadecimal literals, which
  no setting is written as, are refused here.
\<close>

fun digitsPrefix :: "string \<Rightarrow> nat list \<times> string" where
  "digitsPrefix [] = ([], [])"
| "digitsPrefix (c # cs) = (case digitVal c of
      None \<Rightarrow> ([], c # cs) | Some d \<Rightarrow> (let (ds, rest) = digitsPrefix cs in (d # ds, rest)))"

definition digitsValue :: "nat list \<Rightarrow> nat" where
  "digitsValue ds = fold (\<lambda>d a. a * 10 + d) ds 0"

definition signOf :: "string \<Rightarrow> bool \<times> string" where
  "signOf s = (case s of [] \<Rightarrow> (False, []) | c # cs \<Rightarrow>
      if c = CHR ''-'' then (True, cs) else if c = CHR ''+'' then (False, cs) else (False, s))"

definition parseMantissa :: "string \<Rightarrow> (rat \<times> string) option" where
  "parseMantissa s =
     (let (ip, r1) = digitsPrefix s;
          (fp, r2) = (case r1 of c # cs \<Rightarrow> if c = CHR ''.'' then digitsPrefix cs else ([], r1) | [] \<Rightarrow> ([], []))
      in if ip = [] \<and> fp = [] then None
         else Some (of_nat (digitsValue (ip @ fp)) / 10 ^ length fp, r2))"

definition parseExponent :: "string \<Rightarrow> int option" where
  "parseExponent s = (case s of
       [] \<Rightarrow> Some 0
     | c # cs \<Rightarrow> if c = CHR ''e'' \<or> c = CHR ''E'' then
         (let (neg, r) = signOf cs; (ds, rest) = digitsPrefix r in
          if ds = [] \<or> rest \<noteq> [] then None else Some (if neg then - int (digitsValue ds) else int (digitsValue ds)))
         else None)"

definition powTen :: "int \<Rightarrow> rat" where
  "powTen e = (if 0 \<le> e then 10 ^ nat e else 1 / 10 ^ nat (- e))"

text \<open>The value nearest to a literal, which is an infinity when the literal is out of range.\<close>

definition literalValue :: "string \<Rightarrow> f64 option" where
  "literalValue s =
     (let (neg, r) = signOf s in
      case parseMantissa r of
        None \<Rightarrow> None
      | Some (v, rest) \<Rightarrow> (case parseExponent rest of
          None \<Rightarrow> None
        | Some e \<Rightarrow> (let x = fl (v * powTen e) in Some (if neg then fneg x else x))))"

definition parseFloat :: "string \<Rightarrow> f64 option" where
  "parseFloat s =
     (let (neg, r) = signOf s; word = toLower r in
      if word = ''inf'' \<or> word = ''infinity'' then Some (if neg then NInf else PInf)
      else if toLower s = ''nan'' then Some NaN
      else case literalValue s of
        None \<Rightarrow> None
      | Some x \<Rightarrow> if fin x then Some x else None)"

definition pcParseFloat :: "string \<Rightarrow> f64 \<Rightarrow> f64" where
  "pcParseFloat s defaultVal = (if s = [] then defaultVal else case parseFloat s of None \<Rightarrow> defaultVal | Some v \<Rightarrow> v)"

definition pcParseInt :: "string \<Rightarrow> int \<Rightarrow> int" where
  "pcParseInt s defaultVal = (if s = [] then defaultVal else case parseInt s of None \<Rightarrow> defaultVal | Some v \<Rightarrow> v)"

subsection \<open>The configuration\<close>

definition defaultOrderTimeoutMin :: int where "defaultOrderTimeoutMin = 30"
definition defaultMaxPendingOrders :: int where "defaultMaxPendingOrders = 3"
definition DefaultLoadBalanceStrategy :: string where "DefaultLoadBalanceStrategy = ''round-robin''"
definition StrategyLeastAmount :: string where "StrategyLeastAmount = ''least-amount''"
definition defaultOrderIDPrefix :: string where "defaultOrderIDPrefix = ''sub2_''"
definition TypeStripe :: string where "TypeStripe = ''stripe''"

record PaymentConfig =
  cf_Enabled :: bool
  cf_MinAmount :: f64
  cf_MaxAmount :: f64
  cf_DailyLimit :: f64
  cf_OrderTimeoutMin :: int
  cf_MaxPendingOrders :: int
  cf_EnabledTypes :: "string list"
  cf_BalanceDisabled :: bool
  cf_BalanceRechargeMultiplier :: f64
  cf_RechargeFeeRate :: f64
  cf_OrderIDPrefix :: string
  cf_LoadBalanceStrategy :: string
  cf_ProductNamePrefix :: string
  cf_ProductNameSuffix :: string
  cf_Cancel :: cancelConfig

definition normalizeOrderIDPrefix :: "string \<Rightarrow> string" where
  "normalizeOrderIDPrefix v = (if trimSpace v = [] then defaultOrderIDPrefix else trimSpace v)"

definition splitTypes :: "string \<Rightarrow> string list" where
  "splitTypes s = (if s = [] then [] else filter (\<lambda>t. t \<noteq> []) (map trimSpace (splitOn CHR '','' s)))"

definition parsePaymentConfig :: "(string \<Rightarrow> string) \<Rightarrow> PaymentConfig" where
  "parsePaymentConfig vals = \<lparr>
     cf_Enabled = (vals ''payment_enabled'' = ''true''),
     cf_MinAmount = pcParseFloat (vals ''MIN_RECHARGE_AMOUNT'') (Fin 1),
     cf_MaxAmount = pcParseFloat (vals ''MAX_RECHARGE_AMOUNT'') (Fin 0),
     cf_DailyLimit = pcParseFloat (vals ''DAILY_RECHARGE_LIMIT'') (Fin 0),
     cf_OrderTimeoutMin = pcParseInt (vals ''ORDER_TIMEOUT_MINUTES'') defaultOrderTimeoutMin,
     cf_MaxPendingOrders = pcParseInt (vals ''MAX_PENDING_ORDERS'') defaultMaxPendingOrders,
     cf_EnabledTypes = splitTypes (vals ''ENABLED_PAYMENT_TYPES''),
     cf_BalanceDisabled = (vals ''BALANCE_PAYMENT_DISABLED'' = ''true''),
     cf_BalanceRechargeMultiplier = normalizeBalanceRechargeMultiplier (pcParseFloat (vals ''BALANCE_RECHARGE_MULTIPLIER'') (Fin 1)),
     cf_RechargeFeeRate = pcParseFloat (vals ''RECHARGE_FEE_RATE'') (Fin 0),
     cf_OrderIDPrefix = normalizeOrderIDPrefix (vals ''ORDER_ID_PREFIX''),
     cf_LoadBalanceStrategy = (if vals ''LOAD_BALANCE_STRATEGY'' = [] then DefaultLoadBalanceStrategy else vals ''LOAD_BALANCE_STRATEGY''),
     cf_ProductNamePrefix = vals ''PRODUCT_NAME_PREFIX'',
     cf_ProductNameSuffix = vals ''PRODUCT_NAME_SUFFIX'',
     cf_Cancel = \<lparr>cc_Enabled = (vals ''CANCEL_RATE_LIMIT_ENABLED'' = ''true''),
       cc_Max = pcParseInt (vals ''CANCEL_RATE_LIMIT_MAX'') 10,
       cc_Window = pcParseInt (vals ''CANCEL_RATE_LIMIT_WINDOW'') 1,
       cc_Unit = vals ''CANCEL_RATE_LIMIT_UNIT'',
       cc_Mode = vals ''CANCEL_RATE_LIMIT_WINDOW_MODE''\<rparr>\<rparr>"

subsection \<open>The tables\<close>

record SubscriptionPlan =
  pl_ID :: int
  pl_GroupID :: int
  pl_Name :: string
  pl_Price :: f64
  pl_OriginalPrice :: "f64 option"
  pl_ValidityDays :: int
  pl_ValidityUnit :: string
  pl_ProductName :: string
  pl_ForSale :: bool
  pl_SortOrder :: int

record ChannelLimits =
  cl_DailyLimit :: f64
  cl_SingleMin :: f64
  cl_SingleMax :: f64

record ProviderInstance =
  pi_ID :: int
  pi_ProviderKey :: string
  pi_Config :: string
  pi_SupportedTypes :: string
  pi_Enabled :: bool
  pi_PaymentMode :: string
  pi_SortOrder :: int
  pi_Limits :: string
  pi_Name :: string
  pi_RefundEnabled :: bool
  pi_AllowUserRefund :: bool

record storestate = shopstate +
  st_settings :: "string \<Rightarrow> string"
  st_plans :: "SubscriptionPlan list"
  st_nextPlan :: int
  st_instances :: "ProviderInstance list"
  st_nextInstance :: int
  st_userStatus :: "int \<Rightarrow> string"
  st_lbCounter :: nat

definition GetPaymentConfig :: "('a storestate_scheme, PaymentConfig) proc" where
  "GetPaymentConfig =
     bindP (db ''get settings'' (getP st_settings)) (\<lambda>vals.
     bindP (ignoreP (db ''stripe instance'' (ret ()))) (\<lambda>_. ret (parsePaymentConfig vals)))"

subsection \<open>Changing the configuration\<close>

text \<open>
  Every field is written: a field that is not given writes the empty text, which stands for the default.
  The two help texts are written like the others and read by nothing here.
\<close>

record UpdatePaymentConfigRequest =
  uc_Enabled :: "bool option"
  uc_MinAmount :: "f64 option"
  uc_MaxAmount :: "f64 option"
  uc_DailyLimit :: "f64 option"
  uc_OrderTimeoutMin :: "int option"
  uc_MaxPendingOrders :: "int option"
  uc_EnabledTypes :: "string list option"
  uc_BalanceDisabled :: "bool option"
  uc_BalanceRechargeMultiplier :: "f64 option"
  uc_RechargeFeeRate :: "f64 option"
  uc_OrderIDPrefix :: "string option"
  uc_LoadBalanceStrategy :: "string option"
  uc_ProductNamePrefix :: "string option"
  uc_ProductNameSuffix :: "string option"
  uc_HelpImageURL :: "string option"
  uc_HelpText :: "string option"
  uc_CancelRateLimitEnabled :: "bool option"
  uc_CancelRateLimitMax :: "int option"
  uc_CancelRateLimitWindow :: "int option"
  uc_CancelRateLimitUnit :: "string option"
  uc_CancelRateLimitMode :: "string option"

definition formatBoolOrEmpty :: "bool option \<Rightarrow> string" where
  "formatBoolOrEmpty v = (case v of None \<Rightarrow> [] | Some b \<Rightarrow> if b then ''true'' else ''false'')"

definition formatPositiveFloat :: "f64 option \<Rightarrow> string" where
  "formatPositiveFloat v = (case v of None \<Rightarrow> [] | Some x \<Rightarrow> if fle x (Fin 0) then [] else formatFixed2 x)"

definition formatNonNegativeFloat :: "f64 option \<Rightarrow> string" where
  "formatNonNegativeFloat v = (case v of None \<Rightarrow> [] | Some x \<Rightarrow> if flt x (Fin 0) then [] else formatFixed2 x)"

definition formatPositiveInt :: "int option \<Rightarrow> string" where
  "formatPositiveInt v = (case v of None \<Rightarrow> [] | Some i \<Rightarrow> if i \<le> 0 then [] else itoa i)"

definition derefStr :: "string option \<Rightarrow> string" where
  "derefStr v = (case v of None \<Rightarrow> [] | Some s \<Rightarrow> s)"

definition prefixChar :: "char \<Rightarrow> bool" where
  "prefixChar c \<longleftrightarrow> (let n = of_char c :: nat in (97 \<le> n \<and> n \<le> 122) \<or> (65 \<le> n \<and> n \<le> 90) \<or> (48 \<le> n \<and> n \<le> 57) \<or> n = 95 \<or> n = 45)"

definition validateOrderIDPrefix :: "string \<Rightarrow> err + unit" where
  "validateOrderIDPrefix v =
     (let t = trimSpace v in
      if t = [] then Inr ()
      else if 16 < length t \<or> \<not> list_all prefixChar t then Inl (AppErr ''INVALID_ORDER_ID_PREFIX'')
      else Inr ())"

definition wholeCents :: "f64 \<Rightarrow> bool" where
  "wholeCents v \<longleftrightarrow> (case fmul v (Fin 100) of Fin r \<Rightarrow> r = of_int \<lfloor>r\<rfloor> | NaN \<Rightarrow> False | _ \<Rightarrow> True)"

definition validateConfigRequest :: "UpdatePaymentConfigRequest \<Rightarrow> err + unit" where
  "validateConfigRequest req =
     (if (case uc_BalanceRechargeMultiplier req of None \<Rightarrow> False | Some v \<Rightarrow> \<not> fin v \<or> fle v (Fin 0))
      then Inl (AppErr ''INVALID_BALANCE_RECHARGE_MULTIPLIER'')
      else if (case uc_RechargeFeeRate req of None \<Rightarrow> False
               | Some v \<Rightarrow> \<not> fin v \<or> flt v (Fin 0) \<or> flt (Fin 100) v \<or> \<not> wholeCents v)
      then Inl (AppErr ''INVALID_RECHARGE_FEE_RATE'')
      else (case uc_OrderIDPrefix req of None \<Rightarrow> Inr () | Some v \<Rightarrow> validateOrderIDPrefix v))"

definition settingsOf :: "UpdatePaymentConfigRequest \<Rightarrow> (string \<times> string) list" where
  "settingsOf req = [
     (''payment_enabled'', formatBoolOrEmpty (uc_Enabled req)),
     (''MIN_RECHARGE_AMOUNT'', formatPositiveFloat (uc_MinAmount req)),
     (''MAX_RECHARGE_AMOUNT'', formatPositiveFloat (uc_MaxAmount req)),
     (''DAILY_RECHARGE_LIMIT'', formatPositiveFloat (uc_DailyLimit req)),
     (''ORDER_TIMEOUT_MINUTES'', formatPositiveInt (uc_OrderTimeoutMin req)),
     (''MAX_PENDING_ORDERS'', formatPositiveInt (uc_MaxPendingOrders req)),
     (''BALANCE_PAYMENT_DISABLED'', formatBoolOrEmpty (uc_BalanceDisabled req)),
     (''BALANCE_RECHARGE_MULTIPLIER'', formatPositiveFloat (uc_BalanceRechargeMultiplier req)),
     (''RECHARGE_FEE_RATE'', formatNonNegativeFloat (uc_RechargeFeeRate req)),
     (''ORDER_ID_PREFIX'', normalizeOrderIDPrefix (derefStr (uc_OrderIDPrefix req))),
     (''LOAD_BALANCE_STRATEGY'', derefStr (uc_LoadBalanceStrategy req)),
     (''PRODUCT_NAME_PREFIX'', derefStr (uc_ProductNamePrefix req)),
     (''PRODUCT_NAME_SUFFIX'', derefStr (uc_ProductNameSuffix req)),
     (''PAYMENT_HELP_IMAGE_URL'', derefStr (uc_HelpImageURL req)),
     (''PAYMENT_HELP_TEXT'', derefStr (uc_HelpText req)),
     (''CANCEL_RATE_LIMIT_ENABLED'', formatBoolOrEmpty (uc_CancelRateLimitEnabled req)),
     (''CANCEL_RATE_LIMIT_MAX'', formatPositiveInt (uc_CancelRateLimitMax req)),
     (''CANCEL_RATE_LIMIT_WINDOW'', formatPositiveInt (uc_CancelRateLimitWindow req)),
     (''CANCEL_RATE_LIMIT_UNIT'', derefStr (uc_CancelRateLimitUnit req)),
     (''CANCEL_RATE_LIMIT_WINDOW_MODE'', derefStr (uc_CancelRateLimitMode req)),
     (''ENABLED_PAYMENT_TYPES'', case uc_EnabledTypes req of None \<Rightarrow> [] | Some ts \<Rightarrow> joinWith '','' ts)]"

definition withSettings :: "(string \<times> string) list \<Rightarrow> (string \<Rightarrow> string) \<Rightarrow> string \<Rightarrow> string" where
  "withSettings kvs vals k = (case map_of kvs k of None \<Rightarrow> vals k | Some v \<Rightarrow> v)"

definition UpdatePaymentConfig :: "UpdatePaymentConfigRequest \<Rightarrow> ('a storestate_scheme, unit) proc" where
  "UpdatePaymentConfig req = bindP (liftE (validateConfigRequest req)) (\<lambda>_.
     db ''set settings'' (modP (\<lambda>s. s\<lparr>st_settings := withSettings (settingsOf req) (st_settings s)\<rparr>)))"

definition IsPaymentEnabled :: "('a storestate_scheme, bool) proc" where
  "IsPaymentEnabled = tryP (db ''get setting'' (getP (\<lambda>s. st_settings s ''payment_enabled''))) (\<lambda>_. ret False) (\<lambda>v. ret (v = ''true''))"

subsection \<open>Plans\<close>

text \<open>A plan's price is a column of two decimals; texts that are only shown are left out of the record.\<close>

definition validatePlanRequired :: "SubscriptionPlan \<Rightarrow> err + unit" where
  "validatePlanRequired p =
     (if trimSpace (pl_Name p) = [] then Inl (AppErr ''PLAN_NAME_REQUIRED'')
      else if pl_GroupID p \<le> 0 then Inl (AppErr ''PLAN_GROUP_REQUIRED'')
      else if fle (pl_Price p) (Fin 0) then Inl (AppErr ''PLAN_PRICE_INVALID'')
      else if pl_ValidityDays p \<le> 0 then Inl (AppErr ''PLAN_VALIDITY_REQUIRED'')
      else if trimSpace (pl_ValidityUnit p) = [] then Inl (AppErr ''PLAN_VALIDITY_UNIT_REQUIRED'')
      else if (case pl_OriginalPrice p of None \<Rightarrow> False | Some v \<Rightarrow> flt v (Fin 0)) then Inl (AppErr ''PLAN_ORIGINAL_PRICE_INVALID'')
      else Inr ())"

record UpdatePlanRequest =
  uq_GroupID :: "int option"
  uq_Name :: "string option"
  uq_Price :: "f64 option"
  uq_OriginalPrice :: "f64 option"
  uq_ValidityDays :: "int option"
  uq_ValidityUnit :: "string option"
  uq_ProductName :: "string option"
  uq_ForSale :: "bool option"
  uq_SortOrder :: "int option"

definition onGiven :: "('a \<Rightarrow> bool) \<Rightarrow> 'a option \<Rightarrow> bool" where
  "onGiven bad v = (case v of None \<Rightarrow> False | Some x \<Rightarrow> bad x)"

definition validatePlanPatch :: "UpdatePlanRequest \<Rightarrow> err + unit" where
  "validatePlanPatch q =
     (if onGiven (\<lambda>n. trimSpace n = []) (uq_Name q) then Inl (AppErr ''PLAN_NAME_REQUIRED'')
      else if onGiven (\<lambda>g. g \<le> 0) (uq_GroupID q) then Inl (AppErr ''PLAN_GROUP_REQUIRED'')
      else if onGiven (\<lambda>v. fle v (Fin 0)) (uq_Price q) then Inl (AppErr ''PLAN_PRICE_INVALID'')
      else if onGiven (\<lambda>d. d \<le> 0) (uq_ValidityDays q) then Inl (AppErr ''PLAN_VALIDITY_REQUIRED'')
      else if onGiven (\<lambda>u. trimSpace u = []) (uq_ValidityUnit q) then Inl (AppErr ''PLAN_VALIDITY_UNIT_REQUIRED'')
      else if onGiven (\<lambda>v. flt v (Fin 0)) (uq_OriginalPrice q) then Inl (AppErr ''PLAN_ORIGINAL_PRICE_INVALID'')
      else Inr ())"

definition GetPlan :: "int \<Rightarrow> ('a storestate_scheme, SubscriptionPlan) proc" where
  "GetPlan i = tryP (db ''get plan'' (\<lambda>s. (onlyRow (Internal ''not found'') (\<lambda>p. pl_ID p = i) (st_plans s), s)))
     (\<lambda>_. fail (AppErr ''PLAN_NOT_FOUND'')) ret"

definition storedPlan :: "pgnum \<Rightarrow> SubscriptionPlan \<Rightarrow> SubscriptionPlan" where
  "storedPlan N p = p\<lparr>pl_Price := n_store2 N (pl_Price p), pl_OriginalPrice := map_option (n_store2 N) (pl_OriginalPrice p)\<rparr>"

definition CreatePlan :: "pgnum \<Rightarrow> SubscriptionPlan \<Rightarrow> ('a storestate_scheme, SubscriptionPlan) proc" where
  "CreatePlan N p = bindP (liftE (validatePlanRequired p)) (\<lambda>_.
     db ''insert plan'' (\<lambda>s. let made = p\<lparr>pl_ID := st_nextPlan s\<rparr> in
       (Inr made, s\<lparr>st_plans := st_plans s @ [storedPlan N made], st_nextPlan := st_nextPlan s + 1\<rparr>)))"

definition patchedPlan :: "pgnum \<Rightarrow> UpdatePlanRequest \<Rightarrow> SubscriptionPlan \<Rightarrow> SubscriptionPlan" where
  "patchedPlan N q p = p\<lparr>
     pl_GroupID := given (uq_GroupID q) (pl_GroupID p), pl_Name := given (uq_Name q) (pl_Name p),
     pl_Price := (case uq_Price q of None \<Rightarrow> pl_Price p | Some v \<Rightarrow> n_store2 N v),
     pl_OriginalPrice := (case uq_OriginalPrice q of None \<Rightarrow> pl_OriginalPrice p | Some v \<Rightarrow> Some (n_store2 N v)),
     pl_ValidityDays := given (uq_ValidityDays q) (pl_ValidityDays p), pl_ValidityUnit := given (uq_ValidityUnit q) (pl_ValidityUnit p),
     pl_ProductName := given (uq_ProductName q) (pl_ProductName p), pl_ForSale := given (uq_ForSale q) (pl_ForSale p),
     pl_SortOrder := given (uq_SortOrder q) (pl_SortOrder p)\<rparr>"

definition UpdatePlan :: "pgnum \<Rightarrow> int \<Rightarrow> UpdatePlanRequest \<Rightarrow> ('a storestate_scheme, SubscriptionPlan) proc" where
  "UpdatePlan N i q = bindP (liftE (validatePlanPatch q)) (\<lambda>_.
     db ''update plan'' (\<lambda>s.
       let s' = s\<lparr>st_plans := updRows (\<lambda>p. pl_ID p = i) (patchedPlan N q) (st_plans s)\<rparr> in
       (onlyRow (Internal ''not found'') (\<lambda>p. pl_ID p = i) (st_plans s'), s')))"

text \<open>Orders in progress keep their plan from being deleted.\<close>

definition countPendingOrdersByPlan :: "int \<Rightarrow> ('a storestate_scheme, nat) proc" where
  "countPendingOrdersByPlan i = db ''count orders'' (getP (\<lambda>s. length (filter (\<lambda>x. po_PlanID x = Some i
     \<and> po_Status x \<in> {OrderStatusPending, OrderStatusPaid, OrderStatusRecharging}) (pw_orders s))))"

definition DeletePlan :: "int \<Rightarrow> ('a storestate_scheme, unit) proc" where
  "DeletePlan i = bindP (countPendingOrdersByPlan i) (\<lambda>n.
     if 0 < n then fail (AppErr ''PENDING_ORDERS'')
     else db ''delete plan'' (\<lambda>s.
       if list_ex (\<lambda>p. pl_ID p = i) (st_plans s) then (Inr (), s\<lparr>st_plans := filter (\<lambda>p. pl_ID p \<noteq> i) (st_plans s)\<rparr>)
       else (Inl (Internal ''not found''), s)))"

definition planBefore :: "SubscriptionPlan \<Rightarrow> SubscriptionPlan \<Rightarrow> bool" where
  "planBefore a b \<longleftrightarrow> pl_SortOrder a \<le> pl_SortOrder b"

definition ListPlansForSale :: "('a storestate_scheme, SubscriptionPlan list) proc" where
  "ListPlansForSale = db ''list plans'' (getP (\<lambda>s. sortBy planBefore (filter pl_ForSale (st_plans s))))"

subsection \<open>Provider instances\<close>

text \<open>
  The credentials of an instance are a map from names to texts, stored encrypted (payment/crypto.go):
  \<open>K\<close> encrypts and decrypts; a map is a list of its entries with distinct names.
\<close>

record cipher =
  ci_encrypt :: "(string \<times> string) list \<Rightarrow> err + string"
  ci_decrypt :: "string \<Rightarrow> err + (string \<times> string) list option"

definition cfgAt :: "(string \<times> string) list \<Rightarrow> string \<Rightarrow> string" where
  "cfgAt cfg k = (case map_of cfg k of None \<Rightarrow> [] | Some v \<Rightarrow> v)"

definition providerConfigAliases :: "string \<Rightarrow> (string \<times> string list) list option" where
  "providerConfigAliases key =
     (if key = ''easypay'' then Some [(''notifyUrl'', [''notifyUrl'', ''notify_url'']), (''returnUrl'', [''returnUrl'', ''return_url''])]
      else if key = ''alipay'' then Some
        [(''appId'', [''appId'', ''app_id'', ''sandbox_app_id'']),
         (''privateKey'', [''privateKey'', ''appPrivateKey'', ''app_private_key'', ''sandbox_app_private_key'']),
         (''publicKey'', [''publicKey'', ''alipayPublicKey'', ''alipay_public_key'', ''sandbox_alipay_public_key'']),
         (''gateway'', [''gateway'', ''sandbox_gateway'']),
         (''notifyUrl'', [''notifyUrl'', ''notify_url'']),
         (''returnUrl'', [''returnUrl'', ''return_url''])]
      else if key = ''wxpay'' then Some
        [(''appId'', [''appId'', ''app_id'']),
         (''mchId'', [''mchId'', ''mch_id'', ''merchantId'', ''merchant_id'']),
         (''privateKey'', [''privateKey'', ''merchantPrivateKey'', ''merchant_private_key'']),
         (''apiV3Key'', [''apiV3Key'', ''api_v3_key'']),
         (''publicKey'', [''publicKey'', ''platformPublicKey'', ''platform_public_key'']),
         (''publicKeyId'', [''publicKeyId'', ''public_key_id'']),
         (''certSerial'', [''certSerial'', ''cert_serial'']),
         (''notifyUrl'', [''notifyUrl'', ''notify_url''])]
      else if key = TypeStripe then Some
        [(''secretKey'', [''secretKey'', ''secret_key'']),
         (''publishableKey'', [''publishableKey'', ''publishable_key'']),
         (''webhookSecret'', [''webhookSecret'', ''webhook_secret''])]
      else None)"

definition putEntry :: "'k \<Rightarrow> 'v \<Rightarrow> ('k \<times> 'v) list \<Rightarrow> ('k \<times> 'v) list" where
  "putEntry k v kvs = filter (\<lambda>p. fst p \<noteq> k) kvs @ [(k, v)]"

definition NormalizeConfig :: "string \<Rightarrow> (string \<times> string) list \<Rightarrow> (string \<times> string) list" where
  "NormalizeConfig key config = (case providerConfigAliases key of
       None \<Rightarrow> config
     | Some aliases \<Rightarrow>
         fold (\<lambda>(canonical, keys) acc. case find (\<lambda>k. cfgAt config k \<noteq> []) keys of
             None \<Rightarrow> acc | Some k \<Rightarrow> putEntry canonical (cfgAt config k) acc) aliases
           (filter (\<lambda>(k, v). \<not> list_ex (\<lambda>(canonical, keys). k \<in> set keys \<and> canonical \<noteq> k) aliases) config))"

definition isSensitiveConfigField :: "string \<Rightarrow> bool" where
  "isSensitiveConfigField name = list_ex (containsStr (toLower name)) [''key'', ''pkey'', ''secret'', ''private'', ''password'']"

definition inProgress :: "string \<Rightarrow> bool" where
  "inProgress st \<longleftrightarrow> st \<in> {OrderStatusPending, OrderStatusPaid, OrderStatusRecharging}"

definition countPendingOrders :: "int \<Rightarrow> ('a storestate_scheme, nat) proc" where
  "countPendingOrders i = db ''count orders'' (getP (\<lambda>s. length (filter (\<lambda>x. po_ProviderInstanceID x = Some (itoa i) \<and> inProgress (po_Status x)) (pw_orders s))))"

definition ErrPendingOrders :: err where "ErrPendingOrders = AppErr ''PENDING_ORDERS''"

definition validateProviderRequest :: "string \<Rightarrow> string \<Rightarrow> err + unit" where
  "validateProviderRequest key name =
     (if trimSpace name = [] then Inl (AppErr ''VALIDATION_ERROR'')
      else if key \<notin> {''easypay'', ''alipay'', ''wxpay'', TypeStripe} then Inl (AppErr ''VALIDATION_ERROR'')
      else Inr ())"

text \<open>The request of a creation: the fields of an instance, its credentials and payment types as lists.\<close>

definition CreateProviderInstance :: "cipher \<Rightarrow> ProviderInstance \<Rightarrow> (string \<times> string) list \<Rightarrow> string list \<Rightarrow> ('a storestate_scheme, ProviderInstance) proc" where
  "CreateProviderInstance K req config types =
     bindP (liftE (validateProviderRequest (pi_ProviderKey req) (pi_Name req))) (\<lambda>_.
     bindP (liftE (ci_encrypt K (NormalizeConfig (pi_ProviderKey req) config))) (\<lambda>enc.
     db ''insert instance'' (\<lambda>s.
       let made = req\<lparr>pi_ID := st_nextInstance s, pi_Config := enc, pi_SupportedTypes := joinWith '','' types,
             pi_AllowUserRefund := pi_AllowUserRefund req \<and> pi_RefundEnabled req\<rparr>
       in (Inr made, s\<lparr>st_instances := st_instances s @ [made], st_nextInstance := st_nextInstance s + 1\<rparr>))))"

record UpdateInstanceRequest =
  ui_Name :: "string option"
  ui_Config :: "(string \<times> string) list option"
  ui_SupportedTypes :: "string list option"
  ui_Enabled :: "bool option"
  ui_PaymentMode :: "string option"
  ui_SortOrder :: "int option"
  ui_Limits :: "string option"
  ui_RefundEnabled :: "bool option"
  ui_AllowUserRefund :: "bool option"

definition instanceGet :: "int \<Rightarrow> ('a storestate_scheme, ProviderInstance) proc" where
  "instanceGet i = db ''get instance'' (\<lambda>s. (onlyRow (Internal ''not found'') (\<lambda>x. pi_ID x = i) (st_instances s), s))"

definition decryptConfig :: "cipher \<Rightarrow> string \<Rightarrow> err + (string \<times> string) list option" where
  "decryptConfig K enc = (if enc = [] then Inr None else ci_decrypt K enc)"

definition canReplaceProviderConfig :: "string \<Rightarrow> (string \<times> string) list \<Rightarrow> bool" where
  "canReplaceProviderConfig key cfg =
     (let hasAll = list_all (\<lambda>k. trimSpace (cfgAt cfg k) \<noteq> []) in
      cfg \<noteq> [] \<and>
      (if key = ''easypay'' then hasAll [''pid'', ''pkey'', ''apiBase'', ''notifyUrl'', ''returnUrl'']
       else if key = ''alipay'' then hasAll [''appId'', ''privateKey'', ''publicKey'']
       else if key = ''wxpay'' then hasAll [''appId'', ''mchId'', ''privateKey'', ''apiV3Key'', ''publicKey'', ''publicKeyId'', ''certSerial'']
       else if key = TypeStripe then hasAll [''secretKey'']
       else False))"

definition mergeConfig :: "cipher \<Rightarrow> int \<Rightarrow> (string \<times> string) list \<Rightarrow> ('a storestate_scheme, (string \<times> string) list) proc" where
  "mergeConfig K i newConfig0 =
     bindP (instanceGet i) (\<lambda>inst.
     let newConfig = NormalizeConfig (pi_ProviderKey inst) newConfig0 in
     case decryptConfig K (pi_Config inst) of
       Inl e \<Rightarrow> if canReplaceProviderConfig (pi_ProviderKey inst) newConfig then ret newConfig else fail e
     | Inr None \<Rightarrow> ret newConfig
     | Inr (Some existing) \<Rightarrow> ret (fold (\<lambda>(k, v) acc. putEntry k v acc) newConfig (NormalizeConfig (pi_ProviderKey inst) existing)))"

text \<open>Types an instance may not lose while orders are in progress.\<close>

definition losesType :: "string \<Rightarrow> string list \<Rightarrow> bool" where
  "losesType old new = list_ex (\<lambda>t. trimSpace t \<noteq> [] \<and> trimSpace t \<notin> set (map trimSpace new)) (splitOn CHR '','' old)"

definition refuseWhilePending :: "int \<Rightarrow> ('a storestate_scheme, unit) proc" where
  "refuseWhilePending i = bindP (countPendingOrders i) (\<lambda>n. if 0 < n then fail ErrPendingOrders else ret ())"

definition newAllowUserRefund :: "int \<Rightarrow> UpdateInstanceRequest \<Rightarrow> ('a storestate_scheme, bool option) proc" where
  "newAllowUserRefund i req = (case ui_AllowUserRefund req of
       None \<Rightarrow> ret (if ui_RefundEnabled req = Some False then Some False else None)
     | Some False \<Rightarrow> ret (Some False)
     | Some True \<Rightarrow>
         bindP (case ui_RefundEnabled req of
            Some b \<Rightarrow> ret b
          | None \<Rightarrow> tryP (instanceGet i) (\<lambda>_. ret False) (\<lambda>inst. ret (pi_RefundEnabled inst))) (\<lambda>enabled.
         ret (if enabled then Some True else if ui_RefundEnabled req = Some False then Some False else None)))"

definition UpdateProviderInstance :: "cipher \<Rightarrow> int \<Rightarrow> UpdateInstanceRequest \<Rightarrow> ('a storestate_scheme, ProviderInstance) proc" where
  "UpdateProviderInstance K i req =
     bindP (if (case ui_Config req of None \<Rightarrow> False | Some cfg \<Rightarrow> list_ex (\<lambda>(k, v). isSensitiveConfigField k \<and> v \<noteq> []) cfg)
            then refuseWhilePending i else ret ()) (\<lambda>_.
     bindP (if ui_Enabled req = Some False then refuseWhilePending i else ret ()) (\<lambda>_.
     bindP (case ui_Config req of
          None \<Rightarrow> ret None
        | Some cfg \<Rightarrow> bindP (mergeConfig K i cfg) (\<lambda>merged. bindP (liftE (ci_encrypt K merged)) (\<lambda>enc. ret (Some enc)))) (\<lambda>enc.
     bindP (case ui_SupportedTypes req of
          None \<Rightarrow> ret ()
        | Some types \<Rightarrow> bindP (countPendingOrders i) (\<lambda>n.
            if 0 < n then bindP (instanceGet i) (\<lambda>inst. if losesType (pi_SupportedTypes inst) types then fail ErrPendingOrders else ret ())
            else ret ())) (\<lambda>_.
     bindP (newAllowUserRefund i req) (\<lambda>allow.
     db ''update instance'' (\<lambda>s.
       let s' = s\<lparr>st_instances := updRows (\<lambda>x. pi_ID x = i) (\<lambda>x. x\<lparr>
             pi_Name := given (ui_Name req) (pi_Name x), pi_Config := given enc (pi_Config x),
             pi_SupportedTypes := (case ui_SupportedTypes req of None \<Rightarrow> pi_SupportedTypes x | Some ts \<Rightarrow> joinWith '','' ts),
             pi_Enabled := given (ui_Enabled req) (pi_Enabled x), pi_SortOrder := given (ui_SortOrder req) (pi_SortOrder x),
             pi_Limits := given (ui_Limits req) (pi_Limits x), pi_RefundEnabled := given (ui_RefundEnabled req) (pi_RefundEnabled x),
             pi_AllowUserRefund := given allow (pi_AllowUserRefund x), pi_PaymentMode := given (ui_PaymentMode req) (pi_PaymentMode x)\<rparr>) (st_instances s)\<rparr>
       in (onlyRow (Internal ''not found'') (\<lambda>x. pi_ID x = i) (st_instances s'), s')))))))"

text \<open>An instance whose credentials cannot be read is listed without them, marked as such.\<close>

definition instanceBefore :: "ProviderInstance \<Rightarrow> ProviderInstance \<Rightarrow> bool" where
  "instanceBefore a b \<longleftrightarrow> pi_SortOrder a \<le> pi_SortOrder b"

definition ListProviderInstancesWithConfig :: "cipher \<Rightarrow> ('a storestate_scheme, (ProviderInstance \<times> (string \<times> string) list \<times> bool) list) proc" where
  "ListProviderInstancesWithConfig K = bindP (db ''list instances'' (getP (\<lambda>s. sortBy instanceBefore (st_instances s)))) (\<lambda>insts.
     ret (map (\<lambda>x. case decryptConfig K (pi_Config x) of
         Inl _ \<Rightarrow> (x, [], True)
       | Inr cfg \<Rightarrow> (x, NormalizeConfig (pi_ProviderKey x) (given cfg []), False)) insts))"

definition DeleteProviderInstance :: "int \<Rightarrow> ('a storestate_scheme, unit) proc" where
  "DeleteProviderInstance i =
     bindP (refuseWhilePending i) (\<lambda>_.
     db ''delete instance'' (\<lambda>s.
       if list_ex (\<lambda>x. pi_ID x = i) (st_instances s) then (Inr (), s\<lparr>st_instances := filter (\<lambda>x. pi_ID x \<noteq> i) (st_instances s)\<rparr>)
       else (Inl (Internal ''not found''), s)))"

definition GetUserRefundEligibleInstanceIDs :: "('a storestate_scheme, string list) proc" where
  "GetUserRefundEligibleInstanceIDs = db ''list instances'' (getP (\<lambda>s.
     map (\<lambda>x. itoa (pi_ID x)) (filter (\<lambda>x. pi_RefundEnabled x \<and> pi_AllowUserRefund x) (st_instances s))))"

end
