(* ===== verification/PaymentCreation.thy ===== *)
theory PaymentCreation
  imports PaymentConfig
begin

section \<open>Creating orders\<close>

text \<open>
  service/payment_order.go with payment/load_balancer.go, payment/fee.go and the limits of
  service/payment_config_limits.go: what an order costs and brings, the limits of a user, the provider instance it is
  paid through, and the call of the provider.  Providers are outside: \<open>A\<close> says whether a
  provider can be built from the credentials and what its payment call answers.  \<open>J\<close> decodes the
  limits of an instance.  \<open>stamp\<close> is the date with the eight random characters of an order number.
\<close>

subsection \<open>Limits of payment types\<close>

type_synonym limitsDecoder = "string \<Rightarrow> (string \<times> ChannelLimits) list option"

definition noLimits :: ChannelLimits where
  "noLimits = \<lparr>cl_DailyLimit = Fin 0, cl_SingleMin = Fin 0, cl_SingleMax = Fin 0\<rparr>"

definition InstanceSupportsType :: "string \<Rightarrow> string \<Rightarrow> bool" where
  "InstanceSupportsType supportedTypes target \<longleftrightarrow>
     supportedTypes = [] \<or> list_ex (\<lambda>t. trimSpace t = target) (splitOn CHR '','' supportedTypes)"

definition getInstanceChannelLimits :: "limitsDecoder \<Rightarrow> ProviderInstance \<Rightarrow> string \<Rightarrow> ChannelLimits" where
  "getInstanceChannelLimits J inst paymentType =
     (if pi_Limits inst = [] then noLimits
      else case J (pi_Limits inst) of
        None \<Rightarrow> noLimits
      | Some limits \<Rightarrow>
          (case map_of limits (if pi_ProviderKey inst = TypeStripe then TypeStripe else paymentType) of None \<Rightarrow> noLimits | Some cl \<Rightarrow> cl))"

record MethodLimits =
  ml_PaymentType :: string
  ml_DailyLimit :: f64
  ml_SingleMin :: f64
  ml_SingleMax :: f64

definition pcInstanceTypeLimits :: "limitsDecoder \<Rightarrow> ProviderInstance \<Rightarrow> string \<Rightarrow> ChannelLimits option" where
  "pcInstanceTypeLimits J inst pt =
     (if pi_Limits inst = [] then None else case J (pi_Limits inst) of None \<Rightarrow> None | Some limits \<Rightarrow> map_of limits pt)"

definition unionFloat :: "f64 \<times> bool \<Rightarrow> f64 \<Rightarrow> bool \<Rightarrow> f64 \<times> bool" where
  "unionFloat agl val wantMin = (case agl of (agg, limited) \<Rightarrow>
     if feq val (Fin 0) then (agg, False)
     else if \<not> limited then (agg, False)
     else if feq agg (Fin 0) then (val, True)
     else if wantMin \<and> flt val agg then (val, True)
     else if \<not> wantMin \<and> flt agg val then (val, True)
     else (agg, True))"

definition limitedOr0 :: "f64 \<times> bool \<Rightarrow> f64" where
  "limitedOr0 agl = (if snd agl then fst agl else Fin 0)"

text \<open>An instance without limits for the type ends the loop with no limits at all.\<close>

fun aggregateLimits :: "limitsDecoder \<Rightarrow> string \<Rightarrow> f64 \<times> bool \<Rightarrow> f64 \<times> bool \<Rightarrow> f64 \<times> bool \<Rightarrow> ProviderInstance list \<Rightarrow> MethodLimits" where
  "aggregateLimits J pt mn mx dl [] =
     \<lparr>ml_PaymentType = pt, ml_DailyLimit = limitedOr0 dl, ml_SingleMin = limitedOr0 mn, ml_SingleMax = limitedOr0 mx\<rparr>"
| "aggregateLimits J pt mn mx dl (inst # insts) = (case pcInstanceTypeLimits J inst pt of
       None \<Rightarrow> \<lparr>ml_PaymentType = pt, ml_DailyLimit = Fin 0, ml_SingleMin = Fin 0, ml_SingleMax = Fin 0\<rparr>
     | Some cl \<Rightarrow> aggregateLimits J pt (unionFloat mn (cl_SingleMin cl) True) (unionFloat mx (cl_SingleMax cl) False)
         (unionFloat dl (cl_DailyLimit cl) False) insts)"

definition pcAggregateMethodLimits :: "limitsDecoder \<Rightarrow> string \<Rightarrow> ProviderInstance list \<Rightarrow> MethodLimits" where
  "pcAggregateMethodLimits J pt insts = aggregateLimits J pt (Fin 0, True) (Fin 0, True) (Fin 0, True) insts"

definition addInstance :: "string \<Rightarrow> ProviderInstance \<Rightarrow> (string \<times> ProviderInstance list) list \<Rightarrow> (string \<times> ProviderInstance list) list" where
  "addInstance key inst g = (case map_of g key of
       None \<Rightarrow> g @ [(key, [inst])]
     | Some insts \<Rightarrow> if list_ex (\<lambda>x. pi_ID x = pi_ID inst) insts then g
         else map (\<lambda>(k, v). if k = key then (k, v @ [inst]) else (k, v)) g)"

definition pcGroupByPaymentType :: "ProviderInstance list \<Rightarrow> (string \<times> ProviderInstance list) list" where
  "pcGroupByPaymentType insts = fold (\<lambda>inst g.
     if pi_ProviderKey inst = TypeStripe then addInstance TypeStripe inst g
     else fold (\<lambda>t g'. addInstance t inst g') (splitTypes (pi_SupportedTypes inst)) g) insts []"

definition pcComputeGlobalRange :: "MethodLimits list \<Rightarrow> f64 \<times> f64" where
  "pcComputeGlobalRange methods =
     (limitedOr0 (fold (\<lambda>ml a. unionFloat a (ml_SingleMin ml) True) methods (Fin 0, True)),
      limitedOr0 (fold (\<lambda>ml a. unionFloat a (ml_SingleMax ml) False) methods (Fin 0, True)))"

definition GetAvailableMethodLimits :: "limitsDecoder \<Rightarrow> ('a storestate_scheme, MethodLimits list \<times> f64 \<times> f64) proc" where
  "GetAvailableMethodLimits J =
     bindP (db ''list instances'' (getP (\<lambda>s. filter pi_Enabled (st_instances s)))) (\<lambda>insts.
     let methods = map (\<lambda>(pt, is). pcAggregateMethodLimits J pt is) (pcGroupByPaymentType insts) in
     ret (methods, pcComputeGlobalRange methods))"

definition GetMethodLimits :: "limitsDecoder \<Rightarrow> string list \<Rightarrow> ('a storestate_scheme, MethodLimits list) proc" where
  "GetMethodLimits J types =
     bindP (db ''list instances'' (getP (\<lambda>s. filter pi_Enabled (st_instances s)))) (\<lambda>insts.
     ret (map (\<lambda>pt. pcAggregateMethodLimits J pt (filter (\<lambda>x. InstanceSupportsType (pi_SupportedTypes x) pt) insts)) types))"

subsection \<open>The choice of an instance\<close>

definition queryEnabledInstances :: "string \<Rightarrow> string \<Rightarrow> ('a storestate_scheme, ProviderInstance list) proc" where
  "queryEnabledInstances providerKey paymentType =
     bindP (db ''list instances'' (getP (\<lambda>s. sortBy instanceBefore
       (filter (\<lambda>x. pi_Enabled x \<and> (providerKey = [] \<or> pi_ProviderKey x = providerKey)) (st_instances s))))) (\<lambda>insts.
     let matched = filter (\<lambda>x. if paymentType = TypeStripe then pi_ProviderKey x = TypeStripe
           else InstanceSupportsType (pi_SupportedTypes x) paymentType) insts in
     if matched = [] then fail (Internal ''no enabled instance'') else ret matched)"

text \<open>The payments of the day that are open or done; a failed query counts none.\<close>

definition usedToday :: "pgnum \<Rightarrow> int \<Rightarrow> PaymentOrder list \<Rightarrow> ProviderInstance \<Rightarrow> f64" where
  "usedToday N start os inst =
     (let mine = filter (\<lambda>x. po_ProviderInstanceID x = Some (itoa (pi_ID inst)) \<and> start \<le> po_CreatedAt x
            \<and> po_Status x \<in> {OrderStatusPending, OrderStatusPaid, OrderStatusCompleted, OrderStatusRecharging}) os in
      if mine = [] then Fin 0 else n_sum N (map po_PayAmount mine))"

definition attachDailyUsage :: "pgnum \<Rightarrow> ProviderInstance list \<Rightarrow> ('a storestate_scheme, (ProviderInstance \<times> f64) list) proc" where
  "attachDailyUsage N insts =
     bindP (getP (\<lambda>s. startOfDayIn (ss_zone s) (e_now s))) (\<lambda>start.
     tryP (db ''daily usage'' (getP (\<lambda>s. map (\<lambda>x. (x, usedToday N start (pw_orders s) x)) insts)))
       (\<lambda>_. ret (map (\<lambda>x. (x, Fin 0)) insts)) ret)"

definition withinLimits :: "limitsDecoder \<Rightarrow> string \<Rightarrow> f64 \<Rightarrow> ProviderInstance \<times> f64 \<Rightarrow> bool" where
  "withinLimits J paymentType orderAmount c =
     (let cl = getInstanceChannelLimits J (fst c) paymentType in
      \<not> (flt (Fin 0) (cl_SingleMin cl) \<and> flt orderAmount (cl_SingleMin cl)) \<and>
      \<not> (flt (Fin 0) (cl_SingleMax cl) \<and> flt (cl_SingleMax cl) orderAmount) \<and>
      \<not> (flt (Fin 0) (cl_DailyLimit cl) \<and> flt (cl_DailyLimit cl) (fadd (snd c) orderAmount)))"

definition filterByLimits :: "limitsDecoder \<Rightarrow> (ProviderInstance \<times> f64) list \<Rightarrow> string \<Rightarrow> f64 \<Rightarrow> (ProviderInstance \<times> f64) list" where
  "filterByLimits J cs paymentType orderAmount = filter (withinLimits J paymentType orderAmount) cs"

fun pickLeastAmount :: "ProviderInstance \<times> f64 \<Rightarrow> (ProviderInstance \<times> f64) list \<Rightarrow> ProviderInstance \<times> f64" where
  "pickLeastAmount best [] = best"
| "pickLeastAmount best (c # cs) = pickLeastAmount (if flt (snd c) (snd best) then c else best) cs"

text \<open>The counter is 64 bits wide and shared by all orders of the process.\<close>

definition pickByStrategy :: "(ProviderInstance \<times> f64) list \<Rightarrow> string \<Rightarrow> ('a storestate_scheme, ProviderInstance \<times> f64) proc" where
  "pickByStrategy cs strategy =
     (if strategy = StrategyLeastAmount \<and> 1 < length cs then ret (pickLeastAmount (hd cs) (tl cs))
      else (\<lambda>s. let n = (st_lbCounter s + 1) mod 2 ^ 64 in (Inr (cs ! (n mod length cs)), s\<lparr>st_lbCounter := n\<rparr>)))"

record InstanceSelection =
  is_InstanceID :: string
  is_ProviderKey :: string
  is_Config :: "(string \<times> string) list"
  is_SupportedTypes :: string
  is_PaymentMode :: string

definition buildSelection :: "cipher \<Rightarrow> ProviderInstance \<Rightarrow> err + InstanceSelection" where
  "buildSelection K inst = (case ci_decrypt K (pi_Config inst) of
       Inl e \<Rightarrow> Inl e
     | Inr cfg \<Rightarrow> Inr \<lparr>is_InstanceID = itoa (pi_ID inst), is_ProviderKey = pi_ProviderKey inst,
         is_Config = (if pi_PaymentMode inst = [] then given cfg [] else putEntry ''paymentMode'' (pi_PaymentMode inst) (given cfg [])),
         is_SupportedTypes = pi_SupportedTypes inst, is_PaymentMode = pi_PaymentMode inst\<rparr>)"

definition SelectInstance :: "pgnum \<Rightarrow> limitsDecoder \<Rightarrow> cipher \<Rightarrow> string \<Rightarrow> string \<Rightarrow> string \<Rightarrow> f64 \<Rightarrow> ('a storestate_scheme, InstanceSelection) proc" where
  "SelectInstance N J K providerKey paymentType strategy orderAmount =
     bindP (queryEnabledInstances providerKey paymentType) (\<lambda>insts.
     bindP (attachDailyUsage N insts) (\<lambda>cs.
     let available = filterByLimits J cs paymentType orderAmount in
     bindP (pickByStrategy (if available = [] then cs else available) strategy) (\<lambda>c.
     liftE (buildSelection K (fst c)))))"

subsection \<open>Amounts\<close>

text \<open>decimal.RoundUp, StringFixed(2) and an integer as a decimal, beside the operations of \<open>D\<close>.\<close>

record 'd moneyDecimal = "'d decimal" +
  md_roundUp :: "int \<Rightarrow> 'd \<Rightarrow> 'd"
  md_fixed2 :: "'d \<Rightarrow> string"
  md_int :: "int \<Rightarrow> 'd"

definition CalculatePayAmount :: "('d, 'm) moneyDecimal_scheme \<Rightarrow> f64 \<Rightarrow> f64 \<Rightarrow> string" where
  "CalculatePayAmount D rechargeAmount feeRate =
     (let amount = d_of D rechargeAmount in
      if fle feeRate (Fin 0) then md_fixed2 D amount
      else md_fixed2 D (d_add D amount (md_roundUp D 2 (d_div D (d_mul D amount (d_of D feeRate)) (md_int D 100)))))"

text \<open>strconv.ParseFloat with its error dropped: zero for what is no number, an infinity out of range.\<close>

definition payAmountOf :: "string \<Rightarrow> f64" where
  "payAmountOf s = (case literalValue s of None \<Rightarrow> Fin 0 | Some x \<Rightarrow> x)"

record CreateOrderRequest =
  cq_UserID :: int
  cq_Amount :: f64
  cq_PaymentType :: string
  cq_ClientIP :: string
  cq_IsMobile :: bool
  cq_OrderType :: string
  cq_PlanID :: int
  cq_PromotionID :: int
  cq_SubscriptionMode :: string

record orderAmountComputation =
  oc_OriginalAmount :: f64
  oc_OrderAmount :: f64
  oc_LimitAmount :: f64
  oc_PaymentBase :: f64
  oc_PayAmount :: f64
  oc_PayAmountStr :: string
  oc_FeeRate :: f64
  oc_DiscountAmount :: f64
  oc_BonusAmount :: f64
  oc_PromotionID :: "int option"
  oc_PromotionRuleID :: "int option"
  oc_RechargeHit :: "RechargeDiscount option"
  oc_SubscriptionHit :: "SubscriptionDiscount option"

definition plainAmounts :: "PaymentConfig \<Rightarrow> f64 \<Rightarrow> orderAmountComputation" where
  "plainAmounts cfg x = \<lparr>oc_OriginalAmount = x, oc_OrderAmount = x, oc_LimitAmount = x, oc_PaymentBase = x, oc_PayAmount = Fin 0,
     oc_PayAmountStr = [], oc_FeeRate = cf_RechargeFeeRate cfg, oc_DiscountAmount = Fin 0, oc_BonusAmount = Fin 0,
     oc_PromotionID = None, oc_PromotionRuleID = None, oc_RechargeHit = None, oc_SubscriptionHit = None\<rparr>"

definition withSubscriptionHit :: "SubscriptionDiscount \<Rightarrow> orderAmountComputation \<Rightarrow> orderAmountComputation" where
  "withSubscriptionHit hit c = c\<lparr>oc_OrderAmount := sd_FinalPrice hit, oc_LimitAmount := sd_FinalPrice hit, oc_PaymentBase := sd_FinalPrice hit,
     oc_DiscountAmount := sd_DiscountAmount hit, oc_PromotionID := Some (pr_ID (sd_Promotion hit)),
     oc_PromotionRuleID := Some (rule_ID (sd_Rule hit)), oc_SubscriptionHit := Some hit\<rparr>"

definition withRechargeHit :: "RechargeDiscount \<Rightarrow> orderAmountComputation \<Rightarrow> orderAmountComputation" where
  "withRechargeHit hit c =
     (let c1 = (if rd_Mode hit = PromotionDiscountModeReducePay
                then c\<lparr>oc_PaymentBase := rd_PaymentAmount hit, oc_DiscountAmount := rd_DiscountAmount hit\<rparr>
                else if rd_Mode hit = PromotionDiscountModeBonusCredit
                then c\<lparr>oc_OrderAmount := rd_CreditedAmount hit, oc_BonusAmount := rd_BonusAmount hit\<rparr>
                else c)
      in c1\<lparr>oc_PromotionID := Some (pr_ID (rd_Promotion hit)), oc_RechargeHit := Some hit\<rparr>)"

definition finishAmounts :: "('d, 'm) moneyDecimal_scheme \<Rightarrow> orderAmountComputation \<Rightarrow> orderAmountComputation" where
  "finishAmounts D c = (let str = CalculatePayAmount D (oc_PaymentBase c) (oc_FeeRate c) in
     c\<lparr>oc_PayAmountStr := str, oc_PayAmount := payAmountOf str\<rparr>)"

definition computeOrderAmounts :: "('d, 'm) moneyDecimal_scheme \<Rightarrow> CreateOrderRequest \<Rightarrow> SubscriptionPlan option \<Rightarrow> PaymentConfig \<Rightarrow>
    ('a storestate_scheme, orderAmountComputation) proc" where
  "computeOrderAmounts D req plan cfg =
     bindP (case plan of
         Some p \<Rightarrow>
           let c = plainAmounts cfg (pl_Price p) in
           if 0 < cq_PromotionID req
           then bindP (ResolveSubscriptionDiscount (decimal.truncate D) (cq_UserID req) (pl_ID p) (pl_Price p) (cq_PromotionID req)) (\<lambda>hit.
                ret (case hit of None \<Rightarrow> c | Some h \<Rightarrow> withSubscriptionHit h c))
           else ret c
       | None \<Rightarrow>
           let c = plainAmounts cfg (cq_Amount req) in
           if cq_OrderType req = OrderTypeBalance
           then let c1 = c\<lparr>oc_OrderAmount := calculateCreditedBalance (decimal.truncate D) (cq_Amount req) (cf_BalanceRechargeMultiplier cfg)\<rparr> in
                if 0 < cq_PromotionID req
                then bindP (ResolveRechargeDiscount (decimal.truncate D) (cq_UserID req) (cq_Amount req) (cq_PromotionID req)) (\<lambda>hit.
                     ret (case hit of None \<Rightarrow> c1 | Some h \<Rightarrow> withRechargeHit h c1))
                else ret c1
           else ret c) (\<lambda>c. ret (finishAmounts D c))"

subsection \<open>What an order may ask for\<close>

definition validateRechargeAmountRange :: "f64 \<Rightarrow> f64 \<Rightarrow> f64 \<Rightarrow> err + unit" where
  "validateRechargeAmountRange amount minAmount maxAmount =
     (if flt (Fin 0) minAmount \<and> flt amount minAmount then Inl (AppErr ''PAYMENT_AMOUNT_BELOW_MIN'')
      else if flt (Fin 0) maxAmount \<and> flt maxAmount amount then Inl (AppErr ''PAYMENT_AMOUNT_ABOVE_MAX'')
      else Inr ())"

definition ErrPlanNotAvailable :: err where "ErrPlanNotAvailable = AppErr ''PLAN_NOT_AVAILABLE''"

definition validateSubOrder :: "CreateOrderRequest \<Rightarrow> ('a storestate_scheme, SubscriptionPlan) proc" where
  "validateSubOrder req =
     (if cq_PlanID req = 0 then fail (AppErr ''INVALID_INPUT'')
      else tryP (GetPlan (cq_PlanID req)) (\<lambda>_. fail ErrPlanNotAvailable) (\<lambda>plan.
        if \<not> pl_ForSale plan then fail ErrPlanNotAvailable
        else tryP (groupGetByID (pl_GroupID plan)) (\<lambda>_. fail (AppErr ''GROUP_NOT_FOUND'')) (\<lambda>g.
          if g_Status g \<noteq> ''active'' then fail (AppErr ''GROUP_NOT_FOUND'')
          else if \<not> IsSubscriptionType g then fail (AppErr ''GROUP_TYPE_MISMATCH'')
          else ret plan)))"

definition positiveAmount :: "f64 \<Rightarrow> bool" where
  "positiveAmount x \<longleftrightarrow> fin x \<and> \<not> fle x (Fin 0)"

definition validateOrderInput :: "CreateOrderRequest \<Rightarrow> PaymentConfig \<Rightarrow> ('a storestate_scheme, SubscriptionPlan option) proc" where
  "validateOrderInput req cfg =
     (if cq_OrderType req = OrderTypeBalance \<and> cf_BalanceDisabled cfg then fail (AppErr ''BALANCE_PAYMENT_DISABLED'')
      else if cq_OrderType req = OrderTypeSubscription then bindP (validateSubOrder req) (\<lambda>p. ret (Some p))
      else if \<not> positiveAmount (cq_Amount req) then fail (AppErr ''INVALID_AMOUNT'')
      else bindP (liftE (validateRechargeAmountRange (cq_Amount req) (cf_MinAmount cfg) (cf_MaxAmount cfg))) (\<lambda>_. ret None))"

definition maxPending :: "PaymentConfig \<Rightarrow> int" where
  "maxPending cfg = (if cf_MaxPendingOrders cfg \<le> 0 then defaultMaxPendingOrders else cf_MaxPendingOrders cfg)"

definition pendingOrders :: "int \<Rightarrow> 'a paystate_scheme \<Rightarrow> int" where
  "pendingOrders user s = int (length (filter (\<lambda>x. po_UserID x = user \<and> po_Status x = OrderStatusPending) (pw_orders s)))"

definition checkPendingLimit :: "int \<Rightarrow> PaymentConfig \<Rightarrow> ('a storestate_scheme, unit) proc" where
  "checkPendingLimit user cfg =
     bindP (db ''count pending orders'' (getP (pendingOrders user))) (\<lambda>c.
     if maxPending cfg \<le> c then fail (AppErr ''TOO_MANY_PENDING'') else ret ())"

definition dailyUse :: "PaymentOrder \<Rightarrow> f64" where
  "dailyUse x = (if po_OrderType x = OrderTypeBalance then po_PayAmount x else po_Amount x)"

definition psStartOfDayUTC :: "int \<Rightarrow> int" where
  "psStartOfDayUTC t = t - t mod day"

definition checkDailyLimit :: "int \<Rightarrow> f64 \<Rightarrow> f64 \<Rightarrow> ('a storestate_scheme, unit) proc" where
  "checkDailyLimit user amount limit =
     (if fle limit (Fin 0) then ret ()
      else bindP (db ''query daily usage'' (getP (\<lambda>s. filter (\<lambda>x. po_UserID x = user
             \<and> po_Status x \<in> {OrderStatusPaid, OrderStatusRecharging, OrderStatusCompleted}
             \<and> (case po_PaidAt x of None \<Rightarrow> False | Some t \<Rightarrow> psStartOfDayUTC (e_now s) \<le> t)) (pw_orders s)))) (\<lambda>os.
           let used = foldl (\<lambda>a x. fadd a (dailyUse x)) (Fin 0) os in
           if flt limit (fadd used amount) then fail (AppErr ''DAILY_LIMIT_EXCEEDED'') else ret ()))"

subsection \<open>The order of a request\<close>

definition psComputeValidityDays :: "int \<Rightarrow> string \<Rightarrow> int" where
  "psComputeValidityDays days unit = (if unit = ''week'' then days * 7 else if unit = ''month'' then days * 30 else days)"

definition generateOutTradeNo :: "string \<Rightarrow> string \<Rightarrow> string" where
  "generateOutTradeNo prefix stamp = (if prefix = [] then defaultOrderIDPrefix else prefix) @ stamp"

definition orderTimeout :: "PaymentConfig \<Rightarrow> int" where
  "orderTimeout cfg = (if cf_OrderTimeoutMin cfg \<le> 0 then defaultOrderTimeoutMin else cf_OrderTimeoutMin cfg) * 60 * second"

definition orderOf :: "CreateOrderRequest \<Rightarrow> SubscriptionPlan option \<Rightarrow> PaymentConfig \<Rightarrow> orderAmountComputation \<Rightarrow> string \<Rightarrow> int \<Rightarrow> PaymentOrder" where
  "orderOf req plan cfg amts stamp now =
     \<lparr>po_ID = 0, po_UserID = cq_UserID req, po_Amount = oc_OrderAmount amts, po_PayAmount = oc_PayAmount amts,
      po_RechargeCode = [], po_OutTradeNo = generateOutTradeNo (cf_OrderIDPrefix cfg) stamp, po_PaymentType = cq_PaymentType req,
      po_PaymentTradeNo = [], po_OrderType = cq_OrderType req, po_PlanID = map_option pl_ID plan,
      po_SubscriptionGroupID = map_option pl_GroupID plan,
      po_SubscriptionDays = map_option (\<lambda>p. psComputeValidityDays (pl_ValidityDays p) (pl_ValidityUnit p)) plan,
      po_SubscriptionMode = (if cq_SubscriptionMode req = [] then None else Some (cq_SubscriptionMode req)),
      po_ProviderInstanceID = None, po_Status = OrderStatusPending, po_PromotionID = oc_PromotionID amts,
      po_PromotionRuleID = oc_PromotionRuleID amts, po_DiscountAmount = oc_DiscountAmount amts, po_BonusAmount = oc_BonusAmount amts,
      po_RefundAmount = Fin 0, po_RefundReason = None, po_RefundAt = None, po_ForceRefund = False, po_RefundRequestedAt = None,
      po_RefundRequestReason = None, po_RefundRequestedBy = None, po_ExpiresAt = now + orderTimeout cfg, po_PaidAt = None,
      po_CompletedAt = None, po_FailedAt = None, po_FailedReason = None, po_UpdatedAt = now, po_CreatedAt = now\<rparr>"

text \<open>Columns only a request fills have lengths too.\<close>

definition requestColumnsOk :: "CreateOrderRequest \<Rightarrow> bool" where
  "requestColumnsOk req \<longleftrightarrow> length (cq_OrderType req) \<le> 20 \<and> length (cq_SubscriptionMode req) \<le> 16 \<and> length (cq_ClientIP req) \<le> 50"

definition rechargeCodeOf :: "int \<Rightarrow> int \<Rightarrow> string" where
  "rechargeCodeOf i now = ''PAY-'' @ itoa i @ ''-'' @ itoa (goMod now 100000)"

text \<open>UpdateOneID(...).Save answers with the row it has read back.\<close>

definition orderUpdateGet :: "int \<Rightarrow> (PaymentOrder \<Rightarrow> PaymentOrder) \<Rightarrow> ('a paystate_scheme, PaymentOrder) proc" where
  "orderUpdateGet i f = db ''update order'' (\<lambda>s.
     let s' = setOrders (updRows (\<lambda>x. po_ID x = i) (\<lambda>x. (f x)\<lparr>po_UpdatedAt := e_now s\<rparr>) (pw_orders s)) s in
     (onlyRow (Internal ''order not found'') (\<lambda>x. po_ID x = i) (pw_orders s'), if list_ex (\<lambda>x. po_ID x = i) (pw_orders s) then s' else s))"

definition undoOrders :: "'a paystate_scheme \<Rightarrow> 'a paystate_scheme \<Rightarrow> 'a paystate_scheme" where
  "undoOrders s s' = setOrders (pw_orders s) s'"

definition createOrderInTx :: "pgnum \<Rightarrow> string \<Rightarrow> CreateOrderRequest \<Rightarrow> SubscriptionPlan option \<Rightarrow> PaymentConfig \<Rightarrow> orderAmountComputation \<Rightarrow>
    ('a storestate_scheme, PaymentOrder) proc" where
  "createOrderInTx N stamp req plan cfg amts = withTx undoOrders (
     bindP (checkPendingLimit (cq_UserID req) cfg) (\<lambda>_.
     bindP (checkDailyLimit (cq_UserID req) (oc_LimitAmount amts) (cf_DailyLimit cfg)) (\<lambda>_.
     if \<not> requestColumnsOk req then fail (Internal ''validator failed'')
     else bindP nowP (\<lambda>now.
       bindP (orderCreate N (orderOf req plan cfg amts stamp now)) (\<lambda>made.
       orderUpdateGet (po_ID made) (\<lambda>x. x\<lparr>po_RechargeCode := rechargeCodeOf (po_ID made) now\<rparr>))))))"

subsection \<open>The provider\<close>

record PaymentCall =
  pc_OrderID :: string
  pc_Amount :: string
  pc_PaymentType :: string
  pc_Subject :: string
  pc_ClientIP :: string
  pc_IsMobile :: bool
  pc_InstanceSubMethods :: string

record PaymentAnswer =
  pa_TradeNo :: string
  pa_PayURL :: string
  pa_QRCode :: string
  pa_ClientSecret :: string

type_synonym providerAPI = "string \<Rightarrow> (string \<times> string) list \<Rightarrow> PaymentCall \<Rightarrow> err + PaymentAnswer"

text \<open>provider/factory.go and the constructors it calls: what the credentials must have.\<close>

definition hasKeys :: "(string \<times> string) list \<Rightarrow> string list \<Rightarrow> bool" where
  "hasKeys cfg keys \<longleftrightarrow> list_all (\<lambda>k. cfgAt cfg k \<noteq> []) keys"

definition CreateProvider :: "string \<Rightarrow> (string \<times> string) list \<Rightarrow> (string \<times> string) list option" where
  "CreateProvider key config =
     (let cfg = NormalizeConfig key config in
      if key = ''easypay'' then if hasKeys cfg [''pid'', ''pkey'', ''apiBase'', ''notifyUrl'', ''returnUrl''] then Some cfg else None
      else if key = ''alipay'' then if hasKeys cfg [''appId'', ''privateKey''] then Some cfg else None
      else if key = ''wxpay'' then
        if hasKeys cfg [''appId'', ''mchId'', ''privateKey'', ''apiV3Key'', ''publicKey'', ''publicKeyId'', ''certSerial'']
           \<and> length (cfgAt cfg ''apiV3Key'') = 32 then Some cfg else None
      else if key = TypeStripe then if hasKeys cfg [''secretKey''] then Some cfg else None
      else None)"

definition buildPaymentSubject :: "SubscriptionPlan option \<Rightarrow> f64 \<Rightarrow> PaymentConfig \<Rightarrow> string" where
  "buildPaymentSubject plan limitAmount cfg = (case plan of
       Some p \<Rightarrow> if pl_ProductName p \<noteq> [] then pl_ProductName p else ''Sub2API Subscription '' @ pl_Name p
     | None \<Rightarrow>
         let amountStr = formatFixed2 limitAmount; pf = trimSpace (cf_ProductNamePrefix cfg); sf = trimSpace (cf_ProductNameSuffix cfg) in
         if pf \<noteq> [] \<or> sf \<noteq> [] then trimSpace (pf @ '' '' @ amountStr @ '' '' @ sf)
         else ''Sub2API '' @ amountStr @ '' CNY'')"

record CreateOrderResponse =
  cr_OrderID :: int
  cr_Amount :: f64
  cr_PayAmount :: f64
  cr_Status :: string
  cr_PayURL :: string
  cr_QRCode :: string
  cr_ClientSecret :: string
  cr_ExpiresAt :: int
  cr_PaymentMode :: string
  cr_OriginalAmount :: f64
  cr_DiscountAmount :: f64
  cr_BonusAmount :: f64
  cr_PromotionID :: "int option"

definition ErrPaymentGateway :: err where "ErrPaymentGateway = AppErr ''PAYMENT_GATEWAY_ERROR''"

text \<open>The update leaves a column alone when the provider gave no text for it.\<close>

definition withProvider :: "PaymentAnswer \<Rightarrow> InstanceSelection \<Rightarrow> PaymentOrder \<Rightarrow> PaymentOrder" where
  "withProvider pr sel x = x\<lparr>po_PaymentTradeNo := (if pa_TradeNo pr = [] then po_PaymentTradeNo x else pa_TradeNo pr),
     po_ProviderInstanceID := (if is_InstanceID sel = [] then po_ProviderInstanceID x else Some (is_InstanceID sel))\<rparr>"

definition invokeProvider :: "pgnum \<Rightarrow> limitsDecoder \<Rightarrow> cipher \<Rightarrow> providerAPI \<Rightarrow> PaymentOrder \<Rightarrow> CreateOrderRequest \<Rightarrow> PaymentConfig \<Rightarrow>
    orderAmountComputation \<Rightarrow> SubscriptionPlan option \<Rightarrow> ('a storestate_scheme, CreateOrderResponse) proc" where
  "invokeProvider N J K A o' req cfg amts plan =
     tryP (SelectInstance N J K [] (cq_PaymentType req) (cf_LoadBalanceStrategy cfg) (oc_PayAmount amts)) (\<lambda>_. fail ErrPaymentGateway) (\<lambda>sel.
     case CreateProvider (is_ProviderKey sel) (is_Config sel) of
       None \<Rightarrow> fail ErrPaymentGateway
     | Some pcfg \<Rightarrow>
         (case A (is_ProviderKey sel) pcfg \<lparr>pc_OrderID = po_OutTradeNo o', pc_Amount = oc_PayAmountStr amts, pc_PaymentType = cq_PaymentType req,
              pc_Subject = buildPaymentSubject plan (oc_LimitAmount amts) cfg, pc_ClientIP = cq_ClientIP req, pc_IsMobile = cq_IsMobile req,
              pc_InstanceSubMethods = is_SupportedTypes sel\<rparr> of
            Inl _ \<Rightarrow> fail ErrPaymentGateway
          | Inr pr \<Rightarrow>
              bindP (if 128 < length (pa_TradeNo pr) \<or> 64 < length (is_InstanceID sel) then fail (Internal ''validator failed'')
                     else orderUpdateOne (po_ID o') (withProvider pr sel)) (\<lambda>_.
              bindP (writeAuditLog (po_ID o') ''ORDER_CREATED'' (userOperator (cq_UserID req))) (\<lambda>_.
              ret \<lparr>cr_OrderID = po_ID o', cr_Amount = po_Amount o', cr_PayAmount = oc_PayAmount amts, cr_Status = OrderStatusPending,
                cr_PayURL = pa_PayURL pr, cr_QRCode = pa_QRCode pr, cr_ClientSecret = pa_ClientSecret pr, cr_ExpiresAt = po_ExpiresAt o',
                cr_PaymentMode = is_PaymentMode sel, cr_OriginalAmount = oc_OriginalAmount amts, cr_DiscountAmount = oc_DiscountAmount amts,
                cr_BonusAmount = oc_BonusAmount amts, cr_PromotionID = oc_PromotionID amts\<rparr>))))"

subsection \<open>CreateOrder\<close>

definition typedRequest :: "CreateOrderRequest \<Rightarrow> CreateOrderRequest" where
  "typedRequest req = (if cq_OrderType req = [] then req\<lparr>cq_OrderType := OrderTypeBalance\<rparr> else req)"

text \<open>An order whose payment could not be started fails; whether that is written is not looked at.\<close>

definition orderOrFailed :: "int \<Rightarrow> ('a storestate_scheme, 'b) proc \<Rightarrow> ('a storestate_scheme, 'b) proc" where
  "orderOrFailed i m = tryP m
     (\<lambda>e. bindP (ignoreP (orderUpdateOne i (\<lambda>x. x\<lparr>po_Status := OrderStatusFailed\<rparr>))) (\<lambda>_. fail e)) ret"

definition placeOrder :: "pgnum \<Rightarrow> ('d, 'm) moneyDecimal_scheme \<Rightarrow> limitsDecoder \<Rightarrow> cipher \<Rightarrow> providerAPI \<Rightarrow> string \<Rightarrow>
    CreateOrderRequest \<Rightarrow> PaymentConfig \<Rightarrow> SubscriptionPlan option \<Rightarrow> ('a storestate_scheme, CreateOrderResponse) proc" where
  "placeOrder N D J K A stamp req cfg plan =
     bindP (computeOrderAmounts D req plan cfg) (\<lambda>amts.
     bindP (createOrderInTx N stamp req plan cfg amts) (\<lambda>o'.
     orderOrFailed (po_ID o') (invokeProvider N J K A o' req cfg amts plan)))"

definition CreateOrder :: "pgnum \<Rightarrow> ('d, 'm) moneyDecimal_scheme \<Rightarrow> limitsDecoder \<Rightarrow> cipher \<Rightarrow> providerAPI \<Rightarrow> string \<Rightarrow>
    CreateOrderRequest \<Rightarrow> ('a storestate_scheme, CreateOrderResponse) proc" where
  "CreateOrder N D J K A stamp req0 =
     (let req = typedRequest req0 in
      bindP GetPaymentConfig (\<lambda>cfg.
      if \<not> cf_Enabled cfg then fail (AppErr ''PAYMENT_DISABLED'')
      else bindP (validateOrderInput req cfg) (\<lambda>plan.
           bindP (checkCancelRateLimit (cq_UserID req) (cf_Cancel cfg)) (\<lambda>_.
           bindP (userGetByID (cq_UserID req)) (\<lambda>_.
           bindP (getP (\<lambda>s. st_userStatus s (cq_UserID req))) (\<lambda>status.
           if status \<noteq> ''active'' then fail (AppErr ''USER_INACTIVE'')
           else placeOrder N D J K A stamp req cfg plan))))))"

record PromotionPreview =
  pp_PromotionID :: "int option"
  pp_OriginalAmount :: f64
  pp_PaymentAmount :: f64
  pp_CreditedAmount :: f64
  pp_DiscountAmount :: f64
  pp_BonusAmount :: f64

definition PreviewPromotion :: "('d, 'm) moneyDecimal_scheme \<Rightarrow> CreateOrderRequest \<Rightarrow> ('a storestate_scheme, PromotionPreview) proc" where
  "PreviewPromotion D req0 =
     (let req = typedRequest req0 in
      bindP GetPaymentConfig (\<lambda>cfg.
      if \<not> cf_Enabled cfg then fail (AppErr ''PAYMENT_DISABLED'')
      else bindP (if cq_OrderType req = OrderTypeSubscription then
             if cq_PlanID req = 0 then fail (AppErr ''INVALID_INPUT'')
             else tryP (GetPlan (cq_PlanID req)) (\<lambda>_. fail ErrPlanNotAvailable) (\<lambda>p. if pl_ForSale p then ret (Some p) else fail ErrPlanNotAvailable)
           else if cq_OrderType req = OrderTypeBalance then
             if \<not> positiveAmount (cq_Amount req) then fail (AppErr ''INVALID_AMOUNT'')
             else bindP (liftE (validateRechargeAmountRange (cq_Amount req) (cf_MinAmount cfg) (cf_MaxAmount cfg))) (\<lambda>_. ret None)
           else fail (AppErr ''INVALID_ORDER_TYPE'')) (\<lambda>plan.
         bindP (computeOrderAmounts D req plan cfg) (\<lambda>amts.
         ret \<lparr>pp_PromotionID = oc_PromotionID amts, pp_OriginalAmount = oc_OriginalAmount amts, pp_PaymentAmount = oc_PaymentBase amts,
           pp_CreditedAmount = oc_OrderAmount amts, pp_DiscountAmount = oc_DiscountAmount amts, pp_BonusAmount = oc_BonusAmount amts\<rparr>))))"

subsection \<open>Looking orders up\<close>

definition GetOrder :: "int \<Rightarrow> int \<Rightarrow> ('a paystate_scheme, PaymentOrder) proc" where
  "GetOrder i user = tryP (orderGet i) (\<lambda>_. fail ErrOrderNotFound) (\<lambda>x. if po_UserID x \<noteq> user then fail ErrOrderForbidden else ret x)"

definition GetOrderByID :: "int \<Rightarrow> ('a paystate_scheme, PaymentOrder) proc" where
  "GetOrderByID i = tryP (orderGet i) (\<lambda>_. fail ErrOrderNotFound) ret"

definition applyPagination :: "int \<Rightarrow> int \<Rightarrow> int \<times> int" where
  "applyPagination pageSize page = (min (if pageSize \<le> 0 then 20 else pageSize) 100, max 1 page)"

definition pageOf :: "int \<times> int \<Rightarrow> 'r list \<Rightarrow> 'r list" where
  "pageOf sp rows = take (nat (fst sp)) (drop (nat ((snd sp - 1) * fst sp)) rows)"

definition newestFirst :: "PaymentOrder \<Rightarrow> PaymentOrder \<Rightarrow> bool" where
  "newestFirst a b \<longleftrightarrow> po_CreatedAt b \<le> po_CreatedAt a"

definition matchesOr :: "string \<Rightarrow> string \<Rightarrow> bool" where
  "matchesOr wanted have \<longleftrightarrow> wanted = [] \<or> have = wanted"

definition GetUserOrders :: "int \<Rightarrow> string \<Rightarrow> string \<Rightarrow> string \<Rightarrow> int \<Rightarrow> int \<Rightarrow> ('a paystate_scheme, PaymentOrder list \<times> nat) proc" where
  "GetUserOrders user status orderType paymentType pageSize page =
     (let q = (\<lambda>x. po_UserID x = user \<and> matchesOr status (po_Status x) \<and> matchesOr orderType (po_OrderType x) \<and> matchesOr paymentType (po_PaymentType x)) in
      bindP (db ''count orders'' (getP (\<lambda>s. length (filter q (pw_orders s))))) (\<lambda>c.
      bindP (db ''list orders'' (getP (\<lambda>s. pageOf (applyPagination pageSize page) (sortBy newestFirst (filter q (pw_orders s)))))) (\<lambda>os.
      ret (os, c))))"

end
