(* ===== verification/PaymentPlacing.thy ===== *)
theory PaymentPlacing
  imports PaymentCreation PaymentStates
begin

section \<open>What placing an order does to the orders\<close>

text \<open>
  CreateOrder leaves every order alone and adds at most one, pending or failed, and only when the
  user had fewer pending orders than allowed.
\<close>

subsection \<open>Procedures that only read\<close>

text \<open>Up to the script of faults and the counter of the load balancer.\<close>

definition resting :: "'a storestate_scheme \<Rightarrow> 'a storestate_scheme" where
  "resting s = s\<lparr>e_faults := [], st_lbCounter := 0\<rparr>"

definition asBefore :: "'a storestate_scheme \<Rightarrow> 'a storestate_scheme \<Rightarrow> bool" where
  "asBefore s0 s \<longleftrightarrow> resting s = resting s0"

lemma asBefore_simps [simp]:
  "asBefore s s" "asBefore s0 (s\<lparr>e_faults := fs\<rparr>) = asBefore s0 s" "asBefore s0 (s\<lparr>st_lbCounter := c\<rparr>) = asBefore s0 s"
  by (simp_all add: asBefore_def resting_def)

lemma asBeforeD:
  assumes "asBefore s0 s"
  shows "pw_orders s = pw_orders s0" "pw_nextOrder s = pw_nextOrder s0" "st_settings s = st_settings s0" "e_now s = e_now s0"
    "st_userStatus s = st_userStatus s0"
proof -
  have q: "resting s = resting s0" using assms by (simp add: asBefore_def)
  show "pw_orders s = pw_orders s0" "pw_nextOrder s = pw_nextOrder s0" "st_settings s = st_settings s0" "e_now s = e_now s0"
    "st_userStatus s = st_userStatus s0"
    using arg_cong [OF q, of pw_orders] arg_cong [OF q, of pw_nextOrder] arg_cong [OF q, of st_settings] arg_cong [OF q, of e_now]
      arg_cong [OF q, of st_userStatus]
    by (simp_all add: resting_def)
qed

text \<open>Predicates that reading keeps: using up faults and moving the counter do not matter to them.\<close>

definition still :: "('a storestate_scheme \<Rightarrow> bool) \<Rightarrow> bool" where
  "still P \<longleftrightarrow> (\<forall>s b bs. P s \<longrightarrow> e_faults s = b # bs \<longrightarrow> P (s\<lparr>e_faults := bs\<rparr>)) \<and> (\<forall>s c. P s \<longrightarrow> P (s\<lparr>st_lbCounter := c\<rparr>))"

lemma still_asBefore [keeps]: "still (asBefore s0)"
  by (simp add: still_def)

lemma keeps_readE:
  assumes "still P" and "\<And>s. snd (act s) = s"
  shows "keepsP P (db tag act)"
  using assms by (auto simp: keepsP_def db_def still_def split: list.split)

lemma keeps_read: "still P \<Longrightarrow> keepsP P (db tag (getP f))"
  by (rule keeps_readE) (simp_all add: getP_def)

lemma reads_tables [keeps]:
  assumes "still P"
  shows "keepsP P (promotionGetByID i)" "keepsP P (CountUsageByUser p pl u)"
    "keepsP P (GetPlan i)" "keepsP P (groupGetByID i)" "keepsP P (userGetByID i)"
    "keepsP P (checkCancelRateLimit u cfg)" "keepsP P (ListActiveByType t)"
    "keepsP P (ListActiveByPlanID i)" "keepsP P (db tag (ret ()))"
  unfolding promotionGetByID_def CountUsageByUser_def GetPlan_def groupGetByID_def userGetByID_def
    checkCancelRateLimit_def ListActiveByType_def ListActiveByPlanID_def
  by (intro keeps keeps_readE [OF assms] keeps_read [OF assms]; auto simp: ret_def split: option.split)+

lemma reads_uses [keeps]: "still P \<Longrightarrow> keepsP P (usesLeft n p pl u)"
  unfolding usesLeft_def by (intro keeps)

lemma reads_best [keeps]: "still P \<Longrightarrow> keepsP P (bestRecharge D now u a b ps)"
  by (induction ps arbitrary: b) (auto intro!: keeps)

lemma reads_best_subscription [keeps]: "still P \<Longrightarrow> keepsP P (bestSubscription D now u pl pr b ps)"
  by (induction ps arbitrary: b) (auto intro!: keeps)

lemma reads_resolver [keeps]:
  assumes "still P"
  shows "keepsP P (ResolveRechargeDiscount D u a p)" "keepsP P (ResolveSubscriptionDiscount D u pl a p)"
  unfolding ResolveRechargeDiscount_def ResolveSubscriptionDiscount_def resolveRechargeByID_def resolveSubscriptionByID_def
  by (intro keeps assms)+

lemma reads_amounts [keeps]: "still P \<Longrightarrow> keepsP P (computeOrderAmounts D req plan cfg)"
  unfolding computeOrderAmounts_def Let_def by (intro keeps)

lemma reads_input [keeps]: "still P \<Longrightarrow> keepsP P (validateOrderInput req cfg)"
  unfolding validateOrderInput_def validateSubOrder_def by (intro keeps)

lemma reads_selection [keeps]:
  assumes "still P"
  shows "keepsP P (SelectInstance N J K key ty strategy amount)"
proof -
  have pick: "keepsP P (pickByStrategy cs strategy)" for cs
    unfolding pickByStrategy_def Let_def
    by (rule keeps_if [OF keeps_ret]) (use assms in \<open>simp add: keepsP_def still_def\<close>)
  show ?thesis
    unfolding SelectInstance_def queryEnabledInstances_def attachDailyUsage_def Let_def
    by (intro keeps keeps_read [OF assms] pick)
qed

lemma reads_config: "hoareP (asBefore s0) GetPaymentConfig (asBefore s0) (\<lambda>cfg s. asBefore s0 s \<and> cfg = parsePaymentConfig (st_settings s0))"
proof -
  have vals: "hoareP (asBefore s0) (db ''get settings'' (getP st_settings)) (asBefore s0) (\<lambda>v s. asBefore s0 s \<and> v = st_settings s0)"
    by (rule hoareP_db) (auto simp: hoareP_def getP_def asBeforeD(3))
  have parsed: "hoareP (asBefore s0) (bindP (ignoreP (db ''stripe instance'' (ret ()))) (\<lambda>_. ret (parsePaymentConfig v))) (asBefore s0)
      (\<lambda>cfg s. asBefore s0 s \<and> cfg = parsePaymentConfig v)" for v
    by (rule hoareP_bind [OF hoareP_keeps]; intro keeps hoareP_ret; simp)
  show ?thesis
    unfolding GetPaymentConfig_def by (rule hoareP_bind [OF vals], rule hoareP_pure) (simp add: parsed)
qed

subsection \<open>A transaction\<close>

lemma hoareP_withTx:
  assumes f: "\<And>s fs. P (s\<lparr>e_faults := fs\<rparr>) = P s" "\<And>a s fs. Q a (s\<lparr>e_faults := fs\<rparr>) = Q a s"
    and P: "\<And>s. P s \<Longrightarrow> E s" and m: "hoareP P m E' Q"
    and u: "\<And>s s'. P s \<Longrightarrow> E' s' \<Longrightarrow> E (undo s s')" "\<And>a s s'. P s \<Longrightarrow> Q a s' \<Longrightarrow> E (undo s s')"
  shows "hoareP P (withTx undo m) E Q"
proof -
  have "case withTx undo m s of (Inl e, s') \<Rightarrow> E s' | (Inr a, s') \<Rightarrow> Q a s'" if s: "P s" for s
  proof -
    obtain r1 s1 where 1: "db ''begin transaction'' (ret ()) s = (r1, s1)" by fastforce
    obtain r2 s2 where 2: "m s1 = (r2, s2)" by fastforce
    obtain r3 s3 where 3: "db ''commit transaction'' (ret ()) s2 = (r3, s3)" by fastforce
    have s1: "P s1" using s f(1) db_ret_env [of "''begin transaction''" s] 1 by (metis snd_conv)
    have r: "case (r2, s2) of (Inl e, s') \<Rightarrow> E' s' | (Inr a, s') \<Rightarrow> Q a s'" using m s1 2 by (auto simp: hoareP_def)
    have Q: "Q a s3" if "r2 = Inr a" for a
      using r that f(2) db_ret_env [of "''commit transaction''" s2] 3 by (metis case_prod_conv snd_conv sum.simps(6))
    show ?thesis
      using r Q s1 P u by (cases r1; cases r2; cases r3) (auto simp: withTx_def 1 2 3)
  qed
  then show ?thesis by (simp add: hoareP_def)
qed

lemma hoareP_quiet: "keepsP P m \<Longrightarrow> (\<And>s. P s \<Longrightarrow> E s) \<Longrightarrow> hoareP P m E (\<lambda>_. P)"
  by (rule hoareP_post [OF hoareP_keeps])

lemma hoareP_error: "hoareP P m E Q \<Longrightarrow> (\<And>s. E s \<Longrightarrow> E' s) \<Longrightarrow> hoareP P m E' Q"
  by (rule hoareP_post)

subsection \<open>At most one order more\<close>

definition addedFor :: "int \<Rightarrow> int \<Rightarrow> 'a paystate_scheme \<Rightarrow> PaymentOrder \<Rightarrow> bool" where
  "addedFor user limit s0 x \<longleftrightarrow> po_UserID x = user \<and> po_ID x = pw_nextOrder s0 \<and> po_PaidAt x = None \<and> po_CompletedAt x = None
     \<and> (po_Status x = OrderStatusPending \<and> pendingOrders user s0 < limit \<or> po_Status x = OrderStatusFailed)"

definition placed :: "int \<Rightarrow> int \<Rightarrow> 'a storestate_scheme \<Rightarrow> 'a storestate_scheme \<Rightarrow> bool" where
  "placed user limit s0 s \<longleftrightarrow> st_settings s = st_settings s0
     \<and> (pw_orders s = pw_orders s0 \<and> pw_nextOrder s0 \<le> pw_nextOrder s
        \<or> (\<exists>x. pw_orders s = pw_orders s0 @ [x] \<and> pw_nextOrder s0 < pw_nextOrder s \<and> addedFor user limit s0 x))"

lemma placed_simps [simp]:
  "placed user limit s0 (s\<lparr>e_faults := fs\<rparr>) = placed user limit s0 s" "placed user limit s0 (s\<lparr>st_lbCounter := c\<rparr>) = placed user limit s0 s"
  "placed user limit s0 (s\<lparr>pw_audit := a\<rparr>) = placed user limit s0 s"
  by (simp_all add: placed_def)

lemma asBefore_placed: "asBefore s0 s \<Longrightarrow> placed user limit s0 s"
  by (simp add: placed_def asBeforeD)

lemma updRows_none: "(\<And>x. x \<in> set rows \<Longrightarrow> \<not> p x) \<Longrightarrow> updRows p f rows = rows"
  by (induction rows) (auto simp: updRows_def)

lemma placed_update:
  assumes w: "wfOrders s0" and s: "placed user limit s0 s"
    and f: "\<And>x. addedFor user limit s0 x \<Longrightarrow> addedFor user limit s0 (f x)"
  shows "placed user limit s0 (setOrders (updRows (\<lambda>x. po_ID x = pw_nextOrder s0) f (pw_orders s)) s)"
proof -
  have old: "updRows (\<lambda>x. po_ID x = pw_nextOrder s0) f (pw_orders s0) = pw_orders s0"
    using w by (intro updRows_none) (auto simp: wfOrders_def list_all_iff)
  then have "updRows (\<lambda>x. po_ID x = pw_nextOrder s0) f (pw_orders s0 @ [x]) = pw_orders s0 @ [if po_ID x = pw_nextOrder s0 then f x else x]" for x
    by (simp add: updRows_def)
  with old s f show ?thesis by (auto simp: placed_def setOrders_def addedFor_def)
qed

lemma placed_undo: "asBefore s0 s \<Longrightarrow> placed user limit s0 s' \<Longrightarrow> placed user limit s0 (undoOrders s s')"
  by (auto simp: placed_def undoOrders_def setOrders_def asBeforeD)

subsection \<open>The transaction of an order\<close>

lemma checks_pending:
  assumes "limit = maxPending cfg"
  shows "hoareP (asBefore s0) (checkPendingLimit user cfg) (asBefore s0) (\<lambda>_ s. asBefore s0 s \<and> pendingOrders user s0 < limit)"
proof -
  have "hoareP (asBefore s0) (db ''count pending orders'' (getP (pendingOrders user))) (asBefore s0) (\<lambda>c s. asBefore s0 s \<and> c = pendingOrders user s0)"
    by (rule hoareP_db) (auto simp: hoareP_def getP_def pendingOrders_def asBeforeD(1))
  then show ?thesis
    unfolding checkPendingLimit_def assms
    by (elim hoareP_bind) (auto intro!: hoareP_pure hoareP_if hoareP_ret hoareP_fail)
qed

lemma reads_daily [keeps]: "still P \<Longrightarrow> keepsP P (checkDailyLimit user amount limit)"
  unfolding checkDailyLimit_def Let_def by (intro keeps keeps_read)

lemma creates_order:
  assumes "pendingOrders user s0 < limit" and "po_UserID o' = user" "po_Status o' = OrderStatusPending" "po_PaidAt o' = None" "po_CompletedAt o' = None"
  shows "hoareP (asBefore s0) (orderCreate N o') (placed user limit s0) (\<lambda>made s. placed user limit s0 s \<and> po_ID made = pw_nextOrder s0)"
  unfolding orderCreate_def
  by (rule hoareP_db) (use assms in \<open>auto simp: hoareP_def Let_def placed_def addedFor_def setOrders_def asBeforeD asBefore_placed\<close>)

lemma places_code:
  assumes "wfOrders s0"
  shows "hoareP (placed user limit s0) (orderUpdateGet (pw_nextOrder s0) (\<lambda>x. x\<lparr>po_RechargeCode := code\<rparr>)) (placed user limit s0)
    (\<lambda>x s. placed user limit s0 s \<and> po_ID x = pw_nextOrder s0)"
  unfolding orderUpdateGet_def
  by (rule hoareP_db)
    (auto simp: hoareP_def Let_def addedFor_def setOrders_def dest: onlyRow_Inr intro!: placed_update [OF assms, unfolded setOrders_def]
      split: sum.split)

lemma places_in_tx:
  assumes w: "wfOrders s0" and l: "limit = maxPending cfg" and u: "user = cq_UserID req"
  shows "hoareP (asBefore s0) (createOrderInTx N stamp req plan cfg amts) (placed user limit s0)
    (\<lambda>x s. placed user limit s0 s \<and> po_ID x = pw_nextOrder s0)"
proof -
  let ?P = "placed user limit s0" and ?Q = "\<lambda>x s. placed user limit s0 s \<and> po_ID x = pw_nextOrder s0"
  let ?code = "\<lambda>i now. orderUpdateGet i (\<lambda>x. x\<lparr>po_RechargeCode := rechargeCodeOf i now\<rparr>)"
  have code: "hoareP (\<lambda>s. ?P s \<and> po_ID made = pw_nextOrder s0) (?code (po_ID made) now) ?P ?Q" for made :: PaymentOrder and now
    by (rule hoareP_pure) (simp add: places_code [OF w])
  have create: "hoareP (asBefore s0) (bindP (orderCreate N (orderOf req plan cfg amts stamp now)) (\<lambda>made. ?code (po_ID made) now)) ?P ?Q"
    if "pendingOrders user s0 < limit" for now
    by (rule hoareP_bind [OF creates_order [OF that] code]) (simp_all add: orderOf_def u)
  have daily: "hoareP (asBefore s0) (checkDailyLimit user a b) ?P (\<lambda>_. asBefore s0)" for a b
    by (intro hoareP_quiet keeps asBefore_placed)
  have rest: "hoareP (asBefore s0) (bindP (checkDailyLimit user (oc_LimitAmount amts) (cf_DailyLimit cfg)) (\<lambda>_.
     if \<not> requestColumnsOk req then fail (Internal ''validator failed'')
     else bindP nowP (\<lambda>now. bindP (orderCreate N (orderOf req plan cfg amts stamp now)) (\<lambda>made. ?code (po_ID made) now)))) ?P ?Q"
    if "pendingOrders user s0 < limit"
    by (rule hoareP_bind [OF daily]) (intro hoareP_if hoareP_fail hoareP_nowP create [OF that] asBefore_placed)
  have body: "hoareP (asBefore s0) (bindP (checkPendingLimit user cfg) (\<lambda>_.
     bindP (checkDailyLimit user (oc_LimitAmount amts) (cf_DailyLimit cfg)) (\<lambda>_.
     if \<not> requestColumnsOk req then fail (Internal ''validator failed'')
     else bindP nowP (\<lambda>now. bindP (orderCreate N (orderOf req plan cfg amts stamp now)) (\<lambda>made. ?code (po_ID made) now))))) ?P ?Q"
    by (rule hoareP_bind [OF hoareP_post [OF checks_pending [OF l]]], erule asBefore_placed, assumption, rule hoareP_pure, erule rest)
  show ?thesis
    unfolding createOrderInTx_def u [symmetric]
    by (rule hoareP_withTx [OF _ _ _ body]) (auto simp: asBefore_placed placed_undo)
qed

subsection \<open>The payment\<close>

lemma keeps_placed_update:
  assumes "wfOrders s0" and "\<And>x t. addedFor user limit s0 x \<Longrightarrow> addedFor user limit s0 ((f x)\<lparr>po_UpdatedAt := t\<rparr>)"
  shows "keepsP (placed user limit s0) (orderUpdateOne (pw_nextOrder s0) f)"
  unfolding orderUpdateOne_def
  by (rule keeps_db) (auto simp: keepsP_def intro!: placed_update [OF assms(1)] assms(2))

lemma places_audit [keeps]: "keepsP (placed user limit s0) (writeAuditLog i action op)"
  unfolding writeAuditLog_def by (intro keeps keeps_db keeps_modP) simp_all

lemma still_placed [keeps]: "still (placed user limit s0)"
  by (simp add: still_def)

lemma places_provider:
  assumes "wfOrders s0" and "po_ID o' = pw_nextOrder s0"
  shows "keepsP (placed user limit s0) (invokeProvider N J K A o' req cfg amts plan)"
proof -
  have "keepsP (placed user limit s0) (orderUpdateOne (po_ID o') (withProvider pr sel))" for pr sel
    unfolding assms(2) by (rule keeps_placed_update [OF assms(1)]) (simp add: addedFor_def withProvider_def)
  then show ?thesis
    unfolding invokeProvider_def by (auto intro!: keeps split: option.split sum.split)
qed

lemma places_or_fails:
  assumes "wfOrders s0" and "keepsP (placed user limit s0) m"
  shows "keepsP (placed user limit s0) (orderOrFailed (pw_nextOrder s0) m)"
  unfolding orderOrFailed_def
  by (intro keeps assms(2) keeps_placed_update [OF assms(1)]) (auto simp: addedFor_def)

lemma places_order:
  assumes "wfOrders s0"
  shows "hoareP (asBefore s0) (placeOrder N D J K A stamp req cfg plan) (placed (cq_UserID req) (maxPending cfg) s0)
    (\<lambda>_. placed (cq_UserID req) (maxPending cfg) s0)"
proof -
  let ?P = "placed (cq_UserID req) (maxPending cfg) s0"
  have pay: "hoareP (\<lambda>s. ?P s \<and> po_ID o' = pw_nextOrder s0) (orderOrFailed (po_ID o') (invokeProvider N J K A o' req cfg amts plan)) ?P (\<lambda>_. ?P)" for o' amts
    by (rule hoareP_pure, rule hoareP_keeps) (simp add: places_or_fails places_provider assms)
  have tx: "hoareP (asBefore s0) (bindP (createOrderInTx N stamp req plan cfg amts)
      (\<lambda>o'. orderOrFailed (po_ID o') (invokeProvider N J K A o' req cfg amts plan))) ?P (\<lambda>_. ?P)" for amts
    by (rule hoareP_bind [OF places_in_tx [OF assms refl refl] pay])
  show ?thesis
    unfolding placeOrder_def
    by (rule hoareP_bind [OF hoareP_quiet [OF reads_amounts [OF still_asBefore] asBefore_placed] tx])
qed

lemma CreateOrder_places:
  assumes "wfOrders s"
  shows "placed (cq_UserID req) (maxPending (parsePaymentConfig (st_settings s))) s (snd (CreateOrder N D J K A stamp req s))"
proof -
  let ?cfg = "parsePaymentConfig (st_settings s)" and ?req = "typedRequest req"
  have u: "cq_UserID ?req = cq_UserID req" by (simp add: typedRequest_def)
  let ?P = "placed (cq_UserID req) (maxPending ?cfg) s"
  have read: "hoareP (asBefore s) m ?P (\<lambda>_. asBefore s)" if "keepsP (asBefore s) m" for m :: "('a storestate_scheme, 'z) proc"
    by (rule hoareP_quiet [OF that asBefore_placed])
  have place: "hoareP (asBefore s) (placeOrder N D J K A stamp ?req ?cfg plan) ?P (\<lambda>_. ?P)" for plan
    using places_order [OF assms, of N D J K A stamp ?req ?cfg plan] by (simp add: u)
  let ?rest = "\<lambda>cfg plan. bindP (checkCancelRateLimit (cq_UserID ?req) (cf_Cancel cfg)) (\<lambda>_.
     bindP (userGetByID (cq_UserID ?req)) (\<lambda>_. bindP (getP (\<lambda>s. st_userStatus s (cq_UserID ?req))) (\<lambda>status.
     if status \<noteq> ''active'' then fail (AppErr ''USER_INACTIVE'') else placeOrder N D J K A stamp ?req cfg plan)))"
  have rest: "hoareP (asBefore s) (?rest ?cfg plan) ?P (\<lambda>_. ?P)" for plan
    by (rule hoareP_bind [OF read] hoareP_if hoareP_fail keeps place asBefore_placed | assumption)+
  have "hoareP (asBefore s) (CreateOrder N D J K A stamp req) ?P (\<lambda>_. ?P)"
    unfolding CreateOrder_def Let_def
  proof (rule hoareP_bind [OF hoareP_error [OF reads_config asBefore_placed]])
    fix cfg
    show "hoareP (\<lambda>s'. asBefore s s' \<and> cfg = ?cfg) (if \<not> cf_Enabled cfg then fail (AppErr ''PAYMENT_DISABLED'')
       else bindP (validateOrderInput ?req cfg) (\<lambda>plan. ?rest cfg plan)) ?P (\<lambda>_. ?P)"
    proof (rule hoareP_pure)
      assume "cfg = ?cfg"
      then show "hoareP (asBefore s) (if \<not> cf_Enabled cfg then fail (AppErr ''PAYMENT_DISABLED'')
         else bindP (validateOrderInput ?req cfg) (\<lambda>plan. ?rest cfg plan)) ?P (\<lambda>_. ?P)"
        by (simp only:) (rule hoareP_if hoareP_bind [OF read] hoareP_fail keeps rest asBefore_placed | assumption)+
    qed
  qed
  from hoareP_run [OF this asBefore_simps(1)] show ?thesis .
qed

end
