(* ===== verification/PaymentDemo.thy ===== *)
theory PaymentDemo
  imports PaymentPlacing
begin

section \<open>A small shop\<close>

text \<open>
  A concrete state and concrete parameters, at which the theorems on orders are applied: payments are enabled, the other
  settings are not given, user 1 may order, and one Stripe instance takes the payments.
\<close>

definition roundAway :: "rat \<Rightarrow> int" where
  "roundAway r = (if r < 0 then - \<lceil>- r\<rceil> else \<lceil>r\<rceil>)"

definition fixed2 :: "rat \<Rightarrow> string" where
  "fixed2 r = (let n = round (\<bar>r\<bar> * 100) in
     (if r < 0 \<and> n \<noteq> 0 then ''-'' else []) @ itoa (n div 100) @ ''.'' @ itoa (n mod 100 div 10) @ itoa (n mod 10))"

definition fracMoney :: "rat moneyDecimal" where
  "fracMoney = decimal.extend fracDecimal (moneyDecimal.fields (\<lambda>k x. of_int (roundAway (x * 10 ^ nat k)) / 10 ^ nat k) fixed2 of_int)"

definition demoInstance :: ProviderInstance where
  "demoInstance = \<lparr>pi_ID = 1, pi_ProviderKey = TypeStripe, pi_Config = ''enc'', pi_SupportedTypes = ''card'', pi_Enabled = True,
     pi_PaymentMode = [], pi_SortOrder = 0, pi_Limits = [], pi_Name = ''s'', pi_RefundEnabled = True, pi_AllowUserRefund = False\<rparr>"

definition demoSettings :: "string \<Rightarrow> string" where
  "demoSettings k = (if k = ''payment_enabled'' then ''true'' else [])"

definition demoStore :: storestate where
  "demoStore = shopstate.extend (paystate.extend (redeemstate.extend demoRedeem (paystate.fields [] 1 [] [] [])) (shopstate.fields [] 1 1))
     (storestate.fields demoSettings [] 1 [demoInstance] 2 (\<lambda>_. ''active'') 0)"

definition demoCipher :: cipher where
  "demoCipher = \<lparr>ci_encrypt = (\<lambda>_. Inr ''enc''), ci_decrypt = (\<lambda>_. Inr (Some [(''secretKey'', ''sk'')]))\<rparr>"

definition demoAPI :: providerAPI where
  "demoAPI key cfg call = Inr \<lparr>pa_TradeNo = ''T'', pa_PayURL = [], pa_QRCode = [], pa_ClientSecret = ''c''\<rparr>"

definition noLimitsJSON :: limitsDecoder where
  "noLimitsJSON text = None"

definition demoRequest :: CreateOrderRequest where
  "demoRequest = \<lparr>cq_UserID = 1, cq_Amount = Fin 10, cq_PaymentType = TypeStripe, cq_ClientIP = [], cq_IsMobile = False,
     cq_OrderType = OrderTypeBalance, cq_PlanID = 0, cq_PromotionID = 0, cq_SubscriptionMode = []\<rparr>"

lemma demoStore_simps [simp]:
  "pw_orders demoStore = []" "pw_nextOrder demoStore = 1" "pw_audit demoStore = []" "e_faults demoStore = []" "e_now demoStore = 5"
  "bw_balance demoStore = [1 \<mapsto> Fin 8]" "rw_codes demoStore = [demoCode]" "rw_nextCode demoStore = 2" "rw_cacheOn demoStore = True"
  "rw_attempts demoStore = Map.empty" "rw_locks demoStore = Map.empty" "ss_zone demoStore = 0" "rw_concurrency demoStore = Map.empty"
  "st_settings demoStore = demoSettings" "st_instances demoStore = [demoInstance]" "st_userStatus demoStore = (\<lambda>_. ''active'')"
  "st_lbCounter demoStore = 0" "sh_promotions demoStore = []"
  by (simp_all add: demoStore_def demoRedeem_def redeemstate.defs paystate.defs shopstate.defs storestate.defs)

lemma demoStore_wf: "wfOrders demoStore"
  by (simp add: wfOrders_def)

lemma fracMoney_simps [simp]:
  "decimal.truncate fracMoney = fracDecimal" "d_of fracMoney = d_of fracDecimal" "md_fixed2 fracMoney = fixed2"
  by (simp_all add: fracMoney_def decimal.defs moneyDecimal.defs)

lemma demo_config:
  "parsePaymentConfig demoSettings = \<lparr>cf_Enabled = True, cf_MinAmount = Fin 1, cf_MaxAmount = Fin 0, cf_DailyLimit = Fin 0,
     cf_OrderTimeoutMin = 30, cf_MaxPendingOrders = 3, cf_EnabledTypes = [], cf_BalanceDisabled = False, cf_BalanceRechargeMultiplier = Fin 1,
     cf_RechargeFeeRate = Fin 0, cf_OrderIDPrefix = ''sub2_'', cf_LoadBalanceStrategy = ''round-robin'', cf_ProductNamePrefix = [],
     cf_ProductNameSuffix = [], cf_Cancel = \<lparr>cc_Enabled = False, cc_Max = 10, cc_Window = 1, cc_Unit = [], cc_Mode = []\<rparr>\<rparr>"
  by (simp add: parsePaymentConfig_def demoSettings_def pcParseFloat_def pcParseInt_def normalizeBalanceRechargeMultiplier_def reported_def
    splitTypes_def normalizeOrderIDPrefix_def trimSpace_def defaultOrderTimeoutMin_def defaultMaxPendingOrders_def
    defaultOrderIDPrefix_def DefaultLoadBalanceStrategy_def)

lemma demo_limit: "maxPending (parsePaymentConfig (st_settings demoStore)) = 3"
  by (simp add: demo_config maxPending_def)

lemma small_digits: "natDigits 0 = ''0''" "natDigits (Suc 0) = ''1''" "natDigits 5 = ''5''" "natDigits 10 = ''10''"
  by code_simp+

lemma ten_fixed: "fixed2 10 = ''10.00''"
  by (simp add: fixed2_def itoa_def small_digits)

lemma ten_paid: "payAmountOf ''10.00'' = Fin 10"
  by (simp add: payAmountOf_def literalValue_def signOf_def parseMantissa_def parseExponent_def digitsValue_def digitVal_def powTen_def)

end
