(* ===== verification/OrderSequences.thy ===== *)
theory OrderSequences
  imports PaymentDemo
begin

section \<open>Any sequence of order operations\<close>

text \<open>
  Placing orders together with everything PaymentStates does to them: the state machine and the
  limit of pending orders hold through any sequence.
\<close>

subsection \<open>Sequences of order operations\<close>

text \<open>An order is placed, or something is done to the orders as in PaymentStates.\<close>

datatype storeOp = Place string CreateOrderRequest | Handle orderOp

fun runStoreOp :: "pgnum \<Rightarrow> ('d, 'm) moneyDecimal_scheme \<Rightarrow> limitsDecoder \<Rightarrow> cipher \<Rightarrow> providerAPI \<Rightarrow> gateways \<Rightarrow> storeOp \<Rightarrow>
    'a storestate_scheme \<Rightarrow> err option \<times> 'a storestate_scheme" where
  "runStoreOp N D J K A G (Place stamp req) s = map_prod (case_sum Some (\<lambda>_. None)) id (CreateOrder N D J K A stamp req s)"
| "runStoreOp N D J K A G (Handle op) s = runOrderOp N (decimal.truncate D) G op s"

definition evolved :: "'a storestate_scheme \<Rightarrow> 'a storestate_scheme \<Rightarrow> bool" where
  "evolved s0 s \<longleftrightarrow> wfOrders s \<and> st_settings s = st_settings s0
     \<and> list_all2 evolvedTo (pw_orders s0) (List.take (length (pw_orders s0)) (pw_orders s))"

text \<open>What a state has beyond the payments does not depend on them.\<close>

lemma paystate_parts: "s = paystate.extend (paystate.truncate s) (paystate.more s)" for s :: "'a paystate_scheme"
  by (simp add: paystate.defs)

lemma settings_extend: "st_settings (paystate.extend r m) = st_settings (paystate.extend q m)"
proof -
  have "paystate.extend r m = (paystate.extend q m)\<lparr>
      e_now := e_now r, e_faults := e_faults r, ss_groups := ss_groups r, ss_subs := ss_subs r, ss_grants := ss_grants r,
      ss_nextSub := ss_nextSub r, ss_nextGrant := ss_nextGrant r, ss_l1on := ss_l1on r, ss_l1 := ss_l1 r,
      ss_billingInvalidated := ss_billingInvalidated r, ss_zone := ss_zone r, bw_dedup := bw_dedup r, bw_archive :=
      bw_archive r, bw_balance := bw_balance r, bw_gifts := bw_gifts r, bw_commissions := bw_commissions r, bw_orderStatus
      := bw_orderStatus r, bw_keys := bw_keys r, bw_quotas := bw_quotas r, bw_usageLogs := bw_usageLogs r, bw_outbox :=
      bw_outbox r, rw_codes := rw_codes r, rw_nextCode := rw_nextCode r, rw_recharged := rw_recharged r, rw_concurrency :=
      rw_concurrency r, rw_cacheOn := rw_cacheOn r, rw_attempts := rw_attempts r, rw_locks := rw_locks r, rw_authInvalidated
      := rw_authInvalidated r, rw_balanceInvalidated := rw_balanceInvalidated r, pw_orders := pw_orders r, pw_nextOrder :=
      pw_nextOrder r, pw_audit := pw_audit r, pw_promoUsages := pw_promoUsages r, pw_rewards := pw_rewards r\<rparr>"
    by (simp add: paystate.defs)
  then show ?thesis by simp
qed

lemma settings_more:
  assumes "paystate.more s' = paystate.more s" 
  shows "st_settings s' = st_settings s"
  using paystate_parts [of s] paystate_parts [of s'] settings_extend assms by metis

lemma evo_evolved: "evo (pw_orders s0, paystate.more s0) s \<Longrightarrow> evolved s0 s"
  by (auto simp: evo_def evolved_def intro: settings_more)

lemma placed_evolved:
  assumes w: "wfOrders s0" and s: "placed user limit s0 s"
  shows "evolved s0 s"
proof -
  have ids: "po_ID x < pw_nextOrder s0" if "x \<in> set (pw_orders s0)" for x using w that by (simp add: wfOrders_def list_all_iff)
  from s consider "pw_orders s = pw_orders s0" "pw_nextOrder s0 \<le> pw_nextOrder s"
    | x where "pw_orders s = pw_orders s0 @ [x]" "pw_nextOrder s0 < pw_nextOrder s" "po_ID x = pw_nextOrder s0"
    by (auto simp: placed_def addedFor_def)
  then have "wfOrders s \<and> list_all2 evolvedTo (pw_orders s0) (List.take (length (pw_orders s0)) (pw_orders s))"
  proof cases
    case 1
    then show ?thesis using w ids by (fastforce simp: wfOrders_def list_all_iff list.rel_refl evolvedTo_refl)
  next
    case 2
    then show ?thesis using w ids by (fastforce simp: wfOrders_def list_all_iff list.rel_refl evolvedTo_refl)
  qed
  then show ?thesis using s by (simp add: evolved_def placed_def)
qed

lemma step_evolved:
  assumes "wfOrders s"
  shows "evolved s (snd (runStoreOp N D J K A G op s))"
proof (cases op)
  case (Place stamp req)
  then show ?thesis using placed_evolved [OF assms CreateOrder_places [OF assms]] by simp
next
  case (Handle op')
  then show ?thesis using evo_evolved [OF runOrderOp_evo [OF evo_start [OF assms]]] by simp
qed

lemma evolved_trans:
  assumes "evolved s0 s1" and "evolved s1 s2"
  shows "evolved s0 s2"
proof -
  let ?a = "pw_orders s0" and ?b = "pw_orders s1" and ?c = "pw_orders s2"
  have ab: "list_all2 evolvedTo ?a (List.take (length ?a) ?b)" and bc: "list_all2 evolvedTo ?b (List.take (length ?b) ?c)"
    using assms by (simp_all add: evolved_def)
  have le: "length ?a \<le> length ?b" using list_all2_lengthD [OF ab] by simp
  have "list_all2 evolvedTo (List.take (length ?a) ?b) (List.take (length ?a) (List.take (length ?b) ?c))"
    using bc by (rule list_all2_takeI)
  then have "list_all2 evolvedTo (List.take (length ?a) ?b) (List.take (length ?a) ?c)" using le by (simp add: min_def)
  then have "list_all2 evolvedTo ?a (List.take (length ?a) ?c)"
    using list_all2_trans [of evolvedTo evolvedTo evolvedTo] evolvedTo_trans ab by blast
  then show ?thesis using assms by (simp add: evolved_def)
qed

lemma run_evolved: "wfOrders s \<Longrightarrow> evolved s (snd (runOps (runStoreOp N D J K A G) ops s))"
proof (rule runOps_keeps [where P = "evolved s"])
  show "evolved s (snd (runStoreOp N D J K A G op t))" if "evolved s t" for op t
    using evolved_trans [OF that step_evolved] that by (simp add: evolved_def)
qed (simp add: evolved_def list.rel_refl evolvedTo_refl)

lemma filter_list_all2_le:
  "list_all2 R xs ys \<Longrightarrow> (\<And>x y. R x y \<Longrightarrow> P y \<Longrightarrow> P x) \<Longrightarrow> length (filter P ys) \<le> length (filter P xs)"
  by (induction rule: list_all2_induct) auto

lemma evo_pending:
  assumes "evo (os, m) s"
  shows "length (filter (\<lambda>x. po_UserID x = user \<and> po_Status x = OrderStatusPending) (pw_orders s))
    \<le> length (filter (\<lambda>x. po_UserID x = user \<and> po_Status x = OrderStatusPending) os)"
proof -
  let ?P = "\<lambda>x. po_UserID x = user \<and> po_Status x = OrderStatusPending" and ?k = "length os"
  have "filter ?P (drop ?k (pw_orders s)) = []"
    using assms by (auto simp: evo_def list_all_iff filter_empty_conv)
  then have "filter ?P (pw_orders s) = filter ?P (List.take ?k (pw_orders s))"
    using filter_append [of ?P "List.take ?k (pw_orders s)" "drop ?k (pw_orders s)"] by (simp only: append_take_drop_id append_Nil2)
  moreover have "length (filter ?P (List.take ?k (pw_orders s))) \<le> length (filter ?P os)"
    by (rule filter_list_all2_le [where R = evolvedTo])
      (use assms in \<open>simp_all add: evo_def evolvedTo_pending\<close>, simp add: evolvedTo_def)
  ultimately show ?thesis by simp
qed

lemma placed_pending:
  assumes "placed user limit s0 s"
  shows "pendingOrders u s \<le> max (pendingOrders u s0) limit"
proof -
  have ne: "OrderStatusFailed \<noteq> OrderStatusPending" by (simp add: order_statuses)
  from assms consider "pw_orders s = pw_orders s0" | x where "pw_orders s = pw_orders s0 @ [x]" "addedFor user limit s0 x"
    by (auto simp: placed_def)
  then show ?thesis
  proof cases
    case 1
    then show ?thesis by (simp add: pendingOrders_def)
  next
    case 2
    have "pendingOrders u s = pendingOrders u s0 + (if po_UserID x = u \<and> po_Status x = OrderStatusPending then 1 else 0)"
      by (simp add: pendingOrders_def 2(1))
    then show ?thesis using 2(2) ne by (cases "po_UserID x = u"; cases "po_Status x = OrderStatusPending"; simp add: addedFor_def)
  qed
qed

lemma step_pending:
  assumes "wfOrders s"
  shows "pendingOrders u (snd (runStoreOp N D J K A G op s)) \<le> max (pendingOrders u s) (maxPending (parsePaymentConfig (st_settings s)))"
proof (cases op)
  case (Place stamp req)
  then show ?thesis using placed_pending [OF CreateOrder_places [OF assms]] by simp
next
  case (Handle op')
  have "evo (pw_orders s, paystate.more s) (snd (runStoreOp N D J K A G op s))"
    using runOrderOp_evo [OF evo_start [OF assms]] Handle by simp
  from evo_pending [OF this, of u] show ?thesis by (simp add: pendingOrders_def)
qed

subsection \<open>Properties\<close>

text \<open>
  C7: through any sequence of placed orders, payments, cancellations, expiries, refunds and offline recharges, with whatever
  failures of the database and the providers, every order keeps its owner, amount, recharge code and what it is for, and its status
  only follows the steps of \<open>statusStep\<close>; the settings stay as they are and the ids of orders distinct.
\<close>

theorem placed_orders_follow_the_state_machine:
  assumes "wfOrders s"
  shows "evolved s (snd (runOps (runStoreOp N D J K A G) ops s))"
  using assms by (rule run_evolved)

theorem placed_orders_follow_the_state_machine_witness:
  "evolved demoStore (snd (runOps (runStoreOp demoNum fracMoney noLimitsJSON demoCipher demoAPI demoGateways)
     [Place ''20260101abcdefgh'' demoRequest, Handle (Pay Expire)] demoStore))"
  by (rule placed_orders_follow_the_state_machine [OF demoStore_wf])

text \<open>
  C8: the pending orders of a user never get more than the limit of the settings (or than there were),
  whatever sequence of placed orders, payments, cancellations, expiries, refunds and offline recharges is run.
\<close>

theorem pending_orders_stay_within_limit:
  assumes "wfOrders s"
  shows "pendingOrders u (snd (runOps (runStoreOp N D J K A G) ops s)) \<le> max (pendingOrders u s) (maxPending (parsePaymentConfig (st_settings s)))"
proof -
  let ?limit = "maxPending (parsePaymentConfig (st_settings s))"
  let ?P = "\<lambda>t. evolved s t \<and> pendingOrders u t \<le> max (pendingOrders u s) ?limit"
  have "?P (snd (runOps (runStoreOp N D J K A G) ops s))"
  proof (rule runOps_keeps [where P = ?P])
    fix op t
    assume t: "?P t"
    then have w: "wfOrders t" and c: "st_settings t = st_settings s" by (simp_all add: evolved_def)
    have "pendingOrders u (snd (runStoreOp N D J K A G op t)) \<le> max (pendingOrders u t) ?limit"
      using step_pending [OF w, of u N D J K A G op] by (simp only: c)
    then show "?P (snd (runStoreOp N D J K A G op t))" using t evolved_trans [OF _ step_evolved [OF w]] by auto
  qed (use assms in \<open>simp add: evolved_def list.rel_refl evolvedTo_refl\<close>)
  then show ?thesis ..
qed

theorem pending_orders_stay_within_limit_witness:
  "pendingOrders 1 (snd (runOps (runStoreOp demoNum fracMoney noLimitsJSON demoCipher demoAPI demoGateways)
     (replicate 5 (Place ''20260101abcdefgh'' demoRequest)) demoStore)) \<le> 3"
proof -
  have "pendingOrders 1 demoStore = 0" by (simp add: pendingOrders_def)
  then show ?thesis
    using pending_orders_stay_within_limit [OF demoStore_wf, where u = 1, unfolded demo_limit] by simp
qed

end
