(* ===== verification/PaymentPurchase.thy ===== *)
theory PaymentPurchase
  imports OrderSequences PaymentCredit
begin

section \<open>From the request of an order to the credit\<close>

text \<open>
  With a database that answers: what the row of a placed order is, and that the payment of the
  order brings the credit the request was worth.
\<close>

subsection \<open>A database that answers\<close>

definition calm :: "'a storestate_scheme \<Rightarrow> 'a storestate_scheme \<Rightarrow> bool" where
  "calm s0 s \<longleftrightarrow> asBefore s0 s \<and> e_faults s = []"

lemma still_calm [keeps]: "still (calm s0)"
  by (simp add: still_def calm_def)

lemma calm_kit: "calm s0 s \<Longrightarrow> e_faults s0 = [] \<Longrightarrow> kit s = kit s0"
proof -
  assume c: "calm s0 s" and f: "e_faults s0 = []"
  have "kit (resting s) = kit (resting s0)" using c by (simp add: calm_def asBefore_def)
  moreover have "kit (resting t) = kit t" if "e_faults t = []" for t :: "'a storestate_scheme"
    using that by (simp add: kit_def ledger_def resting_def)
  ultimately show ?thesis using c f by (simp add: calm_def)
qed

lemma hoareP_db_calm: "(\<And>s. P s \<Longrightarrow> e_faults s = []) \<Longrightarrow> hoareP P act E Q \<Longrightarrow> hoareP P (db tag act) E Q"
  by (auto simp: hoareP_def)

lemma hoareP_withTx_calm:
  assumes "\<And>s. P s \<Longrightarrow> e_faults s = []" and "\<And>a s. Q a s \<Longrightarrow> e_faults s = []" and "hoareP P m E Q"
  shows "hoareP P (withTx undo m) (\<lambda>_. True) Q"
  using assms by (fastforce simp: hoareP_def withTx_def ret_def split: prod.splits sum.splits)

lemma keeps_still_db: "still P \<Longrightarrow> keepsP P act \<Longrightarrow> keepsP P (db tag act)"
  by (auto simp: keepsP_def db_def still_def split: list.split)

abbreviation failing :: "'s \<Rightarrow> bool" where
  "failing \<equiv> (\<lambda>_. True)"

lemma hoareP_calm: "keepsP P m \<Longrightarrow> hoareP P m failing (\<lambda>_. P)"
  by (rule hoareP_quiet) simp_all

subsection \<open>The row of an order\<close>

definition ordered :: "(PaymentOrder \<Rightarrow> bool) \<Rightarrow> 'a storestate_scheme \<Rightarrow> 'a storestate_scheme \<Rightarrow> bool" where
  "ordered Q s0 s \<longleftrightarrow> kit s = kit s0 \<and> e_faults s = [] \<and> (\<exists>x. pw_orders s = pw_orders s0 @ [x] \<and> po_ID x = pw_nextOrder s0 \<and> Q x)"

lemma kit_simps [simp]:
  "kit (s\<lparr>st_lbCounter := c\<rparr>) = kit s" "kit (s\<lparr>pw_audit := a\<rparr>) = kit s" "kit (s\<lparr>pw_nextOrder := i\<rparr>) = kit s"
  "kit (setOrders os s) = kit s" "e_faults (setOrders os s) = e_faults s" "pw_orders (setOrders os s) = os"
  by (simp_all add: kit_def ledger_def setOrders_def)

lemma still_ordered [keeps]: "still (ordered Q s0)"
  by (simp add: still_def ordered_def)

lemma ordered_update:
  assumes w: "wfOrders s0" and s: "ordered Q s0 s" and f: "\<And>x. Q x \<Longrightarrow> Q' (f x)" "\<And>x. po_ID (f x) = po_ID x"
  shows "ordered Q' s0 (setOrders (updRows (\<lambda>x. po_ID x = pw_nextOrder s0) f (pw_orders s)) s)"
proof -
  have old: "updRows (\<lambda>x. po_ID x = pw_nextOrder s0) f (pw_orders s0) = pw_orders s0"
    using w by (intro updRows_none) (auto simp: wfOrders_def list_all_iff)
  obtain x where x: "pw_orders s = pw_orders s0 @ [x]" "po_ID x = pw_nextOrder s0" "Q x" using s by (auto simp: ordered_def)
  have "updRows (\<lambda>x. po_ID x = pw_nextOrder s0) f (pw_orders s) = pw_orders s0 @ [f x]"
    using old x by (simp add: updRows_def)
  then show ?thesis using s x f by (simp add: ordered_def)
qed

text \<open>What a row says of the order, and the row of a request.\<close>

definition terms :: "PaymentOrder \<Rightarrow> int \<times> f64 \<times> f64 \<times> string \<times> string \<times> string \<times> string" where
  "terms x = (po_UserID x, po_Amount x, po_PayAmount x, po_OutTradeNo x, po_OrderType x, po_Status x, po_RechargeCode x)"

definition termsOf :: "pgnum \<Rightarrow> PaymentOrder \<Rightarrow> string \<Rightarrow> int \<times> f64 \<times> f64 \<times> string \<times> string \<times> string \<times> string" where
  "termsOf N o' code = (po_UserID o', n_store2 N (po_Amount o'), n_store2 N (po_PayAmount o'), po_OutTradeNo o', po_OrderType o', po_Status o', code)"

lemma creates_row:
  assumes "e_faults s0 = []"
  shows "hoareP (calm s0) (orderCreate N o') failing
    (\<lambda>made s. ordered (\<lambda>x. terms x = termsOf N o' (po_RechargeCode o')) s0 s \<and> po_ID made = pw_nextOrder s0)"
proof -
  have k: "kit s = kit s0" "e_faults s = []" if "calm s0 s" for s
    using calm_kit [OF that assms] that by (simp_all add: calm_def)
  show ?thesis
    unfolding orderCreate_def
    by (rule hoareP_db_calm) (auto simp: hoareP_def Let_def ordered_def terms_def termsOf_def k calm_def asBeforeD)
qed

lemma codes_row:
  assumes w: "wfOrders s0"
  shows "hoareP (ordered (\<lambda>x. terms x = termsOf N o' c) s0) (orderUpdateGet (pw_nextOrder s0) (\<lambda>x. x\<lparr>po_RechargeCode := code\<rparr>)) failing
    (\<lambda>x s. ordered (\<lambda>y. terms y = termsOf N o' code) s0 s \<and> po_ID x = pw_nextOrder s0)"
proof (rule hoarePI)
  let ?f = "\<lambda>x. x\<lparr>po_RechargeCode := code\<rparr>"
  fix s x s'
  assume s: "ordered (\<lambda>x. terms x = termsOf N o' c) s0 s" and r: "orderUpdateGet (pw_nextOrder s0) ?f s = (Inr x, s')"
  let ?s = "setOrders (updRows (\<lambda>x. po_ID x = pw_nextOrder s0) (\<lambda>x. (?f x)\<lparr>po_UpdatedAt := e_now s\<rparr>) (pw_orders s)) s"
  have "list_ex (\<lambda>x. po_ID x = pw_nextOrder s0) (pw_orders s)" and f: "e_faults s = []" using s by (auto simp: ordered_def)
  then have "orderUpdateGet (pw_nextOrder s0) ?f s = (onlyRow (Internal ''order not found'') (\<lambda>x. po_ID x = pw_nextOrder s0) (pw_orders ?s), ?s)"
    by (simp add: orderUpdateGet_def Let_def)
  then have "s' = ?s" and "onlyRow (Internal ''order not found'') (\<lambda>x. po_ID x = pw_nextOrder s0) (pw_orders ?s) = Inr x"
    using r by (simp_all del: kit_simps)
  moreover have "ordered (\<lambda>y. terms y = termsOf N o' code) s0 ?s"
    by (rule ordered_update [OF w s]) (auto simp: terms_def termsOf_def)
  ultimately show "ordered (\<lambda>y. terms y = termsOf N o' code) s0 s' \<and> po_ID x = pw_nextOrder s0" by (auto dest: onlyRow_Inr)
qed simp

lemma rows_in_tx:
  assumes w: "wfOrders s0" and f: "e_faults s0 = []"
  shows "hoareP (calm s0) (createOrderInTx N stamp req plan cfg amts) failing
    (\<lambda>x s. ordered (\<lambda>y. terms y = termsOf N (orderOf req plan cfg amts stamp (e_now s0)) (rechargeCodeOf (pw_nextOrder s0) (e_now s0))) s0 s
       \<and> po_ID x = pw_nextOrder s0)" (is "hoareP _ _ _ ?Q")
proof -
  let ?o = "\<lambda>now. orderOf req plan cfg amts stamp now"
  let ?code = "\<lambda>i now. orderUpdateGet i (\<lambda>x. x\<lparr>po_RechargeCode := rechargeCodeOf i now\<rparr>)"
  have code: "hoareP (\<lambda>s. ordered (\<lambda>x. terms x = termsOf N (?o (e_now s0)) c) s0 s \<and> po_ID made = pw_nextOrder s0) (?code (po_ID made) (e_now s0)) failing ?Q"
    for made :: PaymentOrder and c
    by (rule hoareP_pure) (simp add: codes_row [OF w])
  have create: "hoareP (calm s0) (bindP (orderCreate N (?o (e_now s0))) (\<lambda>made. ?code (po_ID made) (e_now s0))) failing ?Q"
    by (rule hoareP_bind [OF creates_row [OF f] code])
  have now: "hoareP (calm s0) (bindP nowP (\<lambda>now. bindP (orderCreate N (?o now)) (\<lambda>made. ?code (po_ID made) now))) failing ?Q"
    using create by (auto simp: hoareP_def calm_def asBeforeD)
  have pend: "keepsP (calm s0) (checkPendingLimit u cfg)" for u
    unfolding checkPendingLimit_def by (intro keeps keeps_read)
  have body: "hoareP (calm s0) (bindP (checkPendingLimit (cq_UserID req) cfg) (\<lambda>_.
     bindP (checkDailyLimit (cq_UserID req) (oc_LimitAmount amts) (cf_DailyLimit cfg)) (\<lambda>_.
     if \<not> requestColumnsOk req then fail (Internal ''validator failed'')
     else bindP nowP (\<lambda>now. bindP (orderCreate N (?o now)) (\<lambda>made. ?code (po_ID made) now))))) failing ?Q"
    by (intro hoareP_bind [OF hoareP_calm [OF pend]] hoareP_bind [OF hoareP_calm [OF reads_daily [OF still_calm]]] hoareP_if hoareP_fail now) simp
  show ?thesis
    unfolding createOrderInTx_def by (rule hoareP_withTx_calm [OF _ _ body]) (auto simp: calm_def ordered_def)
qed

lemma keeps_row:
  assumes w: "wfOrders s0" and i: "po_ID o' = pw_nextOrder s0"
  shows "keepsP (ordered (\<lambda>y. terms y = v) s0) (invokeProvider N J K A o' req cfg amts plan)"
proof -
  have upd: "keepsP (ordered (\<lambda>y. terms y = v) s0) (orderUpdateOne (po_ID o') (withProvider pr sel))" for pr sel
    unfolding orderUpdateOne_def i
    by (rule keeps_still_db [OF still_ordered], rule keepsPI)
      (auto intro!: ordered_update [OF w] simp: terms_def withProvider_def)
  have audit: "keepsP (ordered (\<lambda>y. terms y = v) s0) (writeAuditLog j action op)" for j action op
    unfolding writeAuditLog_def by (intro keeps keeps_still_db keeps_modP) (simp add: ordered_def)
  show ?thesis
    unfolding invokeProvider_def by (auto intro!: keeps upd audit split: option.split sum.split)
qed

text \<open>The order of an ordinary recharge.\<close>

definition rechargeAmounts :: "('d, 'm) moneyDecimal_scheme \<Rightarrow> CreateOrderRequest \<Rightarrow> PaymentConfig \<Rightarrow> orderAmountComputation" where
  "rechargeAmounts D req cfg = finishAmounts D ((plainAmounts cfg (cq_Amount req))
     \<lparr>oc_OrderAmount := calculateCreditedBalance (decimal.truncate D) (cq_Amount req) (cf_BalanceRechargeMultiplier cfg)\<rparr>)"

lemma recharge_amounts:
  assumes "cq_OrderType req = OrderTypeBalance" and "cq_PromotionID req \<le> 0"
  shows "computeOrderAmounts D req None cfg s = (Inr (rechargeAmounts D req cfg), s)"
  using assms by (simp add: computeOrderAmounts_def rechargeAmounts_def Let_def bindP_def ret_def)

lemma recharge_row:
  assumes w: "wfOrders s" and f: "e_faults s = []" and b: "cq_OrderType (typedRequest req) = OrderTypeBalance" and p: "cq_PromotionID req \<le> 0"
    and run: "CreateOrder N D J K A stamp req s = (Inr resp, s')"
  shows "ordered (\<lambda>y. terms y = termsOf N (orderOf (typedRequest req) None (parsePaymentConfig (st_settings s))
      (rechargeAmounts D (typedRequest req) (parsePaymentConfig (st_settings s))) stamp (e_now s)) (rechargeCodeOf (pw_nextOrder s) (e_now s))) s s'"
    (is "ordered ?T s s'")
proof -
  let ?cfg = "parsePaymentConfig (st_settings s)" and ?req = "typedRequest req"
  have p': "cq_PromotionID ?req \<le> 0" using p by (simp add: typedRequest_def)
  have pay: "hoareP (\<lambda>t. ordered ?T s t \<and> po_ID o' = pw_nextOrder s)
      (orderOrFailed (po_ID o') (invokeProvider N J K A o' ?req ?cfg a None)) failing (\<lambda>_. ordered ?T s)" for o' a
    unfolding orderOrFailed_def
    by (rule hoareP_pure, rule hoareP_try [OF hoareP_calm [OF keeps_row [OF w]]]) (auto simp: hoareP_def run_steps split: prod.splits)
  have amounts: "hoareP (calm s) (computeOrderAmounts D ?req None ?cfg) failing (\<lambda>a t. calm s t \<and> a = rechargeAmounts D ?req ?cfg)"
    by (simp add: hoareP_def recharge_amounts [OF b p'])
  have place: "hoareP (calm s) (placeOrder N D J K A stamp ?req ?cfg None) failing (\<lambda>_. ordered ?T s)"
    unfolding placeOrder_def
    by (rule hoareP_bind [OF amounts], rule hoareP_pure) (simp add: hoareP_bind [OF rows_in_tx [OF w f] pay])
  have input: "hoareP (calm s) (validateOrderInput ?req ?cfg) failing (\<lambda>plan t. calm s t \<and> plan = None)"
    using b unfolding validateOrderInput_def
    by (auto simp: hoareP_def run_steps liftE_def OrderTypeBalance_def OrderTypeSubscription_def split: sum.split)
  have cfg: "hoareP (calm s) GetPaymentConfig failing (\<lambda>cfg t. calm s t \<and> cfg = ?cfg)"
    unfolding GetPaymentConfig_def
    by (auto simp: hoareP_def run_steps calm_def asBeforeD)
  have rest: "hoareP (calm s) (bindP (checkCancelRateLimit (cq_UserID ?req) (cf_Cancel ?cfg)) (\<lambda>_.
      bindP (userGetByID (cq_UserID ?req)) (\<lambda>_. bindP (getP (\<lambda>s. st_userStatus s (cq_UserID ?req))) (\<lambda>status.
      if status \<noteq> ''active'' then fail (AppErr ''USER_INACTIVE'') else placeOrder N D J K A stamp ?req ?cfg None)))) failing (\<lambda>_. ordered ?T s)"
    by (rule hoareP_bind [OF hoareP_calm] hoareP_if hoareP_fail keeps place TrueI)+
  have all: "hoareP (calm s) (CreateOrder N D J K A stamp req) failing (\<lambda>_. ordered ?T s)"
    unfolding CreateOrder_def Let_def
    by (rule hoareP_bind [OF cfg], rule hoareP_pure, simp only:)
      (intro hoareP_if hoareP_fail hoareP_bind [OF input] hoareP_pure TrueI, simp only: rest)
  have "calm s s" using f by (simp add: calm_def)
  then show ?thesis using all run by (fastforce simp: hoareP_def)
qed

subsection \<open>An order that could not be placed\<close>

text \<open>No order more, or one that has failed.\<close>

definition notPlaced :: "'a storestate_scheme \<Rightarrow> 'a storestate_scheme \<Rightarrow> bool" where
  "notPlaced s0 s \<longleftrightarrow> pw_orders s = pw_orders s0 \<or> (\<exists>x. pw_orders s = pw_orders s0 @ [x] \<and> po_Status x = OrderStatusFailed)"

lemma calm_notPlaced: "calm s0 s \<Longrightarrow> notPlaced s0 s"
  by (simp add: notPlaced_def calm_def asBeforeD)

lemma hoareP_calmE: "keepsP (calm s0) m \<Longrightarrow> hoareP (calm s0) m (notPlaced s0) (\<lambda>_. calm s0)"
  by (rule hoareP_quiet) (simp_all add: calm_notPlaced)

lemma ignored_failure: "bindP (ignoreP m) (\<lambda>_. fail e) s = (Inl e, snd (m s))"
  by (simp add: bindP_def ignoreP_def fail_def)

lemma fails_order:
  assumes "wfOrders s0"
  shows "hoareP (ordered Q s0) (bindP (ignoreP (orderUpdateOne (pw_nextOrder s0) (\<lambda>x. x\<lparr>po_Status := OrderStatusFailed\<rparr>))) (\<lambda>_. fail e)) (notPlaced s0) R"
proof -
  have "notPlaced s0 (snd (orderUpdateOne (pw_nextOrder s0) (\<lambda>x. x\<lparr>po_Status := OrderStatusFailed\<rparr>) s))" if s: "ordered Q s0 s" for s
  proof -
    let ?s = "setOrders (updRows (\<lambda>x. po_ID x = pw_nextOrder s0) (\<lambda>x. x\<lparr>po_Status := OrderStatusFailed, po_UpdatedAt := e_now s\<rparr>) (pw_orders s)) s"
    have "ordered (\<lambda>x. po_Status x = OrderStatusFailed) s0 ?s" by (rule ordered_update [OF assms s]) simp_all
    then have "notPlaced s0 ?s" by (auto simp: ordered_def notPlaced_def)
    moreover have "list_ex (\<lambda>x. po_ID x = pw_nextOrder s0) (pw_orders s)" "e_faults s = []" using s by (auto simp: ordered_def)
    ultimately show ?thesis by (simp add: orderUpdateOne_def db_def)
  qed
  then show ?thesis by (simp add: hoareP_def ignored_failure)
qed

lemma placeOrder_error:
  assumes w: "wfOrders s0" and f: "e_faults s0 = []"
  shows "hoareP (calm s0) (placeOrder N D J K A stamp req cfg plan) (notPlaced s0) (\<lambda>_. failing)"
proof -
  let ?T = "\<lambda>amts y. terms y = termsOf N (orderOf req plan cfg amts stamp (e_now s0)) (rechargeCodeOf (pw_nextOrder s0) (e_now s0))"
  have tx: "hoareP (calm s0) (createOrderInTx N stamp req plan cfg a) (notPlaced s0) (\<lambda>x s. ordered (?T a) s0 s \<and> po_ID x = pw_nextOrder s0)" for a
  proof (rule hoarePI)
    fix s e s'
    assume s: "calm s0 s" and r: "createOrderInTx N stamp req plan cfg a s = (Inl e, s')"
    from r have "pw_orders s' = pw_orders s"
      unfolding createOrderInTx_def by (rule withTx_error) (simp_all add: undoOrders_def)
    then show "notPlaced s0 s'" using s by (simp add: notPlaced_def calm_def asBeforeD)
  next
    fix s x s'
    assume "calm s0 s" and "createOrderInTx N stamp req plan cfg a s = (Inr x, s')"
    then show "ordered (?T a) s0 s' \<and> po_ID x = pw_nextOrder s0" using rows_in_tx [OF w f, of N stamp req plan cfg a] by (auto simp: hoareP_def)
  qed
  have pay: "hoareP (\<lambda>t. ordered (?T a) s0 t \<and> po_ID o' = pw_nextOrder s0)
      (orderOrFailed (po_ID o') (invokeProvider N J K A o' req cfg a plan)) (notPlaced s0) (\<lambda>_. failing)" for o' a
    unfolding orderOrFailed_def
    by (rule hoareP_pure, rule hoareP_try [OF hoareP_keeps [OF keeps_row [OF w]]])
      (auto simp: hoareP_def ret_def fails_order [OF w, unfolded hoareP_def])
  show ?thesis
    unfolding placeOrder_def
    by (intro hoareP_bind [OF hoareP_calmE [OF reads_amounts [OF still_calm]]] hoareP_bind [OF tx pay])
qed

lemma CreateOrder_error:
  assumes w: "wfOrders s" and f: "e_faults s = []"
  shows "hoareP (calm s) (CreateOrder N D J K A stamp req) (notPlaced s) (\<lambda>_. failing)"
proof -
  have config: "keepsP (calm s) GetPaymentConfig"
    unfolding GetPaymentConfig_def by (intro keeps keeps_read)
  show ?thesis
    unfolding CreateOrder_def Let_def
    by (rule hoareP_bind [OF hoareP_calmE] hoareP_if hoareP_fail config keeps placeOrder_error [OF w f] calm_notPlaced | assumption)+
qed

subsection \<open>Properties\<close>

text \<open>
  C22: with a database that answers, an order whose creation reports an error leaves no pending order behind: the
  orders are as they were, or one is added that has FAILED.
\<close>

theorem refused_order_is_not_pending:
  assumes "wfOrders s" and "e_faults s = []" and "CreateOrder N D J K A stamp req s = (Inl e, s')"
  shows "notPlaced s s' \<and> pendingOrders u s' = pendingOrders u s"
proof -
  have "calm s s" using assms(2) by (simp add: calm_def)
  then have n: "notPlaced s s'" using CreateOrder_error [OF assms(1,2), of N D J K A stamp req] assms(3) by (fastforce simp: hoareP_def)
  moreover have "OrderStatusFailed \<noteq> OrderStatusPending" by (simp add: order_statuses)
  ultimately show ?thesis by (auto simp: notPlaced_def pendingOrders_def)
qed


subsection \<open>Witnesses\<close>

text \<open>Nobody takes the payment.\<close>

definition deafAPI :: providerAPI where
  "deafAPI key cfg call = Inl (Internal ''timeout'')"

definition demoConfig :: PaymentConfig where
  "demoConfig = parsePaymentConfig demoSettings"

definition demoAmounts :: orderAmountComputation where
  "demoAmounts = \<lparr>oc_OriginalAmount = Fin 10, oc_OrderAmount = Fin 10, oc_LimitAmount = Fin 10, oc_PaymentBase = Fin 10, oc_PayAmount = Fin 10,
     oc_PayAmountStr = ''10.00'', oc_FeeRate = Fin 0, oc_DiscountAmount = Fin 0, oc_BonusAmount = Fin 0,
     oc_PromotionID = None, oc_PromotionRuleID = None, oc_RechargeHit = None, oc_SubscriptionHit = None\<rparr>"

lemma demo_request: "typedRequest demoRequest = demoRequest"
  by (simp add: typedRequest_def demoRequest_def OrderTypeBalance_def)

lemma demo_input: "validateOrderInput demoRequest demoConfig s = (Inr None, s)"
  by (simp add: validateOrderInput_def demoRequest_def demoConfig_def demo_config positiveAmount_def fin_def validateRechargeAmountRange_def
    OrderTypeBalance_def OrderTypeSubscription_def run_steps liftE_def)

lemma demo_amounts: "computeOrderAmounts fracMoney demoRequest None demoConfig s = (Inr demoAmounts, s)"
proof -
  have "calculateCreditedBalance fracDecimal (Fin 10) (Fin 1) = Fin 10"
    by (simp add: calculateCreditedBalance_def fracDecimal_def normalizeBalanceRechargeMultiplier_def reported_def)
  moreover have "CalculatePayAmount fracMoney (Fin 10) (Fin 0) = ''10.00''"
    by (simp add: CalculatePayAmount_def ten_fixed) (simp add: fracDecimal_def ten_fixed)
  ultimately show ?thesis
    by (subst recharge_amounts)
      (simp_all add: demoRequest_def rechargeAmounts_def finishAmounts_def plainAmounts_def demoConfig_def demo_config demoAmounts_def ten_paid)
qed

definition demoRow :: PaymentOrder where
  "demoRow = (orderOf demoRequest None demoConfig demoAmounts ''x'' 5)\<lparr>po_ID := 1, po_RechargeCode := ''PAY-1-5''\<rparr>"

lemma demo_code: "rechargeCodeOf 1 5 = ''PAY-1-5''"
  by (simp add: rechargeCodeOf_def goMod_def goDiv_def itoa_def small_digits)

lemma demoConfig_simps [simp]:
  "cf_Enabled demoConfig = True" "cf_DailyLimit demoConfig = Fin 0" "cf_OrderIDPrefix demoConfig = ''sub2_''" "maxPending demoConfig = 3"
  "cf_OrderTimeoutMin demoConfig = 30" "cc_Enabled (cf_Cancel demoConfig) = False" "cf_LoadBalanceStrategy demoConfig = ''round-robin''"
  by (simp_all add: demoConfig_def demo_config maxPending_def)

lemma demo_row: "createOrderInTx demoNum ''x'' demoRequest None demoConfig demoAmounts demoStore =
   (Inr demoRow, (setOrders [demoRow] demoStore)\<lparr>pw_nextOrder := 2\<rparr>)"
proof -
  let ?o = "orderOf demoRequest None demoConfig demoAmounts ''x'' 5"
  have ok: "\<not> 64 < length (po_RechargeCode ?o)" "\<not> 64 < length (po_OutTradeNo ?o)" "\<not> 30 < length (po_PaymentType ?o)" "requestColumnsOk demoRequest"
    by (simp_all add: orderOf_def generateOutTradeNo_def demoRequest_def TypeStripe_def requestColumnsOk_def OrderTypeBalance_def)
  have row: "?o\<lparr>po_ID := 1, po_UpdatedAt := 5, po_CreatedAt := 5, po_Amount := n_store2 demoNum (po_Amount ?o),
      po_PayAmount := n_store2 demoNum (po_PayAmount ?o), po_DiscountAmount := n_store2 demoNum (po_DiscountAmount ?o),
      po_BonusAmount := n_store2 demoNum (po_BonusAmount ?o)\<rparr> = demoRow\<lparr>po_RechargeCode := []\<rparr>"
    by (simp add: demoRow_def orderOf_def demoNum_def)
  have "orderCreate demoNum ?o demoStore = (Inr (?o\<lparr>po_ID := 1, po_UpdatedAt := 5, po_CreatedAt := 5\<rparr>),
      (setOrders [demoRow\<lparr>po_RechargeCode := []\<rparr>] demoStore)\<lparr>pw_nextOrder := 2\<rparr>)"
    using ok row by (simp add: orderCreate_def Let_def db_def)
  moreover have "orderUpdateGet 1 (\<lambda>x. x\<lparr>po_RechargeCode := ''PAY-1-5''\<rparr>) ((setOrders [demoRow\<lparr>po_RechargeCode := []\<rparr>] demoStore)\<lparr>pw_nextOrder := 2\<rparr>)
      = (Inr demoRow, (setOrders [demoRow] demoStore)\<lparr>pw_nextOrder := 2\<rparr>)"
    by (simp add: orderUpdateGet_def Let_def db_def updRows_def onlyRow_def setOrders_def demoRow_def orderOf_def)
  ultimately show ?thesis
    using ok by (simp add: createOrderInTx_def withTx_def run_steps checkPendingLimit_def pendingOrders_def checkDailyLimit_def demo_code)
qed

definition demoSelection :: InstanceSelection where
  "demoSelection = \<lparr>is_InstanceID = ''1'', is_ProviderKey = TypeStripe, is_Config = [(''secretKey'', ''sk'')], is_SupportedTypes = ''card'', is_PaymentMode = []\<rparr>"

lemma demo_select:
  assumes "e_faults s = []" and "st_instances s = [demoInstance]" and "st_lbCounter s = 0"
  shows "SelectInstance demoNum noLimitsJSON demoCipher [] TypeStripe ''round-robin'' x s = (Inr demoSelection, s\<lparr>st_lbCounter := 1\<rparr>)"
  using assms
  by (simp add: SelectInstance_def queryEnabledInstances_def attachDailyUsage_def pickByStrategy_def filterByLimits_def withinLimits_def
    getInstanceChannelLimits_def demoInstance_def noLimits_def buildSelection_def demoCipher_def demoSelection_def StrategyLeastAmount_def
    run_steps Let_def liftE_def sortBy_def given_def itoa_def small_digits)

lemma demo_provider: "CreateProvider TypeStripe [(''secretKey'', ''sk'')] = Some [(''secretKey'', ''sk'')]"
  by (simp add: CreateProvider_def NormalizeConfig_def providerConfigAliases_def TypeStripe_def hasKeys_def cfgAt_def putEntry_def Let_def)

lemma demo_place:
  "CreateOrder demoNum fracMoney noLimitsJSON demoCipher A ''x'' demoRequest demoStore =
   orderOrFailed 1 (invokeProvider demoNum noLimitsJSON demoCipher A demoRow demoRequest demoConfig demoAmounts None)
     ((setOrders [demoRow] demoStore)\<lparr>pw_nextOrder := 2\<rparr>)"
proof -
  have get: "GetPaymentConfig demoStore = (Inr demoConfig, demoStore)"
    by (simp add: GetPaymentConfig_def run_steps demoConfig_def)
  have user: "cq_UserID demoRequest = 1" by (simp add: demoRequest_def)
  have rate: "checkCancelRateLimit 1 (cf_Cancel demoConfig) demoStore = (Inr (), demoStore)"
    by (simp add: checkCancelRateLimit_def ret_def)
  have "po_ID demoRow = 1" by (simp add: demoRow_def)
  then show ?thesis
    by (simp add: CreateOrder_def demo_request get demo_input user rate userGetByID_def run_steps placeOrder_def demo_amounts demo_row)
qed

lemma demo_selectors [simp]:
  "cq_UserID demoRequest = 1" "cq_PaymentType demoRequest = TypeStripe" "cq_OrderType demoRequest = OrderTypeBalance" "cq_PromotionID demoRequest = 0"
  "cq_Amount demoRequest = Fin 10" "oc_PayAmount demoAmounts = Fin 10" "po_ID demoRow = 1" "is_ProviderKey demoSelection = TypeStripe"
  "is_Config demoSelection = [(''secretKey'', ''sk'')]" "is_InstanceID demoSelection = ''1''"
  by (simp_all add: demoRequest_def demoAmounts_def demoRow_def demoSelection_def)

lemma demo_paid_run:
  "\<exists>resp s1. CreateOrder demoNum fracMoney noLimitsJSON demoCipher demoAPI ''x'' demoRequest demoStore = (Inr resp, s1)"
  by (simp add: demo_place orderOrFailed_def invokeProvider_def run_steps demo_select setOrders_def demo_provider demoAPI_def
    orderUpdateOne_def writeAuditLog_def)

lemma demo_refused_run:
  "\<exists>s1. CreateOrder demoNum fracMoney noLimitsJSON demoCipher deafAPI ''x'' demoRequest demoStore = (Inl ErrPaymentGateway, s1)"
  by (simp add: demo_place orderOrFailed_def invokeProvider_def run_steps demo_select setOrders_def demo_provider deafAPI_def
    orderUpdateOne_def)

theorem refused_order_is_not_pending_witness:
  "\<exists>s1. CreateOrder demoNum fracMoney noLimitsJSON demoCipher deafAPI ''x'' demoRequest demoStore = (Inl ErrPaymentGateway, s1)
    \<and> notPlaced demoStore s1 \<and> pendingOrders 1 s1 = 0"
proof -
  obtain s1 where r: "CreateOrder demoNum fracMoney noLimitsJSON demoCipher deafAPI ''x'' demoRequest demoStore = (Inl ErrPaymentGateway, s1)"
    using demo_refused_run by blast
  moreover have "pendingOrders 1 demoStore = 0" by (simp add: pendingOrders_def)
  ultimately show ?thesis
    using refused_order_is_not_pending [OF demoStore_wf demoStore_simps(4) r, of 1] by auto
qed

definition demoPaid :: PaymentNotification where
  "demoPaid = \<lparr>n_TradeNo = ''T'', n_OrderID = ''sub2_x'', n_Amount = Fin 10, n_Status = ''success''\<rparr>"


end
