(* ===== verification/TrimSpace.thy ===== *)
theory TrimSpace
  imports GoPrelude
begin

section \<open>Trimming\<close>

text \<open>strings.TrimSpace twice is once, and a text that starts with a letter is not trimmed away.\<close>

lemma trimLeft_done: "find (hasPrefix (trimLeftSpace s)) spaces = None"
proof (induction s rule: trimLeftSpace.induct)
  case (1 s)
  then show ?case by (subst trimLeftSpace.simps) (auto split: option.split)
qed

lemma trimRight_done: "find (hasSuffix (trimRightSpace s)) spaces = None"
proof (induction s rule: trimRightSpace.induct)
  case (1 s)
  then show ?case by (subst trimRightSpace.simps) (auto split: option.split)
qed

lemma trimRight_take: "\<exists>n. trimRightSpace s = take n s"
proof (induction s rule: trimRightSpace.induct)
  case (1 s)
  show ?case
  proof (cases "find (hasSuffix s) spaces")
    case None
    then have "trimRightSpace s = take (length s) s" by (subst trimRightSpace.simps) simp
    then show ?thesis by blast
  next
    case (Some p)
    then obtain n where "trimRightSpace (take (length s - length p) s) = take n (take (length s - length p) s)" using 1 by blast
    then have "trimRightSpace s = take (min n (length s - length p)) s" using Some by (subst trimRightSpace.simps) simp
    then show ?thesis by blast
  qed
qed

lemma trimSpace_idem: "trimSpace (trimSpace s) = trimSpace s"
proof -
  obtain n where n: "trimSpace s = take n (trimLeftSpace s)" using trimRight_take unfolding trimSpace_def by blast
  have "\<not> hasPrefix (take n t) p" if "\<not> hasPrefix t p" for t p
    using that by (metis append.assoc append_take_drop_id hasPrefix_iff)
  then have "find (hasPrefix (trimSpace s)) spaces = None" using trimLeft_done [of s] by (auto simp: n find_None_iff)
  then have "trimLeftSpace (trimSpace s) = trimSpace s" by (subst trimLeftSpace.simps) simp
  moreover have "trimRightSpace (trimSpace s) = trimSpace s"
    using trimRight_done [of "trimLeftSpace s"] by (subst trimRightSpace.simps) (simp add: trimSpace_def)
  ultimately show ?thesis by (simp add: trimSpace_def)
qed

lemma trimRight_head: "list_all (\<lambda>p. c \<notin> set p) spaces \<Longrightarrow> \<exists>ds. trimRightSpace (c # cs) = c # ds"
proof (induction "c # cs" arbitrary: cs rule: trimRightSpace.induct)
  case 1
  show ?case
  proof (cases "find (hasSuffix (c # cs)) spaces")
    case None
    then show ?thesis by (subst trimRightSpace.simps) simp
  next
    case (Some p)
    then have p: "hasSuffix (c # cs) p" "p \<in> set spaces" by (auto simp: find_Some_iff)
    then have "c \<notin> set p" using 1(2) by (simp add: list_all_iff)
    then have "p \<noteq> c # cs" by auto
    then have "length p \<noteq> length (c # cs)" using p(1) by (auto simp: hasSuffix_def)
    then obtain k where k: "length (c # cs) - length p = Suc k" using p(1) by (cases "length (c # cs) - length p") (auto simp: hasSuffix_def)
    then have eq: "take (length (c # cs) - length p) (c # cs) = c # take k cs" by simp
    obtain ds where "trimRightSpace (c # take k cs) = c # ds" using 1(1) [OF Some, of "take k cs"] 1(2) eq by auto
    then have "trimRightSpace (c # cs) = c # ds" using Some eq by (subst trimRightSpace.simps) simp
    then show ?thesis by blast
  qed
qed

lemma trimLeft_head: "list_all (\<lambda>p. p \<noteq> [] \<and> hd p \<noteq> c) spaces \<Longrightarrow> trimLeftSpace (c # cs) = c # cs"
proof -
  assume a: "list_all (\<lambda>p. p \<noteq> [] \<and> hd p \<noteq> c) spaces"
  have "find (hasPrefix (c # cs)) spaces = None"
    using a by (fastforce simp: find_None_iff list_all_iff hasPrefix_def neq_Nil_conv)
  then show ?thesis by (subst trimLeftSpace.simps) simp
qed

lemma space_bytes: "list_all (\<lambda>p. p \<noteq> [] \<and> list_all (\<lambda>c. (of_char c :: nat) < 33 \<or> 128 \<le> (of_char c :: nat)) p) spaces"
  by (simp add: spaces_def)

lemma not_space_byte: "33 \<le> (of_char c :: nat) \<Longrightarrow> (of_char c :: nat) < 128 \<Longrightarrow> list_all (\<lambda>p. c \<notin> set p \<and> p \<noteq> [] \<and> hd p \<noteq> c) spaces"
proof -
  assume b: "33 \<le> (of_char c :: nat)" "(of_char c :: nat) < 128"
  have "c \<notin> set p \<and> p \<noteq> [] \<and> hd p \<noteq> c" if p: "p \<in> set spaces" for p
  proof -
    have "p \<noteq> []" and all: "\<forall>x \<in> set p. (of_char x :: nat) < 33 \<or> 128 \<le> (of_char x :: nat)"
      using space_bytes p by (simp_all only: list_all_iff) blast+
    moreover have "c \<notin> set p" using all b linorder_not_less by blast
    ultimately show ?thesis using hd_in_set by metis
  qed
  then show ?thesis by (simp only: list_all_iff) blast
qed

lemma letters_not_space:
  "list_all (\<lambda>p. CHR ''c'' \<notin> set p \<and> p \<noteq> [] \<and> hd p \<noteq> CHR ''c'') spaces"
  "list_all (\<lambda>p. CHR ''l'' \<notin> set p \<and> p \<noteq> [] \<and> hd p \<noteq> CHR ''l'') spaces"
  "list_all (\<lambda>p. CHR ''g'' \<notin> set p \<and> p \<noteq> [] \<and> hd p \<noteq> CHR ''g'') spaces"
  by (rule not_space_byte; simp)+

lemma trimSpace_letter:
  assumes "list_all (\<lambda>p. c \<notin> set p \<and> p \<noteq> [] \<and> hd p \<noteq> c) spaces"
  shows "trimSpace (c # cs) \<noteq> []"
proof -
  have "trimLeftSpace (c # cs) = c # cs" using assms by (intro trimLeft_head) (auto simp: list_all_iff)
  moreover obtain ds where "trimRightSpace (c # cs) = c # ds" using trimRight_head [of c cs] assms by (auto simp: list_all_iff)
  ultimately show ?thesis by (simp add: trimSpace_def)
qed

end
