(* ===== verification/ConfigRoundTrip.thy ===== *)
theory ConfigRoundTrip
  imports PaymentDemo TrimSpace
begin

section \<open>Settings that are written are read back\<close>

text \<open>
  Amounts are written with two decimals and read with strconv.ParseFloat: the float64 nearest to a number
  of cents comes back as it was.  Rounding is bounded first, then the text is read digit by digit.
\<close>

subsection \<open>Rounding\<close>

lemma rne_near: "\<bar>y - of_int k\<bar> < 1 / 2 \<Longrightarrow> rne y = k"
proof -
  assume near: "\<bar>y - of_int k\<bar> < 1 / 2"
  have f: "of_int \<lfloor>y\<rfloor> \<le> y" "y < of_int \<lfloor>y\<rfloor> + 1" by linarith+
  show ?thesis
  proof (cases "of_int k \<le> y")
    case True
    then have "\<lfloor>y\<rfloor> = k" using near by linarith
    then show ?thesis using near True by (simp add: rne_def Let_def)
  next
    case False
    then have "\<lfloor>y\<rfloor> = k - 1" using near by linarith
    moreover have "1 / 2 < y - (of_int k - 1)" using near False by linarith
    ultimately show ?thesis by (simp add: rne_def Let_def)
  qed
qed

lemma rne_error: "\<bar>of_int (rne y) - y\<bar> \<le> 1 / 2"
proof -
  have "of_int \<lfloor>y\<rfloor> \<le> y" "y < of_int \<lfloor>y\<rfloor> + 1" by linarith+
  then show ?thesis
    by (cases "y - of_int \<lfloor>y\<rfloor> < 1 / 2"; cases "1 / 2 < y - of_int \<lfloor>y\<rfloor>"; cases "even \<lfloor>y\<rfloor>"; simp only: rne_def Let_def of_int_add of_int_1 if_True if_False simp_thms; linarith)
qed

lemma rnd_error:
  assumes "0 < x"
  shows "\<bar>rnd x - x\<bar> \<le> 2 powi ulp_exp x / 2"
proof -
  let ?u = "(2 :: rat) powi ulp_exp x"
  have u: "0 < ?u" by simp
  have "rnd x - x = (of_int (rne (x / ?u)) - x / ?u) * ?u" using assms u by (simp add: rnd_def left_diff_distrib)
  then have "\<bar>rnd x - x\<bar> = \<bar>of_int (rne (x / ?u)) - x / ?u\<bar> * ?u" using u by (simp add: abs_mult)
  also have "\<dots> \<le> 1 / 2 * ?u" using rne_error u by (intro mult_right_mono) auto
  finally show ?thesis by simp
qed

lemma rnd_near:
  assumes "0 \<le> x" and "x < 2 ^ 44"
  shows "\<bar>rnd x - x\<bar> \<le> 1 / 1024"
proof (cases "x = 0")
  case False
  then have x: "0 < x" using assms by simp
  have "(2 :: rat) powi expo x < 2 powi 44" using expo_bounds(1) [OF x] assms(2) by simp
  then have "expo x < 44" by (meson not_less one_le_numeral order_less_le_trans power_int_increasing less_irrefl)
  then have "ulp_exp x \<le> -9" by (simp add: ulp_exp_def)
  then have "(2 :: rat) powi ulp_exp x \<le> 2 powi (-9)" by (intro power_int_increasing) simp_all
  also have "\<dots> = 1 / 512" by (simp add: power_int_minus)
  finally show ?thesis using rnd_error [OF x] by linarith
qed simp

definition cents :: "int \<Rightarrow> f64" where
  "cents k = fl (of_int k / 100)"

text \<open>Amounts below 2 ^ 40 yuan.\<close>

definition smallCents :: "int \<Rightarrow> bool" where
  "smallCents k \<longleftrightarrow> 0 \<le> k \<and> k < 2 ^ 40"

lemma cents_value:
  assumes "smallCents k"
  shows "cents k = Fin (rnd (of_int k / 100))" and "rne (rnd (of_int k / 100) * 100) = k" and "0 \<le> rnd (of_int k / 100)"
    and "0 < k \<Longrightarrow> 0 < rnd (of_int k / 100)"
proof -
  let ?x = "of_int k / 100 :: rat"
  have k: "of_int k < (2 ^ 40 :: rat)" using assms by (metis of_int_less_iff of_int_numeral of_int_power smallCents_def)
  have x: "0 \<le> ?x" "?x < 2 ^ 44" using assms k by (simp_all add: smallCents_def)
  have near: "\<bar>rnd ?x - ?x\<bar> \<le> 1 / 1024" by (rule rnd_near [OF x])
  then have "\<bar>rnd ?x\<bar> \<le> 2 ^ 44 + 1" using x by linarith
  moreover have "(2 ^ 44 + 1 :: rat) < 2 ^ 1024" by simp
  ultimately have "rnd ?x < 2 ^ 1024" "- (2 ^ 1024) < rnd ?x" by linarith+
  then show "cents k = Fin (rnd ?x)" by (simp add: cents_def fl_def Let_def del: power_numeral)
  show "rne (rnd ?x * 100) = k" by (rule rne_near) (use near in linarith)
  show "0 \<le> rnd ?x" using x(1) by (rule rnd_nonneg)
  show "0 < rnd ?x" if "0 < k"
  proof -
    have "1 \<le> k" using that by simp
    then have "1 / 100 \<le> ?x" by simp
    then show ?thesis using near by linarith
  qed
qed

subsection \<open>Reading digits\<close>

definition decimalDigit :: "char \<Rightarrow> bool" where
  "decimalDigit c \<longleftrightarrow> digitVal c \<noteq> None"

lemma natDigits_decimal: "list_all decimalDigit (natDigits n)"
proof (induction n rule: natDigits.induct)
  case (1 n)
  show ?case
  proof (cases "n < 10")
    case True
    then show ?thesis by (simp add: natDigits.simps decimalDigit_def)
  next
    case False
    with 1 have "list_all decimalDigit (natDigits (n div 10))" by simp
    moreover have "decimalDigit (char_of (48 + n mod 10))" by (simp add: decimalDigit_def)
    ultimately show ?thesis using False by (subst natDigits.simps) simp
  qed
qed

lemma digitsPrefix_digits:
  assumes "list_all decimalDigit xs" and "rest = [] \<or> \<not> decimalDigit (hd rest)"
  shows "digitsPrefix (xs @ rest) = (map (\<lambda>c. the (digitVal c)) xs, rest)"
  using assms(1)
proof (induction xs)
  case Nil
  then show ?case using assms(2) by (cases rest) (simp_all add: decimalDigit_def)
next
  case (Cons c cs)
  then show ?case by (auto simp: decimalDigit_def)
qed

lemma digits_fold: "list_all decimalDigit xs \<Longrightarrow> parseDigits a xs = Some (fold (\<lambda>d a. a * 10 + d) (map (\<lambda>c. the (digitVal c)) xs) a)"
  by (induction xs arbitrary: a) (auto simp: decimalDigit_def)

lemma digitsValue_natDigits: "digitsValue (map (\<lambda>c. the (digitVal c)) (natDigits n)) = n"
  using digits_fold [OF natDigits_decimal, of 0 n] parseDigits_natDigits [of n] by (auto simp: digitsValue_def)

lemma decimalDigit_range: "decimalDigit c \<longleftrightarrow> 48 \<le> (of_char c :: nat) \<and> (of_char c :: nat) \<le> 57"
  by (simp add: decimalDigit_def digitVal_def Let_def)

lemma digit_head: "\<exists>c cs. natDigits n = c # cs \<and> decimalDigit c"
  using natDigits_head [of n] natDigits_decimal [of n] by auto

lemma digit_not_word:
  assumes "decimalDigit c"
  shows "toLower (c # cs) \<noteq> ''inf''" "toLower (c # cs) \<noteq> ''infinity''" "toLower (c # cs) \<noteq> ''nan''" "c \<noteq> CHR ''-''" "c \<noteq> CHR ''+''"
proof -
  have r: "48 \<le> (of_char c :: nat)" "(of_char c :: nat) \<le> 57" using assms by (simp_all add: decimalDigit_range)
  then have l: "lowerByte c = c" by (simp add: lowerByte_def Let_def)
  have "c \<noteq> CHR ''i''" "c \<noteq> CHR ''n''" and ne: "c \<noteq> CHR ''-''" "c \<noteq> CHR ''+''" using r by auto
  then show "toLower (c # cs) \<noteq> ''inf''" "toLower (c # cs) \<noteq> ''infinity''" "toLower (c # cs) \<noteq> ''nan''" by (simp_all add: toLower_def l)
  show "c \<noteq> CHR ''-''" "c \<noteq> CHR ''+''" using ne by simp_all
qed

subsection \<open>Reading amounts\<close>

text \<open>The text of \<open>k\<close> cents.\<close>

definition centsText :: "int \<Rightarrow> string" where
  "centsText k = itoa (k div 100) @ ''.'' @ itoa (k mod 100 div 10) @ itoa (k mod 10)"

lemma format_cents: "smallCents k \<Longrightarrow> formatFixed2 (cents k) = centsText k"
  using cents_value [of k] by (simp add: formatFixed2_def centsText_def Let_def)

lemma fold_digits_append:
  "list_all decimalDigit xs \<Longrightarrow> list_all decimalDigit ys \<Longrightarrow>
   digitsValue (map (\<lambda>c. the (digitVal c)) xs @ map (\<lambda>c. the (digitVal c)) ys)
     = fold (\<lambda>d a. a * 10 + d) (map (\<lambda>c. the (digitVal c)) ys) (digitsValue (map (\<lambda>c. the (digitVal c)) xs))"
  by (simp add: digitsValue_def)

lemma mantissa_two_decimals:
  assumes "digitsPrefix s = (ip, CHR ''.'' # r)" and "digitsPrefix r = ([d, u], [])"
  shows "parseMantissa s = Some (of_nat (digitsValue (ip @ [d, u])) / 100, [])"
  using assms by (simp add: parseMantissa_def)

lemma parse_two_decimals:
  assumes "d < 10" and "u < 10" and "fin (fl (of_nat (q * 100 + d * 10 + u) / 100))"
  shows "parseFloat (natDigits q @ CHR ''.'' # natDigits d @ natDigits u) = Some (fl (of_nat (q * 100 + d * 10 + u) / 100))"
proof -
  let ?v = "\<lambda>c. the (digitVal c)" and ?r = "natDigits d @ natDigits u"
  let ?s = "natDigits q @ CHR ''.'' # ?r"
  have ip: "digitsPrefix ?s = (map ?v (natDigits q), CHR ''.'' # ?r)"
    by (rule digitsPrefix_digits [OF natDigits_decimal]) (simp add: decimalDigit_range)
  have "digitsPrefix (?r @ []) = (map ?v ?r, [])"
    by (rule digitsPrefix_digits) (simp_all add: natDigits_decimal)
  moreover have "map ?v ?r = [d, u]" using assms(1,2) by (simp add: natDigits.simps)
  ultimately have fp: "digitsPrefix ?r = ([d, u], [])" by simp
  have val: "digitsValue (map ?v (natDigits q) @ [d, u]) = q * 100 + d * 10 + u"
    using digitsValue_natDigits [of q] by (simp add: digitsValue_def)
  have m: "parseMantissa ?s = Some (of_nat (q * 100 + d * 10 + u) / 100, [])"
    using mantissa_two_decimals [OF ip fp] by (simp only: val)
  obtain c cs where c: "natDigits q = c # cs" "decimalDigit c" using digit_head by blast
  have s: "signOf ?s = (False, ?s)" using digit_not_word [OF c(2)] by (simp add: c signOf_def)
  have lit: "literalValue ?s = Some (fl (of_nat (q * 100 + d * 10 + u) / 100))"
    by (simp only: literalValue_def s Let_def split_conv m option.case) (simp only: parseExponent_def powTen_def list.case option.case, simp)
  have "toLower ?s \<noteq> ''inf''" "toLower ?s \<noteq> ''infinity''" "toLower ?s \<noteq> ''nan''"
    unfolding c(1) append_Cons using digit_not_word [OF c(2)] by blast+
  then show ?thesis using lit assms(3) by (simp only: parseFloat_def s Let_def split_conv) (simp only: option.case if_False if_True simp_thms)
qed

lemma itoa_int: "itoa (int n) = natDigits n"
  by (simp add: itoa_def)

lemma parse_cents:
  assumes "smallCents k"
  shows "parseFloat (centsText k) = Some (cents k)"
proof -
  obtain n where n: "k = int n" using assms by (auto simp: smallCents_def elim: nonneg_int_cases)
  have e: "n div 100 * 100 + n mod 100 div 10 * 10 + n mod 10 = n"
  proof -
    have "n mod 100 mod 10 = n mod 10" by (rule mod_mod_cancel) simp
    then show ?thesis using div_mult_mod_eq [of n 100] div_mult_mod_eq [of "n mod 100" 10] by linarith
  qed
  have parts: "k div 100 = int (n div 100)" "k mod 100 div 10 = int (n mod 100 div 10)" "k mod 10 = int (n mod 10)"
    by (simp_all only: n zdiv_int zmod_int of_nat_numeral)
  have t: "centsText k = natDigits (n div 100) @ CHR ''.'' # natDigits (n mod 100 div 10) @ natDigits (n mod 10)"
    by (simp only: centsText_def parts itoa_int) simp
  have d: "n mod 100 div 10 < 10" "n mod 10 < 10" by (rule less_mult_imp_div_less) simp_all
  have "fin (cents k)" using cents_value(1) [OF assms] by (simp add: fin_def)
  then show ?thesis unfolding t using parse_two_decimals [OF d, of "n div 100", unfolded e] by (simp add: cents_def n)
qed

lemma read_positive:
  assumes "smallCents k" and "0 < k"
  shows "pcParseFloat (formatPositiveFloat (Some (cents k))) d = cents k"
proof -
  have "\<not> fle (cents k) (Fin 0)" using cents_value [OF assms(1)] assms(2) by simp
  moreover have "centsText k \<noteq> []" by (simp add: centsText_def)
  ultimately show ?thesis
    using parse_cents [OF assms(1)] by (simp add: pcParseFloat_def formatPositiveFloat_def format_cents [OF assms(1)])
qed

lemma read_nonnegative:
  assumes "smallCents k"
  shows "pcParseFloat (formatNonNegativeFloat (Some (cents k))) d = cents k"
proof -
  have "\<not> flt (cents k) (Fin 0)" using cents_value [OF assms] by simp
  moreover have "centsText k \<noteq> []" by (simp add: centsText_def)
  ultimately show ?thesis
    using parse_cents [OF assms] by (simp add: pcParseFloat_def formatNonNegativeFloat_def format_cents [OF assms])
qed

lemma read_positive_int: "0 < i \<Longrightarrow> i < 2 ^ 63 \<Longrightarrow> pcParseInt (formatPositiveInt (Some i)) d = i"
  using parseInt_itoa [of i] digit_head [of "nat i"] by (auto simp: pcParseInt_def formatPositiveInt_def itoa_def)

subsection \<open>Reading texts\<close>

lemma splitOn_plain: "d \<notin> set w \<Longrightarrow> splitOn d w = [w]"
  by (induction w) auto

lemma splitOn_piece: "d \<notin> set w \<Longrightarrow> splitOn d (w @ d # r) = w # splitOn d r"
  by (induction w) auto

lemma splitOn_joinWith: "ts \<noteq> [] \<Longrightarrow> list_all (\<lambda>t. d \<notin> set t) ts \<Longrightarrow> splitOn d (joinWith [d] ts) = ts"
  by (induction "[d]" ts rule: joinWith.induct) (simp_all add: splitOn_plain splitOn_piece)

lemma joinWith_empty: "list_all (\<lambda>t. t \<noteq> []) ts \<Longrightarrow> joinWith d ts = [] \<longleftrightarrow> ts = []"
  by (cases "(d, ts)" rule: joinWith.cases) auto

text \<open>The names of payment types: not empty, no commas, no space around them.\<close>

definition typeName :: "string \<Rightarrow> bool" where
  "typeName t \<longleftrightarrow> t \<noteq> [] \<and> CHR '','' \<notin> set t \<and> trimSpace t = t"

lemma read_types:
  assumes "list_all typeName ts"
  shows "splitTypes (joinWith '','' ts) = ts"
proof (cases "ts = []")
  case False
  have parts: "list_all (\<lambda>t. t \<noteq> []) ts" "list_all (\<lambda>t. CHR '','' \<notin> set t) ts" and ids: "map trimSpace ts = ts" "filter (\<lambda>t. t \<noteq> []) ts = ts"
    using assms by (auto simp: list_all_iff typeName_def intro: map_idI)
  show ?thesis using False by (simp add: splitTypes_def joinWith_empty [OF parts(1)] splitOn_joinWith [OF False parts(2)] ids)
qed (simp add: splitTypes_def)

lemma prefix_idem: "normalizeOrderIDPrefix (normalizeOrderIDPrefix v) = normalizeOrderIDPrefix v"
proof -
  have "trimSpace defaultOrderIDPrefix = defaultOrderIDPrefix"
    by (rule trimSpace_printable) (simp add: printable_def defaultOrderIDPrefix_def)
  then show ?thesis by (simp add: normalizeOrderIDPrefix_def trimSpace_idem)
qed

subsection \<open>The settings\<close>

text \<open>
  What the settings say after a request: a value that is given and allowed, otherwise the default.
\<close>

definition chosen :: "('a \<Rightarrow> bool) \<Rightarrow> 'a option \<Rightarrow> 'a \<Rightarrow> 'a" where
  "chosen good v d = (case v of None \<Rightarrow> d | Some x \<Rightarrow> if good x then x else d)"

definition centsOrNone :: "f64 option \<Rightarrow> bool" where
  "centsOrNone v \<longleftrightarrow> (v = None \<or> (\<exists>k. smallCents k \<and> v = Some (cents k)))"

definition goInt :: "int option \<Rightarrow> bool" where
  "goInt v \<longleftrightarrow> (case v of None \<Rightarrow> True | Some i \<Rightarrow> i < 2 ^ 63)"

lemma amount_back:
  assumes "centsOrNone v"
  shows "pcParseFloat (formatPositiveFloat v) d = chosen (\<lambda>x. \<not> fle x (Fin 0)) v d"
proof (cases v)
  case None
  then show ?thesis by (simp add: chosen_def formatPositiveFloat_def pcParseFloat_def)
next
  case (Some x)
  then obtain k where k: "smallCents k" "v = Some (cents k)" using assms by (auto simp: centsOrNone_def)
  show ?thesis
  proof (cases "k = 0")
    case True
    then have "fle (cents k) (Fin 0)" by (simp add: cents_def fl_def)
    then show ?thesis using k by (simp add: chosen_def formatPositiveFloat_def pcParseFloat_def)
  next
    case False
    then have p: "0 < k" using k(1) by (simp add: smallCents_def)
    then have "\<not> fle (cents k) (Fin 0)" using cents_value [OF k(1)] by simp
    then show ?thesis using read_positive [OF k(1) p, of d] k(2) by (simp only: chosen_def option.case if_True not_False_eq_True simp_thms if_False)
  qed
qed

lemma rate_back:
  assumes "centsOrNone v"
  shows "pcParseFloat (formatNonNegativeFloat v) d = given v d"
proof (cases v)
  case None
  then show ?thesis by (simp add: given_def formatNonNegativeFloat_def pcParseFloat_def)
next
  case (Some x)
  then obtain k where "smallCents k" "v = Some (cents k)" using assms by (auto simp: centsOrNone_def)
  then show ?thesis using read_nonnegative by (simp only: given_def option.case)
qed

lemma number_back:
  assumes "goInt v"
  shows "pcParseInt (formatPositiveInt v) d = chosen (\<lambda>i. 0 < i) v d"
proof (cases "v = None \<or> \<not> 0 < the v")
  case True
  then show ?thesis by (auto simp: chosen_def formatPositiveInt_def pcParseInt_def split: option.splits)
next
  case False
  then obtain i where i: "v = Some i" "0 < i" by auto
  then have "i < 2 ^ 63" using assms by (simp add: goInt_def)
  with i show ?thesis using read_positive_int [of i d] by (simp only: chosen_def option.case if_True)
qed

lemma switch_back: "formatBoolOrEmpty v = ''true'' \<longleftrightarrow> given v False"
  by (simp add: formatBoolOrEmpty_def given_def split: option.split)

lemma written:
  assumes "UpdatePaymentConfig req s = (Inr (), s1)"
  shows "st_settings s1 = withSettings (settingsOf req) (st_settings s)" and "validateConfigRequest req = Inr ()"
  using assms by (auto simp: UpdatePaymentConfig_def bindP_def liftE_def db_def modP_def ret_def fail_def split: sum.splits list.splits if_splits)

lemma read_config:
  assumes "GetPaymentConfig s1 = (Inr cfg, s2)"
  shows "cfg = parsePaymentConfig (st_settings s1)"
  using assms by (auto simp: GetPaymentConfig_def bindP_def ignoreP_def tryP_def db_def getP_def ret_def split: sum.splits list.splits if_splits)

lemma types_back: "(case v of None \<Rightarrow> True | Some ts \<Rightarrow> list_all typeName ts) \<Longrightarrow> splitTypes (case v of None \<Rightarrow> [] | Some ts \<Rightarrow> joinWith '','' ts) = given v []"
  by (cases v) (simp_all add: given_def read_types, simp add: splitTypes_def)

lemma settings_values:
  fixes req and old :: "string \<Rightarrow> string"
  defines "v \<equiv> withSettings (settingsOf req) old"
  shows "v ''payment_enabled'' = formatBoolOrEmpty (uc_Enabled req)"
    and "v ''MIN_RECHARGE_AMOUNT'' = formatPositiveFloat (uc_MinAmount req)"
    and "v ''MAX_RECHARGE_AMOUNT'' = formatPositiveFloat (uc_MaxAmount req)"
    and "v ''DAILY_RECHARGE_LIMIT'' = formatPositiveFloat (uc_DailyLimit req)"
    and "v ''ORDER_TIMEOUT_MINUTES'' = formatPositiveInt (uc_OrderTimeoutMin req)"
    and "v ''MAX_PENDING_ORDERS'' = formatPositiveInt (uc_MaxPendingOrders req)"
    and "v ''BALANCE_PAYMENT_DISABLED'' = formatBoolOrEmpty (uc_BalanceDisabled req)"
    and "v ''BALANCE_RECHARGE_MULTIPLIER'' = formatPositiveFloat (uc_BalanceRechargeMultiplier req)"
    and "v ''RECHARGE_FEE_RATE'' = formatNonNegativeFloat (uc_RechargeFeeRate req)"
    and "v ''ORDER_ID_PREFIX'' = normalizeOrderIDPrefix (derefStr (uc_OrderIDPrefix req))"
    and "v ''LOAD_BALANCE_STRATEGY'' = derefStr (uc_LoadBalanceStrategy req)"
    and "v ''PRODUCT_NAME_PREFIX'' = derefStr (uc_ProductNamePrefix req)"
    and "v ''PRODUCT_NAME_SUFFIX'' = derefStr (uc_ProductNameSuffix req)"
    and "v ''CANCEL_RATE_LIMIT_ENABLED'' = formatBoolOrEmpty (uc_CancelRateLimitEnabled req)"
    and "v ''CANCEL_RATE_LIMIT_MAX'' = formatPositiveInt (uc_CancelRateLimitMax req)"
    and "v ''CANCEL_RATE_LIMIT_WINDOW'' = formatPositiveInt (uc_CancelRateLimitWindow req)"
    and "v ''CANCEL_RATE_LIMIT_UNIT'' = derefStr (uc_CancelRateLimitUnit req)"
    and "v ''CANCEL_RATE_LIMIT_WINDOW_MODE'' = derefStr (uc_CancelRateLimitMode req)"
    and "v ''ENABLED_PAYMENT_TYPES'' = (case uc_EnabledTypes req of None \<Rightarrow> [] | Some ts \<Rightarrow> joinWith '','' ts)"
  by (simp_all add: v_def withSettings_def settingsOf_def)

text \<open>A request whose amounts are whole cents, whose numbers are int64s and whose payment types are names.\<close>

definition plainRequest :: "UpdatePaymentConfigRequest \<Rightarrow> bool" where
  "plainRequest req \<longleftrightarrow>
     list_all centsOrNone [uc_MinAmount req, uc_MaxAmount req, uc_DailyLimit req, uc_BalanceRechargeMultiplier req, uc_RechargeFeeRate req] \<and>
     list_all goInt [uc_OrderTimeoutMin req, uc_MaxPendingOrders req, uc_CancelRateLimitMax req, uc_CancelRateLimitWindow req] \<and>
     (case uc_EnabledTypes req of None \<Rightarrow> True | Some ts \<Rightarrow> list_all typeName ts)"

definition positiveAmountOr :: "f64 option \<Rightarrow> f64 \<Rightarrow> f64" where
  "positiveAmountOr = chosen (\<lambda>x. \<not> fle x (Fin 0))"

definition positiveOr :: "int option \<Rightarrow> int \<Rightarrow> int" where
  "positiveOr = chosen (\<lambda>i. 0 < i)"

definition requestedConfig :: "UpdatePaymentConfigRequest \<Rightarrow> PaymentConfig" where
  "requestedConfig req = \<lparr>
     cf_Enabled = given (uc_Enabled req) False,
     cf_MinAmount = positiveAmountOr (uc_MinAmount req) (Fin 1),
     cf_MaxAmount = positiveAmountOr (uc_MaxAmount req) (Fin 0),
     cf_DailyLimit = positiveAmountOr (uc_DailyLimit req) (Fin 0),
     cf_OrderTimeoutMin = positiveOr (uc_OrderTimeoutMin req) 30,
     cf_MaxPendingOrders = positiveOr (uc_MaxPendingOrders req) 3,
     cf_EnabledTypes = given (uc_EnabledTypes req) [],
     cf_BalanceDisabled = given (uc_BalanceDisabled req) False,
     cf_BalanceRechargeMultiplier = given (uc_BalanceRechargeMultiplier req) (Fin 1),
     cf_RechargeFeeRate = given (uc_RechargeFeeRate req) (Fin 0),
     cf_OrderIDPrefix = normalizeOrderIDPrefix (derefStr (uc_OrderIDPrefix req)),
     cf_LoadBalanceStrategy = chosen (\<lambda>t. t \<noteq> []) (uc_LoadBalanceStrategy req) DefaultLoadBalanceStrategy,
     cf_ProductNamePrefix = given (uc_ProductNamePrefix req) [],
     cf_ProductNameSuffix = given (uc_ProductNameSuffix req) [],
     cf_Cancel = \<lparr>cc_Enabled = given (uc_CancelRateLimitEnabled req) False,
       cc_Max = positiveOr (uc_CancelRateLimitMax req) 10,
       cc_Window = positiveOr (uc_CancelRateLimitWindow req) 1,
       cc_Unit = given (uc_CancelRateLimitUnit req) [],
       cc_Mode = given (uc_CancelRateLimitMode req) []\<rparr>\<rparr>"

lemma multiplier_back:
  assumes "validateConfigRequest req = Inr ()" and "centsOrNone (uc_BalanceRechargeMultiplier req)"
  shows "normalizeBalanceRechargeMultiplier (positiveAmountOr (uc_BalanceRechargeMultiplier req) (Fin 1)) = given (uc_BalanceRechargeMultiplier req) (Fin 1)"
proof (cases "uc_BalanceRechargeMultiplier req")
  case None
  then show ?thesis by (simp add: positiveAmountOr_def chosen_def given_def normalizeBalanceRechargeMultiplier_def)
next
  case (Some x)
  with assms obtain k where k: "smallCents k" "x = cents k" by (auto simp: centsOrNone_def)
  have "\<not> fle x (Fin 0)" using assms(1) Some by (auto simp: validateConfigRequest_def split: if_splits)
  with Some k show ?thesis
    using cents_value [OF k(1)] by (simp add: positiveAmountOr_def chosen_def given_def normalizeBalanceRechargeMultiplier_def reported_def)
qed

lemma requested_is_read:
  assumes "validateConfigRequest req = Inr ()" and "plainRequest req"
  shows "parsePaymentConfig (withSettings (settingsOf req) old) = requestedConfig req"
proof -
  have c: "centsOrNone (uc_MinAmount req)" "centsOrNone (uc_MaxAmount req)" "centsOrNone (uc_DailyLimit req)"
      "centsOrNone (uc_BalanceRechargeMultiplier req)" "centsOrNone (uc_RechargeFeeRate req)"
    and n: "goInt (uc_OrderTimeoutMin req)" "goInt (uc_MaxPendingOrders req)" "goInt (uc_CancelRateLimitMax req)" "goInt (uc_CancelRateLimitWindow req)"
    and t: "case uc_EnabledTypes req of None \<Rightarrow> True | Some ts \<Rightarrow> list_all typeName ts"
    using assms(2) by (simp_all add: plainRequest_def)
  have lb: "(if derefStr v = [] then d else derefStr v) = chosen (\<lambda>t. t \<noteq> []) v d" for v d
    by (simp add: derefStr_def chosen_def split: option.split)
  have gs: "derefStr v = given v []" for v by (simp add: derefStr_def given_def)
  show ?thesis
    unfolding parsePaymentConfig_def requestedConfig_def settings_values
      c [THEN amount_back] rate_back [OF c(5)] n [THEN number_back] switch_back types_back [OF t] prefix_idem lb
      positiveAmountOr_def [symmetric] positiveOr_def [symmetric] multiplier_back [OF assms(1) c(4)]
    unfolding gs defaultOrderTimeoutMin_def defaultMaxPendingOrders_def by (rule refl)
qed


definition demoChange :: UpdatePaymentConfigRequest where
  "demoChange = \<lparr>uc_Enabled = Some True, uc_MinAmount = Some (cents 500), uc_MaxAmount = Some (cents 100000), uc_DailyLimit = None,
     uc_OrderTimeoutMin = Some 15, uc_MaxPendingOrders = Some 5, uc_EnabledTypes = Some [''alipay'', ''wxpay''], uc_BalanceDisabled = None,
     uc_BalanceRechargeMultiplier = Some (cents 120), uc_RechargeFeeRate = Some (cents 250), uc_OrderIDPrefix = None,
     uc_LoadBalanceStrategy = None, uc_ProductNamePrefix = Some ''FC'', uc_ProductNameSuffix = None, uc_HelpImageURL = None, uc_HelpText = None,
     uc_CancelRateLimitEnabled = None, uc_CancelRateLimitMax = Some (- 1), uc_CancelRateLimitWindow = None, uc_CancelRateLimitUnit = None,
     uc_CancelRateLimitMode = None\<rparr>"

lemma demo_names: "typeName ''alipay''" "typeName ''wxpay''"
  by (simp_all add: typeName_def trimSpace_printable printable_def)

lemma fee_exact: "cents 250 = Fin (5 / 2)"
  using fl_dyadic [of 5 1] by (simp add: cents_def)

lemma cents_given: "smallCents k \<Longrightarrow> centsOrNone (Some (cents k))"
  by (auto simp: centsOrNone_def)

lemma demo_plain: "plainRequest demoChange"
proof -
  have "smallCents 500" "smallCents 100000" "smallCents 120" "smallCents 250" by (simp_all add: smallCents_def)
  then show ?thesis by (simp add: plainRequest_def demoChange_def cents_given goInt_def demo_names) (simp add: centsOrNone_def)
qed

lemma demo_valid: "validateConfigRequest demoChange = Inr ()"
proof -
  have "fin (cents 120)" "\<not> fle (cents 120) (Fin 0)" using cents_value [of 120] by (simp_all add: smallCents_def fin_def)
  moreover have "wholeCents (Fin (5 / 2))" by (simp add: wholeCents_def)
  ultimately show ?thesis by (simp add: validateConfigRequest_def demoChange_def fee_exact fin_def)
qed

lemma demo_changed: "UpdatePaymentConfig demoChange demoStore = (Inr (), demoStore\<lparr>st_settings := withSettings (settingsOf demoChange) demoSettings\<rparr>)"
  by (simp add: UpdatePaymentConfig_def demo_valid liftE_def bindP_def ret_def db_def modP_def)


end
