(* ===== verification/BillingCache.thy ===== *)
theory BillingCache
  imports RedeemCodes ConcurrencySlots
begin

section \<open>The billing cache\<close>

text \<open>
  repository/billing_cache.go: the balances, subscriptions and rate windows that the gate of
  service/billing_cache_service.go reads on the path of every request, kept in Redis.  A key has
  its value and the millisecond it expires after, or none.  A hash is a record of its fields;
  numbers are written so that they are read back exactly, but for the two operations of Redis in
  the parameter \<open>R\<close>: HINCRBYFLOAT, which adds in long double and writes 17 digits, and Lua's
  tostring, which writes 14.  Redis has a clock of its own, \<open>gt_skew\<close> ahead of the application's.
  \<open>gt_jitter\<close> are the random parts of the times to live.
\<close>

record redisFloat =
  rf_incr :: "f64 \<Rightarrow> f64 \<Rightarrow> f64"
  rf_tostring :: "f64 \<Rightarrow> f64"

record subscriptionCacheData =
  sc_Status :: sub_status
  sc_ExpiresAt :: int
  sc_DailyUsage :: f64
  sc_WeeklyUsage :: f64
  sc_MonthlyUsage :: f64
  sc_QuotaMultiplier :: int
  sc_NextGrantExpiresAt :: "int option"
  sc_Version :: int

record APIKeyRateLimitCacheData =
  kl_Usage5h :: f64
  kl_Usage1d :: f64
  kl_Usage7d :: f64
  kl_Window5h :: int
  kl_Window1d :: int
  kl_Window7d :: int

text \<open>The hash of a subscription: times are Unix seconds; a status that is missing or empty is \<open>None\<close>.\<close>

record subHash =
  sh_status :: "sub_status option"
  sh_expires_at :: int
  sh_daily_usage :: f64
  sh_weekly_usage :: f64
  sh_monthly_usage :: f64
  sh_quota_multiplier :: int
  sh_next_grant_expires_at :: "int option"
  sh_version :: int

datatype cacheWriteTask =
    CacheWriteSetBalance int f64
  | CacheWriteSetSubscription int int subscriptionCacheData
  | CacheWriteUpdateSubscriptionUsage int int f64
  | CacheWriteDeductBalance int f64
  | CacheWriteUpdateRateLimitUsage int f64

datatype billingCircuitBreakerState = BillingCircuitClosed | BillingCircuitOpen | BillingCircuitHalfOpen

record billingCircuitBreaker =
  br_state :: billingCircuitBreakerState
  br_failures :: int
  br_openedAt :: int
  br_failureThreshold :: int
  br_resetTimeout :: int
  br_halfOpenRequests :: int
  br_halfOpenRemaining :: int

record gatestate = redeemstate +
  gt_cacheOn :: bool
  gt_skew :: int
  gt_balances :: "int \<rightharpoonup> f64 \<times> int option"
  gt_subs :: "int \<times> int \<rightharpoonup> subHash \<times> int option"
  gt_rates :: "int \<rightharpoonup> APIKeyRateLimitCacheData \<times> int option"
  gt_cacheFaults :: "callFault option list"
  gt_jitter :: "int list"
  gt_queue :: "cacheWriteTask list"
  gt_busy :: "cacheWriteTask list"
  gt_stopped :: bool
  gt_breaker :: "billingCircuitBreaker option"
  gt_resets :: "int list"
  gt_authInvalidated :: "int list"
  gt_lastUsed :: "int list"

subsection \<open>Redis\<close>

definition cacheCall :: "string \<Rightarrow> ('a gatestate_scheme, 'b) proc \<Rightarrow> ('a gatestate_scheme, 'b) proc" where
  "cacheCall tag act = (\<lambda>s. case gt_cacheFaults s of
       [] \<Rightarrow> act s
     | None # fs \<Rightarrow> act (s\<lparr>gt_cacheFaults := fs\<rparr>)
     | Some Refused # fs \<Rightarrow> (Inl (Internal tag), s\<lparr>gt_cacheFaults := fs\<rparr>)
     | Some AnswerLost # fs \<Rightarrow> (Inl (Internal tag), snd (act (s\<lparr>gt_cacheFaults := fs\<rparr>))))"

definition cacheMillis :: "'a gatestate_scheme \<Rightarrow> int" where
  "cacheMillis s = (e_now s + gt_skew s) div 1000000"

definition cacheSeconds :: "'a gatestate_scheme \<Rightarrow> int" where
  "cacheSeconds s = (e_now s + gt_skew s) div second"

definition liveEntry :: "'a gatestate_scheme \<Rightarrow> 'v \<times> int option \<Rightarrow> 'v option" where
  "liveEntry s e = (case snd e of None \<Rightarrow> Some (fst e) | Some t \<Rightarrow> if t < cacheMillis s then None else Some (fst e))"

definition cached :: "('k \<rightharpoonup> 'v \<times> int option) \<Rightarrow> 'k \<Rightarrow> 'a gatestate_scheme \<Rightarrow> 'v option" where
  "cached m k s = Option.bind (m k) (liveEntry s)"

definition afterSeconds :: "int \<Rightarrow> 'a gatestate_scheme \<Rightarrow> int option" where
  "afterSeconds n s = Some (cacheMillis s + n * 1000)"

text \<open>EXPIREAT with a time that is not in the future deletes the key.\<close>

definition expireAt :: "'k \<Rightarrow> int \<Rightarrow> 'a gatestate_scheme \<Rightarrow> ('k \<rightharpoonup> 'v \<times> int option) \<Rightarrow> 'k \<rightharpoonup> 'v \<times> int option" where
  "expireAt k sec s m = (case cached m k s of
       None \<Rightarrow> m | Some v \<Rightarrow> if sec * 1000 \<le> cacheMillis s then m(k := None) else m(k \<mapsto> (v, Some (sec * 1000))))"

definition billingCacheTTL :: int where "billingCacheTTL = 300 * second"
definition billingCacheJitter :: int where "billingCacheJitter = 30 * second"
definition rateLimitCacheTTL :: int where "rateLimitCacheTTL = 7 * day"

text \<open>rand.IntN; outside its range, which the code's cannot be, the remainder is taken.\<close>

definition jitteredTTL :: "('a gatestate_scheme, int) proc" where
  "jitteredTTL = (\<lambda>s. case gt_jitter s of
       [] \<Rightarrow> (Inr billingCacheTTL, s)
     | j # js \<Rightarrow> (Inr (billingCacheTTL - j mod billingCacheJitter), s\<lparr>gt_jitter := js\<rparr>))"

subsection \<open>Balances\<close>

definition cacheMiss :: err where "cacheMiss = Internal ''redis: nil''"

definition cacheGetUserBalance :: "int \<Rightarrow> ('a gatestate_scheme, f64) proc" where
  "cacheGetUserBalance u = cacheCall ''get balance'' (\<lambda>s.
     (case cached (gt_balances s) u s of None \<Rightarrow> Inl cacheMiss | Some b \<Rightarrow> Inr b, s))"

text \<open>SET with PX or EX: the time to live in whole milliseconds.\<close>

definition cacheSetUserBalance :: "int \<Rightarrow> f64 \<Rightarrow> ('a gatestate_scheme, unit) proc" where
  "cacheSetUserBalance u b = bindP jitteredTTL (\<lambda>ttl. cacheCall ''set balance'' (modP (\<lambda>s.
     s\<lparr>gt_balances := (gt_balances s)(u \<mapsto> (b, Some (cacheMillis s + ttl div 1000000)))\<rparr>)))"

definition deductBalanceScript :: "int \<Rightarrow> f64 \<Rightarrow> int \<Rightarrow> ('a gatestate_scheme, unit) proc" where
  "deductBalanceScript u amount ttl = modP (\<lambda>s. case cached (gt_balances s) u s of
       None \<Rightarrow> s
     | Some b \<Rightarrow> s\<lparr>gt_balances := (gt_balances s)(u \<mapsto> (fsub b amount, afterSeconds ttl s))\<rparr>)"

definition cacheDeductUserBalance :: "int \<Rightarrow> f64 \<Rightarrow> ('a gatestate_scheme, unit) proc" where
  "cacheDeductUserBalance u amount = bindP jitteredTTL (\<lambda>ttl.
     cacheCall ''deduct balance'' (deductBalanceScript u amount (ttl div second)))"

definition cacheInvalidateUserBalance :: "int \<Rightarrow> ('a gatestate_scheme, unit) proc" where
  "cacheInvalidateUserBalance u = cacheCall ''del balance'' (modP (\<lambda>s. s\<lparr>gt_balances := (gt_balances s)(u := None)\<rparr>))"

subsection \<open>Subscriptions\<close>

definition parseSubscriptionCache :: "subHash \<Rightarrow> err + subscriptionCacheData" where
  "parseSubscriptionCache h =
     (case sh_status h of None \<Rightarrow> Inl (Internal ''invalid cache: missing status'')
      | Some st \<Rightarrow> Inr \<lparr>sc_Status = st, sc_ExpiresAt = sh_expires_at h * second, sc_DailyUsage = sh_daily_usage h,
        sc_WeeklyUsage = sh_weekly_usage h, sc_MonthlyUsage = sh_monthly_usage h,
        sc_QuotaMultiplier = (if sh_quota_multiplier h \<le> 0 then 1 else sh_quota_multiplier h),
        sc_NextGrantExpiresAt = (case sh_next_grant_expires_at h of
            None \<Rightarrow> None | Some n \<Rightarrow> if 0 < n then Some (n * second) else None),
        sc_Version = sh_version h\<rparr>)"

definition cacheGetSubscription :: "int \<Rightarrow> int \<Rightarrow> ('a gatestate_scheme, subscriptionCacheData) proc" where
  "cacheGetSubscription u g = cacheCall ''get subscription'' (\<lambda>s.
     (case cached (gt_subs s) (u, g) s of None \<Rightarrow> Inl cacheMiss | Some h \<Rightarrow> parseSubscriptionCache h, s))"

definition computeSubCacheExpireAt :: "int \<Rightarrow> int \<Rightarrow> int option \<Rightarrow> int" where
  "computeSubCacheExpireAt now ttl next =
     (let e0 = now + ttl;
          e1 = (case next of None \<Rightarrow> e0 | Some n \<Rightarrow> if n - 2 * second < e0 then n - 2 * second else e0)
      in if e1 \<le> now + second then now + second else e1)"

text \<open>HSET writes into the hash that is there: without a next expiry the old one stays.\<close>

definition subFields :: "subscriptionCacheData \<Rightarrow> subHash option \<Rightarrow> subHash" where
  "subFields d old = \<lparr>sh_status = Some (sc_Status d), sh_expires_at = sc_ExpiresAt d div second, sh_daily_usage = sc_DailyUsage d,
     sh_weekly_usage = sc_WeeklyUsage d, sh_monthly_usage = sc_MonthlyUsage d,
     sh_quota_multiplier = (if sc_QuotaMultiplier d \<le> 0 then 1 else sc_QuotaMultiplier d),
     sh_next_grant_expires_at = (case sc_NextGrantExpiresAt d of
         Some n \<Rightarrow> Some (n div second) | None \<Rightarrow> Option.bind old sh_next_grant_expires_at),
     sh_version = sc_Version d\<rparr>"

definition hsetSub :: "int \<times> int \<Rightarrow> subscriptionCacheData \<Rightarrow> 'a gatestate_scheme \<Rightarrow> 'a gatestate_scheme" where
  "hsetSub k d s = s\<lparr>gt_subs := (gt_subs s)(k \<mapsto> (subFields d (cached (gt_subs s) k s),
     if cached (gt_subs s) k s = None then None else snd (the (gt_subs s k))))\<rparr>"

text \<open>A pipeline sends both commands; each of them may fail.\<close>

definition cacheSetSubscription :: "int \<Rightarrow> int \<Rightarrow> subscriptionCacheData \<Rightarrow> ('a gatestate_scheme, unit) proc" where
  "cacheSetSubscription u g d =
     bindP nowP (\<lambda>now.
     bindP jitteredTTL (\<lambda>ttl.
     tryP (cacheCall ''hset subscription'' (modP (hsetSub (u, g) d)))
       (\<lambda>e. bindP (ignoreP (cacheCall ''expire subscription'' (modP (\<lambda>s.
          s\<lparr>gt_subs := expireAt (u, g) (computeSubCacheExpireAt now ttl (sc_NextGrantExpiresAt d) div second) s (gt_subs s)\<rparr>)))) (\<lambda>_. fail e))
       (\<lambda>_. cacheCall ''expire subscription'' (modP (\<lambda>s.
          s\<lparr>gt_subs := expireAt (u, g) (computeSubCacheExpireAt now ttl (sc_NextGrantExpiresAt d) div second) s (gt_subs s)\<rparr>)))))"

definition subUsageExpiry :: "int \<Rightarrow> int \<Rightarrow> int \<Rightarrow> int option \<Rightarrow> int" where
  "subUsageExpiry now ttl safety next =
     (let hard = now + ttl;
          e = (case next of None \<Rightarrow> hard
               | Some n \<Rightarrow> if 0 < n \<and> n - safety < hard then n - safety else hard)
      in if e \<le> now then now + 1 else e)"

definition updateSubUsageScript :: "redisFloat \<Rightarrow> int \<times> int \<Rightarrow> f64 \<Rightarrow> int \<Rightarrow> int \<Rightarrow> ('a gatestate_scheme, unit) proc" where
  "updateSubUsageScript R k cost ttl safety = modP (\<lambda>s. case cached (gt_subs s) k s of
       None \<Rightarrow> s
     | Some h \<Rightarrow> s\<lparr>gt_subs := expireAt k (subUsageExpiry (cacheSeconds s) ttl safety (sh_next_grant_expires_at h)) s
          ((gt_subs s)(k \<mapsto> (h\<lparr>sh_daily_usage := rf_incr R (sh_daily_usage h) cost,
              sh_weekly_usage := rf_incr R (sh_weekly_usage h) cost,
              sh_monthly_usage := rf_incr R (sh_monthly_usage h) cost\<rparr>, snd (the (gt_subs s k)))))\<rparr>)"

definition cacheUpdateSubscriptionUsage :: "redisFloat \<Rightarrow> int \<Rightarrow> int \<Rightarrow> f64 \<Rightarrow> ('a gatestate_scheme, unit) proc" where
  "cacheUpdateSubscriptionUsage R u g cost = bindP jitteredTTL (\<lambda>ttl.
     cacheCall ''update subscription usage'' (updateSubUsageScript R (u, g) cost (ttl div second) 2))"

definition cacheInvalidateSubscription :: "int \<Rightarrow> int \<Rightarrow> ('a gatestate_scheme, unit) proc" where
  "cacheInvalidateSubscription u g = cacheCall ''del subscription'' (modP (\<lambda>s. s\<lparr>gt_subs := (gt_subs s)((u, g) := None)\<rparr>))"

subsection \<open>Rate windows of API keys\<close>

definition cacheGetAPIKeyRateLimit :: "int \<Rightarrow> ('a gatestate_scheme, APIKeyRateLimitCacheData) proc" where
  "cacheGetAPIKeyRateLimit k = cacheCall ''get rate limit'' (\<lambda>s.
     (case cached (gt_rates s) k s of None \<Rightarrow> Inl cacheMiss | Some d \<Rightarrow> Inr d, s))"

definition hsetRates :: "int \<Rightarrow> APIKeyRateLimitCacheData \<Rightarrow> 'a gatestate_scheme \<Rightarrow> 'a gatestate_scheme" where
  "hsetRates k d s = s\<lparr>gt_rates := (gt_rates s)(k \<mapsto> (d,
     if cached (gt_rates s) k s = None then None else snd (the (gt_rates s k))))\<rparr>"

definition expireRates :: "int \<Rightarrow> int \<Rightarrow> 'a gatestate_scheme \<Rightarrow> 'a gatestate_scheme" where
  "expireRates k ttl s = (case cached (gt_rates s) k s of
       None \<Rightarrow> s | Some d \<Rightarrow> s\<lparr>gt_rates := (gt_rates s)(k \<mapsto> (d, afterSeconds ttl s))\<rparr>)"

definition cacheSetAPIKeyRateLimit :: "int \<Rightarrow> APIKeyRateLimitCacheData \<Rightarrow> ('a gatestate_scheme, unit) proc" where
  "cacheSetAPIKeyRateLimit k d =
     tryP (cacheCall ''hset rate limit'' (modP (hsetRates k d)))
       (\<lambda>e. bindP (ignoreP (cacheCall ''expire rate limit'' (modP (expireRates k (rateLimitCacheTTL div second))))) (\<lambda>_. fail e))
       (\<lambda>_. cacheCall ''expire rate limit'' (modP (expireRates k (rateLimitCacheTTL div second))))"

text \<open>One window of the script: usage and start.\<close>

definition updateWindow :: "redisFloat \<Rightarrow> f64 \<Rightarrow> int \<Rightarrow> int \<Rightarrow> f64 \<Rightarrow> int \<Rightarrow> f64 \<times> int" where
  "updateWindow R cost now len usage w =
     (if w = 0 \<or> len \<le> now - w then (rf_tostring R cost, now) else (rf_incr R usage cost, w))"

definition updateRateLimitUsageScript :: "redisFloat \<Rightarrow> int \<Rightarrow> f64 \<Rightarrow> int \<Rightarrow> int \<Rightarrow> int \<Rightarrow> int \<Rightarrow> int \<Rightarrow> ('a gatestate_scheme, unit) proc" where
  "updateRateLimitUsageScript R k cost ttl now win5h win1d win7d = modP (\<lambda>s. case cached (gt_rates s) k s of
       None \<Rightarrow> s
     | Some d \<Rightarrow> (let (u5, w5) = updateWindow R cost now win5h (kl_Usage5h d) (kl_Window5h d);
                      (u1, w1) = updateWindow R cost now win1d (kl_Usage1d d) (kl_Window1d d);
                      (u7, w7) = updateWindow R cost now win7d (kl_Usage7d d) (kl_Window7d d)
                  in s\<lparr>gt_rates := (gt_rates s)(k \<mapsto> (\<lparr>kl_Usage5h = u5, kl_Usage1d = u1, kl_Usage7d = u7,
                       kl_Window5h = w5, kl_Window1d = w1, kl_Window7d = w7\<rparr>, afterSeconds ttl s))\<rparr>))"

definition cacheUpdateAPIKeyRateLimitUsage :: "redisFloat \<Rightarrow> int \<Rightarrow> f64 \<Rightarrow> ('a gatestate_scheme, unit) proc" where
  "cacheUpdateAPIKeyRateLimitUsage R k cost = bindP nowP (\<lambda>now.
     cacheCall ''update rate limit'' (updateRateLimitUsageScript R k cost (rateLimitCacheTTL div second) (now div second)
       (5 * 3600) (24 * 3600) (7 * 24 * 3600)))"

definition cacheInvalidateAPIKeyRateLimit :: "int \<Rightarrow> ('a gatestate_scheme, unit) proc" where
  "cacheInvalidateAPIKeyRateLimit k = cacheCall ''del rate limit'' (modP (\<lambda>s. s\<lparr>gt_rates := (gt_rates s)(k := None)\<rparr>))"

end
