(* ===== verification/BillingGate.thy ===== *)
theory BillingGate
  imports BillingCache
begin

section \<open>The gate in front of a request\<close>

text \<open>
  service/billing_cache_service.go: whether a user may start a request, from the billing cache or
  the tables behind it, with the circuit breaker that stops asking a database that fails, and the
  queue of cache writes that ten workers run.  Reads that several requests share (singleflight)
  happen one at a time here.  The goroutine that restarts rate windows is a step of its own,
  \<open>runReset\<close>; so are the workers, \<open>takeTask\<close> and \<open>finishTask\<close>.
\<close>

subsection \<open>The circuit breaker\<close>

record CircuitBreakerConfig =
  cb_Enabled :: bool
  cb_FailureThreshold :: int
  cb_ResetTimeoutSeconds :: int
  cb_HalfOpenRequests :: int

definition newBillingCircuitBreaker :: "CircuitBreakerConfig \<Rightarrow> billingCircuitBreaker option" where
  "newBillingCircuitBreaker cfg =
     (if \<not> cb_Enabled cfg then None
      else Some \<lparr>br_state = BillingCircuitClosed, br_failures = 0, br_openedAt = zeroTime,
        br_failureThreshold = (if cb_FailureThreshold cfg \<le> 0 then 5 else cb_FailureThreshold cfg),
        br_resetTimeout = (if cb_ResetTimeoutSeconds cfg * second \<le> 0 then 30 * second else cb_ResetTimeoutSeconds cfg * second),
        br_halfOpenRequests = (if cb_HalfOpenRequests cfg \<le> 0 then 1 else cb_HalfOpenRequests cfg), br_halfOpenRemaining = 0\<rparr>)"

definition halfOpenAllow :: "billingCircuitBreaker \<Rightarrow> bool \<times> billingCircuitBreaker" where
  "halfOpenAllow b = (if br_halfOpenRemaining b \<le> 0 then (False, b)
     else (True, b\<lparr>br_halfOpenRemaining := br_halfOpenRemaining b - 1\<rparr>))"

definition breakerAllow :: "int \<Rightarrow> billingCircuitBreaker \<Rightarrow> bool \<times> billingCircuitBreaker" where
  "breakerAllow now b = (case br_state b of
       BillingCircuitClosed \<Rightarrow> (True, b)
     | BillingCircuitOpen \<Rightarrow>
         if now - br_openedAt b < br_resetTimeout b then (False, b)
         else halfOpenAllow (b\<lparr>br_state := BillingCircuitHalfOpen, br_halfOpenRemaining := br_halfOpenRequests b\<rparr>)
     | BillingCircuitHalfOpen \<Rightarrow> halfOpenAllow b)"

definition tripped :: "int \<Rightarrow> billingCircuitBreaker \<Rightarrow> billingCircuitBreaker" where
  "tripped now b = b\<lparr>br_state := BillingCircuitOpen, br_openedAt := now, br_halfOpenRemaining := 0\<rparr>"

definition OnFailure :: "int \<Rightarrow> billingCircuitBreaker \<Rightarrow> billingCircuitBreaker" where
  "OnFailure now b = (case br_state b of
       BillingCircuitOpen \<Rightarrow> b
     | BillingCircuitHalfOpen \<Rightarrow> tripped now b
     | BillingCircuitClosed \<Rightarrow>
         (let b' = b\<lparr>br_failures := br_failures b + 1\<rparr>
          in if br_failureThreshold b' \<le> br_failures b' then tripped now b' else b'))"

definition OnSuccess :: "billingCircuitBreaker \<Rightarrow> billingCircuitBreaker" where
  "OnSuccess b = b\<lparr>br_state := BillingCircuitClosed, br_failures := 0, br_halfOpenRemaining := 0\<rparr>"

definition askBreaker :: "('a gatestate_scheme, bool) proc" where
  "askBreaker = (\<lambda>s. case gt_breaker s of
       None \<Rightarrow> (Inr True, s)
     | Some b \<Rightarrow> (let (ok, b') = breakerAllow (e_now s) b in (Inr ok, s\<lparr>gt_breaker := Some b'\<rparr>)))"

definition reportFailure :: "('a gatestate_scheme, unit) proc" where
  "reportFailure = modP (\<lambda>s. s\<lparr>gt_breaker := map_option (OnFailure (e_now s)) (gt_breaker s)\<rparr>)"

definition reportSuccess :: "('a gatestate_scheme, unit) proc" where
  "reportSuccess = modP (\<lambda>s. s\<lparr>gt_breaker := map_option OnSuccess (gt_breaker s)\<rparr>)"

subsection \<open>The queue of cache writes\<close>

definition cacheWriteBufferSize :: nat where "cacheWriteBufferSize = 1000"
definition cacheWriteWorkerCount :: nat where "cacheWriteWorkerCount = 10"

definition enqueueCacheWrite :: "cacheWriteTask \<Rightarrow> ('a gatestate_scheme, bool) proc" where
  "enqueueCacheWrite t = (\<lambda>s.
     if gt_stopped s then (Inr False, s)
     else if length (gt_queue s) < cacheWriteBufferSize then (Inr True, s\<lparr>gt_queue := gt_queue s @ [t]\<rparr>)
     else (Inr False, s))"

text \<open>Stop closes the channel; what is queued is still run.\<close>

definition stopCacheWrites :: "('a gatestate_scheme, unit) proc" where
  "stopCacheWrites = modP (\<lambda>s. s\<lparr>gt_stopped := True\<rparr>)"

definition whenCached :: "('a gatestate_scheme, unit) proc \<Rightarrow> ('a gatestate_scheme, unit) proc" where
  "whenCached m = (\<lambda>s. if gt_cacheOn s then m s else (Inr (), s))"

definition cacheWriteWorker :: "redisFloat \<Rightarrow> cacheWriteTask \<Rightarrow> ('a gatestate_scheme, unit) proc" where
  "cacheWriteWorker R t = whenCached (ignoreP (case t of
       CacheWriteSetBalance u b \<Rightarrow> cacheSetUserBalance u b
     | CacheWriteSetSubscription u g d \<Rightarrow> cacheSetSubscription u g d
     | CacheWriteUpdateSubscriptionUsage u g a \<Rightarrow> cacheUpdateSubscriptionUsage R u g a
     | CacheWriteDeductBalance u a \<Rightarrow> cacheDeductUserBalance u a
     | CacheWriteUpdateRateLimitUsage k a \<Rightarrow> cacheUpdateAPIKeyRateLimitUsage R k a))"

text \<open>A worker takes the oldest task; the tasks that workers hold finish in any order.\<close>

definition takeTask :: "'a gatestate_scheme \<Rightarrow> 'a gatestate_scheme" where
  "takeTask s = (case gt_queue s of
       [] \<Rightarrow> s
     | t # ts \<Rightarrow> if length (gt_busy s) < cacheWriteWorkerCount then s\<lparr>gt_queue := ts, gt_busy := gt_busy s @ [t]\<rparr> else s)"

definition finishTask :: "redisFloat \<Rightarrow> nat \<Rightarrow> 'a gatestate_scheme \<Rightarrow> 'a gatestate_scheme" where
  "finishTask R i s = (if i < length (gt_busy s)
     then snd (cacheWriteWorker R (gt_busy s ! i) (s\<lparr>gt_busy := take i (gt_busy s) @ drop (Suc i) (gt_busy s)\<rparr>)) else s)"

subsection \<open>Balances\<close>

definition getUserBalanceFromDB :: "int \<Rightarrow> ('a gatestate_scheme, f64) proc" where
  "getUserBalanceFromDB u = bindP (userGetByID u) (\<lambda>x. ret (fst x))"

definition GetUserBalance :: "int \<Rightarrow> ('a gatestate_scheme, f64) proc" where
  "GetUserBalance u = (\<lambda>s.
     if \<not> gt_cacheOn s then getUserBalanceFromDB u s
     else tryP (cacheGetUserBalance u)
       (\<lambda>_. bindP (getUserBalanceFromDB u) (\<lambda>b. bindP (enqueueCacheWrite (CacheWriteSetBalance u b)) (\<lambda>_. ret b)))
       ret s)"

definition DeductBalanceCache :: "int \<Rightarrow> f64 \<Rightarrow> ('a gatestate_scheme, unit) proc" where
  "DeductBalanceCache u a = whenCached (cacheDeductUserBalance u a)"

text \<open>A full queue is worked around, so that a deduction is not lost.\<close>

definition QueueDeductBalance :: "int \<Rightarrow> f64 \<Rightarrow> ('a gatestate_scheme, unit) proc" where
  "QueueDeductBalance u a = whenCached (bindP (enqueueCacheWrite (CacheWriteDeductBalance u a)) (\<lambda>queued.
     if queued then ret () else ignoreP (DeductBalanceCache u a)))"

definition InvalidateUserBalance :: "int \<Rightarrow> ('a gatestate_scheme, unit) proc" where
  "InvalidateUserBalance u = whenCached (cacheInvalidateUserBalance u)"

subsection \<open>Subscriptions\<close>

text \<open>Errors of the queries on grants leave the subscription's own columns, or what was read before.\<close>

definition getSubscriptionFromDB :: "pgnum \<Rightarrow> int \<Rightarrow> int \<Rightarrow> ('a gatestate_scheme, subscriptionCacheData) proc" where
  "getSubscriptionFromDB N u g =
     bindP (subGetActiveByUserIDAndGroupID u g) (\<lambda>sub.
     bindP nowP (\<lambda>t.
     let out = \<lparr>sc_Status = us_Status sub, sc_ExpiresAt = us_ExpiresAt sub, sc_DailyUsage = us_DailyUsageUSD sub,
           sc_WeeklyUsage = us_WeeklyUsageUSD sub, sc_MonthlyUsage = us_MonthlyUsageUSD sub, sc_QuotaMultiplier = 1,
           sc_NextGrantExpiresAt = None, sc_Version = us_UpdatedAt sub div second\<rparr>
     in tryP (CountActiveBySubscriptionID (us_ID sub) t) (\<lambda>_. ret out) (\<lambda>n.
        if n \<le> 0 then ret out
        else let out1 = out\<lparr>sc_QuotaMultiplier := n\<rparr>
        in tryP (SumActiveUsageBySubscriptionID N (us_ID sub) t) (\<lambda>_. ret out1) (\<lambda>(d, w, m).
           let out2 = out1\<lparr>sc_DailyUsage := d, sc_WeeklyUsage := w, sc_MonthlyUsage := m\<rparr>
           in tryP (MinActiveExpiresAtBySubscriptionID (us_ID sub) t) (\<lambda>_. ret out2) (\<lambda>e.
              ret (out2\<lparr>sc_NextGrantExpiresAt := e\<rparr>))))))"

definition GetSubscriptionStatus :: "pgnum \<Rightarrow> int \<Rightarrow> int \<Rightarrow> ('a gatestate_scheme, subscriptionCacheData) proc" where
  "GetSubscriptionStatus N u g = (\<lambda>s.
     if \<not> gt_cacheOn s then getSubscriptionFromDB N u g s
     else tryP (cacheGetSubscription u g)
       (\<lambda>_. bindP (getSubscriptionFromDB N u g) (\<lambda>d. bindP (enqueueCacheWrite (CacheWriteSetSubscription u g d)) (\<lambda>_. ret d)))
       ret s)"

definition QueueUpdateSubscriptionUsage :: "redisFloat \<Rightarrow> int \<Rightarrow> int \<Rightarrow> f64 \<Rightarrow> ('a gatestate_scheme, unit) proc" where
  "QueueUpdateSubscriptionUsage R u g a = whenCached (bindP (enqueueCacheWrite (CacheWriteUpdateSubscriptionUsage u g a)) (\<lambda>queued.
     if queued then ret () else ignoreP (cacheUpdateSubscriptionUsage R u g a)))"

definition InvalidateSubscription :: "int \<Rightarrow> int \<Rightarrow> ('a gatestate_scheme, unit) proc" where
  "InvalidateSubscription u g = whenCached (cacheInvalidateSubscription u g)"

subsection \<open>Rate windows of API keys\<close>

record APIKey =
  ak_ID :: int
  ak_GroupID :: "int option"
  ak_Quota :: f64
  ak_RateLimit5h :: f64
  ak_RateLimit1d :: f64
  ak_RateLimit7d :: f64

definition HasRateLimits :: "APIKey \<Rightarrow> bool" where
  "HasRateLimits k \<longleftrightarrow> flt (Fin 0) (ak_RateLimit5h k) \<or> flt (Fin 0) (ak_RateLimit1d k) \<or> flt (Fin 0) (ak_RateLimit7d k)"

definition ErrAPIKeyRateLimit5hExceeded :: err where "ErrAPIKeyRateLimit5hExceeded = AppErr ''API_KEY_RATE_5H_EXCEEDED''"
definition ErrAPIKeyRateLimit1dExceeded :: err where "ErrAPIKeyRateLimit1dExceeded = AppErr ''API_KEY_RATE_1D_EXCEEDED''"
definition ErrAPIKeyRateLimit7dExceeded :: err where "ErrAPIKeyRateLimit7dExceeded = AppErr ''API_KEY_RATE_7D_EXCEEDED''"

definition IsWindowExpired :: "int \<Rightarrow> int option \<Rightarrow> int \<Rightarrow> bool" where
  "IsWindowExpired now start len = (case start of None \<Rightarrow> True | Some t \<Rightarrow> len \<le> now - t)"

text \<open>The usage and the start of one window.\<close>

type_synonym window = "f64 \<times> int option"

definition GetRateLimitData :: "int \<Rightarrow> ('a gatestate_scheme, window \<times> window \<times> window) proc" where
  "GetRateLimitData k = db ''get rate limits'' (\<lambda>s. (case bw_keys s k of
       None \<Rightarrow> Inl ErrAPIKeyNotFound
     | Some r \<Rightarrow> if k_deleted r then Inl ErrAPIKeyNotFound
         else Inr ((k_usage5h r, k_start5h r), (k_usage1d r, k_start1d r), (k_usage7d r, k_start7d r)), s))"

definition resetUsage :: "int \<Rightarrow> int \<Rightarrow> int option \<Rightarrow> f64 \<Rightarrow> f64" where
  "resetUsage now len start usage = (if windowOver now len start then Fin 0 else usage)"

definition resetStart :: "int \<Rightarrow> int \<Rightarrow> int \<Rightarrow> int option \<Rightarrow> int option" where
  "resetStart now len fresh start = (if windowOver now len start then Some fresh else start)"

definition ResetRateLimitWindows :: "int \<Rightarrow> ('a gatestate_scheme, unit) proc" where
  "ResetRateLimitWindows key = db ''reset rate limits'' (modP (\<lambda>s. case bw_keys s key of
       None \<Rightarrow> s
     | Some k \<Rightarrow> if k_deleted k then s
        else let now = e_now s; today = startOfDayIn (ss_zone s) now
             in s\<lparr>bw_keys := (bw_keys s)(key \<mapsto> k\<lparr>
                  k_usage5h := resetUsage now (5 * hour) (k_start5h k) (k_usage5h k),
                  k_usage1d := resetUsage now (24 * hour) (k_start1d k) (k_usage1d k),
                  k_usage7d := resetUsage now (7 * day) (k_start7d k) (k_usage7d k),
                  k_start5h := resetStart now (5 * hour) now (k_start5h k),
                  k_start1d := resetStart now (24 * hour) today (k_start1d k),
                  k_start7d := resetStart now (7 * day) today (k_start7d k)\<rparr>)\<rparr>))"

text \<open>The goroutine, once it has been started: errors are logged.\<close>

definition runReset :: "'a gatestate_scheme \<Rightarrow> 'a gatestate_scheme" where
  "runReset s = (case gt_resets s of
       [] \<Rightarrow> s
     | k # ks \<Rightarrow> snd (bindP (ignoreP (ResetRateLimitWindows k)) (\<lambda>_. whenCached (ignoreP (cacheInvalidateAPIKeyRateLimit k)))
          (s\<lparr>gt_resets := ks\<rparr>)))"

definition effectiveUsage :: "int \<Rightarrow> int \<Rightarrow> window \<Rightarrow> f64" where
  "effectiveUsage now len w = (if IsWindowExpired now (snd w) len then Fin 0 else fst w)"

definition reached :: "f64 \<Rightarrow> f64 \<Rightarrow> bool" where
  "reached limit usage \<longleftrightarrow> flt (Fin 0) limit \<and> fle limit usage"

definition evaluateRateLimits :: "APIKey \<Rightarrow> window \<Rightarrow> window \<Rightarrow> window \<Rightarrow> ('a gatestate_scheme, unit) proc" where
  "evaluateRateLimits k w5 w1 w7 = bindP nowP (\<lambda>now.
     bindP (if IsWindowExpired now (snd w5) (5 * hour) \<or> IsWindowExpired now (snd w1) (24 * hour) \<or> IsWindowExpired now (snd w7) (7 * day)
            then modP (\<lambda>s. s\<lparr>gt_resets := gt_resets s @ [ak_ID k]\<rparr>) else ret ()) (\<lambda>_.
     if reached (ak_RateLimit5h k) (effectiveUsage now (5 * hour) w5) then fail ErrAPIKeyRateLimit5hExceeded
     else if reached (ak_RateLimit1d k) (effectiveUsage now (24 * hour) w1) then fail ErrAPIKeyRateLimit1dExceeded
     else if reached (ak_RateLimit7d k) (effectiveUsage now (7 * day) w7) then fail ErrAPIKeyRateLimit7dExceeded
     else ret ()))"

definition unixOr0 :: "int option \<Rightarrow> int" where
  "unixOr0 t = (case t of None \<Rightarrow> 0 | Some x \<Rightarrow> x div second)"

definition windowTime :: "int \<Rightarrow> int option" where
  "windowTime w = (if 0 < w then Some (w * second) else None)"

definition cacheEntryOf :: "window \<times> window \<times> window \<Rightarrow> APIKeyRateLimitCacheData" where
  "cacheEntryOf ws = (case ws of (w5, w1, w7) \<Rightarrow> \<lparr>kl_Usage5h = fst w5, kl_Usage1d = fst w1, kl_Usage7d = fst w7,
     kl_Window5h = unixOr0 (snd w5), kl_Window1d = unixOr0 (snd w1), kl_Window7d = unixOr0 (snd w7)\<rparr>)"

definition evaluateCached :: "APIKey \<Rightarrow> APIKeyRateLimitCacheData \<Rightarrow> ('a gatestate_scheme, unit) proc" where
  "evaluateCached k d = evaluateRateLimits k (kl_Usage5h d, windowTime (kl_Window5h d)) (kl_Usage1d d, windowTime (kl_Window1d d))
     (kl_Usage7d d, windowTime (kl_Window7d d))"

text \<open>Errors of the database let the request pass.\<close>

definition checkAPIKeyRateLimits :: "APIKey \<Rightarrow> ('a gatestate_scheme, unit) proc" where
  "checkAPIKeyRateLimits k = (\<lambda>s.
     if \<not> gt_cacheOn s then tryP (GetRateLimitData (ak_ID k)) (\<lambda>_. ret ()) (\<lambda>(w5, w1, w7). evaluateRateLimits k w5 w1 w7) s
     else tryP (cacheGetAPIKeyRateLimit (ak_ID k))
       (\<lambda>_. tryP (GetRateLimitData (ak_ID k)) (\<lambda>_. ret ()) (\<lambda>ws.
          bindP (ignoreP (cacheSetAPIKeyRateLimit (ak_ID k) (cacheEntryOf ws))) (\<lambda>_. evaluateCached k (cacheEntryOf ws))))
       (evaluateCached k) s)"

definition QueueUpdateAPIKeyRateLimitUsage :: "int \<Rightarrow> f64 \<Rightarrow> ('a gatestate_scheme, unit) proc" where
  "QueueUpdateAPIKeyRateLimitUsage k a = whenCached (ignoreP (enqueueCacheWrite (CacheWriteUpdateRateLimitUsage k a)))"

subsection \<open>The gate\<close>

definition ErrSubscriptionInvalid :: err where "ErrSubscriptionInvalid = AppErr ''SUBSCRIPTION_INVALID''"
definition ErrInsufficientBalance :: err where "ErrInsufficientBalance = AppErr ''INSUFFICIENT_BALANCE''"
definition ErrBillingServiceUnavailable :: err where "ErrBillingServiceUnavailable = AppErr ''BILLING_SERVICE_ERROR''"

definition checkBalanceEligibility :: "int \<Rightarrow> ('a gatestate_scheme, unit) proc" where
  "checkBalanceEligibility u = tryP (GetUserBalance u)
     (\<lambda>_. bindP reportFailure (\<lambda>_. fail ErrBillingServiceUnavailable))
     (\<lambda>b. bindP reportSuccess (\<lambda>_. if fle b (Fin 0) then fail ErrInsufficientBalance else ret ()))"

definition limitReached :: "f64 option \<Rightarrow> int \<Rightarrow> f64 \<Rightarrow> bool" where
  "limitReached limit factor usage \<longleftrightarrow> (case limit of None \<Rightarrow> False | Some l \<Rightarrow> fle (fmul l (fl (of_int factor))) usage)"

definition checkSubscriptionEligibility :: "pgnum \<Rightarrow> int \<Rightarrow> Group \<Rightarrow> ('a gatestate_scheme, unit) proc" where
  "checkSubscriptionEligibility N u g = tryP (GetSubscriptionStatus N u (g_ID g))
     (\<lambda>_. bindP reportFailure (\<lambda>_. fail ErrBillingServiceUnavailable))
     (\<lambda>d. bindP reportSuccess (\<lambda>_. bindP nowP (\<lambda>now.
       let factor = (if sc_QuotaMultiplier d < 1 then 1 else sc_QuotaMultiplier d) in
       if sc_Status d \<noteq> SubActive then fail ErrSubscriptionInvalid
       else if sc_ExpiresAt d < now then fail ErrSubscriptionInvalid
       else if HasDailyLimit g \<and> limitReached (g_DailyLimitUSD g) factor (sc_DailyUsage d) then fail ErrDailyLimitExceeded
       else if HasWeeklyLimit g \<and> limitReached (g_WeeklyLimitUSD g) factor (sc_WeeklyUsage d) then fail ErrWeeklyLimitExceeded
       else if HasMonthlyLimit g \<and> limitReached (g_MonthlyLimitUSD g) factor (sc_MonthlyUsage d) then fail ErrMonthlyLimitExceeded
       else ret ())))"

text \<open>\<open>simple\<close> is the run mode without billing; \<open>hasSub\<close> is whether the caller has a subscription.\<close>

definition CheckBillingEligibility :: "pgnum \<Rightarrow> bool \<Rightarrow> int \<Rightarrow> APIKey option \<Rightarrow> Group option \<Rightarrow> bool \<Rightarrow> ('a gatestate_scheme, unit) proc" where
  "CheckBillingEligibility N simple u key grp hasSub =
     (if simple then ret ()
      else bindP askBreaker (\<lambda>ok.
        if \<not> ok then fail ErrBillingServiceUnavailable
        else bindP (case grp of
               Some g \<Rightarrow> if IsSubscriptionType g \<and> hasSub then checkSubscriptionEligibility N u g else checkBalanceEligibility u
             | None \<Rightarrow> checkBalanceEligibility u) (\<lambda>_.
           case key of
             Some k \<Rightarrow> if HasRateLimits k then checkAPIKeyRateLimits k else ret ()
           | None \<Rightarrow> ret ())))"

end
