(* ===== verification/BillingSettlement.thy ===== *)
theory BillingSettlement
  imports BillingGate
begin

section \<open>From a request's cost to the bill\<close>

text \<open>
  The end of a request in service/gateway_service.go: the command that is made of the cost and the
  usage, the transaction that bills it, and the cache writes that follow; the path without the
  billing repository, which writes table by table (with repository/gift_balance_repo.go and the
  quota updates of repository/api_key_repo.go and account_repo.go).  Notifications by e-mail are
  left out.  An account is what billing reads of it.  \<open>gt_authInvalidated\<close> and \<open>gt_lastUsed\<close> are
  the keys and accounts that the services told about a bill were called with.
\<close>

record billAccount =
  ba_ID :: int
  ba_Type :: string
  ba_QuotaLimit :: f64
  ba_QuotaDailyLimit :: f64
  ba_QuotaWeeklyLimit :: f64

definition IsAPIKeyOrBedrock :: "billAccount \<Rightarrow> bool" where
  "IsAPIKeyOrBedrock a \<longleftrightarrow> ba_Type a = ''apikey'' \<or> ba_Type a = ''bedrock''"

definition HasAnyQuotaLimit :: "billAccount \<Rightarrow> bool" where
  "HasAnyQuotaLimit a \<longleftrightarrow> flt (Fin 0) (ba_QuotaLimit a) \<or> flt (Fin 0) (ba_QuotaDailyLimit a) \<or> flt (Fin 0) (ba_QuotaWeeklyLimit a)"

text \<open>The cost, of which billing reads two sums, and whose bill it is.\<close>

record postUsageBillingParams =
  pb_TotalCost :: f64
  pb_ActualCost :: f64
  pb_UserID :: int
  pb_APIKey :: APIKey
  pb_Group :: "Group option"
  pb_Account :: billAccount
  pb_Subscription :: "int option"
  pb_BilledAt :: int
  pb_RequestPayloadHash :: string
  pb_IsSubscriptionBill :: bool
  pb_AccountRateMultiplier :: f64
  pb_APIKeyService :: bool

record billedUsage =
  bu_Model :: string
  bu_BillingType :: int
  bu_InputTokens :: int
  bu_OutputTokens :: int
  bu_CacheCreationTokens :: int
  bu_CacheReadTokens :: int
  bu_ImageCount :: int
  bu_ServiceTier :: "string option"
  bu_ReasoningEffort :: "string option"
  bu_SubscriptionID :: "int option"

subsection \<open>The command\<close>

definition derefText :: "string option \<Rightarrow> string" where
  "derefText v = (case v of None \<Rightarrow> [] | Some t \<Rightarrow> t)"

definition shouldDeductAPIKeyQuota :: "postUsageBillingParams \<Rightarrow> bool" where
  "shouldDeductAPIKeyQuota p \<longleftrightarrow> flt (Fin 0) (pb_ActualCost p) \<and> flt (Fin 0) (ak_Quota (pb_APIKey p)) \<and> pb_APIKeyService p"

definition shouldUpdateRateLimits :: "postUsageBillingParams \<Rightarrow> bool" where
  "shouldUpdateRateLimits p \<longleftrightarrow> flt (Fin 0) (pb_ActualCost p) \<and> HasRateLimits (pb_APIKey p) \<and> pb_APIKeyService p"

definition shouldUpdateAccountQuota :: "postUsageBillingParams \<Rightarrow> bool" where
  "shouldUpdateAccountQuota p \<longleftrightarrow> flt (Fin 0) (pb_TotalCost p) \<and> IsAPIKeyOrBedrock (pb_Account p) \<and> HasAnyQuotaLimit (pb_Account p)"

text \<open>The ids of the request's context; \<open>fresh\<close> is a generated one.\<close>

definition resolveUsageBillingRequestID :: "string \<Rightarrow> string option \<Rightarrow> string option \<Rightarrow> string \<Rightarrow> string" where
  "resolveUsageBillingRequestID fresh clientID requestID upstreamID =
     (if trimSpace (derefText clientID) \<noteq> [] then ''client:'' @ trimSpace (derefText clientID)
      else if trimSpace (derefText requestID) \<noteq> [] then ''local:'' @ trimSpace (derefText requestID)
      else if trimSpace upstreamID \<noteq> [] then trimSpace upstreamID
      else ''generated:'' @ fresh)"

definition resolveUsageBillingPayloadFingerprint :: "string option \<Rightarrow> string option \<Rightarrow> string \<Rightarrow> string" where
  "resolveUsageBillingPayloadFingerprint clientID requestID payloadHash =
     (if trimSpace payloadHash \<noteq> [] then trimSpace payloadHash
      else if trimSpace (derefText clientID) \<noteq> [] then ''client:'' @ trimSpace (derefText clientID)
      else if trimSpace (derefText requestID) \<noteq> [] then ''local:'' @ trimSpace (derefText requestID)
      else [])"

definition billsSubscription :: "postUsageBillingParams \<Rightarrow> bool" where
  "billsSubscription p \<longleftrightarrow> pb_IsSubscriptionBill p \<and> pb_Subscription p \<noteq> None \<and> flt (Fin 0) (pb_TotalCost p)"

definition buildUsageBillingCommand :: "string \<Rightarrow> billedUsage option \<Rightarrow> postUsageBillingParams \<Rightarrow> UsageBillingCommand" where
  "buildUsageBillingCommand requestID usage p = normalizeCommand
     \<lparr>c_RequestID = requestID, c_APIKeyID = ak_ID (pb_APIKey p), c_RequestFingerprint = [],
      c_RequestPayloadHash = trimSpace (pb_RequestPayloadHash p), c_BilledAt = pb_BilledAt p, c_UserID = pb_UserID p,
      c_AccountID = ba_ID (pb_Account p),
      c_SubscriptionID = (if billsSubscription p then pb_Subscription p else case usage of None \<Rightarrow> None | Some l \<Rightarrow> bu_SubscriptionID l),
      c_AccountType = ba_Type (pb_Account p),
      c_Model = (case usage of None \<Rightarrow> [] | Some l \<Rightarrow> bu_Model l),
      c_ServiceTier = (case usage of None \<Rightarrow> [] | Some l \<Rightarrow> derefText (bu_ServiceTier l)),
      c_ReasoningEffort = (case usage of None \<Rightarrow> [] | Some l \<Rightarrow> derefText (bu_ReasoningEffort l)),
      c_BillingType = (case usage of None \<Rightarrow> 0 | Some l \<Rightarrow> bu_BillingType l),
      c_InputTokens = (case usage of None \<Rightarrow> 0 | Some l \<Rightarrow> bu_InputTokens l),
      c_OutputTokens = (case usage of None \<Rightarrow> 0 | Some l \<Rightarrow> bu_OutputTokens l),
      c_CacheCreationTokens = (case usage of None \<Rightarrow> 0 | Some l \<Rightarrow> bu_CacheCreationTokens l),
      c_CacheReadTokens = (case usage of None \<Rightarrow> 0 | Some l \<Rightarrow> bu_CacheReadTokens l),
      c_ImageCount = (case usage of None \<Rightarrow> 0 | Some l \<Rightarrow> bu_ImageCount l), c_MediaType = [],
      c_BalanceCost = (if \<not> billsSubscription p \<and> flt (Fin 0) (pb_ActualCost p) then pb_ActualCost p else Fin 0),
      c_SubscriptionCost = (if billsSubscription p then pb_TotalCost p else Fin 0),
      c_APIKeyQuotaCost = (if shouldDeductAPIKeyQuota p then pb_ActualCost p else Fin 0),
      c_APIKeyRateLimitCost = (if shouldUpdateRateLimits p then pb_ActualCost p else Fin 0),
      c_AccountQuotaCost = (if shouldUpdateAccountQuota p then fmul (pb_TotalCost p) (pb_AccountRateMultiplier p) else Fin 0),
      c_UsageLog = None\<rparr>"

subsection \<open>Billing table by table\<close>

text \<open>An error gives what has been taken so far besides.\<close>

fun giftFIFOLoop :: "pgnum \<Rightarrow> f64 \<Rightarrow> f64 \<Rightarrow> gift_row list \<Rightarrow> ('a gatestate_scheme, f64) proc" where
  "giftFIFOLoop N remaining deducted [] = ret deducted"
| "giftFIFOLoop N remaining deducted (g # gs) =
    (if fle remaining (Fin 0) then ret deducted
     else let deduct = (if flt remaining (gb_remaining g) then remaining else gb_remaining g)
          in bindP (setGiftRemaining N (gb_id g) (fsub (gb_remaining g) deduct))
               (\<lambda>_. giftFIFOLoop N (fsub remaining deduct) (fadd deducted deduct) gs))"

definition DeductFIFO :: "pgnum \<Rightarrow> int \<Rightarrow> f64 \<Rightarrow> ('a gatestate_scheme, f64) proc" where
  "DeductFIFO N user amount =
     (if fle amount (Fin 0) then ret (Fin 0)
      else bindP (db ''available gifts'' (getP (\<lambda>s. sortBy (giftOrder (ss_zone s)) (filter (giftSpendable user (e_now s)) (bw_gifts s)))))
        (giftFIFOLoop N amount (Fin 0)))"

definition IncrementQuotaUsedAndGetState :: "pgnum \<Rightarrow> int \<Rightarrow> f64 \<Rightarrow> ('a gatestate_scheme, string) proc" where
  "IncrementQuotaUsedAndGetState N key amount = db ''increment key quota'' (\<lambda>s. case bw_keys s key of
       None \<Rightarrow> (Inl ErrAPIKeyNotFound, s)
     | Some k \<Rightarrow>
        if k_deleted k then (Inl ErrAPIKeyNotFound, s)
        else let raw = n_plus N (k_quotaUsed k) amount;
                 status = (if flt (Fin 0) (k_quota k) \<and> fle (k_quota k) raw then ''quota_exhausted'' else k_status k)
             in (Inr status, s\<lparr>bw_keys := (bw_keys s)(key \<mapsto> k\<lparr>k_quotaUsed := n_store8 N raw, k_status := status\<rparr>)\<rparr>))"

definition UpdateQuotaUsed :: "pgnum \<Rightarrow> int \<Rightarrow> f64 \<Rightarrow> ('a gatestate_scheme, unit) proc" where
  "UpdateQuotaUsed N key cost =
     (if fle cost (Fin 0) then ret ()
      else bindP (IncrementQuotaUsedAndGetState N key cost) (\<lambda>status.
        if status = ''quota_exhausted'' then modP (\<lambda>s. s\<lparr>gt_authInvalidated := gt_authInvalidated s @ [key]\<rparr>) else ret ()))"

text \<open>A key that is gone is no error here.\<close>

definition IncrementRateLimitUsage :: "pgnum \<Rightarrow> int \<Rightarrow> f64 \<Rightarrow> ('a gatestate_scheme, unit) proc" where
  "IncrementRateLimitUsage N key cost = db ''increment rate limits'' (modP (\<lambda>s. case bw_keys s key of
       None \<Rightarrow> s
     | Some k \<Rightarrow> if k_deleted k then s
        else let now = e_now s; today = startOfDayIn (ss_zone s) now
             in s\<lparr>bw_keys := (bw_keys s)(key \<mapsto> k\<lparr>
                  k_usage5h := windowUsage N now (5 * hour) cost (k_start5h k) (k_usage5h k),
                  k_usage1d := windowUsage N now (24 * hour) cost (k_start1d k) (k_usage1d k),
                  k_usage7d := windowUsage N now (7 * day) cost (k_start7d k) (k_usage7d k),
                  k_start5h := windowStart now (5 * hour) now (k_start5h k),
                  k_start1d := windowStart now (24 * hour) today (k_start1d k),
                  k_start7d := windowStart now (7 * day) today (k_start7d k)\<rparr>)\<rparr>))"

definition UpdateRateLimitUsage :: "pgnum \<Rightarrow> int \<Rightarrow> f64 \<Rightarrow> ('a gatestate_scheme, unit) proc" where
  "UpdateRateLimitUsage N key cost = (if fle cost (Fin 0) then ret () else IncrementRateLimitUsage N key cost)"

definition IncrementQuotaUsed :: "pgnum \<Rightarrow> int \<Rightarrow> f64 \<Rightarrow> ('a gatestate_scheme, unit) proc" where
  "IncrementQuotaUsed N acc amount =
     bindP (db ''increment account quota'' (\<lambda>s. case bw_quotas s acc of
         None \<Rightarrow> (Inr (Fin 0, Fin 0), s)
       | Some q \<Rightarrow> if q_deleted q then (Inr (Fin 0, Fin 0), s)
           else let q' = addQuota N (e_now s) amount q in (Inr (q_used q', q_limit q'), s\<lparr>bw_quotas := (bw_quotas s)(acc \<mapsto> q')\<rparr>)))
     (\<lambda>(used, limit).
       if flt (Fin 0) limit \<and> fle limit used \<and> flt (fsub used amount) limit then ignoreP (publishAccountChanged acc) else ret ())"

definition legacySubscription :: "pgnum \<Rightarrow> redisFloat \<Rightarrow> postUsageBillingParams \<Rightarrow> ('a gatestate_scheme, unit) proc" where
  "legacySubscription N R p =
     (if \<not> flt (Fin 0) (pb_TotalCost p) then ret ()
      else case pb_Subscription p of
        None \<Rightarrow> fail (Internal ''nil pointer'')
      | Some sub \<Rightarrow>
        bindP nowP (\<lambda>now.
        bindP (ignoreP (AllocateUsageToActiveGrants N sub (pb_Group p) (if pb_BilledAt p = zeroTime then now else pb_BilledAt p) (pb_TotalCost p))) (\<lambda>_.
        bindP (ignoreP (IncrementUsage N sub (pb_TotalCost p))) (\<lambda>_.
        case ak_GroupID (pb_APIKey p) of None \<Rightarrow> ret () | Some g \<Rightarrow> QueueUpdateSubscriptionUsage R (pb_UserID p) g (pb_TotalCost p)))))"

text \<open>When a gift cannot be written, the whole cost is taken from the balance, whatever other gifts have paid.\<close>

definition legacyBalance :: "pgnum \<Rightarrow> postUsageBillingParams \<Rightarrow> ('a gatestate_scheme, unit) proc" where
  "legacyBalance N p =
     (if \<not> flt (Fin 0) (pb_ActualCost p) then ret ()
      else bindP (tryP (DeductFIFO N (pb_UserID p) (pb_ActualCost p)) (\<lambda>_. ret (pb_ActualCost p)) (\<lambda>paid. ret (fsub (pb_ActualCost p) paid))) (\<lambda>rest.
        if flt tenThousandth rest then ignoreP (DeductBalance N (pb_UserID p) rest) else ret ()))"

definition postUsageBilling :: "pgnum \<Rightarrow> redisFloat \<Rightarrow> postUsageBillingParams \<Rightarrow> ('a gatestate_scheme, unit) proc" where
  "postUsageBilling N R p =
     bindP (if pb_IsSubscriptionBill p then legacySubscription N R p else legacyBalance N p) (\<lambda>_.
     bindP (if shouldDeductAPIKeyQuota p then ignoreP (UpdateQuotaUsed N (ak_ID (pb_APIKey p)) (pb_ActualCost p)) else ret ()) (\<lambda>_.
     bindP (if shouldUpdateRateLimits p then ignoreP (UpdateRateLimitUsage N (ak_ID (pb_APIKey p)) (pb_ActualCost p)) else ret ()) (\<lambda>_.
     if shouldUpdateAccountQuota p then ignoreP (IncrementQuotaUsed N (ba_ID (pb_Account p)) (fmul (pb_TotalCost p) (pb_AccountRateMultiplier p)))
     else ret ())))"

subsection \<open>The bill and what follows\<close>

definition ScheduleLastUsedUpdate :: "int \<Rightarrow> ('a gatestate_scheme, unit) proc" where
  "ScheduleLastUsedUpdate acc = modP (\<lambda>s. s\<lparr>gt_lastUsed := gt_lastUsed s @ [acc]\<rparr>)"

definition finalizePostUsageBilling :: "redisFloat \<Rightarrow> postUsageBillingParams \<Rightarrow> ('a gatestate_scheme, unit) proc" where
  "finalizePostUsageBilling R p =
     bindP (if pb_IsSubscriptionBill p
            then (case ak_GroupID (pb_APIKey p) of
                None \<Rightarrow> ret ()
              | Some g \<Rightarrow> if flt (Fin 0) (pb_TotalCost p) then QueueUpdateSubscriptionUsage R (pb_UserID p) g (pb_TotalCost p) else ret ())
            else if flt (Fin 0) (pb_ActualCost p) then QueueDeductBalance (pb_UserID p) (pb_ActualCost p) else ret ()) (\<lambda>_.
     bindP (if flt (Fin 0) (pb_ActualCost p) \<and> HasRateLimits (pb_APIKey p)
            then QueueUpdateAPIKeyRateLimitUsage (ak_ID (pb_APIKey p)) (pb_ActualCost p) else ret ()) (\<lambda>_.
     ScheduleLastUsedUpdate (ba_ID (pb_Account p))))"

text \<open>\<open>hasRepo\<close> is whether there is a billing repository, as there is in production.\<close>

definition applyUsageBilling :: "pgnum \<Rightarrow> 'd decimal \<Rightarrow> redisFloat \<Rightarrow> bool \<Rightarrow> string \<Rightarrow> billedUsage option \<Rightarrow> postUsageBillingParams \<Rightarrow> ('a gatestate_scheme, bool) proc" where
  "applyUsageBilling N D R hasRepo requestID usage p =
     (let cmd = buildUsageBillingCommand requestID usage p in
      if c_RequestID cmd = [] \<or> \<not> hasRepo then bindP (postUsageBilling N R p) (\<lambda>_. ret True)
      else bindP (ApplyUsageBilling N D (Some cmd)) (\<lambda>result.
        if \<not> r_Applied result then bindP (ScheduleLastUsedUpdate (ba_ID (pb_Account p))) (\<lambda>_. ret False)
        else bindP (if r_APIKeyQuotaExhausted result then modP (\<lambda>s. s\<lparr>gt_authInvalidated := gt_authInvalidated s @ [ak_ID (pb_APIKey p)]\<rparr>) else ret ()) (\<lambda>_.
             bindP (finalizePostUsageBilling R p) (\<lambda>_. ret True))))"

end
