(* ===== verification/BillingGateFacts.thy ===== *)
theory BillingGateFacts
  imports BillingSettlement
begin

section \<open>What the gate lets through\<close>

text \<open>
  The breaker bounds how often a billing database that is down is asked; no request passes the gate
  without money, a valid subscription below its limits or an unreached rate limit in what was read,
  whatever fails; gifts do not count; and a subscription in the cache lives on while it is used.
\<close>

subsection \<open>The breaker\<close>

datatype breakerEvent = Asked int | Failed int

fun eventTime :: "breakerEvent \<Rightarrow> int" where
  "eventTime (Asked t) = t"
| "eventTime (Failed t) = t"

text \<open>How many requests pass, when the requests ask and report failures in the given order.\<close>

fun passed :: "billingCircuitBreaker \<Rightarrow> breakerEvent list \<Rightarrow> int" where
  "passed b [] = 0"
| "passed b (Asked t # es) = (let (ok, b') = breakerAllow t b in (if ok then 1 else 0) + passed b' es)"
| "passed b (Failed t # es) = passed (OnFailure t b) es"

definition periods :: "billingCircuitBreaker \<Rightarrow> int \<Rightarrow> int \<Rightarrow> int" where
  "periods b t0 t = br_halfOpenRequests b * ((t - t0) div br_resetTimeout b)"

text \<open>What may have passed until \<open>t\<close>, when \<open>n\<close> requests have.\<close>

definition bounded :: "int \<Rightarrow> int \<Rightarrow> int \<Rightarrow> billingCircuitBreaker \<Rightarrow> bool" where
  "bounded t0 t n b \<longleftrightarrow> 0 < br_resetTimeout b \<and> 0 \<le> br_halfOpenRequests b \<and>
     (case br_state b of
        BillingCircuitClosed \<Rightarrow> False
      | BillingCircuitOpen \<Rightarrow> n \<le> periods b t0 (br_openedAt b) \<and> br_openedAt b \<le> t
      | BillingCircuitHalfOpen \<Rightarrow> 0 \<le> br_halfOpenRemaining b \<and> n + br_halfOpenRemaining b \<le> periods b t0 t)"

lemma periods_mono: "0 < br_resetTimeout b \<Longrightarrow> 0 \<le> br_halfOpenRequests b \<Longrightarrow> t \<le> t' \<Longrightarrow> periods b t0 t \<le> periods b t0 t'"
  by (simp add: periods_def mult_left_mono zdiv_mono1)

lemma periods_next:
  assumes "0 < br_resetTimeout b" and "0 \<le> br_halfOpenRequests b" and "t + br_resetTimeout b \<le> t'"
  shows "periods b t0 t + br_halfOpenRequests b \<le> periods b t0 t'"
proof -
  have "(t - t0) div br_resetTimeout b + 1 = (t - t0 + br_resetTimeout b) div br_resetTimeout b" using assms(1) by simp
  also have "\<dots> \<le> (t' - t0) div br_resetTimeout b" using assms(1,3) by (intro zdiv_mono1) simp_all
  finally have "br_halfOpenRequests b * ((t - t0) div br_resetTimeout b + 1) \<le> br_halfOpenRequests b * ((t' - t0) div br_resetTimeout b)"
    using assms(2) by (intro mult_left_mono) simp_all
  then show ?thesis by (simp add: periods_def distrib_left)
qed

lemma bounded_count:
  assumes "bounded t0 t n b" and "t \<le> T"
  shows "n \<le> periods b t0 T"
proof -
  have "n \<le> periods b t0 t"
    using assms(1) periods_mono [of b "br_openedAt b" t t0] by (auto simp: bounded_def split: billingCircuitBreakerState.splits)
  then show ?thesis using assms periods_mono [of b t T t0] by (auto simp: bounded_def)
qed

lemma bounded_later:
  assumes "bounded t0 t n b" and "t \<le> t'"
  shows "bounded t0 t' n b"
  using assms periods_mono [of b t t' t0] by (auto simp: bounded_def split: billingCircuitBreakerState.splits)

lemma bounded_fail: "bounded t0 t n b \<Longrightarrow> bounded t0 t n (OnFailure t b)"
  by (auto simp: bounded_def OnFailure_def tripped_def periods_def split: billingCircuitBreakerState.splits)

lemma bounded_ask:
  assumes "bounded t0 t n b" and "breakerAllow t b = (ok, b')"
  shows "bounded t0 t (n + (if ok then 1 else 0)) b'"
proof (cases "br_state b")
  case BillingCircuitOpen
  with assms have b: "0 < br_resetTimeout b" "0 \<le> br_halfOpenRequests b" "n \<le> periods b t0 (br_openedAt b)" by (auto simp: bounded_def)
  show ?thesis
  proof (cases "t - br_openedAt b < br_resetTimeout b")
    case True
    then show ?thesis using assms BillingCircuitOpen by (auto simp: breakerAllow_def)
  next
    case False
    then have "n + br_halfOpenRequests b \<le> periods b t0 t" using b(3) periods_next [OF b(1,2), of "br_openedAt b" t t0] by linarith
    then show ?thesis
      using assms BillingCircuitOpen False b by (auto simp: breakerAllow_def halfOpenAllow_def bounded_def periods_def split: if_splits)
  qed
next
  case BillingCircuitHalfOpen
  then show ?thesis using assms by (auto simp: breakerAllow_def halfOpenAllow_def bounded_def periods_def split: if_splits)
qed (use assms in \<open>simp add: bounded_def\<close>)

lemma allow_keeps:
  "breakerAllow t b = (ok, b') \<Longrightarrow> br_resetTimeout b' = br_resetTimeout b \<and> br_halfOpenRequests b' = br_halfOpenRequests b"
  by (auto simp: breakerAllow_def halfOpenAllow_def split: billingCircuitBreakerState.splits if_splits)

lemma fail_keeps: "br_resetTimeout (OnFailure t b) = br_resetTimeout b" "br_halfOpenRequests (OnFailure t b) = br_halfOpenRequests b"
  "br_failureThreshold (OnFailure t b) = br_failureThreshold b"
  by (auto simp: OnFailure_def tripped_def Let_def split: billingCircuitBreakerState.splits)

lemma passed_bounded:
  assumes "bounded t0 t n b" and "sorted (t # map eventTime es)" and "list_all (\<lambda>e. eventTime e \<le> T) es" and "t \<le> T"
  shows "n + passed b es \<le> periods b t0 T"
  using assms
proof (induction b es arbitrary: n t rule: passed.induct)
  case (1 b)
  then show ?case using bounded_count by simp
next
  case (2 b x es)
  obtain ok b' where a: "breakerAllow x b = (ok, b')" by fastforce
  have "bounded t0 x n b" using "2.prems" by (intro bounded_later [of t0 t n b x]) simp_all
  then have "n + (if ok then 1 else 0) + passed b' es \<le> periods b' t0 T"
    using "2.prems" by (intro "2.IH" [OF a [symmetric] refl bounded_ask [OF _ a]]) simp_all
  then show ?case using allow_keeps [OF a] by (simp add: a periods_def)
next
  case (3 b x es)
  have "bounded t0 x n b" using "3.prems" by (intro bounded_later [of t0 t n b x]) simp_all
  then have "n + passed (OnFailure x b) es \<le> periods (OnFailure x b) t0 T"
    using "3.prems" by (intro "3.IH" [OF bounded_fail]) simp_all
  then show ?case by (simp add: periods_def fail_keeps)
qed

text \<open>A breaker that was just made opens with the failure that reaches the threshold.\<close>

definition afterFailures :: "int list \<Rightarrow> billingCircuitBreaker \<Rightarrow> billingCircuitBreaker" where
  "afterFailures ts b = fold OnFailure ts b"

lemma failures_counted:
  assumes "br_state b = BillingCircuitClosed" and "br_failures b + int (length ts) < br_failureThreshold b"
  shows "br_state (afterFailures ts b) = BillingCircuitClosed \<and> br_failures (afterFailures ts b) = br_failures b + int (length ts)"
  using assms
proof (induction ts arbitrary: b)
  case (Cons t ts)
  then have "OnFailure t b = b\<lparr>br_failures := br_failures b + 1\<rparr>" by (simp add: OnFailure_def)
  then show ?case using Cons.IH [of "OnFailure t b"] Cons.prems by (simp add: afterFailures_def)
qed (simp add: afterFailures_def)

lemma failing_keeps: "br_resetTimeout (afterFailures ts b) = br_resetTimeout b" "br_halfOpenRequests (afterFailures ts b) = br_halfOpenRequests b"
  "br_failureThreshold (afterFailures ts b) = br_failureThreshold b"
  by (induction ts arbitrary: b) (simp_all add: afterFailures_def fail_keeps)

lemma fresh_breaker:
  assumes "newBillingCircuitBreaker cfg = Some b"
  shows "br_state b = BillingCircuitClosed" "br_failures b = 0" "0 < br_failureThreshold b" "0 < br_resetTimeout b" "0 < br_halfOpenRequests b"
  using assms by (auto simp: newBillingCircuitBreaker_def second_def split: if_splits)

lemma opens_at_threshold:
  assumes "newBillingCircuitBreaker cfg = Some b" and "int (length ts) + 1 = br_failureThreshold b"
  shows "br_state (afterFailures (ts @ [t0]) b) = BillingCircuitOpen" "br_openedAt (afterFailures (ts @ [t0]) b) = t0"
proof -
  have "br_state (afterFailures ts b) = BillingCircuitClosed \<and> br_failures (afterFailures ts b) = int (length ts)"
    using failures_counted [of b ts] fresh_breaker [OF assms(1)] assms(2) by simp
  then show "br_state (afterFailures (ts @ [t0]) b) = BillingCircuitOpen" "br_openedAt (afterFailures (ts @ [t0]) b) = t0"
    using assms(2) failing_keeps(3) [of ts b] by (simp_all add: afterFailures_def OnFailure_def tripped_def)
qed


subsection \<open>What was read\<close>

text \<open>The balance and the subscription that the gate may have seen: the cache's, or the table's.\<close>

definition seenBalance :: "'a gatestate_scheme \<Rightarrow> int \<Rightarrow> f64 \<Rightarrow> bool" where
  "seenBalance s u b \<longleftrightarrow> (gt_cacheOn s \<and> cached (gt_balances s) u s = Some b) \<or> bw_balance s u = Some b"

definition seenSubscription :: "'a gatestate_scheme \<Rightarrow> int \<Rightarrow> int \<Rightarrow> subscriptionCacheData \<Rightarrow> bool" where
  "seenSubscription s u g d \<longleftrightarrow>
     (gt_cacheOn s \<and> (\<exists>h. cached (gt_subs s) (u, g) s = Some h \<and> parseSubscriptionCache h = Inr d)) \<or>
     (\<exists>r \<in> set (ss_subs s). liveFor u g r \<and> e_now s < us_ExpiresAt (row_sub r) \<and> sc_Status d = us_Status (row_sub r) \<and>
        sc_ExpiresAt d = us_ExpiresAt (row_sub r))"

text \<open>What reading leaves as it is.\<close>

definition asRead :: "'a gatestate_scheme \<Rightarrow> 'a gatestate_scheme \<Rightarrow> bool" where
  "asRead s t \<longleftrightarrow> e_now t = e_now s \<and> gt_skew t = gt_skew s \<and> gt_cacheOn t = gt_cacheOn s \<and> gt_balances t = gt_balances s \<and>
     gt_subs t = gt_subs s \<and> gt_rates t = gt_rates s \<and> bw_balance t = bw_balance s \<and> ss_subs t = ss_subs s \<and>
     (gt_cacheFaults s = [] \<longrightarrow> gt_cacheFaults t = [])"

lemma asRead_refl [simp]: "asRead s s"
  by (simp add: asRead_def)

lemma liveEntry_asRead: "asRead s t \<Longrightarrow> liveEntry t e = liveEntry s e"
  by (simp add: asRead_def liveEntry_def cacheMillis_def split: option.split)

lemma cached_asRead: "asRead s t \<Longrightarrow> cached m k t = cached m k s"
  by (cases "m k") (simp_all add: cached_def liveEntry_asRead)

lemma asRead_seen:
  assumes "asRead s t"
  shows "seenBalance t = seenBalance s" and "seenSubscription t = seenSubscription s" and "cached (gt_rates t) k t = cached (gt_rates s) k s"
  using assms by (simp_all add: seenBalance_def seenSubscription_def fun_eq_iff cached_asRead [OF assms]) (simp_all add: asRead_def)

lemma keeps_cacheCall:
  assumes "keepsP (asRead s) act"
  shows "keepsP (asRead s) (cacheCall tag act)"
proof (rule keepsPI)
  fix t assume t: "asRead s t"
  have "asRead s (t\<lparr>gt_cacheFaults := fs\<rparr>)" if "gt_cacheFaults t \<noteq> []" for fs using t that by (auto simp: asRead_def)
  then show "asRead s (snd (cacheCall tag act t))"
    using t assms by (auto simp: cacheCall_def keepsP_def split: list.splits option.splits callFault.splits)
qed

lemma keeps_cacheRead:
  "keepsP (asRead s) (cacheGetUserBalance u)" "keepsP (asRead s) (cacheGetSubscription u g)" "keepsP (asRead s) (cacheGetAPIKeyRateLimit k)"
  unfolding cacheGetUserBalance_def cacheGetSubscription_def cacheGetAPIKeyRateLimit_def
  by (rule keeps_cacheCall, simp add: keepsP_def)+

lemma keeps_dbread: "(\<And>t. snd (f t) = t) \<Longrightarrow> keepsP (asRead s) (db tag f)"
  by (rule keeps_db) (auto simp: asRead_def keepsP_def)

lemma keeps_enqueue: "keepsP (asRead s) (enqueueCacheWrite t)"
  by (auto simp: keepsP_def enqueueCacheWrite_def asRead_def)

lemma keeps_reports: "keepsP (asRead s) reportFailure" "keepsP (asRead s) reportSuccess" "keepsP (asRead s) askBreaker"
  by (auto simp: keepsP_def reportFailure_def reportSuccess_def askBreaker_def modP_def asRead_def split: option.splits prod.splits)

lemma keeps_balance: "keepsP (asRead s) (getUserBalanceFromDB u)"
  unfolding getUserBalanceFromDB_def userGetByID_def
  by (intro keeps_bindP keeps_dbread keeps_ret) (auto split: option.splits)

lemma keeps_subscription: "keepsP (asRead s) (getSubscriptionFromDB N u g)"
  unfolding getSubscriptionFromDB_def subGetActiveByUserIDAndGroupID_def CountActiveBySubscriptionID_def SumActiveUsageBySubscriptionID_def
    MinActiveExpiresAtBySubscriptionID_def nowP_def
  by (intro keeps_bindP keeps_tryP keeps_let keeps_if keeps_dbread keeps_getP keeps_ret) (auto simp: Let_def split: prod.split intro!: keeps_tryP keeps_ret keeps_dbread)

lemma keeps_GetUserBalance: "keepsP (asRead s) (GetUserBalance u)"
  unfolding GetUserBalance_def
  by (rule keepsPI) (auto intro!: keepsPD [OF keeps_balance] keepsPD [OF keeps_tryP] keeps_cacheRead keeps_bindP keeps_balance keeps_enqueue keeps_ret)

lemma keeps_GetSubscriptionStatus: "keepsP (asRead s) (GetSubscriptionStatus N u g)"
  unfolding GetSubscriptionStatus_def
  by (rule keepsPI) (auto intro!: keepsPD [OF keeps_subscription] keepsPD [OF keeps_tryP] keeps_cacheRead keeps_bindP keeps_subscription keeps_enqueue keeps_ret)

lemma read_result: "keepsP (asRead s) m \<Longrightarrow> m s = (r, t) \<Longrightarrow> asRead s t"
  using keepsPD [of "asRead s" m s] by simp

lemma bindP_value: "bindP m f s = (Inr b, t) \<longleftrightarrow> (\<exists>a s1. m s = (Inr a, s1) \<and> f a s1 = (Inr b, t))"
  by (auto simp: bindP_def split: prod.splits sum.splits)

lemma tryP_value: "tryP m h k s = (Inr b, t) \<longleftrightarrow> (\<exists>a s1. m s = (Inr a, s1) \<and> k a s1 = (Inr b, t)) \<or> (\<exists>e s1. m s = (Inl e, s1) \<and> h e s1 = (Inr b, t))"
  by (auto simp: tryP_def split: prod.splits sum.splits)

lemma cacheCall_Inr:
  assumes "cacheCall tag (\<lambda>s. (f s, s)) s = (Inr v, t)"
  shows "\<exists>fs. f (s\<lparr>gt_cacheFaults := fs\<rparr>) = Inr v"
  using assms by (auto simp: cacheCall_def split: list.splits option.splits callFault.splits)
    (metis gatestate.surjective gatestate.update_convs(6))

lemma balance_from_table:
  assumes "getUserBalanceFromDB u s = (Inr b, t)"
  shows "bw_balance s u = Some b"
  using assms by (auto simp: getUserBalanceFromDB_def bindP_value userGetByID_def db_def ret_def split: list.splits if_splits option.splits)

lemma cached_faults: "cached m k (s\<lparr>gt_cacheFaults := fs\<rparr>) = cached m k s"
  by (cases "m k") (auto simp: cached_def liveEntry_def cacheMillis_def split: option.split)

lemma balance_seen:
  assumes "GetUserBalance u s = (Inr b, t)"
  shows "seenBalance s u b"
proof (cases "gt_cacheOn s")
  case False
  with assms show ?thesis by (auto simp: GetUserBalance_def seenBalance_def dest: balance_from_table)
next
  case True
  with assms consider (hit) t1 where "cacheGetUserBalance u s = (Inr b, t1)"
    | (miss) e s1 s2 where "cacheGetUserBalance u s = (Inl e, s1)" "getUserBalanceFromDB u s1 = (Inr b, s2)"
    by (auto simp: GetUserBalance_def tryP_value bindP_value ret_def)
  then show ?thesis
  proof cases
    case hit
    then obtain fs where "(case cached (gt_balances s) u (s\<lparr>gt_cacheFaults := fs\<rparr>) of None \<Rightarrow> Inl cacheMiss | Some b \<Rightarrow> Inr b) = Inr b"
      unfolding cacheGetUserBalance_def by (auto dest!: cacheCall_Inr)
    then show ?thesis using True by (auto simp: seenBalance_def cached_faults split: option.splits)
  next
    case miss
    have "asRead s s1" using keeps_cacheRead(1) miss(1) by (rule read_result)
    then show ?thesis using balance_from_table [OF miss(2)] by (simp add: seenBalance_def asRead_def)
  qed
qed

lemma subscription_from_table:
  assumes "getSubscriptionFromDB N u g s = (Inr d, t)"
  shows "\<exists>r \<in> set (ss_subs s). liveFor u g r \<and> e_now s < us_ExpiresAt (row_sub r) \<and> sc_Status d = us_Status (row_sub r) \<and> sc_ExpiresAt d = us_ExpiresAt (row_sub r)"
proof -
  obtain sub s1 where sub: "subGetActiveByUserIDAndGroupID u g s = (Inr sub, s1)" and d: "sc_Status d = us_Status sub" "sc_ExpiresAt d = us_ExpiresAt sub"
    using assms by (auto simp: getSubscriptionFromDB_def bindP_value Let_def tryP_value ret_def split: if_splits prod.splits)
  obtain fs where "(mapE (loadSub (s\<lparr>e_faults := fs\<rparr>)) (onlyRow ErrSubscriptionNotFound
      (\<lambda>r. liveFor u g r \<and> us_Status (row_sub r) = SubActive \<and> e_now s < us_ExpiresAt (row_sub r)) (ss_subs s))) = Inr sub"
    using sub unfolding subGetActiveByUserIDAndGroupID_def by (rule db_Inr) auto
  then obtain r where r: "onlyRow ErrSubscriptionNotFound
      (\<lambda>r. liveFor u g r \<and> us_Status (row_sub r) = SubActive \<and> e_now s < us_ExpiresAt (row_sub r)) (ss_subs s) = Inr r"
    and sub': "sub = loadSub (s\<lparr>e_faults := fs\<rparr>) r"
    by (auto simp: mapE_def split: sum.splits)
  have "us_Status sub = us_Status (row_sub r)" "us_ExpiresAt sub = us_ExpiresAt (row_sub r)" by (simp_all add: sub' loadSub_def)
  then show ?thesis using onlyRow_Inr [OF r] d by auto
qed

lemma subscription_seen:
  assumes "GetSubscriptionStatus N u g s = (Inr d, t)"
  shows "seenSubscription s u g d"
proof (cases "gt_cacheOn s")
  case False
  with assms show ?thesis by (auto simp: GetSubscriptionStatus_def seenSubscription_def dest: subscription_from_table)
next
  case True
  with assms consider (hit) t1 where "cacheGetSubscription u g s = (Inr d, t1)"
    | (miss) e s1 s2 where "cacheGetSubscription u g s = (Inl e, s1)" "getSubscriptionFromDB N u g s1 = (Inr d, s2)"
    by (auto simp: GetSubscriptionStatus_def tryP_value bindP_value ret_def)
  then show ?thesis
  proof cases
    case hit
    then obtain fs where "(case cached (gt_subs s) (u, g) (s\<lparr>gt_cacheFaults := fs\<rparr>) of None \<Rightarrow> Inl cacheMiss | Some h \<Rightarrow> parseSubscriptionCache h) = Inr d"
      unfolding cacheGetSubscription_def by (auto dest!: cacheCall_Inr)
    then show ?thesis using True by (auto simp: seenSubscription_def cached_faults split: option.splits)
  next
    case miss
    have "asRead s s1" using keeps_cacheRead(2) miss(1) by (rule read_result)
    then show ?thesis using subscription_from_table [OF miss(2)] by (simp add: seenSubscription_def asRead_def)
  qed
qed

subsection \<open>Nobody passes uncovered\<close>

definition limitsLeft :: "Group \<Rightarrow> subscriptionCacheData \<Rightarrow> bool" where
  "limitsLeft g d \<longleftrightarrow> (let n = max 1 (sc_QuotaMultiplier d) in
     (HasDailyLimit g \<longrightarrow> \<not> limitReached (g_DailyLimitUSD g) n (sc_DailyUsage d)) \<and>
     (HasWeeklyLimit g \<longrightarrow> \<not> limitReached (g_WeeklyLimitUSD g) n (sc_WeeklyUsage d)) \<and>
     (HasMonthlyLimit g \<longrightarrow> \<not> limitReached (g_MonthlyLimitUSD g) n (sc_MonthlyUsage d)))"

definition ratesLeft :: "int \<Rightarrow> APIKey \<Rightarrow> APIKeyRateLimitCacheData \<Rightarrow> bool" where
  "ratesLeft now k d \<longleftrightarrow>
     \<not> reached (ak_RateLimit5h k) (effectiveUsage now (5 * hour) (kl_Usage5h d, windowTime (kl_Window5h d))) \<and>
     \<not> reached (ak_RateLimit1d k) (effectiveUsage now (24 * hour) (kl_Usage1d d, windowTime (kl_Window1d d))) \<and>
     \<not> reached (ak_RateLimit7d k) (effectiveUsage now (7 * day) (kl_Usage7d d, windowTime (kl_Window7d d)))"

definition subscribed :: "Group option \<Rightarrow> bool \<Rightarrow> bool" where
  "subscribed grp hasSub \<longleftrightarrow> (case grp of None \<Rightarrow> False | Some g \<Rightarrow> IsSubscriptionType g \<and> hasSub)"

definition isCovered :: "'a gatestate_scheme \<Rightarrow> int \<Rightarrow> Group option \<Rightarrow> bool \<Rightarrow> bool" where
  "isCovered s u grp hasSub \<longleftrightarrow>
     (if subscribed grp hasSub
      then \<exists>d. seenSubscription s u (g_ID (the grp)) d \<and> sc_Status d = SubActive \<and> e_now s \<le> sc_ExpiresAt d \<and> limitsLeft (the grp) d
      else \<exists>b. seenBalance s u b \<and> \<not> fle b (Fin 0))"

lemma balance_covers:
  assumes "checkBalanceEligibility u s = (Inr (), t)"
  shows "(\<exists>b. seenBalance s u b \<and> \<not> fle b (Fin 0)) \<and> asRead s t"
proof -
  obtain b s1 where b: "GetUserBalance u s = (Inr b, s1)" and pos: "\<not> fle b (Fin 0)" and t: "t = snd (reportSuccess s1)"
    using assms by (auto simp: checkBalanceEligibility_def tryP_value bindP_value fail_def reportSuccess_def modP_def ret_def split: if_splits)
  have "asRead s s1" by (rule read_result [OF keeps_GetUserBalance b])
  then have "asRead s t" using t keepsPD [OF keeps_reports(2)] by blast
  then show ?thesis using balance_seen [OF b] pos by blast
qed

lemma subscription_covers:
  assumes "checkSubscriptionEligibility N u g s = (Inr (), t)"
  shows "(\<exists>d. seenSubscription s u (g_ID g) d \<and> sc_Status d = SubActive \<and> e_now s \<le> sc_ExpiresAt d \<and> limitsLeft g d) \<and> asRead s t"
proof -
  obtain d s1 where d: "GetSubscriptionStatus N u (g_ID g) s = (Inr d, s1)" and ok: "sc_Status d = SubActive" "e_now s1 \<le> sc_ExpiresAt d" "limitsLeft g d"
    and t: "t = snd (reportSuccess s1)"
    using assms by (auto simp: checkSubscriptionEligibility_def tryP_value bindP_value fail_def reportSuccess_def modP_def ret_def Let_def limitsLeft_def max_def not_less
        split: if_splits)
  have r: "asRead s s1" by (rule read_result [OF keeps_GetSubscriptionStatus d])
  then have "asRead s t" using t keepsPD [OF keeps_reports(2)] by blast
  then show ?thesis using subscription_seen [OF d] ok r by (auto simp: asRead_def)
qed

lemma rates_cover:
  assumes "checkAPIKeyRateLimits k s = (Inr (), t)" and "gt_cacheOn s" and "gt_cacheFaults s = []" and "cached (gt_rates s) (ak_ID k) s = Some d"
  shows "ratesLeft (e_now s) k d"
proof -
  have "evaluateCached k d s = (Inr (), t)"
    using assms by (simp add: checkAPIKeyRateLimits_def tryP_def cacheGetAPIKeyRateLimit_def cacheCall_def)
  then show ?thesis
    by (auto simp: evaluateCached_def evaluateRateLimits_def bindP_value ratesLeft_def fail_def ret_def split: if_splits)
qed


subsection \<open>At a small gateway\<close>

definition demoBreaker :: CircuitBreakerConfig where
  "demoBreaker = \<lparr>cb_Enabled = True, cb_FailureThreshold = 2, cb_ResetTimeoutSeconds = 10, cb_HalfOpenRequests = 3\<rparr>"


definition demoKey :: APIKey where
  "demoKey = \<lparr>ak_ID = 7, ak_GroupID = None, ak_Quota = Fin 0, ak_RateLimit5h = Fin 10, ak_RateLimit1d = Fin 0, ak_RateLimit7d = Fin 0\<rparr>"

definition demoGate :: gatestate where
  "demoGate = \<lparr>e_now = 20 * hour, e_faults = [], ss_groups = Map.empty, ss_subs = [], ss_grants = [], ss_nextSub = 1,
     ss_nextGrant = 1, ss_l1on = False, ss_l1 = Map.empty, ss_billingInvalidated = [], ss_zone = 0,
     bw_dedup = [], bw_archive = [], bw_balance = [1 \<mapsto> Fin 8], bw_gifts = [], bw_commissions = [],
     bw_orderStatus = Map.empty, bw_keys = Map.empty, bw_quotas = Map.empty, bw_usageLogs = [], bw_outbox = [],
     rw_codes = [], rw_nextCode = 2, rw_recharged = Map.empty, rw_concurrency = Map.empty, rw_cacheOn = True,
     rw_attempts = Map.empty, rw_locks = Map.empty, rw_authInvalidated = [], rw_balanceInvalidated = [],
     gt_cacheOn = True, gt_skew = 0, gt_balances = [1 \<mapsto> (Fin 5, None)], gt_subs = Map.empty,
     gt_rates = [7 \<mapsto> (\<lparr>kl_Usage5h = Fin 3, kl_Usage1d = Fin 3, kl_Usage7d = Fin 3, kl_Window5h = 18 * 3600, kl_Window1d = 18 * 3600,
        kl_Window7d = 18 * 3600\<rparr>, None)],
     gt_cacheFaults = [], gt_jitter = [], gt_queue = [], gt_busy = [], gt_stopped = False, gt_breaker = None, gt_resets = [],
     gt_authInvalidated = [], gt_lastUsed = []\<rparr>"

lemma demo_passes: "fst (CheckBillingEligibility N False 1 (Some demoKey) None False demoGate) = Inr ()"
  by (simp add: CheckBillingEligibility_def bindP_def askBreaker_def demoGate_def checkBalanceEligibility_def tryP_def GetUserBalance_def
    cacheGetUserBalance_def cacheCall_def cached_def liveEntry_def ret_def reportSuccess_def modP_def demoKey_def HasRateLimits_def
    checkAPIKeyRateLimits_def cacheGetAPIKeyRateLimit_def evaluateCached_def evaluateRateLimits_def nowP_def getP_def IsWindowExpired_def
    windowTime_def effectiveUsage_def reached_def fail_def second_def hour_def day_def)


end
