(* ===== verification/BillingSettledOnce.thy ===== *)
theory BillingSettledOnce
  imports BillingGateFacts TrimSpace
begin

section \<open>A request reaches the billing cache at most once\<close>

text \<open>
  The gate, the bills, the workers of the cache and the clean-up of deduplication keys, in any
  order: the bills of one request id and API key change the cache or its queue at most once.  It is
  the at-most-once contract over the deduplication keys, interpreted for the whole gateway.
\<close>

subsection \<open>Request ids\<close>

lemma resolved_not_blank: "trimSpace (resolveUsageBillingRequestID fresh clientID requestID upstreamID) \<noteq> []"
  using letters_not_space [THEN trimSpace_letter] by (auto simp: resolveUsageBillingRequestID_def trimSpace_idem)

lemma command_not_blank: "c_RequestID (buildUsageBillingCommand (resolveUsageBillingRequestID fresh clientID requestID upstreamID) usage p) \<noteq> []"
  using resolved_not_blank by (simp add: buildUsageBillingCommand_def normalizeCommand_def Let_def)

subsection \<open>What leaves the deduplication keys alone\<close>

lemma keeps_claim_db: "(\<And>s. claimedBill k s \<Longrightarrow> claimedBill k (snd (act s))) \<Longrightarrow> keepsP (claimedBill k) (db tag act)"
  by (rule keeps_db) (auto simp: keepsP_def claimedBill_def)

lemma keeps_claim_call:
  assumes "keepsP (claimedBill k) act"
  shows "keepsP (claimedBill k) (cacheCall tag act)"
proof (rule keepsPI)
  fix s :: "'a gatestate_scheme"
  assume "claimedBill k s"
  then have "claimedBill k (s\<lparr>gt_cacheFaults := fs\<rparr>)" for fs by (simp add: claimedBill_def)
  with \<open>claimedBill k s\<close> show "claimedBill k (snd (cacheCall tag act s))"
    using assms by (auto simp: cacheCall_def keepsP_def split: list.splits option.splits callFault.splits)
qed

lemma keeps_claim_modP: "(\<And>s. bw_dedup (f s) = bw_dedup s \<and> bw_archive (f s) = bw_archive s) \<Longrightarrow> keepsP (claimedBill k) (modP f)"
  by (rule keeps_modP) (simp add: claimedBill_def)

lemma keeps_claim_when: "keepsP (claimedBill k) m \<Longrightarrow> keepsP (claimedBill k) (whenCached m)"
  by (auto simp: keepsP_def whenCached_def)

lemma keeps_claim_small:
  "keepsP (claimedBill k) jitteredTTL" "keepsP (claimedBill k) (enqueueCacheWrite t)" "keepsP (claimedBill k) askBreaker"
  "keepsP (claimedBill k) nowP"
  by (auto simp: keepsP_def jitteredTTL_def enqueueCacheWrite_def askBreaker_def nowP_def claimedBill_def getP_def split: list.splits option.splits prod.splits)

lemma keeps_claim_cache:
  "keepsP (claimedBill k) (cacheGetUserBalance u)" "keepsP (claimedBill k) (cacheSetUserBalance u b)"
  "keepsP (claimedBill k) (cacheDeductUserBalance u b)" "keepsP (claimedBill k) (cacheGetSubscription u g)"
  "keepsP (claimedBill k) (cacheSetSubscription u g d)" "keepsP (claimedBill k) (cacheUpdateSubscriptionUsage R u g b)"
  "keepsP (claimedBill k) (cacheGetAPIKeyRateLimit i)" "keepsP (claimedBill k) (cacheSetAPIKeyRateLimit i e)"
  "keepsP (claimedBill k) (cacheUpdateAPIKeyRateLimitUsage R i b)" "keepsP (claimedBill k) (cacheInvalidateAPIKeyRateLimit i)"
  unfolding cacheGetUserBalance_def cacheSetUserBalance_def cacheDeductUserBalance_def deductBalanceScript_def cacheGetSubscription_def
    cacheSetSubscription_def cacheUpdateSubscriptionUsage_def updateSubUsageScript_def cacheGetAPIKeyRateLimit_def cacheSetAPIKeyRateLimit_def
    cacheUpdateAPIKeyRateLimitUsage_def updateRateLimitUsageScript_def cacheInvalidateAPIKeyRateLimit_def
  by (intro keeps keeps_claim_small keeps_claim_call keeps_claim_modP;
    simp add: keepsP_def hsetSub_def hsetRates_def expireRates_def Let_def split: option.splits prod.splits)+

lemma keeps_claim_db_read: "(\<And>s. snd (act s) = s) \<Longrightarrow> keepsP (claimedBill k) (db tag act)"
  by (rule keeps_claim_db) simp

lemma keeps_claim_worker: "keepsP (claimedBill k) (cacheWriteWorker R t)"
  unfolding cacheWriteWorker_def by (cases t) (auto intro!: keeps_claim_when keeps_ignoreP keeps_claim_cache)

lemma keeps_claim_queues:
  "keepsP (claimedBill k) (QueueDeductBalance u a)" "keepsP (claimedBill k) (QueueUpdateSubscriptionUsage R u g a)"
  "keepsP (claimedBill k) (QueueUpdateAPIKeyRateLimitUsage i a)"
  unfolding QueueDeductBalance_def QueueUpdateSubscriptionUsage_def QueueUpdateAPIKeyRateLimitUsage_def DeductBalanceCache_def
  by (intro keeps_claim_when keeps keeps_claim_small keeps_claim_cache)+

lemma keeps_claim_finalize: "keepsP (claimedBill k) (finalizePostUsageBilling R p)"
  unfolding finalizePostUsageBilling_def ScheduleLastUsedUpdate_def
  by (intro keeps keeps_claim_queues keeps_claim_modP) simp

lemma keeps_claim_reads:
  "keepsP (claimedBill k) (GetUserBalance u)" "keepsP (claimedBill k) (GetSubscriptionStatus N u g)"
proof -
  have b: "keepsP (claimedBill k) (getUserBalanceFromDB u)"
    unfolding getUserBalanceFromDB_def userGetByID_def
    by (intro keeps keeps_claim_db_read) (simp split: option.split)
  have d: "keepsP (claimedBill k) (getSubscriptionFromDB N u g)"
    unfolding getSubscriptionFromDB_def subGetActiveByUserIDAndGroupID_def CountActiveBySubscriptionID_def
      SumActiveUsageBySubscriptionID_def MinActiveExpiresAtBySubscriptionID_def
    by (intro keeps_bindP keeps_tryP keeps_let keeps_if keeps_claim_db_read keeps_claim_small keeps_ret)
      (auto simp: Let_def split: prod.split intro!: keeps_tryP keeps_ret keeps_claim_db_read)
  have b': "keepsP (claimedBill k) (tryP (cacheGetUserBalance u)
       (\<lambda>_. bindP (getUserBalanceFromDB u) (\<lambda>b. bindP (enqueueCacheWrite (CacheWriteSetBalance u b)) (\<lambda>_. ret b))) ret)"
    by (intro keeps b keeps_claim_small keeps_claim_cache)
  have d': "keepsP (claimedBill k) (tryP (cacheGetSubscription u g)
       (\<lambda>_. bindP (getSubscriptionFromDB N u g) (\<lambda>d. bindP (enqueueCacheWrite (CacheWriteSetSubscription u g d)) (\<lambda>_. ret d))) ret)"
    by (intro keeps d keeps_claim_small keeps_claim_cache)
  show "keepsP (claimedBill k) (GetUserBalance u)" "keepsP (claimedBill k) (GetSubscriptionStatus N u g)"
    using b d b' d' by (auto simp: GetUserBalance_def GetSubscriptionStatus_def keepsP_def)
qed

lemma keeps_claim_rates: "keepsP (claimedBill k) (checkAPIKeyRateLimits i)"
proof -
  have e: "keepsP (claimedBill k) (evaluateRateLimits i w5 w1 w7)" for w5 w1 w7
    unfolding evaluateRateLimits_def by (intro keeps keeps_claim_small keeps_claim_modP) simp_all
  have g: "keepsP (claimedBill k) (GetRateLimitData j)" for j
    unfolding GetRateLimitData_def by (intro keeps_claim_db_read) (simp split: option.split)
  have a: "keepsP (claimedBill k) (tryP (GetRateLimitData (ak_ID i)) (\<lambda>_. ret ()) (\<lambda>(w5, w1, w7). evaluateRateLimits i w5 w1 w7))"
    by (intro keeps_tryP g keeps_ret) (auto split: prod.split intro!: e)
  have c: "keepsP (claimedBill k) (tryP (cacheGetAPIKeyRateLimit (ak_ID i))
       (\<lambda>_. tryP (GetRateLimitData (ak_ID i)) (\<lambda>_. ret ()) (\<lambda>ws.
          bindP (ignoreP (cacheSetAPIKeyRateLimit (ak_ID i) (cacheEntryOf ws))) (\<lambda>_. evaluateCached i (cacheEntryOf ws)))) (evaluateCached i))"
    unfolding evaluateCached_def by (intro keeps g keeps_claim_cache e)
  show ?thesis using a c by (auto simp: checkAPIKeyRateLimits_def keepsP_def)
qed

lemma keeps_claim_check: "keepsP (claimedBill k) (CheckBillingEligibility N simple u key grp hasSub)"
proof -
  have r: "keepsP (claimedBill k) reportFailure" "keepsP (claimedBill k) reportSuccess"
    unfolding reportFailure_def reportSuccess_def by (intro keeps_claim_modP, simp)+
  have b: "keepsP (claimedBill k) (checkBalanceEligibility u)"
    unfolding checkBalanceEligibility_def by (intro keeps keeps_claim_reads r)
  have d: "keepsP (claimedBill k) (checkSubscriptionEligibility N u g)" for g
    unfolding checkSubscriptionEligibility_def Let_def by (intro keeps keeps_claim_reads keeps_claim_small r)
  show ?thesis unfolding CheckBillingEligibility_def by (intro keeps keeps_claim_small keeps_claim_rates b d)
qed

lemma gate_fields: "claimedBill k (s\<lparr>gt_resets := rs\<rparr>) = claimedBill k s"
  by (simp add: claimedBill_def)

lemma keeps_claim_resetting: "keepsP (claimedBill k) (bindP (ignoreP (ResetRateLimitWindows i)) (\<lambda>_. whenCached (ignoreP (cacheInvalidateAPIKeyRateLimit i))))"
  unfolding ResetRateLimitWindows_def
  by (intro keeps keeps_claim_when keeps_claim_cache keeps_claim_db) (simp add: modP_def claimedBill_def Let_def split: option.split)

lemma keeps_claim_reset: "claimedBill k s \<Longrightarrow> claimedBill k (runReset s)"
proof (cases "gt_resets s")
  case (Cons i rest)
  assume "claimedBill k s"
  then have "claimedBill k (s\<lparr>gt_resets := rest\<rparr>)" by (simp add: gate_fields)
  from keepsPD [OF keeps_claim_resetting this, of i] show ?thesis by (simp add: runReset_def Cons)
qed (simp add: runReset_def)

lemma claim_tasks: "claimedBill k s \<Longrightarrow> claimedBill k (takeTask s)" "claimedBill k s \<Longrightarrow> claimedBill k (finishTask R i s)"
proof -
  show "claimedBill k s \<Longrightarrow> claimedBill k (takeTask s)" by (auto simp: takeTask_def claimedBill_def split: list.split)
  show "claimedBill k s \<Longrightarrow> claimedBill k (finishTask R i s)"
    using keepsPD [OF keeps_claim_worker [of k R "gt_busy s ! i"], of "s\<lparr>gt_busy := take i (gt_busy s) @ drop (Suc i) (gt_busy s)\<rparr>"]
    by (simp add: finishTask_def claimedBill_def)
qed

subsection \<open>The contract\<close>

text \<open>
  What happens at the gateway: a request asks at the gate; a request is settled under the id that its
  context gives it; a worker takes a cache write or finishes one; rate windows are restarted; old
  deduplication keys are archived; time passes; the database and Redis start to fail.
\<close>

datatype gatewayOp =
    AskGate bool int "APIKey option" "Group option" bool
  | Settle string "string option" "string option" string "billedUsage option" postUsageBillingParams
  | TakeTask | FinishTask nat | RunReset | ArchiveKeys int | PassTime int | FailDb "bool list" | FailCache "callFault option list"

definition sameCache :: "'a gatestate_scheme \<Rightarrow> 'a gatestate_scheme \<Rightarrow> bool" where
  "sameCache s s' \<longleftrightarrow> gt_queue s' = gt_queue s \<and> gt_balances s' = gt_balances s \<and> gt_subs s' = gt_subs s \<and> gt_rates s' = gt_rates s"

definition settle :: "pgnum \<Rightarrow> 'd decimal \<Rightarrow> redisFloat \<Rightarrow> string \<Rightarrow> string option \<Rightarrow> string option \<Rightarrow> string \<Rightarrow> billedUsage option \<Rightarrow> postUsageBillingParams \<Rightarrow>
    ('a gatestate_scheme, bool) proc" where
  "settle N D R fresh clientID requestID upstreamID usage p =
     applyUsageBilling N D R True (resolveUsageBillingRequestID fresh clientID requestID upstreamID) usage p"

text \<open>The result says whether the step left the cache and its queue as they were.\<close>

fun gatewayStep :: "pgnum \<Rightarrow> 'd decimal \<Rightarrow> redisFloat \<Rightarrow> gatewayOp \<Rightarrow> 'a gatestate_scheme \<Rightarrow> bool \<times> 'a gatestate_scheme" where
  "gatewayStep N D R (AskGate simple u key grp hasSub) s = (let s' = snd (CheckBillingEligibility N simple u key grp hasSub s) in (sameCache s s', s'))"
| "gatewayStep N D R (Settle fresh cid rid up usage p) s = (let s' = snd (settle N D R fresh cid rid up usage p s) in (sameCache s s', s'))"
| "gatewayStep N D R TakeTask s = (True, takeTask s)"
| "gatewayStep N D R (FinishTask i) s = (True, finishTask R i s)"
| "gatewayStep N D R RunReset s = (True, runReset s)"
| "gatewayStep N D R (ArchiveKeys cutoff) s = (True, snd (CleanupUsageBillingDedup cutoff s))"
| "gatewayStep N D R (PassTime d) s = (True, s\<lparr>e_now := e_now s + d\<rparr>)"
| "gatewayStep N D R (FailDb fs) s = (True, s\<lparr>e_faults := fs\<rparr>)"
| "gatewayStep N D R (FailCache fs) s = (True, s\<lparr>gt_cacheFaults := fs\<rparr>)"

text \<open>A bill of the given request id and API key that changed the cache or its queue.\<close>

definition charged :: "string \<times> int \<Rightarrow> gatewayOp \<Rightarrow> bool \<Rightarrow> bool" where
  "charged k op same \<longleftrightarrow> (case op of
       Settle fresh cid rid up usage p \<Rightarrow> \<not> same \<and>
         k = (trimSpace (resolveUsageBillingRequestID fresh cid rid up), ak_ID (pb_APIKey p))
     | _ \<Rightarrow> False)"

lemma command_key: "billKey (normalizeCommand (buildUsageBillingCommand i usage p)) = (trimSpace i, ak_ID (pb_APIKey p))"
  by (simp add: billKey_def buildUsageBillingCommand_def normalizeCommand_def Let_def trimSpace_idem)

definition afterBill :: "redisFloat \<Rightarrow> postUsageBillingParams \<Rightarrow> UsageBillingApplyResult \<Rightarrow> ('a gatestate_scheme, bool) proc" where
  "afterBill R p result =
     (if \<not> r_Applied result then bindP (ScheduleLastUsedUpdate (ba_ID (pb_Account p))) (\<lambda>_. ret False)
      else bindP (if r_APIKeyQuotaExhausted result then modP (\<lambda>s. s\<lparr>gt_authInvalidated := gt_authInvalidated s @ [ak_ID (pb_APIKey p)]\<rparr>) else ret ()) (\<lambda>_.
           bindP (finalizePostUsageBilling R p) (\<lambda>_. ret True)))"

lemma keeps_claim_after: "keepsP (claimedBill k) (afterBill R p result)"
  unfolding afterBill_def ScheduleLastUsedUpdate_def by (intro keeps keeps_claim_finalize keeps_claim_modP) simp_all

lemma settle_is_bill: "settle N D R fresh cid rid up usage p =
    bindP (ApplyUsageBilling N D (Some (buildUsageBillingCommand (resolveUsageBillingRequestID fresh cid rid up) usage p))) (afterBill R p)"
  by (simp add: settle_def applyUsageBilling_def command_not_blank afterBill_def [abs_def] Let_def)

lemma settle_cases:
  assumes "settle N D R fresh cid rid up usage p s = (r, s')"
  obtains (billed) res s1 where "ApplyUsageBilling N D (Some (buildUsageBillingCommand (resolveUsageBillingRequestID fresh cid rid up) usage p)) s = (Inr res, s1)"
      "r_Applied res" "\<And>k. claimedBill k s1 \<Longrightarrow> claimedBill k s'"
  | (not_billed) "sameCache s s'" "\<And>k. claimedBill k s \<Longrightarrow> claimedBill k s'"
proof -
  let ?cmd = "buildUsageBillingCommand (resolveUsageBillingRequestID fresh cid rid up) usage p"
  obtain q s1 where q: "ApplyUsageBilling N D (Some ?cmd) s = (q, s1)" by fastforce
  show thesis
  proof (cases "\<exists>res. q = Inr res \<and> r_Applied res")
    case True
    then obtain res where res: "q = Inr res" "r_Applied res" by blast
    have "s' = snd (afterBill R p res s1)" using assms q res by (simp add: settle_is_bill bindP_def)
    then have "\<And>k. claimedBill k s1 \<Longrightarrow> claimedBill k s'" using keepsPD [OF keeps_claim_after] by blast
    then show thesis using billed q res by simp
  next
    case False
    have u: "s1 = undoBill s s1" using q by (cases rule: Apply_cases) (use False in auto)
    have "s' = s1 \<or> s' = s1\<lparr>gt_lastUsed := gt_lastUsed s1 @ [ba_ID (pb_Account p)]\<rparr>"
    proof (cases q)
      case (Inl e)
      then show ?thesis using assms q by (simp add: settle_is_bill bindP_def)
    next
      case (Inr res)
      then have "s' = snd (afterBill R p res s1)" using assms q by (simp add: settle_is_bill bindP_def)
      moreover have "\<not> r_Applied res" using False Inr by blast
      ultimately show ?thesis by (simp add: afterBill_def bindP_def ScheduleLastUsedUpdate_def modP_def ret_def)
    qed
    moreover have "sameCache s s1" by (subst u) (simp add: sameCache_def undoBill_def)
    moreover have "claimedBill k s1 = claimedBill k s" for k by (subst u) (simp add: claimedBill_def undoBill_def)
    moreover have "claimedBill k (s1\<lparr>gt_lastUsed := l\<rparr>) = claimedBill k s1" "sameCache s (s1\<lparr>gt_lastUsed := l\<rparr>) = sameCache s s1" for k l
      by (simp_all add: sameCache_def claimedBill_def)
    ultimately have "sameCache s s'" "\<And>k. claimedBill k s \<Longrightarrow> claimedBill k s'" by metis+
    then show thesis by (rule not_billed)
  qed
qed

lemma settle_claims:
  assumes "settle N D R fresh cid rid up usage p s = (r, s')" and "\<not> sameCache s s'"
  shows "\<not> claimedBill (trimSpace (resolveUsageBillingRequestID fresh cid rid up), ak_ID (pb_APIKey p)) s \<and>
    claimedBill (trimSpace (resolveUsageBillingRequestID fresh cid rid up), ak_ID (pb_APIKey p)) s'"
  using assms(1)
proof (cases rule: settle_cases)
  case (billed res s1)
  from billed(1) show ?thesis
  proof (cases rule: Apply_cases)
    case (billed c0 res' fs s2 fs2)
    with billed(1) have "c0 = buildUsageBillingCommand (resolveUsageBillingRequestID fresh cid rid up) usage p" by simp
    then show ?thesis using billBody_keys(1,2) [OF billed(4) billed(3)] billed(5) \<open>\<And>k. claimedBill k s1 \<Longrightarrow> claimedBill k s'\<close> by (simp add: command_key)
  next
    case undone
    then show ?thesis using \<open>r_Applied res\<close> by blast
  qed
qed (use assms(2) in simp)

lemma settle_stays:
  assumes "settle N D R fresh cid rid up usage p s = (r, s')" and "claimedBill k s"
  shows "claimedBill k s'"
  using assms(1)
proof (cases rule: settle_cases)
  case (billed res s1)
  from billed(1) have "claimedBill k s1"
  proof (cases rule: Apply_cases)
    case (billed c0 res' fs s2 fs2)
    then show ?thesis using billBody_keys(3) [OF billed(4) billed(3), of k] assms(2) by simp
  next
    case undone
    then show ?thesis using \<open>r_Applied res\<close> by blast
  qed
  then show ?thesis by (rule billed(3))
qed (use assms(2) in blast)

interpretation gateway: at_most_once "gatewayStep N D R" charged claimedBill
proof unfold_locales
  fix op :: gatewayOp and s :: "'b gatestate_scheme" and r s' k
  assume run: "gatewayStep N D R op s = (r, s')" and ch: "charged k op r"
  then obtain fresh cid rid up usage p where op: "op = Settle fresh cid rid up usage p"
    and k: "k = (trimSpace (resolveUsageBillingRequestID fresh cid rid up), ak_ID (pb_APIKey p))" and "\<not> r"
    by (auto simp: charged_def split: gatewayOp.splits)
  then have "\<not> sameCache s s'" "s' = snd (settle N D R fresh cid rid up usage p s)" using run by (auto simp: Let_def)
  then show "\<not> claimedBill k s \<and> claimedBill k s'" unfolding k by (intro settle_claims) (auto intro: prod_eqI)
next
  fix op :: gatewayOp and s :: "'b gatestate_scheme" and r s' k
  assume run: "gatewayStep N D R op s = (r, s')" and cl: "claimedBill k s"
  show "claimedBill k s'"
  proof (cases op)
    case (AskGate simple u key grp hasSub)
    then show ?thesis using run keepsPD [OF keeps_claim_check cl] by (auto simp: Let_def)
  next
    case (Settle fresh cid rid up usage p)
    obtain q t where q: "settle N D R fresh cid rid up usage p s = (q, t)" by fastforce
    from settle_stays [OF q cl] show ?thesis using run Settle q by (simp add: Let_def)
  next
    case (ArchiveKeys cutoff)
    obtain q t where q: "CleanupUsageBillingDedup cutoff s = (q, t)" by fastforce
    from cleanup_keys [OF q cl] show ?thesis using run ArchiveKeys q by simp
  next
    case TakeTask
    then show ?thesis using run claim_tasks(1) [OF cl] by simp
  next
    case (FinishTask i)
    then show ?thesis using run claim_tasks(2) [OF cl, of R i] by simp
  next
    case RunReset
    then show ?thesis using run keeps_claim_reset [OF cl] by simp
  qed (use run cl in \<open>auto simp: claimedBill_def\<close>)
qed

text \<open>C5: In any sequence of requests at the gate, settlements (retried or not), steps of the cache's workers, restarts of rate
  windows, clean-ups of deduplication keys and faults of the database and of Redis, at most one settlement under a request id and
  API key changes the billing cache or puts a deduction or a usage into its queue.\<close>

theorem request_charged_to_cache_at_most_once:
  "length (filter (\<lambda>(op, same). charged (request, key) op same) (fst (runOps (gatewayStep N D R) ops s))) \<le> 1"
  by (rule gateway.at_most_one)

end
