(* ===== verification/Spec2Isabelle.thy ===== *)
theory Spec2Isabelle
  imports Failover GroupRouting SubscriptionBehaviour BillingMoney PaymentFaults IdempotencyReplay PricingUpdates CostBounds CostFacts CatalogFacts ChannelEffect AccountStats ConcurrencyLimits PaymentPurchase ConfigRoundTrip BillingSettledOnce
begin

text \<open>
  FluxCode is a gateway between paying users and AI providers: an API key of a user belongs to a
  group, a request is sent on with one of the group's upstream accounts, its tokens are priced,
  and the cost is taken from the user's subscription or balance.  This library models the parts
  of the Go back end (src/backend/internal) that decide about money and about which request may
  run, each operation translated from its method, error returns and faults of the database
  included.  Paths below are relative to src/backend/internal.

  Parts, and the theories in the order a request meets them:

  Requests.  ConcurrencySlots (repository/concurrency_cache.go, service/concurrency_service.go,
  the slot part of handler/gateway_helper.go) keeps the running requests of an account or a user
  in Redis; ConcurrencyLimits runs any number of processes over it and says when the limit holds
  and what breaks it.  Failover (handler/failover_loop.go and the loop around it) retries a
  request on other accounts.  GroupRouting (service/group.go) routes models to accounts.

  Prices.  ModelNames and AsciiCase (service/openai_gpt56_alias.go, openai_codex_transform.go)
  are the spellings of a model.  PricingCatalog and PricingUpdates (service/pricing_service.go)
  are the price table, how a name is found in it and how it is replaced.  ChannelPricing
  (service/channel.go) is a channel, the prices an administrator sets for its groups.
  ChannelCache and ChannelLookup (the snapshot of service/channel_service.go) show that what the
  hot path looks up is what the channel says.  ChannelStore (repository/channel_repo*.go),
  ChannelService, ChannelValidity, ChannelConsistency and ChannelEffect follow an
  administrator's change through validation and tables to the next request.  BillingPrices,
  CostCalculation, PricingResolver (service/billing_service.go, model_pricing_resolver.go,
  gateway_service.go), CostFacts, CostBounds, CatalogFacts and AccountStats
  (account_stats_pricing.go) compute costs.

  The gate.  BillingCache (repository/billing_cache.go) keeps balances, subscriptions and rate
  windows in Redis, BillingGate (service/billing_cache_service.go) decides from them, or from the
  tables, whether a request may start, with a circuit breaker and a queue of cache writes;
  BillingSettlement (the end of service/gateway_service.go) turns the cost of a request into a bill
  and the cache writes that follow it.  BillingGateFacts shows that nobody passes uncovered and
  that the breaker bounds the probes; BillingSettledOnce that a request reaches the cache once.

  Billing.  UsageBilling (service/usage_billing.go, repository/usage_billing_repo.go) is the one
  transaction that bills a request; BillingOnce shows that a request is billed at most once and
  that a failure changes nothing, BillingMoney where the money goes.

  Entitlements.  UserSubscriptions, SubscriptionStore and SubscriptionService
  (service/user_subscription.go, subscription_service.go and their repositories) with
  SubscriptionInvariants, SubscriptionCover, SubscriptionFrame and SubscriptionBehaviour.
  RedeemCodes and RedeemOnce (service/redeem_service.go) turn codes into balance.

  Payments.  Promotions (service/promotion*.go, repository/promotion_repo.go) are the discounts
  and bonuses of an order; PaymentConfig (service/payment_config_*.go) the settings, plans and
  provider instances; PaymentCreation (service/payment_order.go, payment/load_balancer.go) places
  an order: its price, the limits of the user and of the instances, the call of the provider.
  PaymentOrders, PaymentFulfillment, PaymentLifecycle (service/payment_fulfillment.go,
  payment_order_lifecycle.go, payment_refund.go) pay, fulfil, expire, cancel and refund orders
  through the codes and subscriptions above.  ConfigRoundTrip shows that settings are read as they
  were written; PaymentPlacing and OrderSequences that every order follows the state machine and
  that the limit of pending orders holds through any sequence of operations; PaymentPurchase and
  PaymentCredit that a placed recharge is credited when it is paid; PaymentStates, PaymentSafety,
  PaymentRefund, PaymentBehaviour and PaymentFaults that balances grow by used codes only, that a
  refund takes at most once, and what goes wrong under faults.  PaymentDemo is the small shop at
  which theorems on orders are applied.

  Repeated writes.  Idempotency, IdempotencySteps, IdempotencyRace and IdempotencyReplay
  (service/idempotency.go and its repository) run requests with an Idempotency-Key, any number at
  a time.  AtMostOnce is the contract that the billing keys, the codes and others share, a locale
  that each of them interprets.

  Foundations.  GoPrelude has the errors, procedures, clock, faults and Go strings; GoFloat Go's
  float64; TrimSpace facts on trimming; GoCrypto SHA-256 and the fixed-point verb of fmt.

  How code becomes definitions.  A Go struct is a record, a table a list of rows in the order of
  their ids inside the record of the component's state; a component that builds on another
  extends its state.  A method that reads or writes is a procedure: it takes the state and gives
  an error or a result together with the state afterwards.  Every call of the database consumes
  one entry of a list of scripted answers (\<open>db\<close>), so a theorem for all states is one for every
  pattern of failures; a transaction that fails gives the tables back.  A commit or a call of Redis
  that takes effect while its answer is lost is one of these answers where the code's behaviour
  depends on it.  The clock is a field that the caller moves.  Go's errors are the constructors of
  \<open>error\<close> and carry the code of the error, not its text.  Float arithmetic rounds after every operation;
  the compiler's right to fuse a multiplication with an addition is not used (amd64 does not).  Go
  ints are integers, where no product or sum of the code can reach 2 ^ 63; numeric columns of
  Postgres go through the parameter \<open>N\<close>.  strings.ToLower folds ASCII letters only.  The order of a
  range over a Go map is a parameter (a permutation, possibly another one for each range), so
  theorems hold for all orders and findings show where an order matters.  Loops over a list are
  structural; the failover loop and the repeated attempts of Idempotency are \<open>function\<close>s with a
  measure and need no fuel.

  Interleavings are lists of steps: the requests of IdempotencyRace cut Execute at its calls of the
  database, ConcurrencyLimits lets processes acquire, release, crash and start in any order,
  BillingSettledOnce interleaves the gate, settlements and the workers of the cache, and PaymentStates
  and OrderSequences run any sequence of payment operations.  The channel service shares one load of
  its cache among callers; the model runs one call at a time.

  Parameters stand for what is not in the repository: \<open>D\<close> for shopspring/decimal, \<open>L\<close> and \<open>decode\<close>
  for JSON, \<open>J\<close> for the JSON of an instance's limits, \<open>K\<close> for the encryption of its credentials, \<open>G\<close>
  and \<open>A\<close> for the payment providers, \<open>stamp\<close> for the date and random part of an order number, \<open>N\<close>
  for Postgres numerics, \<open>R\<close> for Redis' own float arithmetic, account selection and upstream calls
  of the failover loop.

  Not modelled: everything under frontend and ent (generated code), the HTTP layer (routing,
  binding, responses), the conversion and streaming of requests for each provider (gateway_service,
  openai_*, gemini_*, antigravity_*, bedrock_*, pkg/apicompat), which is bound to encodings and
  network streams, the selection of accounts, authentication and OAuth, monitoring and statistics
  (ops_*, dashboard_*, usage_log), notification, backup, update and migration services.  The
  manifest lists each with its reason.
\<close>

end
